(* ===== verification/Prelude.thy ===== *)
theory Prelude
  imports Main "HOL-Library.Word" "HOL-Library.Sublist"
begin

text \<open>
  Shared vocabulary of the development: the named collections the component proofs use,
  the names of the model's basic types, Go's 64-bit \<^verbatim>\<open>int\<close> arithmetic, positional
  numerals in an arbitrary base (the common core of \<^verbatim>\<open>big.Int\<close> parsing and printing,
  of hexadecimal and of base58), and generic facts on lists.
\<close>

named_theorems go_defs \<open>definitions of the Go library functions, for evaluating closed terms\<close>
named_theorems trim_simps \<open>simplification rules for trimmed strings\<close>
named_theorems table_simps \<open>rules for the operations on tables\<close>
named_theorems session_defs \<open>definitions of the quote and session operations\<close>

subsection \<open>Names of types\<close>

type_synonym byte = "8 word"
type_synonym u8 = "8 word"
type_synonym u32 = "32 word"
type_synonym u64 = "64 word"
type_synonym uuid = "128 word"
type_synonym time = int  \<comment> \<open>nanoseconds since the Unix epoch\<close>

abbreviation uuid_Nil :: uuid where
  "uuid_Nil \<equiv> 0"

text \<open>The zero value of \<^verbatim>\<open>time.Time\<close>, midnight UTC of January 1 of year 1.\<close>

definition zero_time :: time where
  "zero_time = - 62135596800 * 10 ^ 9"

text \<open>Durations are nanoseconds too; \<^verbatim>\<open>Unix()\<close> is the number of whole seconds.\<close>

definition second :: int where "second = 1000000000"
definition minute :: int where "minute = 60 * second"

definition unix :: "time \<Rightarrow> int" where
  "unix t = t div second"

text \<open>Go's \<^verbatim>\<open>int\<close> on the platforms the server is built for: 64 bits, two's complement.\<close>

definition wrap64 :: "int \<Rightarrow> int" where
  "wrap64 x = (x + 2 ^ 63) mod 2 ^ 64 - 2 ^ 63"

lemma wrap64_id: "- (2 ^ 63) \<le> x \<Longrightarrow> x < 2 ^ 63 \<Longrightarrow> wrap64 x = x"
  by (simp add: wrap64_def)

lemma wrap64_range: "- (2 ^ 63) \<le> wrap64 x \<and> wrap64 x < 2 ^ 63"
proof -
  have "0 \<le> (x + 2 ^ 63) mod 2 ^ 64" and "(x + 2 ^ 63) mod 2 ^ 64 < (2::int) ^ 64"
    by simp_all
  then show ?thesis unfolding wrap64_def by simp
qed

subsection \<open>Lists\<close>

lemma foldl_snoc: "foldl f a (xs @ [x]) = f (foldl f a xs) x"
  by simp

lemma dropWhile_replicate_append:
  "P x \<Longrightarrow> dropWhile P (replicate n x @ xs) = dropWhile P xs"
  by (induction n) auto

lemma dropWhile_idem [simp]: "dropWhile P (dropWhile P xs) = dropWhile P xs"
  by (induction xs) auto

lemma takeWhile_eq_replicate:
  "takeWhile (\<lambda>y. y = x) xs = replicate (length (takeWhile (\<lambda>y. y = x) xs)) x"
  by (induction xs) auto

lemma takeWhile_dropWhile_eq:
  "replicate (length (takeWhile (\<lambda>y. y = x) xs)) x @ dropWhile (\<lambda>y. y = x) xs = xs"
  by (metis takeWhile_dropWhile_id takeWhile_eq_replicate)

lemma dropWhile_map_cong:
  "(\<And>x. x \<in> set xs \<Longrightarrow> P (f x) = Q x) \<Longrightarrow> dropWhile P (map f xs) = map f (dropWhile Q xs)"
  by (induction xs) auto

lemma length_takeWhile_map_cong:
  "(\<And>x. x \<in> set xs \<Longrightarrow> P (f x) = Q x) \<Longrightarrow>
    length (takeWhile P (map f xs)) = length (takeWhile Q xs)"
  by (induction xs) auto

lemma those_map_Some: "(\<And>x. x \<in> set xs \<Longrightarrow> f x = Some (g x)) \<Longrightarrow> those (map f xs) = Some (map g xs)"
  by (induction xs) auto

lemma those_Some_conv: "those ys = Some xs \<longleftrightarrow> ys = map Some xs"
proof (induction ys arbitrary: xs)
  case Nil
  then show ?case by auto
next
  case (Cons y ys)
  then show ?case by (cases xs) (auto split: option.splits)
qed

lemma filter_take_length_le: "length (take n (filter P xs)) \<le> n"
  by simp

subsection \<open>Positional numerals\<close>

text \<open>
  \<open>digits B n\<close> are the digits of \<open>n\<close> in base \<open>B\<close>, most significant first, none for zero;
  \<open>from_digits B\<close> is Horner's rule.
\<close>

fun digits :: "nat \<Rightarrow> nat \<Rightarrow> nat list" where
  "digits B n = (if B \<le> 1 \<or> n = 0 then [] else digits B (n div B) @ [n mod B])"

declare digits.simps [simp del]

definition from_digits :: "nat \<Rightarrow> nat list \<Rightarrow> nat" where
  "from_digits B ds = foldl (\<lambda>a d. a * B + d) 0 ds"

lemma digits_0 [simp]: "digits B 0 = []"
  by (simp add: digits.simps)

lemma digits_pos: "1 < B \<Longrightarrow> 0 < n \<Longrightarrow> digits B n = digits B (n div B) @ [n mod B]"
  by (subst digits.simps) simp

lemma from_digits_Nil [simp]: "from_digits B [] = 0"
  by (simp add: from_digits_def)

lemma from_digits_snoc [simp]: "from_digits B (ds @ [d]) = from_digits B ds * B + d"
  by (simp add: from_digits_def)

lemma from_digits_append:
  "from_digits B (xs @ ys) = from_digits B xs * B ^ length ys + from_digits B ys"
proof (induction ys rule: rev_induct)
  case Nil
  then show ?case by simp
next
  case (snoc y ys)
  have "from_digits B (xs @ ys @ [y]) = from_digits B ((xs @ ys) @ [y])" by simp
  also have "\<dots> = from_digits B (xs @ ys) * B + y" by (simp only: from_digits_snoc)
  finally show ?case using snoc by (simp add: algebra_simps)
qed

lemma from_digits_replicate_0 [simp]: "from_digits B (replicate n 0) = 0"
  by (induction n) (simp_all add: replicate_append_same [symmetric])

lemma from_digits_lead_zeros [simp]: "from_digits B (replicate n 0 @ ds) = from_digits B ds"
  by (simp add: from_digits_append)

lemma from_digits_digits: "1 < B \<Longrightarrow> from_digits B (digits B n) = n"
proof (induction B n rule: digits.induct)
  case (1 B n)
  show ?case
  proof (cases "n = 0")
    case True
    then show ?thesis by simp
  next
    case False
    with 1 have "from_digits B (digits B (n div B)) = n div B" by simp
    with 1(2) False show ?thesis by (simp add: digits_pos)
  qed
qed

lemma digits_less: "1 < B \<Longrightarrow> d \<in> set (digits B n) \<Longrightarrow> d < B"
proof (induction B n rule: digits.induct)
  case (1 B n)
  then show ?case by (cases "n = 0") (auto simp: digits_pos)
qed

lemma digits_eq_Nil [simp]: "1 < B \<Longrightarrow> digits B n = [] \<longleftrightarrow> n = 0"
  by (subst digits.simps) simp

lemma from_digits_eq_0: "0 < B \<Longrightarrow> from_digits B ds = 0 \<longleftrightarrow> (\<forall>d\<in>set ds. d = 0)"
  by (induction ds rule: rev_induct) auto

lemma dropWhile_eq_0_snoc:
  "dropWhile (\<lambda>d. d = 0) (ds @ [e]) =
    (if \<forall>d\<in>set ds. d = 0 then (if e = (0::nat) then [] else [e])
     else dropWhile (\<lambda>d. d = 0) ds @ [e])"
  by (auto simp: dropWhile_append)

text \<open>Printing what was parsed drops leading zeros and nothing else.\<close>

lemma digits_from_digits:
  "1 < B \<Longrightarrow> \<forall>d\<in>set ds. d < B \<Longrightarrow> digits B (from_digits B ds) = dropWhile (\<lambda>d. d = 0) ds"
proof (induction ds rule: rev_induct)
  case Nil
  then show ?case by simp
next
  case (snoc d ds)
  let ?v = "from_digits B ds"
  have IH: "digits B ?v = dropWhile (\<lambda>d. d = 0) ds" and d: "d < B"
    using snoc by auto
  show ?case
  proof (cases "?v * B + d = 0")
    case True
    then have "?v = 0" and "d = 0" using snoc.prems(1) by auto
    then have "\<forall>d\<in>set ds. d = 0" using snoc.prems(1) by (simp add: from_digits_eq_0)
    with \<open>d = 0\<close> \<open>?v = 0\<close> show ?thesis by (simp add: dropWhile_eq_0_snoc)
  next
    case False
    have "digits B (?v * B + d) = digits B ((?v * B + d) div B) @ [(?v * B + d) mod B]"
      using False snoc.prems(1) by (intro digits_pos) auto
    moreover have "(?v * B + d) div B = ?v" and "(?v * B + d) mod B = d"
      using d by simp_all
    ultimately have eq: "digits B (?v * B + d) = dropWhile (\<lambda>d. d = 0) ds @ [d]"
      by (simp add: IH)
    show ?thesis
    proof (cases "\<forall>e\<in>set ds. e = 0")
      case True
      then have "?v = 0" using snoc.prems(1) by (simp add: from_digits_eq_0)
      with False True eq show ?thesis by (auto simp: dropWhile_eq_0_snoc)
    next
      case nz: False
      with eq show ?thesis by (auto simp: dropWhile_eq_0_snoc)
    qed
  qed
qed

lemma from_digits_bound:
  "\<forall>d\<in>set ds. d < B \<Longrightarrow> 0 < B \<Longrightarrow> from_digits B ds < B ^ length ds"
proof (induction ds rule: rev_induct)
  case Nil
  then show ?case by simp
next
  case (snoc d ds)
  then have "from_digits B ds + 1 \<le> B ^ length ds" and "d < B" by auto
  then have "(from_digits B ds + 1) * B \<le> B ^ length ds * B" by (simp only: mult_le_mono1)
  with \<open>d < B\<close> show ?case by (simp add: algebra_simps)
qed

lemma length_digits_le: "1 < B \<Longrightarrow> n < B ^ k \<Longrightarrow> length (digits B n) \<le> k"
proof (induction k arbitrary: n)
  case 0
  then show ?case by simp
next
  case (Suc k)
  show ?case
  proof (cases "n = 0")
    case True
    then show ?thesis by simp
  next
    case False
    have "n div B < B ^ k" using Suc.prems by (simp add: less_mult_imp_div_less mult.commute)
    then have "length (digits B (n div B)) \<le> k" using Suc by simp
    with False Suc.prems(1) show ?thesis by (simp add: digits_pos)
  qed
qed

text \<open>
  A digit alphabet: an encoding of the digits below \<open>B\<close> by symbols and a partial decoding.
  Printing in an alphabet and parsing back is proved once, for every base.
\<close>

locale digit_alphabet =
  fixes B :: nat and enc :: "nat \<Rightarrow> 'c" and dec :: "'c \<Rightarrow> nat option"
  assumes base: "1 < B"
    and dec_enc: "d < B \<Longrightarrow> dec (enc d) = Some d"
    and dec_less: "dec c = Some d \<Longrightarrow> d < B"
    and enc_dec: "dec c = Some d \<Longrightarrow> enc d = c"
begin

lemma those_dec_enc: "\<forall>d\<in>set ds. d < B \<Longrightarrow> those (map dec (map enc ds)) = Some ds"
  by (simp add: those_Some_conv dec_enc)

lemma those_dec_SomeD:
  assumes "those (map dec cs) = Some ds"
  shows "cs = map enc ds" and "\<forall>d\<in>set ds. d < B"
proof -
  have eq: "map dec cs = map Some ds" using assms by (simp add: those_Some_conv)
  then have len: "length cs = length ds" by (metis length_map)
  have nth: "dec (cs ! i) = Some (ds ! i)" if "i < length ds" for i
    using eq that len by (metis nth_map)
  show "cs = map enc ds"
  proof (rule nth_equalityI)
    show "length cs = length (map enc ds)" using len by simp
  next
    fix i assume "i < length cs"
    then have "i < length ds" using len by simp
    then show "cs ! i = map enc ds ! i" using enc_dec [OF nth [of i]] by simp
  qed
  show "\<forall>d\<in>set ds. d < B"
    using nth dec_less by (metis in_set_conv_nth)
qed

lemma parse_print:
  "those (map dec (map enc (digits B n))) = Some ds \<Longrightarrow> from_digits B ds = n"
  using those_dec_enc [of "digits B n"] digits_less [OF base] from_digits_digits [OF base]
  by (metis option.inject)

lemma print_parse:
  "those (map dec cs) = Some ds \<Longrightarrow>
    map enc (digits B (from_digits B ds)) = map enc (dropWhile (\<lambda>d. d = 0) ds)"
  using those_dec_SomeD(2) digits_from_digits [OF base] by metis

lemma enc_inj: "d < B \<Longrightarrow> e < B \<Longrightarrow> enc d = enc e \<longleftrightarrow> d = e"
  by (metis dec_enc option.inject)

end

end
