(* ===== verification/Go_Strings.thy ===== *)
theory Go_Strings
  imports Prelude
begin

text \<open>
  The functions of Go's \<^verbatim>\<open>strings\<close> and \<^verbatim>\<open>unicode\<close> packages that the backend calls.
  A Go string is a sequence of bytes, here a \<^typ>\<open>string\<close> whose characters are the bytes
  (UTF-8 for text outside ASCII). \<open>TrimSpace\<close> handles every code point for which
  \<^verbatim>\<open>unicode.IsSpace\<close> holds, in its UTF-8 encoding; \<open>ToLower\<close>, \<open>ToUpper\<close> and
  \<open>EqualFold\<close> map the ASCII letters and leave other bytes as they are, which is what Go
  does on the ASCII texts (chain identifiers, hexadecimal, event and error names) that
  the backend passes to them.
\<close>

subsection \<open>Prefixes, suffixes, substrings\<close>

definition HasPrefix :: "string \<Rightarrow> string \<Rightarrow> bool" where
  "HasPrefix s p \<longleftrightarrow> take (length p) s = p"

definition TrimPrefix :: "string \<Rightarrow> string \<Rightarrow> string" where
  "TrimPrefix s p = (if HasPrefix s p then drop (length p) s else s)"

definition HasSuffix :: "string \<Rightarrow> string \<Rightarrow> bool" where
  "HasSuffix s p \<longleftrightarrow> length p \<le> length s \<and> drop (length s - length p) s = p"

definition TrimSuffix :: "string \<Rightarrow> string \<Rightarrow> string" where
  "TrimSuffix s p = (if HasSuffix s p then take (length s - length p) s else s)"

fun Contains :: "string \<Rightarrow> string \<Rightarrow> bool" where
  "Contains [] p \<longleftrightarrow> p = []"
| "Contains (c # s) p \<longleftrightarrow> HasPrefix (c # s) p \<or> Contains s p"

text \<open>\<^verbatim>\<open>strings.Split(s, sep)\<close> and \<^verbatim>\<open>strings.SplitN(s, sep, 2)\<close> for a one-character separator.\<close>

fun Split :: "char \<Rightarrow> string \<Rightarrow> string list" where
  "Split c [] = [ [] ]"
| "Split c (x # xs) =
     (if x = c then [] # Split c xs
      else (case Split c xs of [] \<Rightarrow> [ [x] ] | p # ps \<Rightarrow> (x # p) # ps))"

definition SplitN2 :: "char \<Rightarrow> string \<Rightarrow> string list" where
  "SplitN2 c s =
     (if c \<in> set s then [takeWhile (\<lambda>x. x \<noteq> c) s, tl (dropWhile (\<lambda>x. x \<noteq> c) s)] else [s])"

text \<open>\<^verbatim>\<open>TrimLeft\<close> and \<^verbatim>\<open>TrimRight\<close> for a one-character cutset; \<^verbatim>\<open>LastIndex\<close> of a character.\<close>

definition TrimLeft :: "string \<Rightarrow> char \<Rightarrow> string" where
  "TrimLeft s c = dropWhile (\<lambda>x. x = c) s"

definition TrimRight :: "string \<Rightarrow> char \<Rightarrow> string" where
  "TrimRight s c = rev (dropWhile (\<lambda>x. x = c) (rev s))"

definition LastIndex :: "string \<Rightarrow> char \<Rightarrow> int" where
  "LastIndex s c =
     (if c \<in> set s then int (length s) - 1 - int (length (takeWhile (\<lambda>x. x \<noteq> c) (rev s)))
      else - 1)"

lemma HasPrefix_prefix: "HasPrefix s p \<longleftrightarrow> prefix p s"
  by (metis HasPrefix_def append_eq_conv_conj prefix_def)

lemma HasPrefix_append [simp]: "HasPrefix (p @ s) p"
  by (simp add: HasPrefix_prefix)

lemma TrimPrefix_append [simp]: "TrimPrefix (p @ s) p = s"
  by (simp add: TrimPrefix_def)

lemma Contains_sublist: "Contains s p \<longleftrightarrow> sublist p s"
proof (induction s)
  case Nil
  then show ?case by simp
next
  case (Cons c s)
  then show ?case
    by (simp add: HasPrefix_prefix sublist_Cons_right)
qed

lemma Contains_char: "Contains s [c] \<longleftrightarrow> c \<in> set s"
  by (induction s) (auto simp: HasPrefix_def)

lemma Contains_trans: "Contains s p \<Longrightarrow> Contains p q \<Longrightarrow> Contains s q"
  by (auto simp: Contains_sublist intro: sublist_order.order.trans)

lemma Split_not_Nil [simp]: "Split c s \<noteq> []"
  by (induction s) (auto split: list.splits)

lemma Split_no_sep: "c \<notin> set s \<Longrightarrow> Split c s = [s]"
  by (induction s) auto

lemma Split_append: "c \<notin> set p \<Longrightarrow> Split c (p @ c # s) = p # Split c s"
  by (induction p) auto

lemma Split_takeWhile:
  "Split c s = takeWhile (\<lambda>x. x \<noteq> c) s #
     (if c \<in> set s then Split c (tl (dropWhile (\<lambda>x. x \<noteq> c) s)) else [])"
  by (induction s) auto

lemma SplitN2_append: "c \<notin> set p \<Longrightarrow> SplitN2 c (p @ c # s) = [p, s]"
  by (induction p) (auto simp: SplitN2_def)

lemma SplitN2_no_sep: "c \<notin> set s \<Longrightarrow> SplitN2 c s = [s]"
  by (simp add: SplitN2_def)

lemma SplitN2_two:
  "c \<in> set s \<Longrightarrow> \<exists>p q. SplitN2 c s = [p, q] \<and> s = p @ c # q \<and> c \<notin> set p"
proof -
  assume "c \<in> set s"
  then obtain p q where s: "s = p @ c # q" and "c \<notin> set p"
    using split_list_first by fastforce
  then show ?thesis by (auto simp: SplitN2_append)
qed

lemma TrimRight_idem [simp]: "TrimRight (TrimRight s c) c = TrimRight s c"
  by (simp add: TrimRight_def)

lemma TrimRight_snoc: "TrimRight (s @ [x]) c = (if x = c then TrimRight s c else s @ [x])"
  by (simp add: TrimRight_def)

lemma TrimRight_append: "x \<noteq> c \<Longrightarrow> TrimRight (s @ x # t) c = s @ TrimRight (x # t) c"
  by (induction t rule: rev_induct)
     (simp_all add: TrimRight_snoc TrimRight_snoc [where s = "s @ x # _", simplified]
        TrimRight_snoc [where s = "x # _", simplified] TrimRight_snoc [where s = "[]", simplified])

subsection \<open>White space\<close>

definition space_encodings :: "string list" where
  "space_encodings =
    [ [CHR 0x09], [CHR 0x0A], [CHR 0x0B], [CHR 0x0C], [CHR 0x0D], [CHR 0x20],
      [CHR 0xC2, CHR 0x85], [CHR 0xC2, CHR 0xA0], [CHR 0xE1, CHR 0x9A, CHR 0x80],
      [CHR 0xE2, CHR 0x80, CHR 0x80], [CHR 0xE2, CHR 0x80, CHR 0x81],
      [CHR 0xE2, CHR 0x80, CHR 0x82], [CHR 0xE2, CHR 0x80, CHR 0x83],
      [CHR 0xE2, CHR 0x80, CHR 0x84], [CHR 0xE2, CHR 0x80, CHR 0x85],
      [CHR 0xE2, CHR 0x80, CHR 0x86], [CHR 0xE2, CHR 0x80, CHR 0x87],
      [CHR 0xE2, CHR 0x80, CHR 0x88], [CHR 0xE2, CHR 0x80, CHR 0x89],
      [CHR 0xE2, CHR 0x80, CHR 0x8A], [CHR 0xE2, CHR 0x80, CHR 0xA8],
      [CHR 0xE2, CHR 0x80, CHR 0xA9], [CHR 0xE2, CHR 0x80, CHR 0xAF],
      [CHR 0xE2, CHR 0x81, CHR 0x9F], [CHR 0xE3, CHR 0x80, CHR 0x80] ]"

text \<open>\<open>strip_prefixes es s\<close> drops words of \<open>es\<close> from the front of \<open>s\<close> as long as one fits.\<close>

function strip_prefixes :: "string list \<Rightarrow> string \<Rightarrow> string" where
  "strip_prefixes es s =
     (case find (\<lambda>e. e \<noteq> [] \<and> HasPrefix s e) es of
        None \<Rightarrow> s
      | Some e \<Rightarrow> strip_prefixes es (drop (length e) s))"
  by pat_completeness auto
termination
proof (relation "measure (\<lambda>(es, s). length s)")
  fix es s e
  assume "find (\<lambda>e. e \<noteq> [] \<and> HasPrefix s e) es = Some e"
  then have "e \<noteq> []" and "HasPrefix s e" by (auto simp: find_Some_iff)
  then have "s \<noteq> []" by (auto simp: HasPrefix_def)
  with \<open>e \<noteq> []\<close> show "((es, drop (length e) s), es, s) \<in> measure (\<lambda>(es, s). length s)"
    by (cases e; cases s) auto
qed simp

declare strip_prefixes.simps [simp del]

definition TrimSpace :: "string \<Rightarrow> string" where
  "TrimSpace s =
     (let l = strip_prefixes space_encodings s
      in rev (strip_prefixes (map rev space_encodings) (rev l)))"

lemma strip_prefixes_none:
  "(\<And>e. e \<in> set es \<Longrightarrow> e \<noteq> [] \<Longrightarrow> \<not> prefix e s) \<Longrightarrow> strip_prefixes es s = s"
proof -
  assume "\<And>e. e \<in> set es \<Longrightarrow> e \<noteq> [] \<Longrightarrow> \<not> prefix e s"
  then have "find (\<lambda>e. e \<noteq> [] \<and> HasPrefix s e) es = None"
    by (auto simp: find_None_iff HasPrefix_prefix)
  then show ?thesis by (subst strip_prefixes.simps) simp
qed

lemma strip_prefixes_suffix: "suffix (strip_prefixes es s) s"
proof (induction es s rule: strip_prefixes.induct)
  case (1 es s)
  show ?case
  proof (cases "find (\<lambda>e. e \<noteq> [] \<and> HasPrefix s e) es")
    case None
    then show ?thesis by (subst strip_prefixes.simps) simp
  next
    case (Some e)
    then have "suffix (strip_prefixes es (drop (length e) s)) (drop (length e) s)"
      by (rule 1)
    with Some show ?thesis
      by (subst strip_prefixes.simps) (auto intro: suffix_order.trans suffix_drop)
  qed
qed

lemma strip_prefixes_clean:
  "e \<in> set es \<Longrightarrow> e \<noteq> [] \<Longrightarrow> \<not> prefix e (strip_prefixes es s)"
proof (induction es s rule: strip_prefixes.induct)
  case (1 es s)
  show ?case
  proof (cases "find (\<lambda>e. e \<noteq> [] \<and> HasPrefix s e) es")
    case None
    then have eq: "strip_prefixes es s = s" by (subst strip_prefixes.simps) simp
    from None 1(2,3) show ?thesis by (auto simp: eq find_None_iff HasPrefix_prefix)
  next
    case (Some e')
    with 1 show ?thesis by (subst strip_prefixes.simps) auto
  qed
qed

text \<open>A word that neither starts nor ends with white space is left alone; trimming is idempotent.\<close>

definition space_free_ends :: "string \<Rightarrow> bool" where
  "space_free_ends s \<longleftrightarrow>
     (\<forall>e\<in>set space_encodings. \<not> prefix e s \<and> \<not> suffix e s)"

lemma space_encodings_nonempty: "e \<in> set space_encodings \<Longrightarrow> e \<noteq> []"
  by (auto simp: space_encodings_def)

lemma TrimSpace_id: "space_free_ends s \<Longrightarrow> TrimSpace s = s"
proof -
  assume clean: "space_free_ends s"
  have l: "strip_prefixes space_encodings s = s"
    using clean by (intro strip_prefixes_none) (auto simp: space_free_ends_def)
  have r: "strip_prefixes (map rev space_encodings) (rev s) = rev s"
    using clean
    by (intro strip_prefixes_none) (auto simp: space_free_ends_def suffix_to_prefix)
  show ?thesis by (simp add: TrimSpace_def l r)
qed

lemma TrimSpace_clean: "space_free_ends (TrimSpace s)"
proof -
  let ?l = "strip_prefixes space_encodings s"
  let ?r = "strip_prefixes (map rev space_encodings) (rev ?l)"
  have t: "TrimSpace s = rev ?r" by (simp add: TrimSpace_def)
  have "prefix (rev ?r) ?l"
    using strip_prefixes_suffix [of "map rev space_encodings" "rev ?l"]
    by (simp add: suffix_to_prefix)
  moreover have "\<not> prefix e ?l" if "e \<in> set space_encodings" for e
    using that space_encodings_nonempty strip_prefixes_clean by blast
  ultimately have pre: "\<not> prefix e (rev ?r)" if "e \<in> set space_encodings" for e
    using that by (meson prefix_order.trans)
  have suf: "\<not> suffix e (rev ?r)" if "e \<in> set space_encodings" for e
    using that space_encodings_nonempty [OF that]
      strip_prefixes_clean [of "rev e" "map rev space_encodings" "rev ?l"]
    by (simp add: suffix_to_prefix)
  show ?thesis unfolding t space_free_ends_def using pre suf by blast
qed

lemma TrimSpace_idem [simp]: "TrimSpace (TrimSpace s) = TrimSpace s"
  by (rule TrimSpace_id [OF TrimSpace_clean])

lemma TrimSpace_Nil [simp]: "TrimSpace [] = []"
  by (rule TrimSpace_id) (auto simp: space_free_ends_def space_encodings_def)

lemma TrimSpace_sublist: "sublist (TrimSpace s) s"
proof -
  let ?l = "strip_prefixes space_encodings s"
  have "prefix (TrimSpace s) ?l"
    using strip_prefixes_suffix [of "map rev space_encodings" "rev ?l"]
    by (simp add: TrimSpace_def suffix_to_prefix)
  moreover have "suffix ?l s" by (rule strip_prefixes_suffix)
  ultimately show ?thesis
    by (meson prefix_imp_sublist suffix_imp_sublist sublist_order.order.trans)
qed

lemma TrimSpace_set: "set (TrimSpace s) \<subseteq> set s"
  using TrimSpace_sublist by (rule set_mono_sublist)

text \<open>Printable ASCII at both ends is enough.\<close>

definition graphic :: "char \<Rightarrow> bool" where
  "graphic c \<longleftrightarrow> 33 \<le> (of_char c :: nat) \<and> (of_char c :: nat) \<le> 126"

lemma space_encodings_ends:
  "e \<in> set space_encodings \<Longrightarrow> \<not> graphic (hd e) \<and> \<not> graphic (last e)"
  by (auto simp: space_encodings_def graphic_def)

lemma space_free_ends_graphic:
  assumes "graphic (hd s)" "graphic (last s)" "s \<noteq> []"
  shows "space_free_ends s"
  unfolding space_free_ends_def
proof (intro ballI conjI notI)
  fix e assume e: "e \<in> set space_encodings"
  have ne: "e \<noteq> []" using e by (rule space_encodings_nonempty)
  { assume "prefix e s"
    then have "hd s = hd e" using ne by (auto simp: prefix_def)
    with assms space_encodings_ends [OF e] show False by simp }
  { assume "suffix e s"
    then have "last s = last e" using ne by (auto simp: suffix_def)
    with assms space_encodings_ends [OF e] show False by simp }
qed

lemma TrimSpace_graphic [trim_simps]:
  "graphic (hd s) \<Longrightarrow> graphic (last s) \<Longrightarrow> s \<noteq> [] \<Longrightarrow> TrimSpace s = s"
  by (intro TrimSpace_id space_free_ends_graphic)

lemma TrimSpace_graphic_all:
  "\<forall>c\<in>set s. graphic c \<Longrightarrow> TrimSpace s = s"
  by (cases "s = []") (auto intro: TrimSpace_graphic)

subsection \<open>Case\<close>

definition lower_char :: "char \<Rightarrow> char" where
  "lower_char c =
     (if 65 \<le> (of_char c :: nat) \<and> (of_char c :: nat) \<le> 90 then char_of ((of_char c :: nat) + 32) else c)"

definition upper_char :: "char \<Rightarrow> char" where
  "upper_char c =
     (if 97 \<le> (of_char c :: nat) \<and> (of_char c :: nat) \<le> 122 then char_of ((of_char c :: nat) - 32) else c)"

definition ToLower :: "string \<Rightarrow> string" where
  "ToLower s = map lower_char s"

definition ToUpper :: "string \<Rightarrow> string" where
  "ToUpper s = map upper_char s"

definition EqualFold :: "string \<Rightarrow> string \<Rightarrow> bool" where
  "EqualFold s t \<longleftrightarrow> ToLower s = ToLower t"

lemma lower_char_idem [simp]: "lower_char (lower_char c) = lower_char c"
  by (auto simp: lower_char_def)

lemma ToLower_idem [simp]: "ToLower (ToLower s) = ToLower s"
  by (simp add: ToLower_def)

lemma length_ToLower [simp]: "length (ToLower s) = length s"
  by (simp add: ToLower_def)

lemma ToLower_append [simp]: "ToLower (s @ t) = ToLower s @ ToLower t"
  by (simp add: ToLower_def)

text \<open>Lower-casing a trimmed string keeps it trimmed: no encoding of a space contains a letter.\<close>

lemma lower_char_fixed: "lower_char c = d \<Longrightarrow> \<not> (97 \<le> (of_char d :: nat) \<and> (of_char d :: nat) \<le> 122) \<Longrightarrow> c = d"
  by (auto simp: lower_char_def split: if_splits)

lemma map_lower_fixed: "map lower_char s = e \<Longrightarrow> \<forall>d\<in>set e. \<not> (97 \<le> (of_char d :: nat) \<and> (of_char d :: nat) \<le> 122) \<Longrightarrow> s = e"
  by (induction s arbitrary: e) (auto intro: lower_char_fixed [OF refl])

lemma space_encodings_no_letter:
  "e \<in> set space_encodings \<Longrightarrow> \<forall>d\<in>set e. \<not> (97 \<le> (of_char d :: nat) \<and> (of_char d :: nat) \<le> 122)"
  by (auto simp: space_encodings_def)

lemma space_free_ends_ToLower: "space_free_ends s \<Longrightarrow> space_free_ends (ToLower s)"
  unfolding space_free_ends_def
proof (intro ballI conjI notI)
  fix e assume s: "\<forall>e\<in>set space_encodings. \<not> prefix e s \<and> \<not> suffix e s" and e: "e \<in> set space_encodings"
  {
    assume "prefix e (ToLower s)"
    then have "map lower_char (take (length e) s) = e"
      unfolding ToLower_def by (metis prefix_def append_eq_conv_conj take_map)
    then show False using map_lower_fixed [OF _ space_encodings_no_letter [OF e]] s e take_is_prefix by metis
  next
    assume "suffix e (ToLower s)"
    then obtain p where "map lower_char s = p @ e" by (auto simp: ToLower_def suffix_def)
    then obtain p' e' where "s = p' @ e'" "map lower_char e' = e" by (auto simp: map_eq_append_conv)
    then show False using map_lower_fixed [OF _ space_encodings_no_letter [OF e]] s e by (metis suffixI)
  }
qed

lemma TrimSpace_ToLower: "TrimSpace s = s \<Longrightarrow> TrimSpace (ToLower s) = ToLower s"
  by (metis TrimSpace_clean TrimSpace_id space_free_ends_ToLower)

subsection \<open>Decimal digits\<close>

definition is_dec :: "char \<Rightarrow> bool" where
  "is_dec c \<longleftrightarrow> 48 \<le> (of_char c :: nat) \<and> (of_char c :: nat) \<le> 57"

definition dec_char :: "nat \<Rightarrow> char" where
  "dec_char d = char_of (48 + d)"

definition dec_digit :: "char \<Rightarrow> nat option" where
  "dec_digit c = (if is_dec c then Some (of_char c - 48) else None)"

lemma dec_char_numerals:
  "dec_char 0 = CHR ''0''" "dec_char (Suc 0) = CHR ''1''" "dec_char 2 = CHR ''2''"
  "dec_char 3 = CHR ''3''" "dec_char 4 = CHR ''4''" "dec_char 5 = CHR ''5''"
  "dec_char 6 = CHR ''6''" "dec_char 7 = CHR ''7''" "dec_char 8 = CHR ''8''"
  "dec_char 9 = CHR ''9''"
  by code_simp+

interpretation decimal: digit_alphabet 10 dec_char dec_digit
proof
  show "(1::nat) < 10" by simp
  show "dec_digit (dec_char d) = Some d" if "d < 10" for d
    using that by (simp add: dec_digit_def dec_char_def is_dec_def)
  show "d < 10" if "dec_digit c = Some d" for c d
    using that by (auto simp: dec_digit_def is_dec_def split: if_splits)
  show "dec_char d = c" if "dec_digit c = Some d" for c d
    using that by (auto simp: dec_digit_def dec_char_def is_dec_def split: if_splits)
qed

text \<open>Printing a natural number in decimal, as \<^verbatim>\<open>big.Int.String\<close> and \<^verbatim>\<open>strconv\<close> do.\<close>

definition nat_string :: "nat \<Rightarrow> string" where
  "nat_string n = (if n = 0 then ''0'' else map dec_char (digits 10 n))"

definition int_string :: "int \<Rightarrow> string" where
  "int_string i = (if i < 0 then CHR ''-'' # nat_string (nat (- i)) else nat_string (nat i))"

text \<open>
  \<^verbatim>\<open>big.Int.SetString(s, 10)\<close>: an optional sign and at least one decimal digit, nothing
  else (underscores are accepted for base 0 only).
\<close>

definition parse_digits :: "string \<Rightarrow> nat option" where
  "parse_digits s =
     (if s = [] then None else map_option (from_digits 10) (those (map dec_digit s)))"

definition SetString10 :: "string \<Rightarrow> int option" where
  "SetString10 s =
     (case s of
        [] \<Rightarrow> None
      | c # r \<Rightarrow>
          if c = CHR ''-'' then map_option (\<lambda>n. - int n) (parse_digits r)
          else if c = CHR ''+'' then map_option int (parse_digits r)
          else map_option int (parse_digits s))"

lemma is_dec_dec_char: "d < 10 \<Longrightarrow> is_dec (dec_char d)"
  by (simp add: is_dec_def dec_char_def)

lemma is_dec_graphic: "is_dec c \<Longrightarrow> graphic c"
  by (simp add: is_dec_def graphic_def)

lemma not_is_dec_sign: "is_dec c \<Longrightarrow> c \<noteq> CHR ''-'' \<and> c \<noteq> CHR ''+'' \<and> c \<noteq> CHR ''.''"
  by (auto simp: is_dec_def)

lemma nat_string_is_dec: "\<forall>c\<in>set (nat_string n). is_dec c"
proof (cases "n = 0")
  case True
  then show ?thesis by (simp add: nat_string_def is_dec_def)
next
  case False
  then show ?thesis by (auto simp: nat_string_def digits_less intro: is_dec_dec_char)
qed

lemma nat_string_not_Nil [simp]: "nat_string n \<noteq> []"
  by (simp add: nat_string_def)

lemma those_dec_digit_Some: "\<forall>c\<in>set s. is_dec c \<Longrightarrow> \<exists>ds. those (map dec_digit s) = Some ds"
  by (induction s) (auto simp: dec_digit_def)

lemma parse_digits_nat_string [simp]: "parse_digits (nat_string n) = Some n"
proof (cases "n = 0")
  case True
  then show ?thesis
    by (simp add: parse_digits_def nat_string_def dec_digit_def is_dec_def from_digits_def)
next
  case False
  have "those (map dec_digit (map dec_char (digits 10 n))) = Some (digits 10 n)"
    by (rule decimal.those_dec_enc) (simp add: digits_less)
  with False show ?thesis
    by (simp add: parse_digits_def nat_string_def from_digits_digits)
qed

lemma nat_string_head: "\<exists>c r. nat_string n = c # r \<and> is_dec c"
  using nat_string_is_dec [of n] nat_string_not_Nil [of n]
  by (cases "nat_string n") auto

lemma SetString10_int_string [simp]: "SetString10 (int_string i) = Some i"
proof (cases "i < 0")
  case True
  then show ?thesis by (simp add: SetString10_def int_string_def)
next
  case False
  obtain c r where "nat_string (nat i) = c # r" and "is_dec c"
    using nat_string_head by blast
  with False show ?thesis
    using parse_digits_nat_string [of "nat i"] not_is_dec_sign [of c]
    by (auto simp: SetString10_def int_string_def)
qed

lemma SetString10_digits:
  assumes "s \<noteq> []" and "\<forall>c\<in>set s. is_dec c"
  shows "SetString10 s = map_option int (parse_digits s)"
proof -
  obtain c r where s: "s = c # r" and "is_dec c" using assms by (cases s) auto
  with not_is_dec_sign [of c] show ?thesis by (simp add: SetString10_def)
qed

text \<open>Parsing and printing again drops leading zeros.\<close>

lemma nat_string_parse_digits:
  assumes "parse_digits s = Some n"
  shows "nat_string n = (if TrimLeft s CHR ''0'' = [] then ''0'' else TrimLeft s CHR ''0'')"
proof -
  obtain ds where ds: "those (map dec_digit s) = Some ds" and n: "n = from_digits 10 ds"
    using assms by (auto simp: parse_digits_def split: if_splits)
  have s: "s = map dec_char ds" and small: "\<forall>d\<in>set ds. d < 10"
    using decimal.those_dec_SomeD [OF ds] by auto
  have zero: "(dec_char d = CHR ''0'') = (d = 0)" if "d \<in> set ds" for d
  proof -
    have "CHR ''0'' = dec_char 0" by code_simp
    then show ?thesis using decimal.enc_inj [of d 0] small that by simp
  qed
  have trim: "TrimLeft s CHR ''0'' = map dec_char (dropWhile (\<lambda>d. d = 0) ds)"
    unfolding TrimLeft_def s by (rule dropWhile_map_cong) (rule zero)
  have dg: "digits 10 n = dropWhile (\<lambda>d. d = 0) ds"
    unfolding n using small by (intro digits_from_digits) auto
  have "n = 0 \<longleftrightarrow> dropWhile (\<lambda>d. d = 0) ds = []"
    using dg digits_eq_Nil [of 10 n] by simp
  then show ?thesis by (auto simp: nat_string_def trim dg)
qed

lemmas [go_defs] =
  HasPrefix_def TrimPrefix_def HasSuffix_def TrimSuffix_def SplitN2_def TrimLeft_def
  TrimRight_def LastIndex_def ToLower_def ToUpper_def EqualFold_def lower_char_def
  upper_char_def graphic_def is_dec_def dec_char_def dec_digit_def nat_string_def
  int_string_def parse_digits_def SetString10_def from_digits_def

lemmas dec_eval = nat_string_def int_string_def digits.simps dec_char_numerals

end
