(* ===== verification/Go_Bytes.thy ===== *)
theory Go_Bytes
  imports Go_Strings
begin

text \<open>
  Byte slices: conversion between strings and bytes, \<^verbatim>\<open>encoding/hex\<close>, the big-endian
  \<^verbatim>\<open>big.Int.Bytes\<close>/\<^verbatim>\<open>SetBytes\<close>, the little-endian \<^verbatim>\<open>encoding/binary\<close>, and the
  copies into fixed-size arrays the encoders of the backend make.
\<close>

definition bytes_of :: "string \<Rightarrow> byte list" where
  "bytes_of s = map (\<lambda>c. word_of_nat (of_char c)) s"

definition string_of :: "byte list \<Rightarrow> string" where
  "string_of bs = map (\<lambda>b. char_of (unat b)) bs"

lemma unat_byte_less [simp]: "unat (b :: byte) < 256"
  using unsigned_less [of b, where ?'a = nat] by simp

lemma unat_word_of_nat_byte: "unat (word_of_nat n :: byte) = n mod 256"
  by (simp add: unat_of_nat)

lemma of_char_less: "(of_char c :: nat) < 256"
  by (cases c) (simp add: of_char_def)

lemma string_of_bytes_of [simp]: "string_of (bytes_of s) = s"
  by (induction s) (simp_all add: string_of_def bytes_of_def unat_word_of_nat_byte of_char_less)

lemma bytes_of_string_of [simp]: "bytes_of (string_of bs) = bs"
  by (induction bs) (simp_all add: string_of_def bytes_of_def)

lemma length_bytes_of [simp]: "length (bytes_of s) = length s"
  by (simp add: bytes_of_def)

subsection \<open>Hexadecimal\<close>

definition hex_char :: "nat \<Rightarrow> char" where
  "hex_char d = (if d < 10 then char_of (48 + d) else char_of (87 + d))"

definition hex_digit :: "char \<Rightarrow> nat option" where
  "hex_digit c =
     (let n = (of_char c :: nat) in
      if 48 \<le> n \<and> n \<le> 57 then Some (n - 48)
      else if 97 \<le> n \<and> n \<le> 102 then Some (n - 87)
      else if 65 \<le> n \<and> n \<le> 70 then Some (n - 55)
      else None)"

definition EncodeToString :: "byte list \<Rightarrow> string" where
  "EncodeToString bs =
     concat (map (\<lambda>b. [hex_char (unat b div 16), hex_char (unat b mod 16)]) bs)"

fun DecodeString :: "string \<Rightarrow> byte list option" where
  "DecodeString [] = Some []"
| "DecodeString [c] = None"
| "DecodeString (c # d # s) =
     (case (hex_digit c, hex_digit d) of
        (Some h, Some l) \<Rightarrow> map_option ((#) (word_of_nat (16 * h + l))) (DecodeString s)
      | _ \<Rightarrow> None)"

lemma hex_digit_hex_char [simp]: "d < 16 \<Longrightarrow> hex_digit (hex_char d) = Some d"
  by (auto simp: hex_digit_def hex_char_def Let_def)

lemma hex_digit_less: "hex_digit c = Some d \<Longrightarrow> d < 16"
  by (auto simp: hex_digit_def Let_def split: if_splits)

lemma hex_char_hex_digit: "hex_digit c = Some d \<Longrightarrow> hex_char d = lower_char c"
  by (auto simp: hex_digit_def hex_char_def lower_char_def Let_def split: if_splits)

lemma hex_digit_lower_char [simp]: "hex_digit (lower_char c) = hex_digit c"
  by (auto simp: hex_digit_def lower_char_def Let_def)

lemma hex_char_graphic: "d < 16 \<Longrightarrow> graphic (hex_char d)"
  by (auto simp: graphic_def hex_char_def)

lemma EncodeToString_Nil [simp]: "EncodeToString [] = []"
  by (simp add: EncodeToString_def)

lemma EncodeToString_Cons [simp]:
  "EncodeToString (b # bs) = hex_char (unat b div 16) # hex_char (unat b mod 16) # EncodeToString bs"
  by (simp add: EncodeToString_def)

lemma EncodeToString_append: "EncodeToString (xs @ ys) = EncodeToString xs @ EncodeToString ys"
  by (simp add: EncodeToString_def)

lemma length_EncodeToString [simp]: "length (EncodeToString bs) = 2 * length bs"
  by (induction bs) simp_all

lemma byte_split: "word_of_nat (16 * (unat (b :: byte) div 16) + unat b mod 16) = b"
  by (metis mult_div_mod_eq of_nat_unat ucast_id)

lemma byte_nibbles: "unat (b :: byte) div 16 < 16"
  using unat_byte_less [of b] by (simp add: less_mult_imp_div_less)

lemma DecodeString_EncodeToString [simp]: "DecodeString (EncodeToString bs) = Some bs"
  by (induction bs) (simp_all add: byte_nibbles byte_split)

lemma EncodeToString_DecodeString:
  "DecodeString s = Some bs \<Longrightarrow> EncodeToString bs = ToLower s"
proof (induction s arbitrary: bs rule: DecodeString.induct)
  case (3 c d s)
  then obtain h l rest where hl: "hex_digit c = Some h" "hex_digit d = Some l"
    and rest: "DecodeString s = Some rest" and bs: "bs = word_of_nat (16 * h + l) # rest"
    by (auto split: option.splits)
  have "h < 16" "l < 16" using hl by (auto dest: hex_digit_less)
  then have "unat (word_of_nat (16 * h + l) :: byte) = 16 * h + l"
    using unat_word_of_nat_byte [of "16 * h + l"] by (simp del: of_nat_add of_nat_mult)
  with 3 hl rest bs \<open>l < 16\<close> show ?case
    by (simp add: hex_char_hex_digit ToLower_def del: of_nat_add of_nat_mult)
qed (auto simp: ToLower_def)

lemma DecodeString_length: "DecodeString s = Some bs \<Longrightarrow> length s = 2 * length bs"
  using EncodeToString_DecodeString [of s bs] length_EncodeToString [of bs] length_ToLower [of s]
  by simp

lemma DecodeString_ToLower [simp]: "DecodeString (ToLower s) = DecodeString s"
  by (induction s rule: DecodeString.induct) (auto simp: ToLower_def split: option.splits)

lemma EncodeToString_hex_chars:
  "c \<in> set (EncodeToString bs) \<Longrightarrow> \<exists>d<16. c = hex_char d"
proof (induction bs)
  case (Cons b bs)
  have m: "unat b mod 16 < 16" by simp
  from Cons.prems consider "c = hex_char (unat b div 16)" | "c = hex_char (unat b mod 16)"
    | "c \<in> set (EncodeToString bs)" by auto
  then show ?case using Cons.IH byte_nibbles [of b] m by cases blast+
qed simp

lemma EncodeToString_graphic: "\<forall>c\<in>set (EncodeToString bs). graphic c"
  using EncodeToString_hex_chars hex_char_graphic by blast

subsection \<open>Big-endian numbers\<close>

definition SetBytes :: "byte list \<Rightarrow> nat" where
  "SetBytes bs = from_digits 256 (map unat bs)"

definition Bytes :: "nat \<Rightarrow> byte list" where
  "Bytes n = map word_of_nat (digits 256 n)"

lemma map_unat_word_of_nat: "\<forall>d\<in>set ds. d < 256 \<Longrightarrow> map (\<lambda>d. unat (word_of_nat d :: byte)) ds = ds"
  by (induction ds) (simp_all add: unat_word_of_nat_byte)

lemma SetBytes_Bytes [simp]: "SetBytes (Bytes n) = n"
proof -
  have "map unat (Bytes n) = digits 256 n"
    using map_unat_word_of_nat [of "digits 256 n"] digits_less [of 256 _ n]
    by (simp add: Bytes_def o_def)
  then show ?thesis by (simp add: SetBytes_def from_digits_digits)
qed

lemma Bytes_SetBytes: "Bytes (SetBytes bs) = dropWhile (\<lambda>b. b = 0) bs"
proof -
  have dw: "dropWhile (\<lambda>d. d = 0) (map unat bs) = map unat (dropWhile (\<lambda>b. b = 0) bs)"
    by (rule dropWhile_map_cong) (simp add: unat_eq_0)
  have "digits 256 (SetBytes bs) = dropWhile (\<lambda>d. d = 0) (map unat bs)"
    unfolding SetBytes_def by (rule digits_from_digits) auto
  then show ?thesis by (simp add: Bytes_def dw o_def)
qed

lemma SetBytes_bound: "SetBytes bs < 256 ^ length bs"
  using from_digits_bound [of "map unat bs" 256] by (auto simp: SetBytes_def)

lemma length_Bytes_le: "n < 256 ^ k \<Longrightarrow> length (Bytes n) \<le> k"
  by (simp add: Bytes_def length_digits_le)

subsection \<open>Little-endian numbers\<close>

fun le_bytes :: "nat \<Rightarrow> nat \<Rightarrow> byte list" where
  "le_bytes 0 n = []"
| "le_bytes (Suc k) n = word_of_nat n # le_bytes k (n div 256)"

fun le_val :: "byte list \<Rightarrow> nat" where
  "le_val [] = 0"
| "le_val (b # bs) = unat b + 256 * le_val bs"

lemma length_le_bytes [simp]: "length (le_bytes k n) = k"
  by (induction k arbitrary: n) simp_all

lemma le_val_le_bytes: "le_val (le_bytes k n) = n mod 256 ^ k"
proof (induction k arbitrary: n)
  case 0
  then show ?case by simp
next
  case (Suc k)
  have "n mod (256 * 256 ^ k) = 256 * (n div 256 mod 256 ^ k) + n mod 256"
    by (rule mod_mult2_eq)
  with Suc show ?case by (simp add: unat_word_of_nat_byte)
qed

subsection \<open>Copies into 32-byte arrays\<close>

definition zero32 :: "byte list" where
  "zero32 = replicate 32 0"

definition right_align32 :: "byte list \<Rightarrow> byte list" where
  "right_align32 b =
     (let b' = (if length b > 32 then drop (length b - 32) b else b)
      in replicate (32 - length b') 0 @ b')"

lemma length_right_align32 [simp]: "length (right_align32 b) = 32"
  by (simp add: right_align32_def Let_def)

lemma right_align32_id: "length b = 32 \<Longrightarrow> right_align32 b = b"
  by (simp add: right_align32_def)

lemma SetBytes_right_align32: "length b \<le> 32 \<Longrightarrow> SetBytes (right_align32 b) = SetBytes b"
  by (simp add: right_align32_def SetBytes_def)

lemma right_align32_inj:
  "length a = length b \<Longrightarrow> length b \<le> 32 \<Longrightarrow> right_align32 a = right_align32 b \<Longrightarrow> a = b"
  by (simp add: right_align32_def)

lemmas [go_defs] =
  bytes_of_def string_of_def hex_char_def hex_digit_def EncodeToString_def SetBytes_def
  zero32_def right_align32_def

end
