(* ===== verification/Encoding.thy ===== *)
theory Encoding
  imports Go_Bytes
begin

text \<open>
  The amount and address encodings of \<^verbatim>\<open>internal/usecases/utils.go\<close>: decimal amounts to
  smallest units, base58, 32-byte words for addresses and UUIDs, and the little-endian
  fields of Anchor instructions. Unicode's decimal digits above ASCII are a parameter
  \<open>nd\<close> of the amount parser (the table of \<^verbatim>\<open>unicode.IsDigit\<close>), SHA-256 a parameter of the
  Anchor discriminator.
\<close>

subsection \<open>Padding and chain families\<close>

definition EVMWordSizeHex :: int where
  "EVMWordSizeHex = 64"

definition padLeft :: "string \<Rightarrow> int \<Rightarrow> string" where
  "padLeft s n =
     (if int (length s) \<ge> n then s else replicate (nat (n - int (length s))) CHR ''0'' @ s)"

definition padRight :: "string \<Rightarrow> int \<Rightarrow> string" where
  "padRight s n =
     (if int (length s) \<ge> n then s else s @ replicate (nat (n - int (length s))) CHR ''0'')"

definition getChainTypeFromCAIP2 :: "string \<Rightarrow> string" where
  "getChainTypeFromCAIP2 caip2 =
     (let trimmed = TrimSpace caip2 in
      if trimmed = [] then [] else SplitN2 CHR '':'' trimmed ! 0)"

definition isEVMChain :: "string \<Rightarrow> bool" where
  "isEVMChain chainID \<longleftrightarrow> length chainID > 6 \<and> take 6 chainID = ''eip155''"

definition isSolanaChain :: "string \<Rightarrow> bool" where
  "isSolanaChain chainID \<longleftrightarrow> length chainID > 6 \<and> take 6 chainID = ''solana''"

subsection \<open>Runes\<close>

text \<open>
  \<^verbatim>\<open>for _, r := range s\<close> iterates over the runes of \<open>s\<close>: UTF-8 sequences, an invalid byte
  counting as U+FFFD.
\<close>

definition cont_byte :: "nat \<Rightarrow> bool" where
  "cont_byte b \<longleftrightarrow> 0x80 \<le> b \<and> b \<le> 0xBF"

definition second_ok :: "nat \<Rightarrow> nat \<Rightarrow> bool" where
  "second_ok b0 b1 \<longleftrightarrow>
     cont_byte b1 \<and> (b0 = 0xE0 \<longrightarrow> 0xA0 \<le> b1) \<and> (b0 = 0xED \<longrightarrow> b1 \<le> 0x9F) \<and>
     (b0 = 0xF0 \<longrightarrow> 0x90 \<le> b1) \<and> (b0 = 0xF4 \<longrightarrow> b1 \<le> 0x8F)"

fun runes :: "nat list \<Rightarrow> nat list" where
  "runes [] = []"
| "runes (b0 # bs) =
     (if b0 < 0x80 then b0 # runes bs
      else case bs of
        b1 # b2 # b3 # rest \<Rightarrow>
          if 0xC2 \<le> b0 \<and> b0 \<le> 0xDF \<and> cont_byte b1
          then ((b0 mod 32) * 64 + b1 mod 64) # runes (b2 # b3 # rest)
          else if 0xE0 \<le> b0 \<and> b0 \<le> 0xEF \<and> second_ok b0 b1 \<and> cont_byte b2
          then ((b0 mod 16) * 4096 + (b1 mod 64) * 64 + b2 mod 64) # runes (b3 # rest)
          else if 0xF0 \<le> b0 \<and> b0 \<le> 0xF4 \<and> second_ok b0 b1 \<and> cont_byte b2 \<and> cont_byte b3
          then ((b0 mod 8) * 262144 + (b1 mod 64) * 4096 + (b2 mod 64) * 64 + b3 mod 64) # runes rest
          else 0xFFFD # runes bs
      | [b1, b2] \<Rightarrow>
          if 0xC2 \<le> b0 \<and> b0 \<le> 0xDF \<and> cont_byte b1
          then ((b0 mod 32) * 64 + b1 mod 64) # runes [b2]
          else if 0xE0 \<le> b0 \<and> b0 \<le> 0xEF \<and> second_ok b0 b1 \<and> cont_byte b2
          then [(b0 mod 16) * 4096 + (b1 mod 64) * 64 + b2 mod 64]
          else 0xFFFD # runes bs
      | [b1] \<Rightarrow>
          if 0xC2 \<le> b0 \<and> b0 \<le> 0xDF \<and> cont_byte b1
          then [(b0 mod 32) * 64 + b1 mod 64]
          else 0xFFFD # runes bs
      | [] \<Rightarrow> [0xFFFD])"

definition string_runes :: "string \<Rightarrow> nat list" where
  "string_runes s = runes (map of_char s)"

definition ascii :: "string \<Rightarrow> bool" where
  "ascii s \<longleftrightarrow> (\<forall>c\<in>set s. (of_char c :: nat) < 128)"

lemma runes_ascii: "\<forall>b\<in>set bs. b < 128 \<Longrightarrow> runes bs = bs"
  by (induction bs) auto

lemma string_runes_ascii: "ascii s \<Longrightarrow> string_runes s = map of_char s"
  by (simp add: string_runes_def ascii_def runes_ascii)

text \<open>\<^verbatim>\<open>unicode.IsDigit\<close>; \<open>nd\<close> decides the code points from 128 on.\<close>

definition IsDigit :: "(nat \<Rightarrow> bool) \<Rightarrow> nat \<Rightarrow> bool" where
  "IsDigit nd r \<longleftrightarrow> (if r < 128 then 48 \<le> r \<and> r \<le> 57 else nd r)"

definition isDigits :: "(nat \<Rightarrow> bool) \<Rightarrow> string \<Rightarrow> bool" where
  "isDigits nd s \<longleftrightarrow> (\<forall>r\<in>set (string_runes s). IsDigit nd r)"

subsection \<open>Amounts\<close>

definition convertToSmallestUnit :: "(nat \<Rightarrow> bool) \<Rightarrow> string \<Rightarrow> int \<Rightarrow> string + string" where
  "convertToSmallestUnit nd amount decimals =
     (if decimals < 0 then Inl (''invalid decimals: '' @ int_string decimals)
      else
        let normalized = TrimSpace amount in
        if normalized = [] then Inl ''amount is required''
        else if HasPrefix normalized ''-'' then Inl ''amount must be positive''
        else
          let normalized = (if HasPrefix normalized ''+'' then drop 1 normalized else normalized);
              parts = Split CHR ''.'' normalized in
          if length parts > 2 then Inl ''invalid amount format''
          else
            let wholePart = (if parts ! 0 = [] then ''0'' else parts ! 0);
                fractionalPart = (if length parts = 2 then parts ! 1 else []) in
            if \<not> isDigits nd wholePart \<or> (fractionalPart \<noteq> [] \<and> \<not> isDigits nd fractionalPart)
            then Inl ''amount must be numeric''
            else if int (length fractionalPart) > decimals
            then Inl (''amount has too many decimal places (max '' @ int_string decimals @ '')'')
            else
              let fractionalPadded =
                    fractionalPart @ replicate (nat decimals - length fractionalPart) CHR ''0'';
                  raw = TrimLeft (wholePart @ fractionalPadded) CHR ''0'' in
              Inr (if raw = [] then ''0'' else raw))"

definition addDecimalStrings :: "string \<Rightarrow> string \<Rightarrow> string + string" where
  "addDecimalStrings a b =
     (case SetString10 a of
        None \<Rightarrow> Inl (''invalid decimal string: '' @ a)
      | Some aa \<Rightarrow>
          (case SetString10 b of
             None \<Rightarrow> Inl (''invalid decimal string: '' @ b)
           | Some bb \<Rightarrow> Inr (int_string (aa + bb))))"

definition decimalStringToUint64 :: "string \<Rightarrow> u64" where
  "decimalStringToUint64 v =
     (case SetString10 v of
        None \<Rightarrow> 0
      | Some n \<Rightarrow>
          if n < 0 then 0
          else if n \<ge> 2 ^ 64 then - 1
          else word_of_int n)"

subsection \<open>UUIDs and Anchor fields\<close>

definition uuid_bytes :: "uuid \<Rightarrow> byte list" where
  "uuid_bytes uid = (let b = Bytes (unat uid) in replicate (16 - length b) 0 @ b)"

definition uuidToBytes32 :: "uuid \<Rightarrow> byte list" where
  "uuidToBytes32 uid = replicate 16 0 @ uuid_bytes uid"

definition uuidToBytes32Hex :: "uuid \<Rightarrow> string" where
  "uuidToBytes32Hex uid = padLeft (EncodeToString (uuidToBytes32 uid)) EVMWordSizeHex"

definition anchorDiscriminator :: "(byte list \<Rightarrow> byte list) \<Rightarrow> string \<Rightarrow> byte list" where
  "anchorDiscriminator sha256 name = take 8 (sha256 (bytes_of (''global:'' @ name)))"

definition encodeAnchorString :: "string \<Rightarrow> byte list" where
  "encodeAnchorString s = le_bytes 4 (length s mod 2 ^ 32) @ bytes_of s"

definition u64ToLE :: "u64 \<Rightarrow> byte list" where
  "u64ToLE v = le_bytes 8 (unat v)"

subsection \<open>Base58\<close>

definition b58_alphabet :: string where
  "b58_alphabet = ''123456789ABCDEFGHJKLMNPQRSTUVWXYZabcdefghijkmnopqrstuvwxyz''"

function b58_divmod_loop :: "nat \<Rightarrow> string \<Rightarrow> string" where
  "b58_divmod_loop x out =
     (if x > 0 then b58_divmod_loop (x div 58) (out @ [b58_alphabet ! (x mod 58)]) else out)"
  by pat_completeness auto
termination by (relation "measure fst") auto

fun b58_zeros_loop :: "byte list \<Rightarrow> string \<Rightarrow> string" where
  "b58_zeros_loop [] out = out"
| "b58_zeros_loop (b # bs) out =
     (if b \<noteq> 0 then out else b58_zeros_loop bs (out @ [b58_alphabet ! 0]))"

function swap_loop :: "nat \<Rightarrow> nat \<Rightarrow> 'a list \<Rightarrow> 'a list" where
  "swap_loop i j out =
     (if i < j then swap_loop (i + 1) (j - 1) (out[i := out ! j, j := out ! i]) else out)"
  by pat_completeness auto
termination by (relation "measure (\<lambda>(i, j, out). j - i)") auto

declare b58_divmod_loop.simps [simp del] swap_loop.simps [simp del]

definition base58Encode :: "byte list \<Rightarrow> string" where
  "base58Encode data =
     (if data = [] then []
      else
        let out = b58_zeros_loop data (b58_divmod_loop (SetBytes data) [])
        in swap_loop 0 (length out - 1) out)"

fun b58_index_from :: "nat \<Rightarrow> string \<Rightarrow> nat \<Rightarrow> nat option" where
  "b58_index_from i [] r = None"
| "b58_index_from i (c # cs) r =
     (if of_char c = r then Some i else b58_index_from (i + 1) cs r)"

definition b58_index :: "nat \<Rightarrow> nat option" where
  "b58_index r = b58_index_from 0 b58_alphabet r"

fun b58_value_loop :: "nat list \<Rightarrow> nat \<Rightarrow> nat option" where
  "b58_value_loop [] x = Some x"
| "b58_value_loop (r # rs) x =
     (case b58_index r of
        None \<Rightarrow> None
      | Some val \<Rightarrow> b58_value_loop rs (x * 58 + val))"

definition base58Decode :: "string \<Rightarrow> byte list" where
  "base58Decode s =
     (if s = [] then []
      else
        case b58_value_loop (string_runes s) 0 of
          None \<Rightarrow> []
        | Some x \<Rightarrow>
            let decoded = Bytes x;
                leadingOnes = length (takeWhile (\<lambda>r. r = 49) (string_runes s))
            in if leadingOnes > 0 then replicate leadingOnes 0 @ decoded else decoded)"

subsection \<open>Addresses\<close>

definition zero_address :: string where
  "zero_address = ''0x0000000000000000000000000000000000000000''"

definition normalizeEvmAddress :: "string \<Rightarrow> string" where
  "normalizeEvmAddress addr =
     (if addr = [] \<or> addr = ''native'' \<or> addr = zero_address then zero_address
      else if \<not> HasPrefix addr ''0x'' then zero_address
      else addr)"

definition addressToBytes32 :: "string \<Rightarrow> byte list" where
  "addressToBytes32 addr =
     (if addr = [] then zero32
      else
        let other =
              (let decoded = base58Decode addr in
               if length decoded > 0 then right_align32 decoded
               else right_align32 (bytes_of addr))
        in if HasPrefix addr ''0x''
           then (case DecodeString (TrimPrefix addr ''0x'') of
                   Some b \<Rightarrow> right_align32 b
                 | None \<Rightarrow> other)
           else other)"

subsection \<open>Amounts: lemmas\<close>

text \<open>The number a string of decimal digits denotes.\<close>

definition num :: "string \<Rightarrow> nat" where
  "num s = from_digits 10 (map (\<lambda>c. of_char c - 48) s)"

lemma those_dec_digit_num: "\<forall>c\<in>set s. is_dec c \<Longrightarrow> those (map dec_digit s) = Some (map (\<lambda>c. of_char c - 48) s)"
  by (induction s) (auto simp: dec_digit_def)

lemma parse_digits_num: "s \<noteq> [] \<Longrightarrow> \<forall>c\<in>set s. is_dec c \<Longrightarrow> parse_digits s = Some (num s)"
  by (simp add: parse_digits_def those_dec_digit_num num_def)

lemma num_append: "num (s @ t) = num s * 10 ^ length t + num t"
  by (simp add: num_def from_digits_append)

lemma num_zeros [simp]: "num (replicate n CHR ''0'') = 0"
  by (simp add: num_def)

lemma is_dec_ascii: "\<forall>c\<in>set s. is_dec c \<Longrightarrow> ascii s"
  by (auto simp: ascii_def is_dec_def)

lemma isDigits_ascii: "ascii s \<Longrightarrow> isDigits nd s \<longleftrightarrow> (\<forall>c\<in>set s. is_dec c)"
  by (auto simp: isDigits_def string_runes_ascii IsDigit_def is_dec_def ascii_def)

lemma isDigits_dec: "\<forall>c\<in>set s. is_dec c \<Longrightarrow> isDigits nd s"
  using isDigits_ascii is_dec_ascii by blast

text \<open>Digits with their leading zeros dropped print the number they denote.\<close>

lemma trimmed_digits_print:
  assumes "s \<noteq> []" "\<forall>c\<in>set s. is_dec c"
  shows "(if TrimLeft s CHR ''0'' = [] then ''0'' else TrimLeft s CHR ''0'') = nat_string (num s)"
  using nat_string_parse_digits [OF parse_digits_num [OF assms]] by simp

lemma is_dec_zero [simp]: "is_dec CHR ''0''"
  by (simp add: is_dec_def)

lemma no_point_in_digits: "\<forall>c\<in>set s. is_dec c \<Longrightarrow> CHR ''.'' \<notin> set s"
  by (auto simp: is_dec_def)

lemma Split_amount:
  "\<forall>c\<in>set w. is_dec c \<Longrightarrow> \<forall>c\<in>set f. is_dec c \<Longrightarrow> Split CHR ''.'' (w @ CHR ''.'' # f) = [w, f]"
  by (simp add: Split_append Split_no_sep no_point_in_digits)

lemma digits_no_sign_prefix:
  "\<forall>c\<in>set w. is_dec c \<Longrightarrow> \<not> HasPrefix (w @ CHR ''.'' # f) ''-'' \<and> \<not> HasPrefix (w @ CHR ''.'' # f) ''+''"
  by (cases w) (auto simp: HasPrefix_def is_dec_def)

lemma TrimSpace_amount:
  assumes "\<forall>c\<in>set w. is_dec c" "\<forall>c\<in>set f. is_dec c"
  shows "TrimSpace (w @ CHR ''.'' # f) = w @ CHR ''.'' # f"
proof (rule TrimSpace_graphic_all)
  have "graphic CHR ''.''" by (simp add: graphic_def)
  with assms show "\<forall>c\<in>set (w @ CHR ''.'' # f). graphic c" by (auto intro: is_dec_graphic)
qed

text \<open>
  The core of the conversion, on the digits of the whole and the fractional part: the
  printed result is the amount scaled by ten to the number of decimals.
\<close>

lemma smallest_unit_raw:
  fixes w f :: string and d :: nat
  assumes w: "\<forall>c\<in>set w. is_dec c" and f: "\<forall>c\<in>set f. is_dec c" and len: "length f \<le> d"
  defines "raw \<equiv> (if w = [] then ''0'' else w) @ f @ replicate (d - length f) CHR ''0''"
  shows "(if TrimLeft raw CHR ''0'' = [] then ''0'' else TrimLeft raw CHR ''0'') =
    nat_string (num w * 10 ^ d + num f * 10 ^ (d - length f))"
proof -
  have dec: "\<forall>c\<in>set raw. is_dec c" and ne: "raw \<noteq> []"
    using w f by (auto simp: raw_def)
  have w0: "num (if w = [] then ''0'' else w) = num w"
    by (simp add: num_def from_digits_def)
  have "num raw = num w * 10 ^ (length f + (d - length f)) + num f * 10 ^ (d - length f)"
    unfolding raw_def by (simp add: num_append w0 power_add algebra_simps)
  then have "num raw = num w * 10 ^ d + num f * 10 ^ (d - length f)"
    using len by simp
  with trimmed_digits_print [OF ne dec] show ?thesis by simp
qed

lemma convertToSmallestUnit_run:
  assumes "\<not> d < 0" and "TrimSpace amount = n" "n \<noteq> []" "\<not> HasPrefix n ''-''"
    and "Split CHR ''.'' (if HasPrefix n ''+'' then drop 1 n else n) = parts" "length parts \<le> 2"
    and w: "(if parts ! 0 = [] then ''0'' else parts ! 0) = w"
    and f: "(if length parts = 2 then parts ! 1 else []) = f"
    and "isDigits nd w" "f = [] \<or> isDigits nd f" "int (length f) \<le> d"
    and r: "TrimLeft (w @ f @ replicate (nat d - length f) CHR ''0'') CHR ''0'' = raw"
  shows "convertToSmallestUnit nd amount d = Inr (if raw = [] then ''0'' else raw)"
proof -
  have "\<not> length parts > 2" and "\<not> (\<not> isDigits nd w \<or> f \<noteq> [] \<and> \<not> isDigits nd f)"
    and "\<not> int (length f) > d" using assms by auto
  then show ?thesis
    unfolding convertToSmallestUnit_def Let_def assms(2) assms(5) w f r
    using assms(1,3,4) by (simp only: if_False)
qed

lemma convertToSmallestUnit_parts:
  fixes d :: int
  assumes w: "\<forall>c\<in>set w. is_dec c" and f: "\<forall>c\<in>set f. is_dec c"
    and d: "int (length f) \<le> d"
  shows "convertToSmallestUnit nd (w @ CHR ''.'' # f) d =
    Inr (nat_string (num w * 10 ^ nat d + num f * 10 ^ (nat d - length f)))"
proof -
  have d0: "\<not> d < 0" and len: "length f \<le> nat d" using d by auto
  have W: "isDigits nd (if w = [] then ''0'' else w)" and F: "isDigits nd f"
    using w f by (auto intro!: isDigits_dec)
  let ?w = "if w = [] then ''0'' else w" and ?n = "w @ CHR ''.'' # f"
  let ?raw = "TrimLeft (?w @ f @ replicate (nat d - length f) CHR ''0'') CHR ''0''"
  have sp: "Split CHR ''.'' (if HasPrefix ?n ''+'' then drop 1 ?n else ?n) = [w, f]"
    using digits_no_sign_prefix [OF w] by (simp add: Split_amount [OF w f])
  have "convertToSmallestUnit nd ?n d = Inr (if ?raw = [] then ''0'' else ?raw)"
    by (rule convertToSmallestUnit_run [OF d0 TrimSpace_amount [OF w f] _ _ sp _ _ _ W _ d refl])
       (use digits_no_sign_prefix [OF w] F in simp_all)
  with smallest_unit_raw [OF w f len] show ?thesis by simp
qed

lemma digits_no_sign: "\<forall>c\<in>set w. is_dec c \<Longrightarrow> \<not> HasPrefix w ''-'' \<and> \<not> HasPrefix w ''+''"
  by (cases w) (auto simp: HasPrefix_def is_dec_def)

lemma convertToSmallestUnit_whole:
  fixes d :: int
  assumes w: "\<forall>c\<in>set w. is_dec c" and ne: "w \<noteq> []" and d: "0 \<le> d"
  shows "convertToSmallestUnit nd w d = Inr (nat_string (num w * 10 ^ nat d))"
proof -
  have d0: "\<not> d < 0" using d by simp
  have tw: "TrimSpace w = w" using w by (intro TrimSpace_graphic_all) (auto intro: is_dec_graphic)
  have sp: "Split CHR ''.'' (if HasPrefix w ''+'' then drop 1 w else w) = [w]"
    using digits_no_sign [OF w] w by (simp add: Split_no_sep no_point_in_digits)
  have "convertToSmallestUnit nd w d =
      Inr (if TrimLeft (w @ [] @ replicate (nat d - length ([] :: string)) CHR ''0'') CHR ''0'' = [] then ''0''
        else TrimLeft (w @ [] @ replicate (nat d - length ([] :: string)) CHR ''0'') CHR ''0'')"
    by (rule convertToSmallestUnit_run [OF d0 tw ne _ sp _ _ _ _ _ _ refl])
       (use digits_no_sign [OF w] ne d w in \<open>auto intro: isDigits_dec\<close>)
  with smallest_unit_raw [OF w, of "[]" "nat d"] ne show ?thesis
    by (auto simp: num_def split: if_splits)
qed

text \<open>On ASCII input, whatever is accepted is a decimal amount, and it is converted exactly.\<close>

lemma Split_single: "Split c s = [q] \<Longrightarrow> s = q \<and> c \<notin> set q"
  using Split_takeWhile [of c s] Split_no_sep [of c s] by (cases "c \<in> set s") auto

lemma Split_two_parts:
  assumes "Split c s = [p, q]"
  shows "s = p @ c # q \<and> c \<notin> set p \<and> c \<notin> set q"
proof -
  have cs: "c \<in> set s" and p: "p = takeWhile (\<lambda>x. x \<noteq> c) s"
    and r: "Split c (tl (dropWhile (\<lambda>x. x \<noteq> c) s)) = [q]"
    using assms Split_takeWhile [of c s] by (auto split: if_splits)
  obtain u v where s: "s = u @ c # v" and u: "c \<notin> set u"
    using cs split_list_first by fastforce
  have "takeWhile (\<lambda>x. x \<noteq> c) s = u" and "dropWhile (\<lambda>x. x \<noteq> c) s = c # v"
    unfolding s using u by (induction u) auto
  with p r s u show ?thesis using Split_single by fastforce
qed

lemma Split_cases:
  assumes "length (Split c s) \<le> 2"
  obtains (one) "Split c s = [s]" "c \<notin> set s"
    | (two) p q where "Split c s = [p, q]" "s = p @ c # q" "c \<notin> set p" "c \<notin> set q"
proof (cases "Split c s")
  case Nil
  then show ?thesis by simp
next
  case (Cons p ps)
  show ?thesis
  proof (cases ps)
    case Nil
    with Cons Split_single [of c s p] show ?thesis by (intro one) auto
  next
    case (Cons q qs)
    with assms \<open>Split c s = p # ps\<close> have "Split c s = [p, q]" by simp
    with Split_two_parts [OF this] show ?thesis by (intro two) auto
  qed
qed

lemma ascii_TrimSpace: "ascii s \<Longrightarrow> ascii (TrimSpace s)"
  using TrimSpace_set by (auto simp: ascii_def)

definition unsigned_amount :: "string \<Rightarrow> string" where
  "unsigned_amount amount =
     (let n = TrimSpace amount in if HasPrefix n ''+'' then drop 1 n else n)"

lemma ascii_unsigned_amount: "ascii s \<Longrightarrow> ascii (unsigned_amount s)"
  using ascii_TrimSpace [of s]
  by (auto simp: unsigned_amount_def Let_def ascii_def dest: in_set_dropD)

lemma convertToSmallestUnit_InrD:
  assumes "convertToSmallestUnit nd amount d = Inr r"
  defines "parts \<equiv> Split CHR ''.'' (unsigned_amount amount)"
  shows "\<not> d < 0" and "length parts \<le> 2"
    and "isDigits nd (if parts ! 0 = [] then ''0'' else parts ! 0)"
    and "length parts = 2 \<Longrightarrow> parts ! 1 = [] \<or> isDigits nd (parts ! 1)"
    and "length parts = 2 \<Longrightarrow> int (length (parts ! 1)) \<le> d"
  using assms(1)
  unfolding convertToSmallestUnit_def parts_def unsigned_amount_def Let_def
  by (auto split: if_splits)

lemma convertToSmallestUnit_same:
  "TrimSpace amount \<noteq> [] \<Longrightarrow> \<not> HasPrefix (TrimSpace amount) ''-'' \<Longrightarrow>
    TrimSpace a \<noteq> [] \<Longrightarrow> \<not> HasPrefix (TrimSpace a) ''-'' \<Longrightarrow>
    unsigned_amount a = unsigned_amount amount \<Longrightarrow>
    convertToSmallestUnit nd amount d = convertToSmallestUnit nd a d"
  unfolding convertToSmallestUnit_def unsigned_amount_def Let_def by (simp split del: if_split cong: if_cong)

lemma unsigned_amount_digits:
  "\<forall>c\<in>set w. is_dec c \<Longrightarrow> unsigned_amount w = w"
  using digits_no_sign [of w] TrimSpace_graphic_all [of w] is_dec_graphic
  by (auto simp: unsigned_amount_def Let_def)

lemma unsigned_amount_parts:
  "\<forall>c\<in>set w. is_dec c \<Longrightarrow> \<forall>c\<in>set f. is_dec c \<Longrightarrow>
    unsigned_amount (w @ CHR ''.'' # f) = w @ CHR ''.'' # f"
  using digits_no_sign_prefix [of w f] TrimSpace_amount [of w f]
  by (simp add: unsigned_amount_def Let_def)

lemma convertToSmallestUnit_InrD_head:
  assumes "convertToSmallestUnit nd amount d = Inr r"
  shows "TrimSpace amount \<noteq> []" and "\<not> HasPrefix (TrimSpace amount) ''-''"
  using assms unfolding convertToSmallestUnit_def Let_def by (auto split: if_splits)

lemma convertToSmallestUnit_accepts:
  assumes asc: "ascii amount" and run: "convertToSmallestUnit nd amount d = Inr r"
  shows "\<exists>w f. (\<forall>c\<in>set w. is_dec c) \<and> (\<forall>c\<in>set f. is_dec c) \<and> int (length f) \<le> d \<and>
    (unsigned_amount amount = w @ CHR ''.'' # f \<or> unsigned_amount amount = w \<and> f = []) \<and>
    r = nat_string (num w * 10 ^ nat d + num f * 10 ^ (nat d - length f))"
proof -
  let ?u = "unsigned_amount amount"
  note D = convertToSmallestUnit_InrD [OF run] and H = convertToSmallestUnit_InrD_head [OF run]
  have au: "ascii ?u" using asc by (rule ascii_unsigned_amount)
  from D(2) show ?thesis
  proof (cases rule: Split_cases)
    case one
    then have dec: "\<forall>c\<in>set ?u. is_dec c"
      using D(3) isDigits_ascii [OF au] by (auto split: if_splits)
    have "r = nat_string (num ?u * 10 ^ nat d)"
    proof (cases "?u = []")
      case True
      then have "unsigned_amount ''+'' = ?u"
        by (simp add: unsigned_amount_def Let_def TrimSpace_graphic graphic_def HasPrefix_def)
      then have "convertToSmallestUnit nd amount d = convertToSmallestUnit nd ''+'' d"
        using H by (intro convertToSmallestUnit_same)
          (simp_all add: TrimSpace_graphic graphic_def HasPrefix_def)
      also have "\<dots> = Inr ''0''"
        using D(1) convertToSmallestUnit_run
          [of d "''+''" "''+''" "[ [] ]" "''0''" "[]" nd "TrimLeft (''0'' @ replicate (nat d) CHR ''0'') CHR ''0''"]
        by (simp add: TrimSpace_graphic graphic_def HasPrefix_def TrimLeft_def isDigits_dec
            dropWhile_replicate_append [where xs = "[]", simplified])
      finally show ?thesis using run True by (simp add: nat_string_def num_def)
    next
      case False
      have "convertToSmallestUnit nd amount d = convertToSmallestUnit nd ?u d"
        using H False dec digits_no_sign [OF dec] TrimSpace_graphic_all [of ?u] is_dec_graphic
        by (intro convertToSmallestUnit_same) (auto simp: unsigned_amount_digits)
      with convertToSmallestUnit_whole [OF dec False] D(1) run show ?thesis by simp
    qed
    with dec D(1) show ?thesis by (intro exI [of _ ?u] exI [of _ "[]"]) (simp add: num_def)
  next
    case (two p q)
    have aw: "ascii p" and af: "ascii q" using au two(2) by (auto simp: ascii_def)
    have w: "\<forall>c\<in>set p. is_dec c"
      using D(3) two(1) isDigits_ascii [OF aw] by (auto split: if_splits)
    have f: "\<forall>c\<in>set q. is_dec c" and lf: "int (length q) \<le> d"
      using D(4,5) two(1) isDigits_ascii [OF af] by auto
    have "convertToSmallestUnit nd amount d = convertToSmallestUnit nd (p @ CHR ''.'' # q) d"
      using H digits_no_sign_prefix [OF w] two(2)
      by (intro convertToSmallestUnit_same)
         (auto simp: TrimSpace_amount [OF w f] unsigned_amount_parts [OF w f])
    with convertToSmallestUnit_parts [OF w f lf] run two(2) w f lf show ?thesis by auto
  qed
qed

subsection \<open>Base58: lemmas\<close>

lemma b58_divmod_loop_digits:
  "b58_divmod_loop x out = out @ rev (map (\<lambda>d. b58_alphabet ! d) (digits 58 x))"
proof (induction x arbitrary: out rule: less_induct)
  case (less x)
  show ?case
  proof (cases "x = 0")
    case True
    then show ?thesis by (subst b58_divmod_loop.simps) simp
  next
    case False
    then have "x div 58 < x" by simp
    from less [OF this] False show ?thesis
      by (subst b58_divmod_loop.simps) (simp add: digits_pos)
  qed
qed

lemma b58_zeros_loop_eq:
  "b58_zeros_loop bs out = out @ replicate (length (takeWhile (\<lambda>b. b = 0) bs)) CHR ''1''"
  by (induction bs arbitrary: out)
     (simp_all add: b58_alphabet_def replicate_append_same [symmetric])

text \<open>The in-place swap of the two ends computes the reverse.\<close>

lemma swap_loop_nth:
  "j < length xs \<Longrightarrow> k < length xs \<Longrightarrow>
    swap_loop i j xs ! k = (if i \<le> k \<and> k \<le> j then xs ! (i + j - k) else xs ! k)"
proof (induction i j xs rule: swap_loop.induct)
  case (1 i j xs)
  show ?case
  proof (cases "i < j")
    case False
    then have "i + j - k = k" if "i \<le> k" "k \<le> j" using that by simp
    with False show ?thesis by (subst swap_loop.simps) simp
  next
    case True
    let ?ys = "xs[i := xs ! j, j := xs ! i]"
    have "swap_loop i j xs ! k = swap_loop (i + 1) (j - 1) ?ys ! k"
      using True by (subst swap_loop.simps) simp
    also have "\<dots> = (if i + 1 \<le> k \<and> k \<le> j - 1 then ?ys ! (i + 1 + (j - 1) - k) else ?ys ! k)"
      using 1 True by simp
    also have "\<dots> = (if i \<le> k \<and> k \<le> j then xs ! (i + j - k) else xs ! k)"
      using True 1(2,3) by (auto simp: nth_list_update)
    finally show ?thesis .
  qed
qed

lemma length_swap_loop [simp]: "length (swap_loop i j xs) = length xs"
  by (induction i j xs rule: swap_loop.induct) (subst swap_loop.simps, simp)

lemma swap_loop_rev: "swap_loop 0 (length xs - 1) xs = rev xs"
proof (cases "xs = []")
  case True
  then show ?thesis by (subst swap_loop.simps) simp
next
  case False
  show ?thesis
  proof (rule nth_equalityI)
    fix k assume "k < length (swap_loop 0 (length xs - 1) xs)"
    then have k: "k < length xs" by simp
    with False show "swap_loop 0 (length xs - 1) xs ! k = rev xs ! k"
      by (subst swap_loop_nth) (auto simp: rev_nth)
  qed simp
qed

lemma base58Encode_eq:
  "base58Encode data = replicate (length (takeWhile (\<lambda>b. b = 0) data)) CHR ''1'' @
     map (\<lambda>d. b58_alphabet ! d) (digits 58 (SetBytes data))"
proof (cases "data = []")
  case True
  then show ?thesis by (simp add: base58Encode_def SetBytes_def)
next
  case False
  then show ?thesis
    by (simp only: base58Encode_def Let_def swap_loop_rev b58_divmod_loop_digits
        b58_zeros_loop_eq append_Nil rev_append rev_rev_ident rev_replicate if_False)
qed

lemma b58_alphabet_length [simp]: "length b58_alphabet = 58"
  by code_simp

lemma b58_alphabet_distinct: "distinct b58_alphabet"
  by code_simp

lemma b58_alphabet_ascii: "ascii b58_alphabet"
  unfolding ascii_def by code_simp

lemma of_char_eq_iff: "(of_char c :: nat) = of_char d \<longleftrightarrow> c = d"
  by (metis char_of_char)

lemma b58_index_from_nth:
  "distinct cs \<Longrightarrow> k < length cs \<Longrightarrow> b58_index_from i cs (of_char (cs ! k)) = Some (i + k)"
proof (induction cs arbitrary: i k)
  case (Cons c cs)
  then show ?case by (cases k) (auto simp: of_char_eq_iff)
qed simp

lemma b58_index_from_SomeD:
  "b58_index_from i cs r = Some k \<Longrightarrow> i \<le> k \<and> k - i < length cs \<and> of_char (cs ! (k - i)) = r"
proof (induction cs arbitrary: i)
  case (Cons c cs)
  show ?case
  proof (cases "of_char c = r")
    case True
    with Cons.prems show ?thesis by simp
  next
    case False
    with Cons.prems have "b58_index_from (i + 1) cs r = Some k" by simp
    from Cons.IH [OF this] have *: "i + 1 \<le> k" "k - (i + 1) < length cs" "of_char (cs ! (k - (i + 1))) = r"
      by auto
    then have "k - i = Suc (k - (i + 1))" by simp
    with * show ?thesis by simp
  qed
qed simp

definition b58_rune :: "nat \<Rightarrow> nat" where
  "b58_rune d = of_char (b58_alphabet ! d)"

interpretation b58: digit_alphabet 58 b58_rune b58_index
proof
  show "(1::nat) < 58" by simp
  show "b58_index (b58_rune d) = Some d" if "d < 58" for d
    using b58_index_from_nth [OF b58_alphabet_distinct, of d 0] that
    by (simp add: b58_index_def b58_rune_def)
  show "d < 58" if "b58_index c = Some d" for c d
    using b58_index_from_SomeD that by (fastforce simp: b58_index_def)
  show "b58_rune d = c" if "b58_index c = Some d" for c d
    using b58_index_from_SomeD that by (fastforce simp: b58_index_def b58_rune_def)
qed

lemma b58_rune_1: "d < 58 \<Longrightarrow> b58_rune d = 49 \<longleftrightarrow> d = 0"
proof -
  have "b58_rune 0 = 49" by code_simp
  then show "d < 58 \<Longrightarrow> ?thesis" using b58.enc_inj [of d 0] by simp
qed

lemma b58_value_loop_eq:
  "b58_value_loop rs x = map_option (foldl (\<lambda>a d. a * 58 + d) x) (those (map b58_index rs))"
  by (induction rs arbitrary: x) (auto split: option.splits simp: option.map_comp o_def)

lemma b58_value_loop_0: "b58_value_loop rs 0 = map_option (from_digits 58) (those (map b58_index rs))"
  by (simp add: b58_value_loop_eq from_digits_def [abs_def])

lemma takeWhile_zero_digits: "1 < B \<Longrightarrow> takeWhile (\<lambda>d. d = 0) (digits B n) = []"
proof -
  assume B: "1 < B"
  have "digits B n = dropWhile (\<lambda>d. d = 0) (digits B n)"
    using digits_from_digits [OF B, of "digits B n"] digits_less [OF B] from_digits_digits [OF B]
    by metis
  then show ?thesis
    by (metis append_self_conv2 length_0_conv length_append add_cancel_left_left
        takeWhile_dropWhile_id)
qed

lemma string_runes_b58:
  "\<forall>d\<in>set ds. d < 58 \<Longrightarrow> string_runes (map (\<lambda>d. b58_alphabet ! d) ds) = map b58_rune ds"
proof -
  assume ds: "\<forall>d\<in>set ds. d < 58"
  then have "ascii (map (\<lambda>d. b58_alphabet ! d) ds)"
    using b58_alphabet_ascii by (auto simp: ascii_def)
  then show ?thesis by (simp add: string_runes_ascii b58_rune_def)
qed

text \<open>The runes of a string are all ASCII only if its bytes are.\<close>

lemma mod_window: "n * k \<le> b \<Longrightarrow> b < n * k + n \<Longrightarrow> b mod n = b - n * (k::nat)"
  by (metis add.commute add_diff_cancel_left' le_add_diff_inverse less_diff_conv2 mod_less mod_mult_self2)

lemma two_byte_rune: "0xC2 \<le> b0 \<Longrightarrow> b0 \<le> 0xDF \<Longrightarrow> 128 \<le> (b0 mod 32) * 64 + (x::nat)"
proof -
  assume "0xC2 \<le> b0" "b0 \<le> 0xDF"
  then have "2 \<le> b0 mod 32" using mod_window [of 32 6 b0] by simp
  then show ?thesis by simp
qed

lemma three_byte_rune:
  assumes "0xE0 \<le> b0" "b0 \<le> 0xEF" "second_ok b0 b1"
  shows "128 \<le> (b0 mod 16) * 4096 + (b1 mod 64) * 64 + (x::nat)"
proof (cases "b0 = 0xE0")
  case True
  with assms(3) have "0xA0 \<le> b1" "b1 \<le> 0xBF" by (auto simp: second_ok_def cont_byte_def)
  then have "2 \<le> b1 mod 64" using mod_window [of 64 2 b1] by simp
  then show ?thesis by simp
next
  case False
  with assms have "1 \<le> b0 mod 16" using mod_window [of 16 14 b0] by simp
  then show ?thesis by simp
qed

lemma four_byte_rune:
  assumes "0xF0 \<le> b0" "b0 \<le> 0xF4" "second_ok b0 b1"
  shows "128 \<le> (b0 mod 8) * 262144 + (b1 mod 64) * 4096 + y + (x::nat)"
proof (cases "b0 = 0xF0")
  case True
  with assms(3) have "0x90 \<le> b1" "b1 \<le> 0xBF" by (auto simp: second_ok_def cont_byte_def)
  then have "1 \<le> b1 mod 64" using mod_window [of 64 2 b1] by simp
  then show ?thesis by simp
next
  case False
  with assms have "1 \<le> b0 mod 8" using mod_window [of 8 30 b0] by simp
  then show ?thesis by simp
qed

lemma runes_head_ge: "\<not> b0 < 128 \<Longrightarrow> 128 \<le> hd (runes (b0 # bs)) \<and> runes (b0 # bs) \<noteq> []"
  by (cases bs; cases "tl bs"; cases "tl (tl bs)")
     (simp_all add: two_byte_rune three_byte_rune four_byte_rune)

lemma runes_ascii_conv: "\<forall>r\<in>set (runes bs). r < 128 \<Longrightarrow> runes bs = bs"
proof (induction bs)
  case (Cons b bs)
  have b: "b < 128"
  proof (rule ccontr)
    assume "\<not> b < 128"
    from runes_head_ge [OF this, of bs] have "128 \<le> hd (runes (b # bs))" "runes (b # bs) \<noteq> []"
      by auto
    moreover from this(2) have "hd (runes (b # bs)) \<in> set (runes (b # bs))" by (rule hd_in_set)
    ultimately show False using Cons.prems by fastforce
  qed
  then have eq: "runes (b # bs) = b # runes bs" by simp
  from Cons show ?case unfolding eq by simp
qed simp

lemma base58Decode_digits:
  assumes ds: "\<forall>d\<in>set ds. d < 58" and s: "s = map (\<lambda>d. b58_alphabet ! d) ds"
  shows "base58Decode s =
    replicate (length (takeWhile (\<lambda>d. d = 0) ds)) 0 @ Bytes (from_digits 58 ds)"
proof (cases "ds = []")
  case True
  with s show ?thesis by (simp add: base58Decode_def Bytes_def)
next
  case False
  have r: "string_runes s = map b58_rune ds" using string_runes_b58 [OF ds] s by simp
  have v: "b58_value_loop (map b58_rune ds) 0 = Some (from_digits 58 ds)"
    using b58.those_dec_enc [OF ds] by (simp add: b58_value_loop_0)
  have z: "length (takeWhile (\<lambda>r. r = 49) (map b58_rune ds)) = length (takeWhile (\<lambda>d. d = 0) ds)"
    using ds by (intro length_takeWhile_map_cong) (simp add: b58_rune_1)
  have "s \<noteq> []" using False s by simp
  then show ?thesis by (simp add: base58Decode_def r v z Let_def)
qed

lemma takeWhile_zero_Bytes: "takeWhile (\<lambda>b. b = 0) (Bytes n) = []"
proof -
  have "dropWhile (\<lambda>b. b = 0) (Bytes n) = Bytes n"
    using Bytes_SetBytes [of "Bytes n"] by simp
  then show ?thesis by (simp add: dropWhile_eq_self_iff takeWhile_eq_Nil_iff)
qed

lemma takeWhile_replicate_Bytes:
  "length (takeWhile (\<lambda>b. b = 0) (replicate z 0 @ Bytes n)) = z"
  by (induction z) (simp_all add: takeWhile_zero_Bytes)

lemma takeWhile_replicate_digits:
  "1 < B \<Longrightarrow> length (takeWhile (\<lambda>d. d = 0) (replicate z 0 @ digits B n)) = z"
  by (induction z) (simp_all add: takeWhile_zero_digits)

lemma b58_string_digits:
  assumes "set s \<subseteq> set b58_alphabet"
  shows "\<exists>ds. (\<forall>d\<in>set ds. d < 58) \<and> s = map (\<lambda>d. b58_alphabet ! d) ds"
  using assms
proof (induction s)
  case (Cons c s)
  then obtain ds where "\<forall>d\<in>set ds. d < 58" "s = map (\<lambda>d. b58_alphabet ! d) ds" by auto
  moreover obtain d where "d < 58" "b58_alphabet ! d = c"
    using Cons.prems by (metis b58_alphabet_length in_set_conv_nth list.set_intros(1) subsetD)
  ultimately show ?case by (intro exI [of _ "d # ds"]) auto
qed simp

lemma base58Decode_base58Encode: "base58Decode (base58Encode data) = data"
proof -
  let ?z = "length (takeWhile (\<lambda>b. b = 0) data)" and ?x = "SetBytes data"
  have one: "CHR ''1'' = b58_alphabet ! 0" by code_simp
  have enc: "base58Encode data = map (\<lambda>d. b58_alphabet ! d) (replicate ?z 0 @ digits 58 ?x)"
    by (simp add: base58Encode_eq one)
  have "\<forall>d\<in>set (replicate ?z 0 @ digits 58 ?x). d < 58"
    using digits_less [of 58 _ ?x] by auto
  from base58Decode_digits [OF this enc]
  have "base58Decode (base58Encode data) =
      replicate (length (takeWhile (\<lambda>d. d = 0) (replicate ?z 0 @ digits 58 ?x))) 0 @ Bytes ?x"
    by (simp add: from_digits_digits)
  also have "length (takeWhile (\<lambda>d. d = 0) (replicate ?z 0 @ digits 58 ?x)) = ?z"
    by (rule takeWhile_replicate_digits) simp
  also have "replicate ?z 0 @ Bytes ?x = data"
    by (simp add: Bytes_SetBytes takeWhile_dropWhile_eq)
  finally show ?thesis .
qed

subsection \<open>Properties\<close>

text \<open>
  Also. Decoding the base58 encoding of any byte string gives the byte string back,
  leading zero bytes included.
\<close>

theorem base58_roundtrip: "base58Decode (base58Encode data) = data"
  by (rule base58Decode_base58Encode)

text \<open>
  Also. Every string over the base58 alphabet is the encoding of what it decodes to,
  so two different account strings never decode to the same bytes.
\<close>

theorem base58_decode_encode:
  assumes "set s \<subseteq> set b58_alphabet"
  shows "base58Encode (base58Decode s) = s"
proof -
  obtain ds where small: "\<forall>d\<in>set ds. d < 58" and s: "s = map (\<lambda>d. b58_alphabet ! d) ds"
    using b58_string_digits [OF assms] by blast
  let ?z = "length (takeWhile (\<lambda>d. d = 0) ds)" and ?x = "from_digits 58 ds"
  have dec: "base58Decode s = replicate ?z 0 @ Bytes ?x"
    by (rule base58Decode_digits [OF small s])
  have val: "SetBytes (replicate ?z 0 @ Bytes ?x) = ?x"
    using SetBytes_Bytes [of ?x] by (simp add: SetBytes_def)
  have one: "CHR ''1'' = b58_alphabet ! 0" by code_simp
  have "base58Encode (base58Decode s) =
      map (\<lambda>d. b58_alphabet ! d) (replicate ?z 0 @ dropWhile (\<lambda>d. d = 0) ds)"
    unfolding dec base58Encode_eq val takeWhile_replicate_Bytes
    using digits_from_digits [of 58 ds] small by (simp add: one)
  then show ?thesis by (simp only: takeWhile_dropWhile_eq s [symmetric])
qed

theorem base58_decode_encode_witness:
  "base58Encode (base58Decode ''11111111111111111111111111111111'') = ''11111111111111111111111111111111''"
  by (rule base58_decode_encode) (simp add: b58_alphabet_def)

text \<open>
  Also. A decimal amount with whole part \<open>w\<close> and fractional part \<open>f\<close> of at most
  \<open>d\<close> digits converts to exactly \<open>(w + f / 10^|f|) * 10^d\<close> smallest units, printed without
  leading zeros: no digit is lost and nothing is rounded.
\<close>

theorem convertToSmallestUnit_exact:
  fixes d :: int
  assumes "\<forall>c\<in>set w. is_dec c" and "\<forall>c\<in>set f. is_dec c" and "int (length f) \<le> d"
  shows "convertToSmallestUnit nd (w @ CHR ''.'' # f) d =
    Inr (nat_string (num w * 10 ^ nat d + num f * 10 ^ (nat d - length f)))"
  using assms by (rule convertToSmallestUnit_parts)

theorem convertToSmallestUnit_exact_witness:
  "convertToSmallestUnit (\<lambda>_. False) (''0'' @ CHR ''.'' # ''03'') 6 = Inr ''30000''"
proof -
  have "nat_string (num ''0'' * 10 ^ nat 6 + num ''03'' * 10 ^ (nat 6 - length ''03'')) = ''30000''"
    by (simp add: num_def from_digits_def dec_eval)
  then show ?thesis
    by (subst convertToSmallestUnit_exact) (simp_all add: is_dec_def)
qed

text \<open>
  Also. Nothing else is accepted: an ASCII amount that converts at all is a decimal
  number (after trimming and an optional plus sign) with at most \<open>d\<close> fractional digits, and
  the result is its exact value in smallest units.
\<close>

theorem convertToSmallestUnit_sound:
  assumes "ascii amount" and "convertToSmallestUnit nd amount d = Inr r"
  shows "\<exists>w f. (\<forall>c\<in>set w. is_dec c) \<and> (\<forall>c\<in>set f. is_dec c) \<and> int (length f) \<le> d \<and>
    (unsigned_amount amount = w @ CHR ''.'' # f \<or> unsigned_amount amount = w \<and> f = []) \<and>
    r = nat_string (num w * 10 ^ nat d + num f * 10 ^ (nat d - length f))"
  using assms by (rule convertToSmallestUnit_accepts)

theorem convertToSmallestUnit_sound_witness:
  "\<exists>w f. (\<forall>c\<in>set w. is_dec c) \<and> (\<forall>c\<in>set f. is_dec c) \<and> int (length f) \<le> 2 \<and>
    (unsigned_amount ''+1.5'' = w @ CHR ''.'' # f \<or> unsigned_amount ''+1.5'' = w \<and> f = []) \<and>
    ''150'' = nat_string (num w * 10 ^ nat 2 + num f * 10 ^ (nat 2 - length f))"
  by (rule convertToSmallestUnit_sound [of _ "\<lambda>_. False"]) code_simp+

text \<open>
  Also. Digits of other scripts pass the numeric check: the Arabic-Indic three is
  accepted, the result is not a decimal number, and reading it back as one fails.
\<close>

theorem convertToSmallestUnit_unicode_digits:
  "let nd = (\<lambda>r. 0x660 \<le> r \<and> r \<le> 0x669); three = [CHR 0xD9, CHR 0xA3]
   in convertToSmallestUnit nd three 2 = Inr (three @ ''00'') \<and> SetString10 (three @ ''00'') = None"
  by code_simp

text \<open>
  Also. Adding two integers given in decimal is exact, and anything that is not an
  integer in decimal is refused.
\<close>

theorem addDecimalStrings_correct:
  "addDecimalStrings (int_string a) (int_string b) = Inr (int_string (a + b)) \<and>
   (SetString10 s = None \<longrightarrow> addDecimalStrings s t = Inl (''invalid decimal string: '' @ s))"
  by (simp add: addDecimalStrings_def)

theorem addDecimalStrings_correct_witness:
  "addDecimalStrings ''1.5'' ''2'' = Inl ''invalid decimal string: 1.5''"
proof -
  have "SetString10 ''1.5'' = None" by code_simp
  with addDecimalStrings_correct [of 0 0 "''1.5''" "''2''"] show ?thesis by simp
qed

text \<open>
  Also. The 64-bit amount of a Solana instruction saturates: a non-negative decimal
  is passed exactly up to the largest 64-bit value and clipped to it beyond; negative or
  malformed text gives zero.
\<close>

theorem decimalStringToUint64_saturates:
  "unat (decimalStringToUint64 v) =
    (case SetString10 v of None \<Rightarrow> 0 | Some n \<Rightarrow> nat (max 0 (min n (2 ^ 64 - 1))))"
proof (cases "SetString10 v")
  case (Some n)
  have "unat (word_of_int n :: u64) = nat n" if "0 \<le> n" "n < 2 ^ 64"
    using that by (simp add: unat_eq_nat_uint uint_word_of_int)
  moreover have "unat (- 1 :: u64) = 2 ^ 64 - 1"
    by (simp add: unsigned_minus_1_eq_mask mask_eq_exp_minus_1)
  ultimately show ?thesis using Some by (auto simp: decimalStringToUint64_def)
qed (simp add: decimalStringToUint64_def)

lemma length_addressToBytes32: "length (addressToBytes32 a) = 32"
  by (simp add: addressToBytes32_def zero32_def Let_def split: option.splits)

lemma addressToBytes32_hex: "addressToBytes32 (''0x'' @ EncodeToString b) = right_align32 b"
proof -
  have "TrimPrefix (''0x'' @ EncodeToString b) ''0x'' = EncodeToString b"
    by (rule TrimPrefix_append)
  moreover have "HasPrefix (''0x'' @ EncodeToString b) ''0x''" by (rule HasPrefix_append)
  ultimately show ?thesis by (simp add: addressToBytes32_def del: append_Cons)
qed

lemma set_base58Encode: "set (base58Encode data) \<subseteq> set b58_alphabet"
proof -
  have "CHR ''1'' \<in> set b58_alphabet" by code_simp
  then show ?thesis using digits_less [of 58] by (auto simp: base58Encode_eq)
qed

lemma base58Encode_not_0x: "\<not> HasPrefix (base58Encode data) ''0x''"
proof
  assume "HasPrefix (base58Encode data) ''0x''"
  then have "CHR ''0'' \<in> set (base58Encode data)"
    by (cases "base58Encode data") (auto simp: HasPrefix_def)
  moreover have "CHR ''0'' \<notin> set b58_alphabet" by code_simp
  ultimately show False using set_base58Encode by blast
qed

lemma addressToBytes32_base58:
  assumes "data \<noteq> []"
  shows "addressToBytes32 (base58Encode data) = right_align32 data"
proof -
  have "base58Encode data \<noteq> []"
  proof
    assume "base58Encode data = []"
    then have "base58Decode (base58Encode data) = []" by (simp add: base58Decode_def)
    with assms base58Decode_base58Encode show False by simp
  qed
  with assms base58Encode_not_0x show ?thesis
    by (simp add: addressToBytes32_def Let_def base58Decode_base58Encode)
qed

text \<open>
  Also. Every address becomes a 32-byte word; a hexadecimal or base58 address of at
  most 32 bytes keeps its value (left-padded with zeros), so two different addresses of the
  same length never share a word.
\<close>

theorem addressToBytes32_word:
  "length (addressToBytes32 a) = 32 \<and>
   (length b \<le> 32 \<longrightarrow> SetBytes (addressToBytes32 (''0x'' @ EncodeToString b)) = SetBytes b) \<and>
   (length b \<le> 32 \<and> length c = length b \<and>
      addressToBytes32 (''0x'' @ EncodeToString b) = addressToBytes32 (''0x'' @ EncodeToString c) \<longrightarrow> b = c) \<and>
   (length b = 32 \<longrightarrow> addressToBytes32 (base58Encode b) = b)"
proof -
  have "addressToBytes32 (base58Encode b) = b" if "length b = 32"
    using that addressToBytes32_base58 [of b] right_align32_id [of b] by fastforce
  then show ?thesis
    using right_align32_inj [of b c]
    by (simp add: length_addressToBytes32 addressToBytes32_hex SetBytes_right_align32 del: append_Cons)
qed

theorem addressToBytes32_word_witness:
  "SetBytes (addressToBytes32 (''0x'' @ EncodeToString [0x12, 0x34])) = 0x1234 \<and>
   addressToBytes32 (base58Encode (replicate 32 7)) = replicate 32 7"
proof -
  have "SetBytes [0x12, 0x34] = 0x1234" by (simp add: SetBytes_def from_digits_def)
  then show ?thesis
    using addressToBytes32_word [of "[]" "[0x12, 0x34]" "[]"]
      addressToBytes32_word [of "[]" "replicate 32 7" "[]"] by (simp del: append_Cons)
qed

lemma length_Bytes_uuid: "length (Bytes (unat (uid :: uuid))) \<le> 16"
  using unsigned_less [of uid, where ?'a = nat] by (intro length_Bytes_le) simp

lemma length_uuid_bytes [simp]: "length (uuid_bytes uid) = 16"
  using length_Bytes_uuid [of uid] by (simp add: uuid_bytes_def Let_def)

lemma length_uuidToBytes32 [simp]: "length (uuidToBytes32 uid) = 32"
  by (simp add: uuidToBytes32_def)

text \<open>
  Also. A UUID becomes a 32-byte word of which the last 16 bytes are the UUID: its
  64-digit hexadecimal form decodes to that word, whose value is the UUID.
\<close>

theorem uuidToBytes32Hex_decodes:
  "length (uuidToBytes32Hex uid) = 64 \<and>
   DecodeString (uuidToBytes32Hex uid) = Some (uuidToBytes32 uid) \<and>
   SetBytes (uuidToBytes32 uid) = unat uid \<and> drop 16 (uuidToBytes32 uid) = uuid_bytes uid"
proof -
  have "uuidToBytes32Hex uid = EncodeToString (uuidToBytes32 uid)"
    by (simp add: uuidToBytes32Hex_def padLeft_def EVMWordSizeHex_def)
  moreover have "SetBytes (uuidToBytes32 uid) = unat uid"
    using SetBytes_Bytes [of "unat uid"]
    by (simp add: uuidToBytes32_def uuid_bytes_def Let_def SetBytes_def)
  ultimately show ?thesis by (simp add: uuidToBytes32_def)
qed

text \<open>
  Also. An Anchor string field is its length in four little-endian bytes followed by
  its bytes, so a reader recovers the string and the rest of the instruction; an Anchor
  amount recovers from its eight little-endian bytes.
\<close>

theorem encodeAnchorString_parses:
  assumes "length s < 2 ^ 32"
  shows "let d = encodeAnchorString s @ rest; n = le_val (take 4 d)
    in n = length s \<and> string_of (take n (drop 4 d)) = s \<and> drop (4 + n) d = rest \<and>
       le_val (u64ToLE v) = unat v"
proof -
  have n: "le_val (le_bytes 4 (length s mod 4294967296)) = length s"
    using assms by (simp add: le_val_le_bytes)
  have v: "unat v < 256 ^ 8" using unsigned_less [of v, where ?'a = nat] by simp
  then have "le_val (u64ToLE v) = unat v" by (simp add: u64ToLE_def le_val_le_bytes)
  then show ?thesis by (simp add: encodeAnchorString_def Let_def n)
qed

theorem encodeAnchorString_parses_witness:
  "let d = encodeAnchorString ''eip155:8453'' @ [1, 2]; n = le_val (take 4 d)
    in n = 11 \<and> string_of (take n (drop 4 d)) = ''eip155:8453'' \<and> drop (4 + n) d = [1, 2] \<and>
       le_val (u64ToLE 7) = 7"
proof -
  have len: "length ''eip155:8453'' = 11" and seven: "unat (7 :: u64) = 7"
    and small: "length ''eip155:8453'' < 2 ^ 32" by simp_all
  from encodeAnchorString_parses [OF small, of "[1, 2]" 7] show ?thesis
    unfolding len seven .
qed

end
