(* ===== verification/Domain_Errors.thy ===== *)
theory Domain_Errors
  imports Go_Strings
begin

text \<open>
  The domain errors of \<^verbatim>\<open>internal/domain/errors/errors.go\<close> and their rendering as an HTTP
  response (\<^verbatim>\<open>internal/interfaces/http/response/response.go\<close>). A Go \<^verbatim>\<open>error\<close> is one of the
  declared sentinels, a text (\<^verbatim>\<open>errors.New\<close>, \<^verbatim>\<open>fmt.Errorf\<close>), a wrapping
  \<^verbatim>\<open>fmt.Errorf("...: %w", err)\<close>, or an \<^verbatim>\<open>AppError\<close>.
\<close>

datatype sentinel =
    ErrNotFound | ErrAlreadyExists | ErrInvalidInput | ErrBadRequest | ErrUnauthorized
  | ErrForbidden | ErrInvalidCredentials | ErrTokenExpired | ErrEmailNotVerified
  | ErrMerchantNotActive | ErrPaymentFailed | ErrInsufficientFunds | ErrUnsupportedChain
  | ErrUnsupportedToken

fun sentinel_text :: "sentinel \<Rightarrow> string" where
  "sentinel_text ErrNotFound = ''resource not found''"
| "sentinel_text ErrAlreadyExists = ''resource already exists''"
| "sentinel_text ErrInvalidInput = ''invalid input''"
| "sentinel_text ErrBadRequest = ''bad request''"
| "sentinel_text ErrUnauthorized = ''unauthorized''"
| "sentinel_text ErrForbidden = ''forbidden''"
| "sentinel_text ErrInvalidCredentials = ''invalid credentials''"
| "sentinel_text ErrTokenExpired = ''token expired''"
| "sentinel_text ErrEmailNotVerified = ''email not verified''"
| "sentinel_text ErrMerchantNotActive = ''merchant not active''"
| "sentinel_text ErrPaymentFailed = ''payment failed''"
| "sentinel_text ErrInsufficientFunds = ''insufficient funds''"
| "sentinel_text ErrUnsupportedChain = ''unsupported chain''"
| "sentinel_text ErrUnsupportedToken = ''unsupported token''"

definition CodeNotFound :: string where "CodeNotFound = ''ERR_NOT_FOUND''"
definition CodeInvalidInput :: string where "CodeInvalidInput = ''ERR_INVALID_INPUT''"
definition CodeBadRequest :: string where "CodeBadRequest = ''ERR_BAD_REQUEST''"
definition CodeUnauthorized :: string where "CodeUnauthorized = ''ERR_UNAUTHORIZED''"
definition CodeForbidden :: string where "CodeForbidden = ''ERR_FORBIDDEN''"
definition CodeInternalError :: string where "CodeInternalError = ''ERR_INTERNAL_ERROR''"
definition CodeConflict :: string where "CodeConflict = ''ERR_CONFLICT''"

datatype gerror =
    Sentinel sentinel
  | ErrorString string
  | WrapErr string gerror
  | AppError (Status: int) (Code: string) (Message: string) (Err: "gerror option")

type_synonym 'a result = "gerror + 'a"

text \<open>The text of an error (method \<^verbatim>\<open>Error\<close>): an \<^verbatim>\<open>AppError\<close> shows its cause when it has one.\<close>

fun error_text :: "gerror \<Rightarrow> string" where
  "error_text (Sentinel s) = sentinel_text s"
| "error_text (ErrorString m) = m"
| "error_text (WrapErr m e) = m @ '': '' @ error_text e"
| "error_text (AppError st c m (Some e)) = error_text e"
| "error_text (AppError st c m None) = m"

text \<open>\<^verbatim>\<open>errors.Is\<close> follows \<^verbatim>\<open>%w\<close> wrapping; \<^verbatim>\<open>AppError\<close> has no \<^verbatim>\<open>Unwrap\<close> method.\<close>

fun errors_Is :: "gerror \<Rightarrow> sentinel \<Rightarrow> bool" where
  "errors_Is (Sentinel s) t \<longleftrightarrow> s = t"
| "errors_Is (ErrorString m) t \<longleftrightarrow> False"
| "errors_Is (WrapErr m e) t \<longleftrightarrow> errors_Is e t"
| "errors_Is (AppError st c m e) t \<longleftrightarrow> False"

definition NewAppError :: "int \<Rightarrow> string \<Rightarrow> string \<Rightarrow> gerror option \<Rightarrow> gerror" where
  "NewAppError status code message err = AppError status code message err"

definition NotFound :: "string \<Rightarrow> gerror" where
  "NotFound message = NewAppError 404 CodeNotFound message (Some (Sentinel ErrNotFound))"

definition BadRequest :: "string \<Rightarrow> gerror" where
  "BadRequest message = NewAppError 400 CodeInvalidInput message (Some (Sentinel ErrInvalidInput))"

definition Unauthorized :: "string \<Rightarrow> gerror" where
  "Unauthorized message = NewAppError 401 CodeUnauthorized message (Some (Sentinel ErrUnauthorized))"

definition Forbidden :: "string \<Rightarrow> gerror" where
  "Forbidden message = NewAppError 403 CodeForbidden message (Some (Sentinel ErrForbidden))"

definition InternalError :: "gerror option \<Rightarrow> gerror" where
  "InternalError err = NewAppError 500 CodeInternalError ''internal server error'' err"

definition Conflict :: "string \<Rightarrow> gerror" where
  "Conflict message = NewAppError 409 CodeConflict message (Some (Sentinel ErrAlreadyExists))"

definition NewError :: "string \<Rightarrow> gerror option \<Rightarrow> gerror" where
  "NewError message err = AppError 400 CodeBadRequest message err"

definition InternalServerError :: "string \<Rightarrow> gerror" where
  "InternalServerError message = NewAppError 500 CodeInternalError message None"

subsection \<open>HTTP rendering\<close>

record http_error =
  resp_status :: int
  resp_code :: string
  resp_message :: string

definition response_Error :: "gerror \<Rightarrow> http_error" where
  "response_Error err =
     (let appErr = (case err of AppError st c m e \<Rightarrow> err | _ \<Rightarrow> InternalError (Some err))
      in \<lparr>resp_status = Status appErr, resp_code = Code appErr, resp_message = Message appErr\<rparr>)"

lemmas app_error_defs =
  NewAppError_def NotFound_def BadRequest_def Unauthorized_def Forbidden_def InternalError_def
  Conflict_def NewError_def InternalServerError_def

text \<open>
  Also. An error that is not an application error never reaches the client: whatever
  a repository or a library reports is rendered as status 500 with one fixed message, and the
  status of an application error is the one it was built with.
\<close>

theorem response_hides_internal_errors:
  "(\<forall>st c m e. err \<noteq> AppError st c m e) \<Longrightarrow>
     response_Error err = \<lparr>resp_status = 500, resp_code = CodeInternalError,
       resp_message = ''internal server error''\<rparr>"
  by (cases err) (simp_all add: response_Error_def app_error_defs)

theorem response_hides_internal_errors_witness:
  "response_Error (WrapErr ''failed to commit transaction'' (ErrorString ''pq: password authentication failed'')) =
     \<lparr>resp_status = 500, resp_code = CodeInternalError, resp_message = ''internal server error''\<rparr>"
  by (rule response_hides_internal_errors) simp

end
