(* ===== verification/Sql_Table.thy ===== *)
theory Sql_Table
  imports Domain_Errors "HOL-Library.Multiset"
begin

text \<open>
  Tables as the repositories use them. A table is the list of its rows; the statements the
  repositories issue have their SQL meaning: \<open>select_where\<close> filters, \<open>update_where\<close> rewrites
  the matching rows and counts them, \<open>first_by\<close> is \<^verbatim>\<open>ORDER BY\<close> primary key \<^verbatim>\<open>LIMIT 1\<close>
  (GORM's \<^verbatim>\<open>First\<close>), \<open>insert_row\<close> refuses a duplicate key. A \<^verbatim>\<open>LIMIT\<close> without an order may
  return any rows that match: the choice is a parameter \<open>pick\<close>, of which \<open>limit_ok\<close> states
  the documented behaviour. A statement can also fail in the driver; the outcome is a
  parameter of type \<open>fault\<close>.
\<close>

type_synonym 'r table = "'r list"
type_synonym fault = "gerror option"
type_synonym 'r chooser = "nat \<Rightarrow> 'r list \<Rightarrow> 'r list"

definition select_where :: "('r \<Rightarrow> bool) \<Rightarrow> 'r table \<Rightarrow> 'r list" where
  "select_where p t = filter p t"

definition update_where :: "('r \<Rightarrow> bool) \<Rightarrow> ('r \<Rightarrow> 'r) \<Rightarrow> 'r table \<Rightarrow> 'r table \<times> nat" where
  "update_where p f t = (map (\<lambda>r. if p r then f r else r) t, length (filter p t))"

definition first_by :: "('r \<Rightarrow> 'k::linorder) \<Rightarrow> ('r \<Rightarrow> bool) \<Rightarrow> 'r table \<Rightarrow> 'r option" where
  "first_by pk p t =
     (case filter p t of
        [] \<Rightarrow> None
      | r # rs \<Rightarrow> Some (foldl (\<lambda>m x. if pk x < pk m then x else m) r rs))"

definition duplicate_key :: gerror where
  "duplicate_key = ErrorString ''duplicate key value violates unique constraint''"

definition insert_row :: "('r \<Rightarrow> 'k) \<Rightarrow> 'r \<Rightarrow> 'r table \<Rightarrow> 'r table result" where
  "insert_row pk r t = (if pk r \<in> pk ` set t then Inl duplicate_key else Inr (t @ [r]))"

definition limit_ok :: "'r chooser \<Rightarrow> bool" where
  "limit_ok pick \<longleftrightarrow>
     (\<forall>n rs. mset (pick n rs) \<subseteq># mset rs \<and> length (pick n rs) = min n (length rs))"

text \<open>
  The statement of an \<^verbatim>\<open>UPDATE ... WHERE id = ?\<close> followed by the check of the affected rows,
  which every repository writes the same way.
\<close>

definition update_by_id ::
  "fault \<Rightarrow> ('r \<Rightarrow> 'k) \<Rightarrow> 'k \<Rightarrow> ('r \<Rightarrow> 'r) \<Rightarrow> 'r table \<Rightarrow> gerror option \<times> 'r table" where
  "update_by_id flt pk k f t =
     (case flt of
        Some e \<Rightarrow> (Some e, t)
      | None \<Rightarrow>
          let (t', n) = update_where (\<lambda>r. pk r = k) f t
          in if n = 0 then (Some (Sentinel ErrNotFound), t') else (None, t'))"

text \<open>The same with any condition, for the tables whose deleted rows stay behind.\<close>

definition update_checked ::
  "fault \<Rightarrow> ('r \<Rightarrow> bool) \<Rightarrow> ('r \<Rightarrow> 'r) \<Rightarrow> 'r table \<Rightarrow> gerror option \<times> 'r table" where
  "update_checked flt p f t =
     (case flt of
        Some e \<Rightarrow> (Some e, t)
      | None \<Rightarrow>
          let (t', n) = update_where p f t
          in if n = 0 then (Some (Sentinel ErrNotFound), t') else (None, t'))"

definition get_by_id :: "fault \<Rightarrow> ('r \<Rightarrow> 'k::linorder) \<Rightarrow> 'k \<Rightarrow> 'r table \<Rightarrow> 'r result" where
  "get_by_id flt pk k t =
     (case flt of
        Some e \<Rightarrow> Inl e
      | None \<Rightarrow> (case first_by pk (\<lambda>r. pk r = k) t of
                  None \<Rightarrow> Inl (Sentinel ErrNotFound) | Some r \<Rightarrow> Inr r))"

lemma distinct_submset:
  assumes "mset xs \<subseteq># mset ys" "distinct ys"
  shows "distinct xs"
  unfolding distinct_count_atmost_1
proof
  fix a
  have "count (mset xs) a \<le> count (mset ys) a" using assms(1) by (rule mset_subset_eq_count)
  moreover have "count (mset ys) a \<le> 1" using assms(2) by (simp add: distinct_count_atmost_1)
  ultimately have "count (mset xs) a \<le> 1" by linarith
  then show "count (mset xs) a = (if a \<in> set xs then 1 else 0)"
    using count_greater_zero_iff [of "mset xs" a] by (cases "count (mset xs) a") auto
qed

lemma limit_ok_take: "limit_ok take"
  unfolding limit_ok_def
proof (intro allI conjI)
  fix n :: nat and rs :: "'a list"
  have "mset rs = mset (take n rs) + mset (drop n rs)"
    by (metis append_take_drop_id mset_append)
  then show "mset (take n rs) \<subseteq># mset rs" by simp
  show "length (take n rs) = min n (length rs)" by (simp add: min.commute)
qed

lemma limit_ok_set: "limit_ok pick \<Longrightarrow> set (pick n rs) \<subseteq> set rs"
  unfolding limit_ok_def by (metis set_mset_mono set_mset_mset)

lemma limit_ok_length: "limit_ok pick \<Longrightarrow> length (pick n rs) = min n (length rs)"
  by (simp add: limit_ok_def)

lemma limit_ok_all:
  assumes "limit_ok pick" "length rs \<le> n"
  shows "set (pick n rs) = set rs"
proof -
  have sub: "mset (pick n rs) \<subseteq># mset rs" and len: "length (pick n rs) = length rs"
    using assms by (auto simp: limit_ok_def)
  have "mset (pick n rs) = mset rs"
    using sub len by (metis mset_subset_size size_mset subset_mset.le_imp_less_or_eq less_irrefl)
  then show ?thesis by (metis set_mset_mset)
qed

lemma first_by_foldl_in:
  "foldl (\<lambda>m x. if pk x < (pk m :: 'k::linorder) then x else m) r rs \<in> set (r # rs)"
proof (induction rs arbitrary: r)
  case (Cons x rs)
  then show ?case using Cons [of "if pk x < pk r then x else r"] by (auto split: if_splits)
qed simp

lemma first_by_None [table_simps]: "first_by pk p t = None \<longleftrightarrow> (\<forall>r\<in>set t. \<not> p r)"
proof -
  have "first_by pk p t = None \<longleftrightarrow> filter p t = []"
    by (simp add: first_by_def split: list.splits)
  then show ?thesis by (simp add: filter_empty_conv)
qed

lemma first_by_SomeD: "first_by pk p t = Some r \<Longrightarrow> r \<in> set t \<and> p r"
proof -
  assume "first_by pk p t = Some r"
  then obtain x xs where f: "filter p t = x # xs"
    and r: "r = foldl (\<lambda>m x. if pk x < pk m then x else m) x xs"
    by (auto simp: first_by_def split: list.splits)
  have "r \<in> set (filter p t)" unfolding f r by (rule first_by_foldl_in)
  then show ?thesis by simp
qed

lemma first_by_key:
  assumes "distinct (map pk t)" "r \<in> set t"
  shows "first_by pk (\<lambda>x. pk x = pk r) t = Some r"
proof -
  have "first_by pk (\<lambda>x. pk x = pk r) t \<noteq> None" using assms by (auto simp: table_simps)
  then obtain x where x: "first_by pk (\<lambda>x. pk x = pk r) t = Some x" by blast
  from first_by_SomeD [OF x] have "x \<in> set t" "pk x = pk r" by auto
  with assms have "x = r" by (metis distinct_map inj_on_def)
  with x show ?thesis by simp
qed

lemma get_by_id_found:
  "distinct (map pk t) \<Longrightarrow> r \<in> set t \<Longrightarrow> get_by_id None pk (pk r) t = Inr r"
  by (simp add: get_by_id_def first_by_key)

lemma get_by_id_InrD: "get_by_id flt pk k t = Inr r \<Longrightarrow> flt = None \<and> r \<in> set t \<and> pk r = k"
  by (auto simp: get_by_id_def dest: first_by_SomeD split: option.splits)

lemma get_by_id_missing: "k \<notin> pk ` set t \<Longrightarrow> get_by_id None pk k t = Inl (Sentinel ErrNotFound)"
  by (auto simp: get_by_id_def first_by_None split: option.splits dest: first_by_SomeD)

lemma update_where_rows [simp]: "fst (update_where p f t) = map (\<lambda>r. if p r then f r else r) t"
  by (simp add: update_where_def)

lemma update_by_id_table:
  "snd (update_by_id flt pk k f t) =
     (if flt = None then map (\<lambda>r. if pk r = k then f r else r) t else t)"
  by (auto simp: update_by_id_def update_where_def split: option.splits)

lemma update_by_id_error:
  "fst (update_by_id flt pk k f t) =
     (case flt of Some e \<Rightarrow> Some e
      | None \<Rightarrow> if k \<in> pk ` set t then None else Some (Sentinel ErrNotFound))"
  by (auto simp: update_by_id_def update_where_def filter_empty_conv split: option.splits)

lemma update_by_id_keys:
  "(\<And>r. pk (f r) = pk r) \<Longrightarrow> map pk (snd (update_by_id flt pk k f t)) = map pk t"
  by (simp add: update_by_id_table)

lemma update_checked_table:
  "snd (update_checked flt p f t) = (if flt = None then map (\<lambda>r. if p r then f r else r) t else t)"
  by (auto simp: update_checked_def update_where_def split: option.splits)

lemma update_checked_error:
  "fst (update_checked flt p f t) =
     (case flt of Some e \<Rightarrow> Some e
      | None \<Rightarrow> if \<exists>r\<in>set t. p r then None else Some (Sentinel ErrNotFound))"
  by (auto simp: update_checked_def update_where_def filter_empty_conv split: option.splits)

lemma insert_row_InrD:
  "insert_row pk r t = Inr t' \<Longrightarrow> t' = t @ [r] \<and> pk r \<notin> pk ` set t"
  by (auto simp: insert_row_def split: if_splits)

lemma insert_row_distinct:
  "insert_row pk r t = Inr t' \<Longrightarrow> distinct (map pk t) \<Longrightarrow> distinct (map pk t')"
  by (auto dest!: insert_row_InrD)

subsection \<open>Tables whose rows expire\<close>

text \<open>
  Quotes, partner sessions and payment requests share one contract: rows have a key, a
  status that is either live or not, an expiry time, and an operation that expires a row.
  The expiry jobs read the due rows (live and past their time) and expire them by key.
\<close>

definition due_rows :: "'r chooser \<Rightarrow> ('r \<Rightarrow> bool) \<Rightarrow> ('r \<Rightarrow> time) \<Rightarrow> nat \<Rightarrow> time \<Rightarrow> 'r table \<Rightarrow> 'r list" where
  "due_rows pick live expires limit now t = pick limit (select_where (\<lambda>r. live r \<and> expires r < now) t)"

definition expire_keys :: "('r \<Rightarrow> 'k) \<Rightarrow> ('r \<Rightarrow> 'r) \<Rightarrow> 'k list \<Rightarrow> 'r table \<Rightarrow> 'r table" where
  "expire_keys pk expire ids t = fst (update_where (\<lambda>r. pk r \<in> set ids) expire t)"

locale expirable =
  fixes pk :: "'r \<Rightarrow> uuid" and live :: "'r \<Rightarrow> bool" and expires :: "'r \<Rightarrow> time"
    and expire :: "time \<Rightarrow> 'r \<Rightarrow> 'r"
  assumes expire_pk: "pk (expire now r) = pk r"
    and expire_dead: "\<not> live (expire now r)"
begin

lemma expire_keys_pk: "map pk (expire_keys pk (expire now) ids t) = map pk t"
  by (simp add: expire_keys_def expire_pk)

text \<open>One pass of a job, when nothing happens between its two statements.\<close>

lemma pass_keeps_others:
  assumes lim: "limit_ok pick" and key: "distinct (map pk t)" and r: "r \<in> set t"
    and nd: "\<not> (live r \<and> expires r < now)"
  shows "r \<in> set (expire_keys pk (expire now') (map pk (due_rows pick live expires n now t)) t)"
proof -
  have "pk r \<notin> pk ` set (due_rows pick live expires n now t)"
  proof
    assume "pk r \<in> pk ` set (due_rows pick live expires n now t)"
    then obtain x where x: "x \<in> set (due_rows pick live expires n now t)" "pk x = pk r" by auto
    then have "x \<in> set t" "live x \<and> expires x < now"
      using limit_ok_set [OF lim, of n "select_where (\<lambda>r. live r \<and> expires r < now) t"]
      by (auto simp: due_rows_def select_where_def)
    moreover have "x = r" using key r x(2) \<open>x \<in> set t\<close> by (metis distinct_map inj_on_def)
    ultimately show False using nd by simp
  qed
  with r show ?thesis by (force simp: expire_keys_def)
qed

lemma pass_rows:
  assumes "r' \<in> set (expire_keys pk (expire now') ids t)"
  shows "r' \<in> set t \<and> pk r' \<notin> set ids \<or> (\<exists>r\<in>set t. pk r \<in> set ids \<and> r' = expire now' r)"
  using assms by (auto simp: expire_keys_def)

lemma pass_expires_all:
  assumes lim: "limit_ok pick"
    and few: "length (filter (\<lambda>r. live r \<and> expires r < now) t) \<le> n"
    and r': "r' \<in> set (expire_keys pk (expire now') (map pk (due_rows pick live expires n now t)) t)"
  shows "\<not> (live r' \<and> expires r' < now)"
proof
  assume due: "live r' \<and> expires r' < now"
  have "set (due_rows pick live expires n now t) = set (filter (\<lambda>r. live r \<and> expires r < now) t)"
    unfolding due_rows_def select_where_def by (rule limit_ok_all [OF lim few])
  with pass_rows [OF r'] due expire_dead show False by fastforce
qed

text \<open>Each pass makes progress: it takes the full batch off the number of due rows.\<close>

lemma pass_progress:
  assumes lim: "limit_ok pick" and key: "distinct (map pk t)"
  shows "length (filter (\<lambda>r. live r \<and> expires r < now)
      (expire_keys pk (expire now') (map pk (due_rows pick live expires n now t)) t)) =
    length (filter (\<lambda>r. live r \<and> expires r < now) t) - n"
proof -
  let ?due = "\<lambda>r. live r \<and> expires r < now"
  let ?batch = "due_rows pick live expires n now t"
  have sub: "set ?batch \<subseteq> set (filter ?due t)"
    unfolding due_rows_def select_where_def by (rule limit_ok_set [OF lim])
  have "mset ?batch \<subseteq># mset (filter ?due t)"
    using lim unfolding due_rows_def select_where_def limit_ok_def by blast
  moreover have "distinct (filter ?due t)" using key by (simp add: distinct_map)
  ultimately have dist: "distinct ?batch"
    by (rule distinct_submset)
  have inj: "inj_on pk (set t)" using key by (simp add: distinct_map)
  have step: "?due (if pk r \<in> pk ` set ?batch then expire now' r else r) \<longleftrightarrow> ?due r \<and> r \<notin> set ?batch"
    if "r \<in> set t" for r
  proof -
    have "pk r \<in> pk ` set ?batch \<longleftrightarrow> r \<in> set ?batch"
      using inj sub that by (auto dest: inj_onD)
    then show ?thesis using expire_dead sub by auto
  qed
  have "length (filter ?due (expire_keys pk (expire now') (map pk ?batch) t)) =
      length (filter (\<lambda>r. ?due (if pk r \<in> pk ` set ?batch then expire now' r else r)) t)"
    by (simp add: expire_keys_def filter_map o_def)
  also have "filter (\<lambda>r. ?due (if pk r \<in> pk ` set ?batch then expire now' r else r)) t =
      filter (\<lambda>r. r \<notin> set ?batch) (filter ?due t)"
    using step by (simp add: conj_commute cong: filter_cong)
  also have "length \<dots> = card (set (filter ?due t) - set ?batch)"
    using key distinct_card [of "filter (\<lambda>r. r \<notin> set ?batch) (filter ?due t)"]
    by (simp add: distinct_map set_diff_eq)
  also have "\<dots> = card (set (filter ?due t)) - card (set ?batch)"
    using sub by (intro card_Diff_subset) auto
  also have "\<dots> = length (filter ?due t) - length ?batch"
    using key dist distinct_card [of "filter ?due t"] by (simp add: distinct_card distinct_map)
  also have "\<dots> = length (filter ?due t) - n"
    using limit_ok_length [OF lim, of n "filter ?due t"] by (simp add: due_rows_def select_where_def)
  finally show ?thesis .
qed

end

end
