(* ===== verification/Paging.thy ===== *)
theory Paging
  imports Sql_Table
begin

text \<open>
  Ordered, paged and searched queries, and the pagination parameters of
  \<^verbatim>\<open>pkg/utils/pagination.go\<close>. \<^verbatim>\<open>ORDER BY\<close> may order rows of equal key in any way: the ordering
  is a parameter, of which \<open>order_ok\<close> states the documented behaviour. Go's \<^verbatim>\<open>int\<close> has 64
  bits, so products wrap around (\<open>wrap64\<close>).
\<close>

subsection \<open>Order and page\<close>

type_synonym 'r orderer = "'r list \<Rightarrow> 'r list"

definition order_ok :: "('r \<Rightarrow> int) \<Rightarrow> 'r orderer \<Rightarrow> bool" where
  "order_ok key ord \<longleftrightarrow> (\<forall>rs. mset (ord rs) = mset rs \<and> sorted (map key (ord rs)))"

text \<open>
  The \<^verbatim>\<open>LIMIT\<close> and \<^verbatim>\<open>OFFSET\<close> clauses GORM writes: none for a negative limit, none for an offset
  that is not positive.
\<close>

definition sql_page :: "int \<Rightarrow> int \<Rightarrow> 'r list \<Rightarrow> 'r list" where
  "sql_page limit offset rs =
     (let rest = (if offset > 0 then drop (nat offset) rs else rs)
      in if limit \<ge> 0 then take (nat limit) rest else rest)"

lemma order_ok_sort_key: "order_ok key (sort_key key)"
  by (simp add: order_ok_def)

lemma order_ok_set: "order_ok key ord \<Longrightarrow> set (ord rs) = set rs"
  unfolding order_ok_def by (metis set_mset_mset)

lemma order_ok_length: "order_ok key ord \<Longrightarrow> length (ord rs) = length rs"
  unfolding order_ok_def by (metis size_mset)

lemma sql_page_concat:
  assumes "0 < limit"
  shows "concat (map (\<lambda>i. sql_page limit (int i * limit) rs) [0..<n]) = take (n * nat limit) rs"
proof (induction n)
  case (Suc n)
  have "sql_page limit (int n * limit) rs = take (nat limit) (drop (n * nat limit) rs)"
    using assms by (cases "n = 0") (simp_all add: sql_page_def nat_mult_distrib Let_def)
  then show ?case using Suc take_add [of "n * nat limit" "nat limit" rs] by (simp add: add.commute)
qed simp

subsection \<open>Search\<close>

text \<open>
  The \<^verbatim>\<open>LIKE\<close> patterns of SQL, for ASCII text: a percent sign matches any text, an underscore any
  character, a backslash escapes. \<^verbatim>\<open>ILIKE\<close> ignores case.
\<close>

function sql_like :: "string \<Rightarrow> string \<Rightarrow> bool" where
  "sql_like p s =
     (case p of
        [] \<Rightarrow> s = []
      | c # p' \<Rightarrow>
          if c = CHR ''%'' then sql_like p' s \<or> (if s = [] then False else sql_like p (tl s))
          else if s = [] then False
          else if c = CHR ''_'' then sql_like p' (tl s)
          else if c = CHR 92 \<and> p' \<noteq> [] then hd p' = hd s \<and> sql_like (tl p') (tl s)
          else c = hd s \<and> sql_like p' (tl s))"
  by pat_completeness auto
termination
  by (relation "measures [\<lambda>(p, s). length p + length s]") (auto simp: less_Suc_eq_le neq_Nil_conv)

declare sql_like.simps [simp del]

definition sql_ilike :: "string \<Rightarrow> string \<Rightarrow> bool" where
  "sql_ilike p s \<longleftrightarrow> sql_like (ToLower p) (ToLower s)"

subsection \<open>Pagination parameters\<close>

record PaginationParams =
  Page :: int
  Limit :: int

record PaginationMeta =
  meta_Page :: int
  meta_Limit :: int
  meta_TotalCount :: int
  meta_TotalPages :: int

definition GetPaginationParams :: "int \<Rightarrow> int \<Rightarrow> PaginationParams" where
  "GetPaginationParams page limit =
     \<lparr>Page = (if page < 1 then 1 else page), Limit = (if limit < 0 then 0 else limit)\<rparr>"

definition CalculateOffset :: "PaginationParams \<Rightarrow> int" where
  "CalculateOffset p = (if Page p < 1 then 0 else wrap64 ((Page p - 1) * Limit p))"

text \<open>
  The quotient is computed in double precision and rounded up; that is the exact ceiling as
  long as the count is below \<^verbatim>\<open>2^53\<close>, which is how it is written here.
\<close>

definition CalculateMeta :: "int \<Rightarrow> int \<Rightarrow> int \<Rightarrow> PaginationMeta" where
  "CalculateMeta totalCount page limit =
     (if limit \<le> 0 then
        \<lparr>meta_Page = 1, meta_Limit = totalCount, meta_TotalCount = totalCount, meta_TotalPages = 1\<rparr>
      else
        let totalPages = (totalCount + limit - 1) div limit;
            totalPages = (if totalPages < 0 then 0 else totalPages) in
        \<lparr>meta_Page = page, meta_Limit = limit, meta_TotalCount = totalCount, meta_TotalPages = totalPages\<rparr>)"

text \<open>A query with pagination: a limit of zero means all rows.\<close>

definition paginate :: "PaginationParams \<Rightarrow> 'r list \<Rightarrow> 'r list" where
  "paginate p rs = (if Limit p > 0 then sql_page (Limit p) (CalculateOffset p) rs else rs)"

lemma sql_like_Nil [simp]: "sql_like [] s \<longleftrightarrow> s = []"
  by (simp add: sql_like.simps)

lemma sql_like_any [simp]: "sql_like ''%'' s"
  by (induction s) (simp_all add: sql_like.simps [of "''%''"])

lemma sql_like_percent:
  "sql_like (CHR ''%'' # p) s \<longleftrightarrow> (\<exists>t. suffix t s \<and> sql_like p t)"
proof (induction s)
  case Nil
  then show ?case by (subst sql_like.simps) simp
next
  case (Cons c s)
  show ?case
    by (subst sql_like.simps) (auto simp: Cons suffix_Cons)
qed

lemma sql_like_literal:
  assumes "\<forall>c\<in>set w. c \<notin> {CHR ''%'', CHR ''_'', CHR 92}"
  shows "sql_like (w @ ''%'') s \<longleftrightarrow> prefix w s"
  using assms
proof (induction w arbitrary: s)
  case (Cons c w)
  then show ?case by (subst sql_like.simps) (cases s; auto)
qed simp

text \<open>
  Also. Searching with a term that has none of the pattern characters finds exactly the
  rows whose text contains the term, letters compared without case.
\<close>

theorem search_contains:
  assumes "\<forall>c\<in>set w. c \<notin> {CHR ''%'', CHR ''_'', CHR 92}"
  shows "sql_ilike (''%'' @ w @ ''%'') s \<longleftrightarrow> Contains (ToLower s) (ToLower w)"
proof -
  have low: "lower_char c \<in> {CHR ''%'', CHR ''_'', CHR 92} \<longleftrightarrow> c \<in> {CHR ''%'', CHR ''_'', CHR 92}" for c
  proof -
    have "(char_of n :: char) \<notin> {CHR ''%'', CHR ''_'', CHR 92}" if "97 \<le> n" "n \<le> 122" for n :: nat
      using that by (auto dest!: arg_cong [of _ _ "of_char :: char \<Rightarrow> nat"])
    then show ?thesis by (auto simp: lower_char_def)
  qed
  have "\<forall>c\<in>set (ToLower w). c \<notin> {CHR ''%'', CHR ''_'', CHR 92}"
    using assms low by (auto simp: ToLower_def)
  from sql_like_literal [OF this] have "sql_like (CHR ''%'' # ToLower w @ ''%'') t \<longleftrightarrow> sublist (ToLower w) t" for t
    by (auto simp: sql_like_percent sublist_altdef')
  moreover have "lower_char (CHR ''%'') = CHR ''%''" by (simp add: lower_char_def)
  ultimately show ?thesis by (simp add: sql_ilike_def Contains_sublist ToLower_def)
qed

theorem search_contains_witness:
  "sql_ilike (''%'' @ ''main'' @ ''%'') ''https://MAINnet'' \<longleftrightarrow> Contains (ToLower ''https://MAINnet'') (ToLower ''main'')"
  by (rule search_contains) simp

lemma pages_ceiling:
  fixes n :: int
  assumes "0 < limit" "0 \<le> n"
  shows "(n + limit - 1) div limit * limit \<ge> n \<and> ((n + limit - 1) div limit - 1) * limit < n"
proof -
  define q where "q = (n + limit - 1) div limit"
  have "q * limit + (n + limit - 1) mod limit = n + limit - 1" unfolding q_def by (rule div_mult_mod_eq)
  moreover have "0 \<le> (n + limit - 1) mod limit" "(n + limit - 1) mod limit < limit" using assms by simp_all
  ultimately have "n \<le> q * limit \<and> q * limit - limit < n" by linarith
  then show ?thesis unfolding q_def by (simp add: left_diff_distrib)
qed

text \<open>
  Also. Page numbers: when the products fit in 64 bits, the pages counted by the metadata
  tile the result (the last one is not empty, nothing is left after it), and the rows of all
  pages in order are the whole result.
\<close>

theorem pages_tile_result:
  assumes lim: "0 < limit" and fit: "int (length rs) < 2 ^ 53" "limit < 2 ^ 53"
  defines "n \<equiv> meta_TotalPages (CalculateMeta (int (length rs)) 1 limit)"
  shows "concat (map (\<lambda>i. paginate (GetPaginationParams (int i + 1) limit) rs) [0..<nat n]) = rs \<and>
    (n - 1) * limit < int (length rs) \<and> int (length rs) \<le> n * limit"
proof -
  have "0 \<le> (int (length rs) + limit - 1) div limit"
    using lim pos_imp_zdiv_nonneg_iff [of limit "int (length rs) + limit - 1"] by linarith
  then have n: "n = (int (length rs) + limit - 1) div limit"
    using lim by (simp add: n_def CalculateMeta_def Let_def)
  with \<open>0 \<le> (int (length rs) + limit - 1) div limit\<close> have n0: "0 \<le> n" by simp
  have ceil: "n * limit \<ge> int (length rs) \<and> (n - 1) * limit < int (length rs)"
    unfolding n by (rule pages_ceiling) (use lim in simp_all)
  have "paginate (GetPaginationParams (int i + 1) limit) rs = sql_page limit (int i * limit) rs" if "i < nat n" for i
  proof -
    have "int i * limit \<le> (n - 1) * limit" using that lim by (intro mult_right_mono) auto
    also have "\<dots> < 2 ^ 53" using ceil fit by linarith
    finally have "wrap64 (int i * limit) = int i * limit" using lim by (intro wrap64_id) (auto intro: order.trans [of _ 0])
    then show ?thesis using lim by (simp add: paginate_def GetPaginationParams_def CalculateOffset_def)
  qed
  then have pages: "map (\<lambda>i. paginate (GetPaginationParams (int i + 1) limit) rs) [0..<nat n] =
      map (\<lambda>i. sql_page limit (int i * limit) rs) [0..<nat n]" by simp
  have "int (length rs) \<le> int (nat n * nat limit)" using ceil n0 lim by simp
  then have "length rs \<le> nat n * nat limit" by (simp only: of_nat_le_iff)
  then show ?thesis unfolding pages using ceil by (simp add: sql_page_concat [OF lim])
qed

theorem pages_tile_result_witness:
  "concat (map (\<lambda>i. paginate (GetPaginationParams (int i + 1) 2) [CHR ''a'', CHR ''b'', CHR ''c''])
      [0..<nat (meta_TotalPages (CalculateMeta (int (length [CHR ''a'', CHR ''b'', CHR ''c''])) 1 2))]) = ''abc''"
  using pages_tile_result [of 2 "''abc''"] by simp

text \<open>
  Also. A page number a client can send makes the offset wrap around to a negative
  number, which the query then drops: the first page is returned instead of an empty one.
\<close>

theorem offset_wraps:
  "CalculateOffset (GetPaginationParams (2 ^ 62 + 1) 3) < 0 \<and>
   paginate (GetPaginationParams (2 ^ 62 + 1) 3) rs = take 3 rs"
  by (simp add: CalculateOffset_def GetPaginationParams_def wrap64_def paginate_def sql_page_def)

end
