(* ===== verification/Chains.thy ===== *)
theory Chains
  imports Encoding Paging
begin

text \<open>
  Chains: the entity and its CAIP-2 identifier (\<^verbatim>\<open>internal/domain/entities/chain.go\<close>), the
  chain repository over its table (\<^verbatim>\<open>internal/infrastructure/repositories/chain_repo_impl.go\<close>),
  the resolver that accepts any spelling of a chain
  (\<^verbatim>\<open>internal/usecases/chain_resolver.go\<close>) and the confirmation policy
  (\<^verbatim>\<open>internal/domain/services/finality_service.go\<close>). The UUID package is a parameter
  (\<open>uuid_lib\<close>); \<open>uuid_lib_ok\<close> states what is documented of it.
\<close>

subsection \<open>UUID package\<close>

record uuid_lib =
  uuid_Parse :: "string \<Rightarrow> uuid option"
  uuid_String :: "uuid \<Rightarrow> string"

definition uuid_lib_ok :: "uuid_lib \<Rightarrow> bool" where
  "uuid_lib_ok L \<longleftrightarrow>
     (\<forall>u. uuid_Parse L (uuid_String L u) = Some u \<and> uuid_String L u \<noteq> [] \<and>
        (\<forall>c\<in>set (uuid_String L u). graphic c \<and> c \<noteq> CHR ''/'' \<and> c \<noteq> CHR '':'')) \<and>
     (\<forall>p q. p \<noteq> [] \<longrightarrow> q \<noteq> [] \<longrightarrow> \<not> EqualFold (take 9 (p @ CHR '':'' # q)) ''urn:uuid:'' \<longrightarrow>
        uuid_Parse L (p @ CHR '':'' # q) = None)"

text \<open>An instance: the text form of RFC 4122, 8-4-4-4-12 lower-case hexadecimal digits.\<close>

definition uuid_format :: "uuid \<Rightarrow> string" where
  "uuid_format u =
     (let h = EncodeToString (uuid_bytes u) in
      take 8 h @ ''-'' @ take 4 (drop 8 h) @ ''-'' @ take 4 (drop 12 h) @ ''-'' @
      take 4 (drop 16 h) @ ''-'' @ drop 20 h)"

definition uuid_unformat :: "string \<Rightarrow> uuid option" where
  "uuid_unformat s =
     (if length s = 36 \<and> s ! 8 = CHR ''-'' \<and> s ! 13 = CHR ''-'' \<and> s ! 18 = CHR ''-'' \<and> s ! 23 = CHR ''-'' then
        map_option (\<lambda>b. word_of_nat (SetBytes b))
          (DecodeString (take 8 s @ take 4 (drop 9 s) @ take 4 (drop 14 s) @ take 4 (drop 19 s) @ drop 24 s))
      else None)"

definition rfc_uuid :: uuid_lib where
  "rfc_uuid = \<lparr>uuid_Parse = uuid_unformat, uuid_String = uuid_format\<rparr>"

subsection \<open>Entities\<close>

datatype ChainType = ChainTypeEVM | ChainTypeSVM | ChainTypeSubstrate | ChainTypeOther string

definition chain_type_of :: "string \<Rightarrow> ChainType" where
  "chain_type_of s =
     (if s = ''EVM'' then ChainTypeEVM else if s = ''SVM'' then ChainTypeSVM
      else if s = ''SUBSTRATE'' then ChainTypeSubstrate else ChainTypeOther s)"

fun chain_type_string :: "ChainType \<Rightarrow> string" where
  "chain_type_string ChainTypeEVM = ''EVM''"
| "chain_type_string ChainTypeSVM = ''SVM''"
| "chain_type_string ChainTypeSubstrate = ''SUBSTRATE''"
| "chain_type_string (ChainTypeOther s) = s"

record ChainRPC =
  rpc_ID :: uuid
  rpc_ChainID :: uuid
  rpc_URL :: string
  rpc_Priority :: int
  rpc_IsActive :: bool
  rpc_CreatedAt :: time
  rpc_UpdatedAt :: time
  rpc_LastErrorAt :: "time option"
  rpc_ErrorCount :: int
  rpc_DeletedAt :: "time option"

record Chain =
  chain_ID :: uuid
  chain_ChainID :: string
  chain_Name :: string
  chain_Type :: ChainType
  chain_ImageURL :: string
  chain_IsActive :: bool
  chain_IsTestnet :: bool
  chain_CurrencySymbol :: string
  chain_ExplorerURL :: string
  chain_RPCURL :: string
  chain_CreatedAt :: time
  chain_UpdatedAt :: time
  chain_DeletedAt :: "time option"
  chain_RPCs :: "ChainRPC list"
  chain_CCIPChainSelector :: string
  chain_StargateEID :: int

definition NormalizeChainID :: "string \<Rightarrow> string" where
  "NormalizeChainID raw =
     (let value = TrimSpace raw in
      if value = [] then []
      else
        let parts = SplitN2 CHR '':'' value in
        if length parts = 2 then TrimSpace (parts ! 1) else value)"

definition GetCAIP2ID :: "Chain \<Rightarrow> string" where
  "GetCAIP2ID c =
     (let raw = TrimSpace (chain_ChainID c) in
      if Contains raw '':'' then raw
      else if chain_Type c = ChainTypeEVM then ''eip155:'' @ raw
      else if chain_Type c = ChainTypeSVM then ''solana:'' @ raw
      else raw)"

subsection \<open>The chain table\<close>

record chain_row =
  row_ID :: uuid
  row_NetworkID :: string
  row_Name :: string
  row_ChainType :: string
  row_RPCURL :: string
  row_ExplorerURL :: string
  row_Symbol :: string
  row_LogoURL :: string
  row_IsActive :: bool
  row_StateMachineID :: string
  row_CCIPChainSelector :: string
  row_StargateEID :: int
  row_CreatedAt :: time
  row_UpdatedAt :: time
  row_DeletedAt :: "time option"

record chain_db =
  db_chains :: "chain_row table"
  db_rpcs :: "ChainRPC table"

text \<open>GORM adds \<^verbatim>\<open>deleted_at IS NULL\<close> to the queries of a model with a soft-delete column.\<close>

definition live_chain :: "chain_row \<Rightarrow> bool" where
  "live_chain m \<longleftrightarrow> row_DeletedAt m = None"

definition preload_RPCs :: "chain_db \<Rightarrow> chain_row \<Rightarrow> ChainRPC list" where
  "preload_RPCs db m =
     select_where (\<lambda>r. rpc_ChainID r = row_ID m \<and> rpc_DeletedAt r = None) (db_rpcs db)"

definition chain_toEntity :: "chain_db \<Rightarrow> chain_row \<Rightarrow> Chain" where
  "chain_toEntity db m =
     \<lparr>chain_ID = row_ID m, chain_ChainID = row_NetworkID m, chain_Name = row_Name m,
      chain_Type = chain_type_of (ToUpper (row_ChainType m)), chain_ImageURL = row_LogoURL m,
      chain_IsActive = row_IsActive m, chain_IsTestnet = False, chain_CurrencySymbol = row_Symbol m,
      chain_ExplorerURL = row_ExplorerURL m, chain_RPCURL = row_RPCURL m,
      chain_CreatedAt = row_CreatedAt m, chain_UpdatedAt = row_UpdatedAt m,
      chain_DeletedAt = None, chain_RPCs = preload_RPCs db m, chain_CCIPChainSelector = row_CCIPChainSelector m,
      chain_StargateEID = row_StargateEID m\<rparr>"

definition chain_GetByID :: "fault \<Rightarrow> chain_db \<Rightarrow> uuid \<Rightarrow> Chain result" where
  "chain_GetByID flt db k =
     map_sum (\<lambda>e. e) (chain_toEntity db) (get_by_id flt row_ID k (select_where live_chain (db_chains db)))"

definition chain_GetByChainID ::
  "chain_row chooser \<Rightarrow> fault \<Rightarrow> chain_db \<Rightarrow> string \<Rightarrow> Chain result" where
  "chain_GetByChainID pick flt db chainID =
     (let value = TrimSpace chainID in
      if value = [] then Inl (Sentinel ErrInvalidInput)
      else
        let normalized = NormalizeChainID value;
            candidates = [normalized] @ (if normalized \<noteq> value then [value] else []) in
        case flt of
          Some e \<Rightarrow> Inl e
        | None \<Rightarrow>
            (case pick 1 (select_where (\<lambda>m. live_chain m \<and> row_NetworkID m \<in> set candidates) (db_chains db)) of
               [] \<Rightarrow> Inl (Sentinel ErrNotFound)
             | m # _ \<Rightarrow> Inr (chain_toEntity db m)))"

definition chain_GetByCAIP2 ::
  "chain_row chooser \<Rightarrow> fault \<Rightarrow> fault \<Rightarrow> chain_db \<Rightarrow> string \<Rightarrow> Chain result" where
  "chain_GetByCAIP2 pick flt1 flt2 db caip2 =
     (let value = TrimSpace caip2 in
      if value = [] then Inl (Sentinel ErrInvalidInput)
      else
        let parts = SplitN2 CHR '':'' value in
        if length parts \<noteq> 2 \<or> TrimSpace (parts ! 1) = [] then
          (case flt1 of
             Some e \<Rightarrow> Inl e
           | None \<Rightarrow>
               (case first_by row_ID (\<lambda>m. live_chain m \<and> row_NetworkID m = value) (db_chains db) of
                  None \<Rightarrow> Inl (Sentinel ErrNotFound)
                | Some m \<Rightarrow> Inr (chain_toEntity db m)))
        else
          let reference = TrimSpace (parts ! 1) in
          case flt1 of
            Some e \<Rightarrow> Inl e
          | None \<Rightarrow>
              (case pick 1 (select_where (\<lambda>m. live_chain m \<and> row_NetworkID m = reference) (db_chains db)) of
                 m # _ \<Rightarrow> Inr (chain_toEntity db m)
               | [] \<Rightarrow>
                   (case flt2 of
                      Some e \<Rightarrow> Inl e
                    | None \<Rightarrow>
                        (case pick 1 (select_where (\<lambda>m. live_chain m \<and> row_NetworkID m = value) (db_chains db)) of
                           [] \<Rightarrow> Inl (Sentinel ErrNotFound)
                         | m # _ \<Rightarrow> Inr (chain_toEntity db m)))))"

text \<open>
  Creating a row. The columns with a GORM \<^verbatim>\<open>default\<close> tag take the default when the field has
  its zero value: a nil identifier is generated, an empty type becomes \<^verbatim>\<open>EVM\<close>, and
  \<^verbatim>\<open>IsActive\<close> (default \<^verbatim>\<open>true\<close>) is stored as true whatever it was.
\<close>

definition chain_row_of :: "uuid \<Rightarrow> time \<Rightarrow> Chain \<Rightarrow> chain_row" where
  "chain_row_of gen now c =
     \<lparr>row_ID = (if chain_ID c = uuid_Nil then gen else chain_ID c),
      row_NetworkID = NormalizeChainID (chain_ChainID c), row_Name = chain_Name c,
      row_ChainType = (if chain_type_string (chain_Type c) = [] then ''EVM'' else chain_type_string (chain_Type c)),
      row_RPCURL = chain_RPCURL c, row_ExplorerURL = chain_ExplorerURL c,
      row_Symbol = chain_CurrencySymbol c, row_LogoURL = chain_ImageURL c,
      row_IsActive = True, row_StateMachineID = [],
      row_CCIPChainSelector = chain_CCIPChainSelector c, row_StargateEID = chain_StargateEID c,
      row_CreatedAt = (if chain_CreatedAt c = zero_time then now else chain_CreatedAt c), row_UpdatedAt = now, row_DeletedAt = None\<rparr>"

definition chain_Create :: "fault \<Rightarrow> uuid \<Rightarrow> time \<Rightarrow> chain_db \<Rightarrow> Chain \<Rightarrow> chain_db result" where
  "chain_Create flt gen now db c =
     (case flt of
        Some e \<Rightarrow> Inl e
      | None \<Rightarrow>
          let m = chain_row_of gen now c in
          if row_NetworkID m \<in> row_NetworkID ` set (db_chains db) then Inl duplicate_key
          else map_sum (\<lambda>e. e) (\<lambda>t. db\<lparr>db_chains := t\<rparr>) (insert_row row_ID m (db_chains db)))"

definition chain_updates :: "time \<Rightarrow> Chain \<Rightarrow> chain_row \<Rightarrow> chain_row" where
  "chain_updates now c m =
     m\<lparr>row_NetworkID := NormalizeChainID (chain_ChainID c), row_Name := chain_Name c,
       row_ChainType := chain_type_string (chain_Type c), row_RPCURL := chain_RPCURL c,
       row_ExplorerURL := chain_ExplorerURL c, row_Symbol := chain_CurrencySymbol c,
       row_LogoURL := chain_ImageURL c, row_IsActive := chain_IsActive c,
       row_CCIPChainSelector := chain_CCIPChainSelector c,
       row_StargateEID := chain_StargateEID c, row_UpdatedAt := now\<rparr>"

definition chain_Update :: "fault \<Rightarrow> time \<Rightarrow> chain_db \<Rightarrow> Chain \<Rightarrow> gerror option \<times> chain_db" where
  "chain_Update flt now db c =
     (let hit = (\<lambda>m. row_ID m = chain_ID c \<and> live_chain m);
          others = select_where (\<lambda>m. row_ID m \<noteq> chain_ID c) (db_chains db)
      in case flt of
           Some e \<Rightarrow> (Some e, db)
         | None \<Rightarrow>
             if select_where hit (db_chains db) \<noteq> [] \<and>
                NormalizeChainID (chain_ChainID c) \<in> row_NetworkID ` set others then (Some duplicate_key, db)
             else
               (case update_where hit (chain_updates now c) (db_chains db) of
                  (t, n) \<Rightarrow> (if n = 0 then Some (Sentinel ErrNotFound) else None, db\<lparr>db_chains := t\<rparr>)))"

definition chain_Delete :: "fault \<Rightarrow> time \<Rightarrow> chain_db \<Rightarrow> uuid \<Rightarrow> gerror option \<times> chain_db" where
  "chain_Delete flt now db k =
     (case flt of
        Some e \<Rightarrow> (Some e, db)
      | None \<Rightarrow>
          (case update_where (\<lambda>m. row_ID m = k \<and> live_chain m) (\<lambda>m. m\<lparr>row_DeletedAt := Some now\<rparr>) (db_chains db) of
             (t, n) \<Rightarrow> (if n = 0 then Some (Sentinel ErrNotFound) else None, db\<lparr>db_chains := t\<rparr>)))"

text \<open>Lists of chains. \<^verbatim>\<open>ORDER BY name\<close> is a parameter, a permutation of the rows.\<close>

definition chain_GetAll :: "chain_row orderer \<Rightarrow> fault \<Rightarrow> chain_db \<Rightarrow> Chain list result" where
  "chain_GetAll ord flt db =
     (case flt of
        Some e \<Rightarrow> Inl e
      | None \<Rightarrow> Inr (map (chain_toEntity db) (ord (select_where live_chain (db_chains db)))))"

definition chain_GetActive ::
  "chain_row orderer \<Rightarrow> fault \<Rightarrow> fault \<Rightarrow> chain_db \<Rightarrow> PaginationParams \<Rightarrow> (Chain list \<times> int) result" where
  "chain_GetActive ord flt1 flt2 db pagination =
     (case flt1 of
        Some e \<Rightarrow> Inl e
      | None \<Rightarrow>
          let rows = select_where (\<lambda>m. live_chain m \<and> row_IsActive m) (db_chains db) in
          (case flt2 of
             Some e \<Rightarrow> Inl e
           | None \<Rightarrow> Inr (map (chain_toEntity db) (paginate pagination (ord rows)), int (length rows))))"

subsection \<open>The RPC endpoint table\<close>

definition live_rpc :: "ChainRPC \<Rightarrow> bool" where
  "live_rpc r \<longleftrightarrow> rpc_DeletedAt r = None"

text \<open>An endpoint is returned with its chain, deleted or not, when that is preloaded.\<close>

definition toRpcEntity :: "chain_db \<Rightarrow> bool \<Rightarrow> ChainRPC \<Rightarrow> ChainRPC \<times> Chain option" where
  "toRpcEntity db preload m =
     (m\<lparr>rpc_DeletedAt := None\<rparr>,
      if preload then
        map_option (chain_toEntity (db\<lparr>db_rpcs := []\<rparr>))
          (find (\<lambda>c. row_ID c = rpc_ChainID m \<and> row_ID c \<noteq> uuid_Nil) (db_chains db))
      else None)"

definition chain_GetAllRPCs ::
  "ChainRPC orderer \<Rightarrow> fault \<Rightarrow> fault \<Rightarrow> chain_db \<Rightarrow> uuid option \<Rightarrow> bool option \<Rightarrow> string option \<Rightarrow> PaginationParams \<Rightarrow>
   ((ChainRPC \<times> Chain option) list \<times> int) result" where
  "chain_GetAllRPCs ord flt1 flt2 db chainID isActive search pagination =
     (let byChain = (\<lambda>m. case chainID of None \<Rightarrow> True | Some k \<Rightarrow> rpc_ChainID m = k);
          byActive = (\<lambda>m. case isActive of None \<Rightarrow> True | Some b \<Rightarrow> rpc_IsActive m = b);
          bySearch = (\<lambda>m. case search of None \<Rightarrow> True
                       | Some w \<Rightarrow> w = [] \<or> sql_ilike (''%'' @ w @ ''%'') (rpc_URL m));
          rows = select_where (\<lambda>m. live_rpc m \<and> byChain m \<and> byActive m \<and> bySearch m) (db_rpcs db) in
      case flt1 of
        Some e \<Rightarrow> Inl e
      | None \<Rightarrow>
          (case flt2 of
             Some e \<Rightarrow> Inl e
           | None \<Rightarrow> Inr (map (toRpcEntity db True) (paginate pagination (ord rows)), int (length rows))))"

definition chain_CreateRPC :: "fault \<Rightarrow> uuid \<Rightarrow> time \<Rightarrow> chain_db \<Rightarrow> ChainRPC \<Rightarrow> chain_db result" where
  "chain_CreateRPC flt gen now db rpc =
     (let m = rpc\<lparr>rpc_ID := if rpc_ID rpc = uuid_Nil then gen else rpc_ID rpc, rpc_IsActive := True,
                  rpc_CreatedAt := if rpc_CreatedAt rpc = zero_time then now else rpc_CreatedAt rpc,
                  rpc_UpdatedAt := now, rpc_DeletedAt := None\<rparr> in
      case flt of
        Some e \<Rightarrow> Inl e
      | None \<Rightarrow> map_sum (\<lambda>e. e) (\<lambda>t. db\<lparr>db_rpcs := t\<rparr>) (insert_row rpc_ID m (db_rpcs db)))"

definition chain_UpdateRPC :: "fault \<Rightarrow> time \<Rightarrow> chain_db \<Rightarrow> ChainRPC \<Rightarrow> gerror option \<times> chain_db" where
  "chain_UpdateRPC flt now db rpc =
     (case update_checked flt (\<lambda>m. rpc_ID m = rpc_ID rpc \<and> live_rpc m)
             (\<lambda>m. m\<lparr>rpc_URL := rpc_URL rpc, rpc_Priority := rpc_Priority rpc, rpc_IsActive := rpc_IsActive rpc,
                    rpc_LastErrorAt := rpc_LastErrorAt rpc, rpc_ErrorCount := rpc_ErrorCount rpc, rpc_UpdatedAt := now\<rparr>)
             (db_rpcs db) of
        (err, t) \<Rightarrow> (err, db\<lparr>db_rpcs := t\<rparr>))"

definition chain_DeleteRPC :: "fault \<Rightarrow> time \<Rightarrow> chain_db \<Rightarrow> uuid \<Rightarrow> gerror option \<times> chain_db" where
  "chain_DeleteRPC flt now db k =
     (case update_checked flt (\<lambda>m. rpc_ID m = k \<and> live_rpc m) (\<lambda>m. m\<lparr>rpc_DeletedAt := Some now\<rparr>) (db_rpcs db) of
        (err, t) \<Rightarrow> (err, db\<lparr>db_rpcs := t\<rparr>))"

definition chain_GetRPCByID :: "fault \<Rightarrow> chain_db \<Rightarrow> uuid \<Rightarrow> (ChainRPC \<times> Chain option) result" where
  "chain_GetRPCByID flt db k =
     map_sum (\<lambda>e. e) (toRpcEntity db False) (get_by_id flt rpc_ID k (select_where live_rpc (db_rpcs db)))"

fun getNamespace :: "ChainType \<Rightarrow> string" where
  "getNamespace ChainTypeEVM = ''eip155''"
| "getNamespace ChainTypeSVM = ''solana''"
| "getNamespace ChainTypeSubstrate = ''substrate''"
| "getNamespace (ChainTypeOther s) = ''unknown''"

subsection \<open>The resolver\<close>

text \<open>The part of the repository interface the resolver calls, and its implementation above.\<close>

record ChainRepository =
  repo_GetByID :: "uuid \<Rightarrow> Chain result"
  repo_GetByChainID :: "string \<Rightarrow> Chain result"
  repo_GetByCAIP2 :: "string \<Rightarrow> Chain result"

definition chainRepo :: "chain_row chooser \<Rightarrow> chain_db \<Rightarrow> ChainRepository" where
  "chainRepo pick db =
     \<lparr>repo_GetByID = chain_GetByID None db, repo_GetByChainID = chain_GetByChainID pick None db,
      repo_GetByCAIP2 = chain_GetByCAIP2 pick None None db\<rparr>"

definition ResolveFromAny :: "uuid_lib \<Rightarrow> ChainRepository \<Rightarrow> string \<Rightarrow> (uuid \<times> string) result" where
  "ResolveFromAny L r input =
     (if input = [] then Inl (ErrorString ''chain identifier cannot be empty'')
      else
        let value = TrimSpace input;
            found = (\<lambda>chain. Inr (chain_ID chain, GetCAIP2ID chain)) in
        case uuid_Parse L value of
          Some k \<Rightarrow>
            (case repo_GetByID r k of
               Inl e \<Rightarrow> Inl (WrapErr (''failed to get chain by ID '' @ uuid_String L k) e)
             | Inr chain \<Rightarrow> found chain)
        | None \<Rightarrow>
            (case (if Contains value '':'' then repo_GetByCAIP2 r value else Inl (ErrorString [])) of
               Inr chain \<Rightarrow> found chain
             | Inl _ \<Rightarrow>
                 let normalized = NormalizeChainID value in
                 case repo_GetByChainID r normalized of
                   Inr chain \<Rightarrow> found chain
                 | Inl err \<Rightarrow>
                     (case (if Contains normalized '':'' \<and> length (SplitN2 CHR '':'' normalized) = 2
                            then repo_GetByChainID r (SplitN2 CHR '':'' normalized ! 1)
                            else Inl (ErrorString [])) of
                        Inr legacyChain \<Rightarrow> found legacyChain
                      | Inl _ \<Rightarrow>
                          if value \<noteq> normalized then
                            (case repo_GetByChainID r value of
                               Inr chain \<Rightarrow> found chain
                             | Inl err2 \<Rightarrow> Inl (WrapErr (''failed to find chain for '' @ value) err2))
                          else Inl (WrapErr (''failed to find chain for '' @ value) err))))"

subsection \<open>Confirmations\<close>

definition GetRequiredConfirmations :: "string \<Rightarrow> int" where
  "GetRequiredConfirmations networkID =
     (let parts = Split CHR '':'' networkID in
      if length parts < 2 then 12
      else
        let namespace = parts ! 0; reference = parts ! 1 in
        if namespace = ''eip155'' then
          (if reference = ''1'' then 12
           else if reference = ''137'' then 12
           else if reference = ''10'' \<or> reference = ''42161'' then 1
           else if reference = ''8453'' then 12
           else 12)
        else if namespace = ''solana'' then 32
        else 12)"

subsection \<open>Lemmas\<close>

lemma DecodeString_hex_chars: "DecodeString s = Some b \<Longrightarrow> c \<in> set s \<Longrightarrow> hex_digit c \<noteq> None"
  by (induction s arbitrary: b rule: DecodeString.induct) (auto split: option.splits)

lemma uuid_unformat_chars:
  assumes "uuid_unformat s = Some u" "c \<in> set s"
  shows "hex_digit c \<noteq> None \<or> c = CHR ''-''"
proof -
  have len: "length s = 36" and dash: "s ! 8 = CHR ''-''" "s ! 13 = CHR ''-''" "s ! 18 = CHR ''-''" "s ! 23 = CHR ''-''"
    and dec: "DecodeString (take 8 s @ take 4 (drop 9 s) @ take 4 (drop 14 s) @ take 4 (drop 19 s) @ drop 24 s) \<noteq> None"
    using assms(1) by (auto simp: uuid_unformat_def split: if_splits)
  have cut: "drop k s = s ! k # drop (Suc k) s" if "k < 36" for k
    using that len by (simp add: Cons_nth_drop_Suc)
  have part: "drop k s = take 4 (drop k s) @ drop (k + 4) s" for k
    using append_take_drop_id [of 4 "drop k s"] by (simp add: add.commute)
  have "set s = set (take 8 s) \<union> set (drop 8 s)" by (metis append_take_drop_id set_append)
  also have "set (drop 8 s) = {CHR ''-''} \<union> set (drop 9 s)" using cut [of 8] dash by simp
  also have "set (drop 9 s) = set (take 4 (drop 9 s)) \<union> set (drop 13 s)" by (subst part) simp
  also have "set (drop 13 s) = {CHR ''-''} \<union> set (drop 14 s)" using cut [of 13] dash by simp
  also have "set (drop 14 s) = set (take 4 (drop 14 s)) \<union> set (drop 18 s)" by (subst part) simp
  also have "set (drop 18 s) = {CHR ''-''} \<union> set (drop 19 s)" using cut [of 18] dash by simp
  also have "set (drop 19 s) = set (take 4 (drop 19 s)) \<union> set (drop 23 s)" by (subst part) simp
  also have "set (drop 23 s) = {CHR ''-''} \<union> set (drop 24 s)" using cut [of 23] dash by simp
  finally have "c \<in> set (take 8 s @ take 4 (drop 9 s) @ take 4 (drop 14 s) @ take 4 (drop 19 s) @ drop 24 s) \<or> c = CHR ''-''"
    using assms(2) by auto
  with dec DecodeString_hex_chars show ?thesis by blast
qed

lemma split_8_4_4_4_12:
  assumes "length h = 32"
  obtains a b c d e where "h = a @ b @ c @ d @ e"
    "length a = 8" "length b = 4" "length c = 4" "length d = 4" "length e = 12"
proof
  have part: "drop k h = take 4 (drop k h) @ drop (k + 4) h" for k
    using append_take_drop_id [of 4 "drop k h"] by (simp add: add.commute)
  have "drop 8 h = take 4 (drop 8 h) @ take 4 (drop 12 h) @ take 4 (drop 16 h) @ drop 20 h"
    using part [of 8] part [of 12] part [of 16] by simp
  then show "h = take 8 h @ take 4 (drop 8 h) @ take 4 (drop 12 h) @ take 4 (drop 16 h) @ drop 20 h"
    by (metis append_take_drop_id)
qed (simp_all add: assms)

lemma SetBytes_uuid_bytes [simp]: "SetBytes (uuid_bytes u) = unat u"
  using SetBytes_Bytes [of "unat u"] by (simp add: uuid_bytes_def Let_def SetBytes_def)

lemma uuid_format_parts:
  assumes "EncodeToString (uuid_bytes u) = a @ b @ c @ d @ e"
    "length a = 8" "length b = 4" "length c = 4" "length d = 4"
  shows "uuid_format u = a @ ''-'' @ b @ ''-'' @ c @ ''-'' @ d @ ''-'' @ e"
  using assms by (simp add: uuid_format_def)

lemma uuid_format_unformat: "uuid_unformat (uuid_format u) = Some u"
proof -
  have len: "length (EncodeToString (uuid_bytes u)) = 32" by simp
  then obtain a b c d e where h: "EncodeToString (uuid_bytes u) = a @ b @ c @ d @ e"
    and l: "length a = 8" "length b = 4" "length c = 4" "length d = 4" "length e = 12"
    by (rule split_8_4_4_4_12)
  have "DecodeString (a @ b @ c @ d @ e) = Some (uuid_bytes u)"
    using h by (metis DecodeString_EncodeToString)
  then show ?thesis
    by (simp add: uuid_format_parts [OF h l(1-4)] uuid_unformat_def nth_append l)
qed

lemma uuid_format_chars:
  "uuid_format u \<noteq> [] \<and> (\<forall>c\<in>set (uuid_format u). graphic c \<and> c \<noteq> CHR ''/'' \<and> c \<noteq> CHR '':'')"
proof -
  have "set (uuid_format u) \<subseteq> set (EncodeToString (uuid_bytes u)) \<union> {CHR ''-''}"
    by (auto simp: uuid_format_def Let_def dest: in_set_takeD in_set_dropD)
  moreover have "graphic c \<and> c \<noteq> CHR ''/'' \<and> c \<noteq> CHR '':''" if "c \<in> set (EncodeToString bs)" for c bs
    using EncodeToString_graphic [of bs] DecodeString_hex_chars [OF DecodeString_EncodeToString that] that
    by (auto simp: hex_digit_def)
  moreover have "graphic (CHR ''-'')" by (simp add: graphic_def)
  moreover have "uuid_format u \<noteq> []" by (simp add: uuid_format_def Let_def)
  ultimately show ?thesis by fastforce
qed

lemma rfc_uuid_ok: "uuid_lib_ok rfc_uuid"
proof -
  have "uuid_unformat (p @ CHR '':'' # q) = None" for p q
  proof (rule ccontr)
    assume "uuid_unformat (p @ CHR '':'' # q) \<noteq> None"
    then obtain u where "uuid_unformat (p @ CHR '':'' # q) = Some u" by blast
    from uuid_unformat_chars [OF this, of "CHR '':''"] show False
      by (simp add: hex_digit_def)
  qed
  then show ?thesis
    using uuid_format_chars by (simp add: uuid_lib_ok_def rfc_uuid_def uuid_format_unformat)
qed

definition chain_db_ok :: "chain_db \<Rightarrow> bool" where
  "chain_db_ok db \<longleftrightarrow>
     distinct (map row_ID (db_chains db)) \<and> distinct (map row_NetworkID (db_chains db)) \<and>
     distinct (map rpc_ID (db_rpcs db))"

lemma NormalizeChainID_reference:
  assumes "CHR '':'' \<notin> set p" "graphic (hd (p @ '':''))" "\<forall>c\<in>set q. graphic c" "q \<noteq> []"
  shows "NormalizeChainID (p @ CHR '':'' # q) = q"
proof -
  have "TrimSpace (p @ CHR '':'' # q) = p @ CHR '':'' # q"
    using assms by (intro TrimSpace_graphic) (auto simp: hd_append)
  moreover have "TrimSpace q = q" using assms by (intro TrimSpace_graphic) auto
  ultimately show ?thesis by (simp add: NormalizeChainID_def SplitN2_append assms)
qed

lemma NormalizeChainID_plain:
  "\<forall>c\<in>set q. graphic c \<Longrightarrow> CHR '':'' \<notin> set q \<Longrightarrow> q \<noteq> [] \<Longrightarrow> NormalizeChainID q = q"
  using TrimSpace_graphic [of q] by (simp add: NormalizeChainID_def SplitN2_no_sep)

lemma distinct_set_singleton: "distinct xs \<Longrightarrow> set xs = {x} \<Longrightarrow> xs = [x]"
  by (cases xs; cases "tl xs") auto

lemma select_where_network:
  assumes "chain_db_ok db" "m \<in> set (db_chains db)" "live_chain m"
  shows "select_where (\<lambda>x. live_chain x \<and> row_NetworkID x = row_NetworkID m) (db_chains db) = [m]"
proof -
  let ?f = "filter (\<lambda>x. live_chain x \<and> row_NetworkID x = row_NetworkID m) (db_chains db)"
  have u: "x = m" if "x \<in> set (db_chains db)" "row_NetworkID x = row_NetworkID m" for x
    using assms that by (metis chain_db_ok_def distinct_map inj_onD)
  have "distinct ?f" using assms by (simp add: chain_db_ok_def distinct_map)
  moreover have "set ?f = {m}" using u assms by auto
  ultimately show ?thesis unfolding select_where_def by (rule distinct_set_singleton)
qed

lemma chain_GetByCAIP2_stored:
  assumes db: "chain_db_ok db" "m \<in> set (db_chains db)" "live_chain m" and lim: "limit_ok pick"
    and p: "CHR '':'' \<notin> set p" "p \<noteq> []" "graphic (hd p)"
    and q: "row_NetworkID m = q" "\<forall>c\<in>set q. graphic c" "q \<noteq> []"
  shows "chain_GetByCAIP2 pick None f2 db (p @ CHR '':'' # q) = Inr (chain_toEntity db m)"
proof -
  have t: "TrimSpace (p @ CHR '':'' # q) = p @ CHR '':'' # q" "TrimSpace q = q"
    using p q by (auto intro!: TrimSpace_graphic)
  have "pick 1 [m] = [m]"
    using limit_ok_length [OF lim, of 1 "[m]"] limit_ok_set [OF lim, of 1 "[m]"]
    by (auto simp: length_Suc_conv)
  then show ?thesis
    using select_where_network [OF db] q t p
    by (simp add: chain_GetByCAIP2_def SplitN2_append Let_def)
qed

lemma lower_char_colon: "lower_char c = CHR '':'' \<longleftrightarrow> c = CHR '':''"
proof -
  have "(char_of n :: char) \<noteq> CHR '':''" if "97 \<le> n" "n \<le> 122" for n :: nat
    using that by (auto dest!: arg_cong [of _ _ "of_char :: char \<Rightarrow> nat"])
  then show ?thesis by (auto simp: lower_char_def)
qed

lemma lower_url_chars:
  "lower_char (CHR '':'') = CHR '':''" "lower_char (CHR ''u'') = CHR ''u''" "lower_char (CHR ''r'') = CHR ''r''"
  "lower_char (CHR ''n'') = CHR ''n''" "lower_char (CHR ''i'') = CHR ''i''" "lower_char (CHR ''d'') = CHR ''d''"
  by (simp_all add: lower_char_def)

lemma not_urn_uuid:
  assumes "CHR '':'' \<notin> set p" "ToLower p \<noteq> ''urn''"
  shows "\<not> EqualFold (take 9 (p @ CHR '':'' # q)) ''urn:uuid:''"
proof
  assume "EqualFold (take 9 (p @ CHR '':'' # q)) ''urn:uuid:''"
  then have e: "take 9 (ToLower p @ CHR '':'' # ToLower q) = ''urn:uuid:''"
    by (simp add: EqualFold_def ToLower_def lower_url_chars flip: take_map)
  then have "takeWhile (\<lambda>c. c \<noteq> CHR '':'') (take 9 (ToLower p @ CHR '':'' # ToLower q)) = ''urn''"
    by simp
  moreover have "\<forall>c\<in>set (ToLower p). c \<noteq> CHR '':''"
    using assms(1) by (auto simp: ToLower_def lower_char_colon)
  moreover have "length p < 9"
  proof (rule ccontr)
    assume "\<not> length p < 9"
    then have "take 9 (ToLower p) = ''urn:uuid:''" using e by (simp add: ToLower_def)
    then have "CHR '':'' \<in> set (ToLower p)" by (metis in_set_takeD list.set_intros insertCI)
    with calculation(2) show False by blast
  qed
  ultimately show False using assms(2)
    by (cases "9 - length p") (simp_all add: takeWhile_append2)
qed

lemma ResolveFromAny_stored:
  assumes db: "chain_db_ok db" "m \<in> set (db_chains db)" "live_chain m"
    and lib: "limit_ok pick" "uuid_lib_ok L"
    and p: "CHR '':'' \<notin> set p" "p \<noteq> []" "graphic (hd p)" "ToLower p \<noteq> ''urn''"
    and q: "\<forall>c\<in>set (row_NetworkID m). graphic c" "row_NetworkID m \<noteq> []"
  shows "ResolveFromAny L (chainRepo pick db) (p @ '':'' @ row_NetworkID m) =
    Inr (row_ID m, GetCAIP2ID (chain_toEntity db m))"
proof -
  let ?v = "p @ CHR '':'' # row_NetworkID m"
  have t: "TrimSpace ?v = ?v" using p q by (intro TrimSpace_graphic) auto
  have "\<not> EqualFold (take 9 ?v) ''urn:uuid:''" using not_urn_uuid p(1,4) by blast
  then have "uuid_Parse L ?v = None" using lib p q by (simp add: uuid_lib_ok_def)
  moreover have "Contains ?v '':''" by (simp add: Contains_char)
  ultimately show ?thesis
    using chain_GetByCAIP2_stored [OF db lib(1) p(1-3) refl q, of None] t
    by (simp add: ResolveFromAny_def chainRepo_def chain_toEntity_def)
qed

text \<open>
  Also. A chain is found under any namespace: for every stored chain and every prefix
  before the colon, the resolver returns the identifier and the CAIP-2 form of the stored
  chain, whatever namespace the caller wrote.
\<close>

theorem ResolveFromAny_caip2:
  assumes db: "chain_db_ok db" "m \<in> set (db_chains db)" "live_chain m"
    and lib: "limit_ok pick" "uuid_lib_ok L"
    and p: "CHR '':'' \<notin> set p" "p \<noteq> []" "graphic (hd p)" "ToLower p \<noteq> ''urn''"
    and q: "\<forall>c\<in>set (row_NetworkID m). graphic c" "row_NetworkID m \<noteq> []"
  shows "ResolveFromAny L (chainRepo pick db) (p @ '':'' @ row_NetworkID m) =
    Inr (row_ID m, GetCAIP2ID (chain_toEntity db m))"
  by (rule ResolveFromAny_stored [OF assms])

definition base_row :: chain_row where
  "base_row =
     \<lparr>row_ID = 7, row_NetworkID = ''8453'', row_Name = ''Base'', row_ChainType = ''EVM'', row_RPCURL = [],
      row_ExplorerURL = [], row_Symbol = ''ETH'', row_LogoURL = [], row_IsActive = True,
      row_StateMachineID = [], row_CCIPChainSelector = [], row_StargateEID = 0,
      row_CreatedAt = 1, row_UpdatedAt = 1, row_DeletedAt = None\<rparr>"

definition base_db :: chain_db where
  "base_db = \<lparr>db_chains = [base_row], db_rpcs = []\<rparr>"

lemmas base_defs = base_row_def base_db_def chain_db_ok_def live_chain_def

lemma base_row_caip2: "GetCAIP2ID (chain_toEntity base_db base_row) = ''eip155:8453''"
  by code_simp

lemma base_row_db: "chain_db_ok base_db" "base_row \<in> set (db_chains base_db)" "live_chain base_row"
  "\<forall>c\<in>set (row_NetworkID base_row). graphic c" "row_NetworkID base_row \<noteq> []"
  by (simp_all add: base_defs graphic_def)

theorem ResolveFromAny_caip2_witness:
  "ResolveFromAny rfc_uuid (chainRepo take base_db) ''solana:8453'' = Inr (7, ''eip155:8453'')"
proof -
  have "CHR '':'' \<notin> set ''solana''" "''solana'' \<noteq> []" "graphic (hd ''solana'')" "ToLower ''solana'' \<noteq> ''urn''"
    by (simp_all add: graphic_def ToLower_def)
  from ResolveFromAny_caip2 [OF base_row_db(1-3) limit_ok_take rfc_uuid_ok this base_row_db(4,5)]
  show ?thesis unfolding base_row_caip2 by (simp add: base_defs)
qed

text \<open>
  Also. The identifier of a stored chain resolves to that chain, and an identifier no
  live row has is an error that carries the not-found cause.
\<close>

theorem ResolveFromAny_uuid:
  assumes lib: "uuid_lib_ok L" and db: "chain_db_ok db"
  shows "ResolveFromAny L (chainRepo pick db) (uuid_String L k) =
    (case find (\<lambda>m. row_ID m = k \<and> live_chain m) (db_chains db) of
       Some m \<Rightarrow> Inr (k, GetCAIP2ID (chain_toEntity db m))
     | None \<Rightarrow> Inl (WrapErr (''failed to get chain by ID '' @ uuid_String L k) (Sentinel ErrNotFound)))"
proof -
  have L: "uuid_Parse L (uuid_String L k) = Some k" "uuid_String L k \<noteq> []"
    "\<forall>c\<in>set (uuid_String L k). graphic c" using lib by (auto simp: uuid_lib_ok_def)
  then have t: "TrimSpace (uuid_String L k) = uuid_String L k" by (intro TrimSpace_graphic) auto
  let ?t = "select_where live_chain (db_chains db)"
  have dis: "distinct (map row_ID ?t)"
    using db by (simp add: chain_db_ok_def select_where_def distinct_map_filter)
  show ?thesis
  proof (cases "find (\<lambda>m. row_ID m = k \<and> live_chain m) (db_chains db)")
    case None
    then have "k \<notin> row_ID ` set ?t" by (auto simp: find_None_iff select_where_def)
    then show ?thesis using None L t
      by (simp add: ResolveFromAny_def chainRepo_def chain_GetByID_def get_by_id_missing)
  next
    case (Some m)
    then have "m \<in> set ?t" "row_ID m = k" by (auto simp: find_Some_iff select_where_def)
    then show ?thesis using Some L t get_by_id_found [OF dis, of m]
      by (simp add: ResolveFromAny_def chainRepo_def chain_GetByID_def chain_toEntity_def)
  qed
qed

theorem ResolveFromAny_uuid_witness:
  "ResolveFromAny rfc_uuid (chainRepo take base_db) (uuid_String rfc_uuid 7) = Inr (7, ''eip155:8453'')"
proof -
  have "find (\<lambda>m. row_ID m = 7 \<and> live_chain m) (db_chains base_db) = Some base_row" by (simp add: base_defs)
  then show ?thesis
    using ResolveFromAny_uuid [OF rfc_uuid_ok base_row_db(1), of take 7] base_row_caip2 by simp
qed

subsection \<open>Every history of the table keeps its keys\<close>

inductive chain_reachable :: "chain_db \<Rightarrow> bool" where
  empty: "chain_reachable \<lparr>db_chains = [], db_rpcs = []\<rparr>"
| create: "chain_reachable db \<Longrightarrow> chain_Create flt gen now db c = Inr db' \<Longrightarrow> chain_reachable db'"
| update: "chain_reachable db \<Longrightarrow> chain_reachable (snd (chain_Update flt now db c))"
| delete: "chain_reachable db \<Longrightarrow> chain_reachable (snd (chain_Delete flt now db k))"
| create_rpc: "chain_reachable db \<Longrightarrow> chain_CreateRPC flt gen now db rpc = Inr db' \<Longrightarrow> chain_reachable db'"
| update_rpc: "chain_reachable db \<Longrightarrow> chain_reachable (snd (chain_UpdateRPC flt now db rpc))"
| delete_rpc: "chain_reachable db \<Longrightarrow> chain_reachable (snd (chain_DeleteRPC flt now db k))"

lemma chain_Create_rows:
  "chain_Create flt gen now db c = Inr db' \<Longrightarrow>
   db' = db\<lparr>db_chains := db_chains db @ [chain_row_of gen now c]\<rparr> \<and>
   row_ID (chain_row_of gen now c) \<notin> row_ID ` set (db_chains db) \<and>
   row_NetworkID (chain_row_of gen now c) \<notin> row_NetworkID ` set (db_chains db)"
  by (auto simp: chain_Create_def Let_def insert_row_def split: option.splits if_splits)

lemma chain_Create_ok: "chain_Create flt gen now db c = Inr db' \<Longrightarrow> chain_db_ok db \<Longrightarrow> chain_db_ok db'"
  by (auto simp: chain_db_ok_def dest!: chain_Create_rows)

lemma distinct_map_update:
  assumes f: "distinct (map f t)" and k: "distinct (map pk t)"
    and v: "\<And>r. r \<in> set t \<Longrightarrow> pk r \<noteq> k \<Longrightarrow> f r \<noteq> v"
    and g: "\<And>r. r \<in> set t \<Longrightarrow> f (g r) = (if pk r = k \<and> p r then v else f r)"
  shows "distinct (map (\<lambda>r. f (g r)) t)"
proof -
  have "x = y" if "x \<in> set t" "y \<in> set t" "f (g x) = f (g y)" for x y
  proof (cases "pk x = pk y")
    case True
    then show ?thesis using k that(1,2) by (metis distinct_map inj_onD)
  next
    case False
    then have "f x = f y" using that v [of x] v [of y] by (auto simp: g split: if_splits)
    then show ?thesis using f that(1,2) by (metis distinct_map inj_onD)
  qed
  then show ?thesis using f by (auto simp: distinct_map intro: inj_onI)
qed

lemma key_update_comp: "(\<And>r. f (g r) = f r) \<Longrightarrow> f \<circ> (\<lambda>r. if p r then g r else r) = f"
  by auto

lemma chain_Delete_ok: "chain_db_ok db \<Longrightarrow> chain_db_ok (snd (chain_Delete flt now db k))"
  by (simp add: chain_Delete_def chain_db_ok_def update_where_def key_update_comp split: option.splits)

lemma update_where_id: "select_where p t = [] \<Longrightarrow> map (\<lambda>r. if p r then g r else r) t = t"
  by (simp add: select_where_def filter_empty_conv map_idI)

lemma chain_Update_ok:
  assumes ok: "chain_db_ok db"
  shows "chain_db_ok (snd (chain_Update flt now db c))"
proof -
  let ?v = "NormalizeChainID (chain_ChainID c)"
  let ?hit = "\<lambda>m. row_ID m = chain_ID c \<and> live_chain m"
  let ?g = "\<lambda>m. if ?hit m then chain_updates now c m else m"
  have g: "row_ID (chain_updates now c m) = row_ID m" "row_NetworkID (chain_updates now c m) = ?v" for m
    by (simp_all add: chain_updates_def)
  have "distinct (map (\<lambda>r. row_NetworkID (?g r)) (db_chains db))"
    if "?v \<notin> row_NetworkID ` set (select_where (\<lambda>m. row_ID m \<noteq> chain_ID c) (db_chains db))"
    by (rule distinct_map_update [where pk = row_ID and k = "chain_ID c" and p = live_chain and v = ?v])
      (use ok that in \<open>force simp: chain_db_ok_def select_where_def g\<close>)+
  note network = this
  have ids: "distinct (map (\<lambda>r. row_ID (?g r)) (db_chains db))"
    using ok key_update_comp [of row_ID "chain_updates now c" ?hit] by (simp add: chain_db_ok_def g o_def)
  show ?thesis
  proof (cases "flt = None \<and> select_where ?hit (db_chains db) \<noteq> [] \<and>
      ?v \<notin> row_NetworkID ` set (select_where (\<lambda>m. row_ID m \<noteq> chain_ID c) (db_chains db))")
    case True
    then have "db_chains (snd (chain_Update flt now db c)) = map ?g (db_chains db)"
      "db_rpcs (snd (chain_Update flt now db c)) = db_rpcs db"
      by (simp_all add: chain_Update_def update_where_def)
    then show ?thesis using ok network True ids by (simp add: chain_db_ok_def o_def)
  next
    case False
    then have "snd (chain_Update flt now db c) = db"
      using update_where_id [of ?hit "db_chains db" "chain_updates now c"]
      by (cases flt; cases "select_where ?hit (db_chains db) = []")
        (simp_all add: chain_Update_def update_where_def)
    then show ?thesis using ok by simp
  qed
qed

lemma chain_rpc_ok:
  "chain_CreateRPC flt gen now db rpc = Inr db' \<Longrightarrow> chain_db_ok db \<Longrightarrow> chain_db_ok db'"
  "chain_db_ok db \<Longrightarrow> chain_db_ok (snd (chain_UpdateRPC flt now db rpc))"
  "chain_db_ok db \<Longrightarrow> chain_db_ok (snd (chain_DeleteRPC flt now db k))"
  by (auto simp: chain_CreateRPC_def chain_UpdateRPC_def chain_DeleteRPC_def chain_db_ok_def insert_row_def Let_def
      update_checked_def update_where_def key_update_comp split: option.splits if_splits)

text \<open>
  Also. Whatever sequence of creations, updates and deletions is applied to the chain
  table, the primary keys and the network identifiers stay unique, soft-deleted rows
  included.
\<close>

theorem chain_reachable_ok: "chain_reachable db \<Longrightarrow> chain_db_ok db"
  by (induction rule: chain_reachable.induct)
    (auto intro: chain_Create_ok chain_Update_ok chain_Delete_ok chain_rpc_ok simp: chain_db_ok_def [of "\<lparr>db_chains = [], db_rpcs = []\<rparr>"])

definition base_chain :: Chain where
  "base_chain =
     \<lparr>chain_ID = 7, chain_ChainID = '' eip155:8453 '', chain_Name = ''Base'', chain_Type = ChainTypeEVM,
      chain_ImageURL = [], chain_IsActive = False, chain_IsTestnet = False,
      chain_CurrencySymbol = ''ETH'', chain_ExplorerURL = [], chain_RPCURL = [],
      chain_CreatedAt = 1, chain_UpdatedAt = 1, chain_DeletedAt = None, chain_RPCs = [],
      chain_CCIPChainSelector = [], chain_StargateEID = 0\<rparr>"

lemma base_chain_row: "chain_row_of 0 1 base_chain = base_row"
  by code_simp

lemma base_chain_Create: "chain_Create None 0 1 \<lparr>db_chains = [], db_rpcs = []\<rparr> base_chain = Inr base_db"
  by (simp add: chain_Create_def insert_row_def base_chain_row base_db_def)

theorem chain_reachable_ok_witness: "chain_db_ok base_db"
  by (rule chain_reachable_ok [OF chain_reachable.create [OF chain_reachable.empty base_chain_Create]])

text \<open>
  Also. A chain that was created is found under its own CAIP-2 identifier: when the
  creation succeeds, the resolver maps the CAIP-2 form of the stored chain back to the
  stored identifier and the same form. The row is stored as active even when the entity
  was not.
\<close>

theorem chain_Create_resolves:
  assumes cr: "chain_Create flt gen now db c = Inr db'" and ok: "chain_db_ok db"
    and lib: "limit_ok pick" "uuid_lib_ok L"
    and ty: "chain_Type c = ChainTypeEVM \<or> chain_Type c = ChainTypeSVM"
    and q: "q = NormalizeChainID (chain_ChainID c)" "\<forall>x\<in>set q. graphic x" "q \<noteq> []" "CHR '':'' \<notin> set q"
  shows "\<exists>m. m \<in> set (db_chains db') \<and> row_IsActive m \<and>
    row_ID m = (if chain_ID c = uuid_Nil then gen else chain_ID c) \<and>
    GetCAIP2ID (chain_toEntity db' m) = getNamespace (chain_Type c) @ '':'' @ q \<and>
    ResolveFromAny L (chainRepo pick db') (GetCAIP2ID (chain_toEntity db' m)) =
      Inr (row_ID m, GetCAIP2ID (chain_toEntity db' m))"
proof (intro exI conjI)
  let ?m = "chain_row_of gen now c"
  let ?p = "getNamespace (chain_Type c)"
  have db': "db' = db\<lparr>db_chains := db_chains db @ [?m]\<rparr>" using chain_Create_rows [OF cr] by simp
  then show m: "?m \<in> set (db_chains db')" by simp
  show "row_IsActive ?m" "row_ID ?m = (if chain_ID c = uuid_Nil then gen else chain_ID c)"
    by (simp_all add: chain_row_of_def)
  have net: "row_NetworkID ?m = q" and live: "live_chain ?m"
    by (simp_all add: chain_row_of_def q live_chain_def)
  have "TrimSpace q = q" using q by (intro TrimSpace_graphic) auto
  then show caip: "GetCAIP2ID (chain_toEntity db' ?m) = ?p @ '':'' @ q"
    using ty q by (auto simp: GetCAIP2ID_def chain_toEntity_def chain_row_of_def Contains_char
        chain_type_of_def ToUpper_def upper_char_def)
  have p: "CHR '':'' \<notin> set ?p" "?p \<noteq> []" "graphic (hd ?p)" "ToLower ?p \<noteq> ''urn''"
    using ty by (auto simp: graphic_def ToLower_def)
  show "ResolveFromAny L (chainRepo pick db') (GetCAIP2ID (chain_toEntity db' ?m)) =
      Inr (row_ID ?m, GetCAIP2ID (chain_toEntity db' ?m))"
    using ResolveFromAny_stored [OF chain_Create_ok [OF cr ok] m live lib p] q net
    by (simp add: caip)
qed

theorem chain_Create_resolves_witness:
  "\<exists>m. m \<in> set (db_chains base_db) \<and> row_IsActive m \<and> row_ID m = 7 \<and>
    GetCAIP2ID (chain_toEntity base_db m) = ''eip155:8453'' \<and>
    ResolveFromAny rfc_uuid (chainRepo take base_db) (GetCAIP2ID (chain_toEntity base_db m)) =
      Inr (row_ID m, GetCAIP2ID (chain_toEntity base_db m))"
proof -
  have "chain_Type base_chain = ChainTypeEVM \<or> chain_Type base_chain = ChainTypeSVM"
    by (simp add: base_chain_def)
  moreover have "''8453'' = NormalizeChainID (chain_ChainID base_chain)" by code_simp
  moreover have "\<forall>x\<in>set ''8453''. graphic x" "''8453'' \<noteq> []" "CHR '':'' \<notin> set ''8453''" by (simp_all add: graphic_def)
  moreover have "chain_db_ok \<lparr>db_chains = [], db_rpcs = []\<rparr>" by (simp add: chain_db_ok_def)
  ultimately show ?thesis
    using chain_Create_resolves [OF base_chain_Create _ limit_ok_take rfc_uuid_ok, of "''8453''"]
    by (simp add: base_chain_def)
qed

end
