(* ===== verification/Payments.thy ===== *)
theory Payments
  imports Chains "HOL-Library.Product_Lexorder"
begin

text \<open>
  Payments: the entity (\<^verbatim>\<open>internal/domain/entities/payment.go\<close>), the payment and event
  repositories (\<^verbatim>\<open>payment_repo_impl.go\<close>, \<^verbatim>\<open>payment_event_repo_impl.go\<close>) and the unit of work
  (\<^verbatim>\<open>unit_of_work_impl.go\<close>) under \<^verbatim>\<open>internal/infrastructure/repositories/\<close>.
  Amount columns hold the text the program wrote; the database's decimal formatting is not
  modelled. JSON text is checked by a parameter.
\<close>

subsection \<open>Transactions\<close>

text \<open>
  \<^verbatim>\<open>UnitOfWork.Do\<close>: the function runs on the transaction's view of the database; an error rolls
  the changes back, and so does a commit that fails. \<open>rollback old new\<close> is the database after
  the rollback: writes that a repository makes outside the transaction survive it. When
  every repository writes through the transaction, it is the old database (\<open>uow_Do\<close>).
\<close>

definition uow_run ::
  "('db \<Rightarrow> 'db \<Rightarrow> 'db) \<Rightarrow> fault \<Rightarrow> fault \<Rightarrow> ('db \<Rightarrow> gerror option \<times> 'db) \<Rightarrow> 'db \<Rightarrow> gerror option \<times> 'db" where
  "uow_run rollback beginFault commitFault fn db =
     (case beginFault of
        Some e \<Rightarrow> (Some (WrapErr ''failed to begin transaction'' e), db)
      | None \<Rightarrow>
          (case fn db of
             (Some err, db') \<Rightarrow> (Some err, rollback db db')
           | (None, db') \<Rightarrow>
               (case commitFault of
                  Some e \<Rightarrow> (Some (WrapErr ''failed to commit transaction'' e), rollback db db')
                | None \<Rightarrow> (None, db'))))"

definition uow_Do :: "fault \<Rightarrow> fault \<Rightarrow> ('db \<Rightarrow> gerror option \<times> 'db) \<Rightarrow> 'db \<Rightarrow> gerror option \<times> 'db" where
  "uow_Do = uow_run (\<lambda>old new. old)"

lemma uow_run_ok:
  "uow_run rb b c fn db = (None, db') \<Longrightarrow> b = None \<and> c = None \<and> fn db = (None, db')"
  by (auto simp: uow_run_def split: option.splits prod.splits)

lemma uow_run_error:
  "uow_run rb b c fn db = (Some e, db') \<Longrightarrow> db' = db \<or> db' = rb db (snd (fn db))"
  by (auto simp: uow_run_def split: option.splits prod.splits)

lemma uow_Do_error: "fst (uow_Do b c fn db) \<noteq> None \<Longrightarrow> snd (uow_Do b c fn db) = db"
  by (auto simp: uow_Do_def uow_run_def split: option.splits prod.splits)

lemma uow_Do_ok:
  "fst (uow_Do b c fn db) = None \<Longrightarrow> b = None \<and> c = None \<and> fn db = (None, snd (uow_Do b c fn db))"
  by (auto simp: uow_Do_def uow_run_def split: option.splits prod.splits)

subsection \<open>Payments\<close>

datatype PaymentStatus =
    PaymentStatusPending | PaymentStatusProcessing | PaymentStatusCompleted
  | PaymentStatusFailed | PaymentStatusRefunded | PaymentStatusOther string

fun payment_status_string :: "PaymentStatus \<Rightarrow> string" where
  "payment_status_string PaymentStatusPending = ''PENDING''"
| "payment_status_string PaymentStatusProcessing = ''PROCESSING''"
| "payment_status_string PaymentStatusCompleted = ''COMPLETED''"
| "payment_status_string PaymentStatusFailed = ''FAILED''"
| "payment_status_string PaymentStatusRefunded = ''REFUNDED''"
| "payment_status_string (PaymentStatusOther s) = s"

definition payment_status_of :: "string \<Rightarrow> PaymentStatus" where
  "payment_status_of s =
     (if s = ''PENDING'' then PaymentStatusPending
      else if s = ''PROCESSING'' then PaymentStatusProcessing
      else if s = ''COMPLETED'' then PaymentStatusCompleted
      else if s = ''FAILED'' then PaymentStatusFailed
      else if s = ''REFUNDED'' then PaymentStatusRefunded
      else PaymentStatusOther s)"

lemma payment_status_string_of [simp]: "payment_status_string (payment_status_of s) = s"
  by (simp add: payment_status_of_def)

record Payment =
  pay_ID :: uuid
  pay_SenderID :: "uuid option"
  pay_MerchantID :: "uuid option"
  pay_BridgeID :: "uuid option"
  pay_SourceChainID :: uuid
  pay_DestChainID :: uuid
  pay_SourceTokenID :: "uuid option"
  pay_DestTokenID :: "uuid option"
  pay_SenderAddress :: string
  pay_DestAddress :: string
  pay_SourceAmount :: string
  pay_DestAmount :: "string option"
  pay_FeeAmount :: string
  pay_TotalCharged :: string
  pay_ReceiverAddress :: string
  pay_Status :: PaymentStatus
  pay_SourceTxHash :: "string option"
  pay_DestTxHash :: "string option"
  pay_RefundTxHash :: "string option"
  pay_CrossChainMessageID :: "string option"
  pay_FailureReason :: "string option"
  pay_RevertData :: "string option"
  pay_ExpiresAt :: "time option"
  pay_CreatedAt :: time
  pay_UpdatedAt :: time
  pay_SourceChain :: "(uuid \<times> string \<times> string) option"
  pay_DestChain :: "(uuid \<times> string \<times> string) option"

record payment_row =
  prow_ID :: uuid
  prow_SenderID :: uuid
  prow_MerchantID :: "uuid option"
  prow_BridgeID :: "uuid option"
  prow_SourceChainID :: uuid
  prow_DestChainID :: uuid
  prow_SourceTokenID :: uuid
  prow_DestTokenID :: uuid
  prow_SourceAmount :: string
  prow_DestAmount :: "string option"
  prow_FeeAmount :: string
  prow_TotalCharged :: string
  prow_SenderAddress :: string
  prow_DestAddress :: string
  prow_Status :: string
  prow_SourceTxHash :: "string option"
  prow_DestTxHash :: "string option"
  prow_RefundTxHash :: "string option"
  prow_CrossChainMessageID :: "string option"
  prow_FailureReason :: "string option"
  prow_RevertData :: "string option"
  prow_ExpiresAt :: "time option"
  prow_CreatedAt :: time
  prow_UpdatedAt :: time
  prow_DeletedAt :: "time option"

text \<open>Dereferencing a nil pointer is a run-time panic, kept as an error value.\<close>

definition nil_dereference :: gerror where
  "nil_dereference = ErrorString ''runtime error: invalid memory address or nil pointer dereference''"

definition live_payment :: "payment_row \<Rightarrow> bool" where
  "live_payment m \<longleftrightarrow> prow_DeletedAt m = None"

definition payment_row_of :: "uuid \<Rightarrow> time \<Rightarrow> uuid \<Rightarrow> uuid \<Rightarrow> uuid \<Rightarrow> Payment \<Rightarrow> payment_row" where
  "payment_row_of gen now sender src dst p =
     \<lparr>prow_ID = (if pay_ID p = uuid_Nil then gen else pay_ID p), prow_SenderID = sender,
      prow_MerchantID = pay_MerchantID p, prow_BridgeID = pay_BridgeID p,
      prow_SourceChainID = pay_SourceChainID p, prow_DestChainID = pay_DestChainID p,
      prow_SourceTokenID = src, prow_DestTokenID = dst,
      prow_SourceAmount = pay_SourceAmount p, prow_DestAmount = pay_DestAmount p,
      prow_FeeAmount = (if pay_FeeAmount p = [] then ''0'' else pay_FeeAmount p),
      prow_TotalCharged = (if pay_TotalCharged p = [] then ''0'' else pay_TotalCharged p),
      prow_SenderAddress = pay_SenderAddress p, prow_DestAddress = pay_ReceiverAddress p,
      prow_Status = payment_status_string (pay_Status p),
      prow_SourceTxHash = None, prow_DestTxHash = None, prow_RefundTxHash = None,
      prow_CrossChainMessageID = None,
      prow_FailureReason = pay_FailureReason p, prow_RevertData = pay_RevertData p, prow_ExpiresAt = None,
      prow_CreatedAt = (if pay_CreatedAt p = zero_time then now else pay_CreatedAt p),
      prow_UpdatedAt = (if pay_UpdatedAt p = zero_time then now else pay_UpdatedAt p), prow_DeletedAt = None\<rparr>"

text \<open>On success the identifier that was stored is written back to the entity.\<close>

definition payment_Create ::
  "fault \<Rightarrow> uuid \<Rightarrow> time \<Rightarrow> payment_row table \<Rightarrow> Payment \<Rightarrow> (Payment \<times> payment_row table) result" where
  "payment_Create flt gen now t p =
     (case (pay_SenderID p, pay_SourceTokenID p, pay_DestTokenID p) of
        (Some sender, Some src, Some dst) \<Rightarrow>
          let m = payment_row_of gen now sender src dst p in
          (case flt of
             Some e \<Rightarrow> Inl e
           | None \<Rightarrow> map_sum (\<lambda>e. e) (\<lambda>t'. (p\<lparr>pay_ID := prow_ID m\<rparr>, t')) (insert_row prow_ID m t))
      | _ \<Rightarrow> Inl nil_dereference)"

definition preload_chain :: "chain_db \<Rightarrow> uuid \<Rightarrow> (uuid \<times> string \<times> string) option" where
  "preload_chain cdb k =
     map_option (\<lambda>m. (row_ID m, row_NetworkID m, row_Name m))
       (find (\<lambda>m. row_ID m = k \<and> live_chain m \<and> row_ID m \<noteq> uuid_Nil) (db_chains cdb))"

definition payment_toEntity :: "chain_db \<Rightarrow> payment_row \<Rightarrow> Payment" where
  "payment_toEntity cdb m =
     \<lparr>pay_ID = prow_ID m, pay_SenderID = Some (prow_SenderID m), pay_MerchantID = prow_MerchantID m,
      pay_BridgeID = prow_BridgeID m, pay_SourceChainID = prow_SourceChainID m, pay_DestChainID = prow_DestChainID m,
      pay_SourceTokenID = Some (prow_SourceTokenID m), pay_DestTokenID = Some (prow_DestTokenID m),
      pay_SenderAddress = prow_SenderAddress m, pay_DestAddress = prow_DestAddress m,
      pay_SourceAmount = prow_SourceAmount m, pay_DestAmount = prow_DestAmount m,
      pay_FeeAmount = prow_FeeAmount m, pay_TotalCharged = prow_TotalCharged m,
      pay_ReceiverAddress = prow_DestAddress m, pay_Status = payment_status_of (prow_Status m),
      pay_SourceTxHash = prow_SourceTxHash m, pay_DestTxHash = prow_DestTxHash m,
      pay_RefundTxHash = prow_RefundTxHash m, pay_CrossChainMessageID = prow_CrossChainMessageID m,
      pay_FailureReason = prow_FailureReason m, pay_RevertData = prow_RevertData m,
      pay_ExpiresAt = prow_ExpiresAt m, pay_CreatedAt = prow_CreatedAt m, pay_UpdatedAt = prow_UpdatedAt m,
      pay_SourceChain = preload_chain cdb (prow_SourceChainID m),
      pay_DestChain = preload_chain cdb (prow_DestChainID m)\<rparr>"

definition payment_GetByID :: "fault \<Rightarrow> chain_db \<Rightarrow> payment_row table \<Rightarrow> uuid \<Rightarrow> Payment result" where
  "payment_GetByID flt cdb t k =
     map_sum (\<lambda>e. e) (payment_toEntity cdb) (get_by_id flt prow_ID k (select_where live_payment t))"

definition payment_page ::
  "payment_row orderer \<Rightarrow> fault \<Rightarrow> fault \<Rightarrow> chain_db \<Rightarrow> payment_row table \<Rightarrow> (payment_row \<Rightarrow> bool) \<Rightarrow> int \<Rightarrow> int \<Rightarrow>
   (Payment list \<times> int) result" where
  "payment_page ord flt1 flt2 cdb t p limit offset =
     (case flt1 of
        Some e \<Rightarrow> Inl e
      | None \<Rightarrow>
          let rows = select_where (\<lambda>m. live_payment m \<and> p m) t in
          (case flt2 of
             Some e \<Rightarrow> Inl e
           | None \<Rightarrow> Inr (map (payment_toEntity cdb) (sql_page limit offset (ord rows)), int (length rows))))"

definition payment_GetByUserID ::
  "payment_row orderer \<Rightarrow> fault \<Rightarrow> fault \<Rightarrow> chain_db \<Rightarrow> payment_row table \<Rightarrow> uuid \<Rightarrow> int \<Rightarrow> int \<Rightarrow> (Payment list \<times> int) result" where
  "payment_GetByUserID ord flt1 flt2 cdb t userID limit offset =
     payment_page ord flt1 flt2 cdb t (\<lambda>m. prow_SenderID m = userID) limit offset"

definition payment_GetByMerchantID ::
  "payment_row orderer \<Rightarrow> fault \<Rightarrow> fault \<Rightarrow> chain_db \<Rightarrow> payment_row table \<Rightarrow> uuid \<Rightarrow> int \<Rightarrow> int \<Rightarrow> (Payment list \<times> int) result" where
  "payment_GetByMerchantID ord flt1 flt2 cdb t merchantID limit offset =
     payment_page ord flt1 flt2 cdb t (\<lambda>m. prow_MerchantID m = Some merchantID) limit offset"

text \<open>\<^verbatim>\<open>UPDATE ... WHERE id = ? AND deleted_at IS NULL\<close>, with the affected-rows check.\<close>

definition update_live_payment ::
  "fault \<Rightarrow> uuid \<Rightarrow> (payment_row \<Rightarrow> payment_row) \<Rightarrow> payment_row table \<Rightarrow> gerror option \<times> payment_row table" where
  "update_live_payment flt k f t = update_checked flt (\<lambda>m. prow_ID m = k \<and> live_payment m) f t"

definition payment_Update :: "fault \<Rightarrow> time \<Rightarrow> payment_row table \<Rightarrow> Payment \<Rightarrow> gerror option \<times> payment_row table" where
  "payment_Update flt now t p =
     update_live_payment flt (pay_ID p)
       (\<lambda>m. m\<lparr>prow_Status := payment_status_string (pay_Status p), prow_FailureReason := pay_FailureReason p,
              prow_RevertData := pay_RevertData p, prow_DestTxHash := pay_DestTxHash p, prow_UpdatedAt := now\<rparr>) t"

definition payment_UpdateStatus ::
  "fault \<Rightarrow> time \<Rightarrow> payment_row table \<Rightarrow> uuid \<Rightarrow> PaymentStatus \<Rightarrow> gerror option \<times> payment_row table" where
  "payment_UpdateStatus flt now t k status =
     update_live_payment flt k (\<lambda>m. m\<lparr>prow_Status := payment_status_string status, prow_UpdatedAt := now\<rparr>) t"

definition payment_UpdateDestTxHash ::
  "fault \<Rightarrow> time \<Rightarrow> payment_row table \<Rightarrow> uuid \<Rightarrow> string \<Rightarrow> gerror option \<times> payment_row table" where
  "payment_UpdateDestTxHash flt now t k txHash =
     (case flt of
        Some e \<Rightarrow> (Some e, t)
      | None \<Rightarrow>
          (None, fst (update_where (\<lambda>m. prow_ID m = k \<and> live_payment m)
             (\<lambda>m. m\<lparr>prow_DestTxHash := Some txHash, prow_UpdatedAt := now\<rparr>) t)))"

definition payment_MarkRefunded :: "fault \<Rightarrow> time \<Rightarrow> payment_row table \<Rightarrow> uuid \<Rightarrow> gerror option \<times> payment_row table" where
  "payment_MarkRefunded flt now t k =
     update_live_payment flt k
       (\<lambda>m. m\<lparr>prow_Status := payment_status_string PaymentStatusRefunded, prow_UpdatedAt := now\<rparr>) t"

subsection \<open>Event metadata\<close>

datatype json =
    JNull | JBool bool | JNumber string | JString string
  | JArray "json list" | JObject "(string \<times> json) list"

text \<open>
  The JSON codec: parsing a text (\<^verbatim>\<open>json.Unmarshal\<close> into an empty interface, \<^verbatim>\<open>json.Valid\<close>) and
  printing a value. Documented: a text that parses still does without surrounding space, the empty text does
  not parse, printing produces something, and the empty object prints as \<^verbatim>\<open>{}\<close>. A value
  survives the codec when printing and parsing it gives it back (\<open>json_value\<close>): numbers
  that are not floats and texts that are not UTF-8 do not.
\<close>

record json_lib =
  json_Parse :: "string \<Rightarrow> json option"
  json_Print :: "json \<Rightarrow> string"

definition json_lib_ok :: "json_lib \<Rightarrow> bool" where
  "json_lib_ok J \<longleftrightarrow>
     (\<forall>s v. json_Parse J s = Some v \<longrightarrow> json_Parse J (TrimSpace s) = Some v) \<and> json_Parse J [] = None \<and>
     json_Parse J ''{}'' = Some (JObject []) \<and> json_Print J (JObject []) = ''{}'' \<and> (\<forall>v. json_Print J v \<noteq> [])"

definition json_value :: "json_lib \<Rightarrow> json \<Rightarrow> bool" where
  "json_value J v \<longleftrightarrow> json_Parse J (json_Print J v) = Some v"

definition json_Valid :: "json_lib \<Rightarrow> string \<Rightarrow> bool" where
  "json_Valid J s \<longleftrightarrow> json_Parse J s \<noteq> None"

text \<open>A nil interface is \<open>None\<close>; a Go string is \<open>JString\<close>; other values are what they encode to.\<close>

definition normalizeEventMetadataForStorage :: "json_lib \<Rightarrow> json option \<Rightarrow> string" where
  "normalizeEventMetadataForStorage J metadata =
     (case metadata of
        None \<Rightarrow> ''{}''
      | Some v \<Rightarrow>
          let encoded = json_Print J v;
              fallback = (if length encoded = 0 then ''{}'' else encoded) in
          (case v of
             JString raw \<Rightarrow>
               let trimmed = TrimSpace raw in
               if trimmed = [] then ''{}''
               else if json_Valid J trimmed then trimmed
               else fallback
           | _ \<Rightarrow> fallback))"

definition parseEventMetadataFromStorage :: "json_lib \<Rightarrow> string \<Rightarrow> json option" where
  "parseEventMetadataFromStorage J raw =
     (let trimmed = TrimSpace raw in
      if trimmed = [] \<or> trimmed = ''{}'' then None
      else case json_Parse J trimmed of
             None \<Rightarrow> Some (JString trimmed)
           | Some JNull \<Rightarrow> None
           | Some v \<Rightarrow> Some v)"

record PaymentEvent =
  ev_ID :: uuid
  ev_PaymentID :: uuid
  ev_EventType :: string
  ev_ChainID :: "uuid option"
  ev_TxHash :: string
  ev_BlockNumber :: int
  ev_Metadata :: "json option"
  ev_CreatedAt :: time

record event_row =
  erow_ID :: uuid
  erow_PaymentID :: uuid
  erow_EventType :: string
  erow_ChainID :: "uuid option"
  erow_Chain :: string
  erow_TxHash :: string
  erow_BlockNumber :: int
  erow_Metadata :: string
  erow_CreatedAt :: time

definition resolveLegacyChainValue :: "uuid_lib \<Rightarrow> uuid option \<Rightarrow> string" where
  "resolveLegacyChainValue L chainID =
     (case chainID of None \<Rightarrow> ''UNKNOWN'' | Some k \<Rightarrow> ''chain-'' @ take 8 (uuid_String L k))"

text \<open>\<open>pq_code\<close> is the SQLSTATE of a driver error, when it is one.\<close>

definition isForeignKeyError :: "(gerror \<Rightarrow> string option) \<Rightarrow> gerror option \<Rightarrow> bool" where
  "isForeignKeyError pq_code err =
     (case err of
        None \<Rightarrow> False
      | Some e \<Rightarrow>
          (case pq_code e of
             Some code \<Rightarrow> code = ''23503''
           | None \<Rightarrow> Contains (ToLower (error_text e)) ''foreign key''))"

definition isTransactionAbortedError :: "(gerror \<Rightarrow> string option) \<Rightarrow> gerror option \<Rightarrow> bool" where
  "isTransactionAbortedError pq_code err =
     (case err of
        None \<Rightarrow> False
      | Some e \<Rightarrow>
          (case pq_code e of
             Some code \<Rightarrow> code = ''25P02''
           | None \<Rightarrow> Contains (ToLower (error_text e)) ''current transaction is aborted''))"

definition event_row_of :: "uuid_lib \<Rightarrow> json_lib \<Rightarrow> uuid \<Rightarrow> time \<Rightarrow> PaymentEvent \<Rightarrow> event_row" where
  "event_row_of L J gen now e =
     \<lparr>erow_ID = (if ev_ID e = uuid_Nil then gen else ev_ID e), erow_PaymentID = ev_PaymentID e,
      erow_EventType = ev_EventType e, erow_ChainID = ev_ChainID e,
      erow_Chain = resolveLegacyChainValue L (ev_ChainID e), erow_TxHash = ev_TxHash e,
      erow_BlockNumber = ev_BlockNumber e, erow_Metadata = normalizeEventMetadataForStorage J (ev_Metadata e),
      erow_CreatedAt = (if ev_CreatedAt e = zero_time then now else ev_CreatedAt e)\<rparr>"

text \<open>
  The retry loop: attempt \<open>i\<close> meets the fault \<open>faults i\<close> of the driver. It runs at most
  \<^verbatim>\<open>maxRetries\<close> times, gives up at once in a transaction and for an error that is not
  retryable.
\<close>

fun event_attempts ::
  "(gerror \<Rightarrow> string option) \<Rightarrow> bool \<Rightarrow> (nat \<Rightarrow> fault) \<Rightarrow> event_row \<Rightarrow> event_row table \<Rightarrow> nat \<Rightarrow> nat \<Rightarrow> gerror \<Rightarrow>
   gerror option \<times> event_row table" where
  "event_attempts pq_code inTx faults m t attempt 0 lastErr =
     (Some (WrapErr ''failed to create payment event after FK retries'' lastErr), t)"
| "event_attempts pq_code inTx faults m t attempt (Suc left) lastErr =
     (case (case faults attempt of Some e \<Rightarrow> Inl e | None \<Rightarrow> insert_row erow_ID m t) of
        Inr t' \<Rightarrow> (None, t')
      | Inl err \<Rightarrow>
          if inTx then (Some err, t)
          else if \<not> isForeignKeyError pq_code (Some err) \<and> \<not> isTransactionAbortedError pq_code (Some err) then (Some err, t)
          else event_attempts pq_code inTx faults m t (Suc attempt) left err)"

definition event_maxRetries :: nat where "event_maxRetries = 1"

definition event_Create ::
  "uuid_lib \<Rightarrow> json_lib \<Rightarrow> (gerror \<Rightarrow> string option) \<Rightarrow> bool \<Rightarrow> (nat \<Rightarrow> fault) \<Rightarrow> uuid \<Rightarrow> time \<Rightarrow> event_row table \<Rightarrow>
   PaymentEvent \<Rightarrow> gerror option \<times> event_row table" where
  "event_Create L J pq_code inTx faults gen now t e =
     event_attempts pq_code inTx faults (event_row_of L J gen now e) t 0 event_maxRetries (ErrorString [])"

definition event_toEntity :: "json_lib \<Rightarrow> event_row \<Rightarrow> PaymentEvent" where
  "event_toEntity J m =
     \<lparr>ev_ID = erow_ID m, ev_PaymentID = erow_PaymentID m, ev_EventType = erow_EventType m, ev_ChainID = erow_ChainID m,
      ev_TxHash = erow_TxHash m, ev_BlockNumber = erow_BlockNumber m,
      ev_Metadata = parseEventMetadataFromStorage J (erow_Metadata m), ev_CreatedAt = erow_CreatedAt m\<rparr>"

definition event_GetByPaymentID ::
  "json_lib \<Rightarrow> event_row orderer \<Rightarrow> fault \<Rightarrow> event_row table \<Rightarrow> uuid \<Rightarrow> PaymentEvent list result" where
  "event_GetByPaymentID J ord flt t paymentID =
     (case flt of
        Some e \<Rightarrow> Inl e
      | None \<Rightarrow> Inr (map (event_toEntity J) (ord (select_where (\<lambda>m. erow_PaymentID m = paymentID) t))))"

text \<open>\<^verbatim>\<open>ORDER BY created_at DESC, id LIMIT 1\<close>: \<^verbatim>\<open>First\<close> adds the primary key to the order.\<close>

definition event_GetLatestByPaymentID ::
  "json_lib \<Rightarrow> fault \<Rightarrow> event_row table \<Rightarrow> uuid \<Rightarrow> PaymentEvent result" where
  "event_GetLatestByPaymentID J flt t paymentID =
     (case flt of
        Some e \<Rightarrow> Inl e
      | None \<Rightarrow>
          (case first_by (\<lambda>m. (- erow_CreatedAt m, erow_ID m)) (\<lambda>m. erow_PaymentID m = paymentID) t of
             None \<Rightarrow> Inl (Sentinel ErrNotFound)
           | Some m \<Rightarrow> Inr (event_toEntity J m)))"

subsection \<open>Lemmas and properties\<close>

definition json_doc :: "json \<Rightarrow> json option" where
  "json_doc v = (if v = JNull \<or> v = JObject [] then None else Some v)"

lemma parse_storage:
  assumes "json_lib_ok J" "json_Parse J s = Some v" "TrimSpace s = ''{}'' \<or> v \<noteq> JObject []"
  shows "parseEventMetadataFromStorage J s = json_doc v"
proof -
  have "json_Parse J (TrimSpace s) = Some v" using assms by (simp add: json_lib_ok_def)
  moreover from this have "TrimSpace s \<noteq> []" using assms(1) by (metis json_lib_ok_def option.distinct(1))
  moreover have "v = JObject []" if "TrimSpace s = ''{}''"
    using that calculation assms(1) by (simp add: json_lib_ok_def)
  ultimately show ?thesis using assms(3)
    by (auto simp: parseEventMetadataFromStorage_def json_doc_def Let_def split: json.split)
qed

text \<open>
  Also. Event metadata: what is stored is always a valid JSON document, and reading it
  back gives the value that was written, for structured values, or the document a JSON text
  denotes, for texts. An empty object and null read back as no metadata.
\<close>

theorem event_metadata_roundtrip:
  assumes ok: "json_lib_ok J" and v: "json_value J v"
  shows "json_Valid J (normalizeEventMetadataForStorage J (Some v)) \<and>
    (case v of
       JString raw \<Rightarrow>
         (case json_Parse J (TrimSpace raw) of
            Some doc \<Rightarrow> doc = JObject [] \<or>
              parseEventMetadataFromStorage J (normalizeEventMetadataForStorage J (Some v)) = json_doc doc
          | None \<Rightarrow> TrimSpace raw = [] \<or>
              parseEventMetadataFromStorage J (normalizeEventMetadataForStorage J (Some v)) = Some v)
     | _ \<Rightarrow> parseEventMetadataFromStorage J (normalizeEventMetadataForStorage J (Some v)) = json_doc v)"
proof -
  have print: "json_Parse J (json_Print J v) = Some v" "json_Print J v \<noteq> []" "json_Parse J [] = None"
    "json_Parse J ''{}'' = Some (JObject [])"
    using ok v by (auto simp: json_lib_ok_def json_value_def)
  have brace: "TrimSpace (json_Print J v) = ''{}'' \<or> v \<noteq> JObject []"
    using ok by (auto simp: json_lib_ok_def intro!: TrimSpace_graphic_all simp: graphic_def)
  note stored = parse_storage [OF ok print(1) brace]
  show ?thesis
  proof (cases v)
    case (JString raw)
    show ?thesis
    proof (cases "json_Parse J (TrimSpace raw)")
      case None
      then show ?thesis using JString print stored
        by (auto simp: normalizeEventMetadataForStorage_def json_Valid_def json_doc_def Let_def)
    next
      case (Some doc)
      then have "TrimSpace raw \<noteq> []" using print by auto
      then show ?thesis using JString Some parse_storage [OF ok Some]
        by (auto simp: normalizeEventMetadataForStorage_def json_Valid_def Let_def)
    qed
  qed (use print stored in \<open>auto simp: normalizeEventMetadataForStorage_def json_Valid_def\<close>)
qed

text \<open>A codec for the witness: two documents.\<close>

definition sample_json :: json_lib where
  "sample_json =
     \<lparr>json_Parse = (\<lambda>s. if s = ''{}'' then Some (JObject [])
        else if s = ''true'' then Some (JBool True) else None),
      json_Print = (\<lambda>v. if v = JObject [] then ''{}'' else ''true'')\<rparr>"

lemma sample_json_ok: "json_lib_ok sample_json"
proof -
  have "TrimSpace ''{}'' = ''{}''" "TrimSpace ''true'' = ''true''"
    by (rule TrimSpace_graphic_all, simp add: graphic_def)+
  then show ?thesis by (simp add: json_lib_ok_def sample_json_def)
qed

theorem event_metadata_roundtrip_witness:
  "parseEventMetadataFromStorage sample_json (normalizeEventMetadataForStorage sample_json (Some (JBool True))) =
     Some (JBool True)"
proof -
  have "json_value sample_json (JBool True)" by (simp add: json_value_def sample_json_def)
  from event_metadata_roundtrip [OF sample_json_ok this] show ?thesis by (simp add: json_doc_def)
qed

text \<open>
  Also. Paging through the payments of a sender with a fixed page size returns each of
  them exactly once, in one global order by creation time, and the total is their number.
\<close>

theorem payment_pages_complete:
  assumes ord: "order_ok (\<lambda>m. - prow_CreatedAt m) ord" and lim: "0 < limit"
    and all: "length (select_where (\<lambda>m. live_payment m \<and> prow_SenderID m = u) t) \<le> n * nat limit"
  shows "\<exists>pages total.
    (\<forall>i<n. payment_GetByUserID ord None None cdb t u limit (int i * limit) = Inr (pages i, total)) \<and>
    mset (concat (map pages [0..<n])) =
      image_mset (payment_toEntity cdb) (mset (select_where (\<lambda>m. live_payment m \<and> prow_SenderID m = u) t)) \<and>
    sorted (map (\<lambda>p. - pay_CreatedAt p) (concat (map pages [0..<n]))) \<and>
    total = int (length (concat (map pages [0..<n])))"
proof -
  let ?rows = "select_where (\<lambda>m. live_payment m \<and> prow_SenderID m = u) t"
  let ?page = "\<lambda>i. sql_page limit (int i * limit) (ord ?rows)"
  let ?pages = "\<lambda>i. map (payment_toEntity cdb) (?page i)"
  have "length (ord ?rows) \<le> n * nat limit" using all order_ok_length [OF ord] by simp
  then have cat: "concat (map ?page [0..<n]) = ord ?rows" by (simp add: sql_page_concat [OF lim])
  have "concat (map ?pages [0..<n]) = map (payment_toEntity cdb) (concat (map ?page [0..<n]))"
    by (simp add: map_concat o_def)
  then have pages: "concat (map ?pages [0..<n]) = map (payment_toEntity cdb) (ord ?rows)" by (simp add: cat)
  have "payment_GetByUserID ord None None cdb t u limit (int i * limit) = Inr (?pages i, int (length ?rows))" for i
    by (simp add: payment_GetByUserID_def payment_page_def Let_def)
  moreover have "map (\<lambda>p. - pay_CreatedAt p) (map (payment_toEntity cdb) (ord ?rows)) =
      map (\<lambda>m. - prow_CreatedAt m) (ord ?rows)" by (simp add: payment_toEntity_def)
  ultimately show ?thesis
    using ord pages order_ok_length [OF ord, of ?rows]
    by (intro exI [of _ ?pages] exI [of _ "int (length ?rows)"]) (simp add: order_ok_def del: map_map)
qed

definition sample_payment :: Payment where
  "sample_payment =
     \<lparr>pay_ID = 21, pay_SenderID = Some 3, pay_MerchantID = Some 9, pay_BridgeID = None, pay_SourceChainID = 7,
      pay_DestChainID = 7, pay_SourceTokenID = Some 11, pay_DestTokenID = Some 12, pay_SenderAddress = ''0xa'',
      pay_DestAddress = ''0xb'', pay_SourceAmount = ''100'', pay_DestAmount = None, pay_FeeAmount = ''1'',
      pay_TotalCharged = ''101'', pay_ReceiverAddress = ''0xb'', pay_Status = PaymentStatusPending,
      pay_SourceTxHash = None, pay_DestTxHash = None, pay_RefundTxHash = None, pay_CrossChainMessageID = None,
      pay_FailureReason = None, pay_RevertData = None, pay_ExpiresAt = None, pay_CreatedAt = 5,
      pay_UpdatedAt = 5, pay_SourceChain = None, pay_DestChain = None\<rparr>"

definition sample_payment_row :: payment_row where
  "sample_payment_row = payment_row_of 0 5 3 11 12 sample_payment"

lemmas sample_payment_defs = sample_payment_row_def payment_row_of_def sample_payment_def live_payment_def

theorem payment_pages_complete_witness:
  "\<exists>pages total.
    (\<forall>i<2. payment_GetByUserID (sort_key (\<lambda>m. - prow_CreatedAt m)) None None base_db [sample_payment_row] 3 1 (int i * 1) =
       Inr (pages i, total)) \<and>
    mset (concat (map pages [0..<2])) =
      image_mset (payment_toEntity base_db)
        (mset (select_where (\<lambda>m. live_payment m \<and> prow_SenderID m = 3) [sample_payment_row])) \<and>
    sorted (map (\<lambda>p. - pay_CreatedAt p) (concat (map pages [0..<2]))) \<and>
    total = int (length (concat (map pages [0..<2])))"
  by (rule payment_pages_complete [OF order_ok_sort_key])
    (simp_all add: select_where_def sample_payment_defs)

subsubsection \<open>Single-row updates\<close>

lemma update_live_payment_table:
  "snd (update_live_payment flt k f t) =
     (if flt = None then map (\<lambda>m. if prow_ID m = k \<and> live_payment m then f m else m) t else t)"
  by (simp add: update_live_payment_def update_checked_table)

lemma update_live_payment_error:
  "fst (update_live_payment flt k f t) =
     (case flt of Some e \<Rightarrow> Some e
      | None \<Rightarrow> if \<exists>m\<in>set t. prow_ID m = k \<and> live_payment m then None else Some (Sentinel ErrNotFound))"
  by (simp add: update_live_payment_def update_checked_error)

lemma payment_GetByID_found:
  assumes "distinct (map prow_ID t)" "m \<in> set t" "live_payment m"
  shows "payment_GetByID None cdb t (prow_ID m) = Inr (payment_toEntity cdb m)"
proof -
  have "distinct (map prow_ID (select_where live_payment t))"
    using assms(1) by (simp add: select_where_def distinct_map_filter)
  from get_by_id_found [OF this, of m] assms show ?thesis
    by (simp add: payment_GetByID_def select_where_def)
qed

lemma payment_GetByID_InrD:
  "payment_GetByID flt cdb t k = Inr p \<Longrightarrow>
   flt = None \<and> (\<exists>m\<in>set t. prow_ID m = k \<and> live_payment m \<and> p = payment_toEntity cdb m)"
  by (cases "get_by_id flt prow_ID k (select_where live_payment t)")
    (auto simp: payment_GetByID_def select_where_def dest!: get_by_id_InrD)

lemma payment_GetByID_missing:
  "\<not> (\<exists>m\<in>set t. prow_ID m = k \<and> live_payment m) \<Longrightarrow> payment_GetByID None cdb t k = Inl (Sentinel ErrNotFound)"
  using get_by_id_missing [of k prow_ID "select_where live_payment t"]
  by (force simp: payment_GetByID_def select_where_def)

text \<open>
  Also. A payment that was created reads back with its amounts, addresses, tokens,
  status and merchant as written. Its receiver address is what is stored as destination
  address, and an expiry or transaction hash the entity carried is not stored.
\<close>

theorem payment_Create_GetByID:
  assumes cr: "payment_Create flt gen now t p = Inr (p', t')" and key: "distinct (map prow_ID t)"
  shows "\<exists>q. payment_GetByID None cdb t' (pay_ID p') = Inr q \<and>
    pay_ID q = pay_ID p' \<and> pay_SenderID q = pay_SenderID p \<and> pay_MerchantID q = pay_MerchantID p \<and>
    pay_SourceTokenID q = pay_SourceTokenID p \<and> pay_DestTokenID q = pay_DestTokenID p \<and>
    pay_SourceAmount q = pay_SourceAmount p \<and> pay_DestAmount q = pay_DestAmount p \<and>
    payment_status_string (pay_Status q) = payment_status_string (pay_Status p) \<and>
    pay_ReceiverAddress q = pay_ReceiverAddress p \<and> pay_DestAddress q = pay_ReceiverAddress p \<and>
    pay_ExpiresAt q = None \<and> pay_SourceTxHash q = None"
proof -
  obtain sender src dst where opt: "pay_SenderID p = Some sender" "pay_SourceTokenID p = Some src" "pay_DestTokenID p = Some dst"
    using cr by (auto simp: payment_Create_def split: option.splits)
  let ?m = "payment_row_of gen now sender src dst p"
  have "flt = None" using cr opt by (simp add: payment_Create_def Let_def split: option.splits)
  then have "map_sum (\<lambda>e. e) (\<lambda>t'. (p\<lparr>pay_ID := prow_ID ?m\<rparr>, t')) (insert_row prow_ID ?m t) = Inr (p', t')"
    using cr opt by (simp add: payment_Create_def Let_def)
  then have ins: "insert_row prow_ID ?m t = Inr t'" and p': "p' = p\<lparr>pay_ID := prow_ID ?m\<rparr>"
    by (cases "insert_row prow_ID ?m t"; simp)+
  have "payment_GetByID None cdb t' (prow_ID ?m) = Inr (payment_toEntity cdb ?m)"
    using insert_row_distinct [OF ins key] insert_row_InrD [OF ins]
    by (intro payment_GetByID_found) (auto simp: live_payment_def payment_row_of_def)
  then show ?thesis using p' opt by (simp add: payment_toEntity_def payment_row_of_def)
qed

theorem payment_Create_GetByID_witness:
  "\<exists>q. payment_GetByID None base_db [sample_payment_row] 21 = Inr q \<and> pay_SourceAmount q = ''100'' \<and> pay_ExpiresAt q = None"
proof -
  have "payment_Create None 0 5 [] (sample_payment\<lparr>pay_ExpiresAt := Some 9\<rparr>) =
      Inr (sample_payment\<lparr>pay_ExpiresAt := Some 9\<rparr>, [sample_payment_row])"
    by (simp add: payment_Create_def insert_row_def sample_payment_defs)
  from payment_Create_GetByID [OF this, of base_db] show ?thesis
    by (auto simp: sample_payment_def)
qed

end
