(* ===== verification/Accounts.thy ===== *)
theory Accounts
  imports Payments
begin

text \<open>
  Accounts: merchants and wallets. The entities under \<^verbatim>\<open>internal/domain/entities/\<close>, their
  repositories (\<^verbatim>\<open>merchant_repo_impl.go\<close>, \<^verbatim>\<open>wallet_repo_impl.go\<close>) and the use cases
  \<^verbatim>\<open>merchant_usecase.go\<close> and \<^verbatim>\<open>wallet_usecase.go\<close>. The user lookup is an argument of the use
  cases, as the repository interface is in the code.
\<close>

subsection \<open>Users\<close>

datatype UserRole = UserRoleAdmin | UserRoleSubAdmin | UserRolePartner | UserRoleUser | UserRoleOther string

datatype KYCStatus =
    KYCNotStarted | KYCIDCardVerified | KYCFaceVerified | KYCLivenessVerified | KYCFullyVerified | KYCOther string

record User =
  user_ID :: uuid
  user_Email :: string
  user_Name :: string
  user_PasswordHash :: string
  user_Role :: UserRole
  user_KYCStatus :: KYCStatus
  user_KYCVerifiedAt :: "time option"
  user_CreatedAt :: time
  user_UpdatedAt :: time

subsection \<open>Merchants\<close>

datatype MerchantType =
    MerchantTypePartner | MerchantTypeCorporate | MerchantTypeUMKM | MerchantTypeRetail | MerchantTypeOther string

fun merchant_type_string :: "MerchantType \<Rightarrow> string" where
  "merchant_type_string MerchantTypePartner = ''PARTNER''"
| "merchant_type_string MerchantTypeCorporate = ''CORPORATE''"
| "merchant_type_string MerchantTypeUMKM = ''UMKM''"
| "merchant_type_string MerchantTypeRetail = ''RETAIL''"
| "merchant_type_string (MerchantTypeOther s) = s"

definition merchant_type_of :: "string \<Rightarrow> MerchantType" where
  "merchant_type_of s =
     (if s = ''PARTNER'' then MerchantTypePartner else if s = ''CORPORATE'' then MerchantTypeCorporate
      else if s = ''UMKM'' then MerchantTypeUMKM else if s = ''RETAIL'' then MerchantTypeRetail
      else MerchantTypeOther s)"

datatype MerchantStatus =
    MerchantStatusPending | MerchantStatusActive | MerchantStatusSuspended | MerchantStatusRejected
  | MerchantStatusOther string

fun merchant_status_string :: "MerchantStatus \<Rightarrow> string" where
  "merchant_status_string MerchantStatusPending = ''PENDING''"
| "merchant_status_string MerchantStatusActive = ''ACTIVE''"
| "merchant_status_string MerchantStatusSuspended = ''SUSPENDED''"
| "merchant_status_string MerchantStatusRejected = ''REJECTED''"
| "merchant_status_string (MerchantStatusOther s) = s"

definition merchant_status_of :: "string \<Rightarrow> MerchantStatus" where
  "merchant_status_of s =
     (if s = ''PENDING'' then MerchantStatusPending else if s = ''ACTIVE'' then MerchantStatusActive
      else if s = ''SUSPENDED'' then MerchantStatusSuspended else if s = ''REJECTED'' then MerchantStatusRejected
      else MerchantStatusOther s)"

record Merchant =
  mer_ID :: uuid
  mer_UserID :: uuid
  mer_BusinessName :: string
  mer_BusinessEmail :: string
  mer_MerchantType :: MerchantType
  mer_Status :: MerchantStatus
  mer_TaxID :: "string option"
  mer_BusinessAddress :: "string option"
  mer_Documents :: "string option"
  mer_FeeDiscountPercent :: string
  mer_CallbackURL :: string
  mer_WebhookSecret :: string
  mer_WebhookIsActive :: bool
  mer_SupportEmail :: string
  mer_LogoURL :: string
  mer_WebhookMetadata :: "string option"
  mer_Metadata :: "string option"
  mer_VerifiedAt :: "time option"
  mer_CreatedAt :: time
  mer_UpdatedAt :: time

record merchant_row =
  mrow_ID :: uuid
  mrow_UserID :: uuid
  mrow_BusinessName :: string
  mrow_BusinessEmail :: string
  mrow_MerchantType :: string
  mrow_Status :: string
  mrow_TaxID :: string
  mrow_BusinessAddress :: string
  mrow_Documents :: string
  mrow_FeeDiscountPercent :: string
  mrow_CallbackURL :: string
  mrow_WebhookSecret :: string
  mrow_WebhookIsActive :: bool
  mrow_SupportEmail :: string
  mrow_LogoURL :: string
  mrow_WebhookMetadata :: string
  mrow_Metadata :: string
  mrow_VerifiedAt :: "time option"
  mrow_CreatedAt :: time
  mrow_UpdatedAt :: time
  mrow_DeletedAt :: "time option"

definition text_or :: "string \<Rightarrow> string option \<Rightarrow> string" where
  "text_or d v = (case v of None \<Rightarrow> d | Some s \<Rightarrow> s)"

definition live_merchant :: "merchant_row \<Rightarrow> bool" where
  "live_merchant m \<longleftrightarrow> mrow_DeletedAt m = None"

definition merchant_row_of :: "uuid \<Rightarrow> time \<Rightarrow> Merchant \<Rightarrow> merchant_row" where
  "merchant_row_of gen now e =
     \<lparr>mrow_ID = (if mer_ID e = uuid_Nil then gen else mer_ID e), mrow_UserID = mer_UserID e,
      mrow_BusinessName = mer_BusinessName e, mrow_BusinessEmail = mer_BusinessEmail e,
      mrow_MerchantType = merchant_type_string (mer_MerchantType e),
      mrow_Status = (if merchant_status_string (mer_Status e) = [] then ''pending'' else merchant_status_string (mer_Status e)),
      mrow_TaxID = text_or [] (mer_TaxID e), mrow_BusinessAddress = text_or [] (mer_BusinessAddress e),
      mrow_Documents = text_or ''{}'' (mer_Documents e),
      mrow_FeeDiscountPercent = (if mer_FeeDiscountPercent e = [] then ''0'' else mer_FeeDiscountPercent e),
      mrow_CallbackURL = mer_CallbackURL e, mrow_WebhookSecret = mer_WebhookSecret e,
      mrow_WebhookIsActive = mer_WebhookIsActive e, mrow_SupportEmail = mer_SupportEmail e,
      mrow_LogoURL = mer_LogoURL e, mrow_WebhookMetadata = text_or ''{}'' (mer_WebhookMetadata e),
      mrow_Metadata = text_or ''{}'' (mer_Metadata e), mrow_VerifiedAt = mer_VerifiedAt e,
      mrow_CreatedAt = (if mer_CreatedAt e = zero_time then now else mer_CreatedAt e),
      mrow_UpdatedAt = (if mer_UpdatedAt e = zero_time then now else mer_UpdatedAt e), mrow_DeletedAt = None\<rparr>"

definition merchant_toEntity :: "merchant_row \<Rightarrow> Merchant" where
  "merchant_toEntity m =
     \<lparr>mer_ID = mrow_ID m, mer_UserID = mrow_UserID m, mer_BusinessName = mrow_BusinessName m,
      mer_BusinessEmail = mrow_BusinessEmail m, mer_MerchantType = merchant_type_of (mrow_MerchantType m),
      mer_Status = merchant_status_of (mrow_Status m), mer_TaxID = Some (mrow_TaxID m),
      mer_BusinessAddress = Some (mrow_BusinessAddress m), mer_Documents = Some (mrow_Documents m),
      mer_FeeDiscountPercent = mrow_FeeDiscountPercent m, mer_CallbackURL = mrow_CallbackURL m,
      mer_WebhookSecret = mrow_WebhookSecret m, mer_WebhookIsActive = mrow_WebhookIsActive m,
      mer_SupportEmail = mrow_SupportEmail m, mer_LogoURL = mrow_LogoURL m,
      mer_WebhookMetadata = Some (mrow_WebhookMetadata m), mer_Metadata = Some (mrow_Metadata m),
      mer_VerifiedAt = mrow_VerifiedAt m, mer_CreatedAt = mrow_CreatedAt m, mer_UpdatedAt = mrow_UpdatedAt m\<rparr>"

definition merchant_Create :: "fault \<Rightarrow> uuid \<Rightarrow> time \<Rightarrow> merchant_row table \<Rightarrow> Merchant \<Rightarrow> merchant_row table result" where
  "merchant_Create flt gen now t e =
     (case flt of Some err \<Rightarrow> Inl err | None \<Rightarrow> insert_row mrow_ID (merchant_row_of gen now e) t)"

definition merchant_GetByID :: "fault \<Rightarrow> merchant_row table \<Rightarrow> uuid \<Rightarrow> Merchant result" where
  "merchant_GetByID flt t k =
     map_sum (\<lambda>e. e) merchant_toEntity (get_by_id flt mrow_ID k (select_where live_merchant t))"

definition merchant_GetByUserID :: "fault \<Rightarrow> merchant_row table \<Rightarrow> uuid \<Rightarrow> Merchant result" where
  "merchant_GetByUserID flt t userID =
     (case flt of
        Some e \<Rightarrow> Inl e
      | None \<Rightarrow>
          (case first_by mrow_ID (\<lambda>m. mrow_UserID m = userID \<and> live_merchant m) t of
             None \<Rightarrow> Inl (Sentinel ErrNotFound)
           | Some m \<Rightarrow> Inr (merchant_toEntity m)))"

definition merchant_Update :: "fault \<Rightarrow> time \<Rightarrow> merchant_row table \<Rightarrow> Merchant \<Rightarrow> gerror option \<times> merchant_row table" where
  "merchant_Update flt now t e =
     update_checked flt (\<lambda>m. mrow_ID m = mer_ID e \<and> live_merchant m)
       (\<lambda>m. m\<lparr>mrow_BusinessName := mer_BusinessName e, mrow_BusinessEmail := mer_BusinessEmail e,
              mrow_MerchantType := merchant_type_string (mer_MerchantType e),
              mrow_Status := merchant_status_string (mer_Status e), mrow_TaxID := text_or [] (mer_TaxID e),
              mrow_BusinessAddress := text_or [] (mer_BusinessAddress e), mrow_Documents := text_or ''{}'' (mer_Documents e),
              mrow_FeeDiscountPercent := mer_FeeDiscountPercent e, mrow_CallbackURL := mer_CallbackURL e,
              mrow_WebhookSecret := mer_WebhookSecret e, mrow_WebhookIsActive := mer_WebhookIsActive e,
              mrow_SupportEmail := mer_SupportEmail e, mrow_LogoURL := mer_LogoURL e,
              mrow_WebhookMetadata := text_or ''{}'' (mer_WebhookMetadata e),
              mrow_Metadata := text_or ''{}'' (mer_Metadata e), mrow_UpdatedAt := now\<rparr>) t"

definition merchant_UpdateStatus ::
  "fault \<Rightarrow> time \<Rightarrow> merchant_row table \<Rightarrow> uuid \<Rightarrow> MerchantStatus \<Rightarrow> gerror option \<times> merchant_row table" where
  "merchant_UpdateStatus flt now t k status =
     update_checked flt (\<lambda>m. mrow_ID m = k \<and> live_merchant m)
       (\<lambda>m. let m' = m\<lparr>mrow_Status := merchant_status_string status, mrow_UpdatedAt := now\<rparr>
             in if status = MerchantStatusActive then m'\<lparr>mrow_VerifiedAt := Some now\<rparr> else m') t"

definition merchant_List :: "merchant_row orderer \<Rightarrow> fault \<Rightarrow> merchant_row table \<Rightarrow> Merchant list result" where
  "merchant_List ord flt t =
     (case flt of
        Some e \<Rightarrow> Inl e
      | None \<Rightarrow> Inr (map merchant_toEntity (ord (select_where live_merchant t))))"

definition merchant_SoftDelete :: "fault \<Rightarrow> time \<Rightarrow> merchant_row table \<Rightarrow> uuid \<Rightarrow> gerror option \<times> merchant_row table" where
  "merchant_SoftDelete flt now t k =
     update_checked flt (\<lambda>m. mrow_ID m = k \<and> live_merchant m) (\<lambda>m. m\<lparr>mrow_DeletedAt := Some now\<rparr>) t"

subsubsection \<open>Applications\<close>

record MerchantApplyInput =
  apply_MerchantType :: MerchantType
  apply_BusinessName :: string
  apply_BusinessEmail :: string
  apply_TaxID :: string
  apply_BusinessAddress :: string

record MerchantStatusResponse =
  msr_MerchantID :: uuid
  msr_Status :: MerchantStatus
  msr_MerchantType :: MerchantType
  msr_BusinessName :: string
  msr_Message :: string
  msr_SubmittedAt :: time
  msr_ReviewedAt :: "time option"

definition ApplyMerchant ::
  "(uuid \<Rightarrow> User result) \<Rightarrow> fault \<Rightarrow> fault \<Rightarrow> uuid \<Rightarrow> time \<Rightarrow> merchant_row table \<Rightarrow> uuid \<Rightarrow> MerchantApplyInput \<Rightarrow>
   MerchantStatusResponse result \<times> merchant_row table" where
  "ApplyMerchant userGetByID flt1 flt2 gen now t userID input =
     (case userGetByID userID of
        Inl e \<Rightarrow> (Inl e, t)
      | Inr user \<Rightarrow>
          (case merchant_GetByUserID flt1 t userID of
             Inr existing \<Rightarrow>
               (Inr \<lparr>msr_MerchantID = mer_ID existing, msr_Status = mer_Status existing,
                     msr_MerchantType = mer_MerchantType existing, msr_BusinessName = mer_BusinessName existing,
                     msr_Message = ''Merchant application already exists'', msr_SubmittedAt = mer_CreatedAt existing,
                     msr_ReviewedAt = None\<rparr>, t)
           | Inl e \<Rightarrow>
               if e \<noteq> Sentinel ErrNotFound then (Inl e, t)
               else if apply_MerchantType input \<notin>
                   {MerchantTypePartner, MerchantTypeCorporate, MerchantTypeUMKM, MerchantTypeRetail} then
                 (Inl (Sentinel ErrBadRequest), t)
               else
                 let merchant =
                   \<lparr>mer_ID = uuid_Nil, mer_UserID = user_ID user, mer_BusinessName = apply_BusinessName input,
                    mer_BusinessEmail = apply_BusinessEmail input, mer_MerchantType = apply_MerchantType input,
                    mer_Status = MerchantStatusPending,
                    mer_TaxID = (if apply_TaxID input \<noteq> [] then Some (apply_TaxID input) else None),
                    mer_BusinessAddress = (if apply_BusinessAddress input \<noteq> [] then Some (apply_BusinessAddress input) else None),
                    mer_Documents = None, mer_FeeDiscountPercent = [], mer_CallbackURL = [], mer_WebhookSecret = [],
                    mer_WebhookIsActive = False, mer_SupportEmail = [], mer_LogoURL = [], mer_WebhookMetadata = None,
                    mer_Metadata = None, mer_VerifiedAt = None, mer_CreatedAt = zero_time, mer_UpdatedAt = zero_time\<rparr> in
                 (case merchant_Create flt2 gen now t merchant of
                    Inl e \<Rightarrow> (Inl e, t)
                  | Inr t' \<Rightarrow>
                      (Inr \<lparr>msr_MerchantID = mer_ID merchant, msr_Status = mer_Status merchant,
                            msr_MerchantType = mer_MerchantType merchant, msr_BusinessName = mer_BusinessName merchant,
                            msr_Message = ''Merchant application submitted successfully'',
                            msr_SubmittedAt = mer_CreatedAt merchant, msr_ReviewedAt = None\<rparr>, t'))))"

fun getStatusMessage :: "MerchantStatus \<Rightarrow> string" where
  "getStatusMessage MerchantStatusPending = ''Your merchant application is under review''"
| "getStatusMessage MerchantStatusActive = ''Your merchant account is active''"
| "getStatusMessage MerchantStatusSuspended = ''Your merchant account has been suspended''"
| "getStatusMessage MerchantStatusRejected = ''Your merchant application was rejected''"
| "getStatusMessage (MerchantStatusOther s) = []"

definition GetMerchantStatus :: "fault \<Rightarrow> merchant_row table \<Rightarrow> uuid \<Rightarrow> MerchantStatusResponse result" where
  "GetMerchantStatus flt t userID =
     (case merchant_GetByUserID flt t userID of
        Inl e \<Rightarrow>
          if e = Sentinel ErrNotFound then
            Inr \<lparr>msr_MerchantID = uuid_Nil, msr_Status = MerchantStatusPending, msr_MerchantType = MerchantTypeOther [],
                 msr_BusinessName = [], msr_Message = ''No merchant application found'', msr_SubmittedAt = zero_time,
                 msr_ReviewedAt = None\<rparr>
          else Inl e
      | Inr merchant \<Rightarrow>
          Inr \<lparr>msr_MerchantID = mer_ID merchant, msr_Status = mer_Status merchant,
               msr_MerchantType = mer_MerchantType merchant, msr_BusinessName = mer_BusinessName merchant,
               msr_Message = getStatusMessage (mer_Status merchant), msr_SubmittedAt = mer_CreatedAt merchant,
               msr_ReviewedAt = mer_VerifiedAt merchant\<rparr>)"

definition ApproveMerchant :: "fault \<Rightarrow> time \<Rightarrow> merchant_row table \<Rightarrow> uuid \<Rightarrow> gerror option \<times> merchant_row table" where
  "ApproveMerchant flt now t k = merchant_UpdateStatus flt now t k MerchantStatusActive"

definition RejectMerchant :: "fault \<Rightarrow> time \<Rightarrow> merchant_row table \<Rightarrow> uuid \<Rightarrow> gerror option \<times> merchant_row table" where
  "RejectMerchant flt now t k = merchant_UpdateStatus flt now t k MerchantStatusRejected"

definition SuspendMerchant :: "fault \<Rightarrow> time \<Rightarrow> merchant_row table \<Rightarrow> uuid \<Rightarrow> gerror option \<times> merchant_row table" where
  "SuspendMerchant flt now t k = merchant_UpdateStatus flt now t k MerchantStatusSuspended"

subsection \<open>Wallets\<close>

record Wallet =
  wal_ID :: uuid
  wal_UserID :: "uuid option"
  wal_MerchantID :: "uuid option"
  wal_ChainID :: uuid
  wal_Address :: string
  wal_Type :: string
  wal_IsPrimary :: bool
  wal_CreatedAt :: time
  wal_UpdatedAt :: time

record wallet_row =
  wrow_ID :: uuid
  wrow_UserID :: "uuid option"
  wrow_MerchantID :: "uuid option"
  wrow_ChainID :: uuid
  wrow_Address :: string
  wrow_IsPrimary :: bool
  wrow_CreatedAt :: time
  wrow_UpdatedAt :: time
  wrow_DeletedAt :: "time option"

definition live_wallet :: "wallet_row \<Rightarrow> bool" where
  "live_wallet m \<longleftrightarrow> wrow_DeletedAt m = None"

definition wallet_row_of :: "uuid \<Rightarrow> time \<Rightarrow> Wallet \<Rightarrow> wallet_row" where
  "wallet_row_of gen now w =
     \<lparr>wrow_ID = (if wal_ID w = uuid_Nil then gen else wal_ID w), wrow_UserID = wal_UserID w,
      wrow_MerchantID = wal_MerchantID w, wrow_ChainID = wal_ChainID w, wrow_Address = wal_Address w,
      wrow_IsPrimary = wal_IsPrimary w,
      wrow_CreatedAt = (if wal_CreatedAt w = zero_time then now else wal_CreatedAt w), wrow_UpdatedAt = now,
      wrow_DeletedAt = None\<rparr>"

definition wallet_toEntity :: "wallet_row \<Rightarrow> Wallet" where
  "wallet_toEntity m =
     \<lparr>wal_ID = wrow_ID m, wal_UserID = wrow_UserID m, wal_MerchantID = wrow_MerchantID m, wal_ChainID = wrow_ChainID m,
      wal_Address = wrow_Address m, wal_Type = ''EOA'', wal_IsPrimary = wrow_IsPrimary m,
      wal_CreatedAt = wrow_CreatedAt m, wal_UpdatedAt = wrow_UpdatedAt m\<rparr>"

definition wallet_Create :: "fault \<Rightarrow> uuid \<Rightarrow> time \<Rightarrow> wallet_row table \<Rightarrow> Wallet \<Rightarrow> wallet_row table result" where
  "wallet_Create flt gen now t w =
     (case flt of Some err \<Rightarrow> Inl err | None \<Rightarrow> insert_row wrow_ID (wallet_row_of gen now w) t)"

definition wallet_GetByID :: "fault \<Rightarrow> wallet_row table \<Rightarrow> uuid \<Rightarrow> Wallet result" where
  "wallet_GetByID flt t k =
     map_sum (\<lambda>e. e) wallet_toEntity (get_by_id flt wrow_ID k (select_where live_wallet t))"

definition wallet_GetByUserID :: "wallet_row orderer \<Rightarrow> fault \<Rightarrow> wallet_row table \<Rightarrow> uuid \<Rightarrow> Wallet list result" where
  "wallet_GetByUserID ord flt t userID =
     (case flt of
        Some e \<Rightarrow> Inl e
      | None \<Rightarrow> Inr (map wallet_toEntity (ord (select_where (\<lambda>m. wrow_UserID m = Some userID \<and> live_wallet m) t))))"

definition wallet_GetByAddress :: "fault \<Rightarrow> wallet_row table \<Rightarrow> uuid \<Rightarrow> string \<Rightarrow> Wallet result" where
  "wallet_GetByAddress flt t chainID address =
     (case flt of
        Some e \<Rightarrow> Inl e
      | None \<Rightarrow>
          (case first_by wrow_ID (\<lambda>m. wrow_ChainID m = chainID \<and> wrow_Address m = address \<and> live_wallet m) t of
             None \<Rightarrow> Inl (Sentinel ErrNotFound)
           | Some m \<Rightarrow> Inr (wallet_toEntity m)))"

text \<open>The two updates run in one transaction; the driver may fail at begin, each update and commit.\<close>

definition wallet_SetPrimary ::
  "fault \<Rightarrow> fault \<Rightarrow> fault \<Rightarrow> fault \<Rightarrow> time \<Rightarrow> wallet_row table \<Rightarrow> uuid \<Rightarrow> uuid \<Rightarrow> gerror option \<times> wallet_row table" where
  "wallet_SetPrimary flt0 flt1 flt2 flt3 now t userID walletID =
     (case flt0 of
        Some e \<Rightarrow> (Some e, t)
      | None \<Rightarrow>
          (case flt1 of
             Some e \<Rightarrow> (Some e, t)
           | None \<Rightarrow>
               let t1 = fst (update_where (\<lambda>m. wrow_UserID m = Some userID \<and> live_wallet m)
                          (\<lambda>m. m\<lparr>wrow_IsPrimary := False, wrow_UpdatedAt := now\<rparr>) t) in
               (case update_checked flt2 (\<lambda>m. wrow_ID m = walletID \<and> wrow_UserID m = Some userID \<and> live_wallet m)
                       (\<lambda>m. m\<lparr>wrow_IsPrimary := True, wrow_UpdatedAt := now\<rparr>) t1 of
                  (Some e, _) \<Rightarrow> (Some e, t)
                | (None, t2) \<Rightarrow> (case flt3 of Some e \<Rightarrow> (Some e, t) | None \<Rightarrow> (None, t2)))))"

definition wallet_SoftDelete :: "fault \<Rightarrow> time \<Rightarrow> wallet_row table \<Rightarrow> uuid \<Rightarrow> gerror option \<times> wallet_row table" where
  "wallet_SoftDelete flt now t k =
     update_checked flt (\<lambda>m. wrow_ID m = k \<and> live_wallet m) (\<lambda>m. m\<lparr>wrow_DeletedAt := Some now\<rparr>) t"

record ConnectWalletInput =
  cw_ChainID :: string
  cw_Address :: string
  cw_Signature :: string
  cw_Message :: string

record wallet_faults =
  wf_list :: fault
  wf_address :: fault
  wf_create :: fault

definition new_wallet :: "uuid \<Rightarrow> uuid \<Rightarrow> string \<Rightarrow> bool \<Rightarrow> Wallet" where
  "new_wallet userID chainID address isPrimary =
     \<lparr>wal_ID = uuid_Nil, wal_UserID = Some userID, wal_MerchantID = None, wal_ChainID = chainID,
      wal_Address = address, wal_Type = [], wal_IsPrimary = isPrimary, wal_CreatedAt = zero_time,
      wal_UpdatedAt = zero_time\<rparr>"

definition ConnectWallet ::
  "uuid_lib \<Rightarrow> ChainRepository \<Rightarrow> (uuid \<Rightarrow> User result) \<Rightarrow> wallet_row orderer \<Rightarrow> wallet_faults \<Rightarrow> uuid \<Rightarrow> time \<Rightarrow>
   wallet_row table \<Rightarrow> uuid \<Rightarrow> ConnectWalletInput \<Rightarrow> Wallet result \<times> wallet_row table" where
  "ConnectWallet L repo userGetByID ord flt gen now t userID input =
     (if cw_ChainID input = [] \<or> cw_Address input = [] then (Inl (Sentinel ErrBadRequest), t)
      else
        case userGetByID userID of
          Inl e \<Rightarrow> (Inl e, t)
        | Inr user \<Rightarrow>
            (case wallet_GetByUserID ord (wf_list flt) t userID of
               Inl e \<Rightarrow> (Inl e, t)
             | Inr existingWallets \<Rightarrow>
                 if length existingWallets > 0 \<and> user_Role user \<noteq> UserRoleAdmin \<and> user_Role user \<noteq> UserRoleSubAdmin \<and>
                    user_KYCStatus user \<noteq> KYCFullyVerified then
                   (Inl (NewError ''KYC verification required to add additional wallets'' (Some (Sentinel ErrForbidden))), t)
                 else
                   (case ResolveFromAny L repo (cw_ChainID input) of
                      Inl _ \<Rightarrow> (Inl (Sentinel ErrInvalidInput), t)
                    | Inr (checkChainID, _) \<Rightarrow>
                        (case wallet_GetByAddress (wf_address flt) t checkChainID (cw_Address input) of
                           Inr existingWallet \<Rightarrow>
                             if wal_UserID existingWallet = Some userID then (Inr existingWallet, t)
                             else (Inl (Sentinel ErrAlreadyExists), t)
                         | Inl e \<Rightarrow>
                             if \<not> errors_Is e ErrNotFound then (Inl e, t)
                             else
                               let isPrimary = (length existingWallets = 0) in
                               (case ResolveFromAny L repo (cw_ChainID input) of
                                  Inl _ \<Rightarrow> (Inl (Sentinel ErrInvalidInput), t)
                                | Inr (chainID, _) \<Rightarrow>
                                    let wallet = new_wallet userID chainID (cw_Address input) isPrimary in
                                    (case wallet_Create (wf_create flt) gen now t wallet of
                                       Inl e \<Rightarrow> (Inl e, t)
                                     | Inr t' \<Rightarrow> (Inr wallet, t')))))))"

definition GetWallets :: "wallet_row orderer \<Rightarrow> fault \<Rightarrow> wallet_row table \<Rightarrow> uuid \<Rightarrow> Wallet list result" where
  "GetWallets ord flt t userID = wallet_GetByUserID ord flt t userID"

definition SetPrimaryWallet ::
  "fault \<Rightarrow> fault \<Rightarrow> fault \<Rightarrow> fault \<Rightarrow> time \<Rightarrow> wallet_row table \<Rightarrow> uuid \<Rightarrow> uuid \<Rightarrow> gerror option \<times> wallet_row table" where
  "SetPrimaryWallet flt0 flt1 flt2 flt3 now t userID walletID = wallet_SetPrimary flt0 flt1 flt2 flt3 now t userID walletID"

definition DisconnectWallet ::
  "fault \<Rightarrow> fault \<Rightarrow> time \<Rightarrow> wallet_row table \<Rightarrow> uuid \<Rightarrow> uuid \<Rightarrow> gerror option \<times> wallet_row table" where
  "DisconnectWallet flt1 flt2 now t userID walletID =
     (case wallet_GetByID flt1 t walletID of
        Inl e \<Rightarrow> (Some e, t)
      | Inr wallet \<Rightarrow>
          if wal_UserID wallet \<noteq> Some userID then (Some (Sentinel ErrForbidden), t)
          else wallet_SoftDelete flt2 now t walletID)"

subsection \<open>One primary wallet\<close>

text \<open>
  The states a wallet table goes through. The ordering of the user's wallets, the user and
  chain lookups and the driver's faults are arbitrary at each step.
\<close>

definition primaries :: "wallet_row table \<Rightarrow> uuid \<Rightarrow> wallet_row list" where
  "primaries t u = filter (\<lambda>m. wrow_UserID m = Some u \<and> live_wallet m \<and> wrow_IsPrimary m) t"

definition wallets_ok :: "wallet_row table \<Rightarrow> bool" where
  "wallets_ok t \<longleftrightarrow> distinct (map wrow_ID t) \<and> (\<forall>u. length (primaries t u) \<le> 1)"

inductive wallet_step :: "wallet_row table \<Rightarrow> wallet_row table \<Rightarrow> bool" where
  connect: "mset (ord (select_where (\<lambda>m. wrow_UserID m = Some u \<and> live_wallet m) t)) =
      mset (select_where (\<lambda>m. wrow_UserID m = Some u \<and> live_wallet m) t) \<Longrightarrow>
    wallet_step t (snd (ConnectWallet L repo users ord flt gen now t u input))"
| set_primary: "wallet_step t (snd (SetPrimaryWallet f0 f1 f2 f3 now t u w))"
| disconnect: "wallet_step t (snd (DisconnectWallet f1 f2 now t u w))"

inductive_cases wallet_stepE: "wallet_step t t'"

lemma distinct_map_filter_length:
  assumes "distinct (map f t)" "\<And>r. P r \<Longrightarrow> f r = k"
  shows "length (filter P t) \<le> 1"
  using assms(1)
proof (induction t)
  case (Cons r t)
  have "filter P t = []" if "P r"
  proof -
    have "\<not> P x" if "x \<in> set t" for x
      using Cons.prems \<open>P r\<close> assms(2) that by (metis distinct.simps(2) image_eqI list.map(2) list.set_map)
    then show ?thesis by simp
  qed
  then show ?case using Cons by auto
qed simp

definition clear_primary :: "uuid \<Rightarrow> time \<Rightarrow> wallet_row \<Rightarrow> wallet_row" where
  "clear_primary u now m =
     (if wrow_UserID m = Some u \<and> live_wallet m then m\<lparr>wrow_IsPrimary := False, wrow_UpdatedAt := now\<rparr> else m)"

definition mark_primary :: "uuid \<Rightarrow> uuid \<Rightarrow> time \<Rightarrow> wallet_row \<Rightarrow> wallet_row" where
  "mark_primary u w now m =
     (if wrow_ID m = w \<and> wrow_UserID m = Some u \<and> live_wallet m
      then m\<lparr>wrow_IsPrimary := True, wrow_UpdatedAt := now\<rparr> else m)"

lemma wallet_SetPrimary_table:
  "wallet_SetPrimary f0 f1 f2 f3 now t u w =
     (case f0 of Some e \<Rightarrow> (Some e, t) | None \<Rightarrow>
      case f1 of Some e \<Rightarrow> (Some e, t) | None \<Rightarrow>
      case f2 of Some e \<Rightarrow> (Some e, t) | None \<Rightarrow>
      if \<exists>m\<in>set t. wrow_ID m = w \<and> wrow_UserID m = Some u \<and> live_wallet m then
        (case f3 of Some e \<Rightarrow> (Some e, t) | None \<Rightarrow> (None, map (mark_primary u w now \<circ> clear_primary u now) t))
      else (Some (Sentinel ErrNotFound), t))"
proof -
  let ?t1 = "map (clear_primary u now) t"
  let ?hit = "\<lambda>m. wrow_ID m = w \<and> wrow_UserID m = Some u \<and> live_wallet m"
  have "?hit (clear_primary u now m) \<longleftrightarrow> ?hit m" for m
    by (simp add: clear_primary_def live_wallet_def)
  then have hit: "(\<exists>m\<in>set ?t1. ?hit m) \<longleftrightarrow> (\<exists>m\<in>set t. ?hit m)" by simp
  have upd: "update_checked f2 ?hit (\<lambda>m. m\<lparr>wrow_IsPrimary := True, wrow_UpdatedAt := now\<rparr>) ?t1 =
      (case f2 of Some e \<Rightarrow> Some e | None \<Rightarrow> if \<exists>m\<in>set t. ?hit m then None else Some (Sentinel ErrNotFound),
       if f2 = None then map (mark_primary u w now) ?t1 else ?t1)"
    using hit by (cases f2) (simp_all add: prod_eq_iff update_checked_table update_checked_error mark_primary_def del: set_map)
  have t1: "fst (update_where (\<lambda>m. wrow_UserID m = Some u \<and> live_wallet m)
      (\<lambda>m. m\<lparr>wrow_IsPrimary := False, wrow_UpdatedAt := now\<rparr>) t) = ?t1"
    by (simp add: clear_primary_def)
  show ?thesis
    unfolding wallet_SetPrimary_def t1 Let_def upd
    by (cases f0; cases f1; cases f2; cases f3) auto
qed

lemma primary_after:
  "wrow_UserID ((mark_primary u w now \<circ> clear_primary u now) m) = wrow_UserID m"
  "wrow_ID ((mark_primary u w now \<circ> clear_primary u now) m) = wrow_ID m"
  "live_wallet ((mark_primary u w now \<circ> clear_primary u now) m) = live_wallet m"
  "wrow_UserID m = Some u \<Longrightarrow> live_wallet m \<Longrightarrow>
     wrow_IsPrimary ((mark_primary u w now \<circ> clear_primary u now) m) = (wrow_ID m = w)"
  "wrow_UserID m \<noteq> Some u \<Longrightarrow> (mark_primary u w now \<circ> clear_primary u now) m = m"
  by (auto simp: mark_primary_def clear_primary_def live_wallet_def)

lemma primaries_map:
  assumes "\<And>m. wrow_UserID (g m) = wrow_UserID m"
  shows "primaries (map g t) u = map g (filter (\<lambda>m. wrow_UserID m = Some u \<and> live_wallet (g m) \<and> wrow_IsPrimary (g m)) t)"
  by (simp add: primaries_def filter_map o_def assms)

lemma primaries_after:
  "primaries (map (mark_primary u w now \<circ> clear_primary u now) t) v =
     (if v = u then map (mark_primary u w now \<circ> clear_primary u now)
        (filter (\<lambda>m. wrow_UserID m = Some u \<and> live_wallet m \<and> wrow_ID m = w) t)
      else primaries t v)"
proof -
  let ?g = "mark_primary u w now \<circ> clear_primary u now"
  have "primaries (map ?g t) v =
      map ?g (filter (\<lambda>m. wrow_UserID m = Some v \<and> live_wallet (?g m) \<and> wrow_IsPrimary (?g m)) t)"
    by (rule primaries_map) (rule primary_after)
  moreover have "filter (\<lambda>m. wrow_UserID m = Some v \<and> live_wallet (?g m) \<and> wrow_IsPrimary (?g m)) t =
      (if v = u then filter (\<lambda>m. wrow_UserID m = Some u \<and> live_wallet m \<and> wrow_ID m = w) t else primaries t v)"
    using primary_after(3-5) [where u = u and w = w and now = now]
    by (auto simp: primaries_def simp del: o_apply intro!: filter_cong)
  moreover have "map ?g (primaries t v) = primaries t v" if "v \<noteq> u"
    using that primary_after(5) by (intro map_idI) (auto simp: primaries_def simp del: o_apply)
  ultimately show ?thesis by simp
qed

lemma wallet_SetPrimary_ok:
  assumes "wallets_ok t"
  shows "wallets_ok (snd (wallet_SetPrimary f0 f1 f2 f3 now t u w))"
proof -
  let ?g = "mark_primary u w now \<circ> clear_primary u now"
  have ids: "map wrow_ID (map ?g t) = map wrow_ID t" using primary_after(2) by simp
  have "length (primaries (map ?g t) v) \<le> 1" for v
    using assms distinct_map_filter_length [of wrow_ID t "\<lambda>m. wrow_UserID m = Some u \<and> live_wallet m \<and> wrow_ID m = w" w]
    by (simp add: primaries_after wallets_ok_def)
  then have "wallets_ok (map ?g t)" unfolding wallets_ok_def ids using assms by (simp add: wallets_ok_def)
  then show ?thesis using assms by (simp add: wallet_SetPrimary_table split: option.split)
qed

lemma wallet_SoftDelete_ok:
  assumes "wallets_ok t"
  shows "wallets_ok (snd (wallet_SoftDelete flt now t k))"
proof -
  let ?g = "\<lambda>m. if wrow_ID m = k \<and> live_wallet m then m\<lparr>wrow_DeletedAt := Some now\<rparr> else m"
  have fewer: "length (filter P t) \<le> length (filter Q t)" if "\<And>m. P m \<Longrightarrow> Q m" for P Q :: "wallet_row \<Rightarrow> bool"
    using that by (induction t) auto
  have "live_wallet (?g m) \<Longrightarrow> ?g m = m" for m by (auto simp: live_wallet_def split: if_splits)
  then have "length (primaries (map ?g t) u) \<le> length (primaries t u)" for u
    unfolding primaries_def filter_map length_map
    by (intro fewer) (auto simp: live_wallet_def split: if_splits)
  moreover have "map wrow_ID (map ?g t) = map wrow_ID t" by simp
  ultimately have "wallets_ok (map ?g t)"
    using assms unfolding wallets_ok_def by (metis (no_types, lifting) le_trans)
  then show ?thesis using assms by (simp add: wallet_SoftDelete_def update_checked_table)
qed

lemma ConnectWallet_table:
  assumes "snd (ConnectWallet L repo users ord flt gen now t u input) \<noteq> t"
  shows "\<exists>c. insert_row wrow_ID (wallet_row_of gen now (new_wallet u c (cw_Address input)
      (ord (select_where (\<lambda>m. wrow_UserID m = Some u \<and> live_wallet m) t) = []))) t =
    Inr (snd (ConnectWallet L repo users ord flt gen now t u input))"
proof -
  let ?ws = "ord (select_where (\<lambda>m. wrow_UserID m = Some u \<and> live_wallet m) t)"
  have inp: "cw_ChainID input \<noteq> []" "cw_Address input \<noteq> []"
    using assms by (auto simp: ConnectWallet_def)
  obtain user where user: "users u = Inr user"
    using assms inp by (cases "users u") (simp_all add: ConnectWallet_def)
  have list: "wallet_GetByUserID ord (wf_list flt) t u = Inr (map wallet_toEntity ?ws)"
    using assms inp user by (cases "wf_list flt") (simp_all add: ConnectWallet_def wallet_GetByUserID_def)
  obtain c s where res: "ResolveFromAny L repo (cw_ChainID input) = Inr (c, s)"
    using assms inp user list by (cases "ResolveFromAny L repo (cw_ChainID input)")
      (auto simp: ConnectWallet_def split: if_splits)
  obtain e where addr: "wallet_GetByAddress (wf_address flt) t c (cw_Address input) = Inl e"
    using assms inp user list res by (cases "wallet_GetByAddress (wf_address flt) t c (cw_Address input)")
      (auto simp: ConnectWallet_def split: if_splits)
  obtain t' where new: "wallet_Create (wf_create flt) gen now t (new_wallet u c (cw_Address input) (?ws = [])) = Inr t'"
    using assms inp user list res addr
    by (cases "wallet_Create (wf_create flt) gen now t (new_wallet u c (cw_Address input) (?ws = []))")
      (auto simp: ConnectWallet_def Let_def split: if_splits)
  then have "snd (ConnectWallet L repo users ord flt gen now t u input) = t'"
    using assms inp user list res addr by (auto simp: ConnectWallet_def Let_def)
  with new show ?thesis by (auto simp: wallet_Create_def split: option.splits)
qed

lemma ConnectWallet_ok:
  assumes ok: "wallets_ok t"
    and perm: "mset (ord (select_where (\<lambda>m. wrow_UserID m = Some u \<and> live_wallet m) t)) =
      mset (select_where (\<lambda>m. wrow_UserID m = Some u \<and> live_wallet m) t)"
  shows "wallets_ok (snd (ConnectWallet L repo users ord flt gen now t u input))"
proof (cases "snd (ConnectWallet L repo users ord flt gen now t u input) = t")
  case False
  let ?t' = "snd (ConnectWallet L repo users ord flt gen now t u input)"
  let ?ws = "select_where (\<lambda>m. wrow_UserID m = Some u \<and> live_wallet m) t"
  from ConnectWallet_table [OF False] obtain c r where
    r: "r = wallet_row_of gen now (new_wallet u c (cw_Address input) (ord ?ws = []))"
    and ins: "insert_row wrow_ID r t = Inr ?t'" by blast
  have none: "primaries t u = []" if "ord ?ws = []"
    using that perm by (auto simp: select_where_def primaries_def filter_empty_conv)
  have "wrow_UserID r = Some u" "wrow_IsPrimary r = (ord ?ws = [])"
    by (simp_all add: r wallet_row_of_def new_wallet_def)
  then have "length (primaries (t @ [r]) v) \<le> 1" for v
    using ok none by (auto simp: wallets_ok_def primaries_def)
  then show ?thesis using ok insert_row_InrD [OF ins] by (auto simp: wallets_ok_def)
qed (simp add: ok)

lemma DisconnectWallet_ok: "wallets_ok t \<Longrightarrow> wallets_ok (snd (DisconnectWallet f1 f2 now t u w))"
  using wallet_SoftDelete_ok by (auto simp: DisconnectWallet_def split: sum.split)

lemma wallet_step_ok: "wallet_step t t' \<Longrightarrow> wallets_ok t \<Longrightarrow> wallets_ok t'"
  by (erule wallet_stepE)
    (auto simp: SetPrimaryWallet_def intro: ConnectWallet_ok wallet_SetPrimary_ok DisconnectWallet_ok)


definition sample_user :: User where
  "sample_user =
     \<lparr>user_ID = 3, user_Email = ''a@b.c'', user_Name = ''A'', user_PasswordHash = [], user_Role = UserRoleUser,
      user_KYCStatus = KYCNotStarted, user_KYCVerifiedAt = None, user_CreatedAt = 1, user_UpdatedAt = 1\<rparr>"

definition sample_connect :: ConnectWalletInput where
  "sample_connect = \<lparr>cw_ChainID = ''eip155:8453'', cw_Address = ''0xa'', cw_Signature = ''s'', cw_Message = ''m''\<rparr>"

definition no_wallet_faults :: wallet_faults where
  "no_wallet_faults = \<lparr>wf_list = None, wf_address = None, wf_create = None\<rparr>"

definition sample_wallet_row :: wallet_row where
  "sample_wallet_row = wallet_row_of 31 5 (new_wallet 3 7 ''0xa'' True)"

lemma sample_ConnectWallet:
  "ConnectWallet rfc_uuid (chainRepo take base_db) (\<lambda>_. Inr sample_user) (\<lambda>ms. ms) no_wallet_faults 31 5 [] 3 sample_connect =
     (Inr (new_wallet 3 7 ''0xa'' True), [sample_wallet_row])"
  by code_simp


text \<open>
  Also. Switching the primary wallet is all or nothing: on success the chosen wallet is
  the only live primary wallet of its owner and nobody else's wallets changed; on any error,
  a foreign or unknown wallet included, the table is as before.
\<close>

theorem SetPrimaryWallet_exact:
  assumes key: "distinct (map wrow_ID t)"
    and res: "SetPrimaryWallet f0 f1 f2 f3 now t u w = (err, t')"
  shows "case err of
      Some e \<Rightarrow> t' = t
    | None \<Rightarrow> map wrow_ID (primaries t' u) = [w] \<and> (\<forall>v. v \<noteq> u \<longrightarrow> primaries t' v = primaries t v)"
proof (cases err)
  case (Some e)
  then show ?thesis using res
    by (auto simp: SetPrimaryWallet_def wallet_SetPrimary_table split: option.splits if_splits)
next
  case None
  let ?own = "\<lambda>m. wrow_UserID m = Some u \<and> live_wallet m \<and> wrow_ID m = w"
  have t': "t' = map (mark_primary u w now \<circ> clear_primary u now) t" and ex: "\<exists>m\<in>set t. ?own m"
    using None res by (auto simp: SetPrimaryWallet_def wallet_SetPrimary_table split: option.splits if_splits)
  have "filter ?own t \<noteq> []" using ex by (auto simp: filter_empty_conv)
  moreover have "length (filter ?own t) \<le> 1" by (rule distinct_map_filter_length [OF key]) simp
  ultimately obtain m where m: "filter ?own t = [m]" by (cases "filter ?own t") auto
  then have "m \<in> set (filter ?own t)" by simp
  then have "?own m" by simp
  then have "map wrow_ID (primaries t' u) = [w]"
    unfolding t' primaries_after by (simp add: m primary_after(2) del: o_apply)
  then show ?thesis using None by (simp add: t' primaries_after)
qed

theorem SetPrimaryWallet_exact_witness:
  "map wrow_ID (primaries (snd (SetPrimaryWallet None None None None 6 [sample_wallet_row] 3 31)) 3) = [31]"
proof -
  have "SetPrimaryWallet None None None None 6 [sample_wallet_row] 3 31 =
      (None, snd (SetPrimaryWallet None None None None 6 [sample_wallet_row] 3 31))"
    by code_simp
  from SetPrimaryWallet_exact [OF _ this] show ?thesis by simp
qed

text \<open>
  Also. A successful merchant application stores one pending row under a fresh
  identifier and leaves existing applications alone, but the response reports the nil
  identifier and the zero time: the stored values are not copied back.
\<close>

theorem ApplyMerchant_response:
  assumes res: "ApplyMerchant users f1 f2 gen now t u input = (Inr r, t')" and user: "users u = Inr user"
    and new: "\<forall>m\<in>set t. mrow_UserID m = u \<longrightarrow> \<not> live_merchant m"
  shows "\<exists>m. t' = t @ [m] \<and> mrow_ID m = gen \<and> mrow_Status m = ''PENDING'' \<and> mrow_UserID m = user_ID user \<and>
    msr_MerchantID r = uuid_Nil \<and> msr_SubmittedAt r = zero_time \<and>
    msr_Message r = ''Merchant application submitted successfully''"
proof -
  have "first_by mrow_ID (\<lambda>m. mrow_UserID m = u \<and> live_merchant m) t = None"
    using new by (auto simp: table_simps)
  then have nf: "merchant_GetByUserID f1 t u = (case f1 of None \<Rightarrow> Inl (Sentinel ErrNotFound) | Some e \<Rightarrow> Inl e)"
    by (simp add: merchant_GetByUserID_def split: option.split)
  show ?thesis
    using res user unfolding ApplyMerchant_def nf
    by (auto simp: merchant_Create_def insert_row_def merchant_row_of_def Let_def split: option.splits if_splits)
qed

theorem ApplyMerchant_response_witness:
  "\<exists>r m. ApplyMerchant (\<lambda>_. Inr sample_user) None None 41 5 [] 3
      \<lparr>apply_MerchantType = MerchantTypeUMKM, apply_BusinessName = ''Shop'', apply_BusinessEmail = ''a@b.c'',
       apply_TaxID = [], apply_BusinessAddress = []\<rparr> = (Inr r, [m]) \<and>
    mrow_ID m = 41 \<and> msr_MerchantID r = uuid_Nil"
proof -
  let ?i = "\<lparr>apply_MerchantType = MerchantTypeUMKM, apply_BusinessName = ''Shop'', apply_BusinessEmail = ''a@b.c'',
       apply_TaxID = [], apply_BusinessAddress = []\<rparr>"
  obtain r t' where res: "ApplyMerchant (\<lambda>_. Inr sample_user) None None 41 5 [] 3 ?i = (Inr r, t')"
    by (simp add: ApplyMerchant_def merchant_GetByUserID_def first_by_def merchant_Create_def insert_row_def)
  from ApplyMerchant_response [OF res] res show ?thesis by auto
qed

end
