(* ===== verification/Route_Errors.thy ===== *)
theory Route_Errors
  imports Chains
begin

text \<open>
  Decoding of on-chain failures: \<^verbatim>\<open>internal/usecases/route_error_usecase.go\<close> (the revert data a
  gateway recorded for a payment) and \<^verbatim>\<open>internal/usecases/revert_decode.go\<close> (revert data inside
  an RPC error). The Ethereum library is a parameter (\<open>eth_lib\<close>): the hash, the ABI decoder,
  the text form of an address. \<open>eth_lib_ok\<close> states what is documented of it.
\<close>

subsection \<open>The Ethereum library\<close>

datatype abi_value =
    AbiString string | AbiBig nat | AbiBytes32 "byte list" | AbiAddress "160 word"
  | AbiU64 u64 | AbiU32 u32 | AbiBytes "byte list" | AbiAddresses "160 word list"
  | AbiBool bool | AbiU8 u8

record eth_lib =
  Keccak256 :: "byte list \<Rightarrow> byte list"
  abi_Unpack :: "string list \<Rightarrow> byte list \<Rightarrow> abi_value list option"
  abi_Pack_bytes32 :: "byte list \<Rightarrow> byte list"
  Address_Hex :: "160 word \<Rightarrow> string"
  IsHexAddress :: "string \<Rightarrow> bool"

fun abi_has_type :: "abi_value \<Rightarrow> string \<Rightarrow> bool" where
  "abi_has_type (AbiString s) t \<longleftrightarrow> t = ''string''"
| "abi_has_type (AbiBig n) t \<longleftrightarrow> t \<in> {''uint256'', ''uint160'', ''uint24''}"
| "abi_has_type (AbiBytes32 b) t \<longleftrightarrow> t = ''bytes32''"
| "abi_has_type (AbiAddress a) t \<longleftrightarrow> t = ''address''"
| "abi_has_type (AbiU64 w) t \<longleftrightarrow> t = ''uint64''"
| "abi_has_type (AbiU32 w) t \<longleftrightarrow> t = ''uint32''"
| "abi_has_type (AbiBytes b) t \<longleftrightarrow> t = ''bytes''"
| "abi_has_type (AbiAddresses as) t \<longleftrightarrow> t = ''address[]''"
| "abi_has_type (AbiBool b) t \<longleftrightarrow> t = ''bool''"
| "abi_has_type (AbiU8 w) t \<longleftrightarrow> t = ''uint8''"

text \<open>
  Documented: the hash has 32 bytes, and the decoder returns one value of the Go type that
  belongs to each ABI type.
\<close>

definition eth_lib_ok :: "eth_lib \<Rightarrow> bool" where
  "eth_lib_ok E \<longleftrightarrow>
     (\<forall>b. length (Keccak256 E b) = 32) \<and>
     (\<forall>ts b vs. abi_Unpack E ts b = Some vs \<longrightarrow> list_all2 abi_has_type vs ts)"

subsection \<open>Revert data\<close>

datatype detail = DetailString string | DetailNumber nat | DetailStrings "string list"

type_synonym details = "(string \<times> detail) list"

record RouteErrorDecoded =
  RawHex :: string
  Selector :: string
  Name :: string
  DecodedMessage :: string
  Details :: "details option"

definition detail_string :: "details \<Rightarrow> string \<Rightarrow> string" where
  "detail_string d k = (case map_of d k of Some (DetailString s) \<Rightarrow> s | _ \<Rightarrow> [])"

definition selectorHex :: "eth_lib \<Rightarrow> string \<Rightarrow> string" where
  "selectorHex E signature = ''0x'' @ EncodeToString (take 4 (Keccak256 E (bytes_of signature)))"

definition knownSelectorName :: "eth_lib \<Rightarrow> string \<Rightarrow> string" where
  "knownSelectorName E selector =
     (case map_of
        [(''0x08c379a0'', ''Error''),
         (''0x4e487b71'', ''Panic''),
         (selectorHex E ''ChainSelectorMissing(string)'', ''ChainSelectorMissing''),
         (selectorHex E ''DestinationAdapterMissing(string)'', ''DestinationAdapterMissing''),
         (selectorHex E ''StateMachineIdNotSet(string)'', ''StateMachineIdNotSet''),
         (selectorHex E ''DestinationNotSet(string)'', ''DestinationNotSet''),
         (selectorHex E ''NativeFeeQuoteUnavailable()'', ''NativeFeeQuoteUnavailable''),
         (selectorHex E ''FeeQuoteFailed(uint256,address[])'', ''FeeQuoteFailed''),
         (selectorHex E ''InsufficientNativeFee(uint256,uint256)'', ''InsufficientNativeFee''),
         (selectorHex E ''RouteNotConfigured(string)'', ''RouteNotConfigured''),
         (selectorHex E ''CCIPTokenMismatch(bytes32,address,address)'', ''CCIPTokenMismatch''),
         (selectorHex E ''UntrustedSource(uint64,bytes)'', ''UntrustedSource''),
         (selectorHex E ''UntrustedPeer(uint32,bytes32)'', ''UntrustedPeer'')]
        (ToLower (TrimSpace selector)) of
      Some name \<Rightarrow> name | None \<Rightarrow> [])"

definition unpackCustomErrorArgs :: "eth_lib \<Rightarrow> byte list \<Rightarrow> string list \<Rightarrow> abi_value list option" where
  "unpackCustomErrorArgs E payload typeNames = abi_Unpack E typeNames payload"

definition decodeKnownCustomErrorPayload :: "eth_lib \<Rightarrow> string \<Rightarrow> byte list \<Rightarrow> details option" where
  "decodeKnownCustomErrorPayload E selector payload =
     (let sel = ToLower (TrimSpace selector) in
      if sel \<in> {selectorHex E ''ChainSelectorMissing(string)'', selectorHex E ''DestinationAdapterMissing(string)'',
                selectorHex E ''StateMachineIdNotSet(string)'', selectorHex E ''DestinationNotSet(string)'',
                selectorHex E ''RouteNotConfigured(string)''} then
        (case unpackCustomErrorArgs E payload [''string''] of
           Some [AbiString value] \<Rightarrow> Some [(''destChainId'', DetailString value)]
         | _ \<Rightarrow> None)
      else if sel = selectorHex E ''InsufficientNativeFee(uint256,uint256)'' then
        (case unpackCustomErrorArgs E payload [''uint256'', ''uint256''] of
           Some [AbiBig required, AbiBig provided] \<Rightarrow>
             Some [(''requiredWei'', DetailString (nat_string required)), (''providedWei'', DetailString (nat_string provided))]
         | _ \<Rightarrow> None)
      else if sel = selectorHex E ''CCIPTokenMismatch(bytes32,address,address)'' then
        (case unpackCustomErrorArgs E payload [''bytes32'', ''address'', ''address''] of
           Some [AbiBytes32 chain, AbiAddress source, AbiAddress dest] \<Rightarrow>
             Some [(''destChainIdHex'', DetailString (''0x'' @ EncodeToString chain)),
                   (''sourceToken'', DetailString (Address_Hex E source)), (''destToken'', DetailString (Address_Hex E dest))]
         | _ \<Rightarrow> None)
      else if sel = selectorHex E ''UntrustedSource(uint64,bytes)'' then
        (case unpackCustomErrorArgs E payload [''uint64'', ''bytes''] of
           Some [AbiU64 s, AbiBytes sender] \<Rightarrow>
             Some [(''sourceSelector'', DetailNumber (unat s)), (''sourceSender'', DetailString (''0x'' @ EncodeToString sender))]
         | _ \<Rightarrow> None)
      else if sel = selectorHex E ''UntrustedPeer(uint32,bytes32)'' then
        (case unpackCustomErrorArgs E payload [''uint32'', ''bytes32''] of
           Some [AbiU32 eid, AbiBytes32 peer] \<Rightarrow>
             Some [(''srcEid'', DetailNumber (unat eid)), (''peer'', DetailString (''0x'' @ EncodeToString peer))]
         | _ \<Rightarrow> None)
      else if sel = selectorHex E ''FeeQuoteFailed(uint256,address[])'' then
        (case unpackCustomErrorArgs E payload [''uint256'', ''address[]''] of
           Some [AbiBig fee, AbiAddresses tokens] \<Rightarrow>
             Some [(''requiredFee'', DetailString (nat_string fee)), (''tokens'', DetailStrings (map (Address_Hex E) tokens))]
         | _ \<Rightarrow> None)
      else None)"

definition buildDetailMessage :: "string \<Rightarrow> details \<Rightarrow> string" where
  "buildDetailMessage name d =
     (let dest = (\<lambda>text. if detail_string d ''destChainId'' \<noteq> [] then text @ detail_string d ''destChainId'' else []) in
      if name = ''RouteNotConfigured'' then dest ''route not configured for destination ''
      else if name = ''ChainSelectorMissing'' then dest ''ccip chain selector missing for destination ''
      else if name = ''DestinationAdapterMissing'' then dest ''destination adapter missing for destination ''
      else if name = ''StateMachineIdNotSet'' then dest ''hyperbridge state machine id not set for destination ''
      else if name = ''DestinationNotSet'' then dest ''hyperbridge destination not set for destination ''
      else if name = ''InsufficientNativeFee'' then
        (let required = detail_string d ''requiredWei''; provided = detail_string d ''providedWei'' in
         if required \<noteq> [] \<and> provided \<noteq> [] then
           ''insufficient native fee (required='' @ required @ '' wei, provided='' @ provided @ '' wei)''
         else [])
      else if name = ''FeeQuoteFailed'' then
        (let required = detail_string d ''requiredFee'' in
         if required \<noteq> [] then ''fee quote failed (required fee: '' @ required @ '' native)'' else ''fee quote failed'')
      else [])"

definition decodeRouteErrorData :: "eth_lib \<Rightarrow> byte list \<Rightarrow> RouteErrorDecoded" where
  "decodeRouteErrorData E data =
     (let result = \<lparr>RawHex = ''0x'' @ EncodeToString data, Selector = [], Name = [], DecodedMessage = [], Details = None\<rparr> in
      if length data < 4 then
        result\<lparr>DecodedMessage := if length data = 0 then ''no route error recorded'' else ''execution_reverted''\<rparr>
      else
        let sel = ''0x'' @ EncodeToString (take 4 data);
            name = knownSelectorName E sel;
            result = result\<lparr>Selector := sel, Name := name\<rparr>;
            revert_string =
              (if sel = ''0x08c379a0'' \<and> length data > 4 then
                 (case abi_Unpack E [''string''] (drop 4 data) of
                    Some [AbiString msg] \<Rightarrow> Some msg
                  | _ \<Rightarrow> None)
               else None) in
        case revert_string of
          Some msg \<Rightarrow> result\<lparr>Name := ''Error'', DecodedMessage := msg\<rparr>
        | None \<Rightarrow>
            if sel = ''0x4e487b71'' \<and> length data \<ge> 36 then
              result\<lparr>Name := ''Panic'',
                     DecodedMessage := ''panic code: '' @ nat_string (SetBytes (take 32 (drop 4 data)))\<rparr>
            else
              case decodeKnownCustomErrorPayload E sel (drop 4 data) of
                Some payloadDetails \<Rightarrow>
                  result\<lparr>DecodedMessage := buildDetailMessage name payloadDetails, Details := Some payloadDetails\<rparr>
              | None \<Rightarrow>
                  result\<lparr>DecodedMessage := if name \<noteq> [] then name else ''execution_reverted''\<rparr>)"

subsection \<open>Revert data in RPC errors\<close>

text \<open>The dynamic values \<^verbatim>\<open>ErrorData()\<close> may return, as far as the code tells them apart.\<close>

datatype go_any =
    AnyString string
  | AnyBytes "byte list"
  | AnyMap "(string \<times> go_any) list"
  | AnyStringMap "(string \<times> string) list"
  | AnyOther

definition parseHexBytes :: "string \<Rightarrow> byte list option" where
  "parseHexBytes raw =
     (let value = TrimSpace (TrimPrefix raw ''0x'') in
      if length value < 8 \<or> length value mod 2 \<noteq> 0 then None
      else case DecodeString value of
             None \<Rightarrow> None
           | Some data \<Rightarrow> if data = [] then None else Some data)"

lemma map_of_size [termination_simp]:
  "map_of kvs k = Some v \<Longrightarrow> size v < Suc (size_list (\<lambda>x. Suc (size (snd x))) kvs)"
  by (induction kvs) (auto split: if_splits)

fun parseRevertBytesFromAny :: "go_any \<Rightarrow> byte list option" where
  "parseRevertBytesFromAny (AnyString v) = parseHexBytes v"
| "parseRevertBytesFromAny (AnyBytes v) = (if length v = 0 then None else Some v)"
| "parseRevertBytesFromAny (AnyMap v) =
     (case map_of v ''data'' of
        Some raw \<Rightarrow> parseRevertBytesFromAny raw
      | None \<Rightarrow> (case map_of v ''result'' of Some raw \<Rightarrow> parseRevertBytesFromAny raw | None \<Rightarrow> None))"
| "parseRevertBytesFromAny (AnyStringMap v) =
     (case map_of v ''data'' of
        Some raw \<Rightarrow> parseHexBytes raw
      | None \<Rightarrow> (case map_of v ''result'' of Some raw \<Rightarrow> parseHexBytes raw | None \<Rightarrow> None))"
| "parseRevertBytesFromAny AnyOther = None"

text \<open>
  \<^verbatim>\<open>FindAllString\<close> for the pattern \<^verbatim>\<open>0x[0-9a-fA-F]{8,}\<close>: matches are leftmost, as long as
  possible, and do not overlap.
\<close>

definition is_hex_char :: "char \<Rightarrow> bool" where
  "is_hex_char c \<longleftrightarrow> hex_digit c \<noteq> None"

function FindAllHex :: "string \<Rightarrow> string list" where
  "FindAllHex s =
     (if s = [] then []
      else if HasPrefix s ''0x'' \<and> length (takeWhile is_hex_char (drop 2 s)) \<ge> 8 then
        (''0x'' @ takeWhile is_hex_char (drop 2 s)) # FindAllHex (dropWhile is_hex_char (drop 2 s))
      else FindAllHex (drop 1 s))"
  by pat_completeness auto
termination
  by (relation "measure length")
    (auto simp: HasPrefix_def intro: le_less_trans [OF length_dropWhile_le])

declare FindAllHex.simps [simp del]

definition extractRevertHexFromErrorString :: "string \<Rightarrow> byte list option" where
  "extractRevertHexFromErrorString message =
     (case find (\<lambda>c. parseHexBytes c \<noteq> None) (FindAllHex message) of
        Some candidate \<Rightarrow> parseHexBytes candidate
      | None \<Rightarrow> None)"

text \<open>An RPC error: its text, and the data it carries when it implements \<^verbatim>\<open>ErrorData\<close>.\<close>

record rpc_error =
  rpc_text :: string
  rpc_data :: "go_any option"

definition extractRevertHexFromDataError :: "rpc_error \<Rightarrow> byte list option" where
  "extractRevertHexFromDataError err =
     (case rpc_data err of None \<Rightarrow> None | Some d \<Rightarrow> parseRevertBytesFromAny d)"

definition decodeRevertDataFromError :: "eth_lib \<Rightarrow> rpc_error option \<Rightarrow> RouteErrorDecoded option" where
  "decodeRevertDataFromError E err =
     (case err of
        None \<Rightarrow> None
      | Some e \<Rightarrow>
          (case extractRevertHexFromDataError e of
             Some data \<Rightarrow> Some (decodeRouteErrorData E data)
           | None \<Rightarrow>
               (case extractRevertHexFromErrorString (rpc_text e) of
                  Some data \<Rightarrow> Some (decodeRouteErrorData E data)
                | None \<Rightarrow> None)))"

subsection \<open>The diagnostics operation\<close>

definition normalizeBytes32Hex :: "string \<Rightarrow> (string \<times> byte list) result" where
  "normalizeBytes32Hex value =
     (let trimmed = TrimSpace (TrimPrefix value ''0x'') in
      if length trimmed \<noteq> 64 then Inl (ErrorString ''invalid bytes32 length'')
      else case DecodeString trimmed of
             None \<Rightarrow> Inl (ErrorString ''encoding/hex: invalid byte'')
           | Some raw \<Rightarrow> Inr (''0x'' @ ToLower trimmed, raw))"

definition decodeBytesReturn :: "eth_lib \<Rightarrow> byte list \<Rightarrow> byte list result" where
  "decodeBytesReturn E out =
     (case abi_Unpack E [''bytes''] out of
        None \<Rightarrow> Inl (ErrorString ''abi: cannot unmarshal'')
      | Some decoded \<Rightarrow>
          if length decoded \<noteq> 1 then Inl (ErrorString ''invalid bytes return'')
          else case decoded ! 0 of AbiBytes data \<Rightarrow> Inr data | _ \<Rightarrow> Inl (ErrorString ''invalid bytes type''))"

definition resolveRPCURL :: "Chain option \<Rightarrow> string" where
  "resolveRPCURL chain =
     (case chain of
        None \<Rightarrow> []
      | Some c \<Rightarrow>
          if TrimSpace (chain_RPCURL c) \<noteq> [] then chain_RPCURL c
          else case find (\<lambda>rpc. rpc_IsActive rpc \<and> TrimSpace (rpc_URL rpc) \<noteq> []) (chain_RPCs c) of
                 Some rpc \<Rightarrow> rpc_URL rpc
               | None \<Rightarrow>
                   (case find (\<lambda>rpc. TrimSpace (rpc_URL rpc) \<noteq> []) (chain_RPCs c) of
                      Some rpc \<Rightarrow> rpc_URL rpc
                    | None \<Rightarrow> []))"

fun add_url :: "string list \<Rightarrow> string \<Rightarrow> string list" where
  "add_url out v = (let url = TrimSpace v in if url = [] \<or> url \<in> set out then out else out @ [url])"

definition resolveRPCURLs :: "Chain option \<Rightarrow> string list" where
  "resolveRPCURLs chain =
     (case chain of
        None \<Rightarrow> []
      | Some c \<Rightarrow>
          let out = add_url [] (chain_RPCURL c);
              out = foldl add_url out (map rpc_URL (filter rpc_IsActive (chain_RPCs c)))
          in foldl add_url out (map rpc_URL (chain_RPCs c)))"

record RouteErrorDiagnostics =
  diag_SourceChainID :: string
  diag_Gateway :: string
  diag_PaymentIDHex :: string
  diag_Decoded :: RouteErrorDecoded

text \<open>
  The contract repository returns the address of the active gateway of a chain; the client
  for an RPC URL answers a view call. Both are arguments.
\<close>

definition GetRouteError ::
  "eth_lib \<Rightarrow> uuid_lib \<Rightarrow> ChainRepository \<Rightarrow> (uuid \<Rightarrow> string \<Rightarrow> string option result) \<Rightarrow>
   (string \<Rightarrow> (string \<Rightarrow> byte list \<Rightarrow> byte list result) result) \<Rightarrow> string \<Rightarrow> string \<Rightarrow>
   RouteErrorDiagnostics result" where
  "GetRouteError E L repo getActiveContract getEVMClient sourceChainInput paymentIDHex =
     (case ResolveFromAny L repo sourceChainInput of
        Inl _ \<Rightarrow> Inl (BadRequest ''invalid sourceChainId'')
      | Inr (sourceChainUUID, sourceCAIP2) \<Rightarrow>
          (case repo_GetByID repo sourceChainUUID of
             Inl e \<Rightarrow> Inl e
           | Inr sourceChain \<Rightarrow>
               (case getActiveContract (chain_ID sourceChain) ''GATEWAY'' of
                  Inr (Some gateway) \<Rightarrow>
                    if \<not> IsHexAddress E gateway then
                      Inl (BadRequest ''active gateway contract not found on source chain'')
                    else
                      (case normalizeBytes32Hex paymentIDHex of
                         Inl _ \<Rightarrow> Inl (BadRequest ''invalid paymentId (must be bytes32 hex)'')
                       | Inr (normalizedPID, pidBytes) \<Rightarrow>
                           let rpcURL = resolveRPCURL (Some sourceChain) in
                           if rpcURL = [] then Inl (BadRequest ''no active rpc url for source chain'')
                           else
                             (case getEVMClient rpcURL of
                                Inl e \<Rightarrow> Inl e
                              | Inr callView \<Rightarrow>
                                  let methodID = take 4 (Keccak256 E (bytes_of ''lastRouteError(bytes32)'')) in
                                  (case callView gateway (methodID @ abi_Pack_bytes32 E pidBytes) of
                                     Inl e \<Rightarrow> Inl e
                                   | Inr out \<Rightarrow>
                                       (case decodeBytesReturn E out of
                                          Inl e \<Rightarrow> Inl e
                                        | Inr decodedBytes \<Rightarrow>
                                            Inr \<lparr>diag_SourceChainID = sourceCAIP2, diag_Gateway = gateway,
                                                 diag_PaymentIDHex = normalizedPID,
                                                 diag_Decoded = decodeRouteErrorData E decodedBytes\<rparr>))))
                | _ \<Rightarrow> Inl (BadRequest ''active gateway contract not found on source chain''))))"

subsection \<open>What a decoded error says\<close>

definition custom_signatures :: "string list" where
  "custom_signatures =
     [''ChainSelectorMissing(string)'', ''DestinationAdapterMissing(string)'', ''StateMachineIdNotSet(string)'',
      ''DestinationNotSet(string)'', ''NativeFeeQuoteUnavailable()'', ''FeeQuoteFailed(uint256,address[])'',
      ''InsufficientNativeFee(uint256,uint256)'', ''RouteNotConfigured(string)'',
      ''CCIPTokenMismatch(bytes32,address,address)'', ''UntrustedSource(uint64,bytes)'',
      ''UntrustedPeer(uint32,bytes32)'']"

text \<open>The selectors of the known errors are pairwise different (they are, for Keccak).\<close>

definition selectors_distinct :: "eth_lib \<Rightarrow> bool" where
  "selectors_distinct E \<longleftrightarrow>
     distinct (''0x08c379a0'' # ''0x4e487b71'' # map (selectorHex E) custom_signatures)"

definition selector_bytes :: "eth_lib \<Rightarrow> string \<Rightarrow> byte list" where
  "selector_bytes E signature = take 4 (Keccak256 E (bytes_of signature))"

lemma ToLower_hex_char: "d < 16 \<Longrightarrow> lower_char (hex_char d) = hex_char d"
  by (metis hex_char_hex_digit hex_digit_hex_char)

lemma ToLower_EncodeToString [simp]: "ToLower (EncodeToString b) = EncodeToString b"
  using EncodeToString_hex_chars [of _ b] ToLower_hex_char by (auto simp: ToLower_def intro!: map_idI)

lemma hex_text_clean [simp]:
  "TrimSpace (CHR ''0'' # CHR ''x'' # EncodeToString b) = CHR ''0'' # CHR ''x'' # EncodeToString b"
  using EncodeToString_graphic [of b] by (intro TrimSpace_graphic) (auto simp: graphic_def)

lemma ToLower_hex_text [simp]:
  "ToLower (CHR ''0'' # CHR ''x'' # EncodeToString b) = CHR ''0'' # CHR ''x'' # EncodeToString b"
  using ToLower_EncodeToString [of b] by (simp add: ToLower_def lower_char_def)

lemma selector_text:
  "''0x'' @ EncodeToString (selector_bytes E sig) = selectorHex E sig"
  by (simp add: selectorHex_def selector_bytes_def)

lemma selectorHex_clean [simp]: "ToLower (TrimSpace (selectorHex E sig)) = selectorHex E sig"
  by (simp add: selectorHex_def)

lemma length_selector_bytes [simp]: "eth_lib_ok E \<Longrightarrow> length (selector_bytes E sig) = 4"
  by (simp add: selector_bytes_def eth_lib_ok_def)

lemma selectorHex_eq:
  assumes "selectors_distinct E" "a \<in> set custom_signatures" "b \<in> set custom_signatures"
  shows "selectorHex E a = selectorHex E b \<longleftrightarrow> a = b"
  using assms by (auto simp: selectors_distinct_def distinct_map dest: inj_onD)

lemma selectorHex_not_builtin:
  assumes "selectors_distinct E" "a \<in> set custom_signatures"
  shows "selectorHex E a \<noteq> ''0x08c379a0''" "selectorHex E a \<noteq> ''0x4e487b71''"
    "''0x08c379a0'' \<noteq> selectorHex E a" "''0x4e487b71'' \<noteq> selectorHex E a"
  using assms by (auto simp: selectors_distinct_def image_iff)

lemmas selector_eqs = selectorHex_eq selectorHex_not_builtin custom_signatures_def

text \<open>Revert data that starts with the selector of a known error reaches its payload decoder.\<close>

lemma decode_custom:
  assumes ok: "eth_lib_ok E" and ds: "selectors_distinct E" and sig: "sig \<in> set custom_signatures"
    and d: "decodeKnownCustomErrorPayload E (selectorHex E sig) payload = Some details"
  shows "decodeRouteErrorData E (selector_bytes E sig @ payload) =
    \<lparr>RawHex = selectorHex E sig @ EncodeToString payload, Selector = selectorHex E sig,
     Name = knownSelectorName E (selectorHex E sig),
     DecodedMessage = buildDetailMessage (knownSelectorName E (selectorHex E sig)) details, Details = Some details\<rparr>"
proof -
  note ne = selectorHex_not_builtin [OF ds sig]
  have len: "length (selector_bytes E sig) = 4" using ok by simp
  have raw: "''0x'' @ EncodeToString (selector_bytes E sig @ payload) = selectorHex E sig @ EncodeToString payload"
    by (simp add: EncodeToString_append flip: selector_text)
  show ?thesis
    using ne len raw d selector_text [of E sig]
    by (simp add: decodeRouteErrorData_def Let_def)
qed

lemma custom_names:
  assumes "selectors_distinct E"
  shows "knownSelectorName E (selectorHex E ''RouteNotConfigured(string)'') = ''RouteNotConfigured''"
    "knownSelectorName E (selectorHex E ''ChainSelectorMissing(string)'') = ''ChainSelectorMissing''"
    "knownSelectorName E (selectorHex E ''InsufficientNativeFee(uint256,uint256)'') = ''InsufficientNativeFee''"
    "knownSelectorName E (selectorHex E ''UntrustedSource(uint64,bytes)'') = ''UntrustedSource''"
    "knownSelectorName E (selectorHex E ''UntrustedPeer(uint32,bytes32)'') = ''UntrustedPeer''"
    "knownSelectorName E (selectorHex E ''CCIPTokenMismatch(bytes32,address,address)'') = ''CCIPTokenMismatch''"
  using assms by (simp_all add: knownSelectorName_def selector_eqs)

lemma insufficient_fee_payload:
  assumes "selectors_distinct E" "abi_Unpack E [''uint256'', ''uint256''] payload = Some [AbiBig required, AbiBig provided]"
  shows "decodeKnownCustomErrorPayload E (selectorHex E ''InsufficientNativeFee(uint256,uint256)'') payload =
    Some [(''requiredWei'', DetailString (nat_string required)), (''providedWei'', DetailString (nat_string provided))]"
  using assms by (simp add: decodeKnownCustomErrorPayload_def selector_eqs unpackCustomErrorArgs_def)

lemma untrusted_peer_payload:
  assumes "selectors_distinct E" "abi_Unpack E [''uint32'', ''bytes32''] payload = Some [AbiU32 eid, AbiBytes32 peer]"
  shows "decodeKnownCustomErrorPayload E (selectorHex E ''UntrustedPeer(uint32,bytes32)'') payload =
    Some [(''srcEid'', DetailNumber (unat eid)), (''peer'', DetailString (''0x'' @ EncodeToString peer))]"
  using assms by (simp add: decodeKnownCustomErrorPayload_def selector_eqs unpackCustomErrorArgs_def)

text \<open>
  Also. A revert for a missing native fee is decoded into its name, the two amounts in
  decimal and a message that carries both, whatever the payload holds; the raw data is kept.
\<close>

theorem decode_insufficient_fee:
  fixes E required provided payload
  defines "sig \<equiv> ''InsufficientNativeFee(uint256,uint256)''"
  assumes ok: "eth_lib_ok E" and ds: "selectors_distinct E"
    and up: "abi_Unpack E [''uint256'', ''uint256''] payload = Some [AbiBig required, AbiBig provided]"
  shows "let r = decodeRouteErrorData E (selector_bytes E sig @ payload) in
    Name r = ''InsufficientNativeFee'' \<and>
    DecodedMessage r = ''insufficient native fee (required='' @ nat_string required @ '' wei, provided='' @
      nat_string provided @ '' wei)'' \<and>
    DecodeString (drop 2 (RawHex r)) = Some (selector_bytes E sig @ payload)"
proof -
  have "sig \<in> set custom_signatures" by (simp add: sig_def custom_signatures_def)
  from decode_custom [OF ok ds this insufficient_fee_payload [OF ds up, folded sig_def]]
  show ?thesis
    using custom_names(3) [OF ds]
    by (simp add: sig_def buildDetailMessage_def detail_string_def selectorHex_def
        flip: selector_bytes_def EncodeToString_append)
qed

text \<open>
  Also. An untrusted-peer revert is recognised and its details are decoded, but its
  message is empty: there is no text for it, and the name is not used either.
\<close>

theorem decode_untrusted_peer_silent:
  assumes ok: "eth_lib_ok E" and ds: "selectors_distinct E"
    and up: "abi_Unpack E [''uint32'', ''bytes32''] payload = Some [AbiU32 eid, AbiBytes32 peer]"
  shows "let r = decodeRouteErrorData E (selector_bytes E ''UntrustedPeer(uint32,bytes32)'' @ payload) in
    Name r = ''UntrustedPeer'' \<and> DecodedMessage r = [] \<and>
    Details r = Some [(''srcEid'', DetailNumber (unat eid)), (''peer'', DetailString (''0x'' @ EncodeToString peer))]"
proof -
  have "''UntrustedPeer(uint32,bytes32)'' \<in> set custom_signatures" by (simp add: custom_signatures_def)
  from decode_custom [OF ok ds this untrusted_peer_payload [OF ds up]]
  show ?thesis using custom_names(5) [OF ds] by (simp add: buildDetailMessage_def)
qed

text \<open>
  An instance of the library for the witnesses: a hash that separates the known signatures
  and a decoder for words of the types used below.
\<close>

fun sample_Unpack :: "string list \<Rightarrow> byte list \<Rightarrow> abi_value list option" where
  "sample_Unpack [t] b = (if t = ''string'' then Some [AbiString (string_of b)]
     else if t = ''bytes'' then Some [AbiBytes b] else None)"
| "sample_Unpack [t, u] b =
     (if t = ''uint256'' \<and> u = ''uint256'' then Some [AbiBig (SetBytes (take 32 b)), AbiBig (SetBytes (drop 32 b))]
      else if t = ''uint32'' \<and> u = ''bytes32'' then Some [AbiU32 (word_of_nat (SetBytes (take 32 b))), AbiBytes32 (drop 32 b)]
      else None)"
| "sample_Unpack _ b = None"

definition sample_hash :: "byte list \<Rightarrow> byte list" where
  "sample_hash b = word_of_nat (length b) # take 31 (hd (b @ [0]) # hd (drop 9 b @ [0]) # replicate 29 0)"

definition sample_eth :: eth_lib where
  "sample_eth =
     \<lparr>Keccak256 = sample_hash, abi_Unpack = sample_Unpack, abi_Pack_bytes32 = (\<lambda>b. b),
      Address_Hex = (\<lambda>a. ''0x'' @ EncodeToString (Bytes (unat a))), IsHexAddress = (\<lambda>s. HasPrefix s ''0x'')\<rparr>"

lemma sample_Unpack_typed: "sample_Unpack ts b = Some vs \<Longrightarrow> list_all2 abi_has_type vs ts"
  by (induction ts b rule: sample_Unpack.induct) (auto split: if_splits)

lemma sample_eth_ok: "eth_lib_ok sample_eth"
  by (auto simp: eth_lib_ok_def sample_eth_def sample_hash_def sample_Unpack_typed)

lemma sample_selectors: "selectors_distinct sample_eth"
  by code_simp

theorem decode_insufficient_fee_witness:
  "let r = decodeRouteErrorData sample_eth
      (selector_bytes sample_eth ''InsufficientNativeFee(uint256,uint256)'' @ replicate 31 0 @ [7, 5]) in
    Name r = ''InsufficientNativeFee'' \<and>
    DecodedMessage r = ''insufficient native fee (required='' @ nat_string 7 @ '' wei, provided='' @
      nat_string 5 @ '' wei)'' \<and>
    DecodeString (drop 2 (RawHex r)) =
      Some (selector_bytes sample_eth ''InsufficientNativeFee(uint256,uint256)'' @ replicate 31 0 @ [7, 5])"
proof -
  have "abi_Unpack sample_eth [''uint256'', ''uint256''] (replicate 31 0 @ [7, 5]) = Some [AbiBig 7, AbiBig 5]"
    by code_simp
  from decode_insufficient_fee [OF sample_eth_ok sample_selectors this] show ?thesis .
qed

theorem decode_untrusted_peer_silent_witness:
  "let r = decodeRouteErrorData sample_eth (selector_bytes sample_eth ''UntrustedPeer(uint32,bytes32)'' @ replicate 31 0 @ [7, 5]) in
    Name r = ''UntrustedPeer'' \<and> DecodedMessage r = [] \<and>
    Details r = Some [(''srcEid'', DetailNumber (unat (7 :: u32))), (''peer'', DetailString (''0x'' @ EncodeToString [5]))]"
proof -
  have "abi_Unpack sample_eth [''uint32'', ''bytes32''] (replicate 31 0 @ [7, 5]) = Some [AbiU32 7, AbiBytes32 [5] ]"
    by code_simp
  from decode_untrusted_peer_silent [OF sample_eth_ok sample_selectors this] show ?thesis .
qed

subsection \<open>Revert data found in an error text\<close>

lemma hex_chars_hex: "\<forall>c\<in>set (EncodeToString b). is_hex_char c"
  using DecodeString_hex_chars [OF DecodeString_EncodeToString] by (auto simp: is_hex_char_def)

lemma FindAllHex_prefix:
  assumes pre: "\<not> Contains (pre @ ''0'') ''0x''" and post: "post = [] \<or> \<not> is_hex_char (hd post)"
    and len: "8 \<le> length h" and hex: "\<forall>c\<in>set h. is_hex_char c"
  shows "FindAllHex (pre @ ''0x'' @ h @ post) = (''0x'' @ h) # FindAllHex post"
  using pre
proof (induction pre)
  case Nil
  have "takeWhile is_hex_char (h @ post) = h" "dropWhile is_hex_char (h @ post) = post"
    using hex post by (cases post; simp add: takeWhile_append2 dropWhile_append2)+
  then show ?case using len by (subst FindAllHex.simps) (simp add: HasPrefix_def)
next
  case (Cons c pre)
  have "\<not> HasPrefix (c # pre @ ''0x'' @ h @ post) ''0x''"
    using Cons.prems by (cases pre) (auto simp: HasPrefix_def Contains_sublist)
  moreover have "\<not> Contains (pre @ ''0'') ''0x''" using Cons.prems by simp
  ultimately show ?case using Cons.IH by (subst FindAllHex.simps) simp
qed

lemma parseHexBytes_EncodeToString:
  assumes "4 \<le> length data"
  shows "parseHexBytes (''0x'' @ EncodeToString data) = Some data"
proof -
  have "TrimSpace (EncodeToString data) = EncodeToString data"
    using EncodeToString_graphic [of data] assms by (intro TrimSpace_graphic_all) auto
  then show ?thesis using assms by (auto simp: parseHexBytes_def TrimPrefix_def HasPrefix_def)
qed

text \<open>
  Also. Revert data embedded in the text of an RPC error is recovered: when the text
  before it holds no other \<^verbatim>\<open>0x\<close> and the digits end where the data ends, the data is found and
  decoded, unless the error already carries data of its own.
\<close>

theorem decodeRevertDataFromError_text:
  assumes pre: "\<not> Contains (pre @ ''0'') ''0x''" and post: "post = [] \<or> \<not> is_hex_char (hd post)"
    and len: "4 \<le> length data"
  shows "decodeRevertDataFromError E (Some \<lparr>rpc_text = pre @ ''0x'' @ EncodeToString data @ post, rpc_data = d\<rparr>) =
    Some (decodeRouteErrorData E
      (case d of None \<Rightarrow> data
       | Some v \<Rightarrow> (case parseRevertBytesFromAny v of Some own \<Rightarrow> own | None \<Rightarrow> data)))"
proof -
  have "8 \<le> length (EncodeToString data)" using len by simp
  from FindAllHex_prefix [OF pre post this hex_chars_hex]
  have "extractRevertHexFromErrorString (pre @ ''0x'' @ EncodeToString data @ post) = Some data"
    using parseHexBytes_EncodeToString [OF len] by (simp add: extractRevertHexFromErrorString_def)
  then show ?thesis
    by (simp add: decodeRevertDataFromError_def extractRevertHexFromDataError_def split: option.split)
qed

theorem decodeRevertDataFromError_text_witness:
  "decodeRevertDataFromError sample_eth
     (Some \<lparr>rpc_text = ''execution reverted: '' @ ''0x'' @ EncodeToString [1, 2, 3, 4] @ '')'', rpc_data = Some AnyOther\<rparr>) =
   Some (decodeRouteErrorData sample_eth [1, 2, 3, 4])"
proof -
  have "\<not> Contains (''execution reverted: '' @ ''0'') ''0x''" by code_simp
  moreover have "'')'' = [] \<or> \<not> is_hex_char (hd '')'')" by code_simp
  ultimately show ?thesis
    using decodeRevertDataFromError_text [of "''execution reverted: ''" "'')''" "[1, 2, 3, 4]" sample_eth "Some AnyOther"]
    by simp
qed

subsection \<open>Choice of the RPC endpoint\<close>

declare add_url.simps [simp del]

lemma add_url_distinct: "distinct out \<Longrightarrow> distinct (foldl add_url out vs)"
  by (induction vs arbitrary: out) (auto simp: add_url.simps Let_def)

lemma add_url_set:
  "set (foldl add_url out vs) = set out \<union> {TrimSpace v | v. v \<in> set vs \<and> TrimSpace v \<noteq> []}"
  by (induction vs arbitrary: out) (auto simp: add_url.simps Let_def)

lemma add_url_hd: "out \<noteq> [] \<Longrightarrow> foldl add_url out vs \<noteq> [] \<and> hd (foldl add_url out vs) = hd out"
  by (induction vs arbitrary: out) (auto simp: add_url.simps Let_def)

lemma add_url_find:
  "case find (\<lambda>v. TrimSpace v \<noteq> []) vs of
     None \<Rightarrow> foldl add_url [] vs = []
   | Some v \<Rightarrow> foldl add_url [] vs \<noteq> [] \<and> hd (foldl add_url [] vs) = TrimSpace v"
  by (induction vs) (auto simp: add_url.simps [of "[]"] add_url_hd split: option.splits)

lemma resolveRPCURLs_fold:
  "resolveRPCURLs (Some c) =
     foldl add_url [] (chain_RPCURL c # map rpc_URL (filter rpc_IsActive (chain_RPCs c)) @ map rpc_URL (chain_RPCs c))"
  by (simp add: resolveRPCURLs_def)

lemma find_map: "find P (map f xs) = map_option f (find (\<lambda>x. P (f x)) xs)"
  by (induction xs) auto

lemma find_filter: "find P (filter Q xs) = find (\<lambda>x. Q x \<and> P x) xs"
  by (induction xs) auto

lemma find_append: "find P (xs @ ys) = (case find P xs of None \<Rightarrow> find P ys | Some x \<Rightarrow> Some x)"
  by (induction xs) auto

lemma resolveRPCURL_find:
  "resolveRPCURL (Some c) =
     (case find (\<lambda>v. TrimSpace v \<noteq> [])
        (chain_RPCURL c # map rpc_URL (filter rpc_IsActive (chain_RPCs c)) @ map rpc_URL (chain_RPCs c)) of
        Some v \<Rightarrow> v | None \<Rightarrow> [])"
  by (simp add: resolveRPCURL_def find_map find_filter find_append split: option.split)

text \<open>
  Also. The list of endpoints to try holds every usable endpoint of the chain exactly
  once, and it starts with the endpoint the single-endpoint lookup returns; one is empty
  exactly when the other is.
\<close>

theorem resolveRPCURLs_agrees:
  "distinct (resolveRPCURLs (Some c)) \<and>
   set (resolveRPCURLs (Some c)) =
     {TrimSpace u | u. (u = chain_RPCURL c \<or> u \<in> rpc_URL ` set (chain_RPCs c)) \<and> TrimSpace u \<noteq> []} \<and>
   (resolveRPCURLs (Some c) = [] \<longleftrightarrow> resolveRPCURL (Some c) = []) \<and>
   (resolveRPCURLs (Some c) = [] \<or> hd (resolveRPCURLs (Some c)) = TrimSpace (resolveRPCURL (Some c)))"
proof (intro conjI)
  let ?vs = "chain_RPCURL c # map rpc_URL (filter rpc_IsActive (chain_RPCs c)) @ map rpc_URL (chain_RPCs c)"
  show "distinct (resolveRPCURLs (Some c))"
    unfolding resolveRPCURLs_fold by (rule add_url_distinct) simp
  show "set (resolveRPCURLs (Some c)) =
     {TrimSpace u | u. (u = chain_RPCURL c \<or> u \<in> rpc_URL ` set (chain_RPCs c)) \<and> TrimSpace u \<noteq> []}"
    unfolding resolveRPCURLs_fold add_url_set by auto
  have nonblank: "v \<noteq> []" if "find (\<lambda>v. TrimSpace v \<noteq> []) ?vs = Some v" for v
    using that unfolding find_Some_iff by auto
  show "resolveRPCURLs (Some c) = [] \<longleftrightarrow> resolveRPCURL (Some c) = []"
    using add_url_find [of ?vs] nonblank unfolding resolveRPCURLs_fold resolveRPCURL_find
    by (cases "find (\<lambda>v. TrimSpace v \<noteq> []) ?vs") (simp_all del: find.simps foldl_Cons)
  show "resolveRPCURLs (Some c) = [] \<or> hd (resolveRPCURLs (Some c)) = TrimSpace (resolveRPCURL (Some c))"
    using add_url_find [of ?vs] unfolding resolveRPCURLs_fold resolveRPCURL_find
    by (cases "find (\<lambda>v. TrimSpace v \<noteq> []) ?vs") (simp_all del: find.simps foldl_Cons)
qed

end
