(* ===== verification/Payment_Requests.thy ===== *)
theory Payment_Requests
  imports Accounts Route_Errors
begin

text \<open>
  Payment requests: the entity (\<^verbatim>\<open>internal/domain/entities/payment_request.go\<close>), the request and
  background-job repositories (\<^verbatim>\<open>payment_request_repo_impl.go\<close>), the use case
  (\<^verbatim>\<open>internal/usecases/payment_request_usecase.go\<close>) and the expiry job
  (\<^verbatim>\<open>internal/infrastructure/jobs/payment_request_expiry.go\<close>). Token, contract, merchant and
  wallet lookups reach the use case through the repository interfaces and are arguments;
  the token service that seals payment codes (JWE) and the hash functions are parameters.
\<close>

subsection \<open>Entities\<close>

datatype PaymentRequestStatus =
    PaymentRequestStatusPending | PaymentRequestStatusCompleted | PaymentRequestStatusExpired
  | PaymentRequestStatusCancelled | PaymentRequestStatusOther string

fun request_status_string :: "PaymentRequestStatus \<Rightarrow> string" where
  "request_status_string PaymentRequestStatusPending = ''PENDING''"
| "request_status_string PaymentRequestStatusCompleted = ''COMPLETED''"
| "request_status_string PaymentRequestStatusExpired = ''EXPIRED''"
| "request_status_string PaymentRequestStatusCancelled = ''CANCELLED''"
| "request_status_string (PaymentRequestStatusOther s) = s"

definition request_status_of :: "string \<Rightarrow> PaymentRequestStatus" where
  "request_status_of s =
     (if s = ''PENDING'' then PaymentRequestStatusPending else if s = ''COMPLETED'' then PaymentRequestStatusCompleted
      else if s = ''EXPIRED'' then PaymentRequestStatusExpired else if s = ''CANCELLED'' then PaymentRequestStatusCancelled
      else PaymentRequestStatusOther s)"

lemma request_status_string_of [simp]: "request_status_string (request_status_of s) = s"
  by (simp add: request_status_of_def)

record PaymentRequest =
  req_ID :: uuid
  req_MerchantID :: uuid
  req_ChainID :: uuid
  req_NetworkID :: string
  req_TokenID :: uuid
  req_TokenAddress :: string
  req_WalletAddress :: string
  req_Amount :: string
  req_Decimals :: int
  req_Description :: string
  req_Status :: PaymentRequestStatus
  req_ExpiresAt :: time
  req_TxHash :: string
  req_CompletedAt :: "time option"
  req_CreatedAt :: time
  req_UpdatedAt :: time
  req_PaymentCode :: string

record PaymentRequestTxData =
  tx_RequestID :: string
  tx_ContractAddress :: string
  tx_ChainID :: string
  tx_Amount :: string
  tx_Decimals :: int
  tx_To :: string
  tx_ProgramID :: string
  tx_Hex :: string
  tx_Base58 :: string
  tx_Base64 :: string

record request_row =
  rrow_ID :: uuid
  rrow_MerchantID :: uuid
  rrow_ChainID :: uuid
  rrow_TokenID :: uuid
  rrow_WalletAddress :: string
  rrow_Amount :: string
  rrow_Decimals :: int
  rrow_Description :: string
  rrow_Status :: string
  rrow_ExpiresAt :: time
  rrow_TxHash :: string
  rrow_CompletedAt :: "time option"
  rrow_CreatedAt :: time
  rrow_UpdatedAt :: time
  rrow_DeletedAt :: "time option"

subsection \<open>Repository\<close>

definition live_request :: "request_row \<Rightarrow> bool" where
  "live_request m \<longleftrightarrow> rrow_DeletedAt m = None"

definition request_row_of :: "uuid \<Rightarrow> time \<Rightarrow> PaymentRequest \<Rightarrow> request_row" where
  "request_row_of gen now r =
     \<lparr>rrow_ID = (if req_ID r = uuid_Nil then gen else req_ID r), rrow_MerchantID = req_MerchantID r,
      rrow_ChainID = req_ChainID r, rrow_TokenID = req_TokenID r, rrow_WalletAddress = req_WalletAddress r,
      rrow_Amount = req_Amount r, rrow_Decimals = req_Decimals r, rrow_Description = req_Description r,
      rrow_Status = request_status_string (req_Status r), rrow_ExpiresAt = req_ExpiresAt r, rrow_TxHash = [],
      rrow_CompletedAt = None, rrow_CreatedAt = now, rrow_UpdatedAt = now, rrow_DeletedAt = None\<rparr>"

definition request_Create :: "fault \<Rightarrow> uuid \<Rightarrow> time \<Rightarrow> request_row table \<Rightarrow> PaymentRequest \<Rightarrow> request_row table result" where
  "request_Create flt gen now t r =
     (case flt of Some e \<Rightarrow> Inl e | None \<Rightarrow> insert_row rrow_ID (request_row_of gen now r) t)"

text \<open>The relations read with a request: the network identifier of its chain, the address of its token.\<close>

definition chain_network :: "chain_db \<Rightarrow> uuid \<Rightarrow> string" where
  "chain_network cdb k =
     (case find (\<lambda>m. row_ID m = k \<and> live_chain m) (db_chains cdb) of Some m \<Rightarrow> row_NetworkID m | None \<Rightarrow> [])"

definition request_toEntity :: "chain_db \<Rightarrow> (uuid \<Rightarrow> string) \<Rightarrow> request_row \<Rightarrow> PaymentRequest" where
  "request_toEntity cdb tokenAddr m =
     \<lparr>req_ID = rrow_ID m, req_MerchantID = rrow_MerchantID m, req_ChainID = rrow_ChainID m,
      req_NetworkID = chain_network cdb (rrow_ChainID m), req_TokenID = rrow_TokenID m,
      req_TokenAddress = tokenAddr (rrow_TokenID m), req_WalletAddress = rrow_WalletAddress m,
      req_Amount = rrow_Amount m, req_Decimals = rrow_Decimals m, req_Description = rrow_Description m,
      req_Status = request_status_of (rrow_Status m), req_ExpiresAt = rrow_ExpiresAt m, req_TxHash = rrow_TxHash m,
      req_CompletedAt = rrow_CompletedAt m, req_CreatedAt = rrow_CreatedAt m, req_UpdatedAt = rrow_UpdatedAt m,
      req_PaymentCode = []\<rparr>"

definition request_GetByID ::
  "chain_db \<Rightarrow> (uuid \<Rightarrow> string) \<Rightarrow> fault \<Rightarrow> request_row table \<Rightarrow> uuid \<Rightarrow> PaymentRequest result" where
  "request_GetByID cdb tokenAddr flt t k =
     map_sum (\<lambda>e. e) (request_toEntity cdb tokenAddr) (get_by_id flt rrow_ID k (select_where live_request t))"

definition request_GetByMerchantID ::
  "chain_db \<Rightarrow> (uuid \<Rightarrow> string) \<Rightarrow> request_row orderer \<Rightarrow> fault \<Rightarrow> fault \<Rightarrow> request_row table \<Rightarrow> uuid \<Rightarrow> int \<Rightarrow> int \<Rightarrow>
   (PaymentRequest list \<times> int) result" where
  "request_GetByMerchantID cdb tokenAddr ord flt1 flt2 t merchantID limit offset =
     (case flt1 of
        Some e \<Rightarrow> Inl e
      | None \<Rightarrow>
          let rows = select_where (\<lambda>m. rrow_MerchantID m = merchantID \<and> live_request m) t in
          (case flt2 of
             Some e \<Rightarrow> Inl e
           | None \<Rightarrow> Inr (map (request_toEntity cdb tokenAddr) (sql_page limit offset (ord rows)), int (length rows))))"

text \<open>These updates report no error when no row matches.\<close>

definition request_update ::
  "fault \<Rightarrow> uuid \<Rightarrow> (request_row \<Rightarrow> request_row) \<Rightarrow> request_row table \<Rightarrow> gerror option \<times> request_row table" where
  "request_update flt k f t =
     (case flt of
        Some e \<Rightarrow> (Some e, t)
      | None \<Rightarrow> (None, fst (update_where (\<lambda>m. rrow_ID m = k \<and> live_request m) f t)))"

definition request_UpdateStatus ::
  "fault \<Rightarrow> time \<Rightarrow> request_row table \<Rightarrow> uuid \<Rightarrow> PaymentRequestStatus \<Rightarrow> gerror option \<times> request_row table" where
  "request_UpdateStatus flt now t k status =
     request_update flt k (\<lambda>m. m\<lparr>rrow_Status := request_status_string status, rrow_UpdatedAt := now\<rparr>) t"

definition request_UpdateTxHash ::
  "fault \<Rightarrow> time \<Rightarrow> request_row table \<Rightarrow> uuid \<Rightarrow> string \<Rightarrow> string \<Rightarrow> gerror option \<times> request_row table" where
  "request_UpdateTxHash flt now t k txHash payerAddress =
     request_update flt k (\<lambda>m. m\<lparr>rrow_TxHash := txHash, rrow_UpdatedAt := now\<rparr>) t"

definition request_MarkCompleted ::
  "fault \<Rightarrow> time \<Rightarrow> request_row table \<Rightarrow> uuid \<Rightarrow> string \<Rightarrow> gerror option \<times> request_row table" where
  "request_MarkCompleted flt now t k txHash =
     request_update flt k
       (\<lambda>m. m\<lparr>rrow_Status := request_status_string PaymentRequestStatusCompleted, rrow_TxHash := txHash,
              rrow_CompletedAt := Some now, rrow_UpdatedAt := now\<rparr>) t"

definition request_is_pending :: "request_row \<Rightarrow> bool" where
  "request_is_pending m \<longleftrightarrow> live_request m \<and> rrow_Status m = request_status_string PaymentRequestStatusPending"

definition request_GetExpiredPending ::
  "chain_db \<Rightarrow> (uuid \<Rightarrow> string) \<Rightarrow> request_row chooser \<Rightarrow> fault \<Rightarrow> time \<Rightarrow> request_row table \<Rightarrow> nat \<Rightarrow> PaymentRequest list result" where
  "request_GetExpiredPending cdb tokenAddr pick flt now t limit =
     (case flt of
        Some e \<Rightarrow> Inl e
      | None \<Rightarrow> Inr (map (request_toEntity cdb tokenAddr) (due_rows pick request_is_pending rrow_ExpiresAt limit now t)))"

definition expire_request :: "time \<Rightarrow> request_row \<Rightarrow> request_row" where
  "expire_request now m =
     (if live_request m
      then m\<lparr>rrow_Status := request_status_string PaymentRequestStatusExpired, rrow_UpdatedAt := now\<rparr> else m)"

definition request_ExpireRequests ::
  "fault \<Rightarrow> time \<Rightarrow> request_row table \<Rightarrow> uuid list \<Rightarrow> gerror option \<times> request_row table" where
  "request_ExpireRequests flt now t ids =
     (if length ids = 0 then (None, t)
      else case flt of
             Some e \<Rightarrow> (Some e, t)
           | None \<Rightarrow> (None, expire_keys rrow_ID (expire_request now) ids t))"

definition request_UpdatePaymentCode :: "request_row table \<Rightarrow> uuid \<Rightarrow> string \<Rightarrow> gerror option \<times> request_row table" where
  "request_UpdatePaymentCode t k code = (None, t)"

subsection \<open>The expiry job\<close>

text \<open>
  One tick of the job. The two statements are separate: \<open>between\<close> is what other clients do to
  the table after the read and before the update; \<open>now1\<close> and \<open>now2\<close> are the two clock
  readings.
\<close>

definition processExpiredRequests ::
  "request_row chooser \<Rightarrow> fault \<Rightarrow> fault \<Rightarrow> time \<Rightarrow> time \<Rightarrow> (request_row table \<Rightarrow> request_row table) \<Rightarrow>
   request_row table \<Rightarrow> request_row table" where
  "processExpiredRequests pick flt1 flt2 now1 now2 between t =
     (case flt1 of
        Some e \<Rightarrow> between t
      | None \<Rightarrow>
          let expired = due_rows pick request_is_pending rrow_ExpiresAt 100 now1 t in
          if length expired = 0 then between t
          else snd (request_ExpireRequests flt2 now2 (between t) (map rrow_ID expired)))"

interpretation request_expiry: expirable rrow_ID request_is_pending rrow_ExpiresAt expire_request
  by unfold_locales
    (auto simp: expire_request_def request_is_pending_def live_request_def)

subsection \<open>The use case\<close>

record Token =
  token_ID :: uuid
  token_ChainUUID :: uuid
  token_Symbol :: string
  token_Decimals :: int
  token_ContractAddress :: string
  token_IsActive :: bool
  token_IsNative :: bool

record JWEPayload =
  jwe_Version :: string
  jwe_SessionID :: string
  jwe_PaymentID :: string
  jwe_Amount :: string
  jwe_MerchantID :: string
  jwe_Currency :: string
  jwe_DestChain :: string
  jwe_DestToken :: string
  jwe_DestWallet :: string
  jwe_Nonce :: string
  jwe_ExpiresAt :: int

definition PaymentRequestExpiryMinutes :: int where "PaymentRequestExpiryMinutes = 15"

text \<open>What the use case is built with: repositories behind interfaces, the sealing service, the hashes.\<close>

record request_deps =
  dep_uuid :: uuid_lib
  dep_digit :: "nat \<Rightarrow> bool"
  dep_keccak :: "byte list \<Rightarrow> byte list"
  dep_sha256 :: "byte list \<Rightarrow> byte list"
  dep_merchantByUser :: "uuid \<Rightarrow> Merchant result"
  dep_walletsByUser :: "uuid \<Rightarrow> Wallet list result"
  dep_chains :: ChainRepository
  dep_tokenByAddress :: "string \<Rightarrow> uuid \<Rightarrow> Token result"
  dep_tokenNative :: "uuid \<Rightarrow> Token result"
  dep_activeContract :: "uuid \<Rightarrow> string \<Rightarrow> string option result"
  dep_jwe :: "(JWEPayload \<Rightarrow> string result) option"

definition computeSelectorHex :: "(byte list \<Rightarrow> byte list) \<Rightarrow> string \<Rightarrow> string" where
  "computeSelectorHex keccak sig = ''0x'' @ EncodeToString (take 4 (keccak (bytes_of sig)))"

definition PayRequestSelector :: "(byte list \<Rightarrow> byte list) \<Rightarrow> string" where
  "PayRequestSelector keccak = computeSelectorHex keccak ''payRequest(bytes32)''"

definition buildEvmTransactionHex :: "(byte list \<Rightarrow> byte list) \<Rightarrow> PaymentRequest \<Rightarrow> string" where
  "buildEvmTransactionHex keccak r = PayRequestSelector keccak @ uuidToBytes32Hex (req_ID r)"

definition buildSvmTransactionBase58 :: "(byte list \<Rightarrow> byte list) \<Rightarrow> PaymentRequest \<Rightarrow> string" where
  "buildSvmTransactionBase58 sha256 r =
     base58Encode (anchorDiscriminator sha256 ''pay_request'' @ uuidToBytes32 (req_ID r))"

definition buildTransactionData :: "request_deps \<Rightarrow> PaymentRequest \<Rightarrow> string option \<Rightarrow> PaymentRequestTxData" where
  "buildTransactionData D r contract =
     (let addr = (case contract of Some a \<Rightarrow> a | None \<Rightarrow> []);
          txData = \<lparr>tx_RequestID = uuid_String (dep_uuid D) (req_ID r), tx_ContractAddress = addr, tx_ChainID = req_NetworkID r,
                    tx_Amount = req_Amount r, tx_Decimals = req_Decimals r, tx_To = addr, tx_ProgramID = addr,
                    tx_Hex = [], tx_Base58 = [], tx_Base64 = []\<rparr>;
          chainType = getChainTypeFromCAIP2 (req_NetworkID r) in
      if chainType = ''eip155'' then txData\<lparr>tx_Hex := buildEvmTransactionHex (dep_keccak D) r\<rparr>
      else if chainType = ''solana'' then txData\<lparr>tx_Base58 := buildSvmTransactionBase58 (dep_sha256 D) r\<rparr>
      else txData)"

record CreatePaymentRequestInput =
  cpr_UserID :: uuid
  cpr_ChainID :: string
  cpr_TokenAddress :: string
  cpr_Amount :: string
  cpr_Decimals :: int
  cpr_Description :: string

record CreatePaymentRequestOutput =
  cpo_RequestID :: string
  cpo_TxData :: PaymentRequestTxData
  cpo_ExpiresAt :: time
  cpo_ExpiresInSecs :: int

definition ignore_error :: "'a option result \<Rightarrow> 'a option" where
  "ignore_error r = (case r of Inr v \<Rightarrow> v | Inl _ \<Rightarrow> None)"

definition target_wallet :: "Wallet list \<Rightarrow> Wallet" where
  "target_wallet ws = (case find wal_IsPrimary ws of Some w \<Rightarrow> w | None \<Rightarrow> ws ! 0)"

definition request_token :: "request_deps \<Rightarrow> string \<Rightarrow> uuid \<Rightarrow> Token result" where
  "request_token D address chainUUID =
     (case dep_tokenByAddress D address chainUUID of
        Inr token \<Rightarrow> Inr token
      | Inl e \<Rightarrow>
          if address = [] \<or> address = zero_address \<or> address = ''native'' then dep_tokenNative D chainUUID
          else Inl e)"

definition CreatePaymentRequest ::
  "request_deps \<Rightarrow> fault \<Rightarrow> uuid \<Rightarrow> time \<Rightarrow> request_row table \<Rightarrow> CreatePaymentRequestInput \<Rightarrow>
   CreatePaymentRequestOutput result \<times> request_row table" where
  "CreatePaymentRequest D flt requestID now t input =
     (case dep_merchantByUser D (cpr_UserID input) of
        Inl _ \<Rightarrow> (Inl (NotFound ''merchant not found, please apply as merchant first''), t)
      | Inr merchant \<Rightarrow>
          if mer_Status merchant \<noteq> MerchantStatusActive then (Inl (BadRequest ''merchant account is not active''), t)
          else
            case dep_walletsByUser D (cpr_UserID input) of
              Inl _ \<Rightarrow> (Inl (NotFound ''no wallet found for this merchant''), t)
            | Inr [] \<Rightarrow> (Inl (NotFound ''no wallet found for this merchant''), t)
            | Inr wallets \<Rightarrow>
                (case ResolveFromAny (dep_uuid D) (dep_chains D) (cpr_ChainID input) of
                   Inl _ \<Rightarrow> (Inl (BadRequest ''invalid chain id format''), t)
                 | Inr (chainUUID, caip2ID) \<Rightarrow>
                     (case request_token D (cpr_TokenAddress input) chainUUID of
                        Inl _ \<Rightarrow> (Inl (BadRequest ''invalid token for selected chain''), t)
                      | Inr token \<Rightarrow>
                          let contract = ignore_error (dep_activeContract D chainUUID ''GATEWAY'');
                              decimals = token_Decimals token in
                          if cpr_Decimals input > 0 \<and> cpr_Decimals input \<noteq> decimals then
                            (Inl (BadRequest ''token decimals mismatch''), t)
                          else
                            case convertToSmallestUnit (dep_digit D) (cpr_Amount input) decimals of
                              Inl msg \<Rightarrow> (Inl (BadRequest msg), t)
                            | Inr amountInSmallestUnit \<Rightarrow>
                                let expiresAt = now + PaymentRequestExpiryMinutes * minute;
                                    paymentRequest =
                                      \<lparr>req_ID = requestID, req_MerchantID = mer_ID merchant, req_ChainID = chainUUID,
                                       req_NetworkID = caip2ID, req_TokenID = token_ID token,
                                       req_TokenAddress = cpr_TokenAddress input,
                                       req_WalletAddress = wal_Address (target_wallet wallets),
                                       req_Amount = amountInSmallestUnit, req_Decimals = decimals,
                                       req_Description = cpr_Description input, req_Status = PaymentRequestStatusPending,
                                       req_ExpiresAt = expiresAt, req_TxHash = [], req_CompletedAt = None,
                                       req_CreatedAt = zero_time, req_UpdatedAt = zero_time, req_PaymentCode = []\<rparr> in
                                (case request_Create flt requestID now t paymentRequest of
                                   Inl e \<Rightarrow> (Inl (InternalError (Some e)), t)
                                 | Inr t1 \<Rightarrow>
                                     let jwePayload =
                                           \<lparr>jwe_Version = [], jwe_SessionID = uuid_String (dep_uuid D) requestID, jwe_PaymentID = [],
                                            jwe_Amount = cpr_Amount input,
                                            jwe_MerchantID = uuid_String (dep_uuid D) (mer_ID merchant),
                                            jwe_Currency = caip2ID, jwe_DestChain = [], jwe_DestToken = [], jwe_DestWallet = [],
                                            jwe_Nonce = [], jwe_ExpiresAt = unix expiresAt\<rparr>;
                                         t2 = (case dep_jwe D of
                                                 None \<Rightarrow> t1
                                               | Some encrypt \<Rightarrow>
                                                   (case encrypt jwePayload of
                                                      Inl _ \<Rightarrow> t1
                                                    | Inr paymentCode \<Rightarrow> snd (request_UpdatePaymentCode t1 requestID paymentCode))) in
                                     (Inr \<lparr>cpo_RequestID = uuid_String (dep_uuid D) requestID,
                                           cpo_TxData = buildTransactionData D paymentRequest contract,
                                           cpo_ExpiresAt = expiresAt,
                                           cpo_ExpiresInSecs = PaymentRequestExpiryMinutes * 60\<rparr>, t2)))))"

text \<open>Both read operations first expire a pending request whose time has passed.\<close>

definition lazy_expire ::
  "fault \<Rightarrow> time \<Rightarrow> request_row table \<Rightarrow> uuid \<Rightarrow> PaymentRequest \<Rightarrow> PaymentRequest \<times> request_row table" where
  "lazy_expire flt now t requestID r =
     (if req_Status r = PaymentRequestStatusPending \<and> now > req_ExpiresAt r
      then (r\<lparr>req_Status := PaymentRequestStatusExpired\<rparr>,
            snd (request_UpdateStatus flt now t requestID PaymentRequestStatusExpired))
      else (r, t))"

definition fill_chain :: "request_deps \<Rightarrow> PaymentRequest \<Rightarrow> PaymentRequest" where
  "fill_chain D r =
     (if req_ChainID r = uuid_Nil \<and> req_NetworkID r \<noteq> [] then
        (case ResolveFromAny (dep_uuid D) (dep_chains D) (req_NetworkID r) of
           Inr (cid, _) \<Rightarrow> r\<lparr>req_ChainID := cid\<rparr>
         | Inl _ \<Rightarrow> r)
      else r)"

definition GetPaymentRequest ::
  "request_deps \<Rightarrow> (uuid \<Rightarrow> PaymentRequest result) \<Rightarrow> fault \<Rightarrow> time \<Rightarrow> request_row table \<Rightarrow> uuid \<Rightarrow>
   (PaymentRequest \<times> PaymentRequestTxData) result \<times> request_row table" where
  "GetPaymentRequest D getByID flt now t requestID =
     (case getByID requestID of
        Inl _ \<Rightarrow> (Inl (NotFound ''payment request not found''), t)
      | Inr request \<Rightarrow>
          let (r1, t1) = lazy_expire flt now t requestID request;
              r2 = fill_chain D r1;
              r3 = (if req_NetworkID r2 = [] \<and> req_ChainID r2 \<noteq> uuid_Nil then
                      (case repo_GetByID (dep_chains D) (req_ChainID r2) of
                         Inr chain \<Rightarrow> r2\<lparr>req_NetworkID := GetCAIP2ID chain\<rparr>
                       | Inl _ \<Rightarrow> r2)
                    else r2);
              contract = ignore_error (dep_activeContract D (req_ChainID r3) ''GATEWAY'')
          in (Inr (r3, buildTransactionData D r3 contract), t1))"

record ResolvePaymentRequestOutput =
  rpo_PaymentID :: string
  rpo_MerchantID :: string
  rpo_Amount :: string
  rpo_DestChain :: string
  rpo_DestToken :: string
  rpo_DestWallet :: string
  rpo_ExpireTime :: int
  rpo_PaymentCode :: string
  rpo_QRData :: string
  rpo_DeepLink :: string
  rpo_Status :: PaymentRequestStatus

definition ResolvePaymentRequest ::
  "request_deps \<Rightarrow> (uuid \<Rightarrow> PaymentRequest result) \<Rightarrow> fault \<Rightarrow> time \<Rightarrow> request_row table \<Rightarrow> uuid \<Rightarrow>
   ResolvePaymentRequestOutput result \<times> request_row table" where
  "ResolvePaymentRequest D getByID flt now t requestID =
     (case getByID requestID of
        Inl _ \<Rightarrow> (Inl (NotFound ''payment request not found''), t)
      | Inr request \<Rightarrow>
          let (r1, t1) = lazy_expire flt now t requestID request;
              r2 = fill_chain D r1;
              qrData = (if req_PaymentCode r2 = [] then ''pay:'' @ uuid_String (dep_uuid D) (req_ID r2) else req_PaymentCode r2)
          in (Inr \<lparr>rpo_PaymentID = uuid_String (dep_uuid D) (req_ID r2),
                   rpo_MerchantID = uuid_String (dep_uuid D) (req_MerchantID r2), rpo_Amount = req_Amount r2,
                   rpo_DestChain = req_NetworkID r2, rpo_DestToken = req_TokenAddress r2, rpo_DestWallet = req_WalletAddress r2,
                   rpo_ExpireTime = unix (req_ExpiresAt r2), rpo_PaymentCode = req_PaymentCode r2, rpo_QRData = qrData,
                   rpo_DeepLink = ''paymentkita://pay?code='' @ qrData, rpo_Status = req_Status r2\<rparr>, t1))"

definition ListPaymentRequests ::
  "request_deps \<Rightarrow> (uuid \<Rightarrow> int \<Rightarrow> int \<Rightarrow> (PaymentRequest list \<times> int) result) \<Rightarrow> uuid \<Rightarrow> int \<Rightarrow> int \<Rightarrow>
   (PaymentRequest list \<times> int) result" where
  "ListPaymentRequests D getByMerchantID userID limit offset =
     (case dep_merchantByUser D userID of
        Inl _ \<Rightarrow> Inl (NotFound ''merchant not found'')
      | Inr merchant \<Rightarrow> getByMerchantID (mer_ID merchant) limit offset)"

definition MarkPaymentCompleted ::
  "fault \<Rightarrow> time \<Rightarrow> request_row table \<Rightarrow> uuid \<Rightarrow> string \<Rightarrow> gerror option \<times> request_row table" where
  "MarkPaymentCompleted flt now t requestID txHash = request_MarkCompleted flt now t requestID txHash"

subsection \<open>Creation\<close>

text \<open>
  Property C28. A payment request that is created belongs to an active merchant, carries the
  exact amount in smallest units, is pending and expires in fifteen minutes; the row is the
  only change, the transaction data shows the same amount, and an error changes nothing.
\<close>

theorem CreatePaymentRequest_correct:
  assumes id: "requestID \<noteq> uuid_Nil"
    and res: "CreatePaymentRequest D flt requestID now t input = (out, t')"
  shows "case out of
      Inl _ \<Rightarrow> t' = t
    | Inr v \<Rightarrow>
        \<exists>m merchant token. t' = t @ [m] \<and> rrow_ID m = requestID \<and>
          dep_merchantByUser D (cpr_UserID input) = Inr merchant \<and> mer_Status merchant = MerchantStatusActive \<and>
          rrow_MerchantID m = mer_ID merchant \<and>
          request_token D (cpr_TokenAddress input) (rrow_ChainID m) = Inr token \<and> rrow_TokenID m = token_ID token \<and>
          convertToSmallestUnit (dep_digit D) (cpr_Amount input) (token_Decimals token) = Inr (rrow_Amount m) \<and>
          rrow_Status m = ''PENDING'' \<and> rrow_ExpiresAt m = now + 15 * 60 * 1000000000 \<and>
          tx_Amount (cpo_TxData v) = rrow_Amount m \<and> cpo_ExpiresAt v = rrow_ExpiresAt m"
proof (cases out)
  case (Inl e)
  then show ?thesis using res
    by (auto simp: CreatePaymentRequest_def Let_def request_UpdatePaymentCode_def
        split: sum.splits list.splits prod.splits if_splits option.splits)
next
  case (Inr v)
  obtain merchant where mer: "dep_merchantByUser D (cpr_UserID input) = Inr merchant"
    using res Inr by (cases "dep_merchantByUser D (cpr_UserID input)") (auto simp: CreatePaymentRequest_def)
  have act: "mer_Status merchant = MerchantStatusActive"
    using res Inr mer by (auto simp: CreatePaymentRequest_def split: if_splits)
  obtain w ws where wal: "dep_walletsByUser D (cpr_UserID input) = Inr (w # ws)"
    using res Inr mer act by (auto simp: CreatePaymentRequest_def split: sum.splits list.splits)
  obtain c s where ch: "ResolveFromAny (dep_uuid D) (dep_chains D) (cpr_ChainID input) = Inr (c, s)"
    using res Inr mer act wal by (auto simp: CreatePaymentRequest_def split: sum.splits)
  obtain token where tok: "request_token D (cpr_TokenAddress input) c = Inr token"
    using res Inr mer act wal ch by (cases "request_token D (cpr_TokenAddress input) c") (auto simp: CreatePaymentRequest_def)
  obtain a where amt: "convertToSmallestUnit (dep_digit D) (cpr_Amount input) (token_Decimals token) = Inr a"
    using res Inr mer act wal ch tok
    by (cases "convertToSmallestUnit (dep_digit D) (cpr_Amount input) (token_Decimals token)")
      (auto simp: CreatePaymentRequest_def Let_def split: if_splits)
  show ?thesis
    using res Inr mer act wal ch tok amt id
    by (auto simp: CreatePaymentRequest_def Let_def request_Create_def insert_row_def request_row_of_def
        request_UpdatePaymentCode_def buildTransactionData_def PaymentRequestExpiryMinutes_def minute_def second_def
        split: if_splits option.splits sum.splits)
qed

definition sample_merchant :: Merchant where
  "sample_merchant =
     \<lparr>mer_ID = 9, mer_UserID = 3, mer_BusinessName = ''Shop'', mer_BusinessEmail = ''a@b.c'',
      mer_MerchantType = MerchantTypeUMKM, mer_Status = MerchantStatusActive, mer_TaxID = None,
      mer_BusinessAddress = None, mer_Documents = None, mer_FeeDiscountPercent = ''0'',
      mer_CallbackURL = ''https://shop.example/hook'', mer_WebhookSecret = ''k'', mer_WebhookIsActive = True,
      mer_SupportEmail = [], mer_LogoURL = [], mer_WebhookMetadata = None, mer_Metadata = None,
      mer_VerifiedAt = None, mer_CreatedAt = 1, mer_UpdatedAt = 1\<rparr>"

definition sample_deps :: request_deps where
  "sample_deps =
     \<lparr>dep_uuid = rfc_uuid, dep_digit = (\<lambda>_. False), dep_keccak = (\<lambda>b. replicate 32 0xab), dep_sha256 = (\<lambda>b. replicate 32 0xcd),
      dep_merchantByUser = (\<lambda>_. Inr sample_merchant), dep_walletsByUser = (\<lambda>_. Inr [new_wallet 3 7 ''0xa'' True]),
      dep_chains = chainRepo take base_db,
      dep_tokenByAddress = (\<lambda>a c. Inr \<lparr>token_ID = 11, token_ChainUUID = c, token_Symbol = ''USDC'', token_Decimals = 2,
        token_ContractAddress = a, token_IsActive = True, token_IsNative = False\<rparr>),
      dep_tokenNative = (\<lambda>c. Inl (Sentinel ErrNotFound)), dep_activeContract = (\<lambda>c ty. Inr (Some ''0xgate'')),
      dep_jwe = Some (\<lambda>p. Inr ''sealed'')\<rparr>"

definition sample_input :: CreatePaymentRequestInput where
  "sample_input = \<lparr>cpr_UserID = 3, cpr_ChainID = ''eip155:8453'', cpr_TokenAddress = ''0xtok'', cpr_Amount = ''1.5'',
     cpr_Decimals = 2, cpr_Description = ''tea''\<rparr>"

definition sample_request_row :: request_row where
  "sample_request_row =
     \<lparr>rrow_ID = 51, rrow_MerchantID = 9, rrow_ChainID = 7, rrow_TokenID = 11, rrow_WalletAddress = ''0xa'',
      rrow_Amount = ''150'', rrow_Decimals = 2, rrow_Description = ''tea'', rrow_Status = ''PENDING'',
      rrow_ExpiresAt = 900000000000, rrow_TxHash = [], rrow_CompletedAt = None, rrow_CreatedAt = 0, rrow_UpdatedAt = 0,
      rrow_DeletedAt = None\<rparr>"

lemma sample_request:
  "snd (CreatePaymentRequest sample_deps None 51 0 [] sample_input) = [sample_request_row]"
  "\<exists>v. fst (CreatePaymentRequest sample_deps None 51 0 [] sample_input) = Inr v"
proof -
  have "ResolveFromAny rfc_uuid (chainRepo take base_db) ''eip155:8453'' = Inr (7, ''eip155:8453'')" by code_simp
  moreover have "convertToSmallestUnit (\<lambda>_. False) ''1.5'' 2 = Inr ''150''" by code_simp
  moreover note [simp] = sample_deps_def sample_input_def
  ultimately show
    "snd (CreatePaymentRequest sample_deps None 51 0 [] sample_input) = [sample_request_row]"
    "\<exists>v. fst (CreatePaymentRequest sample_deps None 51 0 [] sample_input) = Inr v"
    by (simp_all add: CreatePaymentRequest_def request_token_def sample_merchant_def Let_def request_Create_def insert_row_def
        request_UpdatePaymentCode_def request_row_of_def target_wallet_def new_wallet_def PaymentRequestExpiryMinutes_def
        minute_def second_def sample_request_row_def)
qed

theorem CreatePaymentRequest_correct_witness:
  "\<exists>m. [sample_request_row] = [] @ [m] \<and> rrow_Amount m = ''150'' \<and> rrow_Status m = ''PENDING'' \<and>
     rrow_ExpiresAt m = 0 + 15 * 60 * 1000000000"
proof -
  obtain v where v: "CreatePaymentRequest sample_deps None 51 0 [] sample_input = (Inr v, [sample_request_row])"
    using sample_request by (metis prod.collapse)
  from CreatePaymentRequest_correct [OF _ v] show ?thesis by (auto simp: sample_request_row_def)
qed

subsection \<open>Reading a request back\<close>

lemma chain_type_plain:
  assumes "CHR '':'' \<notin> set q"
  shows "getChainTypeFromCAIP2 q = TrimSpace q"
proof -
  have "CHR '':'' \<notin> set (TrimSpace q)" using assms TrimSpace_set by blast
  then show ?thesis by (simp add: getChainTypeFromCAIP2_def SplitN2_no_sep Let_def)
qed

text \<open>
  Also. The transaction data of a request read back from the repository has no call
  data: the chain's stored identifier has no namespace, so the chain type is not recognised.
  The same request carried call data when it was created. The sealed payment code is not
  stored either, so the resolved request always falls back to the plain code.
\<close>

theorem stored_request_loses_calldata:
  assumes ch: "m \<in> set t" "live_request m" "distinct (map rrow_ID t)" "rrow_ChainID m \<noteq> uuid_Nil"
    and q: "chain_network cdb (rrow_ChainID m) = q" "q \<noteq> []" "CHR '':'' \<notin> set q" "TrimSpace q \<notin> {''eip155'', ''solana''}"
  shows "\<exists>r tx v t1 t2. GetPaymentRequest D (request_GetByID cdb ta None t) flt now t (rrow_ID m) = (Inr (r, tx), t1) \<and>
      tx_Hex tx = [] \<and> tx_Base58 tx = [] \<and>
    ResolvePaymentRequest D (request_GetByID cdb ta None t) flt now t (rrow_ID m) = (Inr v, t2) \<and>
      rpo_PaymentCode v = [] \<and> rpo_QRData v = ''pay:'' @ uuid_String (dep_uuid D) (rrow_ID m)"
proof -
  have "distinct (map rrow_ID (select_where live_request t))"
    using ch by (simp add: select_where_def distinct_map_filter)
  from get_by_id_found [OF this, of m] have get: "request_GetByID cdb ta None t (rrow_ID m) = Inr (request_toEntity cdb ta m)"
    using ch by (simp add: request_GetByID_def select_where_def)
  have "getChainTypeFromCAIP2 q \<notin> {''eip155'', ''solana''}" using q by (simp add: chain_type_plain)
  then have none: "tx_Hex (buildTransactionData D r c) = [] \<and> tx_Base58 (buildTransactionData D r c) = []"
    if "req_NetworkID r = q" for r c
    using that by (simp add: buildTransactionData_def Let_def)
  show ?thesis
    using get none ch q
    by (simp add: GetPaymentRequest_def ResolvePaymentRequest_def lazy_expire_def fill_chain_def request_toEntity_def Let_def)
qed

theorem stored_request_loses_calldata_witness:
  "\<exists>r tx v t1 t2. GetPaymentRequest sample_deps (request_GetByID base_db (\<lambda>_. []) None [sample_request_row]) None 1
      [sample_request_row] (rrow_ID sample_request_row) = (Inr (r, tx), t1) \<and> tx_Hex tx = [] \<and> tx_Base58 tx = [] \<and>
    ResolvePaymentRequest sample_deps (request_GetByID base_db (\<lambda>_. []) None [sample_request_row]) None 1
      [sample_request_row] (rrow_ID sample_request_row) = (Inr v, t2) \<and>
    rpo_PaymentCode v = [] \<and> rpo_QRData v = ''pay:'' @ uuid_String (dep_uuid sample_deps) (rrow_ID sample_request_row)"
proof (rule stored_request_loses_calldata [where q = "''8453''"])
  show "TrimSpace ''8453'' \<notin> {''eip155'', ''solana''}" by (simp add: TrimSpace_graphic_all graphic_def)
qed (simp_all add: sample_request_row_def live_request_def chain_network_def base_defs)

subsection \<open>Call data\<close>

text \<open>
  Also. The call data of a request names it: the EVM form decodes to the selector and the
  request's identifier as a 32-byte word, the Solana form decodes to the eight-byte
  discriminator and the same word; different requests have different call data.
\<close>

theorem calldata_names_request:
  "DecodeString (drop 2 (buildEvmTransactionHex keccak r)) =
      Some (take 4 (keccak (bytes_of ''payRequest(bytes32)'')) @ uuidToBytes32 (req_ID r)) \<and>
    base58Decode (buildSvmTransactionBase58 sha256 r) =
      anchorDiscriminator sha256 ''pay_request'' @ uuidToBytes32 (req_ID r) \<and>
    (buildEvmTransactionHex keccak r = buildEvmTransactionHex keccak r' \<longleftrightarrow> req_ID r = req_ID r')"
proof -
  have hex: "uuidToBytes32Hex k = EncodeToString (uuidToBytes32 k)" for k
    by (simp add: uuidToBytes32Hex_def padLeft_def EVMWordSizeHex_def)
  have dec: "DecodeString (drop 2 (buildEvmTransactionHex keccak r)) =
      Some (take 4 (keccak (bytes_of ''payRequest(bytes32)'')) @ uuidToBytes32 (req_ID r))" for r
    by (simp add: buildEvmTransactionHex_def PayRequestSelector_def computeSelectorHex_def hex flip: EncodeToString_append)
  have "req_ID r = req_ID r'" if "buildEvmTransactionHex keccak r = buildEvmTransactionHex keccak r'"
  proof -
    have "uuidToBytes32 (req_ID r) = uuidToBytes32 (req_ID r')" using dec [of r] dec [of r'] that by simp
    then have "uuid_bytes (req_ID r) = uuid_bytes (req_ID r')" by (simp add: uuidToBytes32_def)
    then have "unat (req_ID r) = unat (req_ID r')" by (metis SetBytes_uuid_bytes)
    then show ?thesis by (simp add: unsigned_word_eqI)
  qed
  moreover have "buildEvmTransactionHex keccak r = buildEvmTransactionHex keccak r'" if "req_ID r = req_ID r'"
    using that by (simp add: buildEvmTransactionHex_def)
  ultimately show ?thesis
    using dec base58Decode_base58Encode by (auto simp: buildSvmTransactionBase58_def)
qed

subsection \<open>Expiry\<close>

lemma processExpiredRequests_alone:
  "processExpiredRequests pick None None now1 now2 (\<lambda>t. t) t =
     expire_keys rrow_ID (expire_request now2)
       (map rrow_ID (due_rows pick request_is_pending rrow_ExpiresAt 100 now1 t)) t"
  by (simp add: processExpiredRequests_def request_ExpireRequests_def expire_keys_def update_where_def Let_def)

text \<open>
  Also. A tick of the expiry job that runs undisturbed expires due requests only: every
  request that is completed, cancelled, deleted or not yet due is kept as it is, and the
  number of due requests shrinks by a full batch of one hundred, or to zero.
\<close>

theorem expiry_tick_alone:
  assumes lim: "limit_ok pick" and key: "distinct (map rrow_ID t)"
  shows "let t' = processExpiredRequests pick None None now1 now2 (\<lambda>t. t) t;
             due = (\<lambda>m. request_is_pending m \<and> rrow_ExpiresAt m < now1) in
    {m \<in> set t. \<not> due m} \<subseteq> set t' \<and> length (filter due t') = length (filter due t) - 100 \<and>
    map rrow_ID t' = map rrow_ID t"
  unfolding processExpiredRequests_alone Let_def
  using request_expiry.pass_keeps_others [OF lim key] request_expiry.pass_progress [OF lim key]
    request_expiry.expire_keys_pk
  by auto

theorem expiry_tick_alone_witness:
  "length (filter (\<lambda>m. request_is_pending m \<and> rrow_ExpiresAt m < 900000000001)
     (processExpiredRequests take None None 900000000001 900000000002 (\<lambda>t. t) [sample_request_row])) = 0"
proof -
  have "distinct (map rrow_ID [sample_request_row])" by simp
  from expiry_tick_alone [OF limit_ok_take this, of 900000000001 900000000002] show ?thesis
    by (simp add: Let_def)
qed

text \<open>
  Also. The two statements of the job are not atomic: a request that is completed between
  them ends as expired, although its transaction hash and completion time stay recorded.
\<close>

theorem expiry_tick_overwrites_completed:
  "\<exists>m. processExpiredRequests take None None 900000000001 900000000003
       (\<lambda>t. snd (MarkPaymentCompleted None 900000000002 t 51 ''0xhash'')) [sample_request_row] = [m] \<and>
     rrow_Status m = ''EXPIRED'' \<and> rrow_TxHash m = ''0xhash'' \<and> rrow_CompletedAt m = Some 900000000002"
  by (simp add: processExpiredRequests_def due_rows_def select_where_def MarkPaymentCompleted_def request_MarkCompleted_def
      request_update_def update_where_def request_ExpireRequests_def expire_keys_def expire_request_def
      request_is_pending_def live_request_def sample_request_row_def)

end
