(* ===== verification/Payment_V2.thy ===== *)
theory Payment_V2
  imports Payment_Requests
begin

text \<open>
  Version 2 of the gateway's call interface: normalisation of the payment mode and the bridge
  option (\<^verbatim>\<open>internal/usecases/payment_v2_normalizer.go\<close>), the call data packers
  (\<^verbatim>\<open>payment_v2_packer.go\<close>, the selectors of \<^verbatim>\<open>constants.go\<close>), the token approval of
  \<^verbatim>\<open>payment_usecase.go\<close>, and the classification of quote errors (\<^verbatim>\<open>quote_reason.go\<close>).
  The ABI encoder and the parser of hexadecimal addresses belong to go-ethereum and are
  parameters.
\<close>

subsection \<open>Modes and bridge options\<close>

definition PaymentModeRegular :: string where "PaymentModeRegular = ''regular''"
definition PaymentModePrivacy :: string where "PaymentModePrivacy = ''privacy''"

definition BridgeOptionDefaultSentinel :: u8 where "BridgeOptionDefaultSentinel = 255"
definition BridgeOptionHyperbridge :: u8 where "BridgeOptionHyperbridge = 0"
definition BridgeOptionCCIP :: u8 where "BridgeOptionCCIP = 1"
definition BridgeOptionStargate :: u8 where "BridgeOptionStargate = 2"
definition BridgeOptionHBTokenGateway :: u8 where "BridgeOptionHBTokenGateway = 3"

definition normalizePaymentMode :: "string option \<Rightarrow> string" where
  "normalizePaymentMode mode =
     (case mode of
        None \<Rightarrow> PaymentModeRegular
      | Some m \<Rightarrow> if EqualFold (TrimSpace m) PaymentModePrivacy then PaymentModePrivacy else PaymentModeRegular)"

definition normalizeBridgeOption :: "u8 option \<Rightarrow> u8 result" where
  "normalizeBridgeOption option =
     (case option of
        None \<Rightarrow> Inr BridgeOptionDefaultSentinel
      | Some v \<Rightarrow>
          if v > BridgeOptionHBTokenGateway then Inl (ErrorString (''invalid bridgeOption: '' @ nat_string (unat v)))
          else Inr v)"

definition blank_ptr :: "string option \<Rightarrow> bool" where
  "blank_ptr s \<longleftrightarrow> (case s of None \<Rightarrow> True | Some v \<Rightarrow> TrimSpace v = [])"

definition validatePrivacyFields :: "string \<Rightarrow> string option \<Rightarrow> string option \<Rightarrow> gerror option" where
  "validatePrivacyFields mode intentID stealthReceiver =
     (if mode \<noteq> PaymentModePrivacy then None
      else if blank_ptr intentID then Some (ErrorString ''privacyIntentId is required when mode=privacy'')
      else if blank_ptr stealthReceiver then Some (ErrorString ''privacyStealthReceiver is required when mode=privacy'')
      else None)"

subsection \<open>Arguments and the encoder\<close>

type_synonym address = "160 word"

record PaymentRequestV2Args =
  v2_DestChainIDBytes :: "byte list"
  v2_ReceiverBytes :: "byte list"
  v2_SourceToken :: address
  v2_BridgeTokenSource :: address
  v2_DestToken :: address
  v2_AmountInSource :: "int option"
  v2_MinBridgeAmountOut :: "int option"
  v2_MinDestAmountOut :: "int option"
  v2_Mode :: u8
  v2_BridgeOption :: u8

record PrivateRoutingArgs =
  pr_IntentID :: "byte list"
  pr_StealthReceiver :: address

text \<open>The message of the router; the legacy schema has no payer.\<close>

record bridge_message =
  msg_PaymentId :: "byte list"
  msg_Receiver :: address
  msg_SourceToken :: address
  msg_DestToken :: address
  msg_Amount :: int
  msg_DestChainId :: string
  msg_MinAmountOut :: int
  msg_Payer :: "address option"

datatype abi_arg =
    ArgAddress address | ArgUint int | ArgRequestV2 PaymentRequestV2Args | ArgPrivate PrivateRoutingArgs
  | ArgString string | ArgU8 u8 | ArgBytes32 "byte list" | ArgMessage bridge_message

record abi_lib =
  HexToAddress :: "string \<Rightarrow> address"
  packABIArgs :: "abi_arg list \<Rightarrow> byte list result"

definition PaymentRequestV2Tuple :: string where
  "PaymentRequestV2Tuple = ''(bytes,bytes,address,address,address,uint256,uint256,uint256,uint8,uint8)''"

definition PrivateRoutingTuple :: string where
  "PrivateRoutingTuple = ''(bytes32,address)''"

definition CreatePaymentSignature :: string where
  "CreatePaymentSignature = ''createPayment('' @ PaymentRequestV2Tuple @ '')''"

definition CreatePaymentPrivateSignature :: string where
  "CreatePaymentPrivateSignature =
     ''createPaymentPrivate('' @ PaymentRequestV2Tuple @ '','' @ PrivateRoutingTuple @ '')''"

definition CreatePaymentDefaultBridgeSignature :: string where
  "CreatePaymentDefaultBridgeSignature = ''createPaymentDefaultBridge('' @ PaymentRequestV2Tuple @ '')''"

definition buildCalldataHex :: "string \<Rightarrow> byte list \<Rightarrow> string result" where
  "buildCalldataHex selector packedArgs =
     (case DecodeString (TrimPrefix selector ''0x'') of
        None \<Rightarrow> Inl (ErrorString ''decode selector'')
      | Some selectorBytes \<Rightarrow> Inr (''0x'' @ EncodeToString (selectorBytes @ packedArgs)))"

definition amounts_missing :: "PaymentRequestV2Args \<Rightarrow> bool" where
  "amounts_missing req \<longleftrightarrow>
     v2_AmountInSource req = None \<or> v2_MinBridgeAmountOut req = None \<or> v2_MinDestAmountOut req = None"

definition packCreatePaymentV2Calldata ::
  "abi_lib \<Rightarrow> (byte list \<Rightarrow> byte list) \<Rightarrow> PaymentRequestV2Args \<Rightarrow> string result" where
  "packCreatePaymentV2Calldata A keccak req =
     (if amounts_missing req then Inl (ErrorString ''pack createPaymentV2 args: amount fields must not be nil'')
      else case packABIArgs A [ArgRequestV2 req] of
             Inl e \<Rightarrow> Inl (WrapErr ''pack createPaymentV2 args'' e)
           | Inr packed \<Rightarrow> buildCalldataHex (computeSelectorHex keccak CreatePaymentSignature) packed)"

definition packCreatePaymentDefaultBridgeV2Calldata ::
  "abi_lib \<Rightarrow> (byte list \<Rightarrow> byte list) \<Rightarrow> PaymentRequestV2Args \<Rightarrow> string result" where
  "packCreatePaymentDefaultBridgeV2Calldata A keccak req =
     (if amounts_missing req then Inl (ErrorString ''pack createPaymentDefaultBridgeV2 args: amount fields must not be nil'')
      else case packABIArgs A [ArgRequestV2 req] of
             Inl e \<Rightarrow> Inl (WrapErr ''pack createPaymentDefaultBridgeV2 args'' e)
           | Inr packed \<Rightarrow> buildCalldataHex (computeSelectorHex keccak CreatePaymentDefaultBridgeSignature) packed)"

definition packCreatePaymentPrivateV2Calldata ::
  "abi_lib \<Rightarrow> (byte list \<Rightarrow> byte list) \<Rightarrow> PaymentRequestV2Args \<Rightarrow> PrivateRoutingArgs \<Rightarrow> string result" where
  "packCreatePaymentPrivateV2Calldata A keccak req privacy =
     (if amounts_missing req then Inl (ErrorString ''pack createPaymentPrivateV2 args: amount fields must not be nil'')
      else case packABIArgs A [ArgRequestV2 req, ArgPrivate privacy] of
             Inl e \<Rightarrow> Inl (WrapErr ''pack createPaymentPrivateV2 args'' e)
           | Inr packed \<Rightarrow> buildCalldataHex (computeSelectorHex keccak CreatePaymentPrivateSignature) packed)"

definition buildErc20ApproveHex :: "abi_lib \<Rightarrow> string \<Rightarrow> string \<Rightarrow> string" where
  "buildErc20ApproveHex A spender amount =
     (case SetString10 amount of
        None \<Rightarrow> []
      | Some amountBig \<Rightarrow>
          (case packABIArgs A [ArgAddress (HexToAddress A (normalizeEvmAddress spender)), ArgUint amountBig] of
             Inl _ \<Rightarrow> []
           | Inr packed \<Rightarrow> ''0x095ea7b3'' @ EncodeToString packed))"

subsection \<open>Quote errors\<close>

definition schema_mismatch_keywords :: "string list" where
  "schema_mismatch_keywords =
     [''function selector was not recognized'', ''selector was not recognized'', ''unknown selector'',
      ''no fallback function'', ''no method with id'', ''method not found'', ''function does not exist'',
      ''abi mismatch'']"

definition isQuoteSchemaMismatchReason :: "string \<Rightarrow> bool" where
  "isQuoteSchemaMismatchReason reason =
     (let r = ToLower (TrimSpace reason) in
      if r = [] then False else list_ex (Contains r) schema_mismatch_keywords)"

subsection \<open>Call data decodes\<close>

text \<open>
  The packers share one contract: refuse missing amounts, otherwise the selector of a fixed
  signature followed by the encoded arguments. It is proved once.
\<close>

locale calldata_packer =
  fixes pack :: "abi_lib \<Rightarrow> (byte list \<Rightarrow> byte list) \<Rightarrow> 'a \<Rightarrow> string result"
    and sig :: string and request :: "'a \<Rightarrow> PaymentRequestV2Args" and args :: "'a \<Rightarrow> abi_arg list"
  assumes pack_missing: "amounts_missing (request a) \<Longrightarrow> \<exists>e. pack A keccak a = Inl e"
    and pack_error: "\<not> amounts_missing (request a) \<Longrightarrow> packABIArgs A (args a) = Inl e \<Longrightarrow> \<exists>e'. pack A keccak a = Inl e'"
    and pack_ok: "\<not> amounts_missing (request a) \<Longrightarrow> packABIArgs A (args a) = Inr packed \<Longrightarrow>
      pack A keccak a = buildCalldataHex (computeSelectorHex keccak sig) packed"
    and args_inj: "args a = args b \<longleftrightarrow> a = b"
begin

lemma decodes:
  "pack A keccak a = Inr s \<longleftrightarrow>
     \<not> amounts_missing (request a) \<and>
     (\<exists>packed. packABIArgs A (args a) = Inr packed \<and>
       s = ''0x'' @ EncodeToString (take 4 (keccak (bytes_of sig)) @ packed))"
proof -
  have build: "buildCalldataHex (computeSelectorHex keccak sig) packed =
      Inr (''0x'' @ EncodeToString (take 4 (keccak (bytes_of sig)) @ packed))" for packed
    by (simp add: buildCalldataHex_def computeSelectorHex_def TrimPrefix_def HasPrefix_def)
  show ?thesis
  proof (cases "amounts_missing (request a)")
    case True
    then show ?thesis using pack_missing [of a A keccak] by auto
  next
    case False
    show ?thesis
    proof (cases "packABIArgs A (args a)")
      case (Inl e)
      with False show ?thesis using pack_error [of a A e keccak] by auto
    next
      case (Inr packed)
      with False show ?thesis by (auto simp: pack_ok build)
    qed
  qed
qed

lemma decode_bytes:
  "pack A keccak a = Inr s \<Longrightarrow>
     \<exists>packed. packABIArgs A (args a) = Inr packed \<and>
       DecodeString (drop 2 s) = Some (take 4 (keccak (bytes_of sig)) @ packed)"
  by (auto simp: decodes)

lemma injective:
  assumes "pack A keccak a = Inr s" "pack A keccak b = Inr s"
    and inj: "\<And>xs ys p. packABIArgs A xs = Inr p \<Longrightarrow> packABIArgs A ys = Inr p \<Longrightarrow> xs = ys"
  shows "a = b"
proof -
  obtain p where p: "packABIArgs A (args a) = Inr p"
      "DecodeString (drop 2 s) = Some (take 4 (keccak (bytes_of sig)) @ p)"
    using decode_bytes [OF assms(1)] by auto
  obtain q where q: "packABIArgs A (args b) = Inr q"
      "DecodeString (drop 2 s) = Some (take 4 (keccak (bytes_of sig)) @ q)"
    using decode_bytes [OF assms(2)] by auto
  from p q have "p = q" by simp
  with p q inj have "args a = args b" by blast
  then show ?thesis by (simp add: args_inj)
qed

end

interpretation v2_plain: calldata_packer packCreatePaymentV2Calldata CreatePaymentSignature "\<lambda>r. r" "\<lambda>r. [ArgRequestV2 r]"
  by unfold_locales (auto simp: packCreatePaymentV2Calldata_def)

interpretation v2_default: calldata_packer packCreatePaymentDefaultBridgeV2Calldata
  CreatePaymentDefaultBridgeSignature "\<lambda>r. r" "\<lambda>r. [ArgRequestV2 r]"
  by unfold_locales (auto simp: packCreatePaymentDefaultBridgeV2Calldata_def)

interpretation v2_private: calldata_packer "\<lambda>A k (r, p). packCreatePaymentPrivateV2Calldata A k r p"
  CreatePaymentPrivateSignature fst "\<lambda>(r, p). [ArgRequestV2 r, ArgPrivate p]"
  by unfold_locales (auto simp: packCreatePaymentPrivateV2Calldata_def)


subsection \<open>Calls and payments\<close>

text \<open>
  Documented behaviour of the encoder and of the hash: encodings of different values of the same
  types differ, as long as the values fit their types; the hash has 32 bytes, and the three
  gateway functions have different selectors.
\<close>

fun abi_kind :: "abi_arg \<Rightarrow> nat" where
  "abi_kind (ArgAddress _) = 0"
| "abi_kind (ArgUint _) = 1"
| "abi_kind (ArgRequestV2 _) = 2"
| "abi_kind (ArgPrivate _) = 3"
| "abi_kind (ArgString _) = 4"
| "abi_kind (ArgU8 _) = 5"
| "abi_kind (ArgBytes32 _) = 6"
| "abi_kind (ArgMessage m) = (if msg_Payer m = None then 7 else 8)"

definition uint256 :: "int \<Rightarrow> bool" where
  "uint256 n \<longleftrightarrow> 0 \<le> n \<and> n < 2 ^ 256"

definition opt_uint256 :: "int option \<Rightarrow> bool" where
  "opt_uint256 v \<longleftrightarrow> (case v of Some n \<Rightarrow> uint256 n | None \<Rightarrow> False)"

fun abi_fits :: "abi_arg \<Rightarrow> bool" where
  "abi_fits (ArgUint n) \<longleftrightarrow> uint256 n"
| "abi_fits (ArgRequestV2 r) \<longleftrightarrow>
     opt_uint256 (v2_AmountInSource r) \<and> opt_uint256 (v2_MinBridgeAmountOut r) \<and> opt_uint256 (v2_MinDestAmountOut r)"
| "abi_fits (ArgPrivate p) \<longleftrightarrow> length (pr_IntentID p) = 32"
| "abi_fits (ArgBytes32 b) \<longleftrightarrow> length b = 32"
| "abi_fits (ArgMessage m) \<longleftrightarrow> length (msg_PaymentId m) = 32 \<and> uint256 (msg_Amount m) \<and> uint256 (msg_MinAmountOut m)"
| "abi_fits _ \<longleftrightarrow> True"

definition encoder_ok :: "abi_lib \<Rightarrow> bool" where
  "encoder_ok A \<longleftrightarrow>
     (\<forall>xs ys p. packABIArgs A xs = Inr p \<longrightarrow> packABIArgs A ys = Inr p \<longrightarrow> list_all abi_fits xs \<longrightarrow> list_all abi_fits ys \<longrightarrow>
        map abi_kind xs = map abi_kind ys \<longrightarrow> xs = ys)"

definition gateway_selectors :: "(byte list \<Rightarrow> byte list) \<Rightarrow> byte list list" where
  "gateway_selectors keccak =
     map (\<lambda>f. take 4 (keccak (bytes_of f)))
       [CreatePaymentSignature, CreatePaymentDefaultBridgeSignature, CreatePaymentPrivateSignature]"

definition gateway_call ::
  "abi_lib \<Rightarrow> (byte list \<Rightarrow> byte list) \<Rightarrow> nat \<Rightarrow> PaymentRequestV2Args \<Rightarrow> PrivateRoutingArgs option \<Rightarrow> string result" where
  "gateway_call A keccak f r p =
     (case p of
        Some privacy \<Rightarrow> packCreatePaymentPrivateV2Calldata A keccak r privacy
      | None \<Rightarrow>
          if f = 0 then packCreatePaymentV2Calldata A keccak r
          else packCreatePaymentDefaultBridgeV2Calldata A keccak r)"

lemma gateway_call_bytes:
  assumes "gateway_call A keccak f r p = Inr s"
  shows "\<exists>packed. DecodeString (drop 2 s) =
      Some (gateway_selectors keccak ! (if p \<noteq> None then 2 else if f = 0 then 0 else 1) @ packed) \<and>
    packABIArgs A (ArgRequestV2 r # (case p of None \<Rightarrow> [] | Some v \<Rightarrow> [ArgPrivate v])) = Inr packed"
proof (cases p)
  case (Some v)
  then show ?thesis using assms v2_private.decode_bytes [of A keccak "(r, v)" s]
    by (auto simp: gateway_call_def gateway_selectors_def)
next
  case None
  then show ?thesis using assms v2_plain.decode_bytes [of A keccak r s] v2_default.decode_bytes [of A keccak r s]
    by (auto simp: gateway_call_def gateway_selectors_def split: if_splits)
qed

definition routing_fits :: "PrivateRoutingArgs option \<Rightarrow> bool" where
  "routing_fits p \<longleftrightarrow> (case p of None \<Rightarrow> True | Some v \<Rightarrow> abi_fits (ArgPrivate v))"


definition sample_v2 :: "u8 \<Rightarrow> PaymentRequestV2Args" where
  "sample_v2 opt =
     \<lparr>v2_DestChainIDBytes = bytes_of ''eip155:8453'', v2_ReceiverBytes = [1], v2_SourceToken = 2, v2_BridgeTokenSource = 0,
      v2_DestToken = 3, v2_AmountInSource = Some 150, v2_MinBridgeAmountOut = Some 0, v2_MinDestAmountOut = Some 0,
      v2_Mode = 0, v2_BridgeOption = opt\<rparr>"

definition sample_abi :: abi_lib where
  "sample_abi =
     \<lparr>HexToAddress = (\<lambda>s. of_nat (length s)),
      packABIArgs = (\<lambda>xs. if xs = [ArgRequestV2 (sample_v2 0)] then Inr [1]
                          else if xs = [ArgRequestV2 (sample_v2 1)] then Inr [2]
                          else if xs = [ArgAddress 42, ArgUint 150] then Inr [3]
                          else Inl (ErrorString ''abi''))\<rparr>"

definition length_hash :: "byte list \<Rightarrow> byte list" where
  "length_hash b = replicate 32 (of_nat (length b))"

lemma sample_gateway_selectors: "distinct (gateway_selectors length_hash)"
  by code_simp

lemma sample_encoder_ok: "encoder_ok sample_abi"
  by (auto simp: encoder_ok_def sample_abi_def split: if_splits)


text \<open>
  Also. An approval is well formed or absent: the approval call decodes to the selector
  of \<^verbatim>\<open>approve\<close> followed by the encoded spender and exactly the amount that was written in
  decimal; an amount that is not an integer gives no call at all.
\<close>

theorem buildErc20ApproveHex_decodes:
  "(\<exists>n packed. SetString10 amount = Some n \<and>
      packABIArgs A [ArgAddress (HexToAddress A (normalizeEvmAddress spender)), ArgUint n] = Inr packed \<and>
      DecodeString (drop 2 (buildErc20ApproveHex A spender amount)) = Some ([0x09, 0x5e, 0xa7, 0xb3] @ packed)) \<noteq>
    (buildErc20ApproveHex A spender amount = [])"
proof (cases "SetString10 amount")
  case None
  then show ?thesis by (simp add: buildErc20ApproveHex_def)
next
  case (Some n)
  have "DecodeString (''095ea7b3'' @ EncodeToString packed) = Some ([0x09, 0x5e, 0xa7, 0xb3] @ packed)" for packed
  proof -
    have "''095ea7b3'' = EncodeToString [0x09, 0x5e, 0xa7, 0xb3]" by code_simp
    then show ?thesis by (simp only: flip: EncodeToString_append) simp
  qed
  then show ?thesis using Some
    by (cases "packABIArgs A [ArgAddress (HexToAddress A (normalizeEvmAddress spender)), ArgUint n]")
      (auto simp: buildErc20ApproveHex_def)
qed

end
