(* ===== verification/Partner_Sessions.thy ===== *)
theory Partner_Sessions
  imports Payment_V2
begin

text \<open>
  Quotes and partner payment sessions: the entities
  (\<^verbatim>\<open>internal/domain/entities/partner_payment_session.go\<close>), both repositories
  (\<^verbatim>\<open>partner_payment_session_repo_impl.go\<close>), the expiry jobs
  (\<^verbatim>\<open>internal/infrastructure/jobs/partner_payment_session_expiry.go\<close>) and the use case
  (\<^verbatim>\<open>internal/usecases/partner_payment_session_usecase.go\<close>). A quote and a session have the same
  fields as entity and as database model, and the status types are strings, so one record
  stands for both. The cost and approval reads of the gateway contract go to an RPC node and
  are parameters, as are the sealing service (JWE), the JSON encoder and the environment.
\<close>

subsection \<open>Entities\<close>

definition PaymentQuoteStatusActive :: string where "PaymentQuoteStatusActive = ''ACTIVE''"
definition PaymentQuoteStatusUsed :: string where "PaymentQuoteStatusUsed = ''USED''"
definition PaymentQuoteStatusExpired :: string where "PaymentQuoteStatusExpired = ''EXPIRED''"
definition PaymentQuoteStatusCancelled :: string where "PaymentQuoteStatusCancelled = ''CANCELLED''"

definition SessionStatusPending :: string where "SessionStatusPending = ''PENDING''"
definition SessionStatusCompleted :: string where "SessionStatusCompleted = ''COMPLETED''"
definition SessionStatusExpired :: string where "SessionStatusExpired = ''EXPIRED''"
definition SessionStatusFailed :: string where "SessionStatusFailed = ''FAILED''"
definition SessionStatusCancelled :: string where "SessionStatusCancelled = ''CANCELLED''"

lemmas quote_status_defs = PaymentQuoteStatusActive_def PaymentQuoteStatusUsed_def PaymentQuoteStatusExpired_def
  PaymentQuoteStatusCancelled_def

lemmas session_status_defs = SessionStatusPending_def SessionStatusCompleted_def SessionStatusExpired_def
  SessionStatusFailed_def SessionStatusCancelled_def

record PaymentQuote =
  quote_ID :: uuid
  quote_MerchantID :: uuid
  quote_InvoiceCurrency :: string
  quote_InvoiceAmount :: string
  quote_SelectedChainID :: string
  quote_SelectedTokenAddress :: string
  quote_SelectedTokenSymbol :: string
  quote_SelectedTokenDecimals :: int
  quote_QuotedAmount :: string
  quote_QuoteRate :: string
  quote_PriceSource :: string
  quote_Route :: string
  quote_SlippageBps :: int
  quote_RateTimestamp :: time
  quote_ExpiresAt :: time
  quote_Status :: string
  quote_UsedAt :: "time option"
  quote_CreatedAt :: time
  quote_UpdatedAt :: time

record PartnerPaymentSession =
  sess_ID :: uuid
  sess_MerchantID :: uuid
  sess_QuoteID :: "uuid option"
  sess_PaymentRequestID :: "uuid option"
  sess_InvoiceCurrency :: string
  sess_InvoiceAmount :: string
  sess_SelectedChainID :: string
  sess_SelectedTokenAddress :: string
  sess_SelectedTokenSymbol :: string
  sess_SelectedTokenDecimals :: int
  sess_DestChain :: string
  sess_DestToken :: string
  sess_DestWallet :: string
  sess_PaymentAmount :: string
  sess_PaymentAmountDecimals :: int
  sess_Status :: string
  sess_ChannelUsed :: "string option"
  sess_PaymentCode :: string
  sess_PaymentURL :: string
  sess_InstructionTo :: string
  sess_InstructionValue :: string
  sess_InstructionDataHex :: string
  sess_InstructionDataBase58 :: string
  sess_InstructionDataBase64 :: string
  sess_InstructionApprovalTo :: string
  sess_InstructionApprovalDataHex :: string
  sess_QuoteRate :: "string option"
  sess_QuoteSource :: "string option"
  sess_QuoteRoute :: "string option"
  sess_QuoteExpiresAt :: "time option"
  sess_QuoteSnapshotJSON :: string
  sess_ExpiresAt :: time
  sess_PaidTxHash :: "string option"
  sess_PaidChainID :: "string option"
  sess_PaidTokenAddress :: "string option"
  sess_PaidAmount :: "string option"
  sess_PaidSenderAddress :: "string option"
  sess_CompletedAt :: "time option"
  sess_CreatedAt :: time
  sess_UpdatedAt :: time

subsection \<open>Repositories\<close>

text \<open>A zero key gets the column default, a zero creation or update time the time of the insert.\<close>

definition stamp :: "time \<Rightarrow> time \<Rightarrow> time" where
  "stamp now t = (if t = zero_time then now else t)"

definition quote_Create :: "fault \<Rightarrow> uuid \<Rightarrow> time \<Rightarrow> PaymentQuote table \<Rightarrow> PaymentQuote \<Rightarrow> PaymentQuote table result" where
  "quote_Create flt gen now t q =
     (case flt of
        Some e \<Rightarrow> Inl e
      | None \<Rightarrow>
          insert_row quote_ID
            (q\<lparr>quote_ID := if quote_ID q = uuid_Nil then gen else quote_ID q,
               quote_CreatedAt := stamp now (quote_CreatedAt q), quote_UpdatedAt := stamp now (quote_UpdatedAt q)\<rparr>) t)"

definition quote_GetByID :: "fault \<Rightarrow> PaymentQuote table \<Rightarrow> uuid \<Rightarrow> PaymentQuote result" where
  "quote_GetByID flt t k = get_by_id flt quote_ID k t"

definition quote_UpdateStatus ::
  "fault \<Rightarrow> time \<Rightarrow> PaymentQuote table \<Rightarrow> uuid \<Rightarrow> string \<Rightarrow> gerror option \<times> PaymentQuote table" where
  "quote_UpdateStatus flt now t k status =
     update_by_id flt quote_ID k (\<lambda>q. q\<lparr>quote_Status := status, quote_UpdatedAt := now\<rparr>) t"

definition quote_MarkUsed :: "fault \<Rightarrow> time \<Rightarrow> PaymentQuote table \<Rightarrow> uuid \<Rightarrow> gerror option \<times> PaymentQuote table" where
  "quote_MarkUsed flt now t k =
     update_by_id flt quote_ID k
       (\<lambda>q. q\<lparr>quote_Status := PaymentQuoteStatusUsed, quote_UsedAt := Some now, quote_UpdatedAt := now\<rparr>) t"

definition quote_is_active :: "PaymentQuote \<Rightarrow> bool" where
  "quote_is_active q \<longleftrightarrow> quote_Status q = PaymentQuoteStatusActive"

definition quote_GetExpiredActive ::
  "PaymentQuote chooser \<Rightarrow> fault \<Rightarrow> time \<Rightarrow> PaymentQuote table \<Rightarrow> nat \<Rightarrow> PaymentQuote list result" where
  "quote_GetExpiredActive pick flt now t limit =
     (case flt of Some e \<Rightarrow> Inl e | None \<Rightarrow> Inr (due_rows pick quote_is_active quote_ExpiresAt limit now t))"

definition expire_quote :: "time \<Rightarrow> PaymentQuote \<Rightarrow> PaymentQuote" where
  "expire_quote now q = q\<lparr>quote_Status := PaymentQuoteStatusExpired, quote_UpdatedAt := now\<rparr>"

definition quote_ExpireQuotes ::
  "fault \<Rightarrow> time \<Rightarrow> PaymentQuote table \<Rightarrow> uuid list \<Rightarrow> gerror option \<times> PaymentQuote table" where
  "quote_ExpireQuotes flt now t ids =
     (if length ids = 0 then (None, t)
      else case flt of
             Some e \<Rightarrow> (Some e, t)
           | None \<Rightarrow> (None, expire_keys quote_ID (expire_quote now) ids t))"

definition session_Create ::
  "fault \<Rightarrow> uuid \<Rightarrow> time \<Rightarrow> PartnerPaymentSession table \<Rightarrow> PartnerPaymentSession \<Rightarrow> PartnerPaymentSession table result" where
  "session_Create flt gen now t s =
     (case flt of
        Some e \<Rightarrow> Inl e
      | None \<Rightarrow>
          insert_row sess_ID
            (s\<lparr>sess_ID := if sess_ID s = uuid_Nil then gen else sess_ID s,
               sess_CreatedAt := stamp now (sess_CreatedAt s), sess_UpdatedAt := stamp now (sess_UpdatedAt s)\<rparr>) t)"

definition session_GetByID :: "fault \<Rightarrow> PartnerPaymentSession table \<Rightarrow> uuid \<Rightarrow> PartnerPaymentSession result" where
  "session_GetByID flt t k = get_by_id flt sess_ID k t"

definition session_GetByPaymentRequestID ::
  "fault \<Rightarrow> PartnerPaymentSession table \<Rightarrow> uuid \<Rightarrow> PartnerPaymentSession result" where
  "session_GetByPaymentRequestID flt t k =
     (case flt of
        Some e \<Rightarrow> Inl e
      | None \<Rightarrow> (case first_by sess_ID (\<lambda>s. sess_PaymentRequestID s = Some k) t of
                  None \<Rightarrow> Inl (Sentinel ErrNotFound) | Some s \<Rightarrow> Inr s))"

definition session_UpdateStatus ::
  "fault \<Rightarrow> time \<Rightarrow> PartnerPaymentSession table \<Rightarrow> uuid \<Rightarrow> string \<Rightarrow> gerror option \<times> PartnerPaymentSession table" where
  "session_UpdateStatus flt now t k status =
     update_by_id flt sess_ID k (\<lambda>s. s\<lparr>sess_Status := status, sess_UpdatedAt := now\<rparr>) t"

definition session_MarkCompleted ::
  "fault \<Rightarrow> time \<Rightarrow> PartnerPaymentSession table \<Rightarrow> uuid \<Rightarrow> string \<Rightarrow> gerror option \<times> PartnerPaymentSession table" where
  "session_MarkCompleted flt now t k paidTxHash =
     update_by_id flt sess_ID k
       (\<lambda>s. s\<lparr>sess_Status := SessionStatusCompleted, sess_PaidTxHash := Some paidTxHash,
              sess_CompletedAt := Some now, sess_UpdatedAt := now\<rparr>) t"

definition session_is_pending :: "PartnerPaymentSession \<Rightarrow> bool" where
  "session_is_pending s \<longleftrightarrow> sess_Status s = SessionStatusPending"

definition session_GetExpiredPending ::
  "PartnerPaymentSession chooser \<Rightarrow> fault \<Rightarrow> time \<Rightarrow> PartnerPaymentSession table \<Rightarrow> nat \<Rightarrow> PartnerPaymentSession list result" where
  "session_GetExpiredPending pick flt now t limit =
     (case flt of Some e \<Rightarrow> Inl e | None \<Rightarrow> Inr (due_rows pick session_is_pending sess_ExpiresAt limit now t))"

definition expire_session :: "time \<Rightarrow> PartnerPaymentSession \<Rightarrow> PartnerPaymentSession" where
  "expire_session now s = s\<lparr>sess_Status := SessionStatusExpired, sess_UpdatedAt := now\<rparr>"

definition session_ExpireSessions ::
  "fault \<Rightarrow> time \<Rightarrow> PartnerPaymentSession table \<Rightarrow> uuid list \<Rightarrow> gerror option \<times> PartnerPaymentSession table" where
  "session_ExpireSessions flt now t ids =
     (if length ids = 0 then (None, t)
      else case flt of
             Some e \<Rightarrow> (Some e, t)
           | None \<Rightarrow> (None, expire_keys sess_ID (expire_session now) ids t))"

subsection \<open>Expiry jobs\<close>

text \<open>One tick of each job; \<open>between\<close> is what happens to the table between the read and the update.\<close>

definition processExpiredQuotes ::
  "PaymentQuote chooser \<Rightarrow> fault \<Rightarrow> fault \<Rightarrow> time \<Rightarrow> time \<Rightarrow> (PaymentQuote table \<Rightarrow> PaymentQuote table) \<Rightarrow>
   PaymentQuote table \<Rightarrow> PaymentQuote table" where
  "processExpiredQuotes pick flt1 flt2 now1 now2 between t =
     (case quote_GetExpiredActive pick flt1 now1 t 100 of
        Inl _ \<Rightarrow> between t
      | Inr expired \<Rightarrow>
          if length expired = 0 then between t
          else snd (quote_ExpireQuotes flt2 now2 (between t) (map quote_ID expired)))"

definition processExpiredSessions ::
  "PartnerPaymentSession chooser \<Rightarrow> fault \<Rightarrow> fault \<Rightarrow> time \<Rightarrow> time \<Rightarrow>
   (PartnerPaymentSession table \<Rightarrow> PartnerPaymentSession table) \<Rightarrow> PartnerPaymentSession table \<Rightarrow>
   PartnerPaymentSession table" where
  "processExpiredSessions pick flt1 flt2 now1 now2 between t =
     (case session_GetExpiredPending pick flt1 now1 t 100 of
        Inl _ \<Rightarrow> between t
      | Inr expired \<Rightarrow>
          if length expired = 0 then between t
          else snd (session_ExpireSessions flt2 now2 (between t) (map sess_ID expired)))"

interpretation quote_expiry: expirable quote_ID quote_is_active quote_ExpiresAt expire_quote
  by unfold_locales (auto simp: expire_quote_def quote_is_active_def quote_status_defs)

interpretation session_expiry: expirable sess_ID session_is_pending sess_ExpiresAt expire_session
  by unfold_locales (auto simp: expire_session_def session_is_pending_def session_status_defs)


subsection \<open>Helpers of the use case\<close>

definition createPaymentUnlimitedExpiryAt :: time where
  "createPaymentUnlimitedExpiryAt = 253402300799 * second"

definition isUnlimitedExpiryTime :: "time \<Rightarrow> bool" where
  "isUnlimitedExpiryTime v \<longleftrightarrow> v \<noteq> zero_time \<and> v = createPaymentUnlimitedExpiryAt"

definition coalesceString :: "string \<Rightarrow> string \<Rightarrow> string" where
  "coalesceString v fallback = (if TrimSpace v = [] then fallback else v)"

definition stringPtr :: "string \<Rightarrow> string option" where
  "stringPtr v = (if TrimSpace v = [] then None else Some v)"

definition buildSessionPaymentURL :: "uuid_lib \<Rightarrow> string \<Rightarrow> uuid \<Rightarrow> string" where
  "buildSessionPaymentURL L baseURL sessionID = TrimRight baseURL (CHR ''/'') @ ''/'' @ uuid_String L sessionID"

definition normalizePaymentURLWithSessionID :: "uuid_lib \<Rightarrow> string \<Rightarrow> uuid \<Rightarrow> string" where
  "normalizePaymentURLWithSessionID L storedURL sessionID =
     (let raw = TrimSpace storedURL in
      if raw = [] then raw
      else
        let trimmed = TrimRight raw (CHR ''/''); lastSlash = LastIndex trimmed (CHR ''/'') in
        if lastSlash < 0 then raw
        else take (nat (lastSlash + 1)) trimmed @ uuid_String L sessionID)"

definition defaultFrontendBaseURL :: string where
  "defaultFrontendBaseURL = ''https://payment-kita.excitech.id''"

fun first_nonblank :: "string list \<Rightarrow> string \<Rightarrow> string" where
  "first_nonblank [] dflt = dflt"
| "first_nonblank (x # xs) dflt = (if TrimSpace x = [] then first_nonblank xs dflt else TrimSpace x)"

definition pay_page :: "string \<Rightarrow> string" where
  "pay_page base =
     (let baseURL = TrimRight base (CHR ''/''); lower = ToLower baseURL in
      if HasSuffix lower ''/pay'' then baseURL
      else if HasSuffix lower ''/checkout'' then TrimSuffix baseURL ''/checkout'' @ ''/pay''
      else baseURL @ ''/pay'')"

definition resolvePartnerPayBaseURL :: "(string \<Rightarrow> string) \<Rightarrow> string \<Rightarrow> string" where
  "resolvePartnerPayBaseURL env explicitBaseURL =
     pay_page
       (first_nonblank
          [explicitBaseURL, env ''PARTNER_CHECKOUT_BASE_URL'', env ''FRONTEND_BASE_URL'', env ''NEXT_PUBLIC_APP_URL'',
           env ''NEXT_PUBLIC_FRONTEND_URL'', env ''NEXT_PUBLIC_SITE_URL'']
          defaultFrontendBaseURL)"

definition instructionToAddress :: "PartnerPaymentSession \<Rightarrow> string" where
  "instructionToAddress s = (if TrimSpace (sess_InstructionDataHex s) \<noteq> [] then sess_InstructionTo s else [])"

definition instructionProgramID :: "PartnerPaymentSession \<Rightarrow> string" where
  "instructionProgramID s = (if TrimSpace (sess_InstructionDataHex s) = [] then sess_InstructionTo s else [])"

text \<open>Standard base64, as \<^verbatim>\<open>base64.StdEncoding\<close> writes it.\<close>

definition b64_char :: "nat \<Rightarrow> char" where
  "b64_char d = ''ABCDEFGHIJKLMNOPQRSTUVWXYZabcdefghijklmnopqrstuvwxyz0123456789+/'' ! d"

fun b64_encode :: "byte list \<Rightarrow> string" where
  "b64_encode [] = []"
| "b64_encode [a] =
     (let n = unat a * 2 ^ 16 in [b64_char (n div 2 ^ 18), b64_char (n div 2 ^ 12 mod 64), CHR ''='', CHR ''=''])"
| "b64_encode [a, b] =
     (let n = unat a * 2 ^ 16 + unat b * 2 ^ 8 in
      [b64_char (n div 2 ^ 18), b64_char (n div 2 ^ 12 mod 64), b64_char (n div 2 ^ 6 mod 64), CHR ''=''])"
| "b64_encode (a # b # c # bs) =
     (let n = unat a * 2 ^ 16 + unat b * 2 ^ 8 + unat c in
      [b64_char (n div 2 ^ 18), b64_char (n div 2 ^ 12 mod 64), b64_char (n div 2 ^ 6 mod 64), b64_char (n mod 64)]
      @ b64_encode bs)"

subsection \<open>The use case\<close>

record CreatePartnerPaymentSessionInput =
  csi_MerchantID :: uuid
  csi_QuoteID :: uuid
  csi_DestWallet :: string
  csi_DestChainOverride :: string
  csi_DestTokenOverride :: string

record PaymentInstruction =
  ins_ChainID :: string
  ins_To :: string
  ins_Value :: string
  ins_Data :: string
  ins_ProgramID :: string
  ins_DataBase58 :: string
  ins_DataBase64 :: string
  ins_ApprovalTo :: string
  ins_ApprovalHex :: string

record CreatePartnerPaymentSessionOutput =
  cso_PaymentID :: string
  cso_MerchantID :: string
  cso_InvoiceCurrency :: string
  cso_InvoiceAmount :: string
  cso_Amount :: string
  cso_AmountDecimals :: int
  cso_DestChain :: string
  cso_DestToken :: string
  cso_DestWallet :: string
  cso_ExpireTime :: time
  cso_PaymentURL :: string
  cso_PaymentCode :: string
  cso_PaymentInstruction :: PaymentInstruction
  cso_QuoteID :: string
  cso_PriceSource :: string
  cso_QuoteRate :: string
  cso_QuoteExpiresAt :: time
  cso_Status :: string

record GetPartnerPaymentSessionOutput =
  gso_PaymentID :: string
  gso_Status :: string
  gso_Amount :: string
  gso_AmountDecimals :: int
  gso_DestChain :: string
  gso_DestToken :: string
  gso_DestWallet :: string
  gso_ExpiresAt :: time
  gso_PaymentURL :: string
  gso_PaymentCode :: string
  gso_PaymentInstruction :: PaymentInstruction

record ResolvePartnerPaymentCodeOutput =
  rco_PaymentID :: string
  rco_MerchantID :: string
  rco_Amount :: string
  rco_AmountDecimals :: int
  rco_DestChain :: string
  rco_DestToken :: string
  rco_DestWallet :: string
  rco_ExpiresAt :: time
  rco_PaymentInstruction :: PaymentInstruction

text \<open>The temporary payment the use case hands to the cost and approval computations.\<close>

record temp_payment =
  tmp_SourceChainID :: uuid
  tmp_DestChainID :: uuid
  tmp_SourceToken :: string
  tmp_DestToken :: string
  tmp_SourceAmount :: string
  tmp_TotalCharged :: string
  tmp_Receiver :: string

text \<open>
  The payment use case as sessions use it: the native bridge fee of a payment through a
  gateway, the address to approve, and the amount to approve; each asks an RPC node.
\<close>

record payment_uc =
  quoteGatewayPaymentCost :: "temp_payment \<Rightarrow> string \<Rightarrow> string option result"
  ResolveVaultAddressForApproval :: "uuid \<Rightarrow> string \<Rightarrow> string"
  CalculateOnchainApprovalAmount :: "temp_payment \<Rightarrow> string \<Rightarrow> string result"

record jwe_service =
  jwe_Encrypt :: "JWEPayload \<Rightarrow> string result"
  jwe_Decrypt :: "string \<Rightarrow> JWEPayload result"

record session_deps =
  sd_uuid :: uuid_lib
  sd_abi :: abi_lib
  sd_keccak :: "byte list \<Rightarrow> byte list"
  sd_chains :: ChainRepository
  sd_tokenByAddress :: "string \<Rightarrow> uuid \<Rightarrow> Token option result"
  sd_activeContract :: "uuid \<Rightarrow> string \<Rightarrow> string option result"
  sd_uow :: bool
  sd_jwe :: "jwe_service option"
  sd_paymentRequestLogic :: "request_deps option"
  sd_paymentUC :: "payment_uc option"
  sd_checkoutBaseURL :: string
  sd_mustJSON :: "PaymentQuote \<Rightarrow> string"
  sd_unparsed :: "string \<Rightarrow> int"  \<comment> \<open>the value \<^verbatim>\<open>big.Int\<close> keeps after a failed \<^verbatim>\<open>SetString\<close>, undefined in its documentation\<close>

record session_db =
  sdb_quotes :: "PaymentQuote table"
  sdb_sessions :: "PartnerPaymentSession table"
  sdb_requests :: "request_row table"

record session_faults =
  sf_begin :: fault
  sf_quote :: fault
  sf_request :: fault
  sf_session :: fault
  sf_used :: fault
  sf_commit :: fault

record session_ids =
  si_request :: uuid
  si_session :: uuid
  si_nonce :: uuid

definition no_faults :: session_faults where
  "no_faults = \<lparr>sf_begin = None, sf_quote = None, sf_request = None, sf_session = None, sf_used = None, sf_commit = None\<rparr>"


text \<open>The native bridge fee: what the gateway quotes, zero when there is no quote.\<close>

definition session_bridge_fee ::
  "session_deps \<Rightarrow> PaymentQuote \<Rightarrow> uuid \<Rightarrow> uuid \<Rightarrow> string \<Rightarrow> string \<Rightarrow> string option \<Rightarrow> int" where
  "session_bridge_fee D quote selectedChainID destChainID destTokenAddress destWallet contract =
     (case (sd_paymentUC D, contract) of
        (Some uc, Some gateway) \<Rightarrow>
          (case quoteGatewayPaymentCost uc
                  \<lparr>tmp_SourceChainID = selectedChainID, tmp_DestChainID = destChainID,
                   tmp_SourceToken = quote_SelectedTokenAddress quote, tmp_DestToken = destTokenAddress,
                   tmp_SourceAmount = quote_QuotedAmount quote, tmp_TotalCharged = [], tmp_Receiver = destWallet\<rparr> gateway of
             Inr (Some fee) \<Rightarrow> (case SetString10 fee of Some f \<Rightarrow> f | None \<Rightarrow> 0)
           | _ \<Rightarrow> 0)
      | _ \<Rightarrow> 0)"

definition v2_instruction ::
  "session_deps \<Rightarrow> PaymentQuote \<Rightarrow> PaymentRequest \<Rightarrow> string \<Rightarrow> string \<Rightarrow> string \<Rightarrow> PaymentRequestTxData option" where
  "v2_instruction D quote request destChainCAIP2 destTokenAddress gateway =
     (let addr = (\<lambda>a. HexToAddress (sd_abi D) (normalizeEvmAddress a));
          receiverPacked = (case packABIArgs (sd_abi D) [ArgAddress (addr (req_WalletAddress request))] of
                              Inl _ \<Rightarrow> [] | Inr b \<Rightarrow> b);
          amountInSource = (case SetString10 (req_Amount request) of Some n \<Rightarrow> n | None \<Rightarrow> sd_unparsed D (req_Amount request));
          v2Args = \<lparr>v2_DestChainIDBytes = bytes_of destChainCAIP2, v2_ReceiverBytes = receiverPacked,
                    v2_SourceToken = addr (quote_SelectedTokenAddress quote), v2_BridgeTokenSource = 0,
                    v2_DestToken = addr destTokenAddress, v2_AmountInSource = Some amountInSource,
                    v2_MinBridgeAmountOut = Some 0, v2_MinDestAmountOut = Some 0, v2_Mode = 0, v2_BridgeOption = 1\<rparr> in
      case packCreatePaymentDefaultBridgeV2Calldata (sd_abi D) (sd_keccak D) v2Args of
        Inl _ \<Rightarrow> None
      | Inr dataHex \<Rightarrow>
          let dataBytes = (case DecodeString (TrimPrefix dataHex ''0x'') of Some b \<Rightarrow> b | None \<Rightarrow> []) in
          Some \<lparr>tx_RequestID = [], tx_ContractAddress = [], tx_ChainID = [], tx_Amount = [], tx_Decimals = 0,
                tx_To = gateway, tx_ProgramID = [], tx_Hex = dataHex, tx_Base58 = base58Encode dataBytes,
                tx_Base64 = b64_encode dataBytes\<rparr>)"

definition session_txData ::
  "session_deps \<Rightarrow> request_deps \<Rightarrow> PaymentQuote \<Rightarrow> PaymentRequest \<Rightarrow> string \<Rightarrow> string \<Rightarrow> string option \<Rightarrow> PaymentRequestTxData" where
  "session_txData D R quote request destChainCAIP2 destTokenAddress contract =
     (case contract of
        None \<Rightarrow> buildTransactionData R request contract
      | Some gateway \<Rightarrow>
          (case v2_instruction D quote request destChainCAIP2 destTokenAddress gateway of
             Some tx \<Rightarrow> tx
           | None \<Rightarrow> buildTransactionData R request contract))"

text \<open>The approval call of an ERC-20 payment: the token to call and the call data.\<close>

definition session_approval ::
  "session_deps \<Rightarrow> PaymentQuote \<Rightarrow> string \<Rightarrow> string \<Rightarrow> string \<Rightarrow> string \<Rightarrow> string option \<Rightarrow> string \<times> string" where
  "session_approval D quote selectedChainCAIP2 destChainCAIP2 destTokenAddress destWallet contract =
     (case contract of
        None \<Rightarrow> ([], [])
      | Some gateway \<Rightarrow>
          let normalizedToken = normalizeEvmAddress (quote_SelectedTokenAddress quote) in
          if \<not> HasPrefix selectedChainCAIP2 ''eip155:'' \<or> normalizedToken = zero_address then ([], [])
          else
            (normalizedToken,
             (case sd_paymentUC D of
                None \<Rightarrow> []
              | Some uc \<Rightarrow>
                  let sourceChain = repo_GetByCAIP2 (sd_chains D) (quote_SelectedChainID quote);
                      destChain = repo_GetByCAIP2 (sd_chains D) destChainCAIP2;
                      tmp = \<lparr>tmp_SourceChainID = (case sourceChain of Inr c \<Rightarrow> chain_ID c | Inl _ \<Rightarrow> uuid_Nil),
                             tmp_DestChainID = (case destChain of Inr c \<Rightarrow> chain_ID c | Inl _ \<Rightarrow> uuid_Nil),
                             tmp_SourceToken = quote_SelectedTokenAddress quote, tmp_DestToken = destTokenAddress,
                             tmp_SourceAmount = quote_QuotedAmount quote, tmp_TotalCharged = quote_QuotedAmount quote,
                             tmp_Receiver = destWallet\<rparr>;
                      vaultAddress = (case sourceChain of
                                        Inl _ \<Rightarrow> gateway
                                      | Inr c \<Rightarrow> let v = ResolveVaultAddressForApproval uc (chain_ID c) gateway in
                                                 if v \<noteq> [] then v else gateway);
                      approvalAmount = (case CalculateOnchainApprovalAmount uc tmp gateway of
                                          Inr a \<Rightarrow> a | Inl _ \<Rightarrow> quote_QuotedAmount quote)
                  in buildErc20ApproveHex (sd_abi D) vaultAddress approvalAmount)))"

definition session_code_payload :: "session_deps \<Rightarrow> PaymentQuote \<Rightarrow> PartnerPaymentSession \<Rightarrow> uuid \<Rightarrow> JWEPayload" where
  "session_code_payload D quote s nonce =
     \<lparr>jwe_Version = ''partner_session.v1'', jwe_SessionID = uuid_String (sd_uuid D) (sess_ID s),
      jwe_PaymentID = uuid_String (sd_uuid D) (sess_ID s), jwe_Amount = sess_PaymentAmount s,
      jwe_MerchantID = uuid_String (sd_uuid D) (sess_MerchantID s), jwe_Currency = quote_InvoiceCurrency quote,
      jwe_DestChain = sess_DestChain s, jwe_DestToken = sess_DestToken s, jwe_DestWallet = sess_DestWallet s,
      jwe_Nonce = uuid_String (sd_uuid D) nonce,
      jwe_ExpiresAt = (if isUnlimitedExpiryTime (sess_ExpiresAt s) then 0 else unix (sess_ExpiresAt s))\<rparr>"

definition session_request ::
  "session_ids \<Rightarrow> time \<Rightarrow> CreatePartnerPaymentSessionInput \<Rightarrow> PaymentQuote \<Rightarrow> uuid \<Rightarrow> string \<Rightarrow> Token \<Rightarrow> PaymentRequest" where
  "session_request ids now input quote selectedChainID selectedChainCAIP2 selectedToken =
     \<lparr>req_ID = si_request ids, req_MerchantID = csi_MerchantID input, req_ChainID = selectedChainID,
      req_NetworkID = selectedChainCAIP2, req_TokenID = token_ID selectedToken,
      req_TokenAddress = token_ContractAddress selectedToken, req_WalletAddress = TrimSpace (csi_DestWallet input),
      req_Amount = quote_QuotedAmount quote, req_Decimals = quote_SelectedTokenDecimals quote, req_Description = [],
      req_Status = PaymentRequestStatusPending, req_ExpiresAt = quote_ExpiresAt quote, req_TxHash = [],
      req_CompletedAt = None, req_CreatedAt = now, req_UpdatedAt = now, req_PaymentCode = []\<rparr>"

definition new_session ::
  "session_deps \<Rightarrow> session_ids \<Rightarrow> time \<Rightarrow> CreatePartnerPaymentSessionInput \<Rightarrow> PaymentQuote \<Rightarrow> string \<Rightarrow> string \<Rightarrow>
   PaymentRequestTxData \<Rightarrow> int \<Rightarrow> string \<times> string \<Rightarrow> PartnerPaymentSession" where
  "new_session D ids now input quote destChainCAIP2 destTokenAddress txData bridgeFeeNative approval =
     \<lparr>sess_ID = si_session ids, sess_MerchantID = csi_MerchantID input, sess_QuoteID = Some (quote_ID quote),
      sess_PaymentRequestID = Some (si_request ids), sess_InvoiceCurrency = quote_InvoiceCurrency quote,
      sess_InvoiceAmount = quote_InvoiceAmount quote, sess_SelectedChainID = quote_SelectedChainID quote,
      sess_SelectedTokenAddress = quote_SelectedTokenAddress quote, sess_SelectedTokenSymbol = quote_SelectedTokenSymbol quote,
      sess_SelectedTokenDecimals = quote_SelectedTokenDecimals quote, sess_DestChain = destChainCAIP2,
      sess_DestToken = destTokenAddress, sess_DestWallet = TrimSpace (csi_DestWallet input),
      sess_PaymentAmount = quote_QuotedAmount quote, sess_PaymentAmountDecimals = quote_SelectedTokenDecimals quote,
      sess_Status = SessionStatusPending, sess_ChannelUsed = None, sess_PaymentCode = [],
      sess_PaymentURL = buildSessionPaymentURL (sd_uuid D) (sd_checkoutBaseURL D) (si_session ids),
      sess_InstructionTo = tx_To txData, sess_InstructionValue = int_string bridgeFeeNative,
      sess_InstructionDataHex = tx_Hex txData, sess_InstructionDataBase58 = tx_Base58 txData,
      sess_InstructionDataBase64 = tx_Base64 txData, sess_InstructionApprovalTo = fst approval,
      sess_InstructionApprovalDataHex = snd approval, sess_QuoteRate = stringPtr (quote_QuoteRate quote),
      sess_QuoteSource = stringPtr (quote_PriceSource quote), sess_QuoteRoute = stringPtr (quote_Route quote),
      sess_QuoteExpiresAt = Some (quote_ExpiresAt quote), sess_QuoteSnapshotJSON = sd_mustJSON D quote,
      sess_ExpiresAt = quote_ExpiresAt quote, sess_PaidTxHash = None, sess_PaidChainID = None,
      sess_PaidTokenAddress = None, sess_PaidAmount = None, sess_PaidSenderAddress = None, sess_CompletedAt = None,
      sess_CreatedAt = now, sess_UpdatedAt = now\<rparr>"

definition session_output ::
  "session_deps \<Rightarrow> PaymentQuote \<Rightarrow> PaymentRequestTxData \<Rightarrow> PartnerPaymentSession \<Rightarrow> CreatePartnerPaymentSessionOutput" where
  "session_output D quote txData s =
     \<lparr>cso_PaymentID = uuid_String (sd_uuid D) (sess_ID s), cso_MerchantID = uuid_String (sd_uuid D) (sess_MerchantID s),
      cso_InvoiceCurrency = sess_InvoiceCurrency s, cso_InvoiceAmount = sess_InvoiceAmount s, cso_Amount = sess_PaymentAmount s,
      cso_AmountDecimals = sess_PaymentAmountDecimals s, cso_DestChain = sess_DestChain s, cso_DestToken = sess_DestToken s,
      cso_DestWallet = sess_DestWallet s, cso_ExpireTime = sess_ExpiresAt s, cso_PaymentURL = sess_PaymentURL s,
      cso_PaymentCode = sess_PaymentCode s,
      cso_PaymentInstruction =
        \<lparr>ins_ChainID = sess_SelectedChainID s, ins_To = tx_To txData, ins_Value = ''0'', ins_Data = tx_Hex txData,
         ins_ProgramID = tx_ProgramID txData, ins_DataBase58 = tx_Base58 txData, ins_DataBase64 = tx_Base64 txData,
         ins_ApprovalTo = sess_InstructionApprovalTo s, ins_ApprovalHex = sess_InstructionApprovalDataHex s\<rparr>,
      cso_QuoteID = uuid_String (sd_uuid D) (quote_ID quote), cso_PriceSource = quote_PriceSource quote,
      cso_QuoteRate = quote_QuoteRate quote, cso_QuoteExpiresAt = quote_ExpiresAt quote, cso_Status = sess_Status s\<rparr>"


text \<open>Sealing the payment code and storing the session: the end of the transaction.\<close>

definition persist_session ::
  "session_deps \<Rightarrow> jwe_service \<Rightarrow> session_faults \<Rightarrow> session_ids \<Rightarrow> time \<Rightarrow> PaymentQuote \<Rightarrow> PaymentRequestTxData \<Rightarrow>
   PartnerPaymentSession \<Rightarrow> session_db \<Rightarrow> CreatePartnerPaymentSessionOutput result \<times> session_db" where
  "persist_session D J F ids now2 quote txData session0 db =
     (case jwe_Encrypt J (session_code_payload D quote session0 (si_nonce ids)) of
        Inl e \<Rightarrow> (Inl (InternalServerError (''failed to generate payment code: '' @ error_text e)), db)
      | Inr code \<Rightarrow>
          let session = session0\<lparr>sess_PaymentCode := code\<rparr> in
          (case session_Create (sf_session F) (si_session ids) now2 (sdb_sessions db) session of
             Inl e \<Rightarrow> (Inl (InternalServerError (''failed to create partner payment session: '' @ error_text e)), db)
           | Inr sessions \<Rightarrow>
               let db2 = db\<lparr>sdb_sessions := sessions\<rparr> in
               (case quote_MarkUsed (sf_used F) now2 (sdb_quotes db2) (quote_ID quote) of
                  (Some e, _) \<Rightarrow> (Inl (InternalServerError (''failed to mark quote used: '' @ error_text e)), db2)
                | (None, quotes) \<Rightarrow> (Inr (session_output D quote txData session), db2\<lparr>sdb_quotes := quotes\<rparr>))))"

text \<open>
  The body of the transaction. \<^verbatim>\<open>WithLock\<close> makes the read of the quote lock its row until the
  transaction ends, so that two sessions for one quote never interleave: the body is one step.
\<close>

definition create_session_tx ::
  "session_deps \<Rightarrow> jwe_service \<Rightarrow> request_deps \<Rightarrow> session_faults \<Rightarrow> session_ids \<Rightarrow> time \<Rightarrow> time \<Rightarrow>
   CreatePartnerPaymentSessionInput \<Rightarrow> session_db \<Rightarrow> CreatePartnerPaymentSessionOutput result \<times> session_db" where
  "create_session_tx D J R F ids now now2 input db =
     (case quote_GetByID (sf_quote F) (sdb_quotes db) (csi_QuoteID input) of
        Inl _ \<Rightarrow> (Inl (NotFound ''quote not found''), db)
      | Inr quote \<Rightarrow>
          if quote_MerchantID quote \<noteq> csi_MerchantID input then (Inl (Forbidden ''quote does not belong to merchant''), db)
          else if quote_Status quote \<noteq> PaymentQuoteStatusActive then (Inl (BadRequest ''quote is no longer active''), db)
          else if \<not> isUnlimitedExpiryTime (quote_ExpiresAt quote) \<and> now > quote_ExpiresAt quote then
            (Inl (BadRequest ''quote has expired''), db)
          else
            case ResolveFromAny (sd_uuid D) (sd_chains D) (quote_SelectedChainID quote) of
              Inl e \<Rightarrow> (Inl (BadRequest (''invalid selected chain on quote: '' @ error_text e)), db)
            | Inr (selectedChainID, selectedChainCAIP2) \<Rightarrow>
                (case sd_tokenByAddress D (quote_SelectedTokenAddress quote) selectedChainID of
                   Inl _ \<Rightarrow> (Inl (BadRequest ''quoted token no longer supported''), db)
                 | Inr None \<Rightarrow> (Inl (BadRequest ''quoted token no longer supported''), db)
                 | Inr (Some selectedToken) \<Rightarrow>
                     let paymentRequest = session_request ids now input quote selectedChainID selectedChainCAIP2 selectedToken in
                     (case request_Create (sf_request F) (si_request ids) now2 (sdb_requests db) paymentRequest of
                        Inl e \<Rightarrow> (Inl (InternalServerError (''failed to create payment request primitive: '' @ error_text e)), db)
                      | Inr reqs \<Rightarrow>
                          let db1 = db\<lparr>sdb_requests := reqs\<rparr>;
                              contract = ignore_error (sd_activeContract D selectedChainID ''GATEWAY'') in
                          (case ResolveFromAny (sd_uuid D) (sd_chains D)
                                  (coalesceString (TrimSpace (csi_DestChainOverride input)) (quote_SelectedChainID quote)) of
                             Inl e \<Rightarrow> (Inl (BadRequest (''invalid destination chain: '' @ error_text e)), db1)
                           | Inr (destChainID, destChainCAIP2) \<Rightarrow>
                               let destTokenAddress = coalesceString (TrimSpace (csi_DestTokenOverride input)) (quote_SelectedTokenAddress quote);
                                   destWallet = TrimSpace (csi_DestWallet input);
                                   bridgeFeeNative = session_bridge_fee D quote selectedChainID destChainID destTokenAddress destWallet contract;
                                   txData = session_txData D R quote paymentRequest destChainCAIP2 destTokenAddress contract;
                                   approval = session_approval D quote selectedChainCAIP2 destChainCAIP2 destTokenAddress destWallet contract;
                                   session0 = new_session D ids now input quote destChainCAIP2 destTokenAddress txData bridgeFeeNative approval in
                               persist_session D J F ids now2 quote txData session0 db1))))"

text \<open>
  The request repository writes through its own handle and not through the transaction of the
  context, so a rollback restores quotes and sessions but not requests.
\<close>

definition session_rollback :: "session_db \<Rightarrow> session_db \<Rightarrow> session_db" where
  "session_rollback old new = old\<lparr>sdb_requests := sdb_requests new\<rparr>"

definition CreateSession ::
  "session_deps \<Rightarrow> session_faults \<Rightarrow> session_ids \<Rightarrow> time \<Rightarrow> time \<Rightarrow> CreatePartnerPaymentSessionInput option \<Rightarrow>
   session_db \<Rightarrow> CreatePartnerPaymentSessionOutput result \<times> session_db" where
  "CreateSession D F ids now now2 inp db =
     (case inp of
        None \<Rightarrow> (Inl (BadRequest ''input is required''), db)
      | Some input \<Rightarrow>
          if csi_MerchantID input = uuid_Nil then (Inl (Forbidden ''merchant context required''), db)
          else if csi_QuoteID input = uuid_Nil then (Inl (BadRequest ''quote_id is required''), db)
          else if TrimSpace (csi_DestWallet input) = [] then (Inl (BadRequest ''dest_wallet is required''), db)
          else if \<not> sd_uow D then (Inl (InternalServerError ''unit of work is not configured''), db)
          else
            case sd_jwe D of
              None \<Rightarrow> (Inl (InternalServerError ''jwe service is not configured''), db)
            | Some J \<Rightarrow>
                (case sd_paymentRequestLogic D of
                   None \<Rightarrow> (Inl (InternalServerError ''payment request helper is not configured''), db)
                 | Some R \<Rightarrow>
                     (case uow_run (\<lambda>old new. (None, session_rollback (snd old) (snd new))) (sf_begin F) (sf_commit F)
                             (\<lambda>(_, d). case create_session_tx D J R F ids now now2 input d of
                                         (Inl e, d') \<Rightarrow> (Some e, (None, d'))
                                       | (Inr out, d') \<Rightarrow> (None, (Some out, d'))) (None, db) of
                        (Some e, (_, d)) \<Rightarrow> (Inl e, d)
                      | (None, (Some out, d)) \<Rightarrow> (Inr out, d)
                      | (None, (None, d)) \<Rightarrow> (Inl nil_dereference, d))))"

definition stored_instruction :: "PartnerPaymentSession \<Rightarrow> PaymentInstruction" where
  "stored_instruction s =
     \<lparr>ins_ChainID = sess_SelectedChainID s, ins_To = instructionToAddress s,
      ins_Value = coalesceString (sess_InstructionValue s) ''0'', ins_Data = sess_InstructionDataHex s,
      ins_ProgramID = instructionProgramID s, ins_DataBase58 = sess_InstructionDataBase58 s,
      ins_DataBase64 = sess_InstructionDataBase64 s, ins_ApprovalTo = sess_InstructionApprovalTo s,
      ins_ApprovalHex = sess_InstructionApprovalDataHex s\<rparr>"

definition buildPartnerPaymentSessionReadModel :: "session_deps \<Rightarrow> PartnerPaymentSession \<Rightarrow> GetPartnerPaymentSessionOutput" where
  "buildPartnerPaymentSessionReadModel D s =
     \<lparr>gso_PaymentID = uuid_String (sd_uuid D) (sess_ID s), gso_Status = sess_Status s, gso_Amount = sess_PaymentAmount s,
      gso_AmountDecimals = sess_PaymentAmountDecimals s, gso_DestChain = sess_DestChain s, gso_DestToken = sess_DestToken s,
      gso_DestWallet = sess_DestWallet s, gso_ExpiresAt = sess_ExpiresAt s,
      gso_PaymentURL = normalizePaymentURLWithSessionID (sd_uuid D) (sess_PaymentURL s) (sess_ID s),
      gso_PaymentCode = sess_PaymentCode s, gso_PaymentInstruction = stored_instruction s\<rparr>"

definition GetSession ::
  "session_deps \<Rightarrow> fault \<Rightarrow> session_db \<Rightarrow> uuid \<Rightarrow> GetPartnerPaymentSessionOutput result" where
  "GetSession D flt db sessionID =
     (if sessionID = uuid_Nil then Inl (BadRequest ''payment session id is required'')
      else case session_GetByID flt (sdb_sessions db) sessionID of
             Inl _ \<Rightarrow> Inl (NotFound ''payment session not found'')
           | Inr s \<Rightarrow> Inr (buildPartnerPaymentSessionReadModel D s))"

definition invitation_expired :: gerror where
  "invitation_expired = NewAppError 410 CodeBadRequest ''payment invitation has expired'' None"

text \<open>The payment code of the input, none for a nil input; a nil sealing service is a run-time panic.\<close>

definition ResolvePaymentCode ::
  "session_deps \<Rightarrow> fault \<Rightarrow> time \<Rightarrow> session_db \<Rightarrow> string option \<Rightarrow> ResolvePartnerPaymentCodeOutput result" where
  "ResolvePaymentCode D flt now db input =
     (if (case input of None \<Rightarrow> True | Some code \<Rightarrow> TrimSpace code = []) then Inl (BadRequest ''payment_code is required'')
      else
        case sd_jwe D of
          None \<Rightarrow> Inl nil_dereference
        | Some J \<Rightarrow>
            (case jwe_Decrypt J (TrimSpace (the input)) of
               Inl _ \<Rightarrow> Inl (Unauthorized ''invalid or tampered payment code'')
             | Inr payload \<Rightarrow>
                 if jwe_ExpiresAt payload > 0 \<and> unix now > jwe_ExpiresAt payload then Inl invitation_expired
                 else if jwe_Version payload \<noteq> [] \<and> jwe_Version payload \<noteq> ''partner_session.v1'' then
                   Inl (BadRequest ''unsupported payment code version'')
                 else
                   let sessionIDRaw = (let sid = TrimSpace (jwe_SessionID payload) in
                                       if sid = [] then TrimSpace (jwe_PaymentID payload) else sid) in
                   case uuid_Parse (sd_uuid D) sessionIDRaw of
                     None \<Rightarrow> Inl (BadRequest ''invalid session id in payment code'')
                   | Some sessionID \<Rightarrow>
                       (case session_GetByID flt (sdb_sessions db) sessionID of
                          Inl _ \<Rightarrow> Inl (NotFound ''payment session not found'')
                        | Inr s \<Rightarrow>
                            if sess_Status s \<noteq> SessionStatusPending then Inl (BadRequest ''payment session is not payable'')
                            else if \<not> isUnlimitedExpiryTime (sess_ExpiresAt s) \<and> now > sess_ExpiresAt s then Inl invitation_expired
                            else
                              Inr \<lparr>rco_PaymentID = uuid_String (sd_uuid D) (sess_ID s),
                                   rco_MerchantID = uuid_String (sd_uuid D) (sess_MerchantID s), rco_Amount = sess_PaymentAmount s,
                                   rco_AmountDecimals = sess_PaymentAmountDecimals s, rco_DestChain = sess_DestChain s,
                                   rco_DestToken = sess_DestToken s, rco_DestWallet = sess_DestWallet s,
                                   rco_ExpiresAt = sess_ExpiresAt s, rco_PaymentInstruction = stored_instruction s\<rparr>)))"


subsection \<open>What a session creation does\<close>

text \<open>A row the transaction adds to the sessions, up to the parts that depend on the chain.\<close>

definition session_for :: "session_deps \<Rightarrow> session_ids \<Rightarrow> CreatePartnerPaymentSessionInput \<Rightarrow> PaymentQuote \<Rightarrow> PartnerPaymentSession \<Rightarrow> bool" where
  "session_for D ids input quote s \<longleftrightarrow>
     sess_ID s = si_session ids \<and> sess_MerchantID s = csi_MerchantID input \<and> sess_QuoteID s = Some (quote_ID quote) \<and>
     sess_PaymentRequestID s = Some (si_request ids) \<and> sess_PaymentAmount s = quote_QuotedAmount quote \<and>
     sess_PaymentAmountDecimals s = quote_SelectedTokenDecimals quote \<and> sess_Status s = SessionStatusPending \<and>
     sess_DestWallet s = TrimSpace (csi_DestWallet input) \<and> sess_ExpiresAt s = quote_ExpiresAt quote \<and>
     sess_SelectedChainID s = quote_SelectedChainID quote \<and>
     sess_PaymentURL s = buildSessionPaymentURL (sd_uuid D) (sd_checkoutBaseURL D) (si_session ids)"

definition output_for :: "session_deps \<Rightarrow> PaymentQuote \<Rightarrow> PartnerPaymentSession \<Rightarrow> CreatePartnerPaymentSessionOutput \<Rightarrow> bool" where
  "output_for D quote s out \<longleftrightarrow>
     cso_PaymentID out = uuid_String (sd_uuid D) (sess_ID s) \<and> cso_MerchantID out = uuid_String (sd_uuid D) (sess_MerchantID s) \<and>
     cso_Amount out = sess_PaymentAmount s \<and> cso_AmountDecimals out = sess_PaymentAmountDecimals s \<and>
     cso_DestChain out = sess_DestChain s \<and> cso_DestToken out = sess_DestToken s \<and> cso_DestWallet out = sess_DestWallet s \<and>
     cso_ExpireTime out = sess_ExpiresAt s \<and> cso_PaymentURL out = sess_PaymentURL s \<and> cso_PaymentCode out = sess_PaymentCode s \<and>
     ins_ChainID (cso_PaymentInstruction out) = sess_SelectedChainID s \<and>
     ins_Data (cso_PaymentInstruction out) = sess_InstructionDataHex s \<and>
     ins_To (cso_PaymentInstruction out) = sess_InstructionTo s \<and> ins_Value (cso_PaymentInstruction out) = ''0'' \<and>
     cso_QuoteID out = uuid_String (sd_uuid D) (quote_ID quote)"

lemma persist_session_Inr:
  assumes res: "persist_session D J F ids now2 quote tx s0 db = (Inr out, db')"
  shows "\<exists>code quotes. jwe_Encrypt J (session_code_payload D quote s0 (si_nonce ids)) = Inr code \<and>
    sf_session F = None \<and> sf_used F = None \<and> (sess_ID s0 = si_session ids \<longrightarrow> si_session ids \<notin> sess_ID ` set (sdb_sessions db)) \<and>
    out = session_output D quote tx (s0\<lparr>sess_PaymentCode := code\<rparr>) \<and>
    quote_MarkUsed None now2 (sdb_quotes db) (quote_ID quote) = (None, quotes) \<and>
    db' = db\<lparr>sdb_quotes := quotes,
      sdb_sessions := sdb_sessions db @ [s0\<lparr>sess_ID := if sess_ID s0 = uuid_Nil then si_session ids else sess_ID s0,
        sess_PaymentCode := code,
        sess_CreatedAt := stamp now2 (sess_CreatedAt s0), sess_UpdatedAt := stamp now2 (sess_UpdatedAt s0)\<rparr>]\<rparr>"
proof -
  obtain code where code: "jwe_Encrypt J (session_code_payload D quote s0 (si_nonce ids)) = Inr code"
    using res by (cases "jwe_Encrypt J (session_code_payload D quote s0 (si_nonce ids))") (auto simp: persist_session_def)
  let ?s = "s0\<lparr>sess_PaymentCode := code\<rparr>"
  obtain sessions where ses: "session_Create (sf_session F) (si_session ids) now2 (sdb_sessions db) ?s = Inr sessions"
    using res code
    by (cases "session_Create (sf_session F) (si_session ids) now2 (sdb_sessions db) ?s") (auto simp: persist_session_def)
  obtain quotes where mu: "quote_MarkUsed (sf_used F) now2 (sdb_quotes db) (quote_ID quote) = (None, quotes)"
    using res code ses
    by (cases "quote_MarkUsed (sf_used F) now2 (sdb_quotes db) (quote_ID quote)")
      (auto simp: persist_session_def Let_def split: option.splits)
  have "sf_used F = None" using mu by (auto simp: quote_MarkUsed_def update_by_id_def split: option.splits)
  then show ?thesis
    using res code ses mu
    by (auto simp: persist_session_def session_Create_def insert_row_def Let_def split: option.splits if_splits)
qed

lemma create_session_tx_Inr:
  assumes res: "create_session_tx D J R F ids now now2 input db = (Inr out, db')"
  shows "\<exists>quote m s. quote_GetByID None (sdb_quotes db) (csi_QuoteID input) = Inr quote \<and>
    quote_MerchantID quote = csi_MerchantID input \<and> quote_is_active quote \<and>
    (isUnlimitedExpiryTime (quote_ExpiresAt quote) \<or> now \<le> quote_ExpiresAt quote) \<and>
    sdb_requests db' = sdb_requests db @ [m] \<and> rrow_ID m = si_request ids \<and> rrow_Amount m = quote_QuotedAmount quote \<and>
    rrow_Status m = ''PENDING'' \<and> live_request m \<and>
    sdb_sessions db' = sdb_sessions db @ [s] \<and> si_session ids \<notin> sess_ID ` set (sdb_sessions db) \<and>
    session_for D ids input quote s \<and> output_for D quote s out \<and>
    jwe_Encrypt J (session_code_payload D quote s (si_nonce ids)) = Inr (sess_PaymentCode s) \<and>
    sdb_quotes db' = snd (quote_MarkUsed None now2 (sdb_quotes db) (quote_ID quote))"
proof -
  obtain quote where q: "quote_GetByID (sf_quote F) (sdb_quotes db) (csi_QuoteID input) = Inr quote"
    using res by (cases "quote_GetByID (sf_quote F) (sdb_quotes db) (csi_QuoteID input)") (auto simp: create_session_tx_def)
  have flt: "sf_quote F = None"
    using q get_by_id_InrD by (fastforce simp: quote_GetByID_def)
  have chk: "quote_MerchantID quote = csi_MerchantID input" "quote_Status quote = PaymentQuoteStatusActive"
      "isUnlimitedExpiryTime (quote_ExpiresAt quote) \<or> now \<le> quote_ExpiresAt quote"
    using res q by (auto simp: create_session_tx_def split: if_splits)
  obtain c cs where ch: "ResolveFromAny (sd_uuid D) (sd_chains D) (quote_SelectedChainID quote) = Inr (c, cs)"
    using res q chk by (auto simp: create_session_tx_def split: sum.splits if_splits)
  obtain tok where tok: "sd_tokenByAddress D (quote_SelectedTokenAddress quote) c = Inr (Some tok)"
    using res q chk ch by (auto simp: create_session_tx_def split: sum.splits option.splits if_splits)
  let ?r = "session_request ids now input quote c cs tok"
  obtain reqs where rq: "request_Create (sf_request F) (si_request ids) now2 (sdb_requests db) ?r = Inr reqs"
    using res q chk ch tok
    by (cases "request_Create (sf_request F) (si_request ids) now2 (sdb_requests db) ?r")
      (auto simp: create_session_tx_def Let_def split: if_splits)
  let ?dest = "coalesceString (TrimSpace (csi_DestChainOverride input)) (quote_SelectedChainID quote)"
  obtain d ds where dst: "ResolveFromAny (sd_uuid D) (sd_chains D) ?dest = Inr (d, ds)"
    using res q chk ch tok rq
    by (cases "ResolveFromAny (sd_uuid D) (sd_chains D) ?dest") (auto simp: create_session_tx_def Let_def split: if_splits)
  obtain tx fee app tokAddr where per: "persist_session D J F ids now2 quote tx
      (new_session D ids now input quote ds tokAddr tx fee app) (db\<lparr>sdb_requests := reqs\<rparr>) = (Inr out, db')"
    using res q chk ch tok rq dst by (auto simp: create_session_tx_def Let_def split: if_splits)
  obtain m where m: "reqs = sdb_requests db @ [m]" "rrow_ID m = si_request ids" "rrow_Amount m = quote_QuotedAmount quote"
      "rrow_Status m = ''PENDING''" "live_request m"
    using rq by (auto simp: request_Create_def insert_row_def request_row_of_def session_request_def live_request_def
        split: option.splits if_splits)
  let ?s0 = "new_session D ids now input quote ds tokAddr tx fee app"
  obtain code quotes where p: "jwe_Encrypt J (session_code_payload D quote ?s0 (si_nonce ids)) = Inr code"
      "si_session ids \<notin> sess_ID ` set (sdb_sessions db)" "out = session_output D quote tx (?s0\<lparr>sess_PaymentCode := code\<rparr>)"
      "quote_MarkUsed None now2 (sdb_quotes db) (quote_ID quote) = (None, quotes)"
      "db' = db\<lparr>sdb_requests := reqs, sdb_quotes := quotes, sdb_sessions := sdb_sessions db @
         [?s0\<lparr>sess_PaymentCode := code, sess_CreatedAt := stamp now2 now, sess_UpdatedAt := stamp now2 now\<rparr>]\<rparr>"
    using persist_session_Inr [OF per] by (auto simp: new_session_def)
  define s where "s = ?s0\<lparr>sess_PaymentCode := code, sess_CreatedAt := stamp now2 now, sess_UpdatedAt := stamp now2 now\<rparr>"
  have "session_for D ids input quote s" by (simp add: session_for_def s_def new_session_def)
  moreover have "output_for D quote s out" using p(3) by (simp add: output_for_def session_output_def s_def new_session_def)
  moreover have "session_code_payload D quote s (si_nonce ids) = session_code_payload D quote ?s0 (si_nonce ids)"
    by (simp add: s_def session_code_payload_def)
  moreover have "sess_PaymentCode s = code" by (simp add: s_def)
  ultimately show ?thesis
    using q flt chk m p s_def by (auto simp: quote_is_active_def)
qed


text \<open>What survives of a failed transaction: at most one new payment request.\<close>

lemma create_session_tx_requests:
  "sdb_requests (snd (create_session_tx D J R F ids now now2 input db)) = sdb_requests db \<or>
    (\<exists>m. sdb_requests (snd (create_session_tx D J R F ids now now2 input db)) = sdb_requests db @ [m] \<and> rrow_ID m = si_request ids)"
proof -
  have keep: "sdb_requests (snd (persist_session D J F ids now2 q tx s0 d)) = sdb_requests d" for q tx s0 d
    by (auto simp: persist_session_def Let_def split: sum.splits prod.splits option.splits)
  have new: "\<exists>m. reqs = t @ [m] \<and> rrow_ID m = si_request ids"
    if "request_Create f (si_request ids) now2 t (session_request ids now input q c cs tok) = Inr reqs" for f t q c cs tok reqs
    using that by (auto simp: request_Create_def insert_row_def request_row_of_def session_request_def
        split: option.splits if_splits)
  show ?thesis
    by (auto simp: create_session_tx_def keep Let_def dest!: new split: sum.splits option.splits)
qed

lemma CreateSession_Inr:
  assumes "CreateSession D F ids now now2 inp db = (Inr out, db')"
  shows "\<exists>input J R. inp = Some input \<and> csi_MerchantID input \<noteq> uuid_Nil \<and> csi_QuoteID input \<noteq> uuid_Nil \<and>
    sd_jwe D = Some J \<and> sd_paymentRequestLogic D = Some R \<and>
    create_session_tx D J R F ids now now2 input db = (Inr out, db')"
proof -
  obtain input where i: "inp = Some input" using assms by (cases inp) (auto simp: CreateSession_def)
  obtain J where J: "sd_jwe D = Some J" using assms i by (cases "sd_jwe D") (auto simp: CreateSession_def split: if_splits)
  obtain R where R: "sd_paymentRequestLogic D = Some R"
    using assms i J by (cases "sd_paymentRequestLogic D") (auto simp: CreateSession_def split: if_splits)
  show ?thesis using assms i J R
    by (auto simp: CreateSession_def uow_run_def split: if_splits option.splits prod.splits sum.splits)
qed

lemma CreateSession_Inl:
  assumes "CreateSession D F ids now now2 inp db = (Inl e, db')"
  shows "sdb_quotes db' = sdb_quotes db \<and> sdb_sessions db' = sdb_sessions db \<and>
    (sdb_requests db' = sdb_requests db \<or> (\<exists>m. sdb_requests db' = sdb_requests db @ [m] \<and> rrow_ID m = si_request ids))"
proof -
  have rb: "uow_run (\<lambda>old new. (None, session_rollback (snd old) (snd new))) b c
      (\<lambda>(_, d). case create_session_tx D J R F ids now now2 input d of
         (Inl e, d') \<Rightarrow> (Some e, (None, d')) | (Inr out, d') \<Rightarrow> (None, (Some out, d'))) (None, db) = (Some e', x) \<Longrightarrow>
      sdb_quotes (snd x) = sdb_quotes db \<and> sdb_sessions (snd x) = sdb_sessions db \<and>
      (sdb_requests (snd x) = sdb_requests db \<or> (\<exists>m. sdb_requests (snd x) = sdb_requests db @ [m] \<and> rrow_ID m = si_request ids))"
    for J R input b c e' x
    using create_session_tx_requests [of D J R F ids now now2 input db]
    by (auto simp: uow_run_def session_rollback_def split: option.splits prod.splits sum.splits)
  have never: "uow_run rb b c
      (\<lambda>(_, d). case create_session_tx D J R F ids now now2 input d of
         (Inl e, d') \<Rightarrow> (Some e, (None, d')) | (Inr out, d') \<Rightarrow> (None, (Some out, d'))) (None, db) \<noteq> (None, (None, x))"
    for rb J R input b c x
    by (auto simp: uow_run_def split: option.splits prod.splits sum.splits)
  show ?thesis using assms
    by (auto simp: CreateSession_def never dest!: rb split: if_splits option.splits prod.splits)
qed

text \<open>
  Property C3. Creating a session uses up the merchant's own active quote and nothing else: on
  success the quote was active and not expired, one pending session and one pending payment
  request with the quoted amount are added, and the quote is the only one that changes, to
  used. On any error no quote and no session changes.
\<close>

theorem CreateSession_effect:
  assumes key: "distinct (map quote_ID (sdb_quotes db))"
    and res: "CreateSession D F ids now now2 inp db = (r, db')"
  shows "case r of
      Inl _ \<Rightarrow> sdb_quotes db' = sdb_quotes db \<and> sdb_sessions db' = sdb_sessions db
    | Inr out \<Rightarrow>
        \<exists>input quote s m. inp = Some input \<and> quote \<in> set (sdb_quotes db) \<and> quote_ID quote = csi_QuoteID input \<and>
          quote_MerchantID quote = csi_MerchantID input \<and> quote_Status quote = ''ACTIVE'' \<and>
          (isUnlimitedExpiryTime (quote_ExpiresAt quote) \<or> now \<le> quote_ExpiresAt quote) \<and>
          sdb_sessions db' = sdb_sessions db @ [s] \<and> sess_QuoteID s = Some (quote_ID quote) \<and> sess_Status s = ''PENDING'' \<and>
          sess_PaymentAmount s = quote_QuotedAmount quote \<and> sess_PaymentRequestID s = Some (rrow_ID m) \<and>
          sdb_requests db' = sdb_requests db @ [m] \<and> rrow_Amount m = quote_QuotedAmount quote \<and> cso_Amount out = quote_QuotedAmount quote \<and>
          sdb_quotes db' = map (\<lambda>q. if q = quote then q\<lparr>quote_Status := ''USED'', quote_UsedAt := Some now2, quote_UpdatedAt := now2\<rparr>
                                   else q) (sdb_quotes db)"
proof (cases r)
  case (Inl e)
  then show ?thesis using CreateSession_Inl res by fastforce
next
  case (Inr out)
  obtain input J R where i: "inp = Some input"
      and tx: "create_session_tx D J R F ids now now2 input db = (Inr out, db')"
    using CreateSession_Inr res Inr by blast
  obtain quote m s where q: "quote_GetByID None (sdb_quotes db) (csi_QuoteID input) = Inr quote"
      and f: "quote_MerchantID quote = csi_MerchantID input" "quote_is_active quote"
        "isUnlimitedExpiryTime (quote_ExpiresAt quote) \<or> now \<le> quote_ExpiresAt quote"
        "sdb_requests db' = sdb_requests db @ [m]" "rrow_ID m = si_request ids" "rrow_Amount m = quote_QuotedAmount quote"
        "sdb_sessions db' = sdb_sessions db @ [s]" "session_for D ids input quote s" "output_for D quote s out"
        "sdb_quotes db' = snd (quote_MarkUsed None now2 (sdb_quotes db) (quote_ID quote))"
    using create_session_tx_Inr [OF tx] by blast
  have qin: "quote \<in> set (sdb_quotes db)" "quote_ID quote = csi_QuoteID input"
    using get_by_id_InrD [OF q [unfolded quote_GetByID_def]] by auto
  have "quote_ID q = quote_ID quote \<longleftrightarrow> q = quote" if "q \<in> set (sdb_quotes db)" for q
    using key qin(1) that by (auto simp: distinct_map dest: inj_onD)
  then have "sdb_quotes db' = map (\<lambda>q. if q = quote then q\<lparr>quote_Status := ''USED'', quote_UsedAt := Some now2, quote_UpdatedAt := now2\<rparr>
                                   else q) (sdb_quotes db)"
    using f(10) by (auto simp: quote_MarkUsed_def update_by_id_table PaymentQuoteStatusUsed_def)
  with Inr i qin f show ?thesis
    by (auto simp: session_for_def output_for_def quote_is_active_def quote_status_defs session_status_defs)
qed


subsection \<open>A quote pays for one session\<close>

text \<open>
  Every way the program changes the three tables: creating a session, storing a quote,
  cancelling or expiring quotes, the updates of sessions, and anything done to requests.
  The statements of the expiry jobs are separate steps, so their interleavings are included.
\<close>

inductive session_step :: "session_deps \<Rightarrow> session_db \<Rightarrow> session_db \<Rightarrow> bool" for D where
  create: "CreateSession D F ids now now2 inp db = (r, db') \<Longrightarrow> session_step D db db'"
| quote: "quote_Create flt gen now (sdb_quotes db) q = Inr t \<Longrightarrow> session_step D db (db\<lparr>sdb_quotes := t\<rparr>)"
| cancel: "quote_UpdateStatus flt now (sdb_quotes db) k PaymentQuoteStatusCancelled = (e, t) \<Longrightarrow>
    session_step D db (db\<lparr>sdb_quotes := t\<rparr>)"
| expire_quotes: "quote_ExpireQuotes flt now (sdb_quotes db) ks = (e, t) \<Longrightarrow> session_step D db (db\<lparr>sdb_quotes := t\<rparr>)"
| status: "session_UpdateStatus flt now (sdb_sessions db) k st = (e, t) \<Longrightarrow> session_step D db (db\<lparr>sdb_sessions := t\<rparr>)"
| complete: "session_MarkCompleted flt now (sdb_sessions db) k h = (e, t) \<Longrightarrow> session_step D db (db\<lparr>sdb_sessions := t\<rparr>)"
| expire_sessions: "session_ExpireSessions flt now (sdb_sessions db) ks = (e, t) \<Longrightarrow>
    session_step D db (db\<lparr>sdb_sessions := t\<rparr>)"
| requests: "session_step D db (db\<lparr>sdb_requests := t\<rparr>)"

inductive_cases session_stepE: "session_step D db db'"

definition sessions_ok :: "session_db \<Rightarrow> bool" where
  "sessions_ok db \<longleftrightarrow>
     distinct (map quote_ID (sdb_quotes db)) \<and> distinct (map sess_QuoteID (sdb_sessions db)) \<and>
     (\<forall>s\<in>set (sdb_sessions db). \<exists>q\<in>set (sdb_quotes db). sess_QuoteID s = Some (quote_ID q) \<and> \<not> quote_is_active q)"

lemma sessions_ok_quote_unique:
  "sessions_ok db \<Longrightarrow> q \<in> set (sdb_quotes db) \<Longrightarrow> q' \<in> set (sdb_quotes db) \<Longrightarrow> quote_ID q = quote_ID q' \<Longrightarrow> q = q'"
  unfolding sessions_ok_def distinct_map by (blast dest: inj_onD)

text \<open>Updates that keep keys and never reactivate a quote keep the invariant.\<close>

lemma sessions_ok_quotes_map:
  assumes "sessions_ok db" and f: "\<And>q. quote_ID (f q) = quote_ID q" "\<And>q. quote_is_active (f q) \<Longrightarrow> quote_is_active q"
  shows "sessions_ok (db\<lparr>sdb_quotes := map f (sdb_quotes db)\<rparr>)"
  using assms unfolding sessions_ok_def by (fastforce simp: o_def)

lemma sessions_ok_sessions_map:
  assumes "sessions_ok db" and f: "\<And>s. sess_QuoteID (f s) = sess_QuoteID s"
  shows "sessions_ok (db\<lparr>sdb_sessions := map f (sdb_sessions db)\<rparr>)"
  using assms unfolding sessions_ok_def by (auto simp: o_def)

lemma sessions_ok_quote_add:
  assumes "sessions_ok db" "insert_row quote_ID q (sdb_quotes db) = Inr t"
  shows "sessions_ok (db\<lparr>sdb_quotes := t\<rparr>)"
  using assms unfolding sessions_ok_def by (auto dest!: insert_row_InrD)

lemma sessions_ok_create:
  assumes ok: "sessions_ok db" and res: "CreateSession D F ids now now2 inp db = (r, db')"
  shows "sessions_ok db'"
proof (cases r)
  case (Inl e)
  then show ?thesis using ok CreateSession_Inl res unfolding sessions_ok_def by fastforce
next
  case (Inr out)
  obtain input J R where tx: "create_session_tx D J R F ids now now2 input db = (Inr out, db')"
    using CreateSession_Inr res Inr by blast
  obtain quote m s where q: "quote_GetByID None (sdb_quotes db) (csi_QuoteID input) = Inr quote"
      and f: "quote_is_active quote" "sdb_sessions db' = sdb_sessions db @ [s]" "sess_QuoteID s = Some (quote_ID quote)"
        "sdb_quotes db' = snd (quote_MarkUsed None now2 (sdb_quotes db) (quote_ID quote))"
    using create_session_tx_Inr [OF tx] unfolding session_for_def by blast
  have qin: "quote \<in> set (sdb_quotes db)" using get_by_id_InrD [OF q [unfolded quote_GetByID_def]] by simp
  define use where "use = (\<lambda>q :: PaymentQuote. if quote_ID q = quote_ID quote
      then q\<lparr>quote_Status := PaymentQuoteStatusUsed, quote_UsedAt := Some now2, quote_UpdatedAt := now2\<rparr> else q)"
  have quotes: "sdb_quotes db' = map use (sdb_quotes db)"
    using f(4) by (simp add: quote_MarkUsed_def update_by_id_table use_def)
  have use: "quote_ID (use q) = quote_ID q" "quote_is_active (use q) \<Longrightarrow> quote_is_active q" "\<not> quote_is_active (use quote)" for q
    by (auto simp: use_def quote_is_active_def quote_status_defs split: if_splits)
  have "Some (quote_ID quote) \<notin> sess_QuoteID ` set (sdb_sessions db)"
  proof
    assume "Some (quote_ID quote) \<in> sess_QuoteID ` set (sdb_sessions db)"
    then obtain q' where "q' \<in> set (sdb_quotes db)" "quote_ID q' = quote_ID quote" "\<not> quote_is_active q'"
      using ok unfolding sessions_ok_def by (metis imageE option.inject)
    moreover from this have "q' = quote" using sessions_ok_quote_unique [OF ok] qin by simp
    ultimately show False using f(1) by simp
  qed
  with sessions_ok_quotes_map [OF ok use(1,2)] use qin f(2,3) show ?thesis
    unfolding sessions_ok_def quotes by (fastforce simp: o_def)
qed

lemma session_step_ok: "session_step D db db' \<Longrightarrow> sessions_ok db \<Longrightarrow> sessions_ok db'"
proof (induction rule: session_step.induct)
  case (create F ids now now2 inp db r db')
  then show ?case by (blast intro: sessions_ok_create)
next
  case (quote flt gen now db q t)
  then show ?case by (auto simp: quote_Create_def intro: sessions_ok_quote_add split: option.splits)
next
  case (cancel flt now db k e t)
  then have t: "t = snd (quote_UpdateStatus flt now (sdb_quotes db) k PaymentQuoteStatusCancelled)" by simp
  show ?case unfolding t quote_UpdateStatus_def update_by_id_table
    using cancel by (auto intro!: sessions_ok_quotes_map simp: quote_is_active_def quote_status_defs split: if_splits)
next
  case (expire_quotes flt now db ks e t)
  then show ?case
    by (auto simp: quote_ExpireQuotes_def expire_keys_def expire_quote_def quote_is_active_def quote_status_defs
        intro!: sessions_ok_quotes_map split: option.splits if_splits)
next
  case (status flt now db k st e t)
  then have t: "t = snd (session_UpdateStatus flt now (sdb_sessions db) k st)" by simp
  show ?case unfolding t session_UpdateStatus_def update_by_id_table using status by (auto intro!: sessions_ok_sessions_map)
next
  case (complete flt now db k h e t)
  then have t: "t = snd (session_MarkCompleted flt now (sdb_sessions db) k h)" by simp
  show ?case unfolding t session_MarkCompleted_def update_by_id_table using complete by (auto intro!: sessions_ok_sessions_map)
next
  case (expire_sessions flt now db ks e t)
  then show ?case
    by (auto simp: session_ExpireSessions_def expire_keys_def expire_session_def
        intro!: sessions_ok_sessions_map split: option.splits if_splits)
next
  case (requests db t)
  then show ?case by (simp add: sessions_ok_def)
qed

lemma session_steps_ok: "(session_step D)\<^sup>*\<^sup>* db db' \<Longrightarrow> sessions_ok db \<Longrightarrow> sessions_ok db'"
  by (induction rule: rtranclp_induct) (auto intro: session_step_ok)


text \<open>
  Property C1. A quote pays for one session: along every history of the program that starts
  without sessions, two sessions never share a quote, and once a session exists for a quote
  every further attempt to create one fails and adds no session.
\<close>

theorem quote_pays_once:
  assumes init: "sdb_sessions db0 = []" "distinct (map quote_ID (sdb_quotes db0))"
    and hist: "(session_step D)\<^sup>*\<^sup>* db0 db"
    and s: "s \<in> set (sdb_sessions db)"
    and again: "CreateSession D F ids now now2 (Some input) db = (r, db')" "sess_QuoteID s = Some (csi_QuoteID input)"
  shows "(\<exists>e. r = Inl e) \<and> sdb_sessions db' = sdb_sessions db \<and>
    (\<forall>s'\<in>set (sdb_sessions db). sess_QuoteID s' = sess_QuoteID s \<longrightarrow> s' = s)"
proof -
  have "sessions_ok db0" using init by (simp add: sessions_ok_def)
  with hist have ok: "sessions_ok db" by (rule session_steps_ok)
  have "\<exists>e. r = Inl e"
  proof (cases r)
    case (Inr out)
    obtain J R where tx: "create_session_tx D J R F ids now now2 input db = (Inr out, db')"
      using CreateSession_Inr again(1) Inr by blast
    obtain quote where q: "quote_GetByID None (sdb_quotes db) (csi_QuoteID input) = Inr quote" "quote_is_active quote"
      using create_session_tx_Inr [OF tx] by blast
    have qin: "quote \<in> set (sdb_quotes db)" "quote_ID quote = csi_QuoteID input"
      using get_by_id_InrD [OF q(1) [unfolded quote_GetByID_def]] by auto
    obtain q' where q': "q' \<in> set (sdb_quotes db)" "quote_ID q' = csi_QuoteID input" "\<not> quote_is_active q'"
      using ok s again(2) unfolding sessions_ok_def by (metis option.inject)
    then have "q' = quote" using sessions_ok_quote_unique [OF ok] qin by simp
    with q(2) q'(3) show ?thesis by simp
  qed simp
  moreover from this have "sdb_sessions db' = sdb_sessions db" using CreateSession_Inl again(1) by blast
  moreover have "\<forall>s'\<in>set (sdb_sessions db). sess_QuoteID s' = sess_QuoteID s \<longrightarrow> s' = s"
    using ok s by (auto simp: sessions_ok_def distinct_map dest: inj_onD)
  ultimately show ?thesis by blast
qed


subsection \<open>A sample\<close>

definition sample_quote :: PaymentQuote where
  "sample_quote =
     \<lparr>quote_ID = 31, quote_MerchantID = 9, quote_InvoiceCurrency = ''USD'', quote_InvoiceAmount = ''2'',
      quote_SelectedChainID = ''eip155:8453'', quote_SelectedTokenAddress = ''0xtok'', quote_SelectedTokenSymbol = ''USDC'',
      quote_SelectedTokenDecimals = 2, quote_QuotedAmount = ''150'', quote_QuoteRate = ''1'', quote_PriceSource = ''pool'',
      quote_Route = ''direct'', quote_SlippageBps = 0, quote_RateTimestamp = 1, quote_ExpiresAt = 900000000000,
      quote_Status = ''ACTIVE'', quote_UsedAt = None, quote_CreatedAt = 1, quote_UpdatedAt = 1\<rparr>"

definition sample_session_input :: CreatePartnerPaymentSessionInput where
  "sample_session_input =
     \<lparr>csi_MerchantID = 9, csi_QuoteID = 31, csi_DestWallet = ''0xw'', csi_DestChainOverride = [], csi_DestTokenOverride = []\<rparr>"

definition sample_ids :: session_ids where
  "sample_ids = \<lparr>si_request = 51, si_session = 61, si_nonce = 71\<rparr>"

definition sample_payload :: JWEPayload where
  "sample_payload =
     \<lparr>jwe_Version = ''partner_session.v1'', jwe_SessionID = uuid_format 61, jwe_PaymentID = uuid_format 61, jwe_Amount = ''150'',
      jwe_MerchantID = uuid_format 9, jwe_Currency = ''USD'', jwe_DestChain = ''eip155:8453'', jwe_DestToken = ''0xtok'',
      jwe_DestWallet = ''0xw'', jwe_Nonce = uuid_format 71, jwe_ExpiresAt = 900\<rparr>"

definition sample_jwe :: jwe_service where
  "sample_jwe =
     \<lparr>jwe_Encrypt = (\<lambda>p. if p = sample_payload then Inr ''sealed'' else Inl (ErrorString ''jwe'')),
      jwe_Decrypt = (\<lambda>c. if c = ''sealed'' then Inr sample_payload else Inl (ErrorString ''jwe''))\<rparr>"

definition sample_session_deps :: session_deps where
  "sample_session_deps =
     \<lparr>sd_uuid = rfc_uuid, sd_abi = \<lparr>HexToAddress = (\<lambda>s. of_nat (length s)), packABIArgs = (\<lambda>xs. Inr [of_nat (length xs)])\<rparr>,
      sd_keccak = length_hash, sd_chains = chainRepo take base_db,
      sd_tokenByAddress = (\<lambda>a c. Inr (Some \<lparr>token_ID = 11, token_ChainUUID = c, token_Symbol = ''USDC'', token_Decimals = 2,
        token_ContractAddress = a, token_IsActive = True, token_IsNative = False\<rparr>)),
      sd_activeContract = (\<lambda>c ty. Inr (Some ''0xgate'')), sd_uow = True, sd_jwe = Some sample_jwe,
      sd_paymentRequestLogic = Some sample_deps,
      sd_paymentUC = Some \<lparr>quoteGatewayPaymentCost = (\<lambda>p g. Inr (Some ''5'')),
        ResolveVaultAddressForApproval = (\<lambda>c g. ''0xvault''), CalculateOnchainApprovalAmount = (\<lambda>p g. Inr ''150'')\<rparr>,
      sd_checkoutBaseURL = ''https://pay.example/pay'', sd_mustJSON = (\<lambda>q. ''{}''), sd_unparsed = (\<lambda>s. 0)\<rparr>"

definition sample_session_db :: session_db where
  "sample_session_db = \<lparr>sdb_quotes = [sample_quote], sdb_sessions = [], sdb_requests = []\<rparr>"

lemma sample_facts:
  "ResolveFromAny rfc_uuid (chainRepo take base_db) ''eip155:8453'' = Inr (7, ''eip155:8453'')"
  "TrimSpace ''0xw'' = ''0xw''" "SetString10 ''5'' = Some 5" "int_string 5 = ''5''"
  "\<not> isUnlimitedExpiryTime 900000000000" "unix 900000000000 = 900"
  by (code_simp, code_simp, code_simp, code_simp,
      simp add: isUnlimitedExpiryTime_def createPaymentUnlimitedExpiryAt_def second_def, simp add: unix_def second_def)

lemma sample_fields:
  "quote_ID sample_quote = 31" "quote_MerchantID sample_quote = 9" "quote_SelectedChainID sample_quote = ''eip155:8453''"
  "quote_SelectedTokenAddress sample_quote = ''0xtok''" "quote_ExpiresAt sample_quote = 900000000000"
  "quote_Status sample_quote = ''ACTIVE''" "quote_InvoiceCurrency sample_quote = ''USD''" "quote_QuotedAmount sample_quote = ''150''"
  "csi_MerchantID sample_session_input = 9" "csi_QuoteID sample_session_input = 31" "csi_DestWallet sample_session_input = ''0xw''"
  "csi_DestChainOverride sample_session_input = []" "csi_DestTokenOverride sample_session_input = []"
  "si_request sample_ids = 51" "si_session sample_ids = 61" "si_nonce sample_ids = 71"
  "sdb_quotes sample_session_db = [sample_quote]" "sdb_sessions sample_session_db = []" "sdb_requests sample_session_db = []"
  by (simp_all add: sample_quote_def sample_session_input_def sample_ids_def sample_session_db_def)

text \<open>The instruction, which depends on the encoder, and the session of the sample.\<close>

definition sample_tx :: PaymentRequestTxData where
  "sample_tx = session_txData sample_session_deps sample_deps sample_quote
     (session_request sample_ids 1 sample_session_input sample_quote 7 ''eip155:8453''
        \<lparr>token_ID = 11, token_ChainUUID = 7, token_Symbol = ''USDC'', token_Decimals = 2,
         token_ContractAddress = ''0xtok'', token_IsActive = True, token_IsNative = False\<rparr>)
     ''eip155:8453'' ''0xtok'' (Some ''0xgate'')"

definition sample_session :: PartnerPaymentSession where
  "sample_session =
     (new_session sample_session_deps sample_ids 1 sample_session_input sample_quote ''eip155:8453'' ''0xtok'' sample_tx 5
       (session_approval sample_session_deps sample_quote ''eip155:8453'' ''eip155:8453'' ''0xtok'' ''0xw'' (Some ''0xgate'')))
     \<lparr>sess_PaymentCode := ''sealed''\<rparr>"

lemma sample_create_session_tx:
  assumes "sf_quote F = None" "sf_request F = None"
  shows "\<exists>m. rrow_ID m = 51 \<and>
    create_session_tx sample_session_deps sample_jwe sample_deps F sample_ids 1 2 sample_session_input sample_session_db =
      (case session_Create (sf_session F) 61 2 [] sample_session of
         Inl e \<Rightarrow> (Inl (InternalServerError (''failed to create partner payment session: '' @ error_text e)),
                   sample_session_db\<lparr>sdb_requests := [m]\<rparr>)
       | Inr t \<Rightarrow>
           (case quote_MarkUsed (sf_used F) 2 [sample_quote] 31 of
              (Some e, _) \<Rightarrow> (Inl (InternalServerError (''failed to mark quote used: '' @ error_text e)),
                  sample_session_db\<lparr>sdb_requests := [m], sdb_sessions := t\<rparr>)
            | (None, quotes) \<Rightarrow> (Inr (session_output sample_session_deps sample_quote sample_tx sample_session),
                  sample_session_db\<lparr>sdb_requests := [m], sdb_sessions := t, sdb_quotes := quotes\<rparr>)))"
proof -
  let ?tok = "\<lparr>token_ID = 11, token_ChainUUID = 7, token_Symbol = ''USDC'', token_Decimals = 2,
     token_ContractAddress = ''0xtok'', token_IsActive = True, token_IsNative = False\<rparr>"
  define m where "m = request_row_of 51 2 (session_request sample_ids 1 sample_session_input sample_quote 7 ''eip155:8453'' ?tok)"
  have deps [simp]: "sd_uuid sample_session_deps = rfc_uuid" "sd_chains sample_session_deps = chainRepo take base_db"
      "sd_tokenByAddress sample_session_deps ''0xtok'' 7 = Inr (Some ?tok)" "sd_activeContract sample_session_deps 7 g = Inr (Some ''0xgate'')"
    for g by (simp_all add: sample_session_deps_def)
  have quote [simp]: "quote_GetByID None [sample_quote] 31 = Inr sample_quote"
    using get_by_id_found [of quote_ID "[sample_quote]" sample_quote] by (simp add: quote_GetByID_def sample_fields)
  have fee [simp]: "session_bridge_fee sample_session_deps sample_quote c d t w (Some ''0xgate'') = 5" for c d t w
    by (simp add: session_bridge_fee_def sample_session_deps_def sample_facts)
  let ?s0 = "sample_session\<lparr>sess_PaymentCode := []\<rparr>"
  have s0: "new_session sample_session_deps sample_ids 1 sample_session_input sample_quote ''eip155:8453'' ''0xtok'' sample_tx 5
      (session_approval sample_session_deps sample_quote ''eip155:8453'' ''eip155:8453'' ''0xtok'' ''0xw'' (Some ''0xgate'')) = ?s0"
    by (simp add: sample_session_def new_session_def)
  have code [simp]: "jwe_Encrypt sample_jwe (session_code_payload sample_session_deps sample_quote ?s0 71) = Inr ''sealed''"
    by (simp add: sample_jwe_def session_code_payload_def sample_session_def new_session_def sample_payload_def rfc_uuid_def
        sample_facts sample_fields)
  have sealed: "?s0\<lparr>sess_PaymentCode := ''sealed''\<rparr> = sample_session" by (simp add: sample_session_def)
  have "rrow_ID m = 51" by (simp add: m_def request_row_of_def session_request_def sample_fields)
  moreover have "create_session_tx sample_session_deps sample_jwe sample_deps F sample_ids 1 2 sample_session_input sample_session_db =
      persist_session sample_session_deps sample_jwe F sample_ids 2 sample_quote sample_tx ?s0 (sample_session_db\<lparr>sdb_requests := [m]\<rparr>)"
    unfolding s0 [symmetric] sample_tx_def m_def using assms
    by (simp add: create_session_tx_def Let_def request_Create_def insert_row_def coalesceString_def ignore_error_def
        sample_fields quote_status_defs sample_facts)
  ultimately show ?thesis
    by (intro exI [of _ m]) (simp add: persist_session_def Let_def sealed sample_fields split: sum.split prod.split option.split)
qed


definition sample_stored :: PartnerPaymentSession where
  "sample_stored = sample_session\<lparr>sess_CreatedAt := stamp 2 1, sess_UpdatedAt := stamp 2 1\<rparr>"

lemma sample_session_fields:
  "sess_ID sample_session = 61" "sess_CreatedAt sample_session = 1" "sess_UpdatedAt sample_session = 1"
  "sess_PaymentCode sample_session = ''sealed''" "sess_QuoteID sample_session = Some 31" "sess_InstructionValue sample_session = ''5''"
  "sess_Status sample_session = ''PENDING''" "sess_ExpiresAt sample_session = 900000000000" "sess_PaymentAmount sample_session = ''150''"
  by (simp_all add: sample_session_def new_session_def sample_fields sample_facts session_status_defs)

lemma sample_session_Create: "session_Create None 61 2 [] sample_session = Inr [sample_stored]"
  by (simp add: session_Create_def insert_row_def sample_stored_def sample_session_fields)

lemma sample_deps_configured:
  "sd_uow sample_session_deps" "sd_jwe sample_session_deps = Some sample_jwe" "sd_paymentRequestLogic sample_session_deps = Some sample_deps"
  by (simp_all add: sample_session_deps_def)

lemma sample_CreateSession:
  "\<exists>m. rrow_ID m = 51 \<and>
    CreateSession sample_session_deps no_faults sample_ids 1 2 (Some sample_session_input) sample_session_db =
      (Inr (session_output sample_session_deps sample_quote sample_tx sample_session),
       \<lparr>sdb_quotes = [sample_quote\<lparr>quote_Status := ''USED'', quote_UsedAt := Some 2, quote_UpdatedAt := 2\<rparr>],
        sdb_sessions = [sample_stored], sdb_requests = [m]\<rparr>)"
proof -
  have mu: "quote_MarkUsed None 2 [sample_quote] 31 =
      (None, [sample_quote\<lparr>quote_Status := ''USED'', quote_UsedAt := Some 2, quote_UpdatedAt := 2\<rparr>])"
    by (simp add: quote_MarkUsed_def update_by_id_def update_where_def sample_fields quote_status_defs)
  show ?thesis
    using sample_create_session_tx [of no_faults]
    by (auto simp: CreateSession_def no_faults_def uow_run_def sample_fields sample_facts sample_deps_configured
        sample_session_Create mu sample_session_db_def)
qed

theorem CreateSession_effect_witness:
  "\<exists>s. sdb_sessions (snd (CreateSession sample_session_deps no_faults sample_ids 1 2 (Some sample_session_input) sample_session_db)) = [s] \<and>
     sess_QuoteID s = Some 31 \<and> sess_PaymentAmount s = ''150''"
proof -
  obtain out db' where c: "CreateSession sample_session_deps no_faults sample_ids 1 2 (Some sample_session_input) sample_session_db = (Inr out, db')"
    using sample_CreateSession by blast
  have "distinct (map quote_ID (sdb_quotes sample_session_db))" by (simp add: sample_fields)
  from CreateSession_effect [OF this c] c show ?thesis by (auto simp: sample_fields)
qed

theorem quote_pays_once_witness:
  "\<exists>db. (session_step sample_session_deps)\<^sup>*\<^sup>* sample_session_db db \<and> sdb_sessions db \<noteq> [] \<and>
     (\<exists>e. fst (CreateSession sample_session_deps no_faults sample_ids 3 4 (Some sample_session_input) db) = Inl e)"
proof -
  obtain m out where c: "CreateSession sample_session_deps no_faults sample_ids 1 2 (Some sample_session_input) sample_session_db =
      (out, \<lparr>sdb_quotes = [sample_quote\<lparr>quote_Status := ''USED'', quote_UsedAt := Some 2, quote_UpdatedAt := 2\<rparr>],
        sdb_sessions = [sample_stored], sdb_requests = [m]\<rparr>)" (is "_ = (_, ?db)")
    using sample_CreateSession by blast
  have hist: "(session_step sample_session_deps)\<^sup>*\<^sup>* sample_session_db ?db"
    using session_step.create [OF c] by blast
  have init: "sdb_sessions sample_session_db = []" "distinct (map quote_ID (sdb_quotes sample_session_db))"
    by (simp_all add: sample_fields)
  have s: "sample_stored \<in> set (sdb_sessions ?db)" by simp
  have "sess_QuoteID sample_stored = Some (csi_QuoteID sample_session_input)"
    by (simp add: sample_stored_def sample_session_fields sample_fields)
  from quote_pays_once [OF init hist s prod.collapse [symmetric] this] hist show ?thesis by auto
qed

text \<open>
  Also. A failed session leaves an orphan: when storing the session fails, the error is
  reported and the quote stays active, but the payment request that was created for it stays
  in its table, pending and without a session, because the request repository does not write
  through the transaction.
\<close>

theorem failed_session_leaves_request:
  "\<exists>e m. CreateSession sample_session_deps (no_faults\<lparr>sf_session := Some duplicate_key\<rparr>) sample_ids 1 2
       (Some sample_session_input) sample_session_db = (Inl e, sample_session_db\<lparr>sdb_requests := [m]\<rparr>) \<and> rrow_ID m = 51"
proof -
  have "session_Create (Some duplicate_key) 61 2 [] sample_session = Inl duplicate_key" by (simp add: session_Create_def)
  then show ?thesis
    using sample_create_session_tx [of "no_faults\<lparr>sf_session := Some duplicate_key\<rparr>"]
    by (auto simp: CreateSession_def no_faults_def uow_run_def sample_fields sample_facts sample_deps_configured session_rollback_def)
qed

subsection \<open>Payment codes\<close>

text \<open>
  Documented behaviour of the sealing service: what was sealed opens to the same payload, and
  the compact form is not empty and has no white space around it.
\<close>

definition jwe_ok :: "jwe_service \<Rightarrow> bool" where
  "jwe_ok J \<longleftrightarrow> (\<forall>p c. jwe_Encrypt J p = Inr c \<longrightarrow> jwe_Decrypt J c = Inr p \<and> TrimSpace c = c \<and> c \<noteq> [])"

lemma uuid_text_trim: "uuid_lib_ok L \<Longrightarrow> TrimSpace (uuid_String L u) = uuid_String L u \<and> uuid_String L u \<noteq> []"
  by (auto simp: uuid_lib_ok_def intro!: TrimSpace_graphic_all)

text \<open>
  Property C4. The payment code leads back to the session: as long as the session has not
  expired, resolving the code that creation returned gives the same payment, merchant,
  amount, destination and call data, and reading the session gives the same code.
\<close>

theorem payment_code_roundtrip:
  assumes svc: "sd_jwe D = Some J" "jwe_ok J" "uuid_lib_ok (sd_uuid D)"
    and key: "distinct (map sess_ID (sdb_sessions db))" and sid: "si_session ids \<noteq> uuid_Nil"
    and res: "CreateSession D F ids now now2 inp db = (Inr out, db')"
    and time: "isUnlimitedExpiryTime (cso_ExpireTime out) \<or> now' \<le> cso_ExpireTime out"
  shows "\<exists>v g. ResolvePaymentCode D None now' db' (Some (cso_PaymentCode out)) = Inr v \<and>
    rco_PaymentID v = cso_PaymentID out \<and> rco_MerchantID v = cso_MerchantID out \<and> rco_Amount v = cso_Amount out \<and>
    rco_AmountDecimals v = cso_AmountDecimals out \<and> rco_DestChain v = cso_DestChain out \<and> rco_DestToken v = cso_DestToken out \<and>
    rco_DestWallet v = cso_DestWallet out \<and> rco_ExpiresAt v = cso_ExpireTime out \<and>
    ins_Data (rco_PaymentInstruction v) = ins_Data (cso_PaymentInstruction out) \<and>
    GetSession D None db' (si_session ids) = Inr g \<and> gso_PaymentCode g = cso_PaymentCode out \<and> gso_Amount g = cso_Amount out"
proof -
  obtain input R where tx: "create_session_tx D J R F ids now now2 input db = (Inr out, db')"
    using CreateSession_Inr [OF res] svc(1) by auto
  obtain quote s where f: "sdb_sessions db' = sdb_sessions db @ [s]" "si_session ids \<notin> sess_ID ` set (sdb_sessions db)"
      "session_for D ids input quote s" "output_for D quote s out"
      "jwe_Encrypt J (session_code_payload D quote s (si_nonce ids)) = Inr (sess_PaymentCode s)"
    using create_session_tx_Inr [OF tx] by blast
  let ?p = "session_code_payload D quote s (si_nonce ids)"
  have code: "cso_PaymentCode out = sess_PaymentCode s" using f(4) by (simp add: output_for_def)
  have dec: "jwe_Decrypt J (sess_PaymentCode s) = Inr ?p" "TrimSpace (sess_PaymentCode s) = sess_PaymentCode s" "sess_PaymentCode s \<noteq> []"
    using svc(2) f(5) unfolding jwe_ok_def by blast+
  have id: "sess_ID s = si_session ids" "sess_Status s = SessionStatusPending" using f(3) by (simp_all add: session_for_def)
  have "distinct (map sess_ID (sdb_sessions db'))" using key f(1,2) id by auto
  from get_by_id_found [OF this, of s] have get: "session_GetByID None (sdb_sessions db') (si_session ids) = Inr s"
    using f(1) id by (simp add: session_GetByID_def)
  have parse: "uuid_Parse (sd_uuid D) (uuid_String (sd_uuid D) (si_session ids)) = Some (si_session ids)"
    using svc(3) by (simp add: uuid_lib_ok_def)
  have exp: "cso_ExpireTime out = sess_ExpiresAt s" using f(4) by (simp add: output_for_def)
  have alive: "\<not> (jwe_ExpiresAt ?p > 0 \<and> unix now' > jwe_ExpiresAt ?p)"
    using time exp zdiv_mono1 [of now' "sess_ExpiresAt s" second]
    by (auto simp: session_code_payload_def unix_def second_def split: if_splits)
  have "ResolvePaymentCode D None now' db' (Some (sess_PaymentCode s)) =
      Inr \<lparr>rco_PaymentID = uuid_String (sd_uuid D) (sess_ID s), rco_MerchantID = uuid_String (sd_uuid D) (sess_MerchantID s),
        rco_Amount = sess_PaymentAmount s, rco_AmountDecimals = sess_PaymentAmountDecimals s, rco_DestChain = sess_DestChain s,
        rco_DestToken = sess_DestToken s, rco_DestWallet = sess_DestWallet s, rco_ExpiresAt = sess_ExpiresAt s,
        rco_PaymentInstruction = stored_instruction s\<rparr>"
    using alive time exp uuid_text_trim [OF svc(3)] id
    by (auto simp: ResolvePaymentCode_def svc(1) dec get parse session_code_payload_def Let_def)
  then show ?thesis
    using f(4) code sid by (simp add: GetSession_def get buildPartnerPaymentSessionReadModel_def output_for_def stored_instruction_def)
qed

lemma sample_jwe_ok: "jwe_ok sample_jwe"
proof -
  have "TrimSpace ''sealed'' = ''sealed''" by (simp add: TrimSpace_graphic_all graphic_def)
  then show ?thesis by (simp add: jwe_ok_def sample_jwe_def)
qed

theorem payment_code_roundtrip_witness:
  "\<exists>out db' v. CreateSession sample_session_deps no_faults sample_ids 1 2 (Some sample_session_input) sample_session_db = (Inr out, db') \<and>
     ResolvePaymentCode sample_session_deps None 5 db' (Some (cso_PaymentCode out)) = Inr v \<and> rco_Amount v = ''150''"
proof -
  obtain db' where c: "CreateSession sample_session_deps no_faults sample_ids 1 2 (Some sample_session_input) sample_session_db =
      (Inr (session_output sample_session_deps sample_quote sample_tx sample_session), db')" (is "_ = (Inr ?out, _)")
    using sample_CreateSession by blast
  have t: "isUnlimitedExpiryTime (cso_ExpireTime ?out) \<or> 5 \<le> cso_ExpireTime ?out" and amt: "cso_Amount ?out = ''150''"
    by (simp_all add: session_output_def sample_session_fields)
  have "uuid_lib_ok (sd_uuid sample_session_deps)" using rfc_uuid_ok by (simp add: sample_session_deps_def)
  moreover have "distinct (map sess_ID (sdb_sessions sample_session_db))" "si_session sample_ids \<noteq> uuid_Nil"
    by (simp_all add: sample_fields)
  ultimately show ?thesis
    using payment_code_roundtrip [OF sample_deps_configured(2) sample_jwe_ok _ _ _ c t] c amt by fastforce
qed

text \<open>
  Also. The instruction value depends on who asks: the response of creation tells the
  payer to attach no native value, while resolving the payment code of the same session
  tells them to attach the bridge fee the gateway quoted.
\<close>

theorem instruction_value_differs:
  "\<exists>out db' v. CreateSession sample_session_deps no_faults sample_ids 1 2 (Some sample_session_input) sample_session_db = (Inr out, db') \<and>
     ins_Value (cso_PaymentInstruction out) = ''0'' \<and>
     GetSession sample_session_deps None db' 61 = Inr v \<and> ins_Value (gso_PaymentInstruction v) = ''5''"
proof -
  obtain m where c: "CreateSession sample_session_deps no_faults sample_ids 1 2 (Some sample_session_input) sample_session_db =
      (Inr (session_output sample_session_deps sample_quote sample_tx sample_session),
       \<lparr>sdb_quotes = [sample_quote\<lparr>quote_Status := ''USED'', quote_UsedAt := Some 2, quote_UpdatedAt := 2\<rparr>],
        sdb_sessions = [sample_stored], sdb_requests = [m]\<rparr>)"
    using sample_CreateSession by blast
  have st: "sess_ID sample_stored = 61" "sess_InstructionValue sample_stored = ''5''"
    by (simp_all add: sample_stored_def sample_session_fields)
  then have "session_GetByID None [sample_stored] 61 = Inr sample_stored"
    using get_by_id_found [of sess_ID "[sample_stored]" sample_stored] by (simp add: session_GetByID_def)
  moreover have "TrimSpace ''5'' = ''5''" by (simp add: TrimSpace_graphic_all graphic_def)
  ultimately show ?thesis
    using c st by (simp add: session_output_def GetSession_def buildPartnerPaymentSessionReadModel_def stored_instruction_def coalesceString_def)
qed


subsection \<open>Payment links\<close>

lemma LastIndex_append:
  assumes "c \<notin> set t"
  shows "LastIndex (s @ c # t) c = int (length s)"
proof -
  have "takeWhile (\<lambda>x. x \<noteq> c) (rev t @ c # rev s) = rev t" using assms by (subst takeWhile_append2) auto
  then show ?thesis by (simp add: LastIndex_def)
qed

text \<open>
  Also. A stored payment link survives reading: the link of a session ends in the
  session's identifier, and the link shown for the session is the one that was stored; a link
  stored for another identifier is redirected to the session's own.
\<close>

theorem payment_url_roundtrip:
  assumes L: "uuid_lib_ok L" and base: "base = [] \<or> graphic (hd base)"
  shows "normalizePaymentURLWithSessionID L (buildSessionPaymentURL L base other) sid = buildSessionPaymentURL L base sid"
proof -
  define b where "b = TrimRight base (CHR ''/'')"
  define u where "u = uuid_String L other"
  have u: "u \<noteq> []" "\<forall>c\<in>set u. graphic c \<and> c \<noteq> CHR ''/''"
    using L by (auto simp: uuid_lib_ok_def u_def)
  have "b = [] \<or> hd b = hd base"
  proof (cases "b = []")
    case False
    have "prefix b base" unfolding b_def TrimRight_def
      by (metis rev_rev_ident suffix_dropWhile suffix_to_prefix)
    with False show ?thesis by (auto simp: prefix_def)
  qed simp
  moreover have "b = [] \<or> base \<noteq> []" by (auto simp: b_def TrimRight_def)
  ultimately have hd: "graphic (hd (b @ CHR ''/'' # u))" using base by (cases b) (auto simp: graphic_def)
  have last: "graphic (last (b @ CHR ''/'' # u))" using u by (auto simp: last_in_set)
  have raw: "TrimSpace (b @ CHR ''/'' # u) = b @ CHR ''/'' # u"
    using hd last by (intro TrimSpace_graphic) auto
  have "u = butlast u @ [last u]" "last u \<noteq> CHR ''/''" using u by (auto simp: last_in_set)
  then have trim: "TrimRight (b @ CHR ''/'' # u) (CHR ''/'') = b @ CHR ''/'' # u"
    by (metis append.assoc append_Cons TrimRight_snoc)
  have idx: "LastIndex (b @ CHR ''/'' # u) (CHR ''/'') = int (length b)" using u by (intro LastIndex_append) auto
  show ?thesis
    unfolding normalizePaymentURLWithSessionID_def buildSessionPaymentURL_def b_def [symmetric] u_def [symmetric]
    using raw trim idx by (simp add: Let_def nat_add_distrib)
qed

theorem payment_url_roundtrip_witness:
  "normalizePaymentURLWithSessionID rfc_uuid (buildSessionPaymentURL rfc_uuid ''https://pay.example/pay/'' 61) 61 =
     buildSessionPaymentURL rfc_uuid ''https://pay.example/pay/'' 61"
  by (rule payment_url_roundtrip [OF rfc_uuid_ok]) (simp add: graphic_def)

text \<open>
  Also. Every base address becomes the address of the payment page: it ends in
  \<^verbatim>\<open>/pay\<close> in some spelling. The suffix \<^verbatim>\<open>/checkout\<close> is replaced only in lower case, although it is
  recognised in any case: with a capital it stays in the address.
\<close>

theorem resolvePartnerPayBaseURL_pay:
  "HasSuffix (ToLower (resolvePartnerPayBaseURL env explicit)) ''/pay'' \<and>
    resolvePartnerPayBaseURL env ''https://a.b/checkout'' = ''https://a.b/pay'' \<and>
    resolvePartnerPayBaseURL env ''https://a.b/Checkout'' = ''https://a.b/Checkout/pay''"
proof -
  have "HasSuffix (s @ ''/pay'') ''/pay''" for s by (simp add: HasSuffix_def)
  moreover have "ToLower ''/pay'' = ''/pay''" by code_simp
  ultimately have "HasSuffix (ToLower (resolvePartnerPayBaseURL env explicit)) ''/pay''"
    by (simp add: resolvePartnerPayBaseURL_def pay_page_def Let_def)
  moreover have "TrimSpace ''https://a.b/checkout'' = ''https://a.b/checkout''" "TrimSpace ''https://a.b/Checkout'' = ''https://a.b/Checkout''"
    by (simp_all add: TrimSpace_graphic_all graphic_def)
  moreover have "pay_page ''https://a.b/checkout'' = ''https://a.b/pay''" "pay_page ''https://a.b/Checkout'' = ''https://a.b/Checkout/pay''"
    by code_simp+
  ultimately show ?thesis by (simp add: resolvePartnerPayBaseURL_def)
qed

subsection \<open>Expiry\<close>

lemma processExpiredQuotes_alone:
  "processExpiredQuotes pick None None now1 now2 (\<lambda>t. t) t =
     expire_keys quote_ID (expire_quote now2) (map quote_ID (due_rows pick quote_is_active quote_ExpiresAt 100 now1 t)) t"
  by (simp add: processExpiredQuotes_def quote_GetExpiredActive_def quote_ExpireQuotes_def expire_keys_def update_where_def)

lemma processExpiredSessions_alone:
  "processExpiredSessions pick None None now1 now2 (\<lambda>t. t) t =
     expire_keys sess_ID (expire_session now2) (map sess_ID (due_rows pick session_is_pending sess_ExpiresAt 100 now1 t)) t"
  by (simp add: processExpiredSessions_def session_GetExpiredPending_def session_ExpireSessions_def expire_keys_def update_where_def)

lemma quote_tick_alone:
  assumes "limit_ok pick" "distinct (map quote_ID qs)"
  shows "{q \<in> set qs. \<not> (quote_is_active q \<and> quote_ExpiresAt q < now1)} \<subseteq> set (processExpiredQuotes pick None None now1 now2 (\<lambda>t. t) qs)"
    and "length (filter (\<lambda>q. quote_is_active q \<and> quote_ExpiresAt q < now1) (processExpiredQuotes pick None None now1 now2 (\<lambda>t. t) qs)) =
      length (filter (\<lambda>q. quote_is_active q \<and> quote_ExpiresAt q < now1) qs) - 100"
  unfolding processExpiredQuotes_alone
  using quote_expiry.pass_keeps_others [OF assms] quote_expiry.pass_progress [OF assms] by auto

lemma session_tick_alone:
  assumes "limit_ok pick" "distinct (map sess_ID ss)"
  shows "{s \<in> set ss. \<not> (session_is_pending s \<and> sess_ExpiresAt s < now1)} \<subseteq> set (processExpiredSessions pick None None now1 now2 (\<lambda>t. t) ss)"
    and "length (filter (\<lambda>s. session_is_pending s \<and> sess_ExpiresAt s < now1) (processExpiredSessions pick None None now1 now2 (\<lambda>t. t) ss)) =
      length (filter (\<lambda>s. session_is_pending s \<and> sess_ExpiresAt s < now1) ss) - 100"
  unfolding processExpiredSessions_alone
  using session_expiry.pass_keeps_others [OF assms] session_expiry.pass_progress [OF assms] by auto

text \<open>
  Also. The expiry ticks of quotes and sessions, run undisturbed, touch only what is due:
  used and cancelled quotes and paid sessions stay as they are, and each tick takes a full
  batch of one hundred off the due rows, or leaves none.
\<close>

theorem partner_expiry_ticks_alone:
  assumes "limit_ok pickq" "distinct (map quote_ID qs)" "limit_ok picks" "distinct (map sess_ID ss)"
  shows "let qs' = processExpiredQuotes pickq None None now1 now2 (\<lambda>t. t) qs;
             ss' = processExpiredSessions picks None None now1 now2 (\<lambda>t. t) ss;
             dueq = (\<lambda>q. quote_Status q = ''ACTIVE'' \<and> quote_ExpiresAt q < now1);
             dues = (\<lambda>s. sess_Status s = ''PENDING'' \<and> sess_ExpiresAt s < now1) in
    {q \<in> set qs. \<not> dueq q} \<subseteq> set qs' \<and> length (filter dueq qs') = length (filter dueq qs) - 100 \<and>
    {s \<in> set ss. \<not> dues s} \<subseteq> set ss' \<and> length (filter dues ss') = length (filter dues ss) - 100"
  using quote_tick_alone [OF assms(1,2), of now1 now2] session_tick_alone [OF assms(3,4), of now1 now2]
  by (simp add: Let_def quote_is_active_def session_is_pending_def quote_status_defs session_status_defs)

theorem partner_expiry_ticks_alone_witness:
  "filter (\<lambda>s. sess_Status s = ''PENDING'' \<and> sess_ExpiresAt s < 900000000001)
     (processExpiredSessions take None None 900000000001 900000000002 (\<lambda>t. t) [sample_stored]) = []"
proof -
  have k: "distinct (map quote_ID [sample_quote])" "distinct (map sess_ID [sample_stored])" by simp_all
  from partner_expiry_ticks_alone [OF limit_ok_take k(1) limit_ok_take k(2), of 900000000001 900000000002] show ?thesis
    by (simp add: Let_def)
qed

end
