(* ===== verification/Webhook_Delivery.thy ===== *)
theory Webhook_Delivery
  imports Accounts
begin

text \<open>
  Delivery of webhooks to merchants: the delivery log
  (\<^verbatim>\<open>internal/domain/entities/webhook_delivery.go\<close>, \<^verbatim>\<open>webhook_log_repo_impl.go\<close>), the dispatcher
  with its retry schedule (\<^verbatim>\<open>internal/usecases/webhook_dispatcher.go\<close>) and the delivery job
  (\<^verbatim>\<open>internal/infrastructure/jobs/webhook_delivery.go\<close>). The outcome of an HTTP call is an
  input, as are the clock, the faults of the driver and the cancellation of the context; the
  keyed hash and the JSON encoder are parameters. Metrics are not modelled.
\<close>

subsection \<open>The delivery log\<close>

definition DeliveryPending :: string where "DeliveryPending = ''pending''"
definition DeliveryDelivering :: string where "DeliveryDelivering = ''delivering''"
definition DeliveryDelivered :: string where "DeliveryDelivered = ''delivered''"
definition DeliveryRetrying :: string where "DeliveryRetrying = ''retrying''"
definition DeliveryFailed :: string where "DeliveryFailed = ''failed''"
definition DeliveryDropped :: string where "DeliveryDropped = ''dropped''"

lemmas delivery_status_defs = DeliveryPending_def DeliveryDelivering_def DeliveryDelivered_def DeliveryRetrying_def
  DeliveryFailed_def DeliveryDropped_def

record WebhookDelivery =
  del_ID :: uuid
  del_MerchantID :: uuid
  del_PaymentID :: uuid
  del_EventType :: string
  del_Payload :: "string option"
  del_DeliveryStatus :: string
  del_HttpStatus :: int
  del_ResponseBody :: string
  del_RetryCount :: int
  del_NextRetryAt :: "time option"
  del_LastAttemptAt :: "time option"
  del_CreatedAt :: time
  del_UpdatedAt :: time

text \<open>The payload column is never null: a missing payload is stored as the empty object.\<close>

definition delivery_toModel :: "WebhookDelivery \<Rightarrow> WebhookDelivery" where
  "delivery_toModel d = d\<lparr>del_Payload := Some (case del_Payload d of Some p \<Rightarrow> p | None \<Rightarrow> ''{}'')\<rparr>"

text \<open>An insert: defaults for a zero key and an empty status, the clock for zero times.\<close>

definition delivery_insert :: "uuid \<Rightarrow> time \<Rightarrow> WebhookDelivery \<Rightarrow> WebhookDelivery" where
  "delivery_insert gen now m =
     m\<lparr>del_ID := if del_ID m = uuid_Nil then gen else del_ID m,
       del_DeliveryStatus := if del_DeliveryStatus m = [] then DeliveryPending else del_DeliveryStatus m,
       del_CreatedAt := if del_CreatedAt m = zero_time then now else del_CreatedAt m,
       del_UpdatedAt := if del_UpdatedAt m = zero_time then now else del_UpdatedAt m\<rparr>"

definition webhook_Create ::
  "fault \<Rightarrow> uuid \<Rightarrow> time \<Rightarrow> WebhookDelivery table \<Rightarrow> WebhookDelivery \<Rightarrow> (uuid \<times> WebhookDelivery table) result" where
  "webhook_Create flt gen now t d =
     (case flt of
        Some e \<Rightarrow> Inl e
      | None \<Rightarrow>
          let m = delivery_insert gen now (delivery_toModel d) in
          map_sum (\<lambda>e. e) (\<lambda>t'. (del_ID m, t')) (insert_row del_ID m t))"

text \<open>\<^verbatim>\<open>Save\<close>: writes every column of the row with that key, or inserts it when there is none.\<close>

definition webhook_Update ::
  "fault \<Rightarrow> uuid \<Rightarrow> time \<Rightarrow> WebhookDelivery table \<Rightarrow> WebhookDelivery \<Rightarrow> gerror option \<times> WebhookDelivery table" where
  "webhook_Update flt gen now t d =
     (case flt of
        Some e \<Rightarrow> (Some e, t)
      | None \<Rightarrow>
          let m = delivery_toModel d in
          if del_ID m \<noteq> uuid_Nil \<and> del_ID m \<in> del_ID ` set t then
            (None, fst (update_where (\<lambda>r. del_ID r = del_ID m) (\<lambda>r. m\<lparr>del_UpdatedAt := now\<rparr>) t))
          else
            (case insert_row del_ID (delivery_insert gen now m) t of Inl e \<Rightarrow> (Some e, t) | Inr t' \<Rightarrow> (None, t')))"

text \<open>The driver's own not-found error is returned as it is.\<close>

definition record_not_found :: gerror where
  "record_not_found = ErrorString ''record not found''"

definition webhook_GetByID :: "fault \<Rightarrow> WebhookDelivery table \<Rightarrow> uuid \<Rightarrow> WebhookDelivery result" where
  "webhook_GetByID flt t k =
     (case flt of
        Some e \<Rightarrow> Inl e
      | None \<Rightarrow> (case first_by del_ID (\<lambda>d. del_ID d = k) t of None \<Rightarrow> Inl record_not_found | Some d \<Rightarrow> Inr d))"

definition delivery_due :: "time \<Rightarrow> WebhookDelivery \<Rightarrow> bool" where
  "delivery_due now d \<longleftrightarrow>
     del_DeliveryStatus d \<in> {DeliveryPending, DeliveryRetrying} \<and>
     (case del_NextRetryAt d of None \<Rightarrow> True | Some r \<Rightarrow> r < now)"

definition webhook_GetPendingAttempts ::
  "WebhookDelivery orderer \<Rightarrow> fault \<Rightarrow> time \<Rightarrow> WebhookDelivery table \<Rightarrow> int \<Rightarrow> WebhookDelivery list result" where
  "webhook_GetPendingAttempts ord flt now t limit =
     (case flt of Some e \<Rightarrow> Inl e | None \<Rightarrow> Inr (sql_page limit 0 (ord (select_where (delivery_due now) t))))"

definition webhook_UpdateStatus ::
  "fault \<Rightarrow> time \<Rightarrow> time \<Rightarrow> WebhookDelivery table \<Rightarrow> uuid \<Rightarrow> string \<Rightarrow> int \<Rightarrow> string \<Rightarrow> gerror option \<times> WebhookDelivery table" where
  "webhook_UpdateStatus flt now1 now2 t k status httpCode body =
     (case flt of
        Some e \<Rightarrow> (Some e, t)
      | None \<Rightarrow>
          (None, fst (update_where (\<lambda>d. del_ID d = k)
             (\<lambda>d. d\<lparr>del_DeliveryStatus := status, del_HttpStatus := httpCode, del_ResponseBody := body,
                    del_LastAttemptAt := Some now1, del_UpdatedAt := now2\<rparr>) t)))"

definition webhook_GetMerchantHistory ::
  "WebhookDelivery orderer \<Rightarrow> fault \<Rightarrow> fault \<Rightarrow> WebhookDelivery table \<Rightarrow> uuid \<Rightarrow> int \<Rightarrow> int \<Rightarrow> (WebhookDelivery list \<times> int) result" where
  "webhook_GetMerchantHistory ord flt1 flt2 t merchantID limit offset =
     (case flt1 of
        Some e \<Rightarrow> Inl e
      | None \<Rightarrow>
          let rows = select_where (\<lambda>d. del_MerchantID d = merchantID) t in
          (case flt2 of Some e \<Rightarrow> Inl e | None \<Rightarrow> Inr (sql_page limit offset (ord rows), int (length rows))))"

subsection \<open>The dispatcher\<close>

definition webhookMaxRetries :: int where "webhookMaxRetries = 10"

definition webhookRetrySchedule :: "int list" where
  "webhookRetrySchedule = map (\<lambda>m. m * minute) [1, 2, 5, 10, 15, 30, 60, 120, 240, 480]"

definition max_retry_text :: string where "max_retry_text = ''Max retry attempts reached''"

definition setNextRetryAt :: "time \<Rightarrow> WebhookDelivery \<Rightarrow> WebhookDelivery" where
  "setNextRetryAt now d =
     (let attempt = (if del_RetryCount d \<le> 0 then 1 else del_RetryCount d);
          index = (if attempt - 1 \<ge> int (length webhookRetrySchedule) then int (length webhookRetrySchedule) - 1 else attempt - 1);
          d1 = d\<lparr>del_NextRetryAt := Some (now + webhookRetrySchedule ! nat index)\<rparr> in
      if del_RetryCount d \<ge> webhookMaxRetries then
        d1\<lparr>del_DeliveryStatus := DeliveryFailed, del_ResponseBody := max_retry_text, del_NextRetryAt := None\<rparr>
      else d1)"

datatype http_outcome = HttpError string | HttpResponse int string

record webhook_request =
  whr_URL :: string
  whr_Body :: string
  whr_Signature :: string
  whr_SignatureLegacy :: string
  whr_Timestamp :: string
  whr_Event :: string
  whr_DeliveryID :: string

record dispatch_deps =
  wd_merchant :: "uuid \<Rightarrow> Merchant result"
  wd_marshal :: "string option \<Rightarrow> string result"
  wd_hmac :: "string \<Rightarrow> string \<Rightarrow> string"
  wd_newRequest :: "string \<Rightarrow> gerror option"
  wd_uuid :: uuid_lib
  wd_gen :: uuid

record dispatch_clock =
  dc_timestamp :: time
  dc_attempt :: time
  dc_save1 :: time
  dc_retry :: time
  dc_save2 :: time

definition webhook_http_request :: "dispatch_deps \<Rightarrow> time \<Rightarrow> Merchant \<Rightarrow> string \<Rightarrow> WebhookDelivery \<Rightarrow> webhook_request" where
  "webhook_http_request D now merchant payload d =
     (let timestamp = int_string (unix now) in
      \<lparr>whr_URL = mer_CallbackURL merchant, whr_Body = payload,
       whr_Signature = wd_hmac D (timestamp @ ''.'' @ payload) (mer_WebhookSecret merchant),
       whr_SignatureLegacy = wd_hmac D (timestamp @ payload) (mer_WebhookSecret merchant),
       whr_Timestamp = timestamp, whr_Event = del_EventType d, whr_DeliveryID = uuid_String (wd_uuid D) (del_ID d)\<rparr>)"

definition start_attempt :: "time \<Rightarrow> WebhookDelivery \<Rightarrow> WebhookDelivery" where
  "start_attempt now d =
     d\<lparr>del_LastAttemptAt := Some now, del_NextRetryAt := None, del_DeliveryStatus := DeliveryDelivering\<rparr>"

definition record_outcome :: "time \<Rightarrow> http_outcome \<Rightarrow> WebhookDelivery \<Rightarrow> WebhookDelivery" where
  "record_outcome now outcome d =
     (case outcome of
        HttpError msg \<Rightarrow>
          (setNextRetryAt now (d\<lparr>del_DeliveryStatus := DeliveryRetrying, del_RetryCount := del_RetryCount d + 1\<rparr>))
            \<lparr>del_ResponseBody := msg\<rparr>
      | HttpResponse code body \<Rightarrow>
          let d1 = d\<lparr>del_HttpStatus := code, del_ResponseBody := body\<rparr> in
          if code \<ge> 200 \<and> code < 300 then d1\<lparr>del_DeliveryStatus := DeliveryDelivered, del_NextRetryAt := None\<rparr>
          else setNextRetryAt now (d1\<lparr>del_DeliveryStatus := DeliveryRetrying, del_RetryCount := del_RetryCount d1 + 1\<rparr>))"

text \<open>
  The result, the request that was sent if one was, and the log. The first update marks the
  attempt and its error is ignored; the second records the outcome.
\<close>

definition Dispatch ::
  "dispatch_deps \<Rightarrow> fault \<Rightarrow> fault \<Rightarrow> dispatch_clock \<Rightarrow> http_outcome \<Rightarrow> WebhookDelivery table \<Rightarrow> WebhookDelivery \<Rightarrow>
   gerror option \<times> webhook_request option \<times> WebhookDelivery table" where
  "Dispatch D flt1 flt2 clk outcome t d =
     (case wd_merchant D (del_MerchantID d) of
        Inl e \<Rightarrow> (Some (WrapErr ''failed to get merchant'' e), None, t)
      | Inr merchant \<Rightarrow>
          if \<not> mer_WebhookIsActive merchant \<or> mer_CallbackURL merchant = [] then
            (let (e, t') = webhook_Update flt1 (wd_gen D) (dc_save1 clk) t
                   (d\<lparr>del_DeliveryStatus := DeliveryDropped, del_ResponseBody := ''Webhook inactive or callback URL missing''\<rparr>)
             in (e, None, t'))
          else
            case wd_marshal D (del_Payload d) of
              Inl e \<Rightarrow> (Some (WrapErr ''failed to marshal payload'' e), None, t)
            | Inr payload \<Rightarrow>
                (case wd_newRequest D (mer_CallbackURL merchant) of
                   Some e \<Rightarrow> (Some (WrapErr ''failed to create request'' e), None, t)
                 | None \<Rightarrow>
                     let d1 = start_attempt (dc_attempt clk) d;
                         t1 = snd (webhook_Update flt1 (wd_gen D) (dc_save1 clk) t d1);
                         (e, t2) = webhook_Update flt2 (wd_gen D) (dc_save2 clk) t1 (record_outcome (dc_retry clk) outcome d1)
                     in (e, Some (webhook_http_request D (dc_timestamp clk) merchant payload d), t2)))"

subsection \<open>The delivery job\<close>

text \<open>What the environment does during one tick, by the position in the batch.\<close>

record tick_env =
  tick_cancel :: "nat \<Rightarrow> bool"
  tick_now :: "nat \<Rightarrow> time"
  tick_faults :: "nat \<Rightarrow> fault \<times> fault"
  tick_clock :: "nat \<Rightarrow> dispatch_clock"
  tick_http :: "nat \<Rightarrow> http_outcome"

fun process_batch ::
  "dispatch_deps \<Rightarrow> tick_env \<Rightarrow> nat \<Rightarrow> WebhookDelivery list \<Rightarrow> WebhookDelivery table \<Rightarrow>
   webhook_request list \<times> WebhookDelivery table" where
  "process_batch D E i [] t = ([], t)"
| "process_batch D E i (d # ds) t =
     (if tick_cancel E i then ([], t)
      else if del_RetryCount d \<ge> webhookMaxRetries then
        process_batch D E (Suc i) ds
          (snd (webhook_Update (fst (tick_faults E i)) (wd_gen D) (tick_now E i) t
             (d\<lparr>del_DeliveryStatus := DeliveryFailed, del_ResponseBody := max_retry_text, del_NextRetryAt := None\<rparr>)))
      else if del_DeliveryStatus d = DeliveryRetrying \<and> (case del_NextRetryAt d of None \<Rightarrow> False | Some r \<Rightarrow> tick_now E i < r) then
        process_batch D E (Suc i) ds t
      else
        let (e, sent, t1) = Dispatch D (fst (tick_faults E i)) (snd (tick_faults E i)) (tick_clock E i) (tick_http E i) t d;
            (rest, t2) = process_batch D E (Suc i) ds t1
        in ((case sent of None \<Rightarrow> [] | Some r \<Rightarrow> [r]) @ rest, t2))"

definition processPendingDeliveries ::
  "dispatch_deps \<Rightarrow> WebhookDelivery orderer \<Rightarrow> fault \<Rightarrow> time \<Rightarrow> tick_env \<Rightarrow> WebhookDelivery table \<Rightarrow>
   webhook_request list \<times> WebhookDelivery table" where
  "processPendingDeliveries D ord flt now E t =
     (case webhook_GetPendingAttempts ord flt now t 20 of
        Inl _ \<Rightarrow> ([], t)
      | Inr deliveries \<Rightarrow> if length deliveries = 0 then ([], t) else process_batch D E 0 deliveries t)"


text \<open>A manual retry, asked for by an administrator.\<close>

definition ManualRetry ::
  "dispatch_deps \<Rightarrow> fault \<Rightarrow> fault \<Rightarrow> fault \<Rightarrow> dispatch_clock \<Rightarrow> http_outcome \<Rightarrow> WebhookDelivery table \<Rightarrow> uuid \<Rightarrow>
   gerror option \<times> webhook_request option \<times> WebhookDelivery table" where
  "ManualRetry D flt0 flt1 flt2 clk outcome t deliveryID =
     (case webhook_GetByID flt0 t deliveryID of
        Inl e \<Rightarrow> (Some (WrapErr ''webhook delivery not found'' e), None, t)
      | Inr d \<Rightarrow> Dispatch D flt1 flt2 clk outcome t d)"

subsection \<open>The states of a delivery\<close>

definition delivery_ok :: "WebhookDelivery \<Rightarrow> bool" where
  "delivery_ok d \<longleftrightarrow>
     0 \<le> del_RetryCount d \<and>
     del_DeliveryStatus d \<in> {DeliveryPending, DeliveryDelivering, DeliveryDelivered, DeliveryRetrying, DeliveryFailed, DeliveryDropped} \<and>
     (del_DeliveryStatus d = DeliveryPending \<longrightarrow> del_RetryCount d = 0) \<and>
     (del_DeliveryStatus d = DeliveryRetrying \<longrightarrow>
        1 \<le> del_RetryCount d \<and> del_RetryCount d < webhookMaxRetries \<and> del_NextRetryAt d \<noteq> None) \<and>
     (del_DeliveryStatus d = DeliveryFailed \<longrightarrow> webhookMaxRetries \<le> del_RetryCount d \<and> del_NextRetryAt d = None)"

definition failing :: "http_outcome \<Rightarrow> bool" where
  "failing outcome \<longleftrightarrow> (case outcome of HttpError _ \<Rightarrow> True | HttpResponse code _ \<Rightarrow> \<not> (200 \<le> code \<and> code < 300))"

lemma setNextRetryAt_fields:
  "del_RetryCount (setNextRetryAt now d) = del_RetryCount d"
  "del_DeliveryStatus (setNextRetryAt now d) = (if del_RetryCount d \<ge> 10 then DeliveryFailed else del_DeliveryStatus d)"
  "1 \<le> del_RetryCount d \<Longrightarrow> del_NextRetryAt (setNextRetryAt now d) =
     (if del_RetryCount d \<ge> 10 then None else Some (now + webhookRetrySchedule ! nat (del_RetryCount d - 1)))"
  by (simp_all add: setNextRetryAt_def Let_def webhookMaxRetries_def webhookRetrySchedule_def)

lemma record_outcome_failing:
  assumes "failing outcome" "0 \<le> del_RetryCount d"
  shows "del_RetryCount (record_outcome now outcome d) = del_RetryCount d + 1"
    and "del_DeliveryStatus (record_outcome now outcome d) = (if del_RetryCount d + 1 \<ge> 10 then DeliveryFailed else DeliveryRetrying)"
    and "del_NextRetryAt (record_outcome now outcome d) =
      (if del_RetryCount d + 1 \<ge> 10 then None else Some (now + webhookRetrySchedule ! nat (del_RetryCount d)))"
  using assms
  by (auto simp: record_outcome_def failing_def setNextRetryAt_fields Let_def split: http_outcome.splits)

lemma record_outcome_success:
  assumes "\<not> failing outcome"
  shows "del_DeliveryStatus (record_outcome now outcome d) = DeliveryDelivered" "del_NextRetryAt (record_outcome now outcome d) = None"
    "del_RetryCount (record_outcome now outcome d) = del_RetryCount d"
  using assms by (auto simp: record_outcome_def failing_def Let_def split: http_outcome.splits)

lemma record_outcome_key: "del_ID (record_outcome now outcome d) = del_ID d"
  by (simp add: record_outcome_def setNextRetryAt_def Let_def split: http_outcome.splits)

lemma record_outcome_ok:
  assumes "0 \<le> del_RetryCount d"
  shows "delivery_ok (record_outcome now outcome d)"
proof (cases "failing outcome")
  case True
  then show ?thesis using assms record_outcome_failing [OF True assms, of now]
    by (simp add: delivery_ok_def delivery_status_defs webhookMaxRetries_def)
next
  case False
  then show ?thesis using assms record_outcome_success [OF False, of now d]
    by (simp add: delivery_ok_def delivery_status_defs)
qed

lemma webhook_Update_rows:
  assumes "r \<in> set (snd (webhook_Update flt gen now t d))"
  shows "r \<in> set t \<or> (del_RetryCount r = del_RetryCount d \<and> del_NextRetryAt r = del_NextRetryAt d \<and>
    (del_DeliveryStatus d \<noteq> [] \<longrightarrow> del_DeliveryStatus r = del_DeliveryStatus d))"
  using assms
  by (auto simp: webhook_Update_def Let_def delivery_toModel_def delivery_insert_def insert_row_def
      split: option.splits if_splits)

lemma delivery_ok_cong:
  "del_RetryCount r = del_RetryCount d \<Longrightarrow> del_NextRetryAt r = del_NextRetryAt d \<Longrightarrow>
    del_DeliveryStatus r = del_DeliveryStatus d \<Longrightarrow> delivery_ok r \<longleftrightarrow> delivery_ok d"
  by (simp add: delivery_ok_def)

lemma delivery_ok_status: "delivery_ok d \<Longrightarrow> del_DeliveryStatus d \<noteq> []"
  by (auto simp: delivery_ok_def delivery_status_defs)

definition log_ok :: "WebhookDelivery table \<Rightarrow> bool" where
  "log_ok t \<longleftrightarrow> (\<forall>d\<in>set t. delivery_ok d)"

lemma webhook_Update_ok [simp]:
  assumes "log_ok t" "delivery_ok d"
  shows "log_ok (snd (webhook_Update flt gen now t d))"
  unfolding log_ok_def
proof
  fix r assume "r \<in> set (snd (webhook_Update flt gen now t d))"
  from webhook_Update_rows [OF this] assms delivery_ok_status [OF assms(2)] show "delivery_ok r"
    unfolding log_ok_def using delivery_ok_cong [of r d] by blast
qed

lemma delivery_ok_states:
  assumes "delivery_ok d"
  shows "delivery_ok (d\<lparr>del_DeliveryStatus := DeliveryDropped, del_ResponseBody := b\<rparr>)"
    and "delivery_ok (start_attempt now d)"
    and "delivery_ok (record_outcome now outcome (start_attempt now' d))"
    and "webhookMaxRetries \<le> del_RetryCount d \<Longrightarrow>
      delivery_ok (d\<lparr>del_DeliveryStatus := DeliveryFailed, del_ResponseBody := b, del_NextRetryAt := None\<rparr>)"
proof -
  have c: "0 \<le> del_RetryCount d" using assms by (simp add: delivery_ok_def)
  then show "delivery_ok (d\<lparr>del_DeliveryStatus := DeliveryDropped, del_ResponseBody := b\<rparr>)"
    by (simp add: delivery_ok_def delivery_status_defs)
  show "delivery_ok (start_attempt now d)"
    using c by (simp add: delivery_ok_def delivery_status_defs start_attempt_def)
  show "delivery_ok (record_outcome now outcome (start_attempt now' d))"
    using c by (intro record_outcome_ok) (simp add: start_attempt_def)
  show "webhookMaxRetries \<le> del_RetryCount d \<Longrightarrow>
      delivery_ok (d\<lparr>del_DeliveryStatus := DeliveryFailed, del_ResponseBody := b, del_NextRetryAt := None\<rparr>)"
    using c by (simp add: delivery_ok_def delivery_status_defs)
qed

lemma Dispatch_ok:
  assumes "log_ok t" "delivery_ok d"
  shows "log_ok (snd (snd (Dispatch D flt1 flt2 clk outcome t d)))"
proof -
  note saved = webhook_Update_ok [OF assms(1) delivery_ok_states(1) [OF assms(2)]]
    webhook_Update_ok [OF webhook_Update_ok [OF assms(1) delivery_ok_states(2) [OF assms(2)]] delivery_ok_states(3) [OF assms(2)]]
  show ?thesis
  proof (cases "wd_merchant D (del_MerchantID d)")
    case Inl
    then show ?thesis using assms(1) by (simp add: Dispatch_def)
  next
    case (Inr merchant)
    show ?thesis
      by (cases "wd_marshal D (del_Payload d)"; cases "wd_newRequest D (mer_CallbackURL merchant)")
        (simp_all add: Dispatch_def Inr Let_def case_prod_unfold saved assms(1) del: webhook_Update_ok)
  qed
qed

lemma process_batch_ok:
  "log_ok t \<Longrightarrow> log_ok ds \<Longrightarrow> log_ok (snd (process_batch D E i ds t))"
proof (induction ds arbitrary: i t)
  case (Cons d ds)
  have d: "delivery_ok d" and ds: "log_ok ds" using Cons.prems(2) by (simp_all add: log_ok_def)
  let ?f = "d\<lparr>del_DeliveryStatus := DeliveryFailed, del_ResponseBody := max_retry_text, del_NextRetryAt := None\<rparr>"
  have failed: "log_ok (snd (webhook_Update f g n t ?f))" if "webhookMaxRetries \<le> del_RetryCount d" for f g n
    using Cons.prems(1) delivery_ok_states(4) [OF d that] by (rule webhook_Update_ok)
  have sent: "log_ok (snd (snd (Dispatch D f1 f2 c ou t d)))" for f1 f2 c ou
    using Cons.prems(1) d by (rule Dispatch_ok)
  note IH = Cons.IH [OF _ ds]
  show ?case
    unfolding process_batch.simps Let_def case_prod_unfold
    by (split if_split, rule conjI impI, simp add: Cons.prems, intro impI, split if_split, intro conjI impI,
        erule IH [OF failed], split if_split, intro conjI impI, rule IH [OF Cons.prems(1)], simp add: IH [OF sent])
qed simp

text \<open>
  Every way the log changes: a new delivery, a tick of the job (any outcomes, faults and
  cancellation), a manual retry, and a process that dies between the two updates of an
  attempt.
\<close>

inductive delivery_step :: "dispatch_deps \<Rightarrow> WebhookDelivery table \<Rightarrow> WebhookDelivery table \<Rightarrow> bool" for D where
  enqueue: "webhook_Create flt gen now t d = Inr (k, t') \<Longrightarrow> del_DeliveryStatus d = DeliveryPending \<Longrightarrow> del_RetryCount d = 0 \<Longrightarrow>
    delivery_step D t t'"
| tick: "order_ok del_CreatedAt ord \<Longrightarrow> processPendingDeliveries D ord flt now E t = (sent, t') \<Longrightarrow> delivery_step D t t'"
| manual: "ManualRetry D flt0 flt1 flt2 clk outcome t k = (e, sent, t') \<Longrightarrow> delivery_step D t t'"
| crash: "d \<in> set t \<Longrightarrow> delivery_step D t (snd (webhook_Update flt gen now t (start_attempt now' d)))"

lemma sql_page_subset: "set (sql_page l off rs) \<subseteq> set rs"
  by (auto simp: sql_page_def Let_def dest: in_set_takeD in_set_dropD)

lemma pending_attempts_due:
  assumes "order_ok del_CreatedAt ord" "webhook_GetPendingAttempts ord flt now t l = Inr ds"
  shows "flt = None" "set ds \<subseteq> {d \<in> set t. delivery_due now d}"
proof -
  have ds: "ds = sql_page l 0 (ord (filter (delivery_due now) t))" and f: "flt = None"
    using assms(2) by (auto simp: webhook_GetPendingAttempts_def select_where_def split: option.splits)
  have "set ds \<subseteq> set (ord (filter (delivery_due now) t))" unfolding ds by (rule sql_page_subset)
  also have "\<dots> = {d \<in> set t. delivery_due now d}" using order_ok_set [OF assms(1)] by simp
  finally show "set ds \<subseteq> {d \<in> set t. delivery_due now d}" .
  show "flt = None" by (rule f)
qed

lemma delivery_step_ok: "delivery_step D t t' \<Longrightarrow> log_ok t \<Longrightarrow> log_ok t'"
proof (induction rule: delivery_step.induct)
  case (enqueue flt gen now t d k t')
  then obtain m where m: "t' = t @ [m]" "m = delivery_insert gen now (delivery_toModel d)"
    by (auto simp: webhook_Create_def Let_def insert_row_def split: option.splits if_splits)
  have "delivery_ok m" using enqueue(2,3) unfolding m(2)
    by (simp add: delivery_insert_def delivery_toModel_def delivery_ok_def delivery_status_defs)
  with enqueue.prems show ?case by (simp add: m(1) log_ok_def)
next
  case (tick ord flt now E t sent t')
  have "log_ok ds" if "webhook_GetPendingAttempts ord flt now t 20 = Inr ds" for ds
    using that tick.prems pending_attempts_due(2) [OF tick(1) that] by (auto simp: log_ok_def)
  then have "log_ok (snd (process_batch D E 0 ds t))" if "webhook_GetPendingAttempts ord flt now t 20 = Inr ds" for ds
    using that tick.prems by (intro process_batch_ok) auto
  then have "log_ok (snd (processPendingDeliveries D ord flt now E t))"
    using tick.prems by (simp add: processPendingDeliveries_def split: sum.split)
  with tick(2) show ?case by simp
next
  case (manual flt0 flt1 flt2 clk outcome t k e sent t')
  have "delivery_ok d" if "webhook_GetByID flt0 t k = Inr d" for d
    using that manual.prems by (auto simp: webhook_GetByID_def log_ok_def dest!: first_by_SomeD split: option.splits)
  then have "log_ok (snd (snd (ManualRetry D flt0 flt1 flt2 clk outcome t k)))"
    using manual.prems by (simp add: ManualRetry_def Dispatch_ok split: sum.split)
  with manual(1) show ?case by simp
next
  case (crash d t flt gen now now')
  then have "delivery_ok d" by (simp add: log_ok_def)
  with crash show ?case by (intro webhook_Update_ok delivery_ok_states)
qed

lemma delivery_steps_ok: "(delivery_step D)\<^sup>*\<^sup>* t t' \<Longrightarrow> log_ok t \<Longrightarrow> log_ok t'"
  by (induction rule: rtranclp_induct) (auto intro: delivery_step_ok)



subsection \<open>Retries\<close>

text \<open>A sequence of attempts of one delivery: the clock readings and the outcome of each.\<close>

fun attempts :: "(time \<times> time \<times> http_outcome) list \<Rightarrow> WebhookDelivery \<Rightarrow> WebhookDelivery" where
  "attempts [] d = d"
| "attempts ((now1, now2, outcome) # os) d = attempts os (record_outcome now2 outcome (start_attempt now1 d))"

lemma attempts_snoc:
  "attempts (os @ [(n1, n2, ou)]) d = record_outcome n2 ou (start_attempt n1 (attempts os d))"
  by (induction os d rule: attempts.induct) auto

lemma start_attempt_fields [simp]:
  "del_RetryCount (start_attempt now d) = del_RetryCount d" "del_ID (start_attempt now d) = del_ID d"
  by (simp_all add: start_attempt_def)

lemma attempts_count:
  "\<forall>(n1, n2, ou)\<in>set os. failing ou \<Longrightarrow> del_RetryCount d = 0 \<Longrightarrow> del_RetryCount (attempts os d) = int (length os)"
proof (induction os rule: rev_induct)
  case (snoc x os)
  obtain n1 n2 ou where x: "x = (n1, n2, ou)" by (cases x)
  with snoc have "failing ou" "del_RetryCount (attempts os d) = int (length os)" by auto
  then show ?case using record_outcome_failing(1) [of ou "start_attempt n1 (attempts os d)" n2]
    by (simp add: x attempts_snoc)
qed simp


definition sample_delivery :: WebhookDelivery where
  "sample_delivery =
     \<lparr>del_ID = 81, del_MerchantID = 9, del_PaymentID = 41, del_EventType = ''COMPLETED'', del_Payload = Some ''{}'',
      del_DeliveryStatus = ''pending'', del_HttpStatus = 0, del_ResponseBody = [], del_RetryCount = 0, del_NextRetryAt = None,
      del_LastAttemptAt = None, del_CreatedAt = 1, del_UpdatedAt = 1\<rparr>"




subsection \<open>One attempt\<close>

lemma webhook_Update_stored:
  assumes "distinct (map del_ID t)" "d \<in> set t" "del_ID d \<noteq> uuid_Nil" "del_ID d' = del_ID d"
  shows "webhook_Update None gen now t d' =
    (None, map (\<lambda>x. if x = d then (delivery_toModel d')\<lparr>del_UpdatedAt := now\<rparr> else x) t)"
proof -
  have "del_ID x = del_ID d \<longleftrightarrow> x = d" if "x \<in> set t" for x
    using assms(1,2) that by (auto simp: distinct_map dest: inj_onD)
  then show ?thesis using assms by (auto simp: webhook_Update_def Let_def delivery_toModel_def update_where_def)
qed


definition sample_dispatch :: dispatch_deps where
  "sample_dispatch =
     \<lparr>wd_merchant = (\<lambda>k. if k = 9 then Inr \<lparr>mer_ID = 9, mer_UserID = 3, mer_BusinessName = ''Shop'', mer_BusinessEmail = ''a@b.c'',
        mer_MerchantType = MerchantTypeUMKM, mer_Status = MerchantStatusActive, mer_TaxID = None,
        mer_BusinessAddress = None, mer_Documents = None, mer_FeeDiscountPercent = ''0'',
        mer_CallbackURL = ''https://shop.example/hook'', mer_WebhookSecret = ''k'', mer_WebhookIsActive = True,
        mer_SupportEmail = [], mer_LogoURL = [], mer_WebhookMetadata = None, mer_Metadata = None,
        mer_VerifiedAt = None, mer_CreatedAt = 1, mer_UpdatedAt = 1\<rparr> else Inl (Sentinel ErrNotFound)),
      wd_marshal = (\<lambda>p. Inr (case p of Some s \<Rightarrow> s | None \<Rightarrow> ''null'')), wd_hmac = (\<lambda>p s. s @ p),
      wd_newRequest = (\<lambda>u. None), wd_uuid = rfc_uuid, wd_gen = 99\<rparr>"

definition sample_clock :: dispatch_clock where
  "sample_clock = \<lparr>dc_timestamp = 2, dc_attempt = 2, dc_save1 = 2, dc_retry = 3, dc_save2 = 3\<rparr>"


subsection \<open>The batch\<close>

lemma due_count: "delivery_ok d \<Longrightarrow> delivery_due now d \<Longrightarrow> del_RetryCount d < 10"
  by (auto simp: delivery_ok_def delivery_due_def delivery_status_defs webhookMaxRetries_def)

lemma process_batch_blocked:
  "\<forall>d\<in>set ds. del_RetryCount d < 10 \<and> (\<exists>e. wd_merchant D (del_MerchantID d) = Inl e) \<Longrightarrow> process_batch D E i ds t = ([], t)"
proof (induction ds arbitrary: i)
  case (Cons d ds)
  then obtain e where "wd_merchant D (del_MerchantID d) = Inl e" "\<not> webhookMaxRetries \<le> del_RetryCount d"
    by (auto simp: webhookMaxRetries_def)
  then have "Dispatch D f1 f2 clk ou t d = (Some (WrapErr ''failed to get merchant'' e), None, t)" for f1 f2 clk ou
    by (simp add: Dispatch_def)
  with Cons \<open>\<not> webhookMaxRetries \<le> del_RetryCount d\<close> show ?case by (auto simp: Let_def)
qed simp

text \<open>
  Also. The head of the queue can block it: an attempt that fails before the request is
  sent leaves no trace in the log, so while the twenty oldest due deliveries belong to
  merchants that cannot be loaded, a tick of the job sends nothing and changes nothing,
  however many younger deliveries are due.
\<close>

theorem webhook_queue_blocked:
  assumes hist: "(delivery_step D)\<^sup>*\<^sup>* [] t" and ord: "order_ok del_CreatedAt ord"
    and batch: "webhook_GetPendingAttempts ord None now t 20 = Inr ds"
    and gone: "\<forall>d\<in>set ds. \<exists>e. wd_merchant D (del_MerchantID d) = Inl e"
  shows "processPendingDeliveries D ord None now E t = ([], t)"
proof -
  have "log_ok []" by (simp add: log_ok_def)
  with hist have "log_ok t" by (rule delivery_steps_ok)
  then have "delivery_ok d \<and> delivery_due now d" if "d \<in> set ds" for d
    using pending_attempts_due(2) [OF ord batch] that by (auto simp: log_ok_def)
  then have "\<forall>d\<in>set ds. del_RetryCount d < 10" using due_count by blast
  with gone have "process_batch D E 0 ds t = ([], t)" by (intro process_batch_blocked) auto
  with batch show ?thesis by (simp add: processPendingDeliveries_def)
qed

theorem webhook_queue_blocked_witness:
  "processPendingDeliveries (sample_dispatch\<lparr>wd_merchant := \<lambda>k. Inl (Sentinel ErrNotFound)\<rparr>) (sort_key del_CreatedAt) None 5
     \<lparr>tick_cancel = (\<lambda>_. False), tick_now = (\<lambda>_. 5), tick_faults = (\<lambda>_. (None, None)), tick_clock = (\<lambda>_. sample_clock),
      tick_http = (\<lambda>_. HttpResponse 200 [])\<rparr> [sample_delivery] = ([], [sample_delivery])"
proof (rule webhook_queue_blocked)
  have "webhook_Create None 81 1 [] sample_delivery = Inr (81, [sample_delivery])"
    by (simp add: webhook_Create_def delivery_insert_def delivery_toModel_def insert_row_def sample_delivery_def zero_time_def
        delivery_status_defs)
  from delivery_step.enqueue [OF this]
  show "(delivery_step (sample_dispatch\<lparr>wd_merchant := \<lambda>k. Inl (Sentinel ErrNotFound)\<rparr>))\<^sup>*\<^sup>* [] [sample_delivery]"
    by (auto simp: sample_delivery_def delivery_status_defs)
  show "order_ok del_CreatedAt (sort_key del_CreatedAt)" by (rule order_ok_sort_key)
  show "webhook_GetPendingAttempts (sort_key del_CreatedAt) None 5 [sample_delivery] 20 = Inr [sample_delivery]"
    by (simp add: webhook_GetPendingAttempts_def select_where_def delivery_due_def sample_delivery_def delivery_status_defs sql_page_def)
qed simp

end
