(* ===== verification/Indexer_Events.thy ===== *)
theory Indexer_Events
  imports Partner_Sessions Webhook_Delivery
begin

text \<open>
  Events of the blockchain indexer (\<^verbatim>\<open>internal/usecases/webhook_usecase.go\<close>): decoding of the
  event data, the transaction that updates a payment and records the event, the webhook
  delivery that follows, and completion of payment requests and partner sessions. The state
  is the five tables the use case writes. JSON texts are parsed by the codec of the payment
  events; the value the UUID package returns along with an error is a parameter.
\<close>

subsection \<open>Event data\<close>

text \<open>
  Decoding a JSON object into a struct of string fields, as \<^verbatim>\<open>encoding/json\<close> does: a key selects
  the field with exactly its name or else the first one that equals it up to (ASCII) case,
  unknown keys are skipped, null leaves the field alone, and a value of another type is an
  error that is reported after the whole object was read. A top-level null decodes to
  nothing.
\<close>

definition json_field :: "string list \<Rightarrow> string \<Rightarrow> string option" where
  "json_field names key = (if key \<in> set names then Some key else find (EqualFold key) names)"

fun store_fields ::
  "string list \<Rightarrow> (string \<times> json) list \<Rightarrow> (string \<Rightarrow> string) \<Rightarrow> gerror option \<Rightarrow> (string \<Rightarrow> string) \<times> gerror option" where
  "store_fields names [] f err = (f, err)"
| "store_fields names ((k, v) # kvs) f err =
     (case json_field names k of
        None \<Rightarrow> store_fields names kvs f err
      | Some n \<Rightarrow>
          (case v of
             JString s \<Rightarrow> store_fields names kvs (f(n := s)) err
           | JNull \<Rightarrow> store_fields names kvs f err
           | _ \<Rightarrow> store_fields names kvs f
                    (if err = None then Some (ErrorString ''json: cannot unmarshal value into Go struct field'') else err)))"

definition Unmarshal_strings :: "json_lib \<Rightarrow> string list \<Rightarrow> string \<Rightarrow> (string \<Rightarrow> string) result" where
  "Unmarshal_strings J names data =
     (case json_Parse J data of
        None \<Rightarrow> Inl (ErrorString ''invalid JSON'')
      | Some JNull \<Rightarrow> Inr (\<lambda>_. [])
      | Some (JObject kvs) \<Rightarrow>
          (case store_fields names kvs (\<lambda>_. []) None of (f, None) \<Rightarrow> Inr f | (f, Some e) \<Rightarrow> Inl e)
      | Some _ \<Rightarrow> Inl (ErrorString ''json: cannot unmarshal value into Go value''))"

definition mapStatus :: "string \<Rightarrow> PaymentStatus" where
  "mapStatus s =
     (if s = ''pending'' then PaymentStatusPending
      else if s = ''processing'' then PaymentStatusProcessing
      else if s = ''completed'' then PaymentStatusCompleted
      else if s = ''failed'' then PaymentStatusFailed
      else if s = ''refunded'' then PaymentStatusRefunded
      else PaymentStatusPending)"

subsection \<open>State and environment\<close>

record indexer_db =
  idb_payments :: "payment_row table"
  idb_events :: "event_row table"
  idb_requests :: "request_row table"
  idb_sessions :: "PartnerPaymentSession table"
  idb_deliveries :: "WebhookDelivery table"

record indexer_deps =
  ix_uuid :: uuid_lib
  ix_partial :: "string \<Rightarrow> uuid"
  ix_json :: json_lib
  ix_eth :: eth_lib
  ix_pq :: "gerror \<Rightarrow> string option"
  ix_chains :: chain_db
  ix_hasSessions :: bool

record indexer_env =
  ie_begin :: fault
  ie_get :: fault
  ie_update :: fault
  ie_event :: "nat \<Rightarrow> fault"
  ie_commit :: fault
  ie_get2 :: fault
  ie_delivery :: fault
  ie_request :: fault
  ie_session :: fault
  ie_mark :: fault
  ie_eventID :: uuid
  ie_deliveryID :: uuid
  ie_now :: time

definition parse_ignoring_error :: "indexer_deps \<Rightarrow> string \<Rightarrow> uuid" where
  "parse_ignoring_error D s = (case uuid_Parse (ix_uuid D) s of Some u \<Rightarrow> u | None \<Rightarrow> ix_partial D s)"

subsection \<open>The use case\<close>

definition record_event ::
  "indexer_deps \<Rightarrow> indexer_env \<Rightarrow> uuid \<Rightarrow> string \<Rightarrow> string \<Rightarrow> string \<Rightarrow> indexer_db \<Rightarrow> gerror option \<times> indexer_db" where
  "record_event D E paymentID eventType txHash data db =
     (let (e, es) = event_Create (ix_uuid D) (ix_json D) (ix_pq D) True (ie_event E) (ie_eventID E) (ie_now E) (idb_events db)
            \<lparr>ev_ID = uuid_Nil, ev_PaymentID = paymentID, ev_EventType = eventType, ev_ChainID = None, ev_TxHash = txHash,
             ev_BlockNumber = 0, ev_Metadata = Some (JString data), ev_CreatedAt = zero_time\<rparr>
      in (e, db\<lparr>idb_events := es\<rparr>))"

definition payment_status_tx ::
  "indexer_deps \<Rightarrow> indexer_env \<Rightarrow> uuid \<Rightarrow> PaymentStatus \<Rightarrow> string \<Rightarrow> string \<Rightarrow> string \<Rightarrow> indexer_db \<Rightarrow> gerror option \<times> indexer_db" where
  "payment_status_tx D E paymentID newStatus eventType txHash data db =
     (case payment_GetByID (ie_get E) (ix_chains D) (idb_payments db) paymentID of
        Inl e \<Rightarrow> (Some e, db)
      | Inr _ \<Rightarrow>
          (case payment_UpdateStatus (ie_update E) (ie_now E) (idb_payments db) paymentID newStatus of
             (Some e, ps) \<Rightarrow> (Some e, db\<lparr>idb_payments := ps\<rparr>)
           | (None, ps) \<Rightarrow> record_event D E paymentID eventType txHash data (db\<lparr>idb_payments := ps\<rparr>)))"

definition optional_text :: "string \<Rightarrow> string option" where
  "optional_text s = (if s = [] then None else Some s)"

definition payment_failed_tx ::
  "indexer_deps \<Rightarrow> indexer_env \<Rightarrow> uuid \<Rightarrow> PaymentStatus \<Rightarrow> string \<Rightarrow> string \<Rightarrow> string \<Rightarrow> string \<Rightarrow> string \<Rightarrow> indexer_db \<Rightarrow>
   gerror option \<times> indexer_db" where
  "payment_failed_tx D E paymentID newStatus reason revertData eventType txHash data db =
     (case payment_GetByID (ie_get E) (ix_chains D) (idb_payments db) paymentID of
        Inl e \<Rightarrow> (Some e, db)
      | Inr payment \<Rightarrow>
          (case payment_Update (ie_update E) (ie_now E) (idb_payments db)
                  (payment\<lparr>pay_Status := newStatus, pay_FailureReason := optional_text reason,
                           pay_RevertData := optional_text revertData\<rparr>) of
             (Some e, ps) \<Rightarrow> (Some e, db\<lparr>idb_payments := ps\<rparr>)
           | (None, ps) \<Rightarrow> record_event D E paymentID eventType txHash data (db\<lparr>idb_payments := ps\<rparr>)))"

definition decoded_reason :: "indexer_deps \<Rightarrow> string \<Rightarrow> string \<Rightarrow> string" where
  "decoded_reason D reason revertData =
     (if revertData = [] then reason
      else
        case DecodeString (TrimPrefix revertData ''0x'') of
          None \<Rightarrow> reason
        | Some revertBytes \<Rightarrow>
            let message = DecodedMessage (decodeRouteErrorData (ix_eth D) revertBytes) in
            if message = [] then reason
            else if reason \<noteq> [] then reason @ '' (Revert: '' @ message @ '')''
            else message)"

definition new_delivery :: "indexer_env \<Rightarrow> uuid \<Rightarrow> uuid \<Rightarrow> string \<Rightarrow> string \<Rightarrow> WebhookDelivery" where
  "new_delivery E merchantID paymentID eventType data =
     \<lparr>del_ID = ie_deliveryID E, del_MerchantID = merchantID, del_PaymentID = paymentID, del_EventType = eventType,
      del_Payload = Some data, del_DeliveryStatus = DeliveryPending, del_HttpStatus = 0, del_ResponseBody = [],
      del_RetryCount = 0, del_NextRetryAt = None, del_LastAttemptAt = None, del_CreatedAt = ie_now E,
      del_UpdatedAt = ie_now E\<rparr>"

text \<open>The error of a failed enqueue is logged and dropped, as by both callers.\<close>

definition enqueueWebhookDelivery ::
  "indexer_deps \<Rightarrow> indexer_env \<Rightarrow> uuid \<Rightarrow> string \<Rightarrow> string \<Rightarrow> indexer_db \<Rightarrow> gerror option \<times> indexer_db" where
  "enqueueWebhookDelivery D E paymentID eventType data db =
     (case payment_GetByID (ie_get2 E) (ix_chains D) (idb_payments db) paymentID of
        Inl _ \<Rightarrow> (None, db)
      | Inr payment \<Rightarrow>
          (case pay_MerchantID payment of
             None \<Rightarrow> (None, db)
           | Some merchantID \<Rightarrow>
               (case webhook_Create (ie_delivery E) (ie_deliveryID E) (ie_now E) (idb_deliveries db)
                       (new_delivery E merchantID paymentID eventType data) of
                  Inl e \<Rightarrow> (Some e, db)
                | Inr (_, t) \<Rightarrow> (None, db\<lparr>idb_deliveries := t\<rparr>))))"

definition payment_event ::
  "indexer_deps \<Rightarrow> indexer_env \<Rightarrow> string \<Rightarrow> string \<Rightarrow> indexer_db \<Rightarrow> gerror option \<times> indexer_db" where
  "payment_event D E eventType data db =
     (case Unmarshal_strings (ix_json D) [''paymentId'', ''status'', ''sourceTxHash'', ''destTxHash''] data of
        Inl e \<Rightarrow> (Some e, db)
      | Inr f \<Rightarrow>
          let paymentUUID = parse_ignoring_error D (f ''paymentId''); newStatus = mapStatus (f ''status'') in
          (case uow_Do (ie_begin E) (ie_commit E)
                  (payment_status_tx D E paymentUUID newStatus eventType (f ''sourceTxHash'') data) db of
             (Some e, db1) \<Rightarrow> (Some e, db1)
           | (None, db1) \<Rightarrow>
               if newStatus = PaymentStatusCompleted \<or> newStatus = PaymentStatusRefunded then
                 (None, snd (enqueueWebhookDelivery D E paymentUUID (payment_status_string newStatus) data db1))
               else (None, db1)))"

definition payment_failed_event ::
  "indexer_deps \<Rightarrow> indexer_env \<Rightarrow> string \<Rightarrow> string \<Rightarrow> indexer_db \<Rightarrow> gerror option \<times> indexer_db" where
  "payment_failed_event D E eventType data db =
     (case Unmarshal_strings (ix_json D) [''paymentId'', ''status'', ''reason'', ''revertData'', ''sourceTxHash''] data of
        Inl e \<Rightarrow> (Some e, db)
      | Inr f \<Rightarrow>
          let paymentUUID = parse_ignoring_error D (f ''paymentId'');
              status0 = mapStatus (f ''status'');
              newStatus = (if status0 = PaymentStatusPending then PaymentStatusFailed else status0);
              reason = decoded_reason D (f ''reason'') (f ''revertData'') in
          (case uow_Do (ie_begin E) (ie_commit E)
                  (payment_failed_tx D E paymentUUID newStatus reason (f ''revertData'') eventType (f ''sourceTxHash'') data) db of
             (Some e, db1) \<Rightarrow> (Some e, db1)
           | (None, db1) \<Rightarrow>
               (None, snd (enqueueWebhookDelivery D E paymentUUID (payment_status_string PaymentStatusFailed) data db1))))"

definition request_paid_event ::
  "indexer_deps \<Rightarrow> indexer_env \<Rightarrow> string \<Rightarrow> indexer_db \<Rightarrow> gerror option \<times> indexer_db" where
  "request_paid_event D E data db =
     (case Unmarshal_strings (ix_json D) [''id'', ''payer'', ''txHash''] data of
        Inl e \<Rightarrow> (Some e, db)
      | Inr f \<Rightarrow>
          let requestUUID = parse_ignoring_error D (f ''id'');
              db1 = db\<lparr>idb_requests := snd (request_MarkCompleted (ie_request E) (ie_now E) (idb_requests db) requestUUID (f ''txHash''))\<rparr>
          in if ix_hasSessions D then
               (case session_GetByPaymentRequestID (ie_session E) (idb_sessions db1) requestUUID of
                  Inl _ \<Rightarrow> (None, db1)
                | Inr s \<Rightarrow>
                    (None, db1\<lparr>idb_sessions := snd (session_MarkCompleted (ie_mark E) (ie_now E) (idb_sessions db1) (sess_ID s) (f ''txHash''))\<rparr>))
             else (None, db1))"

definition ProcessIndexerWebhook ::
  "indexer_deps \<Rightarrow> indexer_env \<Rightarrow> string \<Rightarrow> string \<Rightarrow> indexer_db \<Rightarrow> gerror option \<times> indexer_db" where
  "ProcessIndexerWebhook D E eventType data db =
     (if eventType \<in> {''PAYMENT_CREATED'', ''PAYMENT_EXECUTED'', ''PAYMENT_COMPLETED'', ''PAYMENT_REFUNDED''} then
        payment_event D E eventType data db
      else if eventType = ''PAYMENT_FAILED'' then payment_failed_event D E eventType data db
      else if eventType = ''PAYMENT_REQUEST_CREATED'' then (None, db)
      else if eventType = ''REQUEST_PAYMENT_RECEIVED'' then request_paid_event D E data db
      else (None, db))"

subsection \<open>Atomicity\<close>

lemma uow_Do_Some: "uow_Do b c fn db = (Some e, db') \<Longrightarrow> db' = db"
  using uow_Do_error [of b c fn db] by simp

lemma uow_Do_None: "uow_Do b c fn db = (None, db') \<Longrightarrow> fn db = (None, db')"
  using uow_Do_ok [of b c fn db] by simp

text \<open>
  Property C7. An event that is reported as an error left no trace: if processing fails for any
  reason (data that does not decode, an unknown payment, a failing statement or commit), no
  payment, event, request, session or delivery has changed.
\<close>

theorem indexer_error_changes_nothing:
  assumes "ProcessIndexerWebhook D E eventType data db = (Some e, db')"
  shows "db' = db"
proof -
  have "db' = db" if "payment_event D E t data db = (Some e, db')" for t
    using that by (auto simp: payment_event_def Let_def dest: uow_Do_Some split: sum.splits prod.splits option.splits if_splits)
  moreover have "db' = db" if "payment_failed_event D E t data db = (Some e, db')" for t
    using that by (auto simp: payment_failed_event_def Let_def dest: uow_Do_Some split: sum.splits prod.splits option.splits)
  moreover have "db' = db" if "request_paid_event D E data db = (Some e, db')"
    using that by (auto simp: request_paid_event_def Let_def split: sum.splits if_splits)
  ultimately show ?thesis using assms by (auto simp: ProcessIndexerWebhook_def split: if_splits)
qed


subsection \<open>Effect of payment events\<close>

lemma record_event_ok:
  assumes "record_event D E k ty tx data db = (None, db')"
  shows "\<exists>ev. db' = db\<lparr>idb_events := idb_events db @ [ev]\<rparr> \<and> erow_PaymentID ev = k \<and> erow_EventType ev = ty \<and> erow_TxHash ev = tx"
  using assms
  by (auto simp: record_event_def event_Create_def event_maxRetries_def numeral_eq_Suc Let_def case_prod_unfold insert_row_def event_row_of_def
      split: option.splits if_splits sum.splits)

lemma payment_status_tx_ok:
  assumes "payment_status_tx D E k st ty tx data db = (None, db')"
  shows "\<exists>ev. (\<exists>m\<in>set (idb_payments db). prow_ID m = k \<and> live_payment m) \<and>
    db' = db\<lparr>idb_payments := map (\<lambda>m. if prow_ID m = k \<and> live_payment m
                 then m\<lparr>prow_Status := payment_status_string st, prow_UpdatedAt := ie_now E\<rparr> else m) (idb_payments db),
             idb_events := idb_events db @ [ev]\<rparr> \<and>
    erow_PaymentID ev = k \<and> erow_EventType ev = ty \<and> erow_TxHash ev = tx"
proof -
  let ?upd = "payment_UpdateStatus (ie_update E) (ie_now E) (idb_payments db) k st"
  obtain ps where u: "?upd = (None, ps)"
    using assms by (cases ?upd) (auto simp: payment_status_tx_def split: sum.splits option.splits)
  have rec: "record_event D E k ty tx data (db\<lparr>idb_payments := ps\<rparr>) = (None, db')"
    using assms u by (auto simp: payment_status_tx_def split: sum.splits)
  have err: "fst ?upd = None" and tab: "snd ?upd = ps" using u by simp_all
  have f: "ie_update E = None" and ex: "\<exists>m\<in>set (idb_payments db). prow_ID m = k \<and> live_payment m"
    using err by (auto simp: payment_UpdateStatus_def update_live_payment_def update_checked_error split: option.splits if_splits)
  have "ps = map (\<lambda>m. if prow_ID m = k \<and> live_payment m
      then m\<lparr>prow_Status := payment_status_string st, prow_UpdatedAt := ie_now E\<rparr> else m) (idb_payments db)"
    using tab f by (simp add: payment_UpdateStatus_def update_live_payment_def update_checked_table)
  with record_event_ok [OF rec] ex show ?thesis by auto
qed

lemma enqueue_effect:
  "snd (enqueueWebhookDelivery D E k ty data db) = db \<or>
    (\<exists>d. snd (enqueueWebhookDelivery D E k ty data db) = db\<lparr>idb_deliveries := idb_deliveries db @ [d]\<rparr> \<and>
      del_PaymentID d = k \<and> del_EventType d = ty \<and> del_Payload d = Some data \<and> del_DeliveryStatus d = ''pending'' \<and> del_RetryCount d = 0)"
  by (auto simp: enqueueWebhookDelivery_def webhook_Create_def Let_def delivery_insert_def delivery_toModel_def insert_row_def
      delivery_status_defs new_delivery_def split: sum.splits option.splits if_splits)

lemma payment_event_rows:
  assumes ty: "eventType \<in> {''PAYMENT_CREATED'', ''PAYMENT_EXECUTED'', ''PAYMENT_COMPLETED'', ''PAYMENT_REFUNDED''}"
    and dec: "Unmarshal_strings (ix_json D) [''paymentId'', ''status'', ''sourceTxHash'', ''destTxHash''] data = Inr f"
    and id: "uuid_Parse (ix_uuid D) (f ''paymentId'') = Some k"
    and res: "ProcessIndexerWebhook D E eventType data db = (None, db')"
  shows "(\<exists>m\<in>set (idb_payments db). prow_ID m = k \<and> live_payment m) \<and>
    idb_payments db' = map (\<lambda>m. if prow_ID m = k \<and> live_payment m
        then m\<lparr>prow_Status := payment_status_string (mapStatus (f ''status'')), prow_UpdatedAt := ie_now E\<rparr> else m) (idb_payments db) \<and>
    (\<exists>ev. idb_events db' = idb_events db @ [ev] \<and> erow_PaymentID ev = k \<and> erow_EventType ev = eventType \<and>
      erow_TxHash ev = f ''sourceTxHash'') \<and>
    (idb_deliveries db' = idb_deliveries db \<or>
      mapStatus (f ''status'') \<in> {PaymentStatusCompleted, PaymentStatusRefunded} \<and>
      (\<exists>d. idb_deliveries db' = idb_deliveries db @ [d] \<and> del_PaymentID d = k \<and> del_Payload d = Some data \<and> del_DeliveryStatus d = ''pending'')) \<and>
    idb_requests db' = idb_requests db \<and> idb_sessions db' = idb_sessions db"
proof -
  have pe: "payment_event D E eventType data db = (None, db')" using res ty by (auto simp: ProcessIndexerWebhook_def)
  let ?st = "mapStatus (f ''status'')"
  let ?tx = "payment_status_tx D E k ?st eventType (f ''sourceTxHash'') data"
  obtain db1 where u: "uow_Do (ie_begin E) (ie_commit E) ?tx db = (None, db1)"
      and fin: "db' = (if ?st = PaymentStatusCompleted \<or> ?st = PaymentStatusRefunded
        then snd (enqueueWebhookDelivery D E k (payment_status_string ?st) data db1) else db1)"
    using pe id
    by (cases "uow_Do (ie_begin E) (ie_commit E) ?tx db")
      (auto simp: payment_event_def dec parse_ignoring_error_def Let_def split: option.splits if_splits)
  obtain ev where ev: "\<exists>m\<in>set (idb_payments db). prow_ID m = k \<and> live_payment m"
      "db1 = db\<lparr>idb_payments := map (\<lambda>m. if prow_ID m = k \<and> live_payment m
           then m\<lparr>prow_Status := payment_status_string ?st, prow_UpdatedAt := ie_now E\<rparr> else m) (idb_payments db),
         idb_events := idb_events db @ [ev]\<rparr>"
      "erow_PaymentID ev = k" "erow_EventType ev = eventType" "erow_TxHash ev = f ''sourceTxHash''"
    using payment_status_tx_ok [OF uow_Do_None [OF u]] by blast
  show ?thesis
  proof (cases "?st = PaymentStatusCompleted \<or> ?st = PaymentStatusRefunded")
    case False
    with fin ev show ?thesis by simp
  next
    case True
    from enqueue_effect [of D E k "payment_status_string ?st" data db1] True fin ev show ?thesis by auto
  qed
qed

text \<open>
  Property C6. A payment event that succeeds sets the status of the live payment it names to the
  status in the event, whatever it was before, appends one event to the payment's history,
  and adds at most one pending delivery, and only for a completed or refunded payment;
  requests and sessions are not touched.
\<close>

theorem payment_event_effect:
  assumes ty: "eventType \<in> {''PAYMENT_CREATED'', ''PAYMENT_EXECUTED'', ''PAYMENT_COMPLETED'', ''PAYMENT_REFUNDED''}"
    and dec: "Unmarshal_strings (ix_json D) [''paymentId'', ''status'', ''sourceTxHash'', ''destTxHash''] data = Inr f"
    and id: "uuid_Parse (ix_uuid D) (f ''paymentId'') = Some k"
    and res: "ProcessIndexerWebhook D E eventType data db = (None, db')"
  shows "(\<exists>m\<in>set (idb_payments db). prow_ID m = k \<and> live_payment m) \<and>
    idb_payments db' = map (\<lambda>m. if prow_ID m = k \<and> live_payment m
        then m\<lparr>prow_Status := payment_status_string (mapStatus (f ''status'')), prow_UpdatedAt := ie_now E\<rparr> else m) (idb_payments db) \<and>
    (\<exists>ev. idb_events db' = idb_events db @ [ev] \<and> erow_PaymentID ev = k \<and> erow_EventType ev = eventType \<and>
      erow_TxHash ev = f ''sourceTxHash'') \<and>
    (idb_deliveries db' = idb_deliveries db \<or>
      mapStatus (f ''status'') \<in> {PaymentStatusCompleted, PaymentStatusRefunded} \<and>
      (\<exists>d. idb_deliveries db' = idb_deliveries db @ [d] \<and> del_PaymentID d = k \<and> del_Payload d = Some data \<and> del_DeliveryStatus d = ''pending'')) \<and>
    idb_requests db' = idb_requests db \<and> idb_sessions db' = idb_sessions db"
  using assms by (rule payment_event_rows)


subsection \<open>Notification\<close>

definition no_event_faults :: "indexer_env \<Rightarrow> bool" where
  "no_event_faults E \<longleftrightarrow>
     ie_begin E = None \<and> ie_get E = None \<and> ie_update E = None \<and> ie_event E 0 = None \<and> ie_commit E = None \<and>
     ie_get2 E = None \<and> ie_delivery E = None"

lemma payment_GetByID_live:
  assumes "m \<in> set t" "live_payment m" "distinct (map prow_ID t)"
  shows "payment_GetByID None cdb t (prow_ID m) = Inr (payment_toEntity cdb m)"
proof -
  have "distinct (map prow_ID (filter live_payment t))" using assms by (simp add: distinct_map_filter)
  from get_by_id_found [OF this, of m] assms show ?thesis by (simp add: payment_GetByID_def select_where_def)
qed

lemma record_event_succeeds:
  assumes "ie_event E 0 = None" "ie_eventID E \<notin> erow_ID ` set (idb_events db)"
  shows "\<exists>ev. record_event D E k ty tx data db = (None, db\<lparr>idb_events := idb_events db @ [ev]\<rparr>) \<and> erow_ID ev = ie_eventID E"
  using assms
  by (auto simp: record_event_def event_Create_def event_maxRetries_def numeral_eq_Suc insert_row_def event_row_of_def)

lemma enqueue_succeeds:
  assumes "ie_get2 E = None" "ie_delivery E = None" "payment_GetByID None (ix_chains D) (idb_payments db) k = Inr p"
    and "pay_MerchantID p = Some merchant" "ie_deliveryID E \<notin> del_ID ` set (idb_deliveries db)"
  shows "\<exists>d. snd (enqueueWebhookDelivery D E k ty data db) = db\<lparr>idb_deliveries := idb_deliveries db @ [d]\<rparr> \<and>
    del_ID d = ie_deliveryID E \<and> del_MerchantID d = merchant \<and> del_Payload d = Some data \<and> (\<forall>now. delivery_due now d)"
proof -
  let ?d = "delivery_insert (ie_deliveryID E) (ie_now E) (delivery_toModel (new_delivery E merchant k ty data))"
  have d: "del_ID ?d = ie_deliveryID E" "del_MerchantID ?d = merchant" "del_Payload ?d = Some data" "\<forall>now. delivery_due now ?d"
    by (simp_all add: delivery_insert_def delivery_toModel_def new_delivery_def delivery_due_def delivery_status_defs)
  then have "snd (enqueueWebhookDelivery D E k ty data db) = db\<lparr>idb_deliveries := idb_deliveries db @ [?d]\<rparr>"
    using assms by (simp add: enqueueWebhookDelivery_def webhook_Create_def insert_row_def Let_def)
  with d show ?thesis by blast
qed

lemma final_event_queued:
  assumes ty: "eventType \<in> {''PAYMENT_CREATED'', ''PAYMENT_EXECUTED'', ''PAYMENT_COMPLETED'', ''PAYMENT_REFUNDED''}"
    and dec: "Unmarshal_strings (ix_json D) [''paymentId'', ''status'', ''sourceTxHash'', ''destTxHash''] data = Inr f"
    and id: "uuid_Parse (ix_uuid D) (f ''paymentId'') = Some (prow_ID m)"
    and st: "mapStatus (f ''status'') \<in> {PaymentStatusCompleted, PaymentStatusRefunded}"
    and env: "no_event_faults E" "ie_eventID E \<notin> erow_ID ` set (idb_events db)"
      "ie_deliveryID E \<notin> del_ID ` set (idb_deliveries db)"
    and m: "m \<in> set (idb_payments db)" "live_payment m" "distinct (map prow_ID (idb_payments db))" "prow_MerchantID m = Some merchant"
  shows "\<exists>db' d ev. ProcessIndexerWebhook D E eventType data db = (None, db') \<and>
    idb_deliveries db' = idb_deliveries db @ [d] \<and> del_ID d = ie_deliveryID E \<and> del_MerchantID d = merchant \<and>
    del_Payload d = Some data \<and> (\<forall>now. delivery_due now d) \<and>
    idb_events db' = idb_events db @ [ev] \<and> erow_ID ev = ie_eventID E \<and>
    idb_payments db' = map (\<lambda>x. if x = m then x\<lparr>prow_Status := payment_status_string (mapStatus (f ''status'')), prow_UpdatedAt := ie_now E\<rparr>
                               else x) (idb_payments db)"
proof -
  let ?k = "prow_ID m" and ?st = "mapStatus (f ''status'')"
  have get: "payment_GetByID None (ix_chains D) (idb_payments db) ?k = Inr (payment_toEntity (ix_chains D) m)"
    using payment_GetByID_live [OF m(1-3)] .
  have eq: "x = m \<longleftrightarrow> prow_ID x = ?k \<and> live_payment x" if "x \<in> set (idb_payments db)" for x
    using m that by (auto simp: distinct_map dest: inj_onD)
  let ?m' = "m\<lparr>prow_Status := payment_status_string ?st, prow_UpdatedAt := ie_now E\<rparr>"
  let ?ps = "map (\<lambda>x. if x = m then ?m' else x) (idb_payments db)"
  have upd: "payment_UpdateStatus None (ie_now E) (idb_payments db) ?k ?st = (None, ?ps)"
  proof -
    let ?u = "payment_UpdateStatus None (ie_now E) (idb_payments db) ?k ?st"
    have "fst ?u = None" using m by (auto simp: payment_UpdateStatus_def update_live_payment_error)
    moreover have "snd ?u = ?ps"
      unfolding payment_UpdateStatus_def update_live_payment_table if_P [OF refl]
      by (intro map_cong refl if_cong) (use eq in blast)+
    ultimately show ?thesis by (rule prod_eqI [where q = "(None, ?ps)", unfolded fst_conv snd_conv])
  qed
  obtain ev where ev: "erow_ID ev = ie_eventID E" "record_event D E ?k eventType (f ''sourceTxHash'') data (db\<lparr>idb_payments := ?ps\<rparr>) =
      (None, db\<lparr>idb_payments := ?ps, idb_events := idb_events db @ [ev]\<rparr>)"
    using record_event_succeeds [of E "db\<lparr>idb_payments := ?ps\<rparr>" D ?k eventType "f ''sourceTxHash''" data] env
    by (auto simp: no_event_faults_def)
  let ?db1 = "db\<lparr>idb_payments := ?ps, idb_events := idb_events db @ [ev]\<rparr>"
  have tx: "uow_Do (ie_begin E) (ie_commit E) (payment_status_tx D E ?k ?st eventType (f ''sourceTxHash'') data) db = (None, ?db1)"
    using env(1) get upd ev by (simp add: uow_Do_def uow_run_def payment_status_tx_def no_event_faults_def)
  have "map prow_ID ?ps = map prow_ID (idb_payments db)" by simp
  then have "distinct (map prow_ID ?ps)" using m(3) by (simp only:)
  moreover have "?m' \<in> set ?ps" "live_payment ?m'" using m(1,2) by (auto simp: live_payment_def)
  ultimately have get2: "payment_GetByID None (ix_chains D) ?ps ?k = Inr (payment_toEntity (ix_chains D) ?m')"
    using payment_GetByID_live [of ?m' ?ps] by simp
  have "\<exists>d. snd (enqueueWebhookDelivery D E ?k (payment_status_string ?st) data ?db1) =
      ?db1\<lparr>idb_deliveries := idb_deliveries db @ [d]\<rparr> \<and> del_ID d = ie_deliveryID E \<and>
      del_MerchantID d = merchant \<and> del_Payload d = Some data \<and> (\<forall>now. delivery_due now d)"
    using enqueue_succeeds [of E D ?db1 ?k "payment_toEntity (ix_chains D) ?m'" merchant] env get2 m(4)
    by (simp add: no_event_faults_def payment_toEntity_def)
  then obtain d where d: "snd (enqueueWebhookDelivery D E ?k (payment_status_string ?st) data ?db1) =
      ?db1\<lparr>idb_deliveries := idb_deliveries db @ [d]\<rparr>" "del_ID d = ie_deliveryID E"
      "del_MerchantID d = merchant" "del_Payload d = Some data" "\<forall>now. delivery_due now d" by blast
  have "ProcessIndexerWebhook D E eventType data db = (None, ?db1\<lparr>idb_deliveries := idb_deliveries db @ [d]\<rparr>)"
    using ty st id tx d(1) by (auto simp: ProcessIndexerWebhook_def payment_event_def dec parse_ignoring_error_def Let_def)
  with d ev(1) show ?thesis by auto
qed


subsection \<open>Late and repeated events\<close>

definition sample_json :: json_lib where
  "sample_json =
     \<lparr>json_Parse = (\<lambda>s. if s = ''done'' then Some (JObject [(''PaymentID'', JString (uuid_format 21)), (''status'', JString ''completed'')])
                        else if s = ''late'' then Some (JObject [(''paymentId'', JString (uuid_format 21)), (''status'', JString ''pending'')])
                        else None),
      json_Print = (\<lambda>v. ''text'')\<rparr>"

definition sample_ix :: indexer_deps where
  "sample_ix =
     \<lparr>ix_uuid = rfc_uuid, ix_partial = (\<lambda>s. 0), ix_json = sample_json, ix_eth = sample_eth, ix_pq = (\<lambda>e. None), ix_chains = base_db,
      ix_hasSessions = True\<rparr>"

definition sample_ie :: "uuid \<Rightarrow> uuid \<Rightarrow> indexer_env" where
  "sample_ie ev del =
     \<lparr>ie_begin = None, ie_get = None, ie_update = None, ie_event = (\<lambda>_. None), ie_commit = None, ie_get2 = None, ie_delivery = None,
      ie_request = None, ie_session = None, ie_mark = None, ie_eventID = ev, ie_deliveryID = del, ie_now = 9\<rparr>"

definition sample_idb :: indexer_db where
  "sample_idb = \<lparr>idb_payments = [sample_payment_row], idb_events = [], idb_requests = [], idb_sessions = [], idb_deliveries = []\<rparr>"

lemma sample_decode:
  "\<exists>f. Unmarshal_strings (ix_json sample_ix) [''paymentId'', ''status'', ''sourceTxHash'', ''destTxHash''] ''done'' = Inr f \<and>
     uuid_Parse (ix_uuid sample_ix) (f ''paymentId'') = Some 21 \<and> f ''status'' = ''completed''"
  "\<exists>f. Unmarshal_strings (ix_json sample_ix) [''paymentId'', ''status'', ''sourceTxHash'', ''destTxHash''] ''late'' = Inr f \<and>
     uuid_Parse (ix_uuid sample_ix) (f ''paymentId'') = Some 21 \<and> f ''status'' = ''pending''"
proof -
  have "uuid_Parse rfc_uuid (uuid_format 21) = Some 21" using rfc_uuid_ok by (auto simp: uuid_lib_ok_def rfc_uuid_def)
  moreover have "EqualFold ''PaymentID'' ''paymentId''" by code_simp
  ultimately show
    "\<exists>f. Unmarshal_strings (ix_json sample_ix) [''paymentId'', ''status'', ''sourceTxHash'', ''destTxHash''] ''done'' = Inr f \<and>
       uuid_Parse (ix_uuid sample_ix) (f ''paymentId'') = Some 21 \<and> f ''status'' = ''completed''"
    "\<exists>f. Unmarshal_strings (ix_json sample_ix) [''paymentId'', ''status'', ''sourceTxHash'', ''destTxHash''] ''late'' = Inr f \<and>
       uuid_Parse (ix_uuid sample_ix) (f ''paymentId'') = Some 21 \<and> f ''status'' = ''pending''"
    by (simp_all add: Unmarshal_strings_def sample_ix_def sample_json_def json_field_def)
qed

lemma sample_row_facts: "prow_ID sample_payment_row = 21" "live_payment sample_payment_row" "prow_MerchantID sample_payment_row = Some 9"
  by (simp_all add: sample_payment_defs)



lemma sample_event:
  assumes f: "Unmarshal_strings (ix_json sample_ix) [''paymentId'', ''status'', ''sourceTxHash'', ''destTxHash''] data = Inr f"
      "uuid_Parse (ix_uuid sample_ix) (f ''paymentId'') = Some 21"
    and ty: "eventType \<in> {''PAYMENT_CREATED'', ''PAYMENT_COMPLETED''}"
    and db: "idb_payments db = [m]" "prow_ID m = 21" "live_payment m" "a \<notin> erow_ID ` set (idb_events db)"
  shows "fst (ProcessIndexerWebhook sample_ix (sample_ie a b) eventType data db) = None"
proof -
  have get: "payment_GetByID None (ix_chains sample_ix) (idb_payments db) 21 = Inr (payment_toEntity (ix_chains sample_ix) m)"
    using payment_GetByID_live [of m "[m]"] db by simp
  have upd: "fst (payment_UpdateStatus None 9 [m] 21 st) = None" for st
    using db by (simp add: payment_UpdateStatus_def update_live_payment_error)
  have rec: "fst (record_event sample_ix (sample_ie a b) 21 t x data d) = None" if "idb_events d = idb_events db" for t x d
    using record_event_succeeds [of "sample_ie a b" d sample_ix 21 t x data] db(4) that by (auto simp: sample_ie_def)
  have "fst (payment_status_tx sample_ix (sample_ie a b) 21 st t x data db) = None" for st t x
  proof -
    obtain ps where "payment_UpdateStatus None 9 [m] 21 st = (None, ps)" using upd [of st] by (metis prod.collapse)
    with get rec db(1) show ?thesis by (simp add: payment_status_tx_def sample_ie_def)
  qed
  then obtain d where d: "payment_status_tx sample_ix (sample_ie a b) 21 (mapStatus (f ''status'')) eventType (f ''sourceTxHash'') data db =
      (None, d)" by (metis prod.collapse)
  then have "uow_Do (ie_begin (sample_ie a b)) (ie_commit (sample_ie a b))
      (payment_status_tx sample_ix (sample_ie a b) 21 (mapStatus (f ''status'')) eventType (f ''sourceTxHash'') data) db = (None, d)"
    by (simp add: uow_Do_def uow_run_def sample_ie_def)
  moreover have "eventType \<in> {''PAYMENT_CREATED'', ''PAYMENT_EXECUTED'', ''PAYMENT_COMPLETED'', ''PAYMENT_REFUNDED''}" using ty by auto
  ultimately show ?thesis
    using f by (simp add: ProcessIndexerWebhook_def payment_event_def parse_ignoring_error_def Let_def)
qed


theorem payment_event_effect_witness:
  "\<exists>db'. ProcessIndexerWebhook sample_ix (sample_ie 1 2) ''PAYMENT_CREATED'' ''late'' sample_idb = (None, db') \<and>
     map prow_Status (idb_payments db') = [''PENDING''] \<and> length (idb_events db') = 1"
proof -
  obtain g where g: "Unmarshal_strings (ix_json sample_ix) [''paymentId'', ''status'', ''sourceTxHash'', ''destTxHash''] ''late'' = Inr g"
      "uuid_Parse (ix_uuid sample_ix) (g ''paymentId'') = Some 21" "g ''status'' = ''pending''"
    using sample_decode(2) by blast
  have "fst (ProcessIndexerWebhook sample_ix (sample_ie 1 2) ''PAYMENT_CREATED'' ''late'' sample_idb) = None"
    using sample_event [OF g(1,2), of "''PAYMENT_CREATED''" sample_idb sample_payment_row 1 2] sample_row_facts by (simp add: sample_idb_def)
  then obtain db' where r: "ProcessIndexerWebhook sample_ix (sample_ie 1 2) ''PAYMENT_CREATED'' ''late'' sample_idb = (None, db')"
    by (metis prod.collapse)
  have "''PAYMENT_CREATED'' \<in> {''PAYMENT_CREATED'', ''PAYMENT_EXECUTED'', ''PAYMENT_COMPLETED'', ''PAYMENT_REFUNDED''}" by simp
  from payment_event_effect [OF this g(1,2) r] r g(3) sample_row_facts show ?thesis
    by (auto simp: sample_idb_def mapStatus_def)
qed

theorem indexer_error_changes_nothing_witness:
  "\<exists>e. ProcessIndexerWebhook sample_ix (sample_ie 1 2) ''PAYMENT_FAILED'' ''broken'' sample_idb = (Some e, sample_idb)"
proof -
  have "fst (ProcessIndexerWebhook sample_ix (sample_ie 1 2) ''PAYMENT_FAILED'' ''broken'' sample_idb) \<noteq> None"
    by (simp add: ProcessIndexerWebhook_def payment_failed_event_def Unmarshal_strings_def sample_ix_def sample_json_def)
  then obtain e db' where r: "ProcessIndexerWebhook sample_ix (sample_ie 1 2) ''PAYMENT_FAILED'' ''broken'' sample_idb = (Some e, db')"
    by (metis option.exhaust prod.collapse)
  from indexer_error_changes_nothing [OF r] r show ?thesis by simp
qed


subsection \<open>Paid requests\<close>

lemma first_by_unique:
  assumes "x \<in> set t" "p x" "\<And>y. y \<in> set t \<Longrightarrow> p y \<Longrightarrow> y = x"
  shows "first_by pk p t = Some x"
proof -
  have "first_by pk p t \<noteq> None" using assms(1,2) by (auto simp: first_by_None)
  then obtain y where y: "first_by pk p t = Some y" by blast
  with first_by_SomeD [OF y] assms(3) show ?thesis by auto
qed

lemma request_paid_rows:
  assumes dec: "Unmarshal_strings (ix_json D) [''id'', ''payer'', ''txHash''] data = Inr f"
    and id: "uuid_Parse (ix_uuid D) (f ''id'') = Some k"
    and env: "ie_request E = None" "ie_session E = None" "ie_mark E = None" "ix_hasSessions D"
    and s: "s \<in> set (idb_sessions db)" "sess_PaymentRequestID s = Some k"
      "\<And>y. y \<in> set (idb_sessions db) \<Longrightarrow> sess_PaymentRequestID y = Some k \<Longrightarrow> y = s"
  shows "ProcessIndexerWebhook D E ''REQUEST_PAYMENT_RECEIVED'' data db =
    (None, db\<lparr>idb_requests := map (\<lambda>m. if rrow_ID m = k \<and> live_request m
             then m\<lparr>rrow_Status := ''COMPLETED'', rrow_TxHash := f ''txHash'', rrow_CompletedAt := Some (ie_now E), rrow_UpdatedAt := ie_now E\<rparr>
             else m) (idb_requests db),
           idb_sessions := map (\<lambda>x. if sess_ID x = sess_ID s
             then x\<lparr>sess_Status := ''COMPLETED'', sess_PaidTxHash := Some (f ''txHash''), sess_CompletedAt := Some (ie_now E),
                    sess_UpdatedAt := ie_now E\<rparr> else x) (idb_sessions db)\<rparr>)"
proof -
  have "first_by sess_ID (\<lambda>x. sess_PaymentRequestID x = Some k) (idb_sessions db) = Some s"
    by (rule first_by_unique [where p = "\<lambda>x. sess_PaymentRequestID x = Some k", OF s(1,2)]) (rule s(3))
  then have get: "session_GetByPaymentRequestID None (idb_sessions db) k = Inr s" by (simp add: session_GetByPaymentRequestID_def)
  have req: "snd (request_MarkCompleted None n t k h) = map (\<lambda>m. if rrow_ID m = k \<and> live_request m
      then m\<lparr>rrow_Status := ''COMPLETED'', rrow_TxHash := h, rrow_CompletedAt := Some n, rrow_UpdatedAt := n\<rparr> else m) t" for n t h
    by (simp add: request_MarkCompleted_def request_update_def)
  have ses: "snd (session_MarkCompleted None n t j h) = map (\<lambda>x. if sess_ID x = j
      then x\<lparr>sess_Status := ''COMPLETED'', sess_PaidTxHash := Some h, sess_CompletedAt := Some n, sess_UpdatedAt := n\<rparr> else x) t" for n t j h
    by (simp add: session_MarkCompleted_def update_by_id_table session_status_defs)
  have "request_paid_event D E data db = (None, db\<lparr>idb_requests := snd (request_MarkCompleted None (ie_now E) (idb_requests db) k (f ''txHash'')),
      idb_sessions := snd (session_MarkCompleted None (ie_now E) (idb_sessions db) (sess_ID s) (f ''txHash''))\<rparr>)"
    using id env get unfolding request_paid_event_def dec parse_ignoring_error_def by (simp add: Let_def)
  moreover have "ProcessIndexerWebhook D E ''REQUEST_PAYMENT_RECEIVED'' data db = request_paid_event D E data db"
    by (simp add: ProcessIndexerWebhook_def)
  ultimately show ?thesis unfolding req ses by (simp only:)
qed

end
