(* ===== verification/Soft_Delete.thy ===== *)
theory Soft_Delete
  imports Sql_Table Paging "HOL-Library.Product_Lexorder"
begin

text \<open>
  The repositories of the configuration tables (\<^verbatim>\<open>internal/infrastructure/repositories\<close>) have one
  shape: rows with a primary key and a deletion mark, which GORM adds to every condition. This
  theory holds the statements they issue, the finite map such a table stands for, and the locale
  in which it is proved once that the statements implement the map.
\<close>

definition soft_get ::
  "('r \<Rightarrow> uuid) \<Rightarrow> ('r \<Rightarrow> time option) \<Rightarrow> ('r \<Rightarrow> 'e) \<Rightarrow> fault \<Rightarrow> 'r table \<Rightarrow> uuid \<Rightarrow> 'e result" where
  "soft_get pk del to_e flt t k = map_sum (\<lambda>e. e) to_e (get_by_id flt pk k (select_where (\<lambda>m. del m = None) t))"

definition soft_insert :: "('r \<Rightarrow> uuid) \<Rightarrow> fault \<Rightarrow> 'r table \<Rightarrow> 'r \<Rightarrow> 'r table result" where
  "soft_insert pk flt t m = (case flt of Some e \<Rightarrow> Inl e | None \<Rightarrow> insert_row pk m t)"

definition soft_update ::
  "('r \<Rightarrow> uuid) \<Rightarrow> ('r \<Rightarrow> time option) \<Rightarrow> fault \<Rightarrow> 'r table \<Rightarrow> uuid \<Rightarrow> ('r \<Rightarrow> 'r) \<Rightarrow> gerror option \<times> 'r table" where
  "soft_update pk del flt t k f = update_checked flt (\<lambda>m. pk m = k \<and> del m = None) f t"

definition soft_list ::
  "('r \<Rightarrow> time option) \<Rightarrow> ('r \<Rightarrow> 'e) \<Rightarrow> 'r orderer \<Rightarrow> fault \<Rightarrow> fault \<Rightarrow> 'r table \<Rightarrow> ('r \<Rightarrow> bool) \<Rightarrow> PaginationParams \<Rightarrow>
   ('e list \<times> int) result" where
  "soft_list del to_e ord flt1 flt2 t p pg =
     (case flt1 of
        Some e \<Rightarrow> Inl e
      | None \<Rightarrow>
          let rows = select_where (\<lambda>m. del m = None \<and> p m) t in
          (case flt2 of
             Some e \<Rightarrow> Inl e
           | None \<Rightarrow>
               Inr (map to_e (if Limit pg > 0 then sql_page (Limit pg) (CalculateOffset pg) (ord rows) else ord rows),
                    int (length rows))))"

text \<open>\<^verbatim>\<open>ORDER BY updated_at DESC, id LIMIT 1\<close> over the live rows that match.\<close>

definition soft_latest ::
  "('r \<Rightarrow> uuid) \<Rightarrow> ('r \<Rightarrow> time option) \<Rightarrow> ('r \<Rightarrow> time) \<Rightarrow> ('r \<Rightarrow> 'e) \<Rightarrow> fault \<Rightarrow> 'r table \<Rightarrow> ('r \<Rightarrow> bool) \<Rightarrow> 'e result" where
  "soft_latest pk del upd to_e flt t p =
     (case flt of
        Some e \<Rightarrow> Inl e
      | None \<Rightarrow>
          (case first_by (\<lambda>m. (- upd m, pk m)) (\<lambda>m. del m = None \<and> p m) t of
             None \<Rightarrow> Inl (Sentinel ErrNotFound)
           | Some m \<Rightarrow> Inr (to_e m)))"

text \<open>The map a table stands for: the live row under each key, as an entity.\<close>

definition soft_abs :: "('r \<Rightarrow> uuid) \<Rightarrow> ('r \<Rightarrow> time option) \<Rightarrow> ('r \<Rightarrow> 'e) \<Rightarrow> 'r table \<Rightarrow> uuid \<Rightarrow> 'e option" where
  "soft_abs pk del to_e t k = map_option to_e (find (\<lambda>m. pk m = k \<and> del m = None) t)"

lemma find_unique:
  assumes "distinct (map pk t)" "r \<in> set t" "P r" "\<And>x. P x \<Longrightarrow> pk x = pk r"
  shows "find P t = Some r"
  using assms(1,2)
proof (induction t)
  case (Cons a t)
  show ?case
  proof (cases "a = r")
    case True
    then show ?thesis using assms(3) by simp
  next
    case False
    then have r: "r \<in> set t" using Cons.prems(2) by simp
    then have "pk a \<noteq> pk r" using Cons.prems(1) by auto
    then have "\<not> P a" using assms(4) by blast
    then show ?thesis using Cons.IH r Cons.prems(1) by simp
  qed
qed simp

lemma find_map_cong:
  assumes "\<And>r. P (f r) = P r"
  shows "find P (map f t) = map_option f (find P t)"
  by (induction t) (auto simp: assms)

lemma find_map_None: "(\<And>r. \<not> P (f r)) \<Longrightarrow> find P (map f t) = None"
  by (induction t) simp_all

locale soft_repo =
  fixes pk :: "'r \<Rightarrow> uuid" and del :: "'r \<Rightarrow> time option" and setdel :: "time \<Rightarrow> 'r \<Rightarrow> 'r" and to_e :: "'r \<Rightarrow> 'e"
  assumes pk_setdel: "pk (setdel now r) = pk r"
    and del_setdel: "del (setdel now r) = Some now"
begin

abbreviation live_at where "live_at k r \<equiv> pk r = k \<and> del r = None"

lemma find_live:
  assumes "distinct (map pk t)" "r \<in> set t" "del r = None"
  shows "find (live_at (pk r)) t = Some r"
  using assms by (intro find_unique [of pk]) auto

lemma get_refines:
  assumes "distinct (map pk t)"
  shows "soft_get pk del to_e None t k =
    (case soft_abs pk del to_e t k of Some e \<Rightarrow> Inr e | None \<Rightarrow> Inl (Sentinel ErrNotFound))"
proof (cases "find (live_at k) t")
  case None
  then have "first_by pk (\<lambda>r. pk r = k) (select_where (\<lambda>m. del m = None) t) = None"
    by (auto simp: first_by_None select_where_def find_None_iff)
  with None show ?thesis by (simp add: soft_get_def soft_abs_def get_by_id_def)
next
  case (Some r)
  then have r: "r \<in> set t" "pk r = k" "del r = None" by (auto simp: find_Some_iff)
  have "distinct (map pk (select_where (\<lambda>m. del m = None) t))"
    using assms by (simp add: select_where_def distinct_map_filter)
  from get_by_id_found [OF this, of r] r Some show ?thesis
    by (simp add: soft_get_def soft_abs_def select_where_def)
qed

lemma insert_refines:
  assumes "soft_insert pk flt t m = Inr t'" "del m = None" "distinct (map pk t)"
  shows "soft_abs pk del to_e t' = (soft_abs pk del to_e t)(pk m \<mapsto> to_e m)" and "distinct (map pk t')"
    and "soft_abs pk del to_e t (pk m) = None"
proof -
  from assms(1) have t': "t' = t @ [m]" and new: "pk m \<notin> pk ` set t"
    by (auto simp: soft_insert_def insert_row_def split: option.splits if_splits)
  have "find P (t @ [m]) = (case find P t of None \<Rightarrow> if P m then Some m else None | Some r \<Rightarrow> Some r)" for P
    by (induction t) auto
  moreover have none: "find (live_at (pk m)) t = None" using new unfolding find_None_iff by (metis image_eqI)
  ultimately show "soft_abs pk del to_e t' = (soft_abs pk del to_e t)(pk m \<mapsto> to_e m)"
    using assms(2) t' by (auto simp: soft_abs_def fun_eq_iff split: option.splits)
  show "distinct (map pk t')" using assms(3) new t' by simp
  show "soft_abs pk del to_e t (pk m) = None" using none by (simp add: soft_abs_def)
qed

lemma insert_fails:
  assumes "soft_insert pk None t m = Inl e"
  shows "pk m \<in> pk ` set t"
  using assms by (auto simp: soft_insert_def insert_row_def split: if_splits)

lemma rows_rewritten:
  assumes "\<And>r. pk (f r) = pk r"
  shows "distinct (map pk (map (\<lambda>m. if live_at k m then f m else m) t)) = distinct (map pk t)"
proof -
  have "map pk (map (\<lambda>m. if live_at k m then f m else m) t) = map pk t" using assms by simp
  then show ?thesis by (simp only:)
qed

lemma abs_rewritten:
  assumes "\<And>r. pk (f r) = pk r" "\<And>r. del (f r) = del r"
  shows "soft_abs pk del to_e (map (\<lambda>m. if live_at k m then f m else m) t) =
    (soft_abs pk del to_e t)(k := map_option (\<lambda>r. to_e (f r)) (find (live_at k) t))"
proof
  fix j
  have "find (live_at j) (map (\<lambda>m. if live_at k m then f m else m) t) =
      map_option (\<lambda>m. if live_at k m then f m else m) (find (live_at j) t)"
    by (rule find_map_cong) (simp add: assms)
  then show "soft_abs pk del to_e (map (\<lambda>m. if live_at k m then f m else m) t) j =
      ((soft_abs pk del to_e t)(k := map_option (\<lambda>r. to_e (f r)) (find (live_at k) t))) j"
    by (auto simp: soft_abs_def option.map_comp find_Some_iff intro!: option.map_cong)
qed

lemma update_refines:
  assumes "\<And>r. pk (f r) = pk r" "\<And>r. del (f r) = del r" "\<And>r. to_e (f r) = g (to_e r)"
    and "soft_update pk del None t k f = (err, t')"
  shows "soft_abs pk del to_e t' = (soft_abs pk del to_e t)(k := map_option g (soft_abs pk del to_e t k))"
    and "err = (if soft_abs pk del to_e t k = None then Some (Sentinel ErrNotFound) else None)"
    and "distinct (map pk t') = distinct (map pk t)"
proof -
  have t': "t' = map (\<lambda>m. if live_at k m then f m else m) t"
    and err: "err = (if \<exists>m\<in>set t. live_at k m then None else Some (Sentinel ErrNotFound))"
    using assms(4) update_checked_table [of None "live_at k" f t] update_checked_error [of None "live_at k" f t]
    by (auto simp: soft_update_def)
  show "soft_abs pk del to_e t' = (soft_abs pk del to_e t)(k := map_option g (soft_abs pk del to_e t k))"
    unfolding t' abs_rewritten [OF assms(1,2)] using assms(3) by (simp add: soft_abs_def option.map_comp o_def)
  show "err = (if soft_abs pk del to_e t k = None then Some (Sentinel ErrNotFound) else None)"
    unfolding err by (auto simp: soft_abs_def find_None_iff)
  show "distinct (map pk t') = distinct (map pk t)" unfolding t' by (rule rows_rewritten [OF assms(1)])
qed

lemma delete_refines:
  assumes "distinct (map pk t)" "soft_update pk del None t k (setdel now) = (err, t')"
  shows "soft_abs pk del to_e t' = (soft_abs pk del to_e t)(k := None)"
    and "err = (if soft_abs pk del to_e t k = None then Some (Sentinel ErrNotFound) else None)"
    and "distinct (map pk t')"
proof -
  have t': "t' = map (\<lambda>m. if live_at k m then setdel now m else m) t"
    and err: "err = (if \<exists>m\<in>set t. live_at k m then None else Some (Sentinel ErrNotFound))"
    using assms(2) update_checked_table [of None "live_at k" "setdel now" t] update_checked_error [of None "live_at k" "setdel now" t]
    by (auto simp: soft_update_def)
  show "soft_abs pk del to_e t' = (soft_abs pk del to_e t)(k := None)"
  proof
    fix j
    show "soft_abs pk del to_e t' j = ((soft_abs pk del to_e t)(k := None)) j"
    proof (cases "j = k")
      case True
      have "\<not> live_at k (if live_at k m then setdel now m else m)" for m
        by (cases "live_at k m") (simp_all add: pk_setdel del_setdel)
      then have "find (live_at k) t' = None" unfolding t' by (rule find_map_None)
      then show ?thesis using True by (simp add: soft_abs_def)
    next
      case False
      have "live_at j (if live_at k m then setdel now m else m) = live_at j m" for m
        using False by (simp add: pk_setdel del_setdel)
      then have "find (live_at j) t' = map_option (\<lambda>m. if live_at k m then setdel now m else m) (find (live_at j) t)"
        unfolding t' by (rule find_map_cong)
      also have "\<dots> = find (live_at j) t"
      proof (cases "find (live_at j) t")
        case (Some r)
        then have "pk r = j" unfolding find_Some_iff by blast
        then show ?thesis using Some False by simp
      qed simp
      finally have "find (live_at j) t' = find (live_at j) t" .
      then show ?thesis using False by (simp add: soft_abs_def)
    qed
  qed
  show "err = (if soft_abs pk del to_e t k = None then Some (Sentinel ErrNotFound) else None)"
    unfolding err by (auto simp: soft_abs_def find_None_iff)
  show "distinct (map pk t')" unfolding t' using rows_rewritten [of "setdel now"] assms(1) by (simp add: pk_setdel)
qed

lemma latest_live:
  assumes "soft_latest pk del upd to_e flt t p = Inr e" "distinct (map pk t)"
  shows "\<exists>k. soft_abs pk del to_e t k = Some e"
proof -
  obtain r where r: "first_by (\<lambda>m. (- upd m, pk m)) (\<lambda>m. del m = None \<and> p m) t = Some r" "e = to_e r"
    using assms(1) by (auto simp: soft_latest_def split: option.splits)
  from first_by_SomeD [OF r(1)] have "r \<in> set t" "del r = None" by auto
  with find_live [OF assms(2)] r(2) show ?thesis by (auto simp: soft_abs_def intro!: exI [of _ "pk r"])
qed

end

end
