(* ===== verification/Bridge_Tables.thy ===== *)
theory Bridge_Tables
  imports Soft_Delete Payments
begin

text \<open>
  The tables that configure routes between chains, one repository each
  (\<^verbatim>\<open>internal/infrastructure/repositories\<close>): route policies (\<^verbatim>\<open>route_policy_repo_impl.go\<close>), Stargate
  peers (\<^verbatim>\<open>stargate_config_repo_impl.go\<close>), bridges (\<^verbatim>\<open>payment_bridge_repo_impl.go\<close>), bridge configurations
  (\<^verbatim>\<open>bridge_config_repo_impl.go\<close>) and fee configurations (\<^verbatim>\<open>fee_config_repo_impl.go\<close>). Each is shown to
  implement a finite map by interpreting \<open>soft_repo\<close>. Numeric columns are kept as the text written.
\<close>

subsection \<open>Route policies\<close>

definition BridgeFallbackModeStrict :: string where "BridgeFallbackModeStrict = ''strict''"
definition BridgeFallbackModeAutoFallback :: string where "BridgeFallbackModeAutoFallback = ''auto_fallback''"

record RoutePolicy =
  pol_ID :: uuid
  pol_SourceChainID :: uuid
  pol_DestChainID :: uuid
  pol_DefaultBridgeType :: u8
  pol_FallbackMode :: string
  pol_FallbackOrder :: "u8 list"
  pol_SupportsTokenBridge :: bool
  pol_SupportsDestSwap :: bool
  pol_SupportsPrivacyForward :: bool
  pol_BridgeToken :: string
  pol_Status :: string
  pol_PerByteRate :: string
  pol_OverheadBytes :: string
  pol_MinFee :: string
  pol_MaxFee :: string
  pol_CreatedAt :: time
  pol_UpdatedAt :: time

record route_policy_row =
  rp_ID :: uuid
  rp_SourceChainID :: uuid
  rp_DestChainID :: uuid
  rp_DefaultBridgeType :: "16 word"
  rp_FallbackMode :: string
  rp_FallbackOrder :: string
  rp_SupportsTokenBridge :: bool
  rp_SupportsDestSwap :: bool
  rp_SupportsPrivacyForward :: bool
  rp_BridgeToken :: "string option"
  rp_Status :: string
  rp_PerByteRate :: "string option"
  rp_OverheadBytes :: "string option"
  rp_MinFee :: "string option"
  rp_MaxFee :: "string option"
  rp_CreatedAt :: time
  rp_UpdatedAt :: time
  rp_DeletedAt :: "time option"

definition nullableNumeric :: "string \<Rightarrow> string option" where
  "nullableNumeric v = (let s = TrimSpace v in if s = [] then None else Some s)"

definition nullableText :: "string \<Rightarrow> string option" where
  "nullableText v = (let s = TrimSpace v in if s = [] then None else Some s)"

definition normalizeRoutePolicyStatus :: "string \<Rightarrow> string" where
  "normalizeRoutePolicyStatus v = (let s = ToLower (TrimSpace v) in if s = [] then ''active'' else s)"

definition derefString :: "string option \<Rightarrow> string" where
  "derefString v = (case v of None \<Rightarrow> [] | Some s \<Rightarrow> s)"

fun write_items :: "u8 list \<Rightarrow> string" where
  "write_items [] = []"
| "write_items [b] = nat_string (unat b)"
| "write_items (b # bs) = nat_string (unat b) @ '','' @ write_items bs"

definition marshalFallbackOrder :: "u8 list \<Rightarrow> string" where
  "marshalFallbackOrder order = (if length order = 0 then ''[0]'' else ''['' @ write_items order @ '']'')"

text \<open>
  \<^verbatim>\<open>json.Unmarshal\<close> into a slice of bytes: an array of numbers in range, null elements staying
  zero, a null document the nil slice, a string its Base64 decoding (\<open>b64\<close>).
\<close>

record json_reader =
  jr_json :: json_lib
  jr_b64 :: "string \<Rightarrow> u8 list option"
  jr_column :: "string \<Rightarrow> string"

fun u8_element :: "json \<Rightarrow> u8 option" where
  "u8_element (JNumber s) = (case parse_digits s of Some n \<Rightarrow> if s \<noteq> [] \<and> n < 256 then Some (word_of_nat n) else None | None \<Rightarrow> None)"
| "u8_element JNull = Some 0"
| "u8_element _ = None"

definition unmarshal_u8s :: "json_reader \<Rightarrow> string \<Rightarrow> u8 list option" where
  "unmarshal_u8s R raw =
     (case json_Parse (jr_json R) raw of
        None \<Rightarrow> None
      | Some JNull \<Rightarrow> Some []
      | Some (JArray vs) \<Rightarrow> those (map u8_element vs)
      | Some (JString s) \<Rightarrow> jr_b64 R s
      | Some _ \<Rightarrow> None)"

definition parseFallbackOrder :: "json_reader \<Rightarrow> string \<Rightarrow> u8 list" where
  "parseFallbackOrder R raw =
     (if raw = [] then [0]
      else case unmarshal_u8s R raw of
             None \<Rightarrow> [0]
           | Some order \<Rightarrow> if length order = 0 then [0] else order)"

definition policy_mode :: "RoutePolicy \<Rightarrow> string" where
  "policy_mode p = (if pol_FallbackMode p = [] then BridgeFallbackModeStrict else pol_FallbackMode p)"

definition route_policy_row_of :: "uuid \<Rightarrow> time \<Rightarrow> RoutePolicy \<Rightarrow> route_policy_row" where
  "route_policy_row_of gen now p =
     \<lparr>rp_ID = (if pol_ID p = uuid_Nil then gen else pol_ID p), rp_SourceChainID = pol_SourceChainID p,
      rp_DestChainID = pol_DestChainID p, rp_DefaultBridgeType = ucast (pol_DefaultBridgeType p), rp_FallbackMode = policy_mode p,
      rp_FallbackOrder = marshalFallbackOrder (pol_FallbackOrder p), rp_SupportsTokenBridge = pol_SupportsTokenBridge p,
      rp_SupportsDestSwap = pol_SupportsDestSwap p, rp_SupportsPrivacyForward = pol_SupportsPrivacyForward p,
      rp_BridgeToken = nullableText (pol_BridgeToken p), rp_Status = normalizeRoutePolicyStatus (pol_Status p),
      rp_PerByteRate = nullableNumeric (pol_PerByteRate p), rp_OverheadBytes = nullableNumeric (pol_OverheadBytes p),
      rp_MinFee = nullableNumeric (pol_MinFee p), rp_MaxFee = nullableNumeric (pol_MaxFee p),
      rp_CreatedAt = now, rp_UpdatedAt = now, rp_DeletedAt = None\<rparr>"

text \<open>The order column is \<^verbatim>\<open>jsonb\<close>: what is read back is the document written, in the database's own layout.\<close>

definition toRoutePolicyEntity :: "json_reader \<Rightarrow> route_policy_row \<Rightarrow> RoutePolicy" where
  "toRoutePolicyEntity R m =
     \<lparr>pol_ID = rp_ID m, pol_SourceChainID = rp_SourceChainID m, pol_DestChainID = rp_DestChainID m,
      pol_DefaultBridgeType = ucast (rp_DefaultBridgeType m), pol_FallbackMode = rp_FallbackMode m,
      pol_FallbackOrder = parseFallbackOrder R (jr_column R (rp_FallbackOrder m)), pol_SupportsTokenBridge = rp_SupportsTokenBridge m,
      pol_SupportsDestSwap = rp_SupportsDestSwap m, pol_SupportsPrivacyForward = rp_SupportsPrivacyForward m,
      pol_BridgeToken = derefString (rp_BridgeToken m), pol_Status = normalizeRoutePolicyStatus (rp_Status m),
      pol_PerByteRate = derefString (rp_PerByteRate m), pol_OverheadBytes = derefString (rp_OverheadBytes m),
      pol_MinFee = derefString (rp_MinFee m), pol_MaxFee = derefString (rp_MaxFee m),
      pol_CreatedAt = rp_CreatedAt m, pol_UpdatedAt = rp_UpdatedAt m\<rparr>"

definition route_policy_GetByID :: "json_reader \<Rightarrow> fault \<Rightarrow> route_policy_row table \<Rightarrow> uuid \<Rightarrow> RoutePolicy result" where
  "route_policy_GetByID R = soft_get rp_ID rp_DeletedAt (toRoutePolicyEntity R)"

text \<open>\<^verbatim>\<open>ORDER BY updated_at DESC LIMIT 1\<close> without a key: among equal times the database chooses.\<close>

definition on_route :: "uuid \<Rightarrow> uuid \<Rightarrow> route_policy_row \<Rightarrow> bool" where
  "on_route src dst m \<longleftrightarrow> rp_SourceChainID m = src \<and> rp_DestChainID m = dst"

definition route_policy_GetByRoute ::
  "json_reader \<Rightarrow> route_policy_row orderer \<Rightarrow> fault \<Rightarrow> route_policy_row table \<Rightarrow> uuid \<Rightarrow> uuid \<Rightarrow> RoutePolicy result" where
  "route_policy_GetByRoute R ord flt t sourceChainID destChainID =
     (case flt of
        Some e \<Rightarrow> Inl e
      | None \<Rightarrow>
          (case ord (select_where (\<lambda>m. rp_DeletedAt m = None \<and> on_route sourceChainID destChainID m) t) of
             [] \<Rightarrow> Inl (Sentinel ErrNotFound)
           | m # _ \<Rightarrow> Inr (toRoutePolicyEntity R m)))"

definition opt_match :: "uuid option \<Rightarrow> uuid \<Rightarrow> bool" where
  "opt_match f k \<longleftrightarrow> (case f of None \<Rightarrow> True | Some v \<Rightarrow> k = v)"

definition route_policy_List ::
  "json_reader \<Rightarrow> route_policy_row orderer \<Rightarrow> fault \<Rightarrow> fault \<Rightarrow> route_policy_row table \<Rightarrow> uuid option \<Rightarrow> uuid option \<Rightarrow>
   PaginationParams \<Rightarrow> (RoutePolicy list \<times> int) result" where
  "route_policy_List R ord flt1 flt2 t src dst pg =
     soft_list rp_DeletedAt (toRoutePolicyEntity R) ord flt1 flt2 t
       (\<lambda>m. opt_match src (rp_SourceChainID m) \<and> opt_match dst (rp_DestChainID m)) pg"

definition route_policy_Create ::
  "fault \<Rightarrow> uuid \<Rightarrow> time \<Rightarrow> route_policy_row table \<Rightarrow> RoutePolicy \<Rightarrow> route_policy_row table result" where
  "route_policy_Create flt gen now t p = soft_insert rp_ID flt t (route_policy_row_of gen now p)"

definition route_policy_updates :: "time \<Rightarrow> RoutePolicy \<Rightarrow> route_policy_row \<Rightarrow> route_policy_row" where
  "route_policy_updates now p m =
     m\<lparr>rp_SourceChainID := pol_SourceChainID p, rp_DestChainID := pol_DestChainID p,
       rp_DefaultBridgeType := ucast (pol_DefaultBridgeType p), rp_FallbackMode := policy_mode p,
       rp_FallbackOrder := marshalFallbackOrder (pol_FallbackOrder p), rp_SupportsTokenBridge := pol_SupportsTokenBridge p,
       rp_SupportsDestSwap := pol_SupportsDestSwap p, rp_SupportsPrivacyForward := pol_SupportsPrivacyForward p,
       rp_BridgeToken := nullableText (pol_BridgeToken p), rp_Status := normalizeRoutePolicyStatus (pol_Status p),
       rp_PerByteRate := nullableNumeric (pol_PerByteRate p), rp_OverheadBytes := nullableNumeric (pol_OverheadBytes p),
       rp_MinFee := nullableNumeric (pol_MinFee p), rp_MaxFee := nullableNumeric (pol_MaxFee p), rp_UpdatedAt := now\<rparr>"

definition route_policy_Update ::
  "fault \<Rightarrow> time \<Rightarrow> route_policy_row table \<Rightarrow> RoutePolicy \<Rightarrow> gerror option \<times> route_policy_row table" where
  "route_policy_Update flt now t p = soft_update rp_ID rp_DeletedAt flt t (pol_ID p) (route_policy_updates now p)"

definition route_policy_deleted :: "time \<Rightarrow> route_policy_row \<Rightarrow> route_policy_row" where
  "route_policy_deleted now m = m\<lparr>rp_DeletedAt := Some now\<rparr>"

definition route_policy_Delete :: "fault \<Rightarrow> time \<Rightarrow> route_policy_row table \<Rightarrow> uuid \<Rightarrow> gerror option \<times> route_policy_row table" where
  "route_policy_Delete flt now t k = soft_update rp_ID rp_DeletedAt flt t k (route_policy_deleted now)"

interpretation policies: soft_repo rp_ID rp_DeletedAt route_policy_deleted "toRoutePolicyEntity R" for R
  by unfold_locales (simp_all add: route_policy_deleted_def)

subsection \<open>Stargate configurations\<close>

text \<open>Entity and model have the same fields; \<^verbatim>\<open>is_active\<close> has a column default, which replaces a false value on insert.\<close>

record StargateConfig =
  sg_ID :: uuid
  sg_SourceChainID :: uuid
  sg_DestChainID :: uuid
  sg_DstEID :: u32
  sg_PeerHex :: string
  sg_OptionsHex :: string
  sg_IsActive :: bool
  sg_CreatedAt :: time
  sg_UpdatedAt :: time
  sg_DeletedAt :: "time option"

definition options_or_default :: "string \<Rightarrow> string" where
  "options_or_default v = (let optionsHex = TrimSpace v in if optionsHex = [] then ''0x'' else optionsHex)"

definition stargate_row_of :: "uuid \<Rightarrow> time \<Rightarrow> StargateConfig \<Rightarrow> StargateConfig" where
  "stargate_row_of gen now c =
     \<lparr>sg_ID = (if sg_ID c = uuid_Nil then gen else sg_ID c), sg_SourceChainID = sg_SourceChainID c, sg_DestChainID = sg_DestChainID c,
      sg_DstEID = sg_DstEID c, sg_PeerHex = TrimSpace (sg_PeerHex c), sg_OptionsHex = options_or_default (sg_OptionsHex c),
      sg_IsActive = True, sg_CreatedAt = now, sg_UpdatedAt = now, sg_DeletedAt = None\<rparr>"

definition toStargateConfigEntity :: "StargateConfig \<Rightarrow> StargateConfig" where
  "toStargateConfigEntity m = m\<lparr>sg_DeletedAt := None\<rparr>"

definition stargate_GetByID :: "fault \<Rightarrow> StargateConfig table \<Rightarrow> uuid \<Rightarrow> StargateConfig result" where
  "stargate_GetByID = soft_get sg_ID sg_DeletedAt toStargateConfigEntity"

definition stargate_GetByRoute :: "fault \<Rightarrow> StargateConfig table \<Rightarrow> uuid \<Rightarrow> uuid \<Rightarrow> StargateConfig result" where
  "stargate_GetByRoute flt t src dst =
     soft_latest sg_ID sg_DeletedAt sg_UpdatedAt toStargateConfigEntity flt t
       (\<lambda>m. sg_SourceChainID m = src \<and> sg_DestChainID m = dst)"

definition stargate_List ::
  "StargateConfig orderer \<Rightarrow> fault \<Rightarrow> fault \<Rightarrow> StargateConfig table \<Rightarrow> uuid option \<Rightarrow> uuid option \<Rightarrow> bool option \<Rightarrow>
   PaginationParams \<Rightarrow> (StargateConfig list \<times> int) result" where
  "stargate_List ord flt1 flt2 t src dst active pg =
     soft_list sg_DeletedAt toStargateConfigEntity ord flt1 flt2 t
       (\<lambda>m. opt_match src (sg_SourceChainID m) \<and> opt_match dst (sg_DestChainID m) \<and>
            (case active of None \<Rightarrow> True | Some b \<Rightarrow> sg_IsActive m = b)) pg"

definition stargate_Create :: "fault \<Rightarrow> uuid \<Rightarrow> time \<Rightarrow> StargateConfig table \<Rightarrow> StargateConfig \<Rightarrow> StargateConfig table result" where
  "stargate_Create flt gen now t c = soft_insert sg_ID flt t (stargate_row_of gen now c)"

definition stargate_updates :: "time \<Rightarrow> StargateConfig \<Rightarrow> StargateConfig \<Rightarrow> StargateConfig" where
  "stargate_updates now c m =
     m\<lparr>sg_SourceChainID := sg_SourceChainID c, sg_DestChainID := sg_DestChainID c, sg_DstEID := sg_DstEID c,
       sg_PeerHex := TrimSpace (sg_PeerHex c), sg_OptionsHex := options_or_default (sg_OptionsHex c),
       sg_IsActive := sg_IsActive c, sg_UpdatedAt := now\<rparr>"

definition stargate_Update :: "fault \<Rightarrow> time \<Rightarrow> StargateConfig table \<Rightarrow> StargateConfig \<Rightarrow> gerror option \<times> StargateConfig table" where
  "stargate_Update flt now t c = soft_update sg_ID sg_DeletedAt flt t (sg_ID c) (stargate_updates now c)"

definition stargate_deleted :: "time \<Rightarrow> StargateConfig \<Rightarrow> StargateConfig" where
  "stargate_deleted now m = m\<lparr>sg_DeletedAt := Some now\<rparr>"

definition stargate_Delete :: "fault \<Rightarrow> time \<Rightarrow> StargateConfig table \<Rightarrow> uuid \<Rightarrow> gerror option \<times> StargateConfig table" where
  "stargate_Delete flt now t k = soft_update sg_ID sg_DeletedAt flt t k (stargate_deleted now)"

interpretation stargates: soft_repo sg_ID sg_DeletedAt stargate_deleted toStargateConfigEntity
  by unfold_locales (simp_all add: stargate_deleted_def)

subsection \<open>Bridges\<close>

record PaymentBridge =
  br_ID :: uuid
  br_Name :: string

record bridge_row =
  brow_ID :: uuid
  brow_Name :: string
  brow_CreatedAt :: time
  brow_UpdatedAt :: time
  brow_DeletedAt :: "time option"

definition bridge_toEntity :: "bridge_row \<Rightarrow> PaymentBridge" where
  "bridge_toEntity m = \<lparr>br_ID = brow_ID m, br_Name = brow_Name m\<rparr>"

definition bridge_GetByID :: "fault \<Rightarrow> bridge_row table \<Rightarrow> uuid \<Rightarrow> PaymentBridge result" where
  "bridge_GetByID = soft_get brow_ID brow_DeletedAt bridge_toEntity"

definition bridge_GetByName :: "fault \<Rightarrow> bridge_row table \<Rightarrow> string \<Rightarrow> PaymentBridge result" where
  "bridge_GetByName flt t name =
     (case flt of
        Some e \<Rightarrow> Inl e
      | None \<Rightarrow>
          (case first_by brow_ID (\<lambda>m. brow_DeletedAt m = None \<and> ToLower (brow_Name m) = ToLower (TrimSpace name)) t of
             None \<Rightarrow> Inl (Sentinel ErrNotFound)
           | Some m \<Rightarrow> Inr (bridge_toEntity m)))"

definition bridge_List ::
  "bridge_row orderer \<Rightarrow> fault \<Rightarrow> fault \<Rightarrow> bridge_row table \<Rightarrow> PaginationParams \<Rightarrow> (PaymentBridge list \<times> int) result" where
  "bridge_List ord flt1 flt2 t pg = soft_list brow_DeletedAt bridge_toEntity ord flt1 flt2 t (\<lambda>m. True) pg"

text \<open>The name column is unique, also against deleted rows.\<close>

definition bridge_Create :: "fault \<Rightarrow> uuid \<Rightarrow> time \<Rightarrow> bridge_row table \<Rightarrow> PaymentBridge \<Rightarrow> bridge_row table result" where
  "bridge_Create flt gen now t b =
     (let m = \<lparr>brow_ID = (if br_ID b = uuid_Nil then gen else br_ID b), brow_Name = TrimSpace (br_Name b),
               brow_CreatedAt = now, brow_UpdatedAt = now, brow_DeletedAt = None\<rparr> in
      if flt = None \<and> brow_Name m \<in> brow_Name ` set t then Inl duplicate_key
      else soft_insert brow_ID flt t m)"

definition bridge_updates :: "time \<Rightarrow> PaymentBridge \<Rightarrow> bridge_row \<Rightarrow> bridge_row" where
  "bridge_updates now b m = m\<lparr>brow_Name := TrimSpace (br_Name b), brow_UpdatedAt := now\<rparr>"

definition bridge_Update :: "fault \<Rightarrow> time \<Rightarrow> bridge_row table \<Rightarrow> PaymentBridge \<Rightarrow> gerror option \<times> bridge_row table" where
  "bridge_Update flt now t b =
     (if flt = None \<and> (\<exists>m\<in>set t. brow_ID m = br_ID b \<and> brow_DeletedAt m = None) \<and>
         (\<exists>m\<in>set t. brow_ID m \<noteq> br_ID b \<and> brow_Name m = TrimSpace (br_Name b))
      then (Some duplicate_key, t)
      else soft_update brow_ID brow_DeletedAt flt t (br_ID b) (bridge_updates now b))"

definition bridge_deleted :: "time \<Rightarrow> bridge_row \<Rightarrow> bridge_row" where
  "bridge_deleted now m = m\<lparr>brow_DeletedAt := Some now\<rparr>"

definition bridge_Delete :: "fault \<Rightarrow> time \<Rightarrow> bridge_row table \<Rightarrow> uuid \<Rightarrow> gerror option \<times> bridge_row table" where
  "bridge_Delete flt now t k = soft_update brow_ID brow_DeletedAt flt t k (bridge_deleted now)"

interpretation bridges: soft_repo brow_ID brow_DeletedAt bridge_deleted bridge_toEntity
  by unfold_locales (simp_all add: bridge_deleted_def)

subsection \<open>Bridge configurations\<close>

record BridgeConfig =
  bc_ID :: uuid
  bc_BridgeID :: uuid
  bc_SourceChainID :: uuid
  bc_DestChainID :: uuid
  bc_RouterAddress :: string
  bc_FeePercentage :: string
  bc_Config :: string
  bc_IsActive :: bool
  bc_Bridge :: "PaymentBridge option"

record bridge_config_row =
  bcr_ID :: uuid
  bcr_BridgeID :: uuid
  bcr_SourceChainID :: uuid
  bcr_DestChainID :: uuid
  bcr_RouterAddress :: string
  bcr_FeePercentage :: string
  bcr_Config :: string
  bcr_IsActive :: bool
  bcr_CreatedAt :: time
  bcr_UpdatedAt :: time
  bcr_DeletedAt :: "time option"

text \<open>\<^verbatim>\<open>Preload("Bridge")\<close> finds the live bridge of the configuration.\<close>

definition preload_bridge :: "bridge_row table \<Rightarrow> bridge_config_row \<Rightarrow> PaymentBridge option" where
  "preload_bridge bs m =
     (case find (\<lambda>b. brow_ID b = bcr_BridgeID m \<and> brow_DeletedAt b = None) bs of
        None \<Rightarrow> None
      | Some b \<Rightarrow> if brow_ID b = uuid_Nil then None else Some (bridge_toEntity b))"

definition toBridgeConfigEntity :: "bridge_row table \<Rightarrow> bridge_config_row \<Rightarrow> BridgeConfig" where
  "toBridgeConfigEntity bs m =
     \<lparr>bc_ID = bcr_ID m, bc_BridgeID = bcr_BridgeID m, bc_SourceChainID = bcr_SourceChainID m, bc_DestChainID = bcr_DestChainID m,
      bc_RouterAddress = bcr_RouterAddress m, bc_FeePercentage = bcr_FeePercentage m, bc_Config = bcr_Config m,
      bc_IsActive = bcr_IsActive m, bc_Bridge = preload_bridge bs m\<rparr>"

definition bridge_config_GetActive ::
  "fault \<Rightarrow> bridge_row table \<Rightarrow> bridge_config_row table \<Rightarrow> uuid \<Rightarrow> uuid \<Rightarrow> BridgeConfig result" where
  "bridge_config_GetActive flt bs t src dst =
     soft_latest bcr_ID bcr_DeletedAt bcr_UpdatedAt (toBridgeConfigEntity bs) flt t
       (\<lambda>m. bcr_SourceChainID m = src \<and> bcr_DestChainID m = dst \<and> bcr_IsActive m)"

definition bridge_config_GetByID :: "bridge_row table \<Rightarrow> fault \<Rightarrow> bridge_config_row table \<Rightarrow> uuid \<Rightarrow> BridgeConfig result" where
  "bridge_config_GetByID bs = soft_get bcr_ID bcr_DeletedAt (toBridgeConfigEntity bs)"

definition bridge_config_List ::
  "bridge_config_row orderer \<Rightarrow> fault \<Rightarrow> fault \<Rightarrow> bridge_row table \<Rightarrow> bridge_config_row table \<Rightarrow> uuid option \<Rightarrow> uuid option \<Rightarrow>
   uuid option \<Rightarrow> PaginationParams \<Rightarrow> (BridgeConfig list \<times> int) result" where
  "bridge_config_List ord flt1 flt2 bs t src dst bridge pg =
     soft_list bcr_DeletedAt (toBridgeConfigEntity bs) ord flt1 flt2 t
       (\<lambda>m. opt_match src (bcr_SourceChainID m) \<and> opt_match dst (bcr_DestChainID m) \<and> opt_match bridge (bcr_BridgeID m)) pg"

text \<open>Column defaults: an empty fee percentage becomes zero, an inactive configuration active.\<close>

definition bridge_config_row_of :: "uuid \<Rightarrow> time \<Rightarrow> BridgeConfig \<Rightarrow> bridge_config_row" where
  "bridge_config_row_of gen now c =
     \<lparr>bcr_ID = (if bc_ID c = uuid_Nil then gen else bc_ID c), bcr_BridgeID = bc_BridgeID c, bcr_SourceChainID = bc_SourceChainID c,
      bcr_DestChainID = bc_DestChainID c, bcr_RouterAddress = bc_RouterAddress c,
      bcr_FeePercentage = (if bc_FeePercentage c = [] then ''0'' else bc_FeePercentage c), bcr_Config = bc_Config c,
      bcr_IsActive = True, bcr_CreatedAt = now, bcr_UpdatedAt = now, bcr_DeletedAt = None\<rparr>"

definition bridge_config_Create ::
  "fault \<Rightarrow> uuid \<Rightarrow> time \<Rightarrow> bridge_config_row table \<Rightarrow> BridgeConfig \<Rightarrow> bridge_config_row table result" where
  "bridge_config_Create flt gen now t c = soft_insert bcr_ID flt t (bridge_config_row_of gen now c)"

definition bridge_config_updates :: "time \<Rightarrow> BridgeConfig \<Rightarrow> bridge_config_row \<Rightarrow> bridge_config_row" where
  "bridge_config_updates now c m =
     m\<lparr>bcr_BridgeID := bc_BridgeID c, bcr_SourceChainID := bc_SourceChainID c, bcr_DestChainID := bc_DestChainID c,
       bcr_RouterAddress := bc_RouterAddress c, bcr_FeePercentage := bc_FeePercentage c, bcr_Config := bc_Config c,
       bcr_IsActive := bc_IsActive c, bcr_UpdatedAt := now\<rparr>"

definition bridge_config_Update ::
  "fault \<Rightarrow> time \<Rightarrow> bridge_config_row table \<Rightarrow> BridgeConfig \<Rightarrow> gerror option \<times> bridge_config_row table" where
  "bridge_config_Update flt now t c = soft_update bcr_ID bcr_DeletedAt flt t (bc_ID c) (bridge_config_updates now c)"

definition bridge_config_deleted :: "time \<Rightarrow> bridge_config_row \<Rightarrow> bridge_config_row" where
  "bridge_config_deleted now m = m\<lparr>bcr_DeletedAt := Some now\<rparr>"

definition bridge_config_Delete ::
  "fault \<Rightarrow> time \<Rightarrow> bridge_config_row table \<Rightarrow> uuid \<Rightarrow> gerror option \<times> bridge_config_row table" where
  "bridge_config_Delete flt now t k = soft_update bcr_ID bcr_DeletedAt flt t k (bridge_config_deleted now)"

interpretation bridge_configs: soft_repo bcr_ID bcr_DeletedAt bridge_config_deleted "toBridgeConfigEntity bs" for bs
  by unfold_locales (simp_all add: bridge_config_deleted_def)

subsection \<open>Fee configurations\<close>

record FeeConfig =
  fc_ID :: uuid
  fc_ChainID :: uuid
  fc_TokenID :: uuid
  fc_PlatformFeePercent :: string
  fc_FixedBaseFee :: string
  fc_MinFee :: string
  fc_MaxFee :: "string option"
  fc_CreatedAt :: time
  fc_UpdatedAt :: time
  fc_DeletedAt :: "time option"

definition toFeeConfigEntity :: "FeeConfig \<Rightarrow> FeeConfig" where
  "toFeeConfigEntity m = m\<lparr>fc_DeletedAt := None\<rparr>"

definition fee_config_GetByChainAndToken :: "fault \<Rightarrow> FeeConfig table \<Rightarrow> uuid \<Rightarrow> uuid \<Rightarrow> FeeConfig result" where
  "fee_config_GetByChainAndToken flt t chainID tokenID =
     soft_latest fc_ID fc_DeletedAt fc_UpdatedAt toFeeConfigEntity flt t (\<lambda>m. fc_ChainID m = chainID \<and> fc_TokenID m = tokenID)"

definition fee_config_GetByID :: "fault \<Rightarrow> FeeConfig table \<Rightarrow> uuid \<Rightarrow> FeeConfig result" where
  "fee_config_GetByID = soft_get fc_ID fc_DeletedAt toFeeConfigEntity"

definition fee_config_List ::
  "FeeConfig orderer \<Rightarrow> fault \<Rightarrow> fault \<Rightarrow> FeeConfig table \<Rightarrow> uuid option \<Rightarrow> uuid option \<Rightarrow> PaginationParams \<Rightarrow>
   (FeeConfig list \<times> int) result" where
  "fee_config_List ord flt1 flt2 t chainID tokenID pg =
     soft_list fc_DeletedAt toFeeConfigEntity ord flt1 flt2 t
       (\<lambda>m. opt_match chainID (fc_ChainID m) \<and> opt_match tokenID (fc_TokenID m)) pg"

definition zero_default :: "string \<Rightarrow> string" where
  "zero_default v = (if v = [] then ''0'' else v)"

definition fee_config_row_of :: "uuid \<Rightarrow> time \<Rightarrow> FeeConfig \<Rightarrow> FeeConfig" where
  "fee_config_row_of gen now c =
     \<lparr>fc_ID = (if fc_ID c = uuid_Nil then gen else fc_ID c), fc_ChainID = fc_ChainID c, fc_TokenID = fc_TokenID c,
      fc_PlatformFeePercent = zero_default (fc_PlatformFeePercent c), fc_FixedBaseFee = zero_default (fc_FixedBaseFee c),
      fc_MinFee = zero_default (fc_MinFee c), fc_MaxFee = fc_MaxFee c, fc_CreatedAt = now, fc_UpdatedAt = now, fc_DeletedAt = None\<rparr>"

definition fee_config_Create :: "fault \<Rightarrow> uuid \<Rightarrow> time \<Rightarrow> FeeConfig table \<Rightarrow> FeeConfig \<Rightarrow> FeeConfig table result" where
  "fee_config_Create flt gen now t c = soft_insert fc_ID flt t (fee_config_row_of gen now c)"

definition fee_config_updates :: "time \<Rightarrow> FeeConfig \<Rightarrow> FeeConfig \<Rightarrow> FeeConfig" where
  "fee_config_updates now c m =
     m\<lparr>fc_ChainID := fc_ChainID c, fc_TokenID := fc_TokenID c, fc_PlatformFeePercent := fc_PlatformFeePercent c,
       fc_FixedBaseFee := fc_FixedBaseFee c, fc_MinFee := fc_MinFee c, fc_MaxFee := fc_MaxFee c, fc_UpdatedAt := now\<rparr>"

definition fee_config_Update :: "fault \<Rightarrow> time \<Rightarrow> FeeConfig table \<Rightarrow> FeeConfig \<Rightarrow> gerror option \<times> FeeConfig table" where
  "fee_config_Update flt now t c = soft_update fc_ID fc_DeletedAt flt t (fc_ID c) (fee_config_updates now c)"

definition fee_config_deleted :: "time \<Rightarrow> FeeConfig \<Rightarrow> FeeConfig" where
  "fee_config_deleted now m = m\<lparr>fc_DeletedAt := Some now\<rparr>"

definition fee_config_Delete :: "fault \<Rightarrow> time \<Rightarrow> FeeConfig table \<Rightarrow> uuid \<Rightarrow> gerror option \<times> FeeConfig table" where
  "fee_config_Delete flt now t k = soft_update fc_ID fc_DeletedAt flt t k (fee_config_deleted now)"

interpretation fee_configs: soft_repo fc_ID fc_DeletedAt fee_config_deleted toFeeConfigEntity
  by unfold_locales (simp_all add: fee_config_deleted_def)

subsection \<open>What a stored policy reads back as\<close>

text \<open>
  Documented behaviour of the JSON decoder and of a \<^verbatim>\<open>jsonb\<close> column: an array of byte values
  decodes to its numbers, and a stored document reads back as the same document.
\<close>

definition reader_ok :: "json_reader \<Rightarrow> bool" where
  "reader_ok R \<longleftrightarrow>
     (\<forall>bs. bs \<noteq> [] \<longrightarrow> json_Parse (jr_json R) (''['' @ write_items bs @ '']'') = Some (JArray (map (\<lambda>b. JNumber (nat_string (unat b))) bs))) \<and>
     (\<forall>s. json_Parse (jr_json R) (jr_column R s) = json_Parse (jr_json R) s) \<and> (\<forall>s. s \<noteq> [] \<longrightarrow> jr_column R s \<noteq> [])"

lemma u8_element_number [simp]: "u8_element (JNumber (nat_string (unat (b :: u8)))) = Some b"
proof -
  have "unat b < 256" using unat_byte_less [of b] .
  then show ?thesis by (simp add: parse_digits_nat_string nat_string_not_Nil)
qed

lemma those_u8 [simp]: "those (map (u8_element \<circ> (\<lambda>b. JNumber (nat_string (unat (b :: u8))))) bs) = Some bs"
  by (simp add: those_Some_conv)

lemma fallback_order_reads_back:
  assumes "reader_ok R"
  shows "parseFallbackOrder R (jr_column R (marshalFallbackOrder bs)) = (if bs = [] then [0] else bs)"
proof -
  let ?bs = "if bs = [] then [0] else bs"
  have "write_items [0] = ''0''" by (simp add: nat_string_def)
  then have doc: "marshalFallbackOrder bs = ''['' @ write_items ?bs @ '']''" by (simp add: marshalFallbackOrder_def)
  have "json_Parse (jr_json R) (jr_column R (marshalFallbackOrder bs)) = Some (JArray (map (\<lambda>b. JNumber (nat_string (unat b))) ?bs))"
    unfolding doc using assms unfolding reader_ok_def by auto
  moreover have "jr_column R (marshalFallbackOrder bs) \<noteq> []"
    using assms unfolding reader_ok_def doc by simp
  ultimately show ?thesis by (simp add: parseFallbackOrder_def unmarshal_u8s_def)
qed

lemma deref_nullable [simp]: "derefString (nullableText v) = TrimSpace v" "derefString (nullableNumeric v) = TrimSpace v"
  by (simp_all add: derefString_def nullableText_def nullableNumeric_def Let_def)

lemma status_idem [simp]: "normalizeRoutePolicyStatus (normalizeRoutePolicyStatus v) = normalizeRoutePolicyStatus v"
proof -
  have "TrimSpace (ToLower (TrimSpace v)) = ToLower (TrimSpace v)" by (rule TrimSpace_ToLower) simp
  moreover have "ToLower (TrimSpace ''active'') = ''active''" by code_simp
  ultimately show ?thesis by (simp add: normalizeRoutePolicyStatus_def Let_def)
qed

text \<open>The policy a table holds for a policy that was written.\<close>

definition stored_policy :: "time \<Rightarrow> RoutePolicy \<Rightarrow> RoutePolicy" where
  "stored_policy now p =
     p\<lparr>pol_FallbackMode := policy_mode p, pol_FallbackOrder := (if pol_FallbackOrder p = [] then [0] else pol_FallbackOrder p),
       pol_BridgeToken := TrimSpace (pol_BridgeToken p), pol_Status := normalizeRoutePolicyStatus (pol_Status p),
       pol_PerByteRate := TrimSpace (pol_PerByteRate p), pol_OverheadBytes := TrimSpace (pol_OverheadBytes p),
       pol_MinFee := TrimSpace (pol_MinFee p), pol_MaxFee := TrimSpace (pol_MaxFee p), pol_UpdatedAt := now\<rparr>"

lemma byte_through_smallint [simp]: "ucast (ucast (b :: u8) :: 16 word) = b"
  by (rule bit_word_eqI) (simp add: bit_simps)

lemma created_policy:
  assumes "reader_ok R"
  shows "toRoutePolicyEntity R (route_policy_row_of gen now p) =
    (stored_policy now p)\<lparr>pol_ID := (if pol_ID p = uuid_Nil then gen else pol_ID p), pol_CreatedAt := now\<rparr>"
  by (simp add: toRoutePolicyEntity_def route_policy_row_of_def stored_policy_def fallback_order_reads_back [OF assms])

lemma updated_policy:
  assumes "reader_ok R"
  shows "toRoutePolicyEntity R (route_policy_updates now p m) =
    (stored_policy now p)\<lparr>pol_ID := pol_ID (toRoutePolicyEntity R m), pol_CreatedAt := pol_CreatedAt (toRoutePolicyEntity R m)\<rparr>"
  by (simp add: toRoutePolicyEntity_def route_policy_updates_def stored_policy_def fallback_order_reads_back [OF assms])

abbreviation policy_map :: "json_reader \<Rightarrow> route_policy_row table \<Rightarrow> uuid \<Rightarrow> RoutePolicy option" where
  "policy_map R \<equiv> soft_abs rp_ID rp_DeletedAt (toRoutePolicyEntity R)"


text \<open>A reader for the witnesses: arrays of numbers without spaces.\<close>

definition sample_reader :: json_reader where
  "sample_reader =
     \<lparr>jr_json = \<lparr>json_Parse = (\<lambda>s. if HasPrefix s ''['' then Some (JArray (map JNumber (Split CHR '','' (butlast (tl s))))) else None),
                  json_Print = (\<lambda>v. ''x'')\<rparr>,
      jr_b64 = (\<lambda>s. None), jr_column = (\<lambda>s. s)\<rparr>"

lemma Split_write_items: "bs \<noteq> [] \<Longrightarrow> Split CHR '','' (write_items bs) = map (\<lambda>b. nat_string (unat b)) bs"
proof (induction bs rule: write_items.induct)
  case (2 b)
  have "CHR '','' \<notin> set (nat_string (unat b))" using nat_string_is_dec by (force simp: is_dec_def)
  then show ?case by (simp add: Split_no_sep)
next
  case (3 b c bs)
  have "CHR '','' \<notin> set (nat_string (unat b))" using nat_string_is_dec by (force simp: is_dec_def)
  with 3 show ?case by (simp add: Split_append)
qed simp

lemma sample_reader_ok: "reader_ok sample_reader"
  by (simp add: reader_ok_def sample_reader_def HasPrefix_def Split_write_items o_def)

definition sample_policy :: RoutePolicy where
  "sample_policy =
     \<lparr>pol_ID = 61, pol_SourceChainID = 7, pol_DestChainID = 8, pol_DefaultBridgeType = 2, pol_FallbackMode = [],
      pol_FallbackOrder = [2, 1], pol_SupportsTokenBridge = True, pol_SupportsDestSwap = False, pol_SupportsPrivacyForward = False,
      pol_BridgeToken = [], pol_Status = ''Active'', pol_PerByteRate = [], pol_OverheadBytes = [], pol_MinFee = [], pol_MaxFee = [],
      pol_CreatedAt = 0, pol_UpdatedAt = 0\<rparr>"


subsection \<open>The policy of a route\<close>

lemma GetByRoute_latest:
  assumes "order_ok (\<lambda>m. - rp_UpdatedAt m) ord" "route_policy_GetByRoute R ord None t src dst = Inr p"
  shows "\<exists>m\<in>set t. rp_DeletedAt m = None \<and> on_route src dst m \<and> p = toRoutePolicyEntity R m \<and>
    (\<forall>m'\<in>set t. rp_DeletedAt m' = None \<and> on_route src dst m' \<longrightarrow> rp_UpdatedAt m' \<le> rp_UpdatedAt m)"
proof -
  let ?rows = "select_where (\<lambda>m. rp_DeletedAt m = None \<and> on_route src dst m) t"
  obtain m ms where o: "ord ?rows = m # ms" "p = toRoutePolicyEntity R m"
    using assms(2) by (auto simp: route_policy_GetByRoute_def split: list.splits)
  have "set (ord ?rows) = set ?rows" using assms(1) by (rule order_ok_set)
  moreover have "sorted (map (\<lambda>m. - rp_UpdatedAt m) (m # ms))" using assms(1) o(1) unfolding order_ok_def by metis
  ultimately have "m \<in> set ?rows" "\<forall>m'\<in>set ?rows. rp_UpdatedAt m' \<le> rp_UpdatedAt m" using o(1) by auto
  with o(2) show ?thesis by (auto simp: select_where_def)
qed

lemma GetByRoute_missing:
  assumes "order_ok (\<lambda>m. - rp_UpdatedAt m) ord"
  shows "route_policy_GetByRoute R ord None t src dst = Inl (Sentinel ErrNotFound) \<longleftrightarrow>
    \<not> (\<exists>m\<in>set t. rp_DeletedAt m = None \<and> on_route src dst m)"
proof -
  let ?rows = "select_where (\<lambda>m. rp_DeletedAt m = None \<and> on_route src dst m) t"
  have "ord ?rows = [] \<longleftrightarrow> ?rows = []" using order_ok_length [OF assms, of ?rows]
    by (cases "ord ?rows"; cases ?rows) simp_all
  moreover have "?rows = [] \<longleftrightarrow> \<not> (\<exists>m\<in>set t. rp_DeletedAt m = None \<and> on_route src dst m)"
    by (auto simp: select_where_def filter_empty_conv)
  moreover have "route_policy_GetByRoute R ord None t src dst = Inl (Sentinel ErrNotFound) \<longleftrightarrow> ord ?rows = []"
    by (cases "ord ?rows") (simp_all add: route_policy_GetByRoute_def)
  ultimately show ?thesis by metis
qed

end
