(* ===== verification/Routing.thy ===== *)
theory Routing
  imports Bridge_Tables Payment_V2 Route_Errors
begin

text \<open>
  The choice of the bridge for a route and the quote of its fee (\<^verbatim>\<open>internal/usecases/payment_usecase.go\<close>:
  \<^verbatim>\<open>SelectBridge\<close>, \<^verbatim>\<open>decideBridge\<close>, and from \<^verbatim>\<open>getBridgeFeeQuote\<close> to \<^verbatim>\<open>bootstrapDefaultRoutePolicy\<close>).
  The RPC client answers view calls with bytes or an RPC error; reading a quote can write the
  policy table, which is passed along.
\<close>

subsection \<open>Bridges and their types\<close>

definition SelectBridge :: "string \<Rightarrow> string \<Rightarrow> string" where
  "SelectBridge sourceChainID destChainID =
     (if isEVMChain sourceChainID \<and> isEVMChain destChainID then ''CCIP''
      else if (isSolanaChain sourceChainID \<and> isEVMChain destChainID) \<or> (isEVMChain sourceChainID \<and> isSolanaChain destChainID)
      then ''Hyperlane''
      else ''Hyperbridge'')"

definition bridgeTypeToName :: "u8 \<Rightarrow> string" where
  "bridgeTypeToName t =
     (if t = 0 then ''Hyperbridge'' else if t = 1 then ''CCIP'' else if t = 2 then ''Stargate''
      else if t = 3 then ''HyperbridgeTokenGateway'' else ''Hyperbridge'')"

definition bridgeNameToType :: "string \<Rightarrow> u8" where
  "bridgeNameToType bridgeName =
     (let n = ToUpper (TrimSpace bridgeName) in
      if n = ''CCIP'' then 1 else if n = ''STARGATE'' then 2
      else if n \<in> {''HYPERBRIDGE_TOKEN_GATEWAY'', ''HYPERBRIDGETOKENGATEWAY'', ''HBTOKENGATEWAY''} then 3
      else 0)"

fun add_bridge :: "u8 list \<Rightarrow> u8 \<Rightarrow> u8 list" where
  "add_bridge order t = (if t > 3 then order else if t \<in> set order then order else order @ [t])"

definition buildBridgeOrderFromPolicy :: "RoutePolicy option \<Rightarrow> u8 list" where
  "buildBridgeOrderFromPolicy policy =
     (case policy of
        None \<Rightarrow> [0]
      | Some p \<Rightarrow>
          let order = add_bridge [] (pol_DefaultBridgeType p);
              order = (if pol_FallbackMode p = BridgeFallbackModeAutoFallback then foldl add_bridge order (pol_FallbackOrder p) else order)
          in if length order = 0 then [0] else order)"

subsection \<open>The dependencies\<close>

type_synonym rpc_call = "string \<Rightarrow> byte list \<Rightarrow> rpc_error + byte list"

record route_deps =
  rd_uuid :: uuid_lib
  rd_eth :: eth_lib
  rd_abi :: abi_lib
  rd_reader :: json_reader
  rd_order :: "route_policy_row orderer"
  rd_chains :: ChainRepository
  rd_activeContract :: "uuid \<Rightarrow> string \<Rightarrow> string option result"
  rd_bridgeConfig :: "(uuid \<Rightarrow> uuid \<Rightarrow> BridgeConfig result) option"
  rd_hasPolicies :: bool
  rd_client :: "string \<Rightarrow> rpc_call result"

text \<open>The faults of the two policy lookups and of the insertion, the new identifier and the clock.\<close>

record route_env =
  re_get1 :: fault
  re_get2 :: fault
  re_create :: fault
  re_id :: uuid
  re_now :: time

definition decideBridge ::
  "route_deps \<Rightarrow> fault \<Rightarrow> route_policy_row table \<Rightarrow> uuid \<Rightarrow> uuid \<Rightarrow> string \<Rightarrow> string \<Rightarrow> string \<times> uuid option" where
  "decideBridge D flt t src dst sourceCAIP2 destCAIP2 =
     (let legacy =
            (case rd_bridgeConfig D of
               None \<Rightarrow> (SelectBridge sourceCAIP2 destCAIP2, None)
             | Some getActive \<Rightarrow>
                 (case getActive src dst of
                    Inl _ \<Rightarrow> (SelectBridge sourceCAIP2 destCAIP2, None)
                  | Inr cfg \<Rightarrow>
                      (case bc_Bridge cfg of
                         None \<Rightarrow> (SelectBridge sourceCAIP2 destCAIP2, None)
                       | Some b \<Rightarrow> if br_Name b \<noteq> [] then (br_Name b, Some (br_ID b)) else (SelectBridge sourceCAIP2 destCAIP2, None)))) in
      if \<not> rd_hasPolicies D then legacy
      else case route_policy_GetByRoute (rd_reader D) (rd_order D) flt t src dst of
             Inr policy \<Rightarrow> (bridgeTypeToName (pol_DefaultBridgeType policy), None)
           | Inl _ \<Rightarrow> legacy)"

definition default_policy :: "uuid \<Rightarrow> uuid \<Rightarrow> uuid \<Rightarrow> u8 \<Rightarrow> RoutePolicy" where
  "default_policy i src dst t =
     \<lparr>pol_ID = i, pol_SourceChainID = src, pol_DestChainID = dst, pol_DefaultBridgeType = t, pol_FallbackMode = BridgeFallbackModeStrict,
      pol_FallbackOrder = [t], pol_SupportsTokenBridge = False, pol_SupportsDestSwap = False, pol_SupportsPrivacyForward = False,
      pol_BridgeToken = [], pol_Status = [], pol_PerByteRate = [], pol_OverheadBytes = [], pol_MinFee = [], pol_MaxFee = [],
      pol_CreatedAt = zero_time, pol_UpdatedAt = zero_time\<rparr>"

definition bootstrapDefaultRoutePolicy ::
  "route_deps \<Rightarrow> route_env \<Rightarrow> route_policy_row table \<Rightarrow> uuid \<Rightarrow> uuid \<Rightarrow> string \<Rightarrow> string \<Rightarrow> route_policy_row table" where
  "bootstrapDefaultRoutePolicy D E t src dst sourceCAIP2 destCAIP2 =
     (if \<not> rd_hasPolicies D then t
      else case route_policy_Create (re_create E) 0 (re_now E) t
                  (default_policy (re_id E) src dst (bridgeNameToType (SelectBridge sourceCAIP2 destCAIP2))) of
             Inl _ \<Rightarrow> t
           | Inr t' \<Rightarrow> t')"

definition resolveBridgeOrder ::
  "route_deps \<Rightarrow> route_env \<Rightarrow> route_policy_row table \<Rightarrow> uuid \<Rightarrow> uuid \<Rightarrow> string \<Rightarrow> string \<Rightarrow> u8 list \<times> route_policy_row table" where
  "resolveBridgeOrder D E t src dst sourceCAIP2 destCAIP2 =
     (let decided = (\<lambda>t. ([bridgeNameToType (fst (decideBridge D (re_get2 E) t src dst sourceCAIP2 destCAIP2))], t)) in
      if \<not> rd_hasPolicies D then decided t
      else case route_policy_GetByRoute (rd_reader D) (rd_order D) (re_get1 E) t src dst of
             Inr policy \<Rightarrow> (buildBridgeOrderFromPolicy (Some policy), t)
           | Inl e \<Rightarrow>
               if errors_Is e ErrNotFound then decided (bootstrapDefaultRoutePolicy D E t src dst sourceCAIP2 destCAIP2)
               else decided t)"

subsection \<open>Reading the gateway and the router\<close>

definition method_id :: "route_deps \<Rightarrow> string \<Rightarrow> byte list" where
  "method_id D sig = take 4 (Keccak256 (rd_eth D) (bytes_of sig))"

definition readGatewayRouterAddress :: "route_deps \<Rightarrow> rpc_call \<Rightarrow> string \<Rightarrow> string result" where
  "readGatewayRouterAddress D call gateway =
     (case call gateway (method_id D ''router()'') of
        Inl e \<Rightarrow> Inl (ErrorString (rpc_text e))
      | Inr out \<Rightarrow>
          if length out < 32 then Inl (ErrorString ''invalid router() response'')
          else
            let addr = Address_Hex (rd_eth D) (word_of_nat (SetBytes (drop (length out - 20) out))) in
            if TrimSpace addr = [] \<or> EqualFold addr (Address_Hex (rd_eth D) 0) then Inl (ErrorString ''gateway router is zero address'')
            else Inr addr)"

definition readGatewayDefaultBridgeType :: "route_deps \<Rightarrow> rpc_call \<Rightarrow> string \<Rightarrow> string \<Rightarrow> u8 result" where
  "readGatewayDefaultBridgeType D call gateway destCAIP2 =
     (case packABIArgs (rd_abi D) [ArgString destCAIP2] of
        Inl e \<Rightarrow> Inl e
      | Inr packed \<Rightarrow>
          (case call gateway (method_id D ''defaultBridgeTypes(string)'' @ packed) of
             Inl e \<Rightarrow> Inl (ErrorString (rpc_text e))
           | Inr out \<Rightarrow>
               if length out = 0 then Inl (ErrorString ''empty defaultBridgeTypes response'')
               else
                 let v = SetBytes out in
                 if v \<ge> 2 ^ 64 then Inl (ErrorString ''invalid default bridge type'')
                 else if v > 255 then Inl (ErrorString ''default bridge type out of range'')
                 else Inr (word_of_nat v)))"

text \<open>\<^verbatim>\<open>checkRouterHasAdapter\<close> and \<^verbatim>\<open>checkRouterRouteConfigured\<close> differ in the method they call.\<close>

definition router_flag :: "string \<Rightarrow> string \<Rightarrow> route_deps \<Rightarrow> rpc_call \<Rightarrow> string \<Rightarrow> string \<Rightarrow> u8 \<Rightarrow> bool result" where
  "router_flag sig empty_text D call router destCAIP2 bridgeType =
     (case packABIArgs (rd_abi D) [ArgString destCAIP2, ArgU8 bridgeType] of
        Inl e \<Rightarrow> Inl e
      | Inr packed \<Rightarrow>
          (case call router (method_id D sig @ packed) of
             Inl e \<Rightarrow> Inl (ErrorString (rpc_text e))
           | Inr out \<Rightarrow> if length out = 0 then Inl (ErrorString empty_text) else Inr (SetBytes out > 0)))"

definition checkRouterHasAdapter :: "route_deps \<Rightarrow> rpc_call \<Rightarrow> string \<Rightarrow> string \<Rightarrow> u8 \<Rightarrow> bool result" where
  "checkRouterHasAdapter = router_flag ''hasAdapter(string,uint8)'' ''empty hasAdapter result''"

definition checkRouterRouteConfigured :: "route_deps \<Rightarrow> rpc_call \<Rightarrow> string \<Rightarrow> string \<Rightarrow> u8 \<Rightarrow> bool result" where
  "checkRouterRouteConfigured = router_flag ''isRouteConfigured(string,uint8)'' ''empty isRouteConfigured result''"

datatype safe_quote = SafeQuote bool nat string | SafeUndecodable | SafePanic

definition decodeSafeQuoteResult :: "eth_lib \<Rightarrow> byte list \<Rightarrow> safe_quote" where
  "decodeSafeQuoteResult E data =
     (case abi_Unpack E [''bool'', ''uint256'', ''string''] data of
        None \<Rightarrow> SafeUndecodable
      | Some [AbiBool ok, AbiBig fee, AbiString reason] \<Rightarrow> SafeQuote ok fee reason
      | Some _ \<Rightarrow> SafePanic)"

definition type_panic :: gerror where
  "type_panic = ErrorString ''interface conversion: interface is of another type''"

definition schema_mismatch :: gerror where
  "schema_mismatch = ErrorString ''quote failed: quote_failed_schema_mismatch''"

definition bridge_message_for :: "route_deps \<Rightarrow> string \<Rightarrow> string \<Rightarrow> string \<Rightarrow> int \<Rightarrow> int \<Rightarrow> address option \<Rightarrow> bridge_message" where
  "bridge_message_for D destCAIP2 sourceToken destToken amount minAmountOut payer =
     \<lparr>msg_PaymentId = zero32, msg_Receiver = 0, msg_SourceToken = HexToAddress (rd_abi D) (normalizeEvmAddress sourceToken),
      msg_DestToken = HexToAddress (rd_abi D) (normalizeEvmAddress destToken), msg_Amount = amount, msg_DestChainId = destCAIP2,
      msg_MinAmountOut = minAmountOut, msg_Payer = payer\<rparr>"

text \<open>The reverting calls, with the current and then the legacy schema.\<close>

definition quote_call_error :: "route_deps \<Rightarrow> rpc_error \<Rightarrow> gerror" where
  "quote_call_error D err =
     (case decodeRevertDataFromError (rd_eth D) (Some err) of
        Some decoded \<Rightarrow>
          if Selector decoded \<noteq> [] then
            ErrorString (''contract call failed: '' @ rpc_text err @ '' (decoded_revert='' @ DecodedMessage decoded @ '' selector='' @ Selector decoded @ '')'')
          else ErrorString (''contract call failed: '' @ rpc_text err @ '' (decoded_revert='' @ DecodedMessage decoded @ '')'')
      | None \<Rightarrow>
          if isQuoteSchemaMismatchReason (rpc_text err) then schema_mismatch
          else WrapErr ''contract call failed'' (ErrorString (rpc_text err)))"

definition quote_reverting :: "route_deps \<Rightarrow> rpc_call \<Rightarrow> string \<Rightarrow> byte list \<Rightarrow> byte list \<Rightarrow> nat result" where
  "quote_reverting D call router packedV2 packedV1 =
     (let decode = (\<lambda>result. if length result = 0
                        then Inl (ErrorString ''quote failed: quote_failed_schema_mismatch (empty result from quotePaymentFee)'')
                        else Inr (SetBytes result)) in
      case call router (method_id D ''quotePaymentFee(string,uint8,(bytes32,address,address,address,uint256,string,uint256,address))'' @ packedV2) of
        Inr result \<Rightarrow> decode result
      | Inl _ \<Rightarrow>
          (case call router (method_id D ''quotePaymentFee(string,uint8,(bytes32,address,address,address,uint256,string,uint256))'' @ packedV1) of
             Inr result \<Rightarrow> decode result
           | Inl err \<Rightarrow> Inl (quote_call_error D err)))"

definition quoteBridgeFeeByType ::
  "route_deps \<Rightarrow> rpc_call \<Rightarrow> string \<Rightarrow> string \<Rightarrow> u8 \<Rightarrow> string \<Rightarrow> string \<Rightarrow> int \<Rightarrow> int \<Rightarrow> nat result" where
  "quoteBridgeFeeByType D call router destCAIP2 bridgeType sourceToken destToken amount minAmountOut =
     (if checkRouterRouteConfigured D call router destCAIP2 bridgeType = Inr False then
        Inl (ErrorString (''route not configured for '' @ destCAIP2 @ '' bridge type '' @ nat_string (unat bridgeType)))
      else if checkRouterHasAdapter D call router destCAIP2 bridgeType = Inr False then
        Inl (ErrorString (''adapter not registered for '' @ destCAIP2 @ '' bridge type '' @ nat_string (unat bridgeType)))
      else
        let pack = (\<lambda>payer. packABIArgs (rd_abi D) [ArgString destCAIP2, ArgU8 bridgeType,
                      ArgMessage (bridge_message_for D destCAIP2 sourceToken destToken amount minAmountOut payer)]) in
        case pack (Some 0) of
          Inl e \<Rightarrow> Inl (WrapErr ''failed to pack quotePaymentFee args'' e)
        | Inr packedV2 \<Rightarrow>
            (case pack None of
               Inl e \<Rightarrow> Inl (WrapErr ''failed to pack quotePaymentFee args'' e)
             | Inr packedV1 \<Rightarrow>
                 (case call router (method_id D ''quotePaymentFeeSafe(string,uint8,(bytes32,address,address,address,uint256,string,uint256,address))'' @ packedV2) of
                    Inl _ \<Rightarrow> quote_reverting D call router packedV2 packedV1
                  | Inr safe \<Rightarrow>
                      if length safe < 96 then quote_reverting D call router packedV2 packedV1
                      else (case decodeSafeQuoteResult (rd_eth D) safe of
                              SafeUndecodable \<Rightarrow> quote_reverting D call router packedV2 packedV1
                            | SafePanic \<Rightarrow> Inl type_panic
                            | SafeQuote ok fee reason \<Rightarrow>
                                if ok then Inr fee
                                else if isQuoteSchemaMismatchReason reason then Inl schema_mismatch
                                else Inl (ErrorString (''quote failed: '' @ reason))))))"

subsection \<open>The fee quote\<close>

definition rpc_targets :: "Chain \<Rightarrow> string list" where
  "rpc_targets chain =
     (let active = map rpc_URL (filter rpc_IsActive (chain_RPCs chain)) in
      if length active = 0 \<and> chain_RPCURL chain \<noteq> [] then [chain_RPCURL chain] else active)"

fun connect_any :: "(string \<Rightarrow> rpc_call result) \<Rightarrow> string list \<Rightarrow> gerror \<Rightarrow> rpc_call result" where
  "connect_any getClient [] lastErr = Inl (WrapErr ''failed to connect to any RPC endpoint'' lastErr)"
| "connect_any getClient (url # urls) lastErr =
     (case getClient url of Inr c \<Rightarrow> Inr c | Inl e \<Rightarrow> connect_any getClient urls e)"

fun quote_loop :: "(u8 \<Rightarrow> nat result) \<Rightarrow> u8 list \<Rightarrow> gerror option \<Rightarrow> nat option result" where
  "quote_loop q [] lastErr = (case lastErr of None \<Rightarrow> Inr None | Some e \<Rightarrow> Inl e)"
| "quote_loop q (b # bs) lastErr =
     (case q b of
        Inr fee \<Rightarrow>
          if fee > 0 then Inr (Some fee)
          else quote_loop q bs (Some (ErrorString (''invalid fee quote for bridge type '' @ nat_string (unat b))))
      | Inl e \<Rightarrow> quote_loop q bs (Some e))"

text \<open>The gateway's own router and bridge, when it can be asked, take precedence.\<close>

definition gateway_router :: "route_deps \<Rightarrow> rpc_call \<Rightarrow> string option result \<Rightarrow> string \<Rightarrow> string" where
  "gateway_router D call gateway router =
     (case gateway of
        Inr (Some g) \<Rightarrow> (case readGatewayRouterAddress D call g of Inr r \<Rightarrow> if r \<noteq> [] then r else router | Inl _ \<Rightarrow> router)
      | _ \<Rightarrow> router)"

definition gateway_order :: "route_deps \<Rightarrow> rpc_call \<Rightarrow> string option result \<Rightarrow> string \<Rightarrow> u8 list \<Rightarrow> u8 list" where
  "gateway_order D call gateway destCAIP2 order =
     (case gateway of
        Inr (Some g) \<Rightarrow> (case readGatewayDefaultBridgeType D call g destCAIP2 of Inr b \<Rightarrow> [b] | Inl _ \<Rightarrow> order)
      | _ \<Rightarrow> order)"

definition getBridgeFeeQuote ::
  "route_deps \<Rightarrow> route_env \<Rightarrow> route_policy_row table \<Rightarrow> string \<Rightarrow> string \<Rightarrow> string \<Rightarrow> string \<Rightarrow> int \<Rightarrow> int \<Rightarrow>
   nat option result \<times> route_policy_row table" where
  "getBridgeFeeQuote D E t sourceChainID destChainID sourceToken destToken amount minAmountOut =
     (case ResolveFromAny (rd_uuid D) (rd_chains D) sourceChainID of
        Inl e \<Rightarrow> (Inl (WrapErr ''source chain config not found'' e), t)
      | Inr (src, sourceCAIP2) \<Rightarrow>
     (case ResolveFromAny (rd_uuid D) (rd_chains D) destChainID of
        Inl e \<Rightarrow> (Inl (WrapErr ''dest chain config not found'' e), t)
      | Inr (dst, destCAIP2) \<Rightarrow>
     (case repo_GetByID (rd_chains D) src of
        Inl e \<Rightarrow> (Inl (WrapErr ''source chain not found'' e), t)
      | Inr chain \<Rightarrow>
     (case rd_activeContract D (chain_ID chain) ''ROUTER'' of
        Inl e \<Rightarrow> (Inl (WrapErr ''active router not found'' e), t)
      | Inr None \<Rightarrow> (Inl nil_dereference, t)
      | Inr (Some router) \<Rightarrow>
          if rpc_targets chain = [] then
            (Inl (ErrorString (''no RPC endpoints available for chain '' @ sourceChainID)), t)
          else
            (case connect_any (rd_client D) (rpc_targets chain) (ErrorString []) of
               Inl e \<Rightarrow> (Inl e, t)
             | Inr call \<Rightarrow>
                 let (order, t') = resolveBridgeOrder D E t src dst sourceCAIP2 destCAIP2;
                     gateway = rd_activeContract D (chain_ID chain) ''GATEWAY'';
                     routerAddress = gateway_router D call gateway router in
                 (quote_loop (\<lambda>b. quoteBridgeFeeByType D call routerAddress destCAIP2 b sourceToken destToken amount minAmountOut)
                    (gateway_order D call gateway destCAIP2 order) None, t'))))))"

subsection \<open>The order of bridges\<close>

declare add_bridge.simps [simp del]

lemma add_bridge_first_kept:
  assumes "order = rev (remdups (rev (filter (\<lambda>b. b \<le> 3) bs)))"
  shows "add_bridge order b = rev (remdups (rev (filter (\<lambda>b. b \<le> 3) (bs @ [b]))))"
  using assms by (auto simp: add_bridge.simps not_less)

lemma foldl_add_bridge:
  "foldl add_bridge (rev (remdups (rev (filter (\<lambda>b. b \<le> 3) as)))) bs = rev (remdups (rev (filter (\<lambda>b. b \<le> 3) (as @ bs))))"
proof (induction bs arbitrary: as)
  case (Cons b bs)
  then show ?case using add_bridge_first_kept [OF refl, of as b] Cons.IH [of "as @ [b]"] by simp
qed simp

definition policy_candidates :: "RoutePolicy \<Rightarrow> u8 list" where
  "policy_candidates p =
     filter (\<lambda>b. b \<le> 3) (pol_DefaultBridgeType p # (if pol_FallbackMode p = BridgeFallbackModeAutoFallback then pol_FallbackOrder p else []))"

lemma bridge_order_reference:
  "buildBridgeOrderFromPolicy (Some p) =
    (if policy_candidates p = [] then [0] else rev (remdups (rev (policy_candidates p))))"
proof -
  let ?fb = "if pol_FallbackMode p = BridgeFallbackModeAutoFallback then pol_FallbackOrder p else []"
  have one: "add_bridge [] (pol_DefaultBridgeType p) = rev (remdups (rev (filter (\<lambda>b. b \<le> 3) [pol_DefaultBridgeType p])))"
    using add_bridge_first_kept [of "[]" "[]" "pol_DefaultBridgeType p"] by simp
  have "foldl add_bridge (add_bridge [] (pol_DefaultBridgeType p)) ?fb = rev (remdups (rev (policy_candidates p)))"
    unfolding one foldl_add_bridge policy_candidates_def by simp
  moreover have "rev (remdups (rev l)) = [] \<longleftrightarrow> l = []" for l :: "u8 list" by simp
  ultimately show ?thesis
    by (cases "pol_FallbackMode p = BridgeFallbackModeAutoFallback") (simp_all add: buildBridgeOrderFromPolicy_def Let_def)
qed

text \<open>
  Also. The order of bridges of a policy is the policy's default bridge followed, in automatic
  fallback mode only, by its fallbacks, each known bridge once at its first place, and bridge
  zero when nothing is left; so it is never empty and starts with the default when that is known.
\<close>

theorem bridge_order_correct:
  "buildBridgeOrderFromPolicy (Some p) =
     (if policy_candidates p = [] then [0] else rev (remdups (rev (policy_candidates p)))) \<and>
   buildBridgeOrderFromPolicy (Some p) \<noteq> [] \<and> distinct (buildBridgeOrderFromPolicy (Some p)) \<and>
   set (buildBridgeOrderFromPolicy (Some p)) \<subseteq> {b. b \<le> 3} \<and>
   (pol_DefaultBridgeType p \<le> 3 \<longrightarrow> hd (buildBridgeOrderFromPolicy (Some p)) = pol_DefaultBridgeType p)"
proof -
  have "hd (rev (remdups (rev (x # xs)))) = x" for x :: u8 and xs
    by (induction xs rule: rev_induct) (auto simp: hd_append)
  then show ?thesis
    unfolding bridge_order_reference by (auto simp: policy_candidates_def)
qed

theorem bridge_order_correct_witness:
  "hd (buildBridgeOrderFromPolicy (Some (sample_policy\<lparr>pol_FallbackMode := BridgeFallbackModeAutoFallback\<rparr>))) = 2"
proof -
  let ?p = "sample_policy\<lparr>pol_FallbackMode := BridgeFallbackModeAutoFallback\<rparr>"
  have "pol_DefaultBridgeType ?p = 2" by (simp add: sample_policy_def)
  moreover have "pol_DefaultBridgeType ?p \<le> 3 \<longrightarrow> hd (buildBridgeOrderFromPolicy (Some ?p)) = pol_DefaultBridgeType ?p"
    using bridge_order_correct [of ?p] by blast
  ultimately show ?thesis by simp
qed

text \<open>
  Also. The names of the four known bridge types read back as the types; the name chosen for a
  Solana route reads back as type zero, the type of another bridge.
\<close>

theorem bridge_names:
  "map (\<lambda>b. bridgeNameToType (bridgeTypeToName b)) [0, 1, 2, 3] = [0, 1, 2, 3] \<and>
   bridgeTypeToName (bridgeNameToType (SelectBridge ''solana:mainnet'' ''eip155:8453'')) = ''Hyperbridge'' \<and>
   SelectBridge ''solana:mainnet'' ''eip155:8453'' = ''Hyperlane''"
  by code_simp

subsection \<open>Fee quotes\<close>

lemma quote_loop_Inr:
  "quote_loop q order lastErr = Inr v \<Longrightarrow> order \<noteq> [] \<or> lastErr \<noteq> None \<Longrightarrow>
    \<exists>ys b zs fee. order = ys @ b # zs \<and> q b = Inr fee \<and> fee > 0 \<and> v = Some fee \<and> (\<forall>y\<in>set ys. \<forall>f. q y = Inr f \<longrightarrow> f = 0)"
proof (induction order arbitrary: lastErr)
  case (Cons b bs)
  show ?case
  proof (cases "\<exists>fee. q b = Inr fee \<and> fee > 0")
    case True
    with Cons.prems(1) show ?thesis by (intro exI [of _ "[]"] exI [of _ b] exI [of _ bs]) auto
  next
    case False
    then obtain e where "quote_loop q bs (Some e) = Inr v" using Cons.prems(1) by (auto split: sum.splits)
    from Cons.IH [OF this] obtain ys b' zs fee where "bs = ys @ b' # zs" "q b' = Inr fee" "fee > 0" "v = Some fee"
        "\<forall>y\<in>set ys. \<forall>f. q y = Inr f \<longrightarrow> f = 0" by auto
    with False show ?thesis by (intro exI [of _ "b # ys"] exI [of _ b'] exI [of _ zs]) auto
  qed
qed (auto split: option.splits)

lemma resolveBridgeOrder_nonempty: "fst (resolveBridgeOrder D E t src dst sc dc) \<noteq> []"
  using bridge_order_reference by (auto simp: resolveBridgeOrder_def Let_def split: sum.split)

text \<open>
  Also. A quoted bridge fee is positive and is the answer of the router for the first bridge of
  the order that gives a positive one, where the gateway's own choice of bridge replaces the
  order of the policies; there is no quote without an answer.
\<close>

theorem bridge_fee_first_working:
  assumes "getBridgeFeeQuote D E t sourceChainID destChainID sourceToken destToken amount minOut = (Inr v, t')"
  shows "\<exists>src sc dst dc call router ys b zs fee.
    ResolveFromAny (rd_uuid D) (rd_chains D) sourceChainID = Inr (src, sc) \<and>
    ResolveFromAny (rd_uuid D) (rd_chains D) destChainID = Inr (dst, dc) \<and>
    t' = snd (resolveBridgeOrder D E t src dst sc dc) \<and>
    (ys @ b # zs = fst (resolveBridgeOrder D E t src dst sc dc) \<or> ys @ b # zs = [b]) \<and>
    quoteBridgeFeeByType D call router dc b sourceToken destToken amount minOut = Inr fee \<and> 0 < fee \<and> v = Some fee \<and>
    (\<forall>y\<in>set ys. \<forall>f. quoteBridgeFeeByType D call router dc y sourceToken destToken amount minOut = Inr f \<longrightarrow> f = 0)"
proof -
  obtain src sc where s: "ResolveFromAny (rd_uuid D) (rd_chains D) sourceChainID = Inr (src, sc)"
    using assms by (auto simp: getBridgeFeeQuote_def split: sum.splits)
  obtain dst dc where d: "ResolveFromAny (rd_uuid D) (rd_chains D) destChainID = Inr (dst, dc)"
    using assms s by (auto simp: getBridgeFeeQuote_def split: sum.splits)
  obtain chain where c: "repo_GetByID (rd_chains D) src = Inr chain"
    using assms s d by (auto simp: getBridgeFeeQuote_def split: sum.splits)
  obtain router where r: "rd_activeContract D (chain_ID chain) ''ROUTER'' = Inr (Some router)" and tg: "rpc_targets chain \<noteq> []"
    using assms s d c by (auto simp: getBridgeFeeQuote_def split: sum.splits option.splits if_splits)
  obtain call where cl: "connect_any (rd_client D) (rpc_targets chain) (ErrorString []) = Inr call"
    using assms s d c r tg by (auto simp: getBridgeFeeQuote_def split: sum.splits)
  let ?o = "fst (resolveBridgeOrder D E t src dst sc dc)" and ?g = "rd_activeContract D (chain_ID chain) ''GATEWAY''"
  let ?q = "\<lambda>b. quoteBridgeFeeByType D call (gateway_router D call ?g router) dc b sourceToken destToken amount minOut"
  have run: "quote_loop ?q (gateway_order D call ?g dc ?o) None = Inr v" "t' = snd (resolveBridgeOrder D E t src dst sc dc)"
    using assms s d c r tg cl by (auto simp: getBridgeFeeQuote_def Let_def case_prod_unfold)
  have go: "gateway_order D call ?g dc ?o = ?o \<or> (\<exists>b. gateway_order D call ?g dc ?o = [b])"
    by (auto simp: gateway_order_def split: sum.split option.split)
  then have "gateway_order D call ?g dc ?o \<noteq> []" using resolveBridgeOrder_nonempty by auto
  with quote_loop_Inr [OF run(1)] obtain ys b zs fee where q: "gateway_order D call ?g dc ?o = ys @ b # zs" "?q b = Inr fee" "fee > 0"
      "v = Some fee" "\<forall>y\<in>set ys. \<forall>f. ?q y = Inr f \<longrightarrow> f = 0" by auto
  have "ys @ b # zs = ?o \<or> ys @ b # zs = [b]" using go q(1) by (auto simp: Cons_eq_append_conv append_eq_Cons_conv)
  with s d run(2) q show ?thesis by metis
qed

subsection \<open>Quoting changes the route\<close>

lemma bootstrapped_policy:
  assumes "rd_hasPolicies D" "re_create E = None" "re_id E \<noteq> 0" "re_id E \<notin> rp_ID ` set t"
  shows "\<exists>m. bootstrapDefaultRoutePolicy D E t src dst sc dc = t @ [m] \<and> rp_DeletedAt m = None \<and> on_route src dst m \<and>
    pol_DefaultBridgeType (toRoutePolicyEntity R m) = bridgeNameToType (SelectBridge sc dc)"
  using assms
  by (simp add: bootstrapDefaultRoutePolicy_def route_policy_Create_def soft_insert_def insert_row_def
      route_policy_row_of_def default_policy_def on_route_def toRoutePolicyEntity_def)

text \<open>
  Also. Asking for a fee changes the route: for a route without policy but with a configured
  bridge, payments use the configured bridge until the first fee quote; the quote stores a
  default policy, ignores the configured bridge, and from then on payments use the built-in choice.
\<close>

theorem quote_changes_route:
  assumes D: "rd_hasPolicies D" "order_ok (\<lambda>m. - rp_UpdatedAt m) (rd_order D)"
    and none: "\<not> (\<exists>m\<in>set t. rp_DeletedAt m = None \<and> on_route src dst m)"
    and cfg: "rd_bridgeConfig D = Some getActive" "getActive src dst = Inr c" "bc_Bridge c = Some b" "br_Name b \<noteq> []"
    and E: "re_get1 E = None" "re_get2 E = None" "re_create E = None" "re_id E \<noteq> 0" "re_id E \<notin> rp_ID ` set t"
  shows "decideBridge D None t src dst sc dc = (br_Name b, Some (br_ID b)) \<and>
    fst (resolveBridgeOrder D E t src dst sc dc) = [bridgeNameToType (bridgeTypeToName (bridgeNameToType (SelectBridge sc dc)))] \<and>
    decideBridge D None (snd (resolveBridgeOrder D E t src dst sc dc)) src dst sc dc =
      (bridgeTypeToName (bridgeNameToType (SelectBridge sc dc)), None)"
proof -
  have missing: "route_policy_GetByRoute (rd_reader D) (rd_order D) None t src dst = Inl (Sentinel ErrNotFound)"
    using GetByRoute_missing [OF D(2)] none by blast
  obtain m where m: "bootstrapDefaultRoutePolicy D E t src dst sc dc = t @ [m]" "rp_DeletedAt m = None" "on_route src dst m"
      "pol_DefaultBridgeType (toRoutePolicyEntity (rd_reader D) m) = bridgeNameToType (SelectBridge sc dc)"
    using bootstrapped_policy [OF D(1) E(3-5), where R = "rd_reader D"] by blast
  have "select_where (\<lambda>m. rp_DeletedAt m = None \<and> on_route src dst m) (t @ [m]) = [m]"
    using none m(2,3) by (auto simp: select_where_def filter_empty_conv)
  moreover have "rd_order D [m] = [m]"
    using D(2) unfolding order_ok_def by (metis mset_single_iff_right mset.simps(1) mset.simps(2) add_mset_eq_single)
  ultimately have found: "route_policy_GetByRoute (rd_reader D) (rd_order D) None (t @ [m]) src dst = Inr (toRoutePolicyEntity (rd_reader D) m)"
    by (simp add: route_policy_GetByRoute_def)
  have "decideBridge D None t src dst sc dc = (br_Name b, Some (br_ID b))"
    using missing cfg by (simp add: decideBridge_def Let_def)
  moreover have after: "decideBridge D None (t @ [m]) src dst sc dc = (bridgeTypeToName (bridgeNameToType (SelectBridge sc dc)), None)"
    using D(1) found m(4) by (simp add: decideBridge_def Let_def)
  moreover have "resolveBridgeOrder D E t src dst sc dc =
      ([bridgeNameToType (bridgeTypeToName (bridgeNameToType (SelectBridge sc dc)))], t @ [m])"
    using D(1) missing E(1,2) m(1) after by (simp add: resolveBridgeOrder_def Let_def)
  ultimately show ?thesis by simp
qed

text \<open>A deployment for the witnesses: one chain, a router that answers five, a Stargate configuration.\<close>

definition sample_route :: route_deps where
  "sample_route =
     \<lparr>rd_uuid = rfc_uuid, rd_eth = sample_eth, rd_abi = \<lparr>HexToAddress = (\<lambda>s. 0), packABIArgs = (\<lambda>xs. Inr [of_nat (length xs)])\<rparr>,
      rd_reader = sample_reader, rd_order = sort_key (\<lambda>m. - rp_UpdatedAt m),
      rd_chains = \<lparr>repo_GetByID = (\<lambda>k. Inr (base_chain\<lparr>chain_RPCURL := ''http://rpc''\<rparr>)),
                   repo_GetByChainID = (\<lambda>s. Inl (Sentinel ErrNotFound)),
                   repo_GetByCAIP2 = (\<lambda>s. Inr (base_chain\<lparr>chain_RPCURL := ''http://rpc''\<rparr>))\<rparr>,
      rd_activeContract = (\<lambda>k ty. if ty = ''ROUTER'' then Inr (Some ''0xr'') else Inl (Sentinel ErrNotFound)),
      rd_bridgeConfig = Some (\<lambda>s d. Inr \<lparr>bc_ID = 71, bc_BridgeID = 72, bc_SourceChainID = s, bc_DestChainID = d, bc_RouterAddress = [],
                                bc_FeePercentage = [], bc_Config = [], bc_IsActive = True, bc_Bridge = Some \<lparr>br_ID = 72, br_Name = ''Stargate''\<rparr>\<rparr>),
      rd_hasPolicies = True,
      rd_client = (\<lambda>url. Inr (\<lambda>c d. Inr [5]))\<rparr>"

definition sample_route_env :: route_env where
  "sample_route_env = \<lparr>re_get1 = None, re_get2 = None, re_create = None, re_id = 91, re_now = 5\<rparr>"

lemma sample_fee_quote:
  "fst (getBridgeFeeQuote sample_route sample_route_env [] ''eip155:8453'' ''eip155:8453'' ''0xa'' ''0xb'' 100 0) = Inr (Some 5)"
  by code_simp

theorem bridge_fee_first_working_witness:
  "\<exists>t' call router b fee.
     getBridgeFeeQuote sample_route sample_route_env [] ''eip155:8453'' ''eip155:8453'' ''0xa'' ''0xb'' 100 0 = (Inr (Some fee), t') \<and>
     quoteBridgeFeeByType sample_route call router ''eip155:8453'' b ''0xa'' ''0xb'' 100 0 = Inr fee \<and> 0 < fee"
proof -
  obtain t' where q: "getBridgeFeeQuote sample_route sample_route_env [] ''eip155:8453'' ''eip155:8453'' ''0xa'' ''0xb'' 100 0 = (Inr (Some 5), t')"
    using sample_fee_quote by (metis prod.collapse)
  have "ResolveFromAny (rd_uuid sample_route) (rd_chains sample_route) ''eip155:8453'' = Inr (7, ''eip155:8453'')" by code_simp
  with bridge_fee_first_working [OF q] q show ?thesis by fastforce
qed

theorem quote_changes_route_witness:
  "decideBridge sample_route None [] 7 8 ''eip155:1'' ''eip155:10'' = (''Stargate'', Some 72) \<and>
   decideBridge sample_route None (snd (resolveBridgeOrder sample_route sample_route_env [] 7 8 ''eip155:1'' ''eip155:10'')) 7 8 ''eip155:1'' ''eip155:10'' =
     (''CCIP'', None)"
proof -
  let ?c = "\<lambda>s d. \<lparr>bc_ID = 71, bc_BridgeID = 72, bc_SourceChainID = s, bc_DestChainID = d, bc_RouterAddress = [],
      bc_FeePercentage = [], bc_Config = [], bc_IsActive = True, bc_Bridge = Some \<lparr>br_ID = 72, br_Name = ''Stargate''\<rparr>\<rparr>"
  have D: "rd_hasPolicies sample_route" "order_ok (\<lambda>m. - rp_UpdatedAt m) (rd_order sample_route)"
      "rd_bridgeConfig sample_route = Some (\<lambda>s d. Inr (?c s d))"
    by (simp_all add: sample_route_def order_ok_sort_key)
  have "bridgeTypeToName (bridgeNameToType (SelectBridge ''eip155:1'' ''eip155:10'')) = ''CCIP''" by code_simp
  then show ?thesis
    using quote_changes_route [OF D(1,2) _ D(3), of "[]" 7 8 "?c 7 8" "\<lparr>br_ID = 72, br_Name = ''Stargate''\<rparr>" sample_route_env "''eip155:1''" "''eip155:10''"]
    by (simp add: sample_route_env_def)
qed

end
