(* ===== verification/Privacy.thy ===== *)
theory Privacy
  imports Payments Route_Errors Payment_Requests "HOL-Library.List_Lexorder" "HOL-Library.Char_ord"
begin

text \<open>
  Private payments (\<^verbatim>\<open>internal/usecases/payment_usecase.go\<close>, from \<^verbatim>\<open>GetPayment\<close> to \<^verbatim>\<open>dedupeSignals\<close>).
  The stage of a private payment is inferred from its row and its recorded events, and for the
  status view also from the state of the gateway contract; in the stages that allow it the
  backend builds the transaction that retries the forwarding, claims the escrow or refunds it.
  Repositories, RPC client, JSON codec and Ethereum library are arguments.
\<close>

subsection \<open>Stages and actions\<close>

definition PrivacyLifecycleUnknown :: string where "PrivacyLifecycleUnknown = ''privacy_unknown''"
definition PrivacyLifecycleNotPrivacy :: string where "PrivacyLifecycleNotPrivacy = ''not_privacy''"
definition PrivacyLifecyclePendingOnSource :: string where "PrivacyLifecyclePendingOnSource = ''privacy_pending_on_source''"
definition PrivacyLifecycleSettledToStealth :: string where "PrivacyLifecycleSettledToStealth = ''privacy_settled_to_stealth''"
definition PrivacyLifecycleForwardedFinal :: string where "PrivacyLifecycleForwardedFinal = ''privacy_forwarded_final''"
definition PrivacyLifecycleForwardFailedRetrying :: string where
  "PrivacyLifecycleForwardFailedRetrying = ''privacy_forward_failed_retrying''"
definition PrivacyLifecycleClaimable :: string where "PrivacyLifecycleClaimable = ''privacy_claimable''"
definition PrivacyLifecycleRefundable :: string where "PrivacyLifecycleRefundable = ''privacy_refundable''"
definition PrivacyLifecycleResolved :: string where "PrivacyLifecycleResolved = ''privacy_resolved''"

lemmas lifecycle_defs =
  PrivacyLifecycleUnknown_def PrivacyLifecycleNotPrivacy_def PrivacyLifecyclePendingOnSource_def
  PrivacyLifecycleSettledToStealth_def PrivacyLifecycleForwardedFinal_def PrivacyLifecycleForwardFailedRetrying_def
  PrivacyLifecycleClaimable_def PrivacyLifecycleRefundable_def PrivacyLifecycleResolved_def

datatype PrivacyRecoveryAction =
  PrivacyRecoveryActionRetry | PrivacyRecoveryActionClaim | PrivacyRecoveryActionRefund | PrivacyRecoveryActionOther string

record PaymentPrivacyStatus =
  pps_PaymentID :: uuid
  pps_Stage :: string
  pps_IsPrivacyCandidate :: bool
  pps_Signals :: "string list"
  pps_Reason :: string

record PaymentPrivacyRecoveryTx =
  prt_Action :: PrivacyRecoveryAction
  prt_PaymentID :: uuid
  prt_OnchainPaymentID :: string
  prt_Stage :: string
  prt_ChainID :: string
  prt_ContractAddress :: string
  prt_Method :: string
  prt_Calldata :: string
  prt_Value :: string
  prt_Signals :: "string list"
  prt_Reason :: string

subsection \<open>Printing of decoded JSON\<close>

text \<open>
  A JSON object is decoded into a Go map: of a repeated key the last value stays.
  \<^verbatim>\<open>fmt.Sprintf("%v", v)\<close> prints a map with its keys in order; how it prints a float is left to
  the argument \<open>pf\<close>.
\<close>

fun go_map :: "(string \<times> 'v) list \<Rightarrow> (string \<times> 'v) list" where
  "go_map [] = []"
| "go_map ((k, v) # kvs) = (if k \<in> fst ` set kvs then go_map kvs else (k, v) # go_map kvs)"

fun join :: "string \<Rightarrow> string list \<Rightarrow> string" where
  "join sep [] = []"
| "join sep [s] = s"
| "join sep (s # ss) = s @ sep @ join sep ss"

fun sprint_v :: "(string \<Rightarrow> string) \<Rightarrow> json \<Rightarrow> string" where
  "sprint_v pf JNull = ''<nil>''"
| "sprint_v pf (JBool b) = (if b then ''true'' else ''false'')"
| "sprint_v pf (JNumber s) = pf s"
| "sprint_v pf (JString s) = s"
| "sprint_v pf (JArray vs) = ''['' @ join '' '' (map (sprint_v pf) vs) @ '']''"
| "sprint_v pf (JObject kvs) =
     ''map['' @ join '' '' (map (\<lambda>(k, s). k @ '':'' @ s) (sort_key fst (go_map (map (\<lambda>(k, v). (k, sprint_v pf v)) kvs)))) @ '']''"

definition sprint_any :: "(string \<Rightarrow> string) \<Rightarrow> json option \<Rightarrow> string" where
  "sprint_any pf m = (case m of None \<Rightarrow> ''<nil>'' | Some v \<Rightarrow> sprint_v pf v)"

subsection \<open>The stage inferred from the records\<close>

fun dedupe_loop :: "string list \<Rightarrow> string list \<Rightarrow> string list \<Rightarrow> string list" where
  "dedupe_loop seen unique [] = unique"
| "dedupe_loop seen unique (s # ss) =
     (if s = [] then dedupe_loop seen unique ss
      else if s \<in> set seen then dedupe_loop seen unique ss
      else dedupe_loop (s # seen) (unique @ [s]) ss)"

definition dedupeSignals :: "string list \<Rightarrow> string list" where
  "dedupeSignals signals = (if length signals = 0 then signals else dedupe_loop [] [] signals)"

record privacy_flags =
  hasPrivacySignal :: bool
  hasForwardFailure :: bool
  hasForwardCompletedSignal :: bool
  hasForwardRequestedSignal :: bool
  hasPrivacyPreparedSignal :: bool
  hasRetryRequestedSignal :: bool
  hasEscrowClaimedSignal :: bool
  hasEscrowRefundedSignal :: bool
  hasStealthSettlementSignal :: bool
  flag_signals :: "string list"

definition event_type_text :: "PaymentEvent \<Rightarrow> string" where
  "event_type_text ev = ToUpper (TrimSpace (ev_EventType ev))"

definition event_blob :: "(string \<Rightarrow> string) \<Rightarrow> PaymentEvent \<Rightarrow> string" where
  "event_blob pf ev = event_type_text ev @ ''|'' @ ToUpper (TrimSpace (sprint_any pf (ev_Metadata ev)))"

definition mentions :: "string \<Rightarrow> string list \<Rightarrow> bool" where
  "mentions blob ws \<longleftrightarrow> list_ex (Contains blob) ws"

definition prepared_words :: "string list" where
  "prepared_words = [''PRIVACYPAYMENTCREATED'', ''PRIVACY_PAYMENT_CREATED'']"
definition requested_words :: "string list" where
  "requested_words = [''PRIVACYFORWARDREQUESTED'', ''PRIVACY_FORWARD_REQUESTED'']"
definition retry_words :: "string list" where
  "retry_words = [''PRIVACYFORWARDRETRYREQUESTED'', ''PRIVACY_FORWARD_RETRY_REQUESTED'']"
definition completed_words :: "string list" where
  "completed_words = [''PRIVACYFORWARDCOMPLETED'', ''PRIVACY_FORWARD_COMPLETED'']"
definition claimed_words :: "string list" where
  "claimed_words = [''PRIVACYESCROWCLAIMED'', ''PRIVACY_ESCROW_CLAIMED'', ''PRIVACYCLAIMED'', ''PRIVACY_CLAIMED'']"
definition refunded_words :: "string list" where
  "refunded_words = [''PRIVACYESCROWREFUNDED'', ''PRIVACY_ESCROW_REFUNDED'', ''PRIVACYREFUNDED'', ''PRIVACY_REFUNDED'']"

text \<open>One test of the loop body: when it holds, a flag is set and a signal noted.\<close>

definition note_if :: "bool \<Rightarrow> (privacy_flags \<Rightarrow> privacy_flags) \<Rightarrow> string list \<Rightarrow> privacy_flags \<Rightarrow> privacy_flags" where
  "note_if b set_flag sigs st = (if b then set_flag (st\<lparr>flag_signals := flag_signals st @ sigs\<rparr>) else st)"

definition scan_event :: "(string \<Rightarrow> string) \<Rightarrow> privacy_flags \<Rightarrow> PaymentEvent \<Rightarrow> privacy_flags" where
  "scan_event pf st ev =
     (let evType = event_type_text ev; blob = event_blob pf ev in
      note_if (Contains blob ''PRIVACY_FORWARD_FAILED'') (hasForwardFailure_update (\<lambda>_. True)) [''privacy_forward_failed_event'']
     (note_if (evType = ''DESTINATION_TX_HASH'' \<or> evType = ''PAYMENT_EXECUTED'' \<or> Contains blob ''STEALTH'')
        (hasStealthSettlementSignal_update (\<lambda>_. True)) []
     (note_if (mentions blob refunded_words) (hasEscrowRefundedSignal_update (\<lambda>_. True)) [''privacy_escrow_refunded'']
     (note_if (mentions blob claimed_words) (hasEscrowClaimedSignal_update (\<lambda>_. True)) [''privacy_escrow_claimed'']
     (note_if (mentions blob completed_words) (hasForwardCompletedSignal_update (\<lambda>_. True)) [''privacy_forward_completed'']
     (note_if (mentions blob retry_words) (hasRetryRequestedSignal_update (\<lambda>_. True)) [''privacy_forward_retry_requested'']
     (note_if (mentions blob requested_words) (hasForwardRequestedSignal_update (\<lambda>_. True)) [''privacy_forward_requested'']
     (note_if (mentions blob prepared_words) (hasPrivacyPreparedSignal_update (\<lambda>_. True)) [''privacy_prepared'']
     (note_if (Contains blob ''PRIVACY'') (hasPrivacySignal_update (\<lambda>_. True)) [''event_contains_privacy''] st)))))))))"

definition null_text :: "string option \<Rightarrow> string" where
  "null_text s = (case s of Some t \<Rightarrow> t | None \<Rightarrow> [])"

definition dest_settled :: "Payment \<Rightarrow> bool" where
  "dest_settled payment \<longleftrightarrow> (case pay_DestTxHash payment of Some h \<Rightarrow> TrimSpace h \<noteq> [] | None \<Rightarrow> False)"

definition initial_flags :: "Payment \<Rightarrow> privacy_flags" where
  "initial_flags payment =
     (let failureUpper = ToUpper (TrimSpace (null_text (pay_FailureReason payment)));
          priv = Contains failureUpper ''PRIVACY''; failed = Contains failureUpper ''PRIVACY_FORWARD_FAILED'' in
      \<lparr>hasPrivacySignal = priv, hasForwardFailure = failed, hasForwardCompletedSignal = False,
       hasForwardRequestedSignal = False, hasPrivacyPreparedSignal = False, hasRetryRequestedSignal = False,
       hasEscrowClaimedSignal = False, hasEscrowRefundedSignal = False, hasStealthSettlementSignal = False,
       flag_signals =
         (if dest_settled payment then [''dest_tx_hash_present''] else []) @
         (if priv then [''failure_reason_contains_privacy''] else []) @
         (if failed then [''privacy_forward_failed''] else [])\<rparr>)"

text \<open>The decision after the loop: stage, whether the payment is private, and the reason.\<close>

definition privacy_stage :: "Payment \<Rightarrow> privacy_flags \<Rightarrow> string \<times> bool \<times> string" where
  "privacy_stage payment st =
     (let failure = TrimSpace (null_text (pay_FailureReason payment)); failureUpper = ToUpper failure;
          status = pay_Status payment; settled = dest_settled payment \<or> hasStealthSettlementSignal st in
      if hasEscrowClaimedSignal st \<or> hasEscrowRefundedSignal st then (PrivacyLifecycleResolved, True, [])
      else if hasForwardFailure st then
        (if hasRetryRequestedSignal st then (PrivacyLifecycleForwardFailedRetrying, True, failure)
         else if status = PaymentStatusFailed \<or> Contains failureUpper ''REFUND'' then (PrivacyLifecycleRefundable, True, failure)
         else (PrivacyLifecycleClaimable, True, failure))
      else if hasRetryRequestedSignal st then (PrivacyLifecycleForwardFailedRetrying, True, failure)
      else if hasForwardCompletedSignal st then (PrivacyLifecycleForwardedFinal, True, [])
      else if hasForwardRequestedSignal st then (PrivacyLifecycleSettledToStealth, True, [])
      else if status = PaymentStatusCompleted \<and> settled then
        (if hasPrivacySignal st then
           (PrivacyLifecycleSettledToStealth, True, ''privacy forward confirmation not observed yet'')
         else (PrivacyLifecycleNotPrivacy, False, ''payment completed without privacy markers''))
      else if settled \<or> status = PaymentStatusProcessing then
        (if hasPrivacySignal st then (PrivacyLifecycleSettledToStealth, True, [])
         else (PrivacyLifecycleUnknown, False, ''settlement signal exists but privacy markers missing''))
      else if status = PaymentStatusPending then
        (if hasPrivacyPreparedSignal st then (PrivacyLifecyclePendingOnSource, True, [])
         else if hasPrivacySignal st then (PrivacyLifecyclePendingOnSource, True, [])
         else (PrivacyLifecycleUnknown, False, ''payment still pending and privacy markers missing''))
      else if hasPrivacySignal st then (PrivacyLifecyclePendingOnSource, True, [])
      else (PrivacyLifecycleUnknown, False, ''insufficient privacy lifecycle signals''))"

definition derivePaymentPrivacyLifecycle ::
  "(string \<Rightarrow> string) \<Rightarrow> Payment \<Rightarrow> PaymentEvent list \<Rightarrow> string \<times> bool \<times> string list \<times> string" where
  "derivePaymentPrivacyLifecycle pf payment events =
     (let st = foldl (scan_event pf) (initial_flags payment) events;
          (stage, isPrivacy, reason) = privacy_stage payment st in
      (stage, isPrivacy, dedupeSignals (flag_signals st), reason))"

subsection \<open>The stage read from the gateway\<close>

type_synonym view_call = "string \<Rightarrow> byte list \<Rightarrow> byte list result"

definition callGatewayPaymentGetter :: "eth_lib \<Rightarrow> view_call \<Rightarrow> string \<Rightarrow> string \<Rightarrow> byte list \<Rightarrow> byte list result" where
  "callGatewayPaymentGetter E callView gateway methodSig paymentID =
     callView gateway (take 4 (Keccak256 E (bytes_of methodSig)) @ abi_Pack_bytes32 E paymentID)"

text \<open>The common shape of the getters: call, decode one value, convert it.\<close>

definition unpack_error :: gerror where "unpack_error = ErrorString ''abi: cannot unmarshal''"

definition gateway_getter ::
  "string \<Rightarrow> string \<Rightarrow> (abi_value \<Rightarrow> 'v option) \<Rightarrow> eth_lib \<Rightarrow> view_call \<Rightarrow> string \<Rightarrow> string \<Rightarrow> byte list \<Rightarrow> 'v result" where
  "gateway_getter ty name conv E callView gateway methodSig paymentID =
     (case callGatewayPaymentGetter E callView gateway methodSig paymentID of
        Inl e \<Rightarrow> Inl e
      | Inr out \<Rightarrow>
          (case abi_Unpack E [ty] out of
             None \<Rightarrow> Inl unpack_error
           | Some vs \<Rightarrow>
               if length vs \<noteq> 1 then Inl (ErrorString (''invalid '' @ name @ '' getter response''))
               else (case conv (vs ! 0) of
                       Some v \<Rightarrow> Inr v
                     | None \<Rightarrow> Inl (ErrorString (''invalid '' @ name @ '' getter type'')))))"

definition copy32 :: "byte list \<Rightarrow> byte list" where
  "copy32 b = take 32 b @ replicate (32 - length b) 0"

definition callGatewayBytes32Getter :: "eth_lib \<Rightarrow> view_call \<Rightarrow> string \<Rightarrow> string \<Rightarrow> byte list \<Rightarrow> byte list result" where
  "callGatewayBytes32Getter =
     gateway_getter ''bytes32'' ''bytes32'' (\<lambda>v. case v of AbiBytes32 b \<Rightarrow> Some b | AbiBytes b \<Rightarrow> Some (copy32 b) | _ \<Rightarrow> None)"

definition callGatewayAddressGetter :: "eth_lib \<Rightarrow> view_call \<Rightarrow> string \<Rightarrow> string \<Rightarrow> byte list \<Rightarrow> 160 word result" where
  "callGatewayAddressGetter =
     gateway_getter ''address'' ''address'' (\<lambda>v. case v of AbiAddress a \<Rightarrow> Some a | _ \<Rightarrow> None)"

definition callGatewayBoolGetter :: "eth_lib \<Rightarrow> view_call \<Rightarrow> string \<Rightarrow> string \<Rightarrow> byte list \<Rightarrow> bool result" where
  "callGatewayBoolGetter = gateway_getter ''bool'' ''bool'' (\<lambda>v. case v of AbiBool b \<Rightarrow> Some b | _ \<Rightarrow> None)"

definition callGatewayUint8Getter :: "eth_lib \<Rightarrow> view_call \<Rightarrow> string \<Rightarrow> string \<Rightarrow> byte list \<Rightarrow> u8 result" where
  "callGatewayUint8Getter =
     gateway_getter ''uint8'' ''uint8'' (\<lambda>v. case v of AbiU8 w \<Rightarrow> Some w | AbiBig n \<Rightarrow> Some (word_of_nat n) | _ \<Rightarrow> None)"

definition callGatewayUint256Getter :: "eth_lib \<Rightarrow> view_call \<Rightarrow> string \<Rightarrow> string \<Rightarrow> byte list \<Rightarrow> nat result" where
  "callGatewayUint256Getter =
     gateway_getter ''uint256'' ''uint256'' (\<lambda>v. case v of AbiBig n \<Rightarrow> Some n | AbiU64 w \<Rightarrow> Some (unat w) | _ \<Rightarrow> None)"

record gatewayPrivacyState =
  gps_intentID :: "byte list"
  gps_stealthReceiver :: "160 word"
  gps_forwardCompleted :: bool
  gps_retryCount :: u8
  gps_settledToken :: "160 word"
  gps_settledAmount :: nat

definition fetchGatewayPrivacyState ::
  "eth_lib \<Rightarrow> view_call \<Rightarrow> string \<Rightarrow> byte list \<Rightarrow> gatewayPrivacyState result" where
  "fetchGatewayPrivacyState E callView gateway paymentID =
     (case callGatewayBytes32Getter E callView gateway ''privacyIntentByPayment(bytes32)'' paymentID of Inl e \<Rightarrow> Inl e | Inr intentID \<Rightarrow>
     (case callGatewayAddressGetter E callView gateway ''privacyStealthByPayment(bytes32)'' paymentID of Inl e \<Rightarrow> Inl e | Inr stealth \<Rightarrow>
     (case callGatewayBoolGetter E callView gateway ''privacyForwardCompleted(bytes32)'' paymentID of Inl e \<Rightarrow> Inl e | Inr completed \<Rightarrow>
     (case callGatewayUint8Getter E callView gateway ''privacyForwardRetryCount(bytes32)'' paymentID of Inl e \<Rightarrow> Inl e | Inr retries \<Rightarrow>
     (case callGatewayAddressGetter E callView gateway ''paymentSettledToken(bytes32)'' paymentID of Inl e \<Rightarrow> Inl e | Inr token \<Rightarrow>
     (case callGatewayUint256Getter E callView gateway ''paymentSettledAmount(bytes32)'' paymentID of Inl e \<Rightarrow> Inl e | Inr amount \<Rightarrow>
        Inr \<lparr>gps_intentID = intentID, gps_stealthReceiver = stealth, gps_forwardCompleted = completed,
             gps_retryCount = retries, gps_settledToken = token, gps_settledAmount = amount\<rparr>))))))"

text \<open>What the use case is built with; \<open>pv_client\<close> is the client factory, which may be nil.\<close>

record privacy_deps =
  pv_eth :: eth_lib
  pv_uuid :: uuid_lib
  pv_json :: json_lib
  pv_float :: "string \<Rightarrow> string"
  pv_range :: "(string \<times> json) list \<Rightarrow> (string \<times> json) list"
  pv_chain :: "uuid \<Rightarrow> Chain result"
  pv_activeContract :: "uuid \<Rightarrow> string \<Rightarrow> string option result"
  pv_client :: "(string \<Rightarrow> view_call result) option"

definition gateway_signals :: "gatewayPrivacyState \<Rightarrow> string list" where
  "gateway_signals st =
     (if gps_intentID st \<noteq> zero32 then [''onchain_privacy_intent_present''] else []) @
     (if gps_stealthReceiver st \<noteq> 0 then [''onchain_privacy_stealth_receiver_present''] else []) @
     (if gps_settledToken st \<noteq> 0 \<and> gps_settledAmount st > 0 then [''onchain_privacy_settlement_present''] else []) @
     (if gps_forwardCompleted st then [''onchain_privacy_forward_completed''] else []) @
     (if gps_retryCount st > 0 then [''onchain_privacy_forward_retry_count_present''] else [])"

definition gateway_stage :: "Payment \<Rightarrow> gatewayPrivacyState \<Rightarrow> string \<Rightarrow> string \<Rightarrow> string \<times> string" where
  "gateway_stage payment st currentStage currentReason =
     (if gps_forwardCompleted st then (PrivacyLifecycleForwardedFinal, [])
      else if gps_retryCount st > 0 then
        (let failureUpper = ToUpper (TrimSpace (null_text (pay_FailureReason payment))) in
         if pay_Status payment = PaymentStatusFailed \<or> pay_Status payment = PaymentStatusRefunded \<or> Contains failureUpper ''REFUND'' then
           (PrivacyLifecycleRefundable, currentReason)
         else if currentStage = PrivacyLifecycleForwardFailedRetrying \<or> Contains failureUpper ''RETRY'' then
           (PrivacyLifecycleForwardFailedRetrying, currentReason)
         else (PrivacyLifecycleClaimable, currentReason))
      else if gps_settledToken st \<noteq> 0 \<and> gps_settledAmount st > 0 then
        (PrivacyLifecycleSettledToStealth,
         if TrimSpace currentReason = [] \<and> pay_Status payment = PaymentStatusCompleted
         then ''privacy forward confirmation not observed yet'' else currentReason)
      else (PrivacyLifecyclePendingOnSource, currentReason))"

definition read_gateway_state :: "privacy_deps \<Rightarrow> Payment \<Rightarrow> gatewayPrivacyState option" where
  "read_gateway_state D payment =
     (case pv_client D of None \<Rightarrow> None | Some getClient \<Rightarrow>
     (case pv_chain D (pay_SourceChainID payment) of Inl _ \<Rightarrow> None | Inr chain \<Rightarrow>
        if chain_Type chain \<noteq> ChainTypeEVM then None
        else
          (case pv_activeContract D (pay_SourceChainID payment) ''GATEWAY'' of
             Inr (Some gateway) \<Rightarrow>
               if \<not> IsHexAddress (pv_eth D) gateway then None
               else if resolveRPCURL (Some chain) = [] then None
               else
                 (case getClient (resolveRPCURL (Some chain)) of
                    Inl _ \<Rightarrow> None
                  | Inr callView \<Rightarrow>
                      (case fetchGatewayPrivacyState (pv_eth D) callView gateway (uuidToBytes32 (pay_ID payment)) of
                         Inl _ \<Rightarrow> None | Inr st \<Rightarrow> Some st))
           | _ \<Rightarrow> None)))"

definition deriveGatewayPrivacyLifecycle ::
  "privacy_deps \<Rightarrow> Payment \<Rightarrow> string \<Rightarrow> bool \<Rightarrow> string \<Rightarrow> (string \<times> bool \<times> string list \<times> string) option" where
  "deriveGatewayPrivacyLifecycle D payment currentStage currentPrivacy currentReason =
     (case read_gateway_state D payment of
        None \<Rightarrow> None
      | Some st \<Rightarrow>
          if \<not> (currentPrivacy \<or> gps_intentID st \<noteq> zero32 \<or> gps_stealthReceiver st \<noteq> 0 \<or> gps_forwardCompleted st \<or> gps_retryCount st > 0)
          then None
          else let (stage, reason) = gateway_stage payment st currentStage currentReason in
               Some (stage, True, dedupeSignals (gateway_signals st), reason))"

definition GetPaymentPrivacyStatus ::
  "privacy_deps \<Rightarrow> (uuid \<Rightarrow> Payment result) \<Rightarrow> (uuid \<Rightarrow> PaymentEvent list result) \<Rightarrow> uuid \<Rightarrow> PaymentPrivacyStatus result" where
  "GetPaymentPrivacyStatus D getPayment getEvents paymentID =
     (case getPayment paymentID of Inl e \<Rightarrow> Inl e | Inr payment \<Rightarrow>
     (case getEvents paymentID of Inl e \<Rightarrow> Inl e | Inr events \<Rightarrow>
        (let (stage, isPrivacy, signals, reason) = derivePaymentPrivacyLifecycle (pv_float D) payment events in
         (case deriveGatewayPrivacyLifecycle D payment stage isPrivacy reason of
            None \<Rightarrow>
              Inr \<lparr>pps_PaymentID = paymentID, pps_Stage = stage, pps_IsPrivacyCandidate = isPrivacy,
                   pps_Signals = signals, pps_Reason = reason\<rparr>
          | Some (onchainStage, onchainPrivacy, onchainSignals, onchainReason) \<Rightarrow>
              Inr \<lparr>pps_PaymentID = paymentID, pps_Stage = onchainStage, pps_IsPrivacyCandidate = onchainPrivacy,
                   pps_Signals = signals @ onchainSignals,
                   pps_Reason = (if TrimSpace onchainReason \<noteq> [] then onchainReason else reason)\<rparr>))))"

subsection \<open>Recovery transactions\<close>

definition validatePrivacyRecoveryStage :: "string \<Rightarrow> PrivacyRecoveryAction \<Rightarrow> gerror option" where
  "validatePrivacyRecoveryStage stage action =
     (case action of
        PrivacyRecoveryActionRetry \<Rightarrow>
          if stage \<noteq> PrivacyLifecycleForwardFailedRetrying \<and> stage \<noteq> PrivacyLifecycleClaimable \<and> stage \<noteq> PrivacyLifecycleRefundable
          then Some (BadRequest ''retry is only allowed after forward failure'') else None
      | PrivacyRecoveryActionClaim \<Rightarrow>
          if stage \<noteq> PrivacyLifecycleClaimable \<and> stage \<noteq> PrivacyLifecycleForwardFailedRetrying \<and> stage \<noteq> PrivacyLifecycleSettledToStealth
          then Some (BadRequest ''claim is not available for current privacy stage'') else None
      | PrivacyRecoveryActionRefund \<Rightarrow>
          if stage \<noteq> PrivacyLifecycleRefundable \<and> stage \<noteq> PrivacyLifecycleForwardFailedRetrying
          then Some (BadRequest ''refund is not available for current privacy stage'') else None
      | PrivacyRecoveryActionOther _ \<Rightarrow> Some (BadRequest ''invalid privacy recovery action''))"

definition parseOnchainPaymentID :: "string \<Rightarrow> (byte list \<times> string) result" where
  "parseOnchainPaymentID raw =
     (let trimmed = TrimPrefix (ToLower (TrimSpace raw)) ''0x'' in
      if length trimmed \<noteq> 64 then Inl (ErrorString ''onchainPaymentId must be 32-byte hex'')
      else case DecodeString trimmed of
             None \<Rightarrow> Inl (ErrorString ''onchainPaymentId must be valid hex'')
           | Some decoded \<Rightarrow> Inr (copy32 decoded, ''0x'' @ EncodeToString (copy32 decoded)))"

definition looksLikeBytes32Hex :: "string \<Rightarrow> bool" where
  "looksLikeBytes32Hex value \<longleftrightarrow>
     (let trimmed = TrimPrefix (TrimSpace (ToLower value)) ''0x'' in
      length trimmed = 64 \<and> DecodeString trimmed \<noteq> None)"

definition id_keys :: "string list" where
  "id_keys =
     [''onchainPaymentId'', ''onchain_payment_id'', ''paymentIdHex'', ''payment_id_hex'',
      ''paymentIdBytes32'', ''payment_id_bytes32'', ''onchainPaymentID'', ''onchain_paymentID'']"

definition first_nonempty :: "string list \<Rightarrow> string" where
  "first_nonempty ss = (case find (\<lambda>s. s \<noteq> []) ss of Some s \<Rightarrow> s | None \<Rightarrow> [])"

text \<open>
  The search goes down at most five levels; the first argument counts the levels left.
  The order in which Go visits a map is \<open>rng\<close>. Values under the known keys are tried first.
\<close>

fun extract_levels :: "json_lib \<Rightarrow> ((string \<times> json) list \<Rightarrow> (string \<times> json) list) \<Rightarrow> nat \<Rightarrow> json \<Rightarrow> string" where
  "extract_levels J rng 0 metadata = []"
| "extract_levels J rng (Suc n) metadata =
     (case metadata of
        JString v \<Rightarrow>
          let trimmed = TrimSpace v in
          if trimmed = [] then []
          else if looksLikeBytes32Hex trimmed then trimmed
          else (case json_Parse J trimmed of None \<Rightarrow> [] | Some decoded \<Rightarrow> extract_levels J rng n decoded)
      | JObject kvs \<Rightarrow>
          let v = go_map kvs in
          first_nonempty
            (map (\<lambda>k. case map_of v k of Some raw \<Rightarrow> extract_levels J rng n raw | None \<Rightarrow> []) id_keys @
             map (\<lambda>(k, raw). extract_levels J rng n raw) (rng v))
      | JArray vs \<Rightarrow> first_nonempty (map (extract_levels J rng n) vs)
      | _ \<Rightarrow> [])"

definition extractOnchainPaymentIDFromMetadata ::
  "json_lib \<Rightarrow> ((string \<times> json) list \<Rightarrow> (string \<times> json) list) \<Rightarrow> json option \<Rightarrow> nat \<Rightarrow> string" where
  "extractOnchainPaymentIDFromMetadata J rng metadata depth =
     (case metadata of None \<Rightarrow> [] | Some v \<Rightarrow> extract_levels J rng (5 - depth) v)"

fun resolve_from_events ::
  "json_lib \<Rightarrow> ((string \<times> json) list \<Rightarrow> (string \<times> json) list) \<Rightarrow> PaymentEvent list \<Rightarrow> (byte list \<times> string) result" where
  "resolve_from_events J rng [] = Inl (ErrorString ''onchainPaymentId is required (not found in request or event metadata)'')"
| "resolve_from_events J rng (ev # evs) =
     (let candidate = extractOnchainPaymentIDFromMetadata J rng (ev_Metadata ev) 0 in
      if candidate = [] then resolve_from_events J rng evs
      else case parseOnchainPaymentID candidate of
             Inr r \<Rightarrow> Inr r
           | Inl _ \<Rightarrow> resolve_from_events J rng evs)"

definition resolveOnchainPaymentID ::
  "json_lib \<Rightarrow> ((string \<times> json) list \<Rightarrow> (string \<times> json) list) \<Rightarrow> PaymentEvent list \<Rightarrow> string \<Rightarrow> (byte list \<times> string) result" where
  "resolveOnchainPaymentID J rng events raw =
     (let trimmedInput = TrimSpace raw in
      if trimmedInput \<noteq> [] then parseOnchainPaymentID trimmedInput
      else resolve_from_events J rng (rev events))"

definition recovery_method :: "PrivacyRecoveryAction \<Rightarrow> string" where
  "recovery_method action =
     (case action of
        PrivacyRecoveryActionRetry \<Rightarrow> ''retryPrivacyForward(bytes32)''
      | PrivacyRecoveryActionClaim \<Rightarrow> ''claimPrivacyEscrow(bytes32)''
      | PrivacyRecoveryActionRefund \<Rightarrow> ''refundPrivacyEscrow(bytes32)''
      | PrivacyRecoveryActionOther _ \<Rightarrow> [])"

definition privacyRecoveryMethodSpec :: "eth_lib \<Rightarrow> PrivacyRecoveryAction \<Rightarrow> (string \<times> string) result" where
  "privacyRecoveryMethodSpec E action =
     (case action of
        PrivacyRecoveryActionOther _ \<Rightarrow> Inl (ErrorString ''unknown privacy recovery action'')
      | _ \<Rightarrow> Inr (recovery_method action, computeSelectorHex (Keccak256 E) (recovery_method action)))"

definition buildPrivacyRecoveryTx ::
  "privacy_deps \<Rightarrow> (uuid \<Rightarrow> Payment result) \<Rightarrow> (uuid \<Rightarrow> PaymentEvent list result) \<Rightarrow> uuid \<Rightarrow> string \<Rightarrow>
   PrivacyRecoveryAction \<Rightarrow> PaymentPrivacyRecoveryTx result" where
  "buildPrivacyRecoveryTx D getPayment getEvents paymentID onchainPaymentID action =
     (case getPayment paymentID of Inl e \<Rightarrow> Inl e | Inr payment \<Rightarrow>
     (case getEvents paymentID of Inl e \<Rightarrow> Inl e | Inr events \<Rightarrow>
        (let (stage, isPrivacy, signals, reason) = derivePaymentPrivacyLifecycle (pv_float D) payment events in
         if \<not> isPrivacy then Inl (BadRequest ''payment is not in privacy flow'')
         else
           (case validatePrivacyRecoveryStage stage action of Some e \<Rightarrow> Inl e | None \<Rightarrow>
           (case resolveOnchainPaymentID (pv_json D) (pv_range D) events onchainPaymentID of
              Inl e \<Rightarrow> Inl (BadRequest (error_text e))
            | Inr (idBytes, normalized) \<Rightarrow>
                (case privacyRecoveryMethodSpec (pv_eth D) action of
                   Inl e \<Rightarrow> Inl (BadRequest (error_text e))
                 | Inr (methodSig, selector) \<Rightarrow>
                     (case pv_activeContract D (pay_SourceChainID payment) ''GATEWAY'' of
                        Inl e \<Rightarrow> Inl (WrapErr ''active gateway contract not found'' e)
                      | Inr contract \<Rightarrow>
                          (case pv_chain D (pay_SourceChainID payment) of
                             Inl e \<Rightarrow> Inl (WrapErr ''source chain not found'' e)
                           | Inr sourceChain \<Rightarrow>
                               (case contract of
                                  None \<Rightarrow> Inl nil_dereference
                                | Some gateway \<Rightarrow>
                                    Inr \<lparr>prt_Action = action, prt_PaymentID = paymentID, prt_OnchainPaymentID = normalized,
                                         prt_Stage = stage, prt_ChainID = GetCAIP2ID sourceChain, prt_ContractAddress = gateway,
                                         prt_Method = methodSig, prt_Calldata = selector @ EncodeToString idBytes,
                                         prt_Value = ''0'', prt_Signals = dedupeSignals signals, prt_Reason = reason\<rparr>)))))))))"

definition BuildRetryPrivacyRecoveryTx where
  "BuildRetryPrivacyRecoveryTx D gp ge k onchainPaymentID = buildPrivacyRecoveryTx D gp ge k onchainPaymentID PrivacyRecoveryActionRetry"

definition BuildClaimPrivacyRecoveryTx where
  "BuildClaimPrivacyRecoveryTx D gp ge k onchainPaymentID = buildPrivacyRecoveryTx D gp ge k onchainPaymentID PrivacyRecoveryActionClaim"

definition BuildRefundPrivacyRecoveryTx where
  "BuildRefundPrivacyRecoveryTx D gp ge k onchainPaymentID = buildPrivacyRecoveryTx D gp ge k onchainPaymentID PrivacyRecoveryActionRefund"

subsection \<open>Signals\<close>

lemma set_dedupe_loop: "set (dedupe_loop seen u ss) = set u \<union> (set ss - set seen - {[]})"
  by (induction seen u ss rule: dedupe_loop.induct) auto

lemma distinct_dedupe_loop: "distinct u \<Longrightarrow> set u \<subseteq> set seen \<Longrightarrow> distinct (dedupe_loop seen u ss)"
  by (induction seen u ss rule: dedupe_loop.induct) auto

lemma set_dedupeSignals [simp]: "set (dedupeSignals ss) = set ss - {[]}"
  by (auto simp: dedupeSignals_def set_dedupe_loop)

lemma distinct_dedupeSignals [simp]: "distinct (dedupeSignals ss)"
  by (simp add: dedupeSignals_def distinct_dedupe_loop)

lemma dedupe_loop_distinct:
  "distinct ss \<Longrightarrow> [] \<notin> set ss \<Longrightarrow> set ss \<inter> set seen = {} \<Longrightarrow> dedupe_loop seen u ss = u @ ss"
  by (induction seen u ss rule: dedupe_loop.induct) auto

lemma dedupeSignals_idem [simp]: "dedupeSignals (dedupeSignals ss) = dedupeSignals ss"
proof -
  have "[] \<notin> set (dedupeSignals ss)" by simp
  then show ?thesis
    using dedupe_loop_distinct [of "dedupeSignals ss" "[]" "[]"] by (simp add: dedupeSignals_def [of "dedupeSignals ss"])
qed

subsection \<open>The flags after the loop\<close>

lemma note_if_sel:
  "hasPrivacySignal (note_if b f ss st) = (if b then hasPrivacySignal (f (st\<lparr>flag_signals := flag_signals st @ ss\<rparr>)) else hasPrivacySignal st)"
  "hasForwardFailure (note_if b f ss st) = (if b then hasForwardFailure (f (st\<lparr>flag_signals := flag_signals st @ ss\<rparr>)) else hasForwardFailure st)"
  "hasForwardCompletedSignal (note_if b f ss st) = (if b then hasForwardCompletedSignal (f (st\<lparr>flag_signals := flag_signals st @ ss\<rparr>)) else hasForwardCompletedSignal st)"
  "hasForwardRequestedSignal (note_if b f ss st) = (if b then hasForwardRequestedSignal (f (st\<lparr>flag_signals := flag_signals st @ ss\<rparr>)) else hasForwardRequestedSignal st)"
  "hasPrivacyPreparedSignal (note_if b f ss st) = (if b then hasPrivacyPreparedSignal (f (st\<lparr>flag_signals := flag_signals st @ ss\<rparr>)) else hasPrivacyPreparedSignal st)"
  "hasRetryRequestedSignal (note_if b f ss st) = (if b then hasRetryRequestedSignal (f (st\<lparr>flag_signals := flag_signals st @ ss\<rparr>)) else hasRetryRequestedSignal st)"
  "hasEscrowClaimedSignal (note_if b f ss st) = (if b then hasEscrowClaimedSignal (f (st\<lparr>flag_signals := flag_signals st @ ss\<rparr>)) else hasEscrowClaimedSignal st)"
  "hasEscrowRefundedSignal (note_if b f ss st) = (if b then hasEscrowRefundedSignal (f (st\<lparr>flag_signals := flag_signals st @ ss\<rparr>)) else hasEscrowRefundedSignal st)"
  "hasStealthSettlementSignal (note_if b f ss st) = (if b then hasStealthSettlementSignal (f (st\<lparr>flag_signals := flag_signals st @ ss\<rparr>)) else hasStealthSettlementSignal st)"
  "flag_signals (note_if b f ss st) = (if b then flag_signals (f (st\<lparr>flag_signals := flag_signals st @ ss\<rparr>)) else flag_signals st)"
  by (simp_all add: note_if_def)

definition stealth_event :: "(string \<Rightarrow> string) \<Rightarrow> PaymentEvent \<Rightarrow> bool" where
  "stealth_event pf ev \<longleftrightarrow>
     event_type_text ev = ''DESTINATION_TX_HASH'' \<or> event_type_text ev = ''PAYMENT_EXECUTED'' \<or> Contains (event_blob pf ev) ''STEALTH''"

lemma scan_event_sel [simp]:
  "hasPrivacySignal (scan_event pf st ev) \<longleftrightarrow> hasPrivacySignal st \<or> Contains (event_blob pf ev) ''PRIVACY''"
  "hasForwardFailure (scan_event pf st ev) \<longleftrightarrow> hasForwardFailure st \<or> Contains (event_blob pf ev) ''PRIVACY_FORWARD_FAILED''"
  "hasForwardCompletedSignal (scan_event pf st ev) \<longleftrightarrow> hasForwardCompletedSignal st \<or> mentions (event_blob pf ev) completed_words"
  "hasForwardRequestedSignal (scan_event pf st ev) \<longleftrightarrow> hasForwardRequestedSignal st \<or> mentions (event_blob pf ev) requested_words"
  "hasPrivacyPreparedSignal (scan_event pf st ev) \<longleftrightarrow> hasPrivacyPreparedSignal st \<or> mentions (event_blob pf ev) prepared_words"
  "hasRetryRequestedSignal (scan_event pf st ev) \<longleftrightarrow> hasRetryRequestedSignal st \<or> mentions (event_blob pf ev) retry_words"
  "hasEscrowClaimedSignal (scan_event pf st ev) \<longleftrightarrow> hasEscrowClaimedSignal st \<or> mentions (event_blob pf ev) claimed_words"
  "hasEscrowRefundedSignal (scan_event pf st ev) \<longleftrightarrow> hasEscrowRefundedSignal st \<or> mentions (event_blob pf ev) refunded_words"
  "hasStealthSettlementSignal (scan_event pf st ev) \<longleftrightarrow> hasStealthSettlementSignal st \<or> stealth_event pf ev"
  by (simp_all add: scan_event_def Let_def note_if_sel stealth_event_def)

definition event_signals :: "(string \<Rightarrow> string) \<Rightarrow> PaymentEvent \<Rightarrow> string set" where
  "event_signals pf ev =
     (let blob = event_blob pf ev in
      (if Contains blob ''PRIVACY_FORWARD_FAILED'' then {''privacy_forward_failed_event''} else {}) \<union>
      ((if mentions blob refunded_words then {''privacy_escrow_refunded''} else {}) \<union>
      ((if mentions blob claimed_words then {''privacy_escrow_claimed''} else {}) \<union>
      ((if mentions blob completed_words then {''privacy_forward_completed''} else {}) \<union>
      ((if mentions blob retry_words then {''privacy_forward_retry_requested''} else {}) \<union>
      ((if mentions blob requested_words then {''privacy_forward_requested''} else {}) \<union>
      ((if mentions blob prepared_words then {''privacy_prepared''} else {}) \<union>
      (if Contains blob ''PRIVACY'' then {''event_contains_privacy''} else {}))))))))"

lemma set_note_if:
  assumes "\<And>x. flag_signals (f x) = flag_signals x"
  shows "set (flag_signals (note_if b f ss st)) = (if b then set ss else {}) \<union> set (flag_signals st)"
  by (auto simp: note_if_def assms)

lemma scan_event_signals: "set (flag_signals (scan_event pf st ev)) = event_signals pf ev \<union> set (flag_signals st)"
  unfolding scan_event_def event_signals_def Let_def
  by (simp add: set_note_if Un_assoc split del: if_split cong: if_cong)

text \<open>After the loop a flag holds when it held before or some event raises it.\<close>

lemma scan_flags:
  "hasPrivacySignal (foldl (scan_event pf) st evs) \<longleftrightarrow> hasPrivacySignal st \<or> (\<exists>ev\<in>set evs. Contains (event_blob pf ev) ''PRIVACY'')"
  "hasForwardFailure (foldl (scan_event pf) st evs) \<longleftrightarrow> hasForwardFailure st \<or> (\<exists>ev\<in>set evs. Contains (event_blob pf ev) ''PRIVACY_FORWARD_FAILED'')"
  "hasForwardCompletedSignal (foldl (scan_event pf) st evs) \<longleftrightarrow> hasForwardCompletedSignal st \<or> (\<exists>ev\<in>set evs. mentions (event_blob pf ev) completed_words)"
  "hasForwardRequestedSignal (foldl (scan_event pf) st evs) \<longleftrightarrow> hasForwardRequestedSignal st \<or> (\<exists>ev\<in>set evs. mentions (event_blob pf ev) requested_words)"
  "hasPrivacyPreparedSignal (foldl (scan_event pf) st evs) \<longleftrightarrow> hasPrivacyPreparedSignal st \<or> (\<exists>ev\<in>set evs. mentions (event_blob pf ev) prepared_words)"
  "hasRetryRequestedSignal (foldl (scan_event pf) st evs) \<longleftrightarrow> hasRetryRequestedSignal st \<or> (\<exists>ev\<in>set evs. mentions (event_blob pf ev) retry_words)"
  "hasEscrowClaimedSignal (foldl (scan_event pf) st evs) \<longleftrightarrow> hasEscrowClaimedSignal st \<or> (\<exists>ev\<in>set evs. mentions (event_blob pf ev) claimed_words)"
  "hasEscrowRefundedSignal (foldl (scan_event pf) st evs) \<longleftrightarrow> hasEscrowRefundedSignal st \<or> (\<exists>ev\<in>set evs. mentions (event_blob pf ev) refunded_words)"
  "hasStealthSettlementSignal (foldl (scan_event pf) st evs) \<longleftrightarrow> hasStealthSettlementSignal st \<or> (\<exists>ev\<in>set evs. stealth_event pf ev)"
  "set (flag_signals (foldl (scan_event pf) st evs)) = set (flag_signals st) \<union> (\<Union>ev\<in>set evs. event_signals pf ev)"
  by (induction evs arbitrary: st) (simp_all add: scan_event_signals disj_assoc Un_ac)

text \<open>
  Also. The stage a payment is in depends only on which events are recorded, not on their
  order or on repetitions: the same stage, the same privacy verdict and reason, and the same set
  of signals, each reported once.
\<close>

theorem privacy_stage_order_independent:
  assumes "set events = set events'"
  shows "\<exists>stage isPrivacy signals signals' reason.
    derivePaymentPrivacyLifecycle pf payment events = (stage, isPrivacy, signals, reason) \<and>
    derivePaymentPrivacyLifecycle pf payment events' = (stage, isPrivacy, signals', reason) \<and>
    set signals = set signals' \<and> distinct signals \<and> distinct signals' \<and> [] \<notin> set signals"
proof -
  have "privacy_stage payment (foldl (scan_event pf) (initial_flags payment) events) =
      privacy_stage payment (foldl (scan_event pf) (initial_flags payment) events')"
    by (simp only: privacy_stage_def scan_flags assms)
  then show ?thesis
    by (cases "privacy_stage payment (foldl (scan_event pf) (initial_flags payment) events')")
      (simp add: derivePaymentPrivacyLifecycle_def scan_flags assms)
qed

subsection \<open>Payment identifiers in event metadata\<close>

lemma copy32_id [simp]: "length b = 32 \<Longrightarrow> copy32 b = b"
  by (simp add: copy32_def)

lemma parse_id_Inr:
  assumes "parseOnchainPaymentID raw = Inr (b, s)"
  shows "length b = 32" and "s = ''0x'' @ EncodeToString b"
    and "\<exists>t. TrimPrefix (ToLower (TrimSpace raw)) ''0x'' = t \<and> DecodeString t = Some b"
proof -
  let ?t = "TrimPrefix (ToLower (TrimSpace raw)) ''0x''"
  from assms obtain d where d: "length ?t = 64" "DecodeString ?t = Some d" "b = copy32 d" "s = ''0x'' @ EncodeToString (copy32 d)"
    by (auto simp: parseOnchainPaymentID_def Let_def split: if_splits option.splits)
  then have "length d = 32" using DecodeString_length [OF d(2)] by simp
  with d show "length b = 32" "s = ''0x'' @ EncodeToString b"
    "\<exists>t. TrimPrefix (ToLower (TrimSpace raw)) ''0x'' = t \<and> DecodeString t = Some b" by simp_all
qed

lemma parse_id_canonical: "length b = 32 \<Longrightarrow> parseOnchainPaymentID (''0x'' @ EncodeToString b) = Inr (b, ''0x'' @ EncodeToString b)"
proof -
  assume b: "length b = 32"
  have g: "\<forall>c\<in>set (''0x'' @ EncodeToString b). graphic c"
    using EncodeToString_graphic by (auto simp: graphic_def)
  have "ToLower (EncodeToString b) = EncodeToString b"
    using EncodeToString_DecodeString [OF DecodeString_EncodeToString] by simp
  moreover have "ToLower ''0x'' = ''0x''" by (simp add: ToLower_def lower_char_def)
  ultimately have "ToLower (TrimSpace (''0x'' @ EncodeToString b)) = ''0x'' @ EncodeToString b"
    using TrimSpace_graphic_all [OF g] by (simp only: ToLower_append)
  then have "TrimPrefix (ToLower (TrimSpace (''0x'' @ EncodeToString b))) ''0x'' = EncodeToString b"
    by (simp only: TrimPrefix_append)
  with b show ?thesis by (simp add: parseOnchainPaymentID_def del: append_Cons)
qed

lemma looks_parses:
  assumes "looksLikeBytes32Hex s" "TrimSpace s = s"
  shows "\<exists>b. parseOnchainPaymentID s = Inr (b, ''0x'' @ EncodeToString b)"
proof -
  have "TrimSpace (ToLower s) = ToLower (TrimSpace s)" using TrimSpace_ToLower [OF assms(2)] assms(2) by simp
  with assms(1) obtain d where "length (TrimPrefix (ToLower (TrimSpace s)) ''0x'') = 64" "DecodeString (TrimPrefix (ToLower (TrimSpace s)) ''0x'') = Some d"
    by (auto simp: looksLikeBytes32Hex_def Let_def)
  then show ?thesis by (simp add: parseOnchainPaymentID_def)
qed

definition id_text :: "string \<Rightarrow> bool" where
  "id_text s \<longleftrightarrow> looksLikeBytes32Hex s \<and> TrimSpace s = s"

lemma first_nonempty_in: "first_nonempty ss \<noteq> [] \<Longrightarrow> first_nonempty ss \<in> set ss"
  by (induction ss) (auto simp: first_nonempty_def)

definition maybe_id :: "string \<Rightarrow> bool" where
  "maybe_id s \<longleftrightarrow> s = [] \<or> id_text s"

lemma maybe_id_first: "\<forall>s\<in>set ss. maybe_id s \<Longrightarrow> maybe_id (first_nonempty ss)"
  using first_nonempty_in [of ss] by (auto simp: maybe_id_def)

lemma extract_maybe_id: "maybe_id (extract_levels J rng n v)"
proof (induction n arbitrary: v)
  case (Suc n)
  have nil: "maybe_id []" by (simp add: maybe_id_def)
  show ?case
  proof (cases v)
    case (JString s)
    with Suc.IH nil show ?thesis
      by (auto simp: Let_def maybe_id_def id_text_def split: option.splits)
  next
    case (JArray vs)
    with Suc.IH show ?thesis by (auto intro!: maybe_id_first)
  next
    case (JObject kvs)
    have "maybe_id (first_nonempty
            (map (\<lambda>k. case map_of (go_map kvs) k of Some raw \<Rightarrow> extract_levels J rng n raw | None \<Rightarrow> []) id_keys @
             map (\<lambda>(k, raw). extract_levels J rng n raw) (rng (go_map kvs))))"
      by (rule maybe_id_first) (auto simp: nil Suc.IH split: option.splits)
    with JObject show ?thesis by (simp add: Let_def)
  qed (simp_all add: nil)
qed (simp add: maybe_id_def)

lemma extract_none_or_id:
  "extractOnchainPaymentIDFromMetadata J rng m d = [] \<or> id_text (extractOnchainPaymentIDFromMetadata J rng m d)"
  using extract_maybe_id by (auto simp: extractOnchainPaymentIDFromMetadata_def maybe_id_def split: option.splits)

lemma resolve_from_events_first:
  assumes "resolve_from_events J rng evs = r"
  shows "(\<forall>ev\<in>set evs. extractOnchainPaymentIDFromMetadata J rng (ev_Metadata ev) 0 = []) \<and> isl r \<or>
    (\<exists>ys ev zs. evs = ys @ ev # zs \<and> (\<forall>y\<in>set ys. extractOnchainPaymentIDFromMetadata J rng (ev_Metadata y) 0 = []) \<and>
       extractOnchainPaymentIDFromMetadata J rng (ev_Metadata ev) 0 \<noteq> [] \<and>
       r = parseOnchainPaymentID (extractOnchainPaymentIDFromMetadata J rng (ev_Metadata ev) 0))"
  using assms
proof (induction evs)
  case (Cons e evs)
  let ?c = "extractOnchainPaymentIDFromMetadata J rng (ev_Metadata e) 0"
  show ?case
  proof (cases "?c = []")
    case True
    with Cons.prems have r: "resolve_from_events J rng evs = r" by simp
    from Cons.IH [OF r] show ?thesis
    proof
      assume "\<exists>ys ev zs. evs = ys @ ev # zs \<and> (\<forall>y\<in>set ys. extractOnchainPaymentIDFromMetadata J rng (ev_Metadata y) 0 = []) \<and>
         extractOnchainPaymentIDFromMetadata J rng (ev_Metadata ev) 0 \<noteq> [] \<and>
         r = parseOnchainPaymentID (extractOnchainPaymentIDFromMetadata J rng (ev_Metadata ev) 0)"
      then obtain ys ev zs where "evs = ys @ ev # zs" "\<forall>y\<in>set ys. extractOnchainPaymentIDFromMetadata J rng (ev_Metadata y) 0 = []"
         "extractOnchainPaymentIDFromMetadata J rng (ev_Metadata ev) 0 \<noteq> []"
         "r = parseOnchainPaymentID (extractOnchainPaymentIDFromMetadata J rng (ev_Metadata ev) 0)" by blast
      then show ?thesis using True by (intro disjI2 exI [of _ "e # ys"] exI [of _ ev] exI [of _ zs]) simp
    qed (use True in simp)
  next
    case False
    then have "id_text ?c" using extract_none_or_id by blast
    then obtain b where "parseOnchainPaymentID ?c = Inr (b, ''0x'' @ EncodeToString b)"
      using looks_parses by (auto simp: id_text_def)
    with False Cons.prems show ?thesis
      by (intro disjI2 exI [of _ "[]"] exI [of _ e] exI [of _ evs]) auto
  qed
qed auto

text \<open>
  Also. When the request names no payment, the recovery uses the identifier of the newest event
  whose metadata holds one (events come oldest first): a found identifier always parses, to
  thirty-two bytes whose canonical text parses to the same bytes, and the search fails exactly
  when no event holds one.
\<close>

theorem newest_event_names_payment:
  assumes raw: "TrimSpace raw = []"
  shows "(resolveOnchainPaymentID J rng events raw =
            Inl (ErrorString ''onchainPaymentId is required (not found in request or event metadata)'') \<and>
          (\<forall>ev\<in>set events. extractOnchainPaymentIDFromMetadata J rng (ev_Metadata ev) 0 = [])) \<or>
    (\<exists>old ev new b. events = old @ ev # new \<and>
       (\<forall>y\<in>set new. extractOnchainPaymentIDFromMetadata J rng (ev_Metadata y) 0 = []) \<and>
       parseOnchainPaymentID (extractOnchainPaymentIDFromMetadata J rng (ev_Metadata ev) 0) = Inr (b, ''0x'' @ EncodeToString b) \<and>
       resolveOnchainPaymentID J rng events raw = Inr (b, ''0x'' @ EncodeToString b) \<and> length b = 32 \<and>
       parseOnchainPaymentID (''0x'' @ EncodeToString b) = Inr (b, ''0x'' @ EncodeToString b))"
proof -
  let ?x = "\<lambda>ev. extractOnchainPaymentIDFromMetadata J rng (ev_Metadata ev) 0"
  have eq: "resolveOnchainPaymentID J rng events raw = resolve_from_events J rng (rev events)"
    using raw by (simp add: resolveOnchainPaymentID_def)
  from resolve_from_events_first [OF refl, where J = J and rng = rng and evs = "rev events"] show ?thesis
  proof
    assume none: "(\<forall>ev\<in>set (rev events). ?x ev = []) \<and> isl (resolve_from_events J rng (rev events))"
    have "resolve_from_events J rng evs = Inl (ErrorString ''onchainPaymentId is required (not found in request or event metadata)'')"
      if "\<forall>ev\<in>set evs. ?x ev = []" for evs using that by (induction evs) simp_all
    with none show ?thesis unfolding eq by simp
  next
    assume "\<exists>ys ev zs. rev events = ys @ ev # zs \<and> (\<forall>y\<in>set ys. ?x y = []) \<and> ?x ev \<noteq> [] \<and>
       resolve_from_events J rng (rev events) = parseOnchainPaymentID (?x ev)"
    then obtain ys ev zs where ev: "rev events = ys @ ev # zs" "\<forall>y\<in>set ys. ?x y = []" "?x ev \<noteq> []"
       "resolve_from_events J rng (rev events) = parseOnchainPaymentID (?x ev)" by blast
    from ev(3) have "id_text (?x ev)" using extract_none_or_id by blast
    then obtain b where b: "parseOnchainPaymentID (?x ev) = Inr (b, ''0x'' @ EncodeToString b)"
      using looks_parses by (auto simp: id_text_def)
    have "events = rev zs @ ev # rev ys" using ev(1) by (metis rev_append rev_rev_ident rev.simps(2) append.assoc append_Cons append_Nil)
    moreover note parse_id_canonical [OF parse_id_Inr(1) [OF b]]
    ultimately show ?thesis using ev b parse_id_Inr(1) [OF b] unfolding eq
      by (intro disjI2 exI [of _ "rev zs"] exI [of _ ev] exI [of _ "rev ys"] exI [of _ b]) simp
  qed
qed

subsection \<open>Recovery transactions\<close>

fun recoverable_stages :: "PrivacyRecoveryAction \<Rightarrow> string list" where
  "recoverable_stages PrivacyRecoveryActionRetry =
     [PrivacyLifecycleForwardFailedRetrying, PrivacyLifecycleClaimable, PrivacyLifecycleRefundable]"
| "recoverable_stages PrivacyRecoveryActionClaim =
     [PrivacyLifecycleClaimable, PrivacyLifecycleForwardFailedRetrying, PrivacyLifecycleSettledToStealth]"
| "recoverable_stages PrivacyRecoveryActionRefund = [PrivacyLifecycleRefundable, PrivacyLifecycleForwardFailedRetrying]"
| "recoverable_stages (PrivacyRecoveryActionOther s) = []"

lemma validate_None: "validatePrivacyRecoveryStage stage action = None \<longleftrightarrow> stage \<in> set (recoverable_stages action)"
  by (cases action) (auto simp: validatePrivacyRecoveryStage_def)

lemma resolved_stage:
  assumes "derivePaymentPrivacyLifecycle pf payment events = (stage, isPrivacy, signals, reason)"
    and "ev \<in> set events" "mentions (event_blob pf ev) claimed_words \<or> mentions (event_blob pf ev) refunded_words"
  shows "stage = PrivacyLifecycleResolved"
proof -
  let ?st = "foldl (scan_event pf) (initial_flags payment) events"
  have "hasEscrowClaimedSignal ?st \<or> hasEscrowRefundedSignal ?st" using assms(2,3) by (auto simp: scan_flags)
  then have "privacy_stage payment ?st = (PrivacyLifecycleResolved, True, [])" by (simp add: privacy_stage_def)
  with assms(1) show ?thesis by (simp add: derivePaymentPrivacyLifecycle_def)
qed

lemma resolved_not_recoverable: "PrivacyLifecycleResolved \<notin> set (recoverable_stages action)"
  by (cases action) (simp_all add: lifecycle_defs)

lemma computeSelectorHex_decodes:
  "DecodeString (TrimPrefix (computeSelectorHex h sig @ EncodeToString b) ''0x'') = Some (take 4 (h (bytes_of sig)) @ b)"
proof -
  have "computeSelectorHex h sig @ EncodeToString b = ''0x'' @ EncodeToString (take 4 (h (bytes_of sig)) @ b)"
    by (simp add: computeSelectorHex_def EncodeToString_append)
  then show ?thesis by (simp only: TrimPrefix_append DecodeString_EncodeToString)
qed

lemma resolveOnchainPaymentID_Inr:
  assumes "resolveOnchainPaymentID J rng events raw = Inr (b, s)"
  shows "length b = 32 \<and> s = ''0x'' @ EncodeToString b"
proof (cases "TrimSpace raw = []")
  case True
  then have "resolve_from_events J rng (rev events) = Inr (b, s)" using assms by (simp add: resolveOnchainPaymentID_def)
  from resolve_from_events_first [OF this] show ?thesis
    using parse_id_Inr(1,2) [of _ b s] by (metis isl_def sum.distinct(1))
next
  case False
  then have "parseOnchainPaymentID (TrimSpace raw) = Inr (b, s)" using assms by (simp add: resolveOnchainPaymentID_def)
  then show ?thesis using parse_id_Inr(1,2) by blast
qed


subsection \<open>The gateway and the records\<close>

lemma gateway_signals_props: "[] \<notin> set (gateway_signals st)"
  by (simp add: gateway_signals_def)

text \<open>
  Also. What the gateway contract reports decides the stage shown: forwarded once it says so,
  a failure stage once it counts a failed forwarding, settled once it holds a settled amount,
  whatever the records say; without an answer from the gateway the records decide.
\<close>

theorem gateway_overrides_records:
  assumes "getPayment k = Inr payment" "getEvents k = Inr events"
    and "derivePaymentPrivacyLifecycle (pv_float D) payment events = (stage, isPrivacy, signals, reason)"
  shows "\<exists>s. GetPaymentPrivacyStatus D getPayment getEvents k = Inr s \<and> pps_PaymentID s = k \<and>
    (case read_gateway_state D payment of
       None \<Rightarrow> pps_Stage s = stage \<and> pps_IsPrivacyCandidate s = isPrivacy \<and> pps_Signals s = signals \<and> pps_Reason s = reason
     | Some st \<Rightarrow>
         (gps_forwardCompleted st \<longrightarrow> pps_Stage s = PrivacyLifecycleForwardedFinal \<and> pps_IsPrivacyCandidate s) \<and>
         (\<not> gps_forwardCompleted st \<and> gps_retryCount st > 0 \<longrightarrow> pps_IsPrivacyCandidate s \<and>
            pps_Stage s \<in> {PrivacyLifecycleRefundable, PrivacyLifecycleForwardFailedRetrying, PrivacyLifecycleClaimable}) \<and>
         (\<not> gps_forwardCompleted st \<and> gps_retryCount st = 0 \<and> gps_intentID st \<noteq> zero32 \<longrightarrow> pps_IsPrivacyCandidate s \<and>
            pps_Stage s = (if gps_settledToken st \<noteq> 0 \<and> gps_settledAmount st > 0
                           then PrivacyLifecycleSettledToStealth else PrivacyLifecyclePendingOnSource)))"
proof (cases "read_gateway_state D payment")
  case None
  with assms show ?thesis by (simp add: GetPaymentPrivacyStatus_def deriveGatewayPrivacyLifecycle_def)
next
  case (Some st)
  let ?priv = "isPrivacy \<or> gps_intentID st \<noteq> zero32 \<or> gps_stealthReceiver st \<noteq> 0 \<or> gps_forwardCompleted st \<or> gps_retryCount st > 0"
  obtain stage' reason' where g: "gateway_stage payment st stage reason = (stage', reason')" by fastforce
  show ?thesis
  proof (cases ?priv)
    case True
    then have "deriveGatewayPrivacyLifecycle D payment stage isPrivacy reason =
        Some (stage', True, dedupeSignals (gateway_signals st), reason')"
      using Some g by (auto simp: deriveGatewayPrivacyLifecycle_def)
    then obtain s where s: "GetPaymentPrivacyStatus D getPayment getEvents k = Inr s" "pps_PaymentID s = k" "pps_Stage s = stage'"
        "pps_IsPrivacyCandidate s"
      using assms by (simp add: GetPaymentPrivacyStatus_def)
    have "stage' = fst (gateway_stage payment st stage reason)" using g by simp
    with s Some show ?thesis by (auto simp: gateway_stage_def Let_def)
  next
    case False
    then have "deriveGatewayPrivacyLifecycle D payment stage isPrivacy reason = None"
      using Some by (simp add: deriveGatewayPrivacyLifecycle_def)
    with assms Some False show ?thesis by (simp add: GetPaymentPrivacyStatus_def)
  qed
qed

text \<open>A gateway that reports the payment as forwarded, for a payment whose records say that forwarding failed.\<close>

fun forwarded_Unpack :: "string list \<Rightarrow> byte list \<Rightarrow> abi_value list option" where
  "forwarded_Unpack [t] b =
     (if t = ''bytes32'' then Some [AbiBytes32 zero32] else if t = ''address'' then Some [AbiAddress 0]
      else if t = ''bool'' then Some [AbiBool True] else if t = ''uint8'' then Some [AbiU8 0]
      else if t = ''uint256'' then Some [AbiBig 0] else None)"
| "forwarded_Unpack _ b = None"

definition sample_privacy :: privacy_deps where
  "sample_privacy =
     \<lparr>pv_eth = sample_eth\<lparr>abi_Unpack := forwarded_Unpack\<rparr>, pv_uuid = rfc_uuid, pv_json = \<lparr>json_Parse = (\<lambda>s. None), json_Print = (\<lambda>v. ''x'')\<rparr>,
      pv_float = (\<lambda>s. s), pv_range = (\<lambda>kvs. kvs), pv_chain = (\<lambda>k. Inr (base_chain\<lparr>chain_RPCURL := ''http://rpc''\<rparr>)),
      pv_activeContract = (\<lambda>k ty. Inr (Some ''0xfeed'')), pv_client = Some (\<lambda>url. Inr (\<lambda>c d. Inr []))\<rparr>"

definition failed_payment :: Payment where
  "failed_payment = sample_payment\<lparr>pay_FailureReason := Some ''privacy_forward_failed''\<rparr>"

definition sample_onchain_id :: string where
  "sample_onchain_id = ''0x'' @ EncodeToString (replicate 32 5)"

lemma failed_payment_stage:
  "derivePaymentPrivacyLifecycle (pv_float sample_privacy) failed_payment [] =
     (PrivacyLifecycleClaimable, True, [''failure_reason_contains_privacy'', ''privacy_forward_failed''], ''privacy_forward_failed'')"
  by code_simp

lemma sample_gateway_state:
  "read_gateway_state sample_privacy failed_payment =
     Some \<lparr>gps_intentID = zero32, gps_stealthReceiver = 0, gps_forwardCompleted = True, gps_retryCount = 0,
           gps_settledToken = 0, gps_settledAmount = 0\<rparr>"
  by code_simp

lemma sample_claim_tx:
  "\<exists>tx. BuildClaimPrivacyRecoveryTx sample_privacy (\<lambda>k. Inr failed_payment) (\<lambda>k. Inr []) 21 sample_onchain_id = Inr tx \<and>
     prt_Stage tx = PrivacyLifecycleClaimable"
proof -
  have "parseOnchainPaymentID sample_onchain_id = Inr (replicate 32 5, sample_onchain_id)"
    unfolding sample_onchain_id_def by (rule parse_id_canonical) simp
  moreover have "TrimSpace sample_onchain_id = sample_onchain_id" by code_simp
  moreover have "sample_onchain_id \<noteq> []" by (simp add: sample_onchain_id_def)
  ultimately have "resolveOnchainPaymentID J rng [] sample_onchain_id = Inr (replicate 32 5, sample_onchain_id)" for J rng
    by (simp add: resolveOnchainPaymentID_def)
  then show ?thesis
    using failed_payment_stage
    by (simp add: BuildClaimPrivacyRecoveryTx_def buildPrivacyRecoveryTx_def validatePrivacyRecoveryStage_def
        privacyRecoveryMethodSpec_def sample_privacy_def)
qed

theorem gateway_overrides_records_witness:
  "\<exists>s. GetPaymentPrivacyStatus sample_privacy (\<lambda>k. Inr failed_payment) (\<lambda>k. Inr []) 21 = Inr s \<and>
     pps_Stage s = PrivacyLifecycleForwardedFinal"
  using gateway_overrides_records [where getPayment = "\<lambda>k. Inr failed_payment" and getEvents = "\<lambda>k. Inr []" and k = 21,
      OF refl refl failed_payment_stage] by (auto simp: sample_gateway_state)


definition sample_event :: "string \<Rightarrow> PaymentEvent" where
  "sample_event ty =
     \<lparr>ev_ID = 1, ev_PaymentID = 21, ev_EventType = ty, ev_ChainID = None, ev_TxHash = [], ev_BlockNumber = 0,
      ev_Metadata = None, ev_CreatedAt = 5\<rparr>"

theorem privacy_stage_order_independent_witness:
  "\<exists>stage isPrivacy signals signals' reason.
    derivePaymentPrivacyLifecycle id sample_payment [sample_event ''PRIVACY_FORWARD_FAILED'', sample_event ''PRIVACY_FORWARD_COMPLETED''] =
      (stage, isPrivacy, signals, reason) \<and>
    derivePaymentPrivacyLifecycle id sample_payment
      [sample_event ''PRIVACY_FORWARD_COMPLETED'', sample_event ''PRIVACY_FORWARD_FAILED'', sample_event ''PRIVACY_FORWARD_COMPLETED''] =
      (stage, isPrivacy, signals', reason) \<and>
    set signals = set signals' \<and> distinct signals \<and> distinct signals' \<and> [] \<notin> set signals"
  by (rule privacy_stage_order_independent) auto

theorem newest_event_names_payment_witness:
  "resolveOnchainPaymentID (pv_json sample_privacy) (\<lambda>x. x) [] '' '' =
     Inl (ErrorString ''onchainPaymentId is required (not found in request or event metadata)'')"
proof -
  have "TrimSpace '' '' = []" by code_simp
  from newest_event_names_payment [OF this, of "pv_json sample_privacy" "\<lambda>x. x" "[]"] show ?thesis by simp
qed

text \<open>
  Also. The recovery transactions look at the records only: for a payment that the gateway
  reports as forwarded, the status is final, and yet the backend builds the transaction that
  claims its escrow.
\<close>

theorem recovery_ignores_gateway:
  "\<exists>D payment s tx. GetPaymentPrivacyStatus D (\<lambda>k. Inr payment) (\<lambda>k. Inr []) (pay_ID payment) = Inr s \<and>
     pps_Stage s = PrivacyLifecycleForwardedFinal \<and>
     BuildClaimPrivacyRecoveryTx D (\<lambda>k. Inr payment) (\<lambda>k. Inr []) (pay_ID payment) sample_onchain_id = Inr tx"
proof -
  have st: "\<exists>s. GetPaymentPrivacyStatus sample_privacy (\<lambda>k. Inr failed_payment) (\<lambda>k. Inr []) 21 = Inr s \<and>
      pps_Stage s = PrivacyLifecycleForwardedFinal"
    by (simp add: GetPaymentPrivacyStatus_def failed_payment_stage deriveGatewayPrivacyLifecycle_def sample_gateway_state gateway_stage_def)
  have "pay_ID failed_payment = 21" by (simp add: failed_payment_def sample_payment_def)
  with st sample_claim_tx show ?thesis by metis
qed

end
