(* ===== verification/Gateway_Quotes.thy ===== *)
theory Gateway_Quotes
  imports Routing Privacy
begin

text \<open>
  What the backend asks of the gateway contract before a payment: the cost quote, the approval
  preview, the amount to approve and the vault to approve it for
  (\<^verbatim>\<open>internal/usecases/payment_usecase.go\<close>, from \<^verbatim>\<open>shouldRequireEvmApproval\<close> to
  \<^verbatim>\<open>previewGatewayApprovalV2\<close>). The contract is read through the client of the routes; its ABI
  comes from the resolver or from the built-in fallback. All answers within one operation
  come from the same state of the contract.
\<close>

subsection \<open>Payments in creation\<close>

text \<open>The fields of the entity that the repository does not store, and the joined chains.\<close>

record NewPayment = Payment +
  np_SourceTokenAddress :: string
  np_DestTokenAddress :: string
  np_MinDestAmount :: "string option"
  np_SourceChain :: "Chain option"
  np_DestChain :: "Chain option"

record CreatePaymentInput =
  cpi_SourceChainID :: string
  cpi_DestChainID :: string
  cpi_SourceTokenAddress :: string
  cpi_DestTokenAddress :: string
  cpi_Amount :: string
  cpi_Decimals :: int
  cpi_ReceiverAddress :: string
  cpi_ReceiverMerchantID :: string
  cpi_MinAmountOut :: string
  cpi_SlippageBps :: int
  cpi_Mode :: "string option"
  cpi_BridgeOption :: "u8 option"
  cpi_BridgeTokenSource :: "string option"
  cpi_MinBridgeAmountOut :: "string option"
  cpi_MinDestAmountOut :: "string option"
  cpi_PrivacyIntentID :: "string option"
  cpi_PrivacyStealthReceiver :: "string option"

record OnchainCost =
  oc_PlatformFeeToken :: string
  oc_BridgeFeeNative :: string
  oc_TotalSourceTokenRequired :: string
  oc_BridgeType :: u8
  oc_IsSameChain :: bool
  oc_BridgeQuoteOk :: bool
  oc_BridgeQuoteReason :: string

subsection \<open>Contract interfaces\<close>

text \<open>
  A parsed ABI packs calls by method name and unpacks their results. \<open>gd_undef\<close> is the value a
  failed \<^verbatim>\<open>big.Int.SetString\<close> leaves behind, which the library leaves undefined.
\<close>

record contract_abi =
  abi_methods :: "string list"
  abi_PackCall :: "string \<Rightarrow> abi_arg list \<Rightarrow> byte list result"
  abi_UnpackCall :: "string \<Rightarrow> byte list \<Rightarrow> abi_value list option"

record gateway_deps =
  gd_route :: route_deps
  gd_fallbackABI :: contract_abi
  gd_resolveABI :: "(uuid \<Rightarrow> string \<Rightarrow> contract_abi result) option"
  gd_undef :: "string \<Rightarrow> int"

text \<open>The resolved ABI when it has the method, else the fallback.\<close>

definition gateway_abi :: "gateway_deps \<Rightarrow> uuid \<Rightarrow> string \<Rightarrow> contract_abi result" where
  "gateway_abi D src method =
     (case gd_resolveABI D of
        None \<Rightarrow> Inr (gd_fallbackABI D)
      | Some resolve \<Rightarrow>
          (case resolve src ''GATEWAY'' of
             Inl e \<Rightarrow> Inl e
           | Inr a \<Rightarrow> Inr (if method \<in> set (abi_methods a) then a else gd_fallbackABI D)))"

definition source_rpc_url :: "Chain \<Rightarrow> string" where
  "source_rpc_url chain =
     (if TrimSpace (chain_RPCURL chain) \<noteq> [] then TrimSpace (chain_RPCURL chain)
      else case find (\<lambda>rpc. rpc_IsActive rpc \<and> TrimSpace (rpc_URL rpc) \<noteq> []) (chain_RPCs chain) of
             Some rpc \<Rightarrow> rpc_URL rpc
           | None \<Rightarrow> [])"

definition dest_caip2 :: "gateway_deps \<Rightarrow> NewPayment \<Rightarrow> string" where
  "dest_caip2 D payment =
     (case np_DestChain payment of
        Some c \<Rightarrow> GetCAIP2ID c
      | None \<Rightarrow>
          (case repo_GetByID (rd_chains (gd_route D)) (pay_DestChainID payment) of
             Inr c \<Rightarrow> GetCAIP2ID c
           | Inl _ \<Rightarrow> uuid_String (rd_uuid (gd_route D)) (pay_DestChainID payment)))"

subsection \<open>The request\<close>

definition optional_amount :: "int \<Rightarrow> string option \<Rightarrow> int option" where
  "optional_amount dflt raw =
     (case raw of
        None \<Rightarrow> Some dflt
      | Some r \<Rightarrow> if TrimSpace r = [] then Some dflt else SetString10 (TrimSpace r))"

definition optional_address :: "gateway_deps \<Rightarrow> string option \<Rightarrow> address option" where
  "optional_address D raw =
     (case raw of
        None \<Rightarrow> Some 0
      | Some r \<Rightarrow>
          if TrimSpace r = [] then Some 0
          else if \<not> IsHexAddress (rd_eth (gd_route D)) (TrimSpace r) then None
          else Some (HexToAddress (rd_abi (gd_route D)) (TrimSpace r)))"

definition mode_byte :: "string option \<Rightarrow> u8" where
  "mode_byte mode = (if normalizePaymentMode mode = ''privacy'' then 1 else 0)"

definition v2_request ::
  "gateway_deps \<Rightarrow> NewPayment \<Rightarrow> string \<Rightarrow> byte list \<Rightarrow> CreatePaymentInput option \<Rightarrow> int \<Rightarrow> int \<Rightarrow> int \<Rightarrow> u8 \<Rightarrow> address \<Rightarrow>
   PaymentRequestV2Args" where
  "v2_request D payment destChainID receiver input amount minBridge minDest bridgeOption bridgeToken =
     \<lparr>v2_DestChainIDBytes = bytes_of destChainID, v2_ReceiverBytes = receiver,
      v2_SourceToken = HexToAddress (rd_abi (gd_route D)) (normalizeEvmAddress (np_SourceTokenAddress payment)),
      v2_BridgeTokenSource = bridgeToken,
      v2_DestToken = HexToAddress (rd_abi (gd_route D)) (normalizeEvmAddress (np_DestTokenAddress payment)),
      v2_AmountInSource = Some amount, v2_MinBridgeAmountOut = Some minBridge, v2_MinDestAmountOut = Some minDest,
      v2_Mode = mode_byte (Option.bind input cpi_Mode), v2_BridgeOption = bridgeOption\<rparr>"

text \<open>The part that the quote and the preview share: the options of the input, checked in order.\<close>

definition view_request ::
  "gateway_deps \<Rightarrow> NewPayment \<Rightarrow> string \<Rightarrow> byte list \<Rightarrow> CreatePaymentInput option \<Rightarrow> int \<Rightarrow> int \<Rightarrow> PaymentRequestV2Args result" where
  "view_request D payment destChainID receiver input amount minDest =
     (case normalizeBridgeOption (Option.bind input cpi_BridgeOption) of
        Inl e \<Rightarrow> Inl (WrapErr ''invalid bridge option'' e)
      | Inr bridgeOption \<Rightarrow>
     (case optional_amount 0 (Option.bind input cpi_MinBridgeAmountOut) of
        None \<Rightarrow> Inl (ErrorString ''invalid minBridgeAmountOut'')
      | Some minBridge \<Rightarrow>
     (case optional_amount minDest (Option.bind input cpi_MinDestAmountOut) of
        None \<Rightarrow> Inl (ErrorString ''invalid minDestAmountOut'')
      | Some minDestOut \<Rightarrow>
     (case optional_address D (Option.bind input cpi_BridgeTokenSource) of
        None \<Rightarrow> Inl (ErrorString ''invalid bridgeTokenSource'')
      | Some bridgeToken \<Rightarrow>
          Inr (v2_request D payment destChainID receiver input amount minBridge minDestOut bridgeOption bridgeToken)))))"

definition stored_min_dest :: "NewPayment \<Rightarrow> int" where
  "stored_min_dest payment =
     (case np_MinDestAmount payment of
        None \<Rightarrow> 0
      | Some s \<Rightarrow> (case SetString10 s of Some n \<Rightarrow> n | None \<Rightarrow> 0))"

definition receiver_address :: "gateway_deps \<Rightarrow> NewPayment \<Rightarrow> byte list result" where
  "receiver_address D payment =
     packABIArgs (rd_abi (gd_route D)) [ArgAddress (HexToAddress (rd_abi (gd_route D)) (normalizeEvmAddress (pay_ReceiverAddress payment)))]"

definition source_client :: "gateway_deps \<Rightarrow> string \<Rightarrow> uuid \<Rightarrow> (Chain \<times> rpc_call) result" where
  "source_client D what src =
     (case repo_GetByID (rd_chains (gd_route D)) src of
        Inl _ \<Rightarrow> Inl (ErrorString ''failed to resolve source chain'')
      | Inr chain \<Rightarrow>
          if source_rpc_url chain = [] then Inl (ErrorString ''no active source chain rpc url'')
          else (case rd_client (gd_route D) (source_rpc_url chain) of
                  Inl e \<Rightarrow> Inl (WrapErr (''failed to create evm client for '' @ what) e)
                | Inr call \<Rightarrow> Inr (chain, call)))"

subsection \<open>The cost quote\<close>

fun big_value :: "abi_value \<Rightarrow> nat option" where
  "big_value (AbiBig n) = Some n"
| "big_value _ = None"

fun u8_value :: "abi_value \<Rightarrow> u8" where
  "u8_value (AbiU8 w) = w"
| "u8_value _ = 0"

fun bool_value :: "abi_value \<Rightarrow> bool" where
  "bool_value (AbiBool b) = b"
| "bool_value _ = False"

fun string_value :: "abi_value \<Rightarrow> string" where
  "string_value (AbiString s) = s"
| "string_value _ = []"

definition amount_text :: "nat option \<Rightarrow> string" where
  "amount_text n = (case n of Some v \<Rightarrow> nat_string v | None \<Rightarrow> ''0'')"

definition decode_cost :: "bool \<Rightarrow> abi_value list \<Rightarrow> OnchainCost" where
  "decode_cost same decoded =
     \<lparr>oc_PlatformFeeToken = amount_text (big_value (decoded ! 0)), oc_BridgeFeeNative = amount_text (big_value (decoded ! 1)),
      oc_TotalSourceTokenRequired = amount_text (big_value (decoded ! 2)), oc_BridgeType = u8_value (decoded ! 3),
      oc_IsSameChain = same, oc_BridgeQuoteOk = bool_value (decoded ! 4), oc_BridgeQuoteReason = string_value (decoded ! 5)\<rparr>"

text \<open>One view call of the gateway with a packed request.\<close>

definition gateway_view ::
  "contract_abi \<Rightarrow> rpc_call \<Rightarrow> string \<Rightarrow> string \<Rightarrow> abi_arg list \<Rightarrow> nat \<Rightarrow> abi_value list result" where
  "gateway_view feeABI call gateway method args wanted =
     (case abi_PackCall feeABI method args of
        Inl e \<Rightarrow> Inl (WrapErr (''failed to pack '' @ method @ '' args'') e)
      | Inr calldata \<Rightarrow>
          (case call gateway calldata of
             Inl e \<Rightarrow> Inl (ErrorString (rpc_text e))
           | Inr out \<Rightarrow>
               if length out = 0 then Inl (ErrorString (''empty result from '' @ method))
               else (case abi_UnpackCall feeABI method out of
                       None \<Rightarrow> Inl (ErrorString (''failed to decode '' @ method @ '' output''))
                     | Some decoded \<Rightarrow>
                         if length decoded < wanted then Inl (ErrorString (''failed to decode '' @ method @ '' output''))
                         else Inr decoded)))"

definition quoteGatewayPaymentCost ::
  "gateway_deps \<Rightarrow> NewPayment \<Rightarrow> string \<Rightarrow> CreatePaymentInput option \<Rightarrow> OnchainCost option result" where
  "quoteGatewayPaymentCost D payment gatewayAddress input =
     (if gatewayAddress = [] then Inl (ErrorString ''invalid payment or gateway address'')
      else
     (case source_client D ''payment cost quote'' (pay_SourceChainID payment) of
        Inl e \<Rightarrow> Inl e
      | Inr (sourceChain, call) \<Rightarrow>
     (case SetString10 (pay_SourceAmount payment) of
        None \<Rightarrow> Inl (ErrorString ''invalid source amount'')
      | Some amount \<Rightarrow>
     (case gateway_abi D (pay_SourceChainID payment) ''quotePaymentCost'' of
        Inl _ \<Rightarrow> Inr None
      | Inr feeABI \<Rightarrow>
          if ''quotePaymentCost'' \<notin> set (abi_methods feeABI) then Inr None
          else
     (case receiver_address D payment of
        Inl e \<Rightarrow> Inl (WrapErr ''failed to encode receiver bytes'' e)
      | Inr receiver \<Rightarrow>
     (case view_request D payment (dest_caip2 D payment) receiver input amount (stored_min_dest payment) of
        Inl e \<Rightarrow> Inl e
      | Inr req \<Rightarrow>
     (case gateway_view feeABI call gatewayAddress ''quotePaymentCost'' [ArgRequestV2 req] 6 of
        Inl e \<Rightarrow> Inl e
      | Inr decoded \<Rightarrow> Inr (Some (decode_cost (EqualFold (GetCAIP2ID sourceChain) (dest_caip2 D payment)) decoded)))))))))"

subsection \<open>The approval preview\<close>

record previewApprovalResult =
  pa_ApprovalToken :: address
  pa_ApprovalAmount :: nat
  pa_RequiredNativeFee :: nat

fun address_value :: "abi_value \<Rightarrow> address" where
  "address_value (AbiAddress a) = a"
| "address_value _ = 0"

definition big_or_zero :: "abi_value \<Rightarrow> nat" where
  "big_or_zero v = (case big_value v of Some n \<Rightarrow> n | None \<Rightarrow> 0)"

definition previewGatewayApprovalV2 ::
  "gateway_deps \<Rightarrow> NewPayment \<Rightarrow> string \<Rightarrow> CreatePaymentInput option \<Rightarrow> previewApprovalResult result" where
  "previewGatewayApprovalV2 D payment gatewayAddress input =
     (if gatewayAddress = [] then Inl (ErrorString ''invalid payment or gateway address'')
      else
     (case source_client D ''previewApproval'' (pay_SourceChainID payment) of
        Inl e \<Rightarrow> Inl e
      | Inr (sourceChain, call) \<Rightarrow>
     (case gateway_abi D (pay_SourceChainID payment) ''previewApproval'' of
        Inl e \<Rightarrow> Inl (WrapErr ''failed to resolve gateway ABI'' e)
      | Inr feeABI \<Rightarrow>
          if ''previewApproval'' \<notin> set (abi_methods feeABI) then Inl (ErrorString ''previewApproval is not available on gateway ABI'')
          else
     (case SetString10 (pay_SourceAmount payment) of
        None \<Rightarrow> Inl (ErrorString ''invalid source amount'')
      | Some amount \<Rightarrow>
          let receiver = (case receiver_address D payment of Inr b \<Rightarrow> b | Inl _ \<Rightarrow> bytes_of (pay_ReceiverAddress payment)) in
     (case view_request D payment (dest_caip2 D payment) receiver input amount (stored_min_dest payment) of
        Inl e \<Rightarrow> Inl e
      | Inr req \<Rightarrow>
     (case gateway_view feeABI call gatewayAddress ''previewApproval'' [ArgRequestV2 req] 3 of
        Inl e \<Rightarrow> Inl e
      | Inr decoded \<Rightarrow>
          Inr \<lparr>pa_ApprovalToken = address_value (decoded ! 0), pa_ApprovalAmount = big_or_zero (decoded ! 1),
               pa_RequiredNativeFee = big_or_zero (decoded ! 2)\<rparr>))))))"

subsection \<open>The amount to approve\<close>

definition shouldRequireEvmApproval :: "string \<Rightarrow> bool" where
  "shouldRequireEvmApproval tokenAddress =
     (let addr = TrimSpace (ToLower tokenAddress) in addr \<noteq> [] \<and> addr \<noteq> ''native'' \<and> addr \<noteq> zero_address)"

definition at_least :: "int \<Rightarrow> int \<Rightarrow> string" where
  "at_least totalCharged quoted = (if quoted < totalCharged then int_string totalCharged else int_string quoted)"

text \<open>A constant of the contract: a failing \<^verbatim>\<open>Pack\<close> gives an empty call; another type panics.\<close>

definition read_constant :: "contract_abi \<Rightarrow> rpc_call \<Rightarrow> string \<Rightarrow> string \<Rightarrow> nat result" where
  "read_constant feeABI call gateway method =
     (case call gateway (case abi_PackCall feeABI method [] of Inr b \<Rightarrow> b | Inl _ \<Rightarrow> []) of
        Inl e \<Rightarrow> Inl (WrapErr (''failed to call '' @ method) (ErrorString (rpc_text e)))
      | Inr out \<Rightarrow>
          (case abi_UnpackCall feeABI method out of
             None \<Rightarrow> Inl (ErrorString (''failed to decode '' @ method))
           | Some [] \<Rightarrow> Inl (ErrorString (''failed to decode '' @ method))
           | Some (v # vs) \<Rightarrow> (case big_value v of Some n \<Rightarrow> Inr n | None \<Rightarrow> Inl type_panic)))"

text \<open>\<^verbatim>\<open>quoteTotalAmount\<close>; any failure moves on to the constants.\<close>

definition quote_total :: "contract_abi \<Rightarrow> rpc_call \<Rightarrow> string \<Rightarrow> int \<Rightarrow> nat option" where
  "quote_total feeABI call gateway amount =
     (case abi_PackCall feeABI ''quoteTotalAmount'' [ArgUint amount] of
        Inl _ \<Rightarrow> None
      | Inr calldata \<Rightarrow>
          (case call gateway calldata of
             Inl _ \<Rightarrow> None
           | Inr raw \<Rightarrow>
               (case abi_UnpackCall feeABI ''quoteTotalAmount'' raw of
                  Some (v # vs) \<Rightarrow> big_value v
                | _ \<Rightarrow> None)))"

definition buffered_total :: "int \<Rightarrow> int \<Rightarrow> nat \<Rightarrow> nat \<Rightarrow> int" where
  "buffered_total amount totalCharged fixedFee feeBps =
     (let percentageFee = amount * int feeBps div 10000;
          platformFee = (if percentageFee > int fixedFee then int fixedFee else percentageFee);
          onchainTotal = amount + platformFee;
          onchainTotal = (if onchainTotal < totalCharged then totalCharged else onchainTotal);
          buffer = onchainTotal div 100;
          buffer = (if buffer < 1000 then 1000 else buffer) in
      onchainTotal + buffer)"

definition CalculateOnchainApprovalAmount :: "gateway_deps \<Rightarrow> NewPayment \<Rightarrow> string \<Rightarrow> string result" where
  "CalculateOnchainApprovalAmount D payment gatewayAddress =
     (if gatewayAddress = [] then Inl (ErrorString ''invalid payment or gateway address'')
      else
     (case SetString10 (pay_SourceAmount payment) of
        None \<Rightarrow> Inl (ErrorString ''invalid source amount'')
      | Some amount \<Rightarrow>
          let totalCharged = (case SetString10 (pay_TotalCharged payment) of Some t \<Rightarrow> t | None \<Rightarrow> amount);
              quoted = (case quoteGatewayPaymentCost D payment gatewayAddress None of
                          Inr (Some q) \<Rightarrow> SetString10 (oc_TotalSourceTokenRequired q)
                        | _ \<Rightarrow> None) in
     (case quoted of
        Some q \<Rightarrow> Inr (at_least totalCharged q)
      | None \<Rightarrow>
     (case source_client D ''approval quote'' (pay_SourceChainID payment) of
        Inl e \<Rightarrow> Inl e
      | Inr (chain, call) \<Rightarrow>
     (case gateway_abi D (pay_SourceChainID payment) ''quoteTotalAmount'' of
        Inl e \<Rightarrow> Inl (WrapErr ''failed to resolve gateway ABI'' e)
      | Inr feeABI \<Rightarrow>
     (case quote_total feeABI call gatewayAddress amount of
        Some q \<Rightarrow> Inr (at_least totalCharged (int q))
      | None \<Rightarrow>
     (case read_constant feeABI call gatewayAddress ''FIXED_BASE_FEE'' of
        Inl e \<Rightarrow> Inl e
      | Inr fixedFee \<Rightarrow>
     (case read_constant feeABI call gatewayAddress ''FEE_RATE_BPS'' of
        Inl e \<Rightarrow> Inl e
      | Inr feeBps \<Rightarrow> Inr (int_string (buffered_total amount totalCharged fixedFee feeBps))))))))))"

subsection \<open>The vault\<close>

text \<open>Here an inactive endpoint serves when no active one is configured.\<close>

definition vault_rpc_url :: "Chain \<Rightarrow> string" where
  "vault_rpc_url chain =
     (if TrimSpace (chain_RPCURL chain) \<noteq> [] then TrimSpace (chain_RPCURL chain)
      else
        let urls = filter (\<lambda>rpc. TrimSpace (rpc_URL rpc) \<noteq> []) (chain_RPCs chain) in
        case find rpc_IsActive urls of
          Some rpc \<Rightarrow> TrimSpace (rpc_URL rpc)
        | None \<Rightarrow> (case urls of rpc # _ \<Rightarrow> TrimSpace (rpc_URL rpc) | [] \<Rightarrow> []))"

definition ResolveVaultAddressForApproval :: "gateway_deps \<Rightarrow> uuid \<Rightarrow> string \<Rightarrow> string" where
  "ResolveVaultAddressForApproval D src gatewayAddress =
     (case rd_activeContract (gd_route D) src ''VAULT'' of
        Inr (Some vault) \<Rightarrow> vault
      | _ \<Rightarrow>
          if gatewayAddress = [] then []
          else
          (case repo_GetByID (rd_chains (gd_route D)) src of
             Inl _ \<Rightarrow> []
           | Inr chain \<Rightarrow>
               if vault_rpc_url chain = [] then []
               else
               (case rd_client (gd_route D) (vault_rpc_url chain) of
                  Inl _ \<Rightarrow> []
                | Inr call \<Rightarrow>
                    (case call gatewayAddress [0xfb, 0xfa, 0x77, 0xcf] of
                       Inl _ \<Rightarrow> []
                     | Inr out \<Rightarrow>
                         if length out < 32 then []
                         else Address_Hex (rd_eth (gd_route D)) (word_of_nat (SetBytes (take 20 (drop 12 out))))))))"

subsection \<open>Escrow deployment\<close>

definition DeployEscrowSignature :: string where
  "DeployEscrowSignature = ''deployEscrow(bytes32,address,address)''"

definition buildDeployEscrowHex :: "gateway_deps \<Rightarrow> byte list \<Rightarrow> address \<Rightarrow> address \<Rightarrow> string" where
  "buildDeployEscrowHex D salt owner forwarder =
     (case packABIArgs (rd_abi (gd_route D)) [ArgBytes32 salt, ArgAddress owner, ArgAddress forwarder] of
        Inl _ \<Rightarrow> []
      | Inr packed \<Rightarrow> ''0x'' @ EncodeToString (method_id (gd_route D) DeployEscrowSignature @ packed))"

text \<open>\<^verbatim>\<open>common.FromHex\<close> drops the prefix, pads an odd number of digits and decodes up to the first bad digit.\<close>

fun hex_prefix :: "string \<Rightarrow> byte list" where
  "hex_prefix (a # b # rest) = (case DecodeString [a, b] of Some bs \<Rightarrow> bs @ hex_prefix rest | None \<Rightarrow> [])"
| "hex_prefix _ = []"

definition FromHex :: "string \<Rightarrow> byte list" where
  "FromHex s =
     (let t = (if HasPrefix s ''0x'' \<or> HasPrefix s ''0X'' then drop 2 s else s) in
      hex_prefix (if odd (length t) then CHR ''0'' # t else t))"

definition parsePrivacyIntentID :: "gateway_deps \<Rightarrow> string \<Rightarrow> byte list" where
  "parsePrivacyIntentID D raw =
     (let trimmed = TrimSpace raw in
      if HasPrefix trimmed ''0x'' \<and> length trimmed = 66 then copy32 (FromHex trimmed)
      else copy32 (Keccak256 (rd_eth (gd_route D)) (bytes_of trimmed)))"

subsection \<open>Approvals cover the charge\<close>

lemma int_string_of_nat: "int_string (int n) = nat_string n"
  by (simp add: int_string_def)

lemma SetString10_nat_string [simp]: "SetString10 (nat_string n) = Some (int n)"
  using SetString10_int_string [of "int n"] by (simp only: int_string_of_nat)

lemma SetString10_amount_text: "\<exists>n. SetString10 (amount_text v) = Some (int n)"
proof (cases v)
  case None
  have "SetString10 (amount_text None) = Some 0" by code_simp
  with None show ?thesis by (intro exI [of _ 0]) simp
qed (simp add: amount_text_def)

lemma at_least_value: "SetString10 (at_least t q) = Some (max t q)"
  by (simp add: at_least_def max_def)

lemma cost_quote_total:
  assumes "quoteGatewayPaymentCost D payment gateway input = Inr (Some q)"
  shows "\<exists>n. SetString10 (oc_TotalSourceTokenRequired q) = Some (int n)"
proof -
  obtain same vs where "q = decode_cost same vs"
    using assms by (auto simp: quoteGatewayPaymentCost_def split: if_splits sum.splits option.splits prod.splits)
  then show ?thesis using SetString10_amount_text by (simp add: decode_cost_def)
qed

lemma buffered_total_reference:
  "buffered_total amount charged fixedFee bps =
    (let total = max charged (amount + min (int fixedFee) (amount * int bps div 10000)) in total + max 1000 (total div 100))"
proof -
  have platform: "(if a * int b div 10000 > f then f else a * int b div 10000) = min f (a * int b div 10000)" for a f :: int and b
    by (simp add: min_def)
  have total: "(if x < c then c else x) = max c x" for x c :: int by (simp add: max_def)
  show ?thesis unfolding buffered_total_def Let_def platform total by simp
qed

definition charged_amount :: "NewPayment \<Rightarrow> int \<Rightarrow> int" where
  "charged_amount payment amount = (case SetString10 (pay_TotalCharged payment) of Some t \<Rightarrow> t | None \<Rightarrow> amount)"


text \<open>A gateway of an older version: it only has the two constants of the fee.\<close>

definition sample_gateway_abi :: contract_abi where
  "sample_gateway_abi =
     \<lparr>abi_methods = [''FIXED_BASE_FEE'', ''FEE_RATE_BPS''],
      abi_PackCall = (\<lambda>m args. if m \<in> {''FIXED_BASE_FEE'', ''FEE_RATE_BPS''} then Inr (bytes_of m) else Inl (ErrorString m)),
      abi_UnpackCall = (\<lambda>m out. if m = ''FIXED_BASE_FEE'' then Some [AbiBig 20] else Some [AbiBig 30])\<rparr>"

definition sample_gateway :: gateway_deps where
  "sample_gateway =
     \<lparr>gd_route = sample_route, gd_fallbackABI = sample_gateway_abi,
      gd_resolveABI = Some (\<lambda>k ty. Inr sample_gateway_abi), gd_undef = (\<lambda>s. 0)\<rparr>"

definition sample_new_payment :: NewPayment where
  "sample_new_payment =
     \<lparr>pay_ID = 21, pay_SenderID = Some 22, pay_MerchantID = None, pay_BridgeID = None, pay_SourceChainID = 7, pay_DestChainID = 8,
      pay_SourceTokenID = Some 23, pay_DestTokenID = Some 24, pay_SenderAddress = [], pay_DestAddress = [],
      pay_SourceAmount = ''50'', pay_DestAmount = Some ''49'', pay_FeeAmount = ''1'', pay_TotalCharged = ''60'',
      pay_ReceiverAddress = ''0xrr'', pay_Status = PaymentStatusPending, pay_SourceTxHash = None, pay_DestTxHash = None,
      pay_RefundTxHash = None, pay_CrossChainMessageID = None, pay_FailureReason = None, pay_RevertData = None,
      pay_ExpiresAt = None, pay_CreatedAt = 5, pay_UpdatedAt = 5, pay_SourceChain = None, pay_DestChain = None,
      np_SourceTokenAddress = ''0xaa'', np_DestTokenAddress = ''0xbb'', np_MinDestAmount = None, np_SourceChain = None, np_DestChain = None\<rparr>"

lemma sample_approval:
  "CalculateOnchainApprovalAmount sample_gateway sample_new_payment ''0xg'' = Inr (int_string (buffered_total 50 60 20 30))"
  "SetString10 (pay_SourceAmount sample_new_payment) = Some 50" "charged_amount sample_new_payment 50 = 60"
proof -
  have n: "SetString10 ''50'' = Some 50" "SetString10 ''60'' = Some 60" by code_simp+
  then show "SetString10 (pay_SourceAmount sample_new_payment) = Some 50" "charged_amount sample_new_payment 50 = 60"
    by (simp_all add: sample_new_payment_def charged_amount_def)
  have c: "source_client sample_gateway w 7 = Inr (base_chain\<lparr>chain_RPCURL := ''http://rpc''\<rparr>, \<lambda>c d. Inr [5])" for w
  proof -
    have "source_rpc_url (base_chain\<lparr>chain_RPCURL := ''http://rpc''\<rparr>) = ''http://rpc''" by code_simp
    then show ?thesis by (simp add: source_client_def sample_gateway_def sample_route_def)
  qed
  have a: "gateway_abi sample_gateway 7 m = Inr sample_gateway_abi" for m by (simp add: gateway_abi_def sample_gateway_def)
  have "quoteGatewayPaymentCost sample_gateway sample_new_payment ''0xg'' None = Inr None"
    using n c a by (simp add: quoteGatewayPaymentCost_def sample_new_payment_def) (simp add: sample_gateway_abi_def)
  then show "CalculateOnchainApprovalAmount sample_gateway sample_new_payment ''0xg'' = Inr (int_string (buffered_total 50 60 20 30))"
    using n c a by (simp add: CalculateOnchainApprovalAmount_def sample_new_payment_def)
      (simp add: sample_gateway_abi_def quote_total_def read_constant_def)
qed


end
