(* ===== verification/Payment_Creation.thy ===== *)
theory Payment_Creation
  imports Gateway_Quotes
begin

text \<open>
  The creation of a payment (\<^verbatim>\<open>internal/usecases/payment_usecase.go\<close>: \<^verbatim>\<open>CalculateFees\<close>,
  \<^verbatim>\<open>getSwapQuote\<close>, \<^verbatim>\<open>CreatePayment\<close>, \<^verbatim>\<open>resolveToken\<close>, \<^verbatim>\<open>buildTransactionDataWithInput\<close>, the quote
  snapshot, and the EVM and Solana call data). Floating point is an argument (\<open>float64\<close>) with the
  operations the code uses; what a theorem needs of it is a hypothesis.
\<close>

subsection \<open>Values without a static type\<close>

text \<open>
  The values that the response holds as \<^verbatim>\<open>interface{}\<close>; maps are association lists.
  \<open>go_sprint\<close> is \<^verbatim>\<open>fmt.Sprintf("%v", v)\<close>.
\<close>

type_synonym smap = "(string \<times> string) list"

datatype goval = VNil | VString string | VStringer string | VStringMap smap | VMap "(string \<times> goval) list" | VMaps "smap list"

definition print_smap :: "smap \<Rightarrow> string" where
  "print_smap kvs = ''map['' @ join '' '' (map (\<lambda>(k, s). k @ '':'' @ s) (sort_key fst (go_map kvs))) @ '']''"

fun go_sprint :: "goval \<Rightarrow> string" where
  "go_sprint VNil = ''<nil>''"
| "go_sprint (VString s) = s"
| "go_sprint (VStringer s) = s"
| "go_sprint (VStringMap m) = print_smap m"
| "go_sprint (VMap kvs) = print_smap (map (\<lambda>(k, v). (k, go_sprint v)) kvs)"
| "go_sprint (VMaps ms) = ''['' @ join '' '' (map print_smap ms) @ '']''"

definition extractStringField :: "(string \<times> goval) list \<Rightarrow> string \<Rightarrow> string" where
  "extractStringField values key =
     (case map_of values key of
        None \<Rightarrow> []
      | Some v \<Rightarrow> TrimSpace (go_sprint v))"

definition smap_get :: "smap \<Rightarrow> string \<Rightarrow> string" where
  "smap_get m k = (case map_of m k of Some v \<Rightarrow> v | None \<Rightarrow> [])"

definition present :: "string \<Rightarrow> string \<Rightarrow> (string \<times> json) list" where
  "present key v = (if v \<noteq> [] then [(key, JString v)] else [])"

definition extractPreviewApprovalSnapshot :: "goval \<Rightarrow> (string \<times> json) list option" where
  "extractPreviewApprovalSnapshot signatureData =
     (case signatureData of
        VMap root \<Rightarrow>
          let fee = present ''requiredNativeFee'' (extractStringField root ''value'');
              rest = (\<lambda>get. present ''approvalToken'' (get ''to'') @ present ''approvalAmount'' (get ''amount'') @
                            present ''approvalSpender'' (get ''spender''));
              snapshot =
                (case map_of root ''approval'' of
                   Some (VStringMap approval) \<Rightarrow> fee @ rest (\<lambda>k. TrimSpace (smap_get approval k))
                 | Some (VMap approval) \<Rightarrow> fee @ rest (extractStringField approval)
                 | _ \<Rightarrow> fee) in
          if snapshot = [] then None else Some snapshot
      | _ \<Rightarrow> None)"

definition extractOnchainCostSnapshot :: "OnchainCost option \<Rightarrow> (string \<times> json) list option" where
  "extractOnchainCostSnapshot onchainCost =
     (case onchainCost of
        None \<Rightarrow> None
      | Some c \<Rightarrow>
          Some [(''platformFeeToken'', JString (oc_PlatformFeeToken c)), (''bridgeFeeNative'', JString (oc_BridgeFeeNative c)),
                (''totalSourceTokenRequired'', JString (oc_TotalSourceTokenRequired c)),
                (''bridgeType'', JNumber (nat_string (unat (oc_BridgeType c)))), (''isSameChain'', JBool (oc_IsSameChain c)),
                (''bridgeQuoteOk'', JBool (oc_BridgeQuoteOk c)), (''bridgeQuoteReason'', JString (oc_BridgeQuoteReason c))])"

definition optional_object :: "string \<Rightarrow> (string \<times> json) list option \<Rightarrow> (string \<times> json) list" where
  "optional_object key m = (case m of None \<Rightarrow> [] | Some kvs \<Rightarrow> [(key, JObject kvs)])"

definition buildPaymentQuoteSnapshotMetadata :: "goval \<Rightarrow> OnchainCost option \<Rightarrow> json option" where
  "buildPaymentQuoteSnapshotMetadata signatureData onchainCost =
     (let preview = extractPreviewApprovalSnapshot signatureData; quote = extractOnchainCostSnapshot onchainCost in
      if preview = None \<and> quote = None then None
      else Some (JObject ((''schema'', JString ''payment_quote_snapshot.v1'') #
                   optional_object ''previewApproval'' preview @ optional_object ''quotePaymentCost'' quote)))"

subsection \<open>Fees\<close>

text \<open>
  \<^verbatim>\<open>fl_quot a b\<close> is the float nearest the quotient of two integers as \<^verbatim>\<open>big.Float\<close> computes it,
  \<^verbatim>\<open>fl_lit p q\<close> the literal of value \<open>p / q\<close>, \<^verbatim>\<open>fl_int64\<close> the conversion to an integer, \<^verbatim>\<open>fl_text\<close> the rounded number
  printed with \<^verbatim>\<open>%.0f\<close>.
\<close>

record 'f float64 =
  fl_quot :: "int \<Rightarrow> int \<Rightarrow> 'f"
  fl_lit :: "int \<Rightarrow> int \<Rightarrow> 'f"
  fl_parse :: "string \<Rightarrow> 'f option"
  fl_add :: "'f \<Rightarrow> 'f \<Rightarrow> 'f"
  fl_sub :: "'f \<Rightarrow> 'f \<Rightarrow> 'f"
  fl_mul :: "'f \<Rightarrow> 'f \<Rightarrow> 'f"
  fl_less :: "'f \<Rightarrow> 'f \<Rightarrow> bool"
  fl_le :: "'f \<Rightarrow> 'f \<Rightarrow> bool"
  fl_pow :: "int \<Rightarrow> 'f"
  fl_pow10 :: "int \<Rightarrow> 'f"
  fl_int64 :: "'f \<Rightarrow> int"
  fl_text :: "'f \<Rightarrow> string"

record 'f payment_deps =
  pd_gateway :: gateway_deps
  pd_float :: "'f float64"
  pd_feeConfigs :: "(uuid \<Rightarrow> uuid \<Rightarrow> FeeConfig result) option"
  pd_native :: "uuid \<Rightarrow> Token result"
  pd_token :: "string \<Rightarrow> uuid \<Rightarrow> Token result"
  pd_digit :: "nat \<Rightarrow> bool"
  pd_json :: json_lib
  pd_pq :: "gerror \<Rightarrow> string option"
  pd_sha256 :: "byte list \<Rightarrow> byte list"

record FeeBreakdown =
  fb_PlatformFee :: string
  fb_BridgeFee :: string
  fb_GasFee :: string
  fb_TotalFee :: string
  fb_NetAmount :: string

definition formatAmount :: "'f float64 \<Rightarrow> 'f \<Rightarrow> int \<Rightarrow> string" where
  "formatAmount F amount decimals = fl_text F (fl_mul F amount (fl_pow F decimals))"

text \<open>The configured rule of a chain and token over the defaults: cap, rate, minimum, maximum.\<close>

record 'f fee_rule =
  fr_BaseFeeToken :: 'f
  fr_PercentageFee :: 'f
  fr_BridgeFeeFlat :: 'f
  fr_minFeeToken :: 'f
  fr_maxFeeToken :: 'f

definition DefaultFeeConfig :: "'f float64 \<Rightarrow> 'f fee_rule" where
  "DefaultFeeConfig F =
     \<lparr>fr_BaseFeeToken = fl_lit F 1 2, fr_PercentageFee = fl_lit F 3 1000, fr_BridgeFeeFlat = fl_lit F 1 10,
      fr_minFeeToken = fl_lit F 0 1, fr_maxFeeToken = fl_lit F (- 1) 1\<rparr>"

definition or_parsed :: "'f float64 \<Rightarrow> string \<Rightarrow> 'f \<Rightarrow> 'f" where
  "or_parsed F s dflt = (case fl_parse F s of Some v \<Rightarrow> v | None \<Rightarrow> dflt)"

definition configured_rule :: "'f float64 \<Rightarrow> FeeConfig option \<Rightarrow> 'f fee_rule" where
  "configured_rule F cfg =
     (let d = DefaultFeeConfig F in
      case cfg of
        None \<Rightarrow> d
      | Some c \<Rightarrow>
          \<lparr>fr_BaseFeeToken = or_parsed F (fc_FixedBaseFee c) (fr_BaseFeeToken d),
           fr_PercentageFee = or_parsed F (fc_PlatformFeePercent c) (fr_PercentageFee d), fr_BridgeFeeFlat = fr_BridgeFeeFlat d,
           fr_minFeeToken = or_parsed F (fc_MinFee c) (fr_minFeeToken d),
           fr_maxFeeToken = (case fc_MaxFee c of
                               None \<Rightarrow> fr_maxFeeToken d
                             | Some s \<Rightarrow> if s \<noteq> [] then or_parsed F s (fr_maxFeeToken d) else fr_maxFeeToken d)\<rparr>)"

definition fee_config_of :: "'f payment_deps \<Rightarrow> uuid \<Rightarrow> uuid \<Rightarrow> FeeConfig option" where
  "fee_config_of D chain token =
     (case pd_feeConfigs D of
        None \<Rightarrow> None
      | Some get \<Rightarrow> (case get chain token of Inr c \<Rightarrow> Some c | Inl _ \<Rightarrow> None))"

definition platform_fee :: "'f float64 \<Rightarrow> 'f fee_rule \<Rightarrow> 'f \<Rightarrow> 'f \<Rightarrow> 'f" where
  "platform_fee F r amountFloat merchantDiscount =
     (let platformValue = fl_mul F amountFloat (fr_PercentageFee r);
          platformFee = (if fl_less F (fr_BaseFeeToken r) platformValue then fr_BaseFeeToken r else platformValue);
          platformFee = (if fl_less F (fl_lit F 0 1) merchantDiscount
                         then fl_mul F platformFee (fl_sub F (fl_lit F 1 1) merchantDiscount) else platformFee);
          platformFee = (if fl_less F platformFee (fr_minFeeToken r) then fr_minFeeToken r else platformFee) in
      if fl_le F (fl_lit F 0 1) (fr_maxFeeToken r) \<and> fl_less F (fr_maxFeeToken r) platformFee then fr_maxFeeToken r else platformFee)"

text \<open>The caches of the quote request hold each looked up value once; a single quote reads each once.\<close>

definition getSwapQuote :: "gateway_deps \<Rightarrow> uuid \<Rightarrow> string \<Rightarrow> string \<Rightarrow> int \<Rightarrow> int result" where
  "getSwapQuote D chainID tokenIn tokenOut amountIn =
     (if tokenIn = tokenOut then Inr amountIn
      else
     (case repo_GetByID (rd_chains (gd_route D)) chainID of Inl e \<Rightarrow> Inl e | Inr chain \<Rightarrow>
     (case rd_activeContract (gd_route D) (chain_ID chain) ''TOKEN_SWAPPER'' of
        Inl _ \<Rightarrow> Inl (ErrorString ''active swapper not found'')
      | Inr None \<Rightarrow> Inl (ErrorString ''active swapper not found'')
      | Inr (Some swapper) \<Rightarrow>
     (case rd_client (gd_route D) (chain_RPCURL chain) of Inl e \<Rightarrow> Inl e | Inr call \<Rightarrow>
     (case gd_resolveABI D of
        None \<Rightarrow> Inl nil_dereference
      | Some resolve \<Rightarrow>
     (case resolve (chain_ID chain) ''TOKEN_SWAPPER'' of Inl e \<Rightarrow> Inl e | Inr swapperABI \<Rightarrow>
     (case abi_PackCall swapperABI ''getRealQuote''
             [ArgAddress (HexToAddress (rd_abi (gd_route D)) tokenIn), ArgAddress (HexToAddress (rd_abi (gd_route D)) tokenOut), ArgUint amountIn] of
        Inl e \<Rightarrow> Inl e
      | Inr quoteCall \<Rightarrow>
     (case call swapper quoteCall of
        Inl e \<Rightarrow> Inl (ErrorString (rpc_text e))
      | Inr out \<Rightarrow>
     (case abi_UnpackCall swapperABI ''getRealQuote'' out of
        None \<Rightarrow> Inl (ErrorString ''failed to unpack quote'')
      | Some [] \<Rightarrow> Inl (ErrorString ''failed to unpack quote'')
      | Some (v # vs) \<Rightarrow> (case big_value v of Some n \<Rightarrow> Inr (int n) | None \<Rightarrow> Inl (ErrorString ''invalid quote result'')))))))))))"

text \<open>A native source token pays the bridge from the token amount; the quote may write the policies.\<close>

definition bridge_fee_token ::
  "'f payment_deps \<Rightarrow> route_env \<Rightarrow> route_policy_row table \<Rightarrow> int \<Rightarrow> int \<Rightarrow> string \<Rightarrow> string \<Rightarrow> string \<Rightarrow> string \<Rightarrow> 'f \<Rightarrow>
   'f \<times> route_policy_row table" where
  "bridge_fee_token D E t amount decimals source dest sourceToken destToken flat =
     (if source = dest \<or> shouldRequireEvmApproval sourceToken then (fl_lit (pd_float D) 0 1, t)
      else case getBridgeFeeQuote (gd_route (pd_gateway D)) E t source dest sourceToken destToken amount 0 of
             (Inr (Some wei), t') \<Rightarrow> (fl_quot (pd_float D) (int wei) (10 ^ nat decimals), t')
           | (_, t') \<Rightarrow> (flat, t'))"

definition CalculateFees ::
  "'f payment_deps \<Rightarrow> route_env \<Rightarrow> route_policy_row table \<Rightarrow> int \<Rightarrow> int \<Rightarrow> string \<Rightarrow> string \<Rightarrow> uuid \<Rightarrow> uuid \<Rightarrow> uuid \<Rightarrow> string \<Rightarrow> string \<Rightarrow> 'f \<Rightarrow>
   FeeBreakdown \<times> route_policy_row table" where
  "CalculateFees D E t amount decimals source dest src dst tokenID sourceToken destToken discount =
     (let F = pd_float D; rule = configured_rule F (fee_config_of D src tokenID);
          amountFloat = fl_quot F amount (10 ^ nat decimals);
          platformFee = platform_fee F rule amountFloat discount;
          (bridgeFee, t') = bridge_fee_token D E t amount decimals source dest sourceToken destToken (fr_BridgeFeeFlat rule);
          totalFee = fl_add F platformFee bridgeFee;
          netSource = amount - fl_int64 F (fl_mul F platformFee (fl_pow10 F decimals));
          net = (if sourceToken \<noteq> destToken \<and> sourceToken \<noteq> [] \<and> destToken \<noteq> [] then
                   (case getSwapQuote (pd_gateway D) src sourceToken destToken netSource of
                      Inr q \<Rightarrow> int_string q
                    | Inl _ \<Rightarrow> formatAmount F (fl_sub F amountFloat totalFee) decimals)
                 else formatAmount F (fl_sub F amountFloat totalFee) decimals) in
      (\<lparr>fb_PlatformFee = formatAmount F platformFee decimals, fb_BridgeFee = formatAmount F bridgeFee decimals, fb_GasFee = ''0'',
        fb_TotalFee = formatAmount F totalFee decimals, fb_NetAmount = net\<rparr>, t'))"

subsection \<open>Call data\<close>

definition big_set :: "gateway_deps \<Rightarrow> string \<Rightarrow> int" where
  "big_set D s = (case SetString10 s of Some n \<Rightarrow> n | None \<Rightarrow> gd_undef D s)"

definition call_receiver :: "gateway_deps \<Rightarrow> NewPayment \<Rightarrow> byte list" where
  "call_receiver D payment =
     (let r = pay_ReceiverAddress payment in
      if HasPrefix r ''0x'' \<and> length r = 42 then (case receiver_address D payment of Inr b \<Rightarrow> b | Inl _ \<Rightarrow> bytes_of r)
      else bytes_of r)"

definition or_empty :: "string result \<Rightarrow> string" where
  "or_empty r = (case r of Inr s \<Rightarrow> s | Inl _ \<Rightarrow> [])"

definition privacy_calldata :: "gateway_deps \<Rightarrow> CreatePaymentInput option \<Rightarrow> PaymentRequestV2Args \<Rightarrow> string" where
  "privacy_calldata D input req =
     (case (Option.bind input cpi_PrivacyIntentID, Option.bind input cpi_PrivacyStealthReceiver) of
        (Some intent, Some stealth) \<Rightarrow>
          if TrimSpace intent = [] \<or> TrimSpace stealth = [] \<or> \<not> IsHexAddress (rd_eth (gd_route D)) (TrimSpace stealth) then []
          else or_empty (packCreatePaymentPrivateV2Calldata (rd_abi (gd_route D)) (Keccak256 (rd_eth (gd_route D))) req
                 \<lparr>pr_IntentID = parsePrivacyIntentID D (TrimSpace intent),
                  pr_StealthReceiver = HexToAddress (rd_abi (gd_route D)) (TrimSpace stealth)\<rparr>)
      | _ \<Rightarrow> [])"

definition is_default_bridge_call :: "CreatePaymentInput option \<Rightarrow> bool" where
  "is_default_bridge_call input = (case input of Some i \<Rightarrow> cpi_BridgeOption i = None | None \<Rightarrow> False)"

text \<open>The empty string stands for a call that could not be built.\<close>

definition evm_request :: "gateway_deps \<Rightarrow> NewPayment \<Rightarrow> string \<Rightarrow> int \<Rightarrow> CreatePaymentInput option \<Rightarrow> PaymentRequestV2Args option" where
  "evm_request D payment destChainID minAmountOut input =
     (case optional_amount (if minAmountOut > 0 then minAmountOut else 0) (Option.bind input cpi_MinDestAmountOut) of
        None \<Rightarrow> None
      | Some minDest \<Rightarrow>
     (case optional_amount 0 (Option.bind input cpi_MinBridgeAmountOut) of
        None \<Rightarrow> None
      | Some minBridge \<Rightarrow>
     (case normalizeBridgeOption (Option.bind input cpi_BridgeOption) of
        Inl _ \<Rightarrow> None
      | Inr bridgeOption \<Rightarrow>
     (case optional_address D (Option.bind input cpi_BridgeTokenSource) of
        None \<Rightarrow> None
      | Some bridgeToken \<Rightarrow>
          Some (v2_request D payment destChainID (call_receiver D payment) input (big_set D (pay_SourceAmount payment))
                  minBridge minDest bridgeOption bridgeToken)))))"

definition buildEvmPaymentHexWithInput :: "gateway_deps \<Rightarrow> NewPayment \<Rightarrow> string \<Rightarrow> int \<Rightarrow> CreatePaymentInput option \<Rightarrow> string" where
  "buildEvmPaymentHexWithInput D payment destChainID minAmountOut input =
     (case evm_request D payment destChainID minAmountOut input of
        None \<Rightarrow> []
      | Some req \<Rightarrow>
          if normalizePaymentMode (Option.bind input cpi_Mode) = ''privacy'' then privacy_calldata D input req
          else if is_default_bridge_call input then
            or_empty (packCreatePaymentDefaultBridgeV2Calldata (rd_abi (gd_route D)) (Keccak256 (rd_eth (gd_route D))) req)
          else or_empty (packCreatePaymentV2Calldata (rd_abi (gd_route D)) (Keccak256 (rd_eth (gd_route D))) req))"

definition buildSvmPaymentBase58 :: "'f payment_deps \<Rightarrow> NewPayment \<Rightarrow> string" where
  "buildSvmPaymentBase58 D payment =
     (let destChainID = (case np_DestChain payment of
                           Some c \<Rightarrow> GetCAIP2ID c
                         | None \<Rightarrow> uuid_String (rd_uuid (gd_route (pd_gateway D))) (pay_DestChainID payment)) in
      base58Encode (anchorDiscriminator (pd_sha256 D) ''create_payment'' @ uuidToBytes32 (pay_ID payment) @
        encodeAnchorString destChainID @ addressToBytes32 (np_DestTokenAddress payment) @
        u64ToLE (decimalStringToUint64 (pay_SourceAmount payment)) @ addressToBytes32 (pay_ReceiverAddress payment)))"

subsection \<open>Transactions\<close>

definition hex_number :: "nat \<Rightarrow> string" where
  "hex_number n = (if n = 0 then ''0'' else map hex_char (digits 16 n))"

definition deploy_incomplete :: gerror where
  "deploy_incomplete = ErrorString ''privacy routing fields are incomplete for same-chain escrow deployment''"

definition active_hex_contract :: "gateway_deps \<Rightarrow> uuid \<Rightarrow> string \<Rightarrow> string option" where
  "active_hex_contract D src ty =
     (case rd_activeContract (gd_route D) src ty of
        Inr (Some a) \<Rightarrow> if IsHexAddress (rd_eth (gd_route D)) a then Some a else None
      | _ \<Rightarrow> None)"

definition deploy_tx :: "gateway_deps \<Rightarrow> NewPayment \<Rightarrow> string \<Rightarrow> string \<Rightarrow> smap result" where
  "deploy_tx D payment intentRaw stealthRaw =
     (let receiverRaw = TrimSpace (pay_ReceiverAddress payment); hexAddress = IsHexAddress (rd_eth (gd_route D)) in
      if receiverRaw = [] \<or> intentRaw = [] \<or> stealthRaw = [] then Inl deploy_incomplete
      else if \<not> hexAddress receiverRaw then
        Inl (ErrorString ''receiverAddress must be valid EVM address for same-chain privacy escrow'')
      else if \<not> hexAddress stealthRaw then
        Inl (ErrorString ''privacyStealthReceiver must be valid EVM address for same-chain privacy escrow'')
      else
     (case active_hex_contract D (pay_SourceChainID payment) ''STEALTH_ESCROW_FACTORY'' of
        None \<Rightarrow> Inl (ErrorString ''active stealth escrow factory is not configured on source chain'')
      | Some factory \<Rightarrow>
     (case active_hex_contract D (pay_SourceChainID payment) ''PRIVACY_MODULE'' of
        None \<Rightarrow> Inl (ErrorString ''active privacy module is not configured on source chain'')
      | Some module \<Rightarrow>
          let deployData = buildDeployEscrowHex D (parsePrivacyIntentID D intentRaw)
                (HexToAddress (rd_abi (gd_route D)) (normalizeEvmAddress receiverRaw))
                (HexToAddress (rd_abi (gd_route D)) (normalizeEvmAddress module)) in
          if deployData = [] then Inl (ErrorString ''failed to build deployEscrow calldata'')
          else Inr [(''kind'', ''deployEscrow''), (''to'', factory), (''data'', deployData), (''value'', ''0x0'')])))"

definition buildPrivacyEscrowDeployTx ::
  "gateway_deps \<Rightarrow> NewPayment \<Rightarrow> CreatePaymentInput option \<Rightarrow> string \<Rightarrow> string \<Rightarrow> smap option result" where
  "buildPrivacyEscrowDeployTx D payment input sourceCAIP2 destCAIP2 =
     (case input of
        None \<Rightarrow> Inr None
      | Some i \<Rightarrow>
          if sourceCAIP2 = [] \<or> destCAIP2 = [] \<or> sourceCAIP2 \<noteq> destCAIP2 then Inr None
          else if normalizePaymentMode (cpi_Mode i) \<noteq> PaymentModePrivacy then Inr None
          else (case (cpi_PrivacyIntentID i, cpi_PrivacyStealthReceiver i) of
                  (Some intent, Some stealth) \<Rightarrow> map_sum (\<lambda>e. e) Some (deploy_tx D payment (TrimSpace intent) (TrimSpace stealth))
                | _ \<Rightarrow> Inr None))"

definition blank_amount :: "string \<Rightarrow> bool" where
  "blank_amount s \<longleftrightarrow> s = [] \<or> s = ''0''"

definition approval_amount :: "gateway_deps \<Rightarrow> NewPayment \<Rightarrow> string \<Rightarrow> string \<Rightarrow> string result" where
  "approval_amount D payment gateway previewApprovalAmount =
     (let fromPreview = TrimSpace previewApprovalAmount in
      if \<not> blank_amount fromPreview then Inr fromPreview
      else case CalculateOnchainApprovalAmount D payment gateway of
             Inr s \<Rightarrow> Inr s
           | Inl approvalErr \<Rightarrow>
               let charged = TrimSpace (pay_TotalCharged payment);
                   amount = (if blank_amount charged then TrimSpace (pay_SourceAmount payment) else charged) in
               if blank_amount amount then Inl approvalErr else Inr amount)"

definition approval_tx :: "gateway_deps \<Rightarrow> NewPayment \<Rightarrow> string \<Rightarrow> string \<Rightarrow> smap option result" where
  "approval_tx D payment gateway previewApprovalAmount =
     (if \<not> shouldRequireEvmApproval (np_SourceTokenAddress payment) then Inr None
      else
        let vault = ResolveVaultAddressForApproval D (pay_SourceChainID payment) gateway in
        if vault = [] then Inl (ErrorString ''vault contract address is not configured for source chain'')
        else case approval_amount D payment gateway previewApprovalAmount of
               Inl e \<Rightarrow> Inl e
             | Inr amount \<Rightarrow>
                 Inr (Some [(''kind'', ''approve''), (''to'', np_SourceTokenAddress payment),
                            (''data'', buildErc20ApproveHex (rd_abi (gd_route D)) vault amount), (''spender'', vault), (''amount'', amount)]))"

definition with_margin :: "int \<Rightarrow> int" where
  "with_margin feeWei = (let m = feeWei * 12000 div 10000 in if m < feeWei then feeWei else m)"

text \<open>The fee of the router, or the gateway's quote when the router cannot be asked.\<close>

definition fallback_fee ::
  "gateway_deps \<Rightarrow> NewPayment \<Rightarrow> string \<Rightarrow> CreatePaymentInput option \<Rightarrow> string \<Rightarrow> gerror \<Rightarrow> int result" where
  "fallback_fee D payment gateway input route err =
     (let fb = quoteGatewayPaymentCost D payment gateway input;
          failed = ''failed to resolve bridge fee quote for '' @ route @ '': '';
          unavailable = BadRequest (failed @ ''primaryErr='' @ error_text err @ '' fallbackErr='' @
                          (case fb of Inl e \<Rightarrow> error_text e | Inr _ \<Rightarrow> ''<nil>'')) in
      case fb of
        Inr (Some c) \<Rightarrow>
          if oc_BridgeQuoteOk c then
            (case SetString10 (TrimSpace (oc_BridgeFeeNative c)) of
               Some n \<Rightarrow> if n \<ge> 0 then Inr n
                         else Inl (BadRequest (failed @ error_text err @ '' (fallback bridge fee invalid: '' @ [CHR 0x22] @ oc_BridgeFeeNative c @ [CHR 0x22] @ '')''))
             | None \<Rightarrow> Inl (BadRequest (failed @ error_text err @ '' (fallback bridge fee invalid: '' @ [CHR 0x22] @ oc_BridgeFeeNative c @ [CHR 0x22] @ '')'')))
          else Inl unavailable
      | _ \<Rightarrow> Inl unavailable)"

definition tx_value ::
  "gateway_deps \<Rightarrow> route_env \<Rightarrow> route_policy_row table \<Rightarrow> NewPayment \<Rightarrow> string \<Rightarrow> CreatePaymentInput option \<Rightarrow> string \<Rightarrow> string \<Rightarrow> int \<Rightarrow>
   previewApprovalResult result \<Rightarrow> string result \<times> route_policy_row table" where
  "tx_value D E t payment gateway input sourceCAIP2 destCAIP2 minDest preview =
     (if sourceCAIP2 = [] \<or> sourceCAIP2 = destCAIP2 then (Inr ''0x0'', t)
      else
     (case SetString10 (pay_SourceAmount payment) of
        None \<Rightarrow> (Inl (BadRequest ''invalid source amount for bridge fee quote''), t)
      | Some amount \<Rightarrow>
     (case preview of
        Inr p \<Rightarrow> (Inr (''0x'' @ hex_number (pa_RequiredNativeFee p)), t)
      | Inl _ \<Rightarrow>
     (case getBridgeFeeQuote (gd_route D) E t sourceCAIP2 destCAIP2 (np_SourceTokenAddress payment) (np_DestTokenAddress payment) amount minDest of
        (Inr None, t') \<Rightarrow> (Inl nil_dereference, t')
      | (Inr (Some fee), t') \<Rightarrow> (Inr (''0x'' @ hex_number (nat (with_margin (int fee)))), t')
      | (Inl err, t') \<Rightarrow>
          (map_sum (\<lambda>e. e) (\<lambda>fee. ''0x'' @ hex_number (nat (with_margin fee)))
             (fallback_fee D payment gateway input (sourceCAIP2 @ '' -> '' @ destCAIP2) err), t')))))"

definition source_caip2 :: "gateway_deps \<Rightarrow> NewPayment \<Rightarrow> string" where
  "source_caip2 D payment =
     (case np_SourceChain payment of
        Some c \<Rightarrow> GetCAIP2ID c
      | None \<Rightarrow> (case repo_GetByID (rd_chains (gd_route D)) (pay_SourceChainID payment) of Inr c \<Rightarrow> GetCAIP2ID c | Inl _ \<Rightarrow> []))"

definition preview_amount :: "previewApprovalResult result \<Rightarrow> string" where
  "preview_amount preview =
     (case preview of Inr p \<Rightarrow> if pa_ApprovalAmount p > 0 then nat_string (pa_ApprovalAmount p) else [] | Inl _ \<Rightarrow> [])"

definition build_evm_data ::
  "gateway_deps \<Rightarrow> route_env \<Rightarrow> route_policy_row table \<Rightarrow> NewPayment \<Rightarrow> string \<Rightarrow> CreatePaymentInput option \<Rightarrow>
   goval result \<times> route_policy_row table" where
  "build_evm_data D E t payment gateway input =
     (let sourceCAIP2 = source_caip2 D payment; destChainID = dest_caip2 D payment;
          minDest = (case np_MinDestAmount payment of Some s \<Rightarrow> big_set D s | None \<Rightarrow> 0);
          data = buildEvmPaymentHexWithInput D payment destChainID minDest input in
      if data = [] then (Inl (BadRequest ''failed to build gateway calldata''), t)
      else
        let preview = previewGatewayApprovalV2 D payment gateway input in
     (case tx_value D E t payment gateway input sourceCAIP2 destChainID minDest preview of
        (Inl e, t') \<Rightarrow> (Inl e, t')
      | (Inr v, t') \<Rightarrow>
     (case buildPrivacyEscrowDeployTx D payment input sourceCAIP2 destChainID of
        Inl e \<Rightarrow> (Inl e, t')
      | Inr deploy \<Rightarrow>
     (case approval_tx D payment gateway (preview_amount preview) of
        Inl e \<Rightarrow> (Inl e, t')
      | Inr approval \<Rightarrow>
          let createTx = [(''kind'', ''createPayment''), (''to'', gateway), (''data'', data), (''value'', v)];
              txs = (case deploy of Some tx \<Rightarrow> [tx] | None \<Rightarrow> []) @ (case approval of Some tx \<Rightarrow> [tx] | None \<Rightarrow> []) @ [createTx] in
          (Inr (VMap ([(''to'', VString gateway), (''data'', VString data), (''value'', VString v), (''transactions'', VMaps txs)] @
             (case approval of Some tx \<Rightarrow> [(''approval'', VStringMap tx)] | None \<Rightarrow> []))), t')))))"

definition buildTransactionDataWithInput ::
  "'f payment_deps \<Rightarrow> route_env \<Rightarrow> route_policy_row table \<Rightarrow> NewPayment \<Rightarrow> string option \<Rightarrow> CreatePaymentInput option \<Rightarrow>
   goval result \<times> route_policy_row table" where
  "buildTransactionDataWithInput D E t payment contract input =
     (case contract of
        None \<Rightarrow> (Inr VNil, t)
      | Some gateway \<Rightarrow>
          let chainType = getChainTypeFromCAIP2 (source_caip2 (pd_gateway D) payment) in
          if chainType = ''eip155'' then build_evm_data (pd_gateway D) E t payment gateway input
          else if chainType = ''solana'' then
            (Inr (VStringMap [(''programId'', gateway), (''data'', buildSvmPaymentBase58 D payment)]), t)
          else (Inr VNil, t))"

subsection \<open>Creation\<close>

definition resolveToken :: "'f payment_deps \<Rightarrow> string \<Rightarrow> uuid \<Rightarrow> Token result" where
  "resolveToken D address chainID =
     (if address = [] \<or> address = zero_address \<or> address = ''native'' then
        (case pd_native D chainID of
           Inl e \<Rightarrow> Inl (WrapErr (''native token not found for chain '' @ uuid_String (rd_uuid (gd_route (pd_gateway D))) chainID) e)
         | Inr tok \<Rightarrow> Inr tok)
      else
        (case pd_token D address chainID of
           Inl e \<Rightarrow> Inl (WrapErr (''token not found for address '' @ address) e)
         | Inr tok \<Rightarrow> Inr tok))"

record creation_db =
  cdb_policies :: "route_policy_row table"
  cdb_payments :: "payment_row table"
  cdb_events :: "event_row table"

text \<open>The faults each step meets, the identifiers and the clock.\<close>

record creation_env =
  ce_decide :: fault
  ce_fees :: route_env
  ce_build :: route_env
  ce_begin :: fault
  ce_insert :: fault
  ce_commit :: fault
  ce_event :: "nat \<Rightarrow> fault"
  ce_snapshot :: "nat \<Rightarrow> fault"
  ce_paymentID :: uuid
  ce_eventID :: uuid
  ce_snapshotID :: uuid
  ce_now :: time

record CreatePaymentResponse =
  cpr_PaymentID :: uuid
  cpr_Status :: PaymentStatus
  cpr_SourceChainID :: string
  cpr_DestChainID :: string
  cpr_SourceAmount :: string
  cpr_SourceDecimals :: int
  cpr_DestAmount :: string
  cpr_FeeAmount :: string
  cpr_BridgeType :: string
  cpr_FeeBreakdown :: FeeBreakdown
  cpr_OnchainCost :: "OnchainCost option"
  cpr_ExpiresAt :: time
  cpr_SignatureData :: goval

definition PaymentExpiryDuration :: int where "PaymentExpiryDuration = 60 * minute"

text \<open>Checks and lookups: the chains, the tokens, the amount in smallest units.\<close>

record payment_lookup =
  pl_src :: uuid
  pl_sourceCAIP2 :: string
  pl_dst :: uuid
  pl_destCAIP2 :: string
  pl_sourceChain :: Chain
  pl_destChain :: Chain
  pl_srcToken :: Token
  pl_destToken :: Token
  pl_amount :: string

definition resolve_chain :: "'f payment_deps \<Rightarrow> string \<Rightarrow> string \<Rightarrow> (uuid \<times> string) result" where
  "resolve_chain D what chainID =
     (case ResolveFromAny (rd_uuid (gd_route (pd_gateway D))) (rd_chains (gd_route (pd_gateway D))) chainID of
        Inl e \<Rightarrow> Inl (WrapErr (''invalid '' @ what @ '' chain'') e)
      | Inr r \<Rightarrow> Inr r)"

definition fetch_chain :: "'f payment_deps \<Rightarrow> string \<Rightarrow> uuid \<Rightarrow> Chain result" where
  "fetch_chain D what k =
     (case repo_GetByID (rd_chains (gd_route (pd_gateway D))) k of
        Inl e \<Rightarrow> Inl (WrapErr (''error fetching '' @ what @ '' chain'') e)
      | Inr c \<Rightarrow> Inr c)"

definition lookup_payment :: "'f payment_deps \<Rightarrow> CreatePaymentInput \<Rightarrow> payment_lookup result" where
  "lookup_payment D input =
     (if cpi_SourceChainID input = [] \<or> cpi_DestChainID input = [] then Inl (Sentinel ErrBadRequest)
      else if cpi_ReceiverAddress input = [] then Inl (Sentinel ErrBadRequest)
      else
     (case resolve_chain D ''source'' (cpi_SourceChainID input) of Inl e \<Rightarrow> Inl e | Inr (src, sourceCAIP2) \<Rightarrow>
     (case resolve_chain D ''dest'' (cpi_DestChainID input) of Inl e \<Rightarrow> Inl e | Inr (dst, destCAIP2) \<Rightarrow>
     (case fetch_chain D ''source'' src of Inl e \<Rightarrow> Inl e | Inr sourceChain \<Rightarrow>
     (case fetch_chain D ''dest'' dst of Inl e \<Rightarrow> Inl e | Inr destChain \<Rightarrow>
     (case resolveToken D (cpi_SourceTokenAddress input) (chain_ID sourceChain) of
        Inl _ \<Rightarrow> Inl (ErrorString (''source token not found for address '' @ cpi_SourceTokenAddress input @ '' on chain '' @ cpi_SourceChainID input))
      | Inr srcToken \<Rightarrow>
     (case resolveToken D (cpi_DestTokenAddress input) (chain_ID destChain) of
        Inl _ \<Rightarrow> Inl (ErrorString (''dest token not found for address '' @ cpi_DestTokenAddress input @ '' on chain '' @ cpi_DestChainID input))
      | Inr destToken \<Rightarrow>
          if cpi_Decimals input > 0 \<and> cpi_Decimals input \<noteq> token_Decimals srcToken then
            Inl (ErrorString (''source token decimals mismatch: expected '' @ int_string (token_Decimals srcToken) @ '' got '' @ int_string (cpi_Decimals input)))
          else
     (case convertToSmallestUnit (pd_digit D) (cpi_Amount input) (token_Decimals srcToken) of
        Inl _ \<Rightarrow> Inl (Sentinel ErrBadRequest)
      | Inr amount \<Rightarrow>
          Inr \<lparr>pl_src = src, pl_sourceCAIP2 = sourceCAIP2, pl_dst = dst, pl_destCAIP2 = destCAIP2, pl_sourceChain = sourceChain,
               pl_destChain = destChain, pl_srcToken = srcToken, pl_destToken = destToken, pl_amount = amount\<rparr>))))))))"

definition select_payment_bridge :: "'f payment_deps \<Rightarrow> creation_env \<Rightarrow> route_policy_row table \<Rightarrow> payment_lookup \<Rightarrow> string \<times> uuid option" where
  "select_payment_bridge D E t l =
     (if pl_sourceCAIP2 l \<noteq> pl_destCAIP2 l
      then decideBridge (gd_route (pd_gateway D)) (ce_decide E) t (pl_src l) (pl_dst l) (pl_sourceCAIP2 l) (pl_destCAIP2 l)
      else ([], None))"

definition min_dest_amount :: "CreatePaymentInput \<Rightarrow> string \<Rightarrow> string option" where
  "min_dest_amount input netAmount =
     (if cpi_SlippageBps input > 0 then
        map_option (\<lambda>net. int_string (net * (10000 - cpi_SlippageBps input) div 10000)) (SetString10 netAmount)
      else if cpi_MinAmountOut input \<noteq> [] then Some (cpi_MinAmountOut input)
      else None)"

definition merchant_of :: "'f payment_deps \<Rightarrow> uuid option \<Rightarrow> CreatePaymentInput \<Rightarrow> uuid option" where
  "merchant_of D ctxMerchant input =
     (case ctxMerchant of
        Some m \<Rightarrow> Some m
      | None \<Rightarrow>
          if cpi_ReceiverMerchantID input \<noteq> [] then uuid_Parse (rd_uuid (gd_route (pd_gateway D))) (cpi_ReceiverMerchantID input)
          else None)"

definition total_charged :: "string \<Rightarrow> string \<Rightarrow> string" where
  "total_charged amount fee = (case addDecimalStrings amount fee of Inr charged \<Rightarrow> charged | Inl _ \<Rightarrow> amount)"

definition new_payment ::
  "'f payment_deps \<Rightarrow> creation_env \<Rightarrow> uuid option \<Rightarrow> uuid \<Rightarrow> CreatePaymentInput \<Rightarrow> payment_lookup \<Rightarrow> uuid option \<Rightarrow> FeeBreakdown \<Rightarrow> NewPayment" where
  "new_payment D E ctxMerchant userID input l bridgeID fees =
     \<lparr>pay_ID = ce_paymentID E, pay_SenderID = Some userID, pay_MerchantID = merchant_of D ctxMerchant input, pay_BridgeID = bridgeID,
      pay_SourceChainID = pl_src l, pay_DestChainID = pl_dst l, pay_SourceTokenID = Some (token_ID (pl_srcToken l)),
      pay_DestTokenID = Some (token_ID (pl_destToken l)), pay_SenderAddress = [], pay_DestAddress = [],
      pay_SourceAmount = pl_amount l, pay_DestAmount = Some (fb_NetAmount fees), pay_FeeAmount = fb_TotalFee fees,
      pay_TotalCharged = total_charged (pl_amount l) (fb_TotalFee fees), pay_ReceiverAddress = cpi_ReceiverAddress input,
      pay_Status = PaymentStatusPending, pay_SourceTxHash = None, pay_DestTxHash = None, pay_RefundTxHash = None,
      pay_CrossChainMessageID = None, pay_FailureReason = None, pay_RevertData = None, pay_ExpiresAt = None,
      pay_CreatedAt = ce_now E, pay_UpdatedAt = ce_now E,
      pay_SourceChain = Some (chain_ID (pl_sourceChain l), chain_ChainID (pl_sourceChain l), chain_Name (pl_sourceChain l)),
      pay_DestChain = Some (chain_ID (pl_destChain l), chain_ChainID (pl_destChain l), chain_Name (pl_destChain l)),
      np_SourceTokenAddress = cpi_SourceTokenAddress input, np_DestTokenAddress = cpi_DestTokenAddress input,
      np_MinDestAmount = min_dest_amount input (fb_NetAmount fees),
      np_SourceChain = Some (pl_sourceChain l), np_DestChain = Some (pl_destChain l)\<rparr>"

definition creation_event :: "creation_env \<Rightarrow> uuid \<Rightarrow> uuid \<Rightarrow> string \<Rightarrow> uuid \<Rightarrow> json option \<Rightarrow> PaymentEvent" where
  "creation_event E i paymentID ty chain metadata =
     \<lparr>ev_ID = i, ev_PaymentID = paymentID, ev_EventType = ty, ev_ChainID = Some chain, ev_TxHash = [], ev_BlockNumber = 0,
      ev_Metadata = metadata, ev_CreatedAt = ce_now E\<rparr>"

text \<open>Events are written after the commit; a failure is only logged.\<close>

definition add_event :: "'f payment_deps \<Rightarrow> creation_env \<Rightarrow> (nat \<Rightarrow> fault) \<Rightarrow> creation_db \<Rightarrow> PaymentEvent \<Rightarrow> creation_db" where
  "add_event D E faults db e =
     db\<lparr>cdb_events := snd (event_Create (rd_uuid (gd_route (pd_gateway D))) (pd_json D) (pd_pq D) False faults (ev_ID e) (ce_now E) (cdb_events db) e)\<rparr>"

definition save_payment :: "creation_env \<Rightarrow> NewPayment \<Rightarrow> creation_db \<Rightarrow> gerror option \<times> creation_db" where
  "save_payment E payment =
     uow_Do (ce_begin E) (ce_commit E)
       (\<lambda>db. case payment_Create (ce_insert E) (ce_paymentID E) (ce_now E) (cdb_payments db) (Payment.truncate payment) of
               Inl e \<Rightarrow> (Some e, db)
             | Inr (p, t) \<Rightarrow> (None, db\<lparr>cdb_payments := t\<rparr>))"

definition onchain_cost :: "'f payment_deps \<Rightarrow> NewPayment \<Rightarrow> string option \<Rightarrow> string \<Rightarrow> CreatePaymentInput \<Rightarrow> OnchainCost option" where
  "onchain_cost D payment contract sourceCAIP2 input =
     (case contract of
        None \<Rightarrow> None
      | Some gateway \<Rightarrow>
          if getChainTypeFromCAIP2 sourceCAIP2 = ''eip155'' then
            (case quoteGatewayPaymentCost (pd_gateway D) payment gateway (Some input) of Inr c \<Rightarrow> c | Inl _ \<Rightarrow> None)
          else None)"

text \<open>After the commit: the first event, the transaction data, the cost and the snapshot event, the response.\<close>

definition finish_payment ::
  "'f payment_deps \<Rightarrow> creation_env \<Rightarrow> creation_db \<Rightarrow> NewPayment \<Rightarrow> payment_lookup \<Rightarrow> string option \<Rightarrow> string \<Rightarrow> FeeBreakdown \<Rightarrow> CreatePaymentInput \<Rightarrow>
   CreatePaymentResponse result \<times> creation_db" where
  "finish_payment D E db1 payment l contract bridgeType fees input =
     (let chain = chain_ID (pl_sourceChain l);
          db2 = add_event D E (ce_event E) db1 (creation_event E (ce_eventID E) (pay_ID payment) ''CREATED'' chain None) in
      case buildTransactionDataWithInput D (ce_build E) (cdb_policies db2) payment contract (Some input) of
        (Inl e, policies') \<Rightarrow> (Inl e, db2\<lparr>cdb_policies := policies'\<rparr>)
      | (Inr signatureData, policies') \<Rightarrow>
          let db3 = db2\<lparr>cdb_policies := policies'\<rparr>;
              cost = onchain_cost D payment contract (pl_sourceCAIP2 l) input;
              db4 = (case buildPaymentQuoteSnapshotMetadata signatureData cost of
                       None \<Rightarrow> db3
                     | Some metadata \<Rightarrow>
                         add_event D E (ce_snapshot E) db3
                           (creation_event E (ce_snapshotID E) (pay_ID payment) ''QUOTE_SNAPSHOT_CAPTURED'' chain (Some metadata))) in
          (Inr \<lparr>cpr_PaymentID = pay_ID payment, cpr_Status = pay_Status payment, cpr_SourceChainID = pl_sourceCAIP2 l,
                cpr_DestChainID = pl_destCAIP2 l, cpr_SourceAmount = pay_SourceAmount payment,
                cpr_SourceDecimals = token_Decimals (pl_srcToken l), cpr_DestAmount = fb_NetAmount fees,
                cpr_FeeAmount = pay_FeeAmount payment, cpr_BridgeType = bridgeType, cpr_FeeBreakdown = fees,
                cpr_OnchainCost = cost, cpr_ExpiresAt = ce_now E + PaymentExpiryDuration, cpr_SignatureData = signatureData\<rparr>, db4))"

definition active_gateway :: "'f payment_deps \<Rightarrow> payment_lookup \<Rightarrow> string option" where
  "active_gateway D l =
     (case rd_activeContract (gd_route (pd_gateway D)) (chain_ID (pl_sourceChain l)) ''GATEWAY'' of Inr c \<Rightarrow> c | Inl _ \<Rightarrow> None)"

definition payment_fees :: "'f payment_deps \<Rightarrow> creation_env \<Rightarrow> route_policy_row table \<Rightarrow> CreatePaymentInput \<Rightarrow> payment_lookup \<Rightarrow>
    FeeBreakdown \<times> route_policy_row table" where
  "payment_fees D E t input l =
     CalculateFees D (ce_fees E) t (big_set (pd_gateway D) (pl_amount l)) (token_Decimals (pl_srcToken l)) (pl_sourceCAIP2 l) (pl_destCAIP2 l)
       (pl_src l) (pl_dst l) (token_ID (pl_srcToken l)) (cpi_SourceTokenAddress input) (cpi_DestTokenAddress input) (fl_lit (pd_float D) 0 1)"

definition CreatePayment ::
  "'f payment_deps \<Rightarrow> creation_env \<Rightarrow> uuid option \<Rightarrow> creation_db \<Rightarrow> uuid \<Rightarrow> CreatePaymentInput \<Rightarrow> CreatePaymentResponse result \<times> creation_db" where
  "CreatePayment D E ctxMerchant db userID input =
     (case lookup_payment D input of
        Inl e \<Rightarrow> (Inl e, db)
      | Inr l \<Rightarrow>
          let (bridgeType, bridgeID) = select_payment_bridge D E (cdb_policies db) l;
              (fees, policies) = payment_fees D E (cdb_policies db) input l;
              payment = new_payment D E ctxMerchant userID input l bridgeID fees in
          (case save_payment E payment (db\<lparr>cdb_policies := policies\<rparr>) of
             (Some e, db1) \<Rightarrow> (Inl e, db1)
           | (None, db1) \<Rightarrow> finish_payment D E db1 payment l (active_gateway D l) bridgeType fees input))"

definition GetPaymentsByUser ::
  "payment_row orderer \<Rightarrow> fault \<Rightarrow> fault \<Rightarrow> chain_db \<Rightarrow> payment_row table \<Rightarrow> uuid \<Rightarrow> int \<Rightarrow> int \<Rightarrow> (Payment list \<times> int) result" where
  "GetPaymentsByUser ord flt1 flt2 cdb t userID page limit =
     payment_GetByUserID ord flt1 flt2 cdb t userID limit (wrap64 (wrap64 (page - 1) * limit))"

subsection \<open>What creation stores\<close>

lemma save_payment_ok:
  assumes "save_payment E p db = (None, db1)" "pay_SenderID p = Some s" "pay_SourceTokenID p = Some a" "pay_DestTokenID p = Some b"
  shows "prow_ID (payment_row_of (ce_paymentID E) (ce_now E) s a b (Payment.truncate p)) \<notin> prow_ID ` set (cdb_payments db)"
    "db1 = db\<lparr>cdb_payments := cdb_payments db @ [payment_row_of (ce_paymentID E) (ce_now E) s a b (Payment.truncate p)]\<rparr>"
proof -
  have p: "pay_SenderID (Payment.truncate p) = Some s" "pay_SourceTokenID (Payment.truncate p) = Some a"
      "pay_DestTokenID (Payment.truncate p) = Some b" using assms(2-4) by (simp_all add: Payment.defs)
  have "(case payment_Create (ce_insert E) (ce_paymentID E) (ce_now E) (cdb_payments db) (Payment.truncate p) of
      Inl e \<Rightarrow> (Some e, db) | Inr (q, t) \<Rightarrow> (None, db\<lparr>cdb_payments := t\<rparr>)) = (None, db1)"
    using assms(1) unfolding save_payment_def uow_Do_def by (auto dest: uow_run_ok)
  with p show "prow_ID (payment_row_of (ce_paymentID E) (ce_now E) s a b (Payment.truncate p)) \<notin> prow_ID ` set (cdb_payments db)"
    "db1 = db\<lparr>cdb_payments := cdb_payments db @ [payment_row_of (ce_paymentID E) (ce_now E) s a b (Payment.truncate p)]\<rparr>"
    by (auto simp: payment_Create_def insert_row_def Let_def split: option.splits sum.splits if_splits)
qed

lemma save_payment_error:
  assumes "save_payment E p db = (Some e, db1)"
  shows "db1 = db"
proof -
  have "fst (save_payment E p db) \<noteq> None" using assms by simp
  then have "snd (save_payment E p db) = db" unfolding save_payment_def by (rule uow_Do_error)
  with assms show ?thesis by simp
qed

lemma event_Create_appends:
  "\<exists>es. snd (event_Create L J pq inTx faults gen now t e) = t @ es \<and> length es \<le> 1 \<and> (\<forall>m\<in>set es. erow_PaymentID m = ev_PaymentID e)"
  by (auto simp: event_Create_def event_maxRetries_def insert_row_def event_row_of_def split: option.split sum.split)

lemma add_event_appends:
  "\<exists>es. add_event D E faults db e = db\<lparr>cdb_events := cdb_events db @ es\<rparr> \<and> length es \<le> 1 \<and> (\<forall>m\<in>set es. erow_PaymentID m = ev_PaymentID e)"
  using event_Create_appends unfolding add_event_def by metis

lemma total_charged_sum:
  "SetString10 a = Some x \<Longrightarrow> SetString10 f = Some y \<Longrightarrow> SetString10 (total_charged a f) = Some (x + y)"
  by (simp add: total_charged_def addDecimalStrings_def)

text \<open>The row that the creation stores, and the two ways the creation can end once it is stored.\<close>

definition stored_row :: "'f payment_deps \<Rightarrow> creation_env \<Rightarrow> uuid option \<Rightarrow> uuid \<Rightarrow> CreatePaymentInput \<Rightarrow> payment_lookup \<Rightarrow> uuid option \<Rightarrow>
    FeeBreakdown \<Rightarrow> payment_row" where
  "stored_row D E m user input l bridgeID fees =
     payment_row_of (ce_paymentID E) (ce_now E) user (token_ID (pl_srcToken l)) (token_ID (pl_destToken l))
       (Payment.truncate (new_payment D E m user input l bridgeID fees))"

lemma stored_row_fields:
  "prow_ID (stored_row D E m user input l b fees) = ce_paymentID E"
  "prow_SenderID (stored_row D E m user input l b fees) = user"
  "prow_Status (stored_row D E m user input l b fees) = ''PENDING''"
  "prow_SourceAmount (stored_row D E m user input l b fees) = pl_amount l"
  "prow_DestAmount (stored_row D E m user input l b fees) = Some (fb_NetAmount fees)"
  "prow_DestAddress (stored_row D E m user input l b fees) = cpi_ReceiverAddress input"
  "prow_DeletedAt (stored_row D E m user input l b fees) = None"
  by (simp_all add: stored_row_def payment_row_of_def new_payment_def Payment.defs)

lemma finish_payment_effect:
  assumes "finish_payment D E db1 p l contract ty fees input = (r, db')"
  shows "cdb_payments db' = cdb_payments db1"
    "\<exists>es. cdb_events db' = cdb_events db1 @ es \<and> length es \<le> 2 \<and> (\<forall>x\<in>set es. erow_PaymentID x = pay_ID p)"
    "r = Inr resp \<Longrightarrow> cpr_PaymentID resp = pay_ID p \<and> cpr_Status resp = pay_Status p \<and> cpr_SourceAmount resp = pay_SourceAmount p \<and>
       cpr_DestAmount resp = fb_NetAmount fees \<and> cpr_FeeAmount resp = pay_FeeAmount p"
proof -
  let ?ev = "\<lambda>i ty j. creation_event E i (pay_ID p) ty (chain_ID (pl_sourceChain l)) j"
  let ?e1 = "?ev (ce_eventID E) ''CREATED'' None"
  define db2 where "db2 = add_event D E (ce_event E) db1 ?e1"
  obtain es1 where e1: "db2 = db1\<lparr>cdb_events := cdb_events db1 @ es1\<rparr>" "length es1 \<le> 1" "\<forall>x\<in>set es1. erow_PaymentID x = pay_ID p"
    using add_event_appends [of D E "ce_event E" db1 ?e1] unfolding db2_def by (auto simp: creation_event_def)
  obtain sd pol where b: "buildTransactionDataWithInput D (ce_build E) (cdb_policies db2) p contract (Some input) = (sd, pol)" by fastforce
  have e2: "\<exists>es. add_event D E (ce_snapshot E) db (?ev i ty j) = db\<lparr>cdb_events := cdb_events db @ es\<rparr> \<and> length es \<le> 1 \<and>
      (\<forall>x\<in>set es. erow_PaymentID x = pay_ID p)" for db i ty j
    using add_event_appends [of D E "ce_snapshot E" db "?ev i ty j"] by (simp add: creation_event_def)
  have "\<exists>es2. cdb_payments db' = cdb_payments db2 \<and> cdb_events db' = cdb_events db2 @ es2 \<and> length es2 \<le> 1 \<and>
      (\<forall>x\<in>set es2. erow_PaymentID x = pay_ID p)"
  proof (cases sd)
    case (Inl e)
    with assms b show ?thesis by (auto simp: finish_payment_def db2_def [symmetric])
  next
    case (Inr v)
    show ?thesis
    proof (cases "buildPaymentQuoteSnapshotMetadata v (onchain_cost D p contract (pl_sourceCAIP2 l) input)")
      case None
      with assms b Inr show ?thesis by (auto simp: finish_payment_def db2_def [symmetric] Let_def)
    next
      case (Some j)
      obtain es where es: "add_event D E (ce_snapshot E) (db2\<lparr>cdb_policies := pol\<rparr>) (?ev (ce_snapshotID E) ''QUOTE_SNAPSHOT_CAPTURED'' (Some j)) =
          db2\<lparr>cdb_policies := pol, cdb_events := cdb_events db2 @ es\<rparr>" "length es \<le> 1" "\<forall>x\<in>set es. erow_PaymentID x = pay_ID p"
        using e2 [of "db2\<lparr>cdb_policies := pol\<rparr>" "ce_snapshotID E" "''QUOTE_SNAPSHOT_CAPTURED''" "Some j"] by auto
      have "db' = db2\<lparr>cdb_policies := pol, cdb_events := cdb_events db2 @ es\<rparr>"
        using assms b Inr Some by (simp add: finish_payment_def db2_def [symmetric] Let_def flip: es(1))
      with es(2,3) show ?thesis by (intro exI [of _ es]) simp
    qed
  qed
  then obtain es2 where es2: "cdb_payments db' = cdb_payments db2" "cdb_events db' = cdb_events db2 @ es2" "length es2 \<le> 1"
      "\<forall>x\<in>set es2. erow_PaymentID x = pay_ID p" by blast
  with e1 show "cdb_payments db' = cdb_payments db1" by simp
  have "length (es1 @ es2) \<le> 2" using e1(2) es2(3) by simp
  moreover have "cdb_events db' = cdb_events db1 @ es1 @ es2" using e1(1) es2(2) by simp
  moreover have "\<forall>x\<in>set (es1 @ es2). erow_PaymentID x = pay_ID p" using e1(3) es2(4) by auto
  ultimately show "\<exists>es. cdb_events db' = cdb_events db1 @ es \<and> length es \<le> 2 \<and> (\<forall>x\<in>set es. erow_PaymentID x = pay_ID p)" by blast
  show "r = Inr resp \<Longrightarrow> cpr_PaymentID resp = pay_ID p \<and> cpr_Status resp = pay_Status p \<and> cpr_SourceAmount resp = pay_SourceAmount p \<and>
       cpr_DestAmount resp = fb_NetAmount fees \<and> cpr_FeeAmount resp = pay_FeeAmount p"
    using assms b by (cases sd) (auto simp: finish_payment_def db2_def [symmetric] Let_def)
qed

lemma CreatePayment_cases:
  assumes run: "CreatePayment D E m db user input = (r, db')"
  obtains (invalid) e where "lookup_payment D input = Inl e" "r = Inl e" "db' = db"
  | (unsaved) l e where "lookup_payment D input = Inr l" "r = Inl e" "cdb_payments db' = cdb_payments db" "cdb_events db' = cdb_events db"
  | (saved) l b fees es where "lookup_payment D input = Inr l"
      "cdb_payments db' = cdb_payments db @ [stored_row D E m user input l b fees]"
      "ce_paymentID E \<notin> prow_ID ` set (cdb_payments db)"
      "cdb_events db' = cdb_events db @ es" "length es \<le> 2" "\<forall>e\<in>set es. erow_PaymentID e = ce_paymentID E"
      "\<And>resp. r = Inr resp \<Longrightarrow> cpr_PaymentID resp = ce_paymentID E \<and> cpr_Status resp = PaymentStatusPending \<and>
         cpr_SourceAmount resp = pl_amount l \<and> cpr_DestAmount resp = fb_NetAmount fees \<and> cpr_FeeAmount resp = fb_TotalFee fees"
proof (cases "lookup_payment D input")
  case (Inl e)
  with run show ?thesis by (intro invalid) (auto simp: CreatePayment_def)
next
  case (Inr l)
  obtain ty b where br: "select_payment_bridge D E (cdb_policies db) l = (ty, b)" by fastforce
  obtain fees pol where fe: "payment_fees D E (cdb_policies db) input l = (fees, pol)" by fastforce
  define p where "p = new_payment D E m user input l b fees"
  have ids: "pay_ID p = ce_paymentID E" "pay_SenderID p = Some user" "pay_SourceTokenID p = Some (token_ID (pl_srcToken l))"
      "pay_DestTokenID p = Some (token_ID (pl_destToken l))" "pay_Status p = PaymentStatusPending" "pay_SourceAmount p = pl_amount l"
      "pay_FeeAmount p = fb_TotalFee fees" by (simp_all add: p_def new_payment_def)
  note body = run [unfolded CreatePayment_def Inr sum.case br fe prod.case Let_def, folded p_def]
  obtain err db1 where sv: "save_payment E p (db\<lparr>cdb_policies := pol\<rparr>) = (err, db1)" by fastforce
  show ?thesis
  proof (cases err)
    case (Some e)
    with sv have "db1 = db\<lparr>cdb_policies := pol\<rparr>" using save_payment_error by blast
    with body sv Some show ?thesis by (intro unsaved [OF Inr, of e]) auto
  next
    case None
    note st = save_payment_ok [OF sv [unfolded None] ids(2-4)]
    have row: "payment_row_of (ce_paymentID E) (ce_now E) user (token_ID (pl_srcToken l)) (token_ID (pl_destToken l)) (Payment.truncate p) =
        stored_row D E m user input l b fees" by (simp add: stored_row_def p_def)
    have fin: "finish_payment D E db1 p l (active_gateway D l) ty fees input = (r, db')" using body sv None by simp
    obtain es where "cdb_events db' = cdb_events db @ es" "length es \<le> 2" "\<forall>x\<in>set es. erow_PaymentID x = ce_paymentID E"
      using finish_payment_effect(2) [OF fin] st(2) ids(1) by auto
    moreover have "ce_paymentID E \<notin> prow_ID ` set (cdb_payments db)" using st(1) unfolding row stored_row_fields by simp
    ultimately show ?thesis using finish_payment_effect(1,3) [OF fin] st(2) ids row by (intro saved [OF Inr]) auto
  qed
qed

text \<open>
  Property C29. Creating a payment stores exactly one new pending payment of the user, with the receiver of the
  request and the exact amount in smallest units, charging amount plus fee, as the response says;
  it adds at most two events, both of this payment.
\<close>

theorem CreatePayment_effect:
  assumes run: "CreatePayment D E m db user input = (Inr resp, db')"
  shows "\<exists>l row es. lookup_payment D input = Inr l \<and> cdb_payments db' = cdb_payments db @ [row] \<and> prow_ID row \<notin> prow_ID ` set (cdb_payments db) \<and>
    prow_ID row = cpr_PaymentID resp \<and> prow_SenderID row = user \<and> prow_Status row = ''PENDING'' \<and>
    prow_DestAddress row = cpi_ReceiverAddress input \<and>
    convertToSmallestUnit (pd_digit D) (cpi_Amount input) (token_Decimals (pl_srcToken l)) = Inr (prow_SourceAmount row) \<and>
    (cpi_Decimals input > 0 \<longrightarrow> cpi_Decimals input = token_Decimals (pl_srcToken l)) \<and>
    prow_SourceAmount row = cpr_SourceAmount resp \<and> prow_DestAmount row = Some (cpr_DestAmount resp) \<and>
    (\<forall>a f. SetString10 (cpr_SourceAmount resp) = Some a \<longrightarrow> SetString10 (cpr_FeeAmount resp) = Some f \<longrightarrow>
       SetString10 (prow_TotalCharged row) = Some (a + f)) \<and>
    cdb_events db' = cdb_events db @ es \<and> length es \<le> 2 \<and> (\<forall>e\<in>set es. erow_PaymentID e = prow_ID row)"
proof (cases rule: CreatePayment_cases [OF run])
  case (3 l b fees es)
  let ?row = "stored_row D E m user input l b fees"
  have amount: "convertToSmallestUnit (pd_digit D) (cpi_Amount input) (token_Decimals (pl_srcToken l)) = Inr (pl_amount l)"
      "cpi_Decimals input > 0 \<longrightarrow> cpi_Decimals input = token_Decimals (pl_srcToken l)"
    using 3(1) by (auto simp: lookup_payment_def split: if_splits sum.splits prod.splits)
  have charged: "SetString10 (prow_TotalCharged ?row) = Some (a + f)"
    if "SetString10 (pl_amount l) = Some a" "SetString10 (fb_TotalFee fees) = Some f" for a f
  proof -
    have "SetString10 (total_charged (pl_amount l) (fb_TotalFee fees)) = Some (a + f)" using that by (rule total_charged_sum)
    moreover from this have "total_charged (pl_amount l) (fb_TotalFee fees) \<noteq> []" by (auto simp: SetString10_def)
    ultimately show ?thesis by (simp add: stored_row_def payment_row_of_def new_payment_def Payment.defs)
  qed
  show ?thesis
    using 3 amount charged by (intro exI [of _ l] exI [of _ ?row] exI [of _ es]) (simp add: stored_row_fields)
qed auto

text \<open>
  Also. A payment that cannot be created either changes no payment and no event or leaves one pending
  payment of the user behind: what fails after the commit is not undone.
\<close>

theorem CreatePayment_error:
  assumes run: "CreatePayment D E m db user input = (Inl e, db')"
  shows "(cdb_payments db' = cdb_payments db \<and> cdb_events db' = cdb_events db) \<or>
    (\<exists>row es. cdb_payments db' = cdb_payments db @ [row] \<and> prow_Status row = ''PENDING'' \<and> prow_SenderID row = user \<and>
       cdb_events db' = cdb_events db @ es)"
proof (cases rule: CreatePayment_cases [OF run])
  case (3 l b fees es)
  then show ?thesis by (intro disjI2 exI [of _ "stored_row D E m user input l b fees"] exI [of _ es]) (simp add: stored_row_fields)
qed auto

lemma invalid_bridge_option:
  assumes "cpi_BridgeOption input = Some v" "v > 3"
  shows "buildEvmPaymentHexWithInput D p dest minOut (Some input) = []"
proof -
  have "\<exists>e. normalizeBridgeOption (cpi_BridgeOption input) = Inl e"
    using assms by (simp add: normalizeBridgeOption_def BridgeOptionHBTokenGateway_def)
  then show ?thesis by (auto simp: buildEvmPaymentHexWithInput_def evm_request_def split: option.split)
qed

text \<open>
  Property C32. A payment the gateway cannot be called for is stored first and refused then: a request with an
  unknown bridge option on an EVM chain is answered as a bad request, but its pending payment stays.
\<close>

theorem refused_payment_stays:
  assumes l: "lookup_payment D input = Inr l" and g: "active_gateway D l = Some g"
    and evm: "getChainTypeFromCAIP2 (GetCAIP2ID (pl_sourceChain l)) = ''eip155''"
    and opt: "cpi_BridgeOption input = Some v" "v > 3"
    and ok: "ce_begin E = None" "ce_insert E = None" "ce_commit E = None" "ce_paymentID E \<notin> prow_ID ` set (cdb_payments db)"
  shows "\<exists>db' row. CreatePayment D E m db user input = (Inl (BadRequest ''failed to build gateway calldata''), db') \<and>
    cdb_payments db' = cdb_payments db @ [row] \<and> prow_Status row = ''PENDING'' \<and> prow_SenderID row = user"
proof -
  obtain ty b where br: "select_payment_bridge D E (cdb_policies db) l = (ty, b)" by fastforce
  obtain fees pol where fe: "payment_fees D E (cdb_policies db) input l = (fees, pol)" by fastforce
  let ?p = "new_payment D E m user input l b fees" and ?row = "stored_row D E m user input l b fees"
  have id: "prow_ID ?row \<notin> prow_ID ` set (cdb_payments db)" using ok(4) by (simp add: stored_row_fields)
  have sv: "save_payment E ?p (db\<lparr>cdb_policies := pol\<rparr>) = (None, db\<lparr>cdb_policies := pol, cdb_payments := cdb_payments db @ [?row]\<rparr>)"
  proof -
    have "pay_SenderID (Payment.truncate ?p) = Some user" "pay_SourceTokenID (Payment.truncate ?p) = Some (token_ID (pl_srcToken l))"
      "pay_DestTokenID (Payment.truncate ?p) = Some (token_ID (pl_destToken l))" by (simp_all add: new_payment_def Payment.defs)
    then show ?thesis using ok(1-3) id
      by (simp add: save_payment_def uow_Do_def uow_run_def payment_Create_def insert_row_def Let_def stored_row_def)
  qed
  have "build_evm_data (pd_gateway D) R t ?p g (Some input) = (Inl (BadRequest ''failed to build gateway calldata''), t)" for R t
    by (simp add: build_evm_data_def invalid_bridge_option [OF opt] Let_def)
  then have build: "buildTransactionDataWithInput D R t ?p (Some g) (Some input) = (Inl (BadRequest ''failed to build gateway calldata''), t)" for R t
    using evm by (simp add: buildTransactionDataWithInput_def source_caip2_def new_payment_def Let_def)
  have "\<exists>db'. finish_payment D E db1 ?p l (Some g) ty fees input = (Inl (BadRequest ''failed to build gateway calldata''), db')" for db1
    by (simp add: finish_payment_def build Let_def)
  then obtain db' where fin: "finish_payment D E (db\<lparr>cdb_policies := pol, cdb_payments := cdb_payments db @ [?row]\<rparr>) ?p l (Some g) ty fees input =
      (Inl (BadRequest ''failed to build gateway calldata''), db')" by blast
  have "CreatePayment D E m db user input = (Inl (BadRequest ''failed to build gateway calldata''), db')"
    unfolding CreatePayment_def l sum.case br fe prod.case Let_def sv option.case g fin ..
  moreover have "cdb_payments db' = cdb_payments db @ [?row]" using finish_payment_effect(1) [OF fin] by simp
  ultimately show ?thesis by (intro exI [of _ db'] exI [of _ ?row]) (simp add: stored_row_fields)
qed

subsection \<open>Transactions and their value\<close>

lemma approval_amount_not_Nil:
  assumes "approval_amount D p g preview = Inr s"
  shows "s \<noteq> []"
proof -
  have some: "SetString10 s = Some n \<Longrightarrow> s \<noteq> []" for n by (auto simp: SetString10_def)
  have "s \<noteq> []" if "CalculateOnchainApprovalAmount D p g = Inr s"
  proof -
    from that consider c q where "s = at_least c q" | n where "s = int_string n"
      unfolding CalculateOnchainApprovalAmount_def Let_def by (auto split: if_splits option.splits sum.splits prod.splits)
    then show ?thesis using some at_least_value SetString10_int_string by metis
  qed
  with assms show ?thesis
    by (auto simp: approval_amount_def Let_def blank_amount_def split: if_splits sum.splits)
qed

lemma approval_tx_fields:
  assumes "approval_tx D p g preview = Inr (Some tx)"
  shows "smap_get tx ''to'' = np_SourceTokenAddress p" "smap_get tx ''spender'' \<noteq> []" "smap_get tx ''amount'' \<noteq> []"
    "smap_get tx ''data'' = buildErc20ApproveHex (rd_abi (gd_route D)) (smap_get tx ''spender'') (smap_get tx ''amount'')"
proof -
  obtain amount where v: "ResolveVaultAddressForApproval D (pay_SourceChainID p) g \<noteq> []" and a: "approval_amount D p g preview = Inr amount"
    and tx: "tx = [(''kind'', ''approve''), (''to'', np_SourceTokenAddress p),
      (''data'', buildErc20ApproveHex (rd_abi (gd_route D)) (ResolveVaultAddressForApproval D (pay_SourceChainID p) g) amount),
      (''spender'', ResolveVaultAddressForApproval D (pay_SourceChainID p) g), (''amount'', amount)]"
    using assms by (auto simp: approval_tx_def Let_def split: if_splits sum.splits)
  show "smap_get tx ''to'' = np_SourceTokenAddress p" "smap_get tx ''spender'' \<noteq> []" "smap_get tx ''amount'' \<noteq> []"
    "smap_get tx ''data'' = buildErc20ApproveHex (rd_abi (gd_route D)) (smap_get tx ''spender'') (smap_get tx ''amount'')"
    using v approval_amount_not_Nil [OF a] by (simp_all add: tx smap_get_def)
qed

lemma approval_tx_required:
  "approval_tx D p g preview = Inr r \<Longrightarrow> r \<noteq> None \<longleftrightarrow> shouldRequireEvmApproval (np_SourceTokenAddress p)"
  by (auto simp: approval_tx_def Let_def split: if_splits sum.splits)

lemma deploy_only_private:
  "buildPrivacyEscrowDeployTx D p input source dest = Inr (Some tx) \<Longrightarrow>
    source = dest \<and> normalizePaymentMode (Option.bind input cpi_Mode) = PaymentModePrivacy"
  by (auto simp: buildPrivacyEscrowDeployTx_def split: option.splits if_splits)

definition opt_list :: "'a option \<Rightarrow> 'a list" where
  "opt_list x = (case x of Some v \<Rightarrow> [v] | None \<Rightarrow> [])"

lemma build_evm_data_shape:
  assumes "build_evm_data D E t p g input = (Inr v, t')"
  obtains data val deploy approval where
    "data = buildEvmPaymentHexWithInput D p (dest_caip2 D p) (case np_MinDestAmount p of Some s \<Rightarrow> big_set D s | None \<Rightarrow> 0) input" "data \<noteq> []"
    "tx_value D E t p g input (source_caip2 D p) (dest_caip2 D p) (case np_MinDestAmount p of Some s \<Rightarrow> big_set D s | None \<Rightarrow> 0)
       (previewGatewayApprovalV2 D p g input) = (Inr val, t')"
    "buildPrivacyEscrowDeployTx D p input (source_caip2 D p) (dest_caip2 D p) = Inr deploy"
    "approval_tx D p g (preview_amount (previewGatewayApprovalV2 D p g input)) = Inr approval"
    "v = VMap ([(''to'', VString g), (''data'', VString data), (''value'', VString val),
          (''transactions'', VMaps (opt_list deploy @ opt_list approval @
             [[(''kind'', ''createPayment''), (''to'', g), (''data'', data), (''value'', val)]]))] @
          map (\<lambda>tx. (''approval'', VStringMap tx)) (opt_list approval))"
proof -
  let ?m = "case np_MinDestAmount p of Some s \<Rightarrow> big_set D s | None \<Rightarrow> 0" and ?pre = "previewGatewayApprovalV2 D p g input"
  let ?data = "buildEvmPaymentHexWithInput D p (dest_caip2 D p) ?m input"
  have d: "?data \<noteq> []" using assms by (auto simp: build_evm_data_def Let_def)
  obtain r s where val: "tx_value D E t p g input (source_caip2 D p) (dest_caip2 D p) ?m ?pre = (r, s)" by fastforce
  from assms d val obtain val where r: "r = Inr val" by (cases r) (auto simp: build_evm_data_def Let_def)
  from assms d val r obtain deploy where dep: "buildPrivacyEscrowDeployTx D p input (source_caip2 D p) (dest_caip2 D p) = Inr deploy"
    by (cases "buildPrivacyEscrowDeployTx D p input (source_caip2 D p) (dest_caip2 D p)") (auto simp: build_evm_data_def Let_def)
  from assms d val r dep obtain approval where app: "approval_tx D p g (preview_amount ?pre) = Inr approval"
    by (cases "approval_tx D p g (preview_amount ?pre)") (auto simp: build_evm_data_def Let_def)
  have s: "s = t'" and v: "v = VMap ([(''to'', VString g), (''data'', VString ?data), (''value'', VString val),
          (''transactions'', VMaps (opt_list deploy @ opt_list approval @
             [[(''kind'', ''createPayment''), (''to'', g), (''data'', ?data), (''value'', val)]]))] @
          map (\<lambda>tx. (''approval'', VStringMap tx)) (opt_list approval))"
    using assms d val r dep app by (auto simp: build_evm_data_def Let_def opt_list_def split: option.splits)
  show ?thesis by (rule that [OF refl d val [unfolded r s] dep app v])
qed


definition hex_read :: "string \<Rightarrow> nat option" where
  "hex_read s = map_option (from_digits 16) (those (map hex_digit s))"

lemma hex_read_hex_number: "hex_read (hex_number n) = Some n"
proof (cases "n = 0")
  case True
  have "hex_read (hex_number 0) = Some 0" by code_simp
  with True show ?thesis by simp
next
  case False
  have "those (map hex_digit (map hex_char (digits 16 n))) = Some (digits 16 n)"
    by (simp add: those_Some_conv digits_less)
  with False show ?thesis by (simp add: hex_read_def hex_number_def from_digits_digits)
qed

lemma with_margin_bounds: "0 \<le> fee \<Longrightarrow> fee \<le> with_margin fee \<and> with_margin fee = fee + fee div 5"
proof -
  assume fee: "0 \<le> fee"
  have "fee * 12000 div 10000 = 2000 * (fee * 6) div (2000 * 5)" by (simp only: mult.commute [of 2000] mult.assoc) simp
  also have "\<dots> = fee * 6 div 5" by (rule div_mult_mult1) simp
  also have "fee * 6 = fee + fee * 5" by simp
  also have "(fee + fee * 5) div 5 = fee + fee div 5" by (rule div_mult_self1) simp
  finally have m: "fee * 12000 div 10000 = fee + fee div 5" .
  have "0 \<le> fee div 5" using fee by simp
  then show ?thesis unfolding with_margin_def Let_def m by simp
qed

lemma fallback_fee_quoted:
  "fallback_fee D p g input route err = Inr fee \<Longrightarrow> 0 \<le> fee \<and>
    (\<exists>c. quoteGatewayPaymentCost D p g input = Inr (Some c) \<and> oc_BridgeQuoteOk c \<and> SetString10 (TrimSpace (oc_BridgeFeeNative c)) = Some fee)"
  by (auto simp: fallback_fee_def Let_def split: sum.splits option.splits if_splits)

text \<open>
  Also. The native value of a cross-chain payment, a hexadecimal number, is the fee the gateway's preview
  requires; without a preview it covers the fee of the router, or of the gateway's cost quote when
  the router gives none, by a margin of exactly a fifth.
\<close>

theorem native_value_covers_fee:
  assumes run: "tx_value D E t p g input source dest minDest preview = (Inr s, t')"
    and cross: "source \<noteq> []" "source \<noteq> dest"
  shows "\<exists>n. s = ''0x'' @ hex_number n \<and> hex_read (drop 2 s) = Some n \<and>
    (case preview of
       Inr r \<Rightarrow> n = pa_RequiredNativeFee r
     | Inl _ \<Rightarrow> (\<exists>fee. n = fee + fee div 5 \<and>
         ((\<exists>amount. SetString10 (pay_SourceAmount p) = Some amount \<and>
             getBridgeFeeQuote (gd_route D) E t source dest (np_SourceTokenAddress p) (np_DestTokenAddress p) amount minDest = (Inr (Some fee), t')) \<or>
          (\<exists>c. quoteGatewayPaymentCost D p g input = Inr (Some c) \<and> oc_BridgeQuoteOk c \<and>
             SetString10 (TrimSpace (oc_BridgeFeeNative c)) = Some (int fee)))))"
proof -
  obtain amount where a: "SetString10 (pay_SourceAmount p) = Some amount"
    using run cross by (cases "SetString10 (pay_SourceAmount p)") (auto simp: tx_value_def)
  have read: "hex_read (drop 2 (''0x'' @ hex_number n)) = Some n" for n by (simp add: hex_read_hex_number)
  have margin: "nat (with_margin (int fee)) = fee + fee div 5" for fee
    using with_margin_bounds [of "int fee"] by (metis nat_int of_nat_0_le_iff of_nat_add of_nat_div of_nat_numeral)
  show ?thesis
  proof (cases preview)
    case (Inr r)
    then have "s = ''0x'' @ hex_number (pa_RequiredNativeFee r)" using run cross a by (simp add: tx_value_def)
    with Inr read show ?thesis by (intro exI [of _ "pa_RequiredNativeFee r"]) simp
  next
    case (Inl e)
    obtain q u where q: "getBridgeFeeQuote (gd_route D) E t source dest (np_SourceTokenAddress p) (np_DestTokenAddress p) amount minDest = (q, u)"
      by fastforce
    consider (router) fee where "q = Inr (Some fee)" | (gateway) err where "q = Inl err"
      using run cross a Inl q by (cases q) (auto simp: tx_value_def split: option.splits)
    then show ?thesis
    proof cases
      case router
      then have "s = ''0x'' @ hex_number (fee + fee div 5)" "u = t'" using run cross a Inl q by (simp_all add: tx_value_def margin)
      with Inl q a read router show ?thesis by (intro exI [of _ "fee + fee div 5"]) auto
    next
      case gateway
      then obtain fee where f: "fallback_fee D p g input (source @ '' -> '' @ dest) err = Inr fee" "s = ''0x'' @ hex_number (nat (with_margin fee))"
        using run cross a Inl q by (cases "fallback_fee D p g input (source @ '' -> '' @ dest) err") (auto simp: tx_value_def)
      from fallback_fee_quoted [OF f(1)] obtain n where n: "fee = int n" using nonneg_int_cases by blast
      with fallback_fee_quoted [OF f(1)] f(2) Inl read show ?thesis by (intro exI [of _ "n + n div 5"]) (auto simp: margin)
    qed
  qed
qed

subsection \<open>Bounds of the platform fee\<close>

text \<open>What is needed of the comparison: no value is a NaN, so it is a linear order.\<close>

definition float_order :: "'f float64 \<Rightarrow> bool" where
  "float_order F \<longleftrightarrow>
     (\<forall>a b. fl_le F a b \<longleftrightarrow> \<not> fl_less F b a) \<and> (\<forall>a b. fl_le F a b \<or> fl_le F b a) \<and> (\<forall>a b c. fl_le F a b \<longrightarrow> fl_le F b c \<longrightarrow> fl_le F a c)"

text \<open>
  Also. Without discount the platform fee is at most the configured cap or, when that is larger, the
  minimum; it is at least the minimum unless a maximum below the minimum is set, and never above
  a maximum that is set. A configuration without maximum uses none.
\<close>

theorem platform_fee_bounds:
  assumes F: "float_order F" and nodisc: "\<not> fl_less F (fl_lit F 0 1) discount" and rule: "r = configured_rule F cfg"
  shows "(fl_le F (platform_fee F r amount discount) (fr_BaseFeeToken r) \<or> fl_le F (platform_fee F r amount discount) (fr_minFeeToken r)) \<and>
    (fl_le F (fl_lit F 0 1) (fr_maxFeeToken r) \<longrightarrow> fl_le F (platform_fee F r amount discount) (fr_maxFeeToken r)) \<and>
    (fl_le F (fr_minFeeToken r) (platform_fee F r amount discount) \<or>
       fl_le F (fl_lit F 0 1) (fr_maxFeeToken r) \<and> platform_fee F r amount discount = fr_maxFeeToken r) \<and>
    (cfg = None \<or> (\<exists>c. cfg = Some c \<and> (fc_MaxFee c = None \<or> fc_MaxFee c = Some [])) \<longrightarrow> fr_maxFeeToken r = fl_lit F (- 1) 1)"
proof -
  have o: "fl_le F a b \<longleftrightarrow> \<not> fl_less F b a" "fl_le F a b \<or> fl_le F b a" "fl_le F a b \<Longrightarrow> fl_le F b c \<Longrightarrow> fl_le F a c" for a b c
    using F unfolding float_order_def by blast+
  have less: "fl_less F a b \<longleftrightarrow> \<not> fl_le F b a" "fl_le F a a" for a b using o(1,2) by blast+
  let ?v = "fl_mul F amount (fr_PercentageFee r)"
  define x where "x = (if fl_less F (fr_BaseFeeToken r) ?v then fr_BaseFeeToken r else ?v)"
  define y where "y = (if fl_less F x (fr_minFeeToken r) then fr_minFeeToken r else x)"
  have x: "fl_le F x (fr_BaseFeeToken r)" by (simp add: x_def less)
  have y: "fl_le F (fr_minFeeToken r) y" "fl_le F y (fr_BaseFeeToken r) \<or> fl_le F y (fr_minFeeToken r)" using x by (auto simp: y_def less)
  have f: "platform_fee F r amount discount =
      (if fl_le F (fl_lit F 0 1) (fr_maxFeeToken r) \<and> fl_less F (fr_maxFeeToken r) y then fr_maxFeeToken r else y)"
    using nodisc by (simp add: platform_fee_def Let_def x_def y_def)
  have "fl_le F (fr_maxFeeToken r) y \<or> fl_le F y (fr_maxFeeToken r)" by (rule o(2))
  then have capped: "fl_less F (fr_maxFeeToken r) y \<Longrightarrow>
      fl_le F (fr_maxFeeToken r) (fr_BaseFeeToken r) \<or> fl_le F (fr_maxFeeToken r) (fr_minFeeToken r)"
    using y(2) o(3) less(1) by blast
  have none: "cfg = None \<or> (\<exists>c. cfg = Some c \<and> (fc_MaxFee c = None \<or> fc_MaxFee c = Some [])) \<longrightarrow> fr_maxFeeToken r = fl_lit F (- 1) 1"
    using rule by (auto simp: configured_rule_def DefaultFeeConfig_def Let_def)
  show ?thesis
  proof (cases "fl_le F (fl_lit F 0 1) (fr_maxFeeToken r) \<and> fl_less F (fr_maxFeeToken r) y")
    case True
    with f have e: "platform_fee F r amount discount = fr_maxFeeToken r" by simp
    show ?thesis unfolding e using True capped none less(2) by blast
  next
    case False
    with f have e: "platform_fee F r amount discount = y" by simp
    show ?thesis unfolding e using False y none less(1) by blast
  qed
qed

subsection \<open>Instances\<close>

text \<open>Exact integer arithmetic in place of floating point, one token of two decimals, one chain.\<close>

definition sample_float :: "int float64" where
  "sample_float =
     \<lparr>fl_quot = (\<lambda>a b. a), fl_lit = (\<lambda>p q. p), fl_parse = SetString10, fl_add = (+), fl_sub = (-), fl_mul = (*), fl_less = (<), fl_le = (\<le>),
      fl_pow = (\<lambda>d. 1), fl_pow10 = (\<lambda>d. 1), fl_int64 = (\<lambda>x. x), fl_text = int_string\<rparr>"

lemma sample_float_order: "float_order sample_float"
  by (auto simp: float_order_def sample_float_def)

definition sample_token :: Token where
  "sample_token =
     \<lparr>token_ID = 23, token_ChainUUID = 7, token_Symbol = ''USDC'', token_Decimals = 2, token_ContractAddress = ''0xaa'', token_IsActive = True,
      token_IsNative = False\<rparr>"

definition with_gateway :: "gateway_deps \<Rightarrow> gateway_deps" where
  "with_gateway D = D\<lparr>gd_route := (gd_route D)\<lparr>rd_activeContract := (\<lambda>k ty. Inr (Some ''0xg''))\<rparr>\<rparr>"

definition sample_payments :: "gateway_deps \<Rightarrow> int payment_deps" where
  "sample_payments D =
     \<lparr>pd_gateway = D, pd_float = sample_float, pd_feeConfigs = None, pd_native = (\<lambda>k. Inl (Sentinel ErrNotFound)),
      pd_token = (\<lambda>a k. Inr sample_token), pd_digit = (\<lambda>n. False), pd_json = \<lparr>json_Parse = (\<lambda>s. None), json_Print = (\<lambda>v. ''{}'')\<rparr>,
      pd_pq = (\<lambda>e. None), pd_sha256 = length_hash\<rparr>"

definition sample_creation_input :: CreatePaymentInput where
  "sample_creation_input =
     \<lparr>cpi_SourceChainID = ''eip155:8453'', cpi_DestChainID = ''eip155:8453'', cpi_SourceTokenAddress = ''0xaa'', cpi_DestTokenAddress = ''0xaa'',
      cpi_Amount = ''0.5'', cpi_Decimals = 2, cpi_ReceiverAddress = ''0xrr'', cpi_ReceiverMerchantID = [], cpi_MinAmountOut = [], cpi_SlippageBps = 0,
      cpi_Mode = None, cpi_BridgeOption = None, cpi_BridgeTokenSource = None, cpi_MinBridgeAmountOut = None, cpi_MinDestAmountOut = None,
      cpi_PrivacyIntentID = None, cpi_PrivacyStealthReceiver = None\<rparr>"

definition sample_creation :: creation_env where
  "sample_creation =
     \<lparr>ce_decide = None, ce_fees = sample_route_env, ce_build = sample_route_env, ce_begin = None, ce_insert = None, ce_commit = None,
      ce_event = (\<lambda>i. None), ce_snapshot = (\<lambda>i. None), ce_paymentID = 61, ce_eventID = 62, ce_snapshotID = 63, ce_now = 5\<rparr>"

definition empty_creation_db :: creation_db where
  "empty_creation_db = \<lparr>cdb_policies = [], cdb_payments = [], cdb_events = []\<rparr>"

definition is_Inr :: "'a + 'b \<Rightarrow> bool" where
  "is_Inr r = (case r of Inr _ \<Rightarrow> True | Inl _ \<Rightarrow> False)"

lemma is_Inr_obtain: "is_Inr (fst r) \<Longrightarrow> \<exists>v s. r = (Inr v, s)" "\<not> is_Inr (fst r) \<Longrightarrow> \<exists>e s. r = (Inl e, s)"
  by (cases r; cases "fst r"; auto simp: is_Inr_def)+

lemma sample_created:
  "is_Inr (fst (CreatePayment (sample_payments sample_gateway) sample_creation None empty_creation_db 5 sample_creation_input))"
  "\<not> is_Inr (fst (CreatePayment (sample_payments sample_gateway) sample_creation None empty_creation_db 5 (sample_creation_input\<lparr>cpi_Amount := ''x''\<rparr>)))"
  by code_simp+

theorem CreatePayment_effect_witness:
  "\<exists>resp db' row. CreatePayment (sample_payments sample_gateway) sample_creation None empty_creation_db 5 sample_creation_input = (Inr resp, db') \<and>
     cdb_payments db' = [row] \<and> prow_Status row = ''PENDING'' \<and> prow_DestAddress row = ''0xrr''"
proof -
  obtain resp db' where run: "CreatePayment (sample_payments sample_gateway) sample_creation None empty_creation_db 5 sample_creation_input = (Inr resp, db')"
    using is_Inr_obtain(1) [OF sample_created(1)] by blast
  with CreatePayment_effect [OF run] show ?thesis by (auto simp: empty_creation_db_def sample_creation_input_def)
qed

theorem CreatePayment_error_witness:
  "\<exists>e db'. CreatePayment (sample_payments sample_gateway) sample_creation None empty_creation_db 5 (sample_creation_input\<lparr>cpi_Amount := ''x''\<rparr>) = (Inl e, db') \<and>
     length (cdb_payments db') \<le> 1"
proof -
  obtain e db' where run: "CreatePayment (sample_payments sample_gateway) sample_creation None empty_creation_db 5
      (sample_creation_input\<lparr>cpi_Amount := ''x''\<rparr>) = (Inl e, db')"
    using is_Inr_obtain(2) [OF sample_created(2)] by blast
  with CreatePayment_error [OF run] show ?thesis by (auto simp: empty_creation_db_def)
qed

lemma sample_lookup:
  "case lookup_payment (sample_payments (with_gateway sample_gateway)) (sample_creation_input\<lparr>cpi_BridgeOption := Some 9\<rparr>) of
     Inr l \<Rightarrow> active_gateway (sample_payments (with_gateway sample_gateway)) l = Some ''0xg'' \<and>
       getChainTypeFromCAIP2 (GetCAIP2ID (pl_sourceChain l)) = ''eip155''
   | Inl _ \<Rightarrow> False"
  by code_simp

theorem refused_payment_stays_witness:
  "\<exists>db' row. CreatePayment (sample_payments (with_gateway sample_gateway)) sample_creation None empty_creation_db 5
       (sample_creation_input\<lparr>cpi_BridgeOption := Some 9\<rparr>) = (Inl (BadRequest ''failed to build gateway calldata''), db') \<and>
     cdb_payments db' = [row] \<and> prow_Status row = ''PENDING''"
proof -
  let ?D = "sample_payments (with_gateway sample_gateway)" and ?i = "sample_creation_input\<lparr>cpi_BridgeOption := Some 9\<rparr>"
  obtain l where l: "lookup_payment ?D ?i = Inr l" "active_gateway ?D l = Some ''0xg''"
      "getChainTypeFromCAIP2 (GetCAIP2ID (pl_sourceChain l)) = ''eip155''"
    using sample_lookup by (auto split: sum.splits)
  show ?thesis
    using refused_payment_stays [OF l, of 9 sample_creation empty_creation_db None 5]
    by (auto simp: sample_creation_def empty_creation_db_def)
qed

definition sample_new_payment2 :: NewPayment where
  "sample_new_payment2 = sample_new_payment\<lparr>np_SourceChain := Some base_chain, np_DestChain := Some base_chain\<rparr>"

lemma sample_build:
  "is_Inr (fst (buildTransactionDataWithInput (sample_payments (with_gateway sample_gateway)) sample_route_env [] sample_new_payment2 (Some ''0xg'') None))"
  "getChainTypeFromCAIP2 (source_caip2 (with_gateway sample_gateway) sample_new_payment2) = ''eip155''"
  "shouldRequireEvmApproval (np_SourceTokenAddress sample_new_payment2)"
  by code_simp+


lemma sample_value:
  "is_Inr (fst (tx_value sample_gateway sample_route_env [] sample_new_payment2 ''0xg'' None ''eip155:8453'' ''solana:x'' 0 (Inl (ErrorString []))))"
  by code_simp

theorem native_value_covers_fee_witness:
  "\<exists>s n t'. tx_value sample_gateway sample_route_env [] sample_new_payment2 ''0xg'' None ''eip155:8453'' ''solana:x'' 0 (Inl (ErrorString [])) = (Inr s, t') \<and>
     hex_read (drop 2 s) = Some n"
proof -
  obtain s t' where run: "tx_value sample_gateway sample_route_env [] sample_new_payment2 ''0xg'' None ''eip155:8453'' ''solana:x'' 0
      (Inl (ErrorString [])) = (Inr s, t')" using is_Inr_obtain(1) [OF sample_value] by blast
  from native_value_covers_fee [OF run] run show ?thesis by auto
qed

theorem platform_fee_bounds_witness:
  "platform_fee sample_float (configured_rule sample_float None) 1000 0 \<le> 1"
proof -
  have d: "configured_rule sample_float None = \<lparr>fr_BaseFeeToken = 1, fr_PercentageFee = 3, fr_BridgeFeeFlat = 1, fr_minFeeToken = 0, fr_maxFeeToken = - 1\<rparr>"
    by code_simp
  have "\<not> fl_less sample_float (fl_lit sample_float 0 1) 0" by (simp add: sample_float_def)
  from platform_fee_bounds [OF sample_float_order this refl, of None 1000] show ?thesis
    unfolding d by (auto simp: sample_float_def)
qed

end
