(* ===== verification/Tokens.thy ===== *)
theory Tokens
  imports Payments
begin

text \<open>
  Tokens and sessions: the JWT service (\<^verbatim>\<open>pkg/jwt/jwt.go\<close>), the Redis client (\<^verbatim>\<open>pkg/redis/client.go\<close>)
  and the encrypted session store (\<^verbatim>\<open>pkg/redis/session_store.go\<close>). The JWT library and the cipher
  are parameters; Redis is a map of keys to values with the time they expire.
\<close>

subsection \<open>Tokens\<close>

record Claims =
  cl_UserID :: uuid
  cl_Email :: string
  cl_Role :: string
  cl_ExpiresAt :: int
  cl_IssuedAt :: int
  cl_NotBefore :: int

record TokenPair =
  tp_AccessToken :: string
  tp_RefreshToken :: string

record JWTService =
  js_secret :: string
  js_accessExpiry :: int
  js_refreshExpiry :: int

definition ErrInvalidToken :: gerror where "ErrInvalidToken = ErrorString ''invalid token''"
definition ErrExpiredToken :: gerror where "ErrExpiredToken = ErrorString ''token has expired''"

text \<open>
  Signing with HS256; parsing asks a key function, which learns whether the method is an HMAC, and
  gives an error (\<open>True\<close>: expired) or the claims and whether the token is valid. Documented: a
  signed token parses back to its claims with the same key from its \<^verbatim>\<open>nbf\<close> until its \<^verbatim>\<open>exp\<close>, and
  is reported as expired from then on.
\<close>

record jwt_lib =
  jl_Sign :: "string \<Rightarrow> Claims \<Rightarrow> string result"
  jl_Parse :: "(bool \<Rightarrow> string option) \<Rightarrow> time \<Rightarrow> string \<Rightarrow> bool + (Claims \<times> bool)"

definition jwt_lib_ok :: "jwt_lib \<Rightarrow> bool" where
  "jwt_lib_ok L \<longleftrightarrow>
     (\<forall>secret c tok kf now. jl_Sign L secret c = Inr tok \<longrightarrow> kf True = Some secret \<longrightarrow>
        (cl_NotBefore c * second \<le> now \<longrightarrow> now < cl_ExpiresAt c * second \<longrightarrow> jl_Parse L kf now tok = Inr (c, True)) \<and>
        (cl_ExpiresAt c * second \<le> now \<longrightarrow> jl_Parse L kf now tok = Inl True))"

definition generateToken :: "jwt_lib \<Rightarrow> JWTService \<Rightarrow> time \<Rightarrow> uuid \<Rightarrow> string \<Rightarrow> string \<Rightarrow> int \<Rightarrow> string result" where
  "generateToken L S now userID email role expiry =
     jl_Sign L (js_secret S)
       \<lparr>cl_UserID = userID, cl_Email = email, cl_Role = role, cl_ExpiresAt = unix (now + expiry), cl_IssuedAt = unix now, cl_NotBefore = unix now\<rparr>"

definition GenerateTokenPair :: "jwt_lib \<Rightarrow> JWTService \<Rightarrow> time \<Rightarrow> uuid \<Rightarrow> string \<Rightarrow> string \<Rightarrow> TokenPair result" where
  "GenerateTokenPair L S now userID email role =
     (case generateToken L S now userID email role (js_accessExpiry S) of
        Inl e \<Rightarrow> Inl e
      | Inr access \<Rightarrow>
          (case generateToken L S now userID email role (js_refreshExpiry S) of
             Inl e \<Rightarrow> Inl e
           | Inr refresh \<Rightarrow> Inr \<lparr>tp_AccessToken = access, tp_RefreshToken = refresh\<rparr>))"

definition ValidateToken :: "jwt_lib \<Rightarrow> JWTService \<Rightarrow> time \<Rightarrow> string \<Rightarrow> Claims result" where
  "ValidateToken L S now tokenString =
     (case jl_Parse L (\<lambda>hmac. if hmac then Some (js_secret S) else None) now tokenString of
        Inl expired \<Rightarrow> Inl (if expired then ErrExpiredToken else ErrInvalidToken)
      | Inr (claims, valid) \<Rightarrow> if valid then Inr claims else Inl ErrInvalidToken)"

lemma unix_bounds: "unix t * second \<le> t" "t < (unix t + 1) * second"
proof -
  have "(t div second) * second + t mod second = t" by (rule div_mult_mod_eq)
  moreover have "0 \<le> t mod second" "t mod second < second" by (simp_all add: second_def)
  ultimately show "unix t * second \<le> t" "t < (unix t + 1) * second" unfolding unix_def distrib_right by linarith+
qed

lemma generateToken_validates:
  assumes L: "jwt_lib_ok L" and gen: "generateToken L S t0 u em role expiry = Inr tok"
  shows "t0 \<le> now \<Longrightarrow> now < unix (t0 + expiry) * second \<Longrightarrow>
      \<exists>c. ValidateToken L S now tok = Inr c \<and> cl_UserID c = u \<and> cl_Email c = em \<and> cl_Role c = role"
    and "unix (t0 + expiry) * second \<le> now \<Longrightarrow> ValidateToken L S now tok = Inl ErrExpiredToken"
proof -
  let ?c = "\<lparr>cl_UserID = u, cl_Email = em, cl_Role = role, cl_ExpiresAt = unix (t0 + expiry), cl_IssuedAt = unix t0, cl_NotBefore = unix t0\<rparr>"
  have s: "jl_Sign L (js_secret S) ?c = Inr tok" using gen by (simp add: generateToken_def)
  let ?kf = "\<lambda>hmac. if hmac then Some (js_secret S) else None"
  have k: "?kf True = Some (js_secret S)" by simp
  show "\<exists>c. ValidateToken L S now tok = Inr c \<and> cl_UserID c = u \<and> cl_Email c = em \<and> cl_Role c = role"
    if "t0 \<le> now" "now < unix (t0 + expiry) * second"
  proof -
    have "unix t0 * second \<le> now" using that(1) unix_bounds(1) [of t0] by linarith
    with L s k that(2) have "jl_Parse L ?kf now tok = Inr (?c, True)" unfolding jwt_lib_ok_def by fastforce
    then show ?thesis by (simp add: ValidateToken_def)
  qed
  show "ValidateToken L S now tok = Inl ErrExpiredToken" if "unix (t0 + expiry) * second \<le> now"
  proof -
    from L s k that have "jl_Parse L ?kf now tok = Inl True" unfolding jwt_lib_ok_def by fastforce
    then show ?thesis by (simp add: ValidateToken_def)
  qed
qed

subsection \<open>Redis\<close>

type_synonym redis = "string \<rightharpoonup> string \<times> time"

definition redis_live :: "time \<Rightarrow> redis \<Rightarrow> string \<Rightarrow> string option" where
  "redis_live now m k = (case m k of Some (v, until) \<Rightarrow> if now < until then Some v else None | None \<Rightarrow> None)"

definition redis_nil :: gerror where "redis_nil = ErrorString ''redis: nil''"

definition redis_Get :: "fault \<Rightarrow> time \<Rightarrow> redis \<Rightarrow> string \<Rightarrow> string result" where
  "redis_Get flt now m k = (case flt of Some e \<Rightarrow> Inl e | None \<Rightarrow> (case redis_live now m k of Some v \<Rightarrow> Inr v | None \<Rightarrow> Inl redis_nil))"

definition redis_Set :: "fault \<Rightarrow> time \<Rightarrow> redis \<Rightarrow> string \<Rightarrow> string \<Rightarrow> int \<Rightarrow> gerror option \<times> redis" where
  "redis_Set flt now m k v ttl = (case flt of Some e \<Rightarrow> (Some e, m) | None \<Rightarrow> (None, m(k \<mapsto> (v, now + ttl))))"

definition redis_Del :: "fault \<Rightarrow> redis \<Rightarrow> string \<Rightarrow> gerror option \<times> redis" where
  "redis_Del flt m k = (case flt of Some e \<Rightarrow> (Some e, m) | None \<Rightarrow> (None, m(k := None)))"

definition redis_SetNX :: "fault \<Rightarrow> time \<Rightarrow> redis \<Rightarrow> string \<Rightarrow> string \<Rightarrow> int \<Rightarrow> bool result \<times> redis" where
  "redis_SetNX flt now m k v ttl =
     (case flt of
        Some e \<Rightarrow> (Inl e, m)
      | None \<Rightarrow> if redis_live now m k = None then (Inr True, m(k \<mapsto> (v, now + ttl))) else (Inr False, m))"

subsection \<open>Sealed values\<close>

text \<open>
  AES-256 in GCM mode with a random nonce in front, in hexadecimal; the session store and the
  API keys use the same code. Documented: opening what was sealed under the same key and nonce
  gives the plain text. A key of a wrong size is refused (\<open>gcm_key_ok\<close>).
\<close>

record gcm =
  gcm_key_ok :: "byte list \<Rightarrow> bool"
  gcm_Seal :: "byte list \<Rightarrow> byte list \<Rightarrow> byte list \<Rightarrow> byte list"
  gcm_Open :: "byte list \<Rightarrow> byte list \<Rightarrow> byte list \<Rightarrow> byte list option"

definition NonceSize :: nat where "NonceSize = 12"

definition gcm_ok :: "gcm \<Rightarrow> bool" where
  "gcm_ok G \<longleftrightarrow> (\<forall>k. length k = 32 \<longrightarrow> gcm_key_ok G k) \<and> (\<forall>k n p. length n = NonceSize \<longrightarrow> gcm_Open G k n (gcm_Seal G k n p) = Some p)"

definition seal_hex :: "gcm \<Rightarrow> byte list \<Rightarrow> byte list result \<Rightarrow> byte list \<Rightarrow> string result" where
  "seal_hex G key nonce plain =
     (if \<not> gcm_key_ok G key then Inl (ErrorString ''crypto/aes: invalid key size'')
      else case nonce of
             Inl e \<Rightarrow> Inl e
           | Inr n \<Rightarrow> Inr (EncodeToString (n @ gcm_Seal G key n plain)))"

definition open_hex :: "string \<Rightarrow> gcm \<Rightarrow> byte list \<Rightarrow> string \<Rightarrow> byte list result" where
  "open_hex short G key s =
     (case DecodeString s of
        None \<Rightarrow> Inl (ErrorString ''encoding/hex: invalid input'')
      | Some d \<Rightarrow>
          if \<not> gcm_key_ok G key then Inl (ErrorString ''crypto/aes: invalid key size'')
          else if length d < NonceSize then Inl (ErrorString short)
          else (case gcm_Open G key (take NonceSize d) (drop NonceSize d) of
                  None \<Rightarrow> Inl (ErrorString ''cipher: message authentication failed'')
                | Some p \<Rightarrow> Inr p))"

lemma open_seal:
  assumes "gcm_ok G" "seal_hex G key (Inr n) p = Inr s" "length n = NonceSize"
  shows "open_hex short G key s = Inr p"
  using assms by (auto simp: seal_hex_def open_hex_def gcm_ok_def split: if_splits)

subsection \<open>The session store\<close>

record SessionData =
  sd_AccessToken :: string
  sd_RefreshToken :: string

definition session_json :: "SessionData \<Rightarrow> json" where
  "session_json d = JObject [(''accessToken'', JString (sd_AccessToken d)), (''refreshToken'', JString (sd_RefreshToken d))]"

text \<open>\<^verbatim>\<open>json.Unmarshal\<close> into a struct: every key that matches, ignoring case, sets the field; null leaves it.\<close>

fun set_field :: "string \<Rightarrow> string \<Rightarrow> (string \<times> json) list \<Rightarrow> string option" where
  "set_field k cur [] = Some cur"
| "set_field k cur ((j, v) # kvs) =
     (if EqualFold j k then (case v of JNull \<Rightarrow> set_field k cur kvs | JString s \<Rightarrow> set_field k s kvs | _ \<Rightarrow> None) else set_field k cur kvs)"

definition session_of_json :: "json \<Rightarrow> SessionData option" where
  "session_of_json j =
     (case j of
        JObject kvs \<Rightarrow>
          (case (set_field ''accessToken'' [] kvs, set_field ''refreshToken'' [] kvs) of
             (Some a, Some r) \<Rightarrow> Some \<lparr>sd_AccessToken = a, sd_RefreshToken = r\<rparr>
           | _ \<Rightarrow> None)
      | JNull \<Rightarrow> Some \<lparr>sd_AccessToken = [], sd_RefreshToken = []\<rparr>
      | _ \<Rightarrow> None)"

record session_store =
  ss_gcm :: gcm
  ss_json :: json_lib
  ss_key :: "byte list"

definition NewSessionStore :: "gcm \<Rightarrow> json_lib \<Rightarrow> string \<Rightarrow> session_store result" where
  "NewSessionStore G J encryptionKeyHex =
     (case DecodeString encryptionKeyHex of
        None \<Rightarrow> Inl (ErrorString ''invalid encryption key hex'')
      | Some key \<Rightarrow>
          if length key \<noteq> 32 then Inl (ErrorString ''encryption key must be 32 bytes (64 hex chars)'')
          else Inr \<lparr>ss_gcm = G, ss_json = J, ss_key = key\<rparr>)"

definition session_key :: "string \<Rightarrow> string" where "session_key sessionID = ''session:'' @ sessionID"

definition store_CreateSession ::
  "session_store \<Rightarrow> byte list result \<Rightarrow> fault \<Rightarrow> time \<Rightarrow> redis \<Rightarrow> string \<Rightarrow> SessionData \<Rightarrow> int \<Rightarrow> gerror option \<times> redis" where
  "store_CreateSession S nonce flt now m sessionID d expiration =
     (case seal_hex (ss_gcm S) (ss_key S) nonce (bytes_of (json_Print (ss_json S) (session_json d))) of
        Inl e \<Rightarrow> (Some e, m)
      | Inr s \<Rightarrow> redis_Set flt now m (session_key sessionID) s expiration)"

definition store_GetSession :: "session_store \<Rightarrow> fault \<Rightarrow> time \<Rightarrow> redis \<Rightarrow> string \<Rightarrow> SessionData result" where
  "store_GetSession S flt now m sessionID =
     (case redis_Get flt now m (session_key sessionID) of
        Inl e \<Rightarrow> Inl e
      | Inr s \<Rightarrow>
          (case open_hex ''ciphertext too short'' (ss_gcm S) (ss_key S) s of
             Inl e \<Rightarrow> Inl e
           | Inr p \<Rightarrow>
               (case json_Parse (ss_json S) (string_of p) of
                  None \<Rightarrow> Inl (ErrorString ''invalid character'')
                | Some j \<Rightarrow> (case session_of_json j of Some d \<Rightarrow> Inr d | None \<Rightarrow> Inl (ErrorString ''json: cannot unmarshal'')))))"

definition store_DeleteSession :: "fault \<Rightarrow> redis \<Rightarrow> string \<Rightarrow> gerror option \<times> redis" where
  "store_DeleteSession flt m sessionID = redis_Del flt m (session_key sessionID)"

lemma session_of_session_json: "session_of_json (session_json d) = Some d"
proof -
  have "\<not> EqualFold ''refreshToken'' ''accessToken''" "\<not> EqualFold ''accessToken'' ''refreshToken''" "EqualFold ''accessToken'' ''accessToken''" "EqualFold ''refreshToken'' ''refreshToken''"
    by code_simp+
  then show ?thesis by (simp add: session_of_json_def session_json_def)
qed

text \<open>
  Also. A stored session reads back as written until it expires, whatever other sessions are stored or
  deleted in between, and not at all after it was deleted.
\<close>

theorem session_roundtrip:
  assumes S: "gcm_ok (ss_gcm S)" "json_value (ss_json S) (session_json d)"
    and c: "store_CreateSession S (Inr n) None t0 m i d ttl = (None, m')" and n: "length n = NonceSize"
    and other: "j \<noteq> i"
  shows "(t < t0 + ttl \<longrightarrow> store_GetSession S None t m' i = Inr d \<and>
      store_GetSession S None t (snd (store_DeleteSession None m' j)) i = Inr d \<and>
      store_GetSession S None t (snd (store_CreateSession S nonce flt t1 m' j d' ttl')) i = Inr d) \<and>
    store_GetSession S None t (snd (store_DeleteSession None m' i)) i = Inl redis_nil"
proof -
  obtain s where s: "seal_hex (ss_gcm S) (ss_key S) (Inr n) (bytes_of (json_Print (ss_json S) (session_json d))) = Inr s"
      and m': "m' = m(session_key i \<mapsto> (s, t0 + ttl))"
    using c by (auto simp: store_CreateSession_def redis_Set_def split: sum.splits)
  have o: "open_hex ''ciphertext too short'' (ss_gcm S) (ss_key S) s = Inr (bytes_of (json_Print (ss_json S) (session_json d)))"
    using open_seal [OF S(1) s n] .
  have read: "store_GetSession S None t m2 i = Inr d" if "m2 (session_key i) = Some (s, t0 + ttl)" "t < t0 + ttl" for m2
    using that o S(2) by (simp add: store_GetSession_def redis_Get_def redis_live_def json_value_def session_of_session_json)
  have ne: "session_key j \<noteq> session_key i" using other by (simp add: session_key_def)
  have "snd (store_CreateSession S nonce flt t1 m' j d' ttl') (session_key i) = m' (session_key i)"
    using ne by (auto simp: store_CreateSession_def redis_Set_def split: sum.split option.split)
  then have "t < t0 + ttl \<longrightarrow> store_GetSession S None t m' i = Inr d \<and>
      store_GetSession S None t (snd (store_DeleteSession None m' j)) i = Inr d \<and>
      store_GetSession S None t (snd (store_CreateSession S nonce flt t1 m' j d' ttl')) i = Inr d"
    using ne m' by (auto intro!: read simp: store_DeleteSession_def redis_Del_def)
  moreover have "store_GetSession S None t (snd (store_DeleteSession None m' i)) i = Inl redis_nil"
    by (simp add: store_GetSession_def store_DeleteSession_def redis_Del_def redis_Get_def redis_live_def)
  ultimately show ?thesis ..
qed

text \<open>A cipher that hides nothing and a codec of one document, for the witnesses.\<close>

definition plain_gcm :: gcm where
  "plain_gcm = \<lparr>gcm_key_ok = (\<lambda>k. True), gcm_Seal = (\<lambda>k n p. p), gcm_Open = (\<lambda>k n c. Some c)\<rparr>"

lemma plain_gcm_ok: "gcm_ok plain_gcm"
  by (simp add: gcm_ok_def plain_gcm_def)

definition sample_session :: SessionData where
  "sample_session = \<lparr>sd_AccessToken = ''a'', sd_RefreshToken = ''r''\<rparr>"

definition sample_store :: session_store where
  "sample_store =
     \<lparr>ss_gcm = plain_gcm, ss_json = \<lparr>json_Parse = (\<lambda>s. if s = ''{s}'' then Some (session_json sample_session) else None), json_Print = (\<lambda>v. ''{s}'')\<rparr>,
      ss_key = replicate 32 1\<rparr>"

theorem session_roundtrip_witness:
  "\<exists>m'. store_CreateSession sample_store (Inr (replicate 12 0)) None 0 Map.empty ''x'' sample_session 100 = (None, m') \<and>
     store_GetSession sample_store None 50 m' ''x'' = Inr sample_session \<and>
     store_GetSession sample_store None 50 (snd (store_DeleteSession None m' ''x'')) ''x'' = Inl redis_nil"
proof -
  obtain m' where c: "store_CreateSession sample_store (Inr (replicate 12 0)) None 0 Map.empty ''x'' sample_session 100 = (None, m')"
    by (simp add: store_CreateSession_def sample_store_def seal_hex_def plain_gcm_def redis_Set_def)
  have S: "gcm_ok (ss_gcm sample_store)" "json_value (ss_json sample_store) (session_json sample_session)"
    using plain_gcm_ok by (simp_all add: sample_store_def json_value_def)
  have n: "length (replicate 12 (0::byte)) = NonceSize" by (simp add: NonceSize_def)
  from session_roundtrip [OF S c n, of "''y''" 50 "Inl redis_nil" None 0 sample_session 0] c show ?thesis by auto
qed

end
