(* ===== verification/Users_Auth.thy ===== *)
theory Users_Auth
  imports Tokens Accounts Soft_Delete
begin

text \<open>
  Users and authentication: the user and verification repositories (\<^verbatim>\<open>user_repo_impl.go\<close>) and the
  use case \<^verbatim>\<open>auth_usecase.go\<close>. None of the repositories it writes to takes part in the unit of
  work: they hold their own database handle. The password hash and the random
  tokens are parameters.
\<close>

subsection \<open>Roles and states as text\<close>

fun role_string :: "UserRole \<Rightarrow> string" where
  "role_string UserRoleAdmin = ''ADMIN''"
| "role_string UserRoleSubAdmin = ''SUB_ADMIN''"
| "role_string UserRolePartner = ''PARTNER''"
| "role_string UserRoleUser = ''USER''"
| "role_string (UserRoleOther s) = s"

definition role_of :: "string \<Rightarrow> UserRole" where
  "role_of s =
     (if s = ''ADMIN'' then UserRoleAdmin else if s = ''SUB_ADMIN'' then UserRoleSubAdmin
      else if s = ''PARTNER'' then UserRolePartner else if s = ''USER'' then UserRoleUser else UserRoleOther s)"

fun kyc_string :: "KYCStatus \<Rightarrow> string" where
  "kyc_string KYCNotStarted = ''NOT_STARTED''"
| "kyc_string KYCIDCardVerified = ''ID_CARD_VERIFIED''"
| "kyc_string KYCFaceVerified = ''FACE_VERIFIED''"
| "kyc_string KYCLivenessVerified = ''LIVENESS_VERIFIED''"
| "kyc_string KYCFullyVerified = ''FULLY_VERIFIED''"
| "kyc_string (KYCOther s) = s"

definition kyc_of :: "string \<Rightarrow> KYCStatus" where
  "kyc_of s =
     (if s = ''NOT_STARTED'' then KYCNotStarted else if s = ''ID_CARD_VERIFIED'' then KYCIDCardVerified
      else if s = ''FACE_VERIFIED'' then KYCFaceVerified else if s = ''LIVENESS_VERIFIED'' then KYCLivenessVerified
      else if s = ''FULLY_VERIFIED'' then KYCFullyVerified else KYCOther s)"

lemma role_string_of [simp]: "role_string (role_of s) = s"
  by (simp add: role_of_def)

lemma role_of_known [simp]: "role_of ''USER'' = UserRoleUser" "role_of ''PARTNER'' = UserRolePartner"
  by (simp_all add: role_of_def)

subsection \<open>The user repository\<close>

record user_row =
  urow_ID :: uuid
  urow_Email :: string
  urow_Name :: string
  urow_PasswordHash :: string
  urow_Role :: string
  urow_KYCStatus :: string
  urow_KYCVerifiedAt :: "time option"
  urow_CreatedAt :: time
  urow_UpdatedAt :: time
  urow_DeletedAt :: "time option"

definition user_row_of :: "uuid \<Rightarrow> time \<Rightarrow> User \<Rightarrow> user_row" where
  "user_row_of gen now u =
     \<lparr>urow_ID = (if user_ID u = uuid_Nil then gen else user_ID u), urow_Email = user_Email u, urow_Name = user_Name u,
      urow_PasswordHash = user_PasswordHash u,
      urow_Role = (if role_string (user_Role u) = [] then ''user'' else role_string (user_Role u)),
      urow_KYCStatus = (if kyc_string (user_KYCStatus u) = [] then ''not_started'' else kyc_string (user_KYCStatus u)),
      urow_KYCVerifiedAt = None, urow_CreatedAt = (if user_CreatedAt u = zero_time then now else user_CreatedAt u),
      urow_UpdatedAt = (if user_UpdatedAt u = zero_time then now else user_UpdatedAt u), urow_DeletedAt = None\<rparr>"

definition user_toEntity :: "user_row \<Rightarrow> User" where
  "user_toEntity m =
     \<lparr>user_ID = urow_ID m, user_Email = urow_Email m, user_Name = urow_Name m, user_PasswordHash = urow_PasswordHash m,
      user_Role = role_of (urow_Role m), user_KYCStatus = kyc_of (urow_KYCStatus m), user_KYCVerifiedAt = None,
      user_CreatedAt = urow_CreatedAt m, user_UpdatedAt = urow_UpdatedAt m\<rparr>"

text \<open>The unique index on the address covers deleted rows too. The identifier is not written back.\<close>

definition user_Create :: "fault \<Rightarrow> uuid \<Rightarrow> time \<Rightarrow> user_row table \<Rightarrow> User \<Rightarrow> user_row table result" where
  "user_Create flt gen now t u =
     (case flt of
        Some e \<Rightarrow> Inl e
      | None \<Rightarrow> if user_Email u \<in> urow_Email ` set t then Inl duplicate_key else insert_row urow_ID (user_row_of gen now u) t)"

definition user_GetByID :: "fault \<Rightarrow> user_row table \<Rightarrow> uuid \<Rightarrow> User result" where
  "user_GetByID = soft_get urow_ID urow_DeletedAt user_toEntity"

definition user_GetByEmail :: "fault \<Rightarrow> user_row table \<Rightarrow> string \<Rightarrow> User result" where
  "user_GetByEmail flt t email =
     (case flt of
        Some e \<Rightarrow> Inl e
      | None \<Rightarrow>
          (case first_by urow_ID (\<lambda>m. urow_Email m = email \<and> urow_DeletedAt m = None) t of
             None \<Rightarrow> Inl (Sentinel ErrNotFound)
           | Some m \<Rightarrow> Inr (user_toEntity m)))"

definition user_Update :: "fault \<Rightarrow> time \<Rightarrow> user_row table \<Rightarrow> User \<Rightarrow> gerror option \<times> user_row table" where
  "user_Update flt now t u =
     soft_update urow_ID urow_DeletedAt flt t (user_ID u)
       (\<lambda>m. m\<lparr>urow_Name := user_Name u, urow_Role := role_string (user_Role u), urow_KYCStatus := kyc_string (user_KYCStatus u),
              urow_KYCVerifiedAt := (case user_KYCVerifiedAt u of Some v \<Rightarrow> Some v | None \<Rightarrow> urow_KYCVerifiedAt m), urow_UpdatedAt := now\<rparr>)"

definition user_UpdatePassword :: "fault \<Rightarrow> time \<Rightarrow> user_row table \<Rightarrow> uuid \<Rightarrow> string \<Rightarrow> gerror option \<times> user_row table" where
  "user_UpdatePassword flt now t k passwordHash =
     soft_update urow_ID urow_DeletedAt flt t k (\<lambda>m. m\<lparr>urow_PasswordHash := passwordHash, urow_UpdatedAt := now\<rparr>)"

definition user_List :: "user_row orderer \<Rightarrow> fault \<Rightarrow> user_row table \<Rightarrow> string \<Rightarrow> User list result" where
  "user_List ord flt t search =
     (case flt of
        Some e \<Rightarrow> Inl e
      | None \<Rightarrow>
          let term = ''%'' @ search @ ''%'' in
          Inr (map user_toEntity (ord (select_where (\<lambda>m. urow_DeletedAt m = None \<and>
            (search = [] \<or> sql_ilike term (urow_Name m) \<or> sql_ilike term (urow_Email m))) t))))"

definition user_deleted :: "time \<Rightarrow> user_row \<Rightarrow> user_row" where
  "user_deleted now m = m\<lparr>urow_DeletedAt := Some now\<rparr>"

definition user_SoftDelete :: "fault \<Rightarrow> time \<Rightarrow> user_row table \<Rightarrow> uuid \<Rightarrow> gerror option \<times> user_row table" where
  "user_SoftDelete flt now t k = soft_update urow_ID urow_DeletedAt flt t k (user_deleted now)"

interpretation users: soft_repo urow_ID urow_DeletedAt user_deleted user_toEntity
  by unfold_locales (simp_all add: user_deleted_def)

subsection \<open>Email verification\<close>

record verification_row =
  vrow_ID :: uuid
  vrow_UserID :: uuid
  vrow_Token :: string
  vrow_ExpiresAt :: time
  vrow_VerifiedAt :: "time option"
  vrow_CreatedAt :: time
  vrow_DeletedAt :: "time option"

definition verification_Create :: "fault \<Rightarrow> uuid \<Rightarrow> time \<Rightarrow> verification_row table \<Rightarrow> uuid \<Rightarrow> string \<Rightarrow> verification_row table result" where
  "verification_Create flt gen now t userID token =
     (case flt of
        Some e \<Rightarrow> Inl e
      | None \<Rightarrow>
          insert_row vrow_ID \<lparr>vrow_ID = gen, vrow_UserID = userID, vrow_Token = token, vrow_ExpiresAt = now + 24 * 60 * minute,
            vrow_VerifiedAt = None, vrow_CreatedAt = now, vrow_DeletedAt = None\<rparr> t)"

definition open_verification :: "time \<Rightarrow> string \<Rightarrow> verification_row \<Rightarrow> bool" where
  "open_verification now token v \<longleftrightarrow> vrow_Token v = token \<and> vrow_ExpiresAt v > now \<and> vrow_VerifiedAt v = None \<and> vrow_DeletedAt v = None"

definition verification_GetByToken ::
  "fault \<Rightarrow> time \<Rightarrow> verification_row table \<Rightarrow> user_row table \<Rightarrow> string \<Rightarrow> User result" where
  "verification_GetByToken flt now vs us token =
     (case flt of
        Some e \<Rightarrow> Inl e
      | None \<Rightarrow>
          (case first_by urow_ID (\<lambda>m. urow_DeletedAt m = None \<and> list_ex (\<lambda>v. vrow_UserID v = urow_ID m \<and> open_verification now token v) vs) us of
             None \<Rightarrow> Inl (Sentinel ErrNotFound)
           | Some m \<Rightarrow> Inr (user_toEntity m)))"

definition verification_MarkVerified ::
  "fault \<Rightarrow> time \<Rightarrow> verification_row table \<Rightarrow> string \<Rightarrow> gerror option \<times> verification_row table" where
  "verification_MarkVerified flt now t token =
     update_checked flt (\<lambda>v. vrow_Token v = token \<and> vrow_VerifiedAt v = None \<and> vrow_DeletedAt v = None) (\<lambda>v. v\<lparr>vrow_VerifiedAt := Some now\<rparr>) t"

subsection \<open>Registration\<close>

record CreateUserInput =
  cui_Email :: string
  cui_Name :: string
  cui_Password :: string
  cui_WalletAddress :: string
  cui_WalletChainID :: string
  cui_WalletSignature :: string
  cui_IsMerchant :: bool
  cui_BusinessName :: string
  cui_MerchantType :: string

record auth_db =
  adb_users :: "user_row table"
  adb_wallets :: "wallet_row table"
  adb_merchants :: "merchant_row table"
  adb_verifications :: "verification_row table"

record auth_deps =
  au_uuid :: uuid_lib
  au_chains :: ChainRepository
  au_hash :: "string \<Rightarrow> string result"
  au_check :: "string \<Rightarrow> string \<Rightarrow> bool"
  au_jwt :: jwt_lib
  au_service :: JWTService
  au_json :: json_lib

text \<open>The faults of the statements in order, the identifiers the database assigns, the token and the clock.\<close>

record register_env =
  ae_email :: fault
  ae_wallet :: fault
  ae_begin :: fault
  ae_commit :: fault
  ae_createUser :: fault
  ae_createWallet :: fault
  ae_createMerchant :: fault
  ae_createVerification :: fault
  ae_userID :: uuid
  ae_walletID :: uuid
  ae_merchantID :: uuid
  ae_verificationID :: uuid
  ae_token :: "string result"
  ae_now :: time

definition new_user :: "CreateUserInput \<Rightarrow> string \<Rightarrow> User" where
  "new_user input passwordHash =
     \<lparr>user_ID = uuid_Nil, user_Email = cui_Email input, user_Name = cui_Name input, user_PasswordHash = passwordHash,
      user_Role = (if cui_IsMerchant input then UserRolePartner else UserRoleUser), user_KYCStatus = KYCNotStarted,
      user_KYCVerifiedAt = None, user_CreatedAt = zero_time, user_UpdatedAt = zero_time\<rparr>"

definition new_wallet :: "uuid \<Rightarrow> uuid \<Rightarrow> string \<Rightarrow> Wallet" where
  "new_wallet userID chainID address =
     \<lparr>wal_ID = uuid_Nil, wal_UserID = Some userID, wal_MerchantID = None, wal_ChainID = chainID, wal_Address = address, wal_Type = [],
      wal_IsPrimary = True, wal_CreatedAt = zero_time, wal_UpdatedAt = zero_time\<rparr>"

definition new_merchant :: "uuid \<Rightarrow> CreateUserInput \<Rightarrow> Merchant" where
  "new_merchant userID input =
     \<lparr>mer_ID = uuid_Nil, mer_UserID = userID, mer_BusinessName = cui_BusinessName input, mer_BusinessEmail = cui_Email input,
      mer_MerchantType = merchant_type_of (cui_MerchantType input), mer_Status = MerchantStatusPending, mer_TaxID = None, mer_BusinessAddress = None,
      mer_Documents = None, mer_FeeDiscountPercent = [], mer_CallbackURL = [], mer_WebhookSecret = [], mer_WebhookIsActive = False,
      mer_SupportEmail = [], mer_LogoURL = [], mer_WebhookMetadata = None, mer_Metadata = None, mer_VerifiedAt = None,
      mer_CreatedAt = zero_time, mer_UpdatedAt = zero_time\<rparr>"

text \<open>The function run in the unit of work, with the user as it was before the insertion.\<close>

definition register_tx :: "register_env \<Rightarrow> CreateUserInput \<Rightarrow> uuid \<Rightarrow> User \<Rightarrow> auth_db \<Rightarrow> gerror option \<times> auth_db" where
  "register_tx E input chainUUID user db =
     (case user_Create (ae_createUser E) (ae_userID E) (ae_now E) (adb_users db) user of
        Inl e \<Rightarrow> (Some e, db)
      | Inr us \<Rightarrow>
          let db = db\<lparr>adb_users := us\<rparr> in
     (case wallet_Create (ae_createWallet E) (ae_walletID E) (ae_now E) (adb_wallets db)
             (new_wallet (user_ID user) chainUUID (cui_WalletAddress input)) of
        Inl e \<Rightarrow> (Some e, db)
      | Inr ws \<Rightarrow>
          let db = db\<lparr>adb_wallets := ws\<rparr> in
     (case (if cui_IsMerchant input
            then merchant_Create (ae_createMerchant E) (ae_merchantID E) (ae_now E) (adb_merchants db) (new_merchant (user_ID user) input)
            else Inr (adb_merchants db)) of
        Inl e \<Rightarrow> (Some e, db)
      | Inr ms \<Rightarrow>
          let db = db\<lparr>adb_merchants := ms\<rparr> in
     (case ae_token E of
        Inl e \<Rightarrow> (Some e, db)
      | Inr token \<Rightarrow>
     (case verification_Create (ae_createVerification E) (ae_verificationID E) (ae_now E) (adb_verifications db) (user_ID user) token of
        Inl e \<Rightarrow> (Some e, db)
      | Inr vs \<Rightarrow> (None, db\<lparr>adb_verifications := vs\<rparr>))))))"

definition Register :: "auth_deps \<Rightarrow> register_env \<Rightarrow> auth_db \<Rightarrow> CreateUserInput \<Rightarrow> (User \<times> string) result \<times> auth_db" where
  "Register D E db input =
     (if cui_WalletAddress input = [] \<or> cui_WalletChainID input = [] \<or> cui_WalletSignature input = [] then (Inl (Sentinel ErrBadRequest), db)
      else
     (case user_GetByEmail (ae_email E) (adb_users db) (cui_Email input) of
        Inr _ \<Rightarrow> (Inl (Sentinel ErrAlreadyExists), db)
      | Inl e \<Rightarrow>
          if \<not> errors_Is e ErrNotFound then (Inl e, db)
          else
     (case ResolveFromAny (au_uuid D) (au_chains D) (cui_WalletChainID input) of
        Inl _ \<Rightarrow> (Inl (Sentinel ErrInvalidInput), db)
      | Inr (chainUUID, caip2) \<Rightarrow>
          let existing = wallet_GetByAddress (ae_wallet E) (adb_wallets db) chainUUID (cui_WalletAddress input);
              taken = (case existing of Inr w \<Rightarrow> wal_UserID w \<noteq> None | Inl _ \<Rightarrow> False);
              failed = (case existing of Inl e \<Rightarrow> \<not> errors_Is e ErrNotFound | Inr _ \<Rightarrow> False) in
          if failed then (Inl (case existing of Inl e \<Rightarrow> e | Inr _ \<Rightarrow> nil_dereference), db)
          else if taken then (Inl (NewError ''wallet already registered to another user'' (Some (Sentinel ErrAlreadyExists))), db)
          else
     (case au_hash D (cui_Password input) of
        Inl e \<Rightarrow> (Inl e, db)
      | Inr passwordHash \<Rightarrow>
          let user = new_user input passwordHash in
          (case uow_run (\<lambda>old new. new) (ae_begin E) (ae_commit E) (register_tx E input chainUUID user) db of
             (Some e, db') \<Rightarrow> (Inl e, db')
           | (None, db') \<Rightarrow> (map_sum (\<lambda>e. e) (\<lambda>token. (user, token)) (ae_token E), db'))))))"

subsection \<open>Login, refresh and passwords\<close>

record LoginInput =
  li_Email :: string
  li_Password :: string
  li_UseSession :: bool

record AuthResponse =
  ar_AccessToken :: string
  ar_RefreshToken :: string
  ar_SessionID :: string
  ar_User :: User

definition login_session_json :: "auth_deps \<Rightarrow> User \<Rightarrow> TokenPair \<Rightarrow> json" where
  "login_session_json D user p =
     JObject [(''accessToken'', JString (tp_AccessToken p)), (''email'', JString (user_Email user)), (''refreshToken'', JString (tp_RefreshToken p)),
              (''role'', JString (role_string (user_Role user))), (''userId'', JString (uuid_String (au_uuid D) (user_ID user)))]"

definition Login ::
  "auth_deps \<Rightarrow> fault \<Rightarrow> fault \<Rightarrow> uuid \<Rightarrow> time \<Rightarrow> user_row table \<Rightarrow> redis \<Rightarrow> LoginInput \<Rightarrow> AuthResponse result \<times> redis" where
  "Login D flt1 flt2 newID now us m input =
     (case user_GetByEmail flt1 us (li_Email input) of
        Inl e \<Rightarrow> (Inl (if errors_Is e ErrNotFound then Sentinel ErrInvalidCredentials else e), m)
      | Inr user \<Rightarrow>
          if \<not> au_check D (li_Password input) (user_PasswordHash user) then (Inl (Sentinel ErrInvalidCredentials), m)
          else
     (case GenerateTokenPair (au_jwt D) (au_service D) now (user_ID user) (user_Email user) (role_string (user_Role user)) of
        Inl e \<Rightarrow> (Inl e, m)
      | Inr p \<Rightarrow>
          if li_UseSession input then
            let sessionID = uuid_String (au_uuid D) newID in
            (case redis_Set flt2 now m (session_key sessionID) (json_Print (au_json D) (login_session_json D user p)) (7 * 24 * 60 * minute) of
               (Some e, m') \<Rightarrow> (Inl (WrapErr ''failed to store session in redis'' e), m')
             | (None, m') \<Rightarrow> (Inr \<lparr>ar_AccessToken = [], ar_RefreshToken = [], ar_SessionID = sessionID, ar_User = user\<rparr>, m'))
          else (Inr \<lparr>ar_AccessToken = tp_AccessToken p, ar_RefreshToken = tp_RefreshToken p, ar_SessionID = [], ar_User = user\<rparr>, m)))"

definition VerifyEmail ::
  "fault \<Rightarrow> fault \<Rightarrow> time \<Rightarrow> user_row table \<Rightarrow> verification_row table \<Rightarrow> string \<Rightarrow> gerror option \<times> verification_row table" where
  "VerifyEmail flt1 flt2 now us vs token =
     (case verification_GetByToken flt1 now vs us token of
        Inl e \<Rightarrow> (Some e, vs)
      | Inr _ \<Rightarrow> verification_MarkVerified flt2 now vs token)"

definition RefreshToken :: "auth_deps \<Rightarrow> fault \<Rightarrow> time \<Rightarrow> user_row table \<Rightarrow> string \<Rightarrow> TokenPair result" where
  "RefreshToken D flt now us token =
     (case ValidateToken (au_jwt D) (au_service D) now token of
        Inl e \<Rightarrow> Inl e
      | Inr claims \<Rightarrow>
          (case user_GetByID flt us (cl_UserID claims) of
             Inl e \<Rightarrow> Inl e
           | Inr user \<Rightarrow>
               GenerateTokenPair (au_jwt D) (au_service D) now (user_ID user) (user_Email user) (role_string (user_Role user))))"

text \<open>
  Every token the service signs has an expiry (\<open>generateToken\<close>), so the claims hold it as a plain
  number and the message for a token without one has no case here.
\<close>

definition GetTokenExpiry :: "auth_deps \<Rightarrow> time \<Rightarrow> string \<Rightarrow> int result" where
  "GetTokenExpiry D now token = map_sum (\<lambda>e. e) cl_ExpiresAt (ValidateToken (au_jwt D) (au_service D) now token)"

definition CodeInvalidCredentials :: string where "CodeInvalidCredentials = ''ERR_INVALID_CREDENTIALS''"

definition ChangePassword ::
  "auth_deps \<Rightarrow> fault \<Rightarrow> fault \<Rightarrow> time \<Rightarrow> user_row table \<Rightarrow> uuid \<Rightarrow> string \<Rightarrow> string \<Rightarrow> gerror option \<times> user_row table" where
  "ChangePassword D flt1 flt2 now us userID currentPassword newPassword =
     (case user_GetByID flt1 us userID of
        Inl e \<Rightarrow> (Some e, us)
      | Inr user \<Rightarrow>
          if \<not> au_check D currentPassword (user_PasswordHash user) then
            (Some (NewAppError 401 CodeInvalidCredentials ''Current password is incorrect'' (Some (Sentinel ErrInvalidCredentials))), us)
          else
            (case au_hash D newPassword of
               Inl e \<Rightarrow> (Some e, us)
             | Inr newHash \<Rightarrow> user_UpdatePassword flt2 now us userID newHash))"

subsection \<open>Registration is not atomic\<close>

lemma user_GetByEmail_live:
  assumes "m \<in> set t" "urow_Email m = email" "urow_DeletedAt m = None"
  shows "\<exists>u. user_GetByEmail None t email = Inr u"
proof -
  have "first_by urow_ID (\<lambda>m. urow_Email m = email \<and> urow_DeletedAt m = None) t \<noteq> None"
    using assms by (auto simp: first_by_None)
  then show ?thesis by (auto simp: user_GetByEmail_def)
qed

lemma user_Create_Inr:
  "user_Create flt gen now t u = Inr t' \<Longrightarrow> t' = t @ [user_row_of gen now u]"
  by (auto simp: user_Create_def insert_row_def split: option.splits if_splits)

lemma register_tx_users:
  "adb_users (snd (register_tx E input chain user db)) = adb_users db \<or>
   adb_users (snd (register_tx E input chain user db)) = adb_users db @ [user_row_of (ae_userID E) (ae_now E) user]"
  by (auto simp: register_tx_def Let_def dest!: user_Create_Inr split: sum.split)

text \<open>What a run of the registration does to the users, whether it succeeds or not.\<close>

lemma Register_users:
  assumes "Register D E db input = (r, db')"
  shows "adb_users db' = adb_users db \<or> (\<exists>h. adb_users db' = adb_users db @ [user_row_of (ae_userID E) (ae_now E) (new_user input h)])"
proof -
  have keep: "adb_users (snd (uow_run (\<lambda>old new. new) b c (register_tx E input chain user) db)) = adb_users db \<or>
      adb_users (snd (uow_run (\<lambda>old new. new) b c (register_tx E input chain user) db)) = adb_users db @ [user_row_of (ae_userID E) (ae_now E) user]"
    for b c chain user
    using register_tx_users [of E input chain user db] by (auto simp: uow_run_def split: option.splits prod.splits)
  from assms consider "db' = db" | chain h x where
      "uow_run (\<lambda>old new. new) (ae_begin E) (ae_commit E) (register_tx E input chain (new_user input h)) db = (x, db')"
    unfolding Register_def Let_def by (auto split: if_splits sum.splits prod.splits option.splits)
  then show ?thesis
  proof cases
    case 2
    then show ?thesis using keep [of "ae_begin E" "ae_commit E" chain "new_user input h"] by auto
  qed simp
qed

text \<open>
  Also. A registration that fails after the user row was written blocks its address: the row stays, although
  the registration reported an error, and every later registration with the address is refused
  as already registered.
\<close>

theorem failed_registration_blocks_email:
  assumes run: "Register D E db input = (Inl e, db')" and wrote: "adb_users db' \<noteq> adb_users db"
    and again: "cui_Email input' = cui_Email input" "ae_email E' = None"
      "cui_WalletAddress input' \<noteq> []" "cui_WalletChainID input' \<noteq> []" "cui_WalletSignature input' \<noteq> []"
  shows "Register D' E' db' input' = (Inl (Sentinel ErrAlreadyExists), db')"
proof -
  obtain h where "adb_users db' = adb_users db @ [user_row_of (ae_userID E) (ae_now E) (new_user input h)]"
    using Register_users [OF run] wrote by blast
  then obtain u where "user_GetByEmail None (adb_users db') (cui_Email input) = Inr u"
    using user_GetByEmail_live [of "user_row_of (ae_userID E) (ae_now E) (new_user input h)" "adb_users db'" "cui_Email input"]
    by (auto simp: user_row_of_def new_user_def)
  with again show ?thesis by (simp add: Register_def)
qed

lemma map_sum_Inr_conv: "map_sum g f x = Inr y \<longleftrightarrow> (\<exists>z. x = Inr z \<and> y = f z)"
  by (cases x) auto

lemma Register_Inr:
  assumes "Register D E db input = (Inr (u, tok), db')"
  obtains h chain where "u = new_user input h" "ae_token E = Inr tok" "register_tx E input chain u db = (None, db')"
proof -
  from assms obtain h chain where u: "u = new_user input h" and t: "ae_token E = Inr tok"
    and run: "uow_run (\<lambda>old new. new) (ae_begin E) (ae_commit E) (register_tx E input chain (new_user input h)) db = (None, db')"
    unfolding Register_def Let_def by (auto simp: map_sum_Inr_conv split: if_splits sum.splits prod.splits option.splits)
  from uow_run_ok [OF run] u t show ?thesis by (intro that [of h chain]) simp_all
qed


subsection \<open>Sign-in\<close>

lemma Login_tokens:
  assumes "Login D flt1 flt2 newID now us m input = (Inr r, m')"
  shows "au_check D (li_Password input) (user_PasswordHash (ar_User r))" "user_GetByEmail flt1 us (li_Email input) = Inr (ar_User r)"
    "\<exists>p. GenerateTokenPair (au_jwt D) (au_service D) now (user_ID (ar_User r)) (user_Email (ar_User r)) (role_string (user_Role (ar_User r))) = Inr p \<and>
       (\<not> li_UseSession input \<longrightarrow> ar_AccessToken r = tp_AccessToken p \<and> ar_RefreshToken r = tp_RefreshToken p \<and> m' = m) \<and>
       (li_UseSession input \<longrightarrow> ar_AccessToken r = [] \<and> ar_RefreshToken r = [] \<and> flt2 = None \<and>
          m' = m(session_key (ar_SessionID r) \<mapsto> (json_Print (au_json D) (login_session_json D (ar_User r) p), now + 7 * 24 * 60 * minute)))"
proof -
  obtain u where u: "user_GetByEmail flt1 us (li_Email input) = Inr u" and c: "au_check D (li_Password input) (user_PasswordHash u)"
    using assms by (auto simp: Login_def split: sum.splits if_splits)
  obtain p where p: "GenerateTokenPair (au_jwt D) (au_service D) now (user_ID u) (user_Email u) (role_string (user_Role u)) = Inr p"
    using assms u c by (auto simp: Login_def split: sum.splits)
  have r: "ar_User r = u"
    using assms u c p by (auto simp: Login_def Let_def split: if_splits prod.splits option.splits)
  show "au_check D (li_Password input) (user_PasswordHash (ar_User r))" "user_GetByEmail flt1 us (li_Email input) = Inr (ar_User r)"
    using u c r by simp_all
  show "\<exists>p. GenerateTokenPair (au_jwt D) (au_service D) now (user_ID (ar_User r)) (user_Email (ar_User r)) (role_string (user_Role (ar_User r))) = Inr p \<and>
       (\<not> li_UseSession input \<longrightarrow> ar_AccessToken r = tp_AccessToken p \<and> ar_RefreshToken r = tp_RefreshToken p \<and> m' = m) \<and>
       (li_UseSession input \<longrightarrow> ar_AccessToken r = [] \<and> ar_RefreshToken r = [] \<and> flt2 = None \<and>
          m' = m(session_key (ar_SessionID r) \<mapsto> (json_Print (au_json D) (login_session_json D (ar_User r) p), now + 7 * 24 * 60 * minute)))"
    using assms u c p r by (intro exI [of _ p]) (cases r; auto simp: Login_def Let_def redis_Set_def split: if_splits prod.splits option.splits)
qed

lemma GenerateTokenPair_Inr:
  "GenerateTokenPair L S now u em role = Inr p \<longleftrightarrow>
    generateToken L S now u em role (js_accessExpiry S) = Inr (tp_AccessToken p) \<and>
    generateToken L S now u em role (js_refreshExpiry S) = Inr (tp_RefreshToken p)"
  by (cases p) (auto simp: GenerateTokenPair_def split: sum.splits)


text \<open>
  Also. The session that the login itself stores cannot be read: it is written as plain JSON, while the session
  store expects sealed text, so looking it up fails at every time.
\<close>

theorem login_session_unreadable:
  assumes run: "Login D flt1 flt2 newID t0 us m input = (Inr r, m')" and sess: "li_UseSession input"
    and json: "\<And>kvs. \<exists>s. json_Print (au_json D) (JObject kvs) = CHR ''{'' # s"
  shows "\<exists>e. store_GetSession S None now m' (ar_SessionID r) = Inl e"
proof -
  obtain v where m': "m' = m(session_key (ar_SessionID r) \<mapsto> (v, t0 + 7 * 24 * 60 * minute))" and v: "\<exists>kvs. v = json_Print (au_json D) (JObject kvs)"
    using Login_tokens(3) [OF run] sess by (auto simp: login_session_json_def)
  from v json obtain s where s: "v = CHR ''{'' # s" by metis
  have "hex_digit CHR ''{'' = None" by code_simp
  then have "DecodeString v = None" using s by (cases s) simp_all
  then show ?thesis
    using m' by (auto simp: store_GetSession_def redis_Get_def redis_live_def open_hex_def split: option.split)
qed

text \<open>
  Also. A password changes only for someone who knows the current one; then the row holds the hash of the new
  password, nothing else of the users changes but its time stamp, and a login accepts exactly the passwords the new hash
  accepts. A refused change leaves all users as they are.
\<close>

theorem ChangePassword_correct:
  assumes us: "distinct (map urow_ID us)" "distinct (map urow_Email us)" and run: "ChangePassword D flt1 flt2 now us k cur new = (r, us')"
  shows "(r \<noteq> None \<longrightarrow> us' = us) \<and>
    (r = None \<longrightarrow> (\<exists>m m' h. m \<in> set us \<and> urow_ID m = k \<and> urow_DeletedAt m = None \<and> au_check D cur (urow_PasswordHash m) \<and> au_hash D new = Inr h \<and>
       m' = m\<lparr>urow_PasswordHash := h, urow_UpdatedAt := now\<rparr> \<and> us' = map (\<lambda>x. if urow_ID x = k then m' else x) us \<and>
       (\<forall>pw. fst (Login D None None newID now us' rd \<lparr>li_Email = urow_Email m, li_Password = pw, li_UseSession = False\<rparr>) =
          (if au_check D pw h then
             map_sum (\<lambda>e. e) (\<lambda>p. \<lparr>ar_AccessToken = tp_AccessToken p, ar_RefreshToken = tp_RefreshToken p, ar_SessionID = [], ar_User = user_toEntity m'\<rparr>)
               (GenerateTokenPair (au_jwt D) (au_service D) now k (urow_Email m) (urow_Role m))
           else Inl (Sentinel ErrInvalidCredentials)))))"
proof (cases r)
  case (Some e)
  then show ?thesis using run
    by (auto simp: ChangePassword_def user_UpdatePassword_def soft_update_def update_checked_def update_where_def filter_empty_conv
        intro!: map_idI split: sum.splits if_splits option.splits)
next
  case None
  obtain u h where u: "user_GetByID flt1 us k = Inr u" and c: "au_check D cur (user_PasswordHash u)" and h: "au_hash D new = Inr h"
    and upd: "user_UpdatePassword flt2 now us k h = (None, us')"
    using run None by (auto simp: ChangePassword_def split: sum.splits if_splits)
  obtain m where m: "m \<in> set us" "urow_ID m = k" "urow_DeletedAt m = None" "u = user_toEntity m"
    using u by (auto simp: user_GetByID_def soft_get_def map_sum_Inr_conv select_where_def dest!: get_by_id_InrD)
  let ?m' = "m\<lparr>urow_PasswordHash := h, urow_UpdatedAt := now\<rparr>"
  have only: "x = m" if "x \<in> set us" "urow_ID x = k" for x using that m us(1) by (metis distinct_map inj_on_def)
  have "us' = map (\<lambda>x. if urow_ID x = k \<and> urow_DeletedAt x = None then x\<lparr>urow_PasswordHash := h, urow_UpdatedAt := now\<rparr> else x) us"
    using upd by (auto simp: user_UpdatePassword_def soft_update_def update_checked_def update_where_def split: option.splits if_splits)
  also have "\<dots> = map (\<lambda>x. if urow_ID x = k then ?m' else x) us" using only m(3) by (intro map_cong) auto
  finally have us': "us' = map (\<lambda>x. if urow_ID x = k then ?m' else x) us" .
  have found: "user_GetByEmail None us' (urow_Email m) = Inr (user_toEntity ?m')"
  proof -
    have mail: "map urow_Email us' = map urow_Email us" unfolding us' using only by (auto intro: map_cong)
    have in': "?m' \<in> set us'" unfolding us' using m by (auto simp: image_iff)
    obtain x where x: "first_by urow_ID (\<lambda>y. urow_Email y = urow_Email m \<and> urow_DeletedAt y = None) us' = Some x"
      using in' m(3) by (cases "first_by urow_ID (\<lambda>y. urow_Email y = urow_Email m \<and> urow_DeletedAt y = None) us'") (auto simp: first_by_None)
    then have "x \<in> set us'" "urow_Email x = urow_Email ?m'" using first_by_SomeD [OF x] by auto
    then have "x = ?m'" using in' us(2) unfolding mail [symmetric] distinct_map inj_on_def by blast
    with x show ?thesis by (simp add: user_GetByEmail_def)
  qed
  have "fst (Login D None None newID now us' rd \<lparr>li_Email = urow_Email m, li_Password = pw, li_UseSession = False\<rparr>) =
      (if au_check D pw h then
         map_sum (\<lambda>e. e) (\<lambda>p. \<lparr>ar_AccessToken = tp_AccessToken p, ar_RefreshToken = tp_RefreshToken p, ar_SessionID = [], ar_User = user_toEntity ?m'\<rparr>)
           (GenerateTokenPair (au_jwt D) (au_service D) now k (urow_Email m) (urow_Role m))
       else Inl (Sentinel ErrInvalidCredentials))" for pw
    using found m(2) by (auto simp: Login_def user_toEntity_def split: sum.split)
  then show ?thesis using None m c h us' by (intro conjI impI exI [of _ m] exI [of _ ?m'] exI [of _ h]) (simp_all add: user_toEntity_def)
qed

subsection \<open>Instances\<close>

definition sample_user_row :: user_row where
  "sample_user_row =
     \<lparr>urow_ID = 5, urow_Email = ''a@b'', urow_Name = ''Ann'', urow_PasswordHash = ''pw'', urow_Role = ''USER'', urow_KYCStatus = ''NOT_STARTED'',
      urow_KYCVerifiedAt = None, urow_CreatedAt = 1, urow_UpdatedAt = 1, urow_DeletedAt = None\<rparr>"

text \<open>A JWT library that signs the claims of one user; passwords are their own hashes.\<close>

definition sample_claims :: Claims where
  "sample_claims = \<lparr>cl_UserID = 5, cl_Email = ''a@b'', cl_Role = ''USER'', cl_ExpiresAt = 10, cl_IssuedAt = 0, cl_NotBefore = 0\<rparr>"

definition sample_jwt :: jwt_lib where
  "sample_jwt =
     \<lparr>jl_Sign = (\<lambda>secret c. if secret = ''s'' \<and> c = sample_claims then Inr ''T'' else Inl (ErrorString ''sign'')),
      jl_Parse = (\<lambda>kf now tok. if kf True \<noteq> Some ''s'' \<or> tok \<noteq> ''T'' then Inl False
                    else if 10 * second \<le> now then Inl True else Inr (sample_claims, True))\<rparr>"

lemma sample_jwt_ok: "jwt_lib_ok sample_jwt"
  by (auto simp: jwt_lib_ok_def sample_jwt_def sample_claims_def split: if_splits)

definition sample_auth :: auth_deps where
  "sample_auth =
     \<lparr>au_uuid = rfc_uuid,
      au_chains = \<lparr>repo_GetByID = (\<lambda>k. Inr base_chain), repo_GetByChainID = (\<lambda>s. Inl (Sentinel ErrNotFound)), repo_GetByCAIP2 = (\<lambda>s. Inr base_chain)\<rparr>,
      au_hash = Inr, au_check = (=), au_jwt = sample_jwt,
      au_service = \<lparr>js_secret = ''s'', js_accessExpiry = 10 * second, js_refreshExpiry = 10 * second\<rparr>,
      au_json = \<lparr>json_Parse = (\<lambda>s. None), json_Print = (\<lambda>v. ''{}'')\<rparr>\<rparr>"

definition sample_registration :: CreateUserInput where
  "sample_registration =
     \<lparr>cui_Email = ''c@d'', cui_Name = ''Cy'', cui_Password = ''pw'', cui_WalletAddress = ''0xw'', cui_WalletChainID = ''eip155:8453'',
      cui_WalletSignature = ''0xs'', cui_IsMerchant = True, cui_BusinessName = ''Shop'', cui_MerchantType = ''RETAIL''\<rparr>"

definition sample_register_env :: register_env where
  "sample_register_env =
     \<lparr>ae_email = None, ae_wallet = None, ae_begin = None, ae_commit = None, ae_createUser = None, ae_createWallet = None, ae_createMerchant = None,
      ae_createVerification = None, ae_userID = 31, ae_walletID = 32, ae_merchantID = 33, ae_verificationID = 34, ae_token = Inr ''v'', ae_now = 7\<rparr>"

definition empty_auth_db :: auth_db where
  "empty_auth_db = \<lparr>adb_users = [], adb_wallets = [], adb_merchants = [], adb_verifications = []\<rparr>"

lemma sample_registered:
  "case Register sample_auth sample_register_env empty_auth_db sample_registration of (Inr (u, t), db') \<Rightarrow> t = ''v'' | _ \<Rightarrow> False"
  "case Register sample_auth (sample_register_env\<lparr>ae_createWallet := Some (ErrorString ''fk'')\<rparr>) empty_auth_db sample_registration of
     (Inl e, db') \<Rightarrow> length (adb_users db') = 1 | _ \<Rightarrow> False"
  by code_simp+


theorem failed_registration_blocks_email_witness:
  "\<exists>e db'. Register sample_auth (sample_register_env\<lparr>ae_createWallet := Some (ErrorString ''fk'')\<rparr>) empty_auth_db sample_registration = (Inl e, db') \<and>
     Register sample_auth sample_register_env db' sample_registration = (Inl (Sentinel ErrAlreadyExists), db')"
proof -
  obtain e db' where run: "Register sample_auth (sample_register_env\<lparr>ae_createWallet := Some (ErrorString ''fk'')\<rparr>) empty_auth_db sample_registration = (Inl e, db')"
      and "length (adb_users db') = 1"
    using sample_registered(2) by (auto split: prod.splits sum.splits)
  then have "adb_users db' \<noteq> adb_users empty_auth_db" by (auto simp: empty_auth_db_def)
  from failed_registration_blocks_email [OF run this refl, of sample_register_env sample_auth] run show ?thesis
    by (auto simp: sample_register_env_def sample_registration_def)
qed

lemma sample_login:
  "case Login sample_auth None None 9 0 [sample_user_row] Map.empty \<lparr>li_Email = ''a@b'', li_Password = ''pw'', li_UseSession = False\<rparr> of
     (Inr r, m) \<Rightarrow> user_ID (ar_User r) = 5 | _ \<Rightarrow> False"
  "case Login sample_auth None None 9 0 [sample_user_row] Map.empty \<lparr>li_Email = ''a@b'', li_Password = ''pw'', li_UseSession = True\<rparr> of
     (Inr r, m) \<Rightarrow> True | _ \<Rightarrow> False"
  by code_simp+


theorem login_session_unreadable_witness:
  "\<exists>r m e. Login sample_auth None None 9 0 [sample_user_row] Map.empty \<lparr>li_Email = ''a@b'', li_Password = ''pw'', li_UseSession = True\<rparr> = (Inr r, m) \<and>
     store_GetSession sample_store None 3 m (ar_SessionID r) = Inl e"
proof -
  obtain r m where run: "Login sample_auth None None 9 0 [sample_user_row] Map.empty \<lparr>li_Email = ''a@b'', li_Password = ''pw'', li_UseSession = True\<rparr> = (Inr r, m)"
    using sample_login(2) by (auto split: prod.splits sum.splits)
  from login_session_unreadable [OF run, of sample_store 3] run show ?thesis by (auto simp: sample_auth_def)
qed

theorem ChangePassword_correct_witness:
  "\<exists>us'. ChangePassword sample_auth None None 8 [sample_user_row] 5 ''pw'' ''new'' = (None, us') \<and>
     fst (Login sample_auth None None 9 8 us' Map.empty \<lparr>li_Email = ''a@b'', li_Password = ''pw'', li_UseSession = False\<rparr>) =
       Inl (Sentinel ErrInvalidCredentials)"
proof -
  obtain us' where run: "ChangePassword sample_auth None None 8 [sample_user_row] 5 ''pw'' ''new'' = (None, us')"
    by (simp add: ChangePassword_def user_GetByID_def soft_get_def get_by_id_def first_by_def select_where_def sample_user_row_def sample_auth_def
        user_toEntity_def user_UpdatePassword_def soft_update_def update_checked_def update_where_def)
  have "distinct (map urow_ID [sample_user_row])" "distinct (map urow_Email [sample_user_row])" by simp_all
  from conjunct2 [OF ChangePassword_correct [OF this run, of 9 Map.empty], THEN mp, OF refl]
  obtain h where h: "au_hash sample_auth ''new'' = Inr h"
      and login: "\<forall>pw. fst (Login sample_auth None None 9 8 us' Map.empty \<lparr>li_Email = urow_Email sample_user_row, li_Password = pw, li_UseSession = False\<rparr>) =
        Inl (Sentinel ErrInvalidCredentials) \<or> au_check sample_auth pw h"
    by (elim exE conjE) simp
  have "urow_Email sample_user_row = ''a@b''" "\<not> au_check sample_auth ''pw'' h" using h by (auto simp: sample_user_row_def sample_auth_def)
  with login run show ?thesis by auto
qed

end
