(* ===== verification/Api_Keys.thy ===== *)
theory Api_Keys
  imports Users_Auth
begin

text \<open>
  API keys of partners: the repository \<^verbatim>\<open>api_key_repo_impl.go\<close> and the use case
  \<^verbatim>\<open>api_key_usecase.go\<close>, which creates keys, checks signed requests and revokes keys. SHA-256,
  HMAC and the random source are parameters.
\<close>

subsection \<open>The repository\<close>

record ApiKey =
  key_ID :: uuid
  key_UserID :: uuid
  key_Name :: string
  key_KeyPrefix :: string
  key_KeyHash :: string
  key_SecretEncrypted :: string
  key_SecretMasked :: string
  key_Permissions :: "string list option"
  key_IsActive :: bool
  key_LastUsedAt :: "time option"
  key_ExpiresAt :: "time option"
  key_CreatedAt :: time
  key_UpdatedAt :: time
  key_User :: "User option"

record key_row =
  krow_ID :: uuid
  krow_UserID :: uuid
  krow_Name :: string
  krow_KeyPrefix :: string
  krow_KeyHash :: string
  krow_SecretEncrypted :: string
  krow_SecretMasked :: string
  krow_Permissions :: string
  krow_IsActive :: bool
  krow_LastUsedAt :: "time option"
  krow_ExpiresAt :: "time option"
  krow_CreatedAt :: time
  krow_UpdatedAt :: time
  krow_DeletedAt :: "time option"

text \<open>A slice of strings as JSON: the nil slice is null. Decoding into the empty slice keeps it for a text that is no
  array, and an element that is no string becomes the empty string.\<close>

definition permissions_json :: "string list option \<Rightarrow> json" where
  "permissions_json ps = (case ps of None \<Rightarrow> JNull | Some xs \<Rightarrow> JArray (map JString xs))"

fun json_element :: "json \<Rightarrow> string" where
  "json_element (JString s) = s"
| "json_element v = []"

definition permissions_of :: "json_lib \<Rightarrow> string \<Rightarrow> string list option" where
  "permissions_of J s =
     (case json_Parse J s of
        Some JNull \<Rightarrow> None
      | Some (JArray vs) \<Rightarrow> Some (map json_element vs)
      | _ \<Rightarrow> Some [])"

definition apikey_toModel :: "json_lib \<Rightarrow> ApiKey \<Rightarrow> key_row" where
  "apikey_toModel J e =
     \<lparr>krow_ID = key_ID e, krow_UserID = key_UserID e, krow_Name = key_Name e, krow_KeyPrefix = key_KeyPrefix e, krow_KeyHash = key_KeyHash e,
      krow_SecretEncrypted = key_SecretEncrypted e, krow_SecretMasked = key_SecretMasked e,
      krow_Permissions = json_Print J (permissions_json (key_Permissions e)), krow_IsActive = key_IsActive e,
      krow_LastUsedAt = key_LastUsedAt e, krow_ExpiresAt = key_ExpiresAt e, krow_CreatedAt = key_CreatedAt e,
      krow_UpdatedAt = key_UpdatedAt e, krow_DeletedAt = None\<rparr>"

text \<open>The preloaded owner, when its row has an identifier; the password hash stays out.\<close>

definition key_owner :: "user_row option \<Rightarrow> User option" where
  "key_owner u =
     (case u of
        Some m \<Rightarrow> if urow_ID m \<noteq> uuid_Nil then Some ((user_toEntity m)\<lparr>user_PasswordHash := [], user_KYCVerifiedAt := None\<rparr>) else None
      | None \<Rightarrow> None)"

definition apikey_toEntity :: "json_lib \<Rightarrow> user_row option \<Rightarrow> key_row \<Rightarrow> ApiKey" where
  "apikey_toEntity J u m =
     \<lparr>key_ID = krow_ID m, key_UserID = krow_UserID m, key_Name = krow_Name m, key_KeyPrefix = krow_KeyPrefix m, key_KeyHash = krow_KeyHash m,
      key_SecretEncrypted = krow_SecretEncrypted m, key_SecretMasked = krow_SecretMasked m,
      key_Permissions = permissions_of J (krow_Permissions m), key_IsActive = krow_IsActive m, key_LastUsedAt = krow_LastUsedAt m,
      key_ExpiresAt = krow_ExpiresAt m, key_CreatedAt = krow_CreatedAt m, key_UpdatedAt = krow_UpdatedAt m, key_User = key_owner u\<rparr>"

text \<open>The column default replaces a false \<^verbatim>\<open>is_active\<close> on insertion; the unique index on the hash covers deleted rows.\<close>

definition apikey_Create :: "json_lib \<Rightarrow> fault \<Rightarrow> uuid \<Rightarrow> time \<Rightarrow> key_row table \<Rightarrow> ApiKey \<Rightarrow> (ApiKey \<times> key_row table) result" where
  "apikey_Create J flt gen now t e =
     (let m = apikey_toModel J e;
          m = m\<lparr>krow_ID := (if krow_ID m = uuid_Nil then gen else krow_ID m), krow_IsActive := True,
                krow_CreatedAt := (if krow_CreatedAt m = zero_time then now else krow_CreatedAt m),
                krow_UpdatedAt := (if krow_UpdatedAt m = zero_time then now else krow_UpdatedAt m)\<rparr> in
      case flt of
        Some err \<Rightarrow> Inl err
      | None \<Rightarrow>
          if krow_KeyHash m \<in> krow_KeyHash ` set t then Inl duplicate_key
          else map_sum (\<lambda>err. err) (\<lambda>t'. (e\<lparr>key_ID := krow_ID m\<rparr>, t')) (insert_row krow_ID m t))"

definition preload_user :: "user_row table \<Rightarrow> uuid \<Rightarrow> user_row option" where
  "preload_user us k = first_by urow_ID (\<lambda>m. urow_ID m = k \<and> urow_DeletedAt m = None) us"

definition FindByKeyHash :: "json_lib \<Rightarrow> fault \<Rightarrow> key_row table \<Rightarrow> user_row table \<Rightarrow> string \<Rightarrow> ApiKey result" where
  "FindByKeyHash J flt t us h =
     (case flt of
        Some e \<Rightarrow> Inl e
      | None \<Rightarrow>
          (case first_by krow_ID (\<lambda>m. krow_KeyHash m = h \<and> krow_DeletedAt m = None) t of
             None \<Rightarrow> Inl (Sentinel ErrNotFound)
           | Some m \<Rightarrow> Inr (apikey_toEntity J (preload_user us (krow_UserID m)) m)))"

definition FindByUserID :: "json_lib \<Rightarrow> key_row orderer \<Rightarrow> fault \<Rightarrow> key_row table \<Rightarrow> uuid \<Rightarrow> ApiKey list result" where
  "FindByUserID J ord flt t k =
     (case flt of
        Some e \<Rightarrow> Inl e
      | None \<Rightarrow> Inr (map (apikey_toEntity J None) (ord (select_where (\<lambda>m. krow_UserID m = k \<and> krow_DeletedAt m = None) t))))"

definition apikey_FindByID :: "json_lib \<Rightarrow> fault \<Rightarrow> key_row table \<Rightarrow> uuid \<Rightarrow> ApiKey result" where
  "apikey_FindByID J = soft_get krow_ID krow_DeletedAt (apikey_toEntity J None)"

definition key_written :: "json_lib \<Rightarrow> time \<Rightarrow> ApiKey \<Rightarrow> key_row \<Rightarrow> key_row" where
  "key_written J now e m =
     m\<lparr>krow_Name := key_Name e, krow_Permissions := json_Print J (permissions_json (key_Permissions e)), krow_IsActive := key_IsActive e,
       krow_LastUsedAt := key_LastUsedAt e, krow_UpdatedAt := now, krow_SecretEncrypted := key_SecretEncrypted e,
       krow_SecretMasked := key_SecretMasked e\<rparr>"

definition apikey_Update :: "json_lib \<Rightarrow> fault \<Rightarrow> time \<Rightarrow> key_row table \<Rightarrow> ApiKey \<Rightarrow> gerror option \<times> key_row table" where
  "apikey_Update J flt now t e = soft_update krow_ID krow_DeletedAt flt t (key_ID e) (key_written J now e)"

definition key_deleted :: "time \<Rightarrow> key_row \<Rightarrow> key_row" where
  "key_deleted now m = m\<lparr>krow_DeletedAt := Some now\<rparr>"

definition apikey_Delete :: "fault \<Rightarrow> time \<Rightarrow> key_row table \<Rightarrow> uuid \<Rightarrow> gerror option \<times> key_row table" where
  "apikey_Delete flt now t k = soft_update krow_ID krow_DeletedAt flt t k (key_deleted now)"

interpretation api_keys: soft_repo krow_ID krow_DeletedAt key_deleted "apikey_toEntity J None" for J
  by unfold_locales (simp_all add: key_deleted_def)

subsection \<open>The use case\<close>

text \<open>The environment of the use case: codec, cipher, hash functions and the key it was built with.\<close>

record key_deps =
  kd_json :: json_lib
  kd_gcm :: gcm
  kd_sha256 :: "byte list \<Rightarrow> byte list"
  kd_hmac :: "byte list \<Rightarrow> byte list \<Rightarrow> byte list"
  kd_key :: "byte list"

text \<open>\<^verbatim>\<open>hex.DecodeString\<close> returns the bytes in front of an error, and the constructor keeps them.\<close>

fun decoded_prefix :: "string \<Rightarrow> byte list" where
  "decoded_prefix (c # d # s) =
     (case (hex_digit c, hex_digit d) of (Some h, Some l) \<Rightarrow> word_of_nat (16 * h + l) # decoded_prefix s | _ \<Rightarrow> [])"
| "decoded_prefix s = []"

definition api_encryption_key :: "string \<Rightarrow> byte list" where
  "api_encryption_key encryptionKeyHex =
     (let key = decoded_prefix encryptionKeyHex in
      if (DecodeString encryptionKeyHex = None \<or> length key \<noteq> 32) \<and> length encryptionKeyHex = 32 then bytes_of encryptionKeyHex else key)"

definition sha256Hex :: "key_deps \<Rightarrow> byte list \<Rightarrow> string" where
  "sha256Hex D bs = EncodeToString (kd_sha256 D bs)"

definition hmacSha256Hex :: "key_deps \<Rightarrow> string \<Rightarrow> string \<Rightarrow> string" where
  "hmacSha256Hex D secret s = EncodeToString (kd_hmac D (bytes_of secret) (bytes_of s))"

definition key_encrypt :: "key_deps \<Rightarrow> byte list result \<Rightarrow> string \<Rightarrow> string result" where
  "key_encrypt D nonce plaintext = seal_hex (kd_gcm D) (kd_key D) nonce (bytes_of plaintext)"

definition key_decrypt :: "key_deps \<Rightarrow> string \<Rightarrow> string result" where
  "key_decrypt D s = map_sum (\<lambda>e. e) string_of (open_hex ''malformed ciphertext'' (kd_gcm D) (kd_key D) s)"

record CreateApiKeyInput =
  cak_Name :: string
  cak_Permissions :: "string list option"

record CreateApiKeyResponse =
  akr_ID :: uuid
  akr_Name :: string
  akr_ApiKey :: string
  akr_SecretKey :: string
  akr_CreatedAt :: time

text \<open>The random bytes of key, secret and nonce, the identifier of the database, the clock and the fault of the insertion.\<close>

record create_key_env =
  ce_key :: "byte list result"
  ce_secret :: "byte list result"
  ce_nonce :: "byte list result"
  ce_id :: uuid
  ce_created :: time
  ce_updated :: time
  ce_now :: time
  ce_fault :: fault

definition CreateApiKey ::
  "key_deps \<Rightarrow> create_key_env \<Rightarrow> key_row table \<Rightarrow> uuid \<Rightarrow> CreateApiKeyInput \<Rightarrow> CreateApiKeyResponse result \<times> key_row table" where
  "CreateApiKey D E t userID input =
     (case ce_key E of
        Inl _ \<Rightarrow> (Inl (InternalServerError ''failed to generate key''), t)
      | Inr kb \<Rightarrow>
     (case ce_secret E of
        Inl _ \<Rightarrow> (Inl (InternalServerError ''failed to generate secret''), t)
      | Inr sb \<Rightarrow>
          let apiKey = ''pk_live_'' @ EncodeToString kb;
              secretKey = ''sk_live_'' @ EncodeToString sb in
     (case key_encrypt D (ce_nonce E) secretKey of
        Inl _ \<Rightarrow> (Inl (InternalServerError ''failed to encrypt secret''), t)
      | Inr secretEncrypted \<Rightarrow>
          let entity =
                \<lparr>key_ID = uuid_Nil, key_UserID = userID, key_Name = cak_Name input, key_KeyPrefix = ''pk_live_'',
                 key_KeyHash = sha256Hex D (bytes_of apiKey), key_SecretEncrypted = secretEncrypted,
                 key_SecretMasked = ''****'' @ drop (length secretKey - 4) secretKey, key_Permissions = cak_Permissions input,
                 key_IsActive = True, key_LastUsedAt = None, key_ExpiresAt = None, key_CreatedAt = ce_created E,
                 key_UpdatedAt = ce_updated E, key_User = None\<rparr> in
          (case apikey_Create (kd_json D) (ce_fault E) (ce_id E) (ce_now E) t entity of
             Inl e \<Rightarrow> (Inl e, t)
           | Inr (e, t') \<Rightarrow>
               (Inr \<lparr>akr_ID = key_ID e, akr_Name = key_Name e, akr_ApiKey = apiKey, akr_SecretKey = secretKey, akr_CreatedAt = key_CreatedAt e\<rparr>, t')))))"

text \<open>\<^verbatim>\<open>strconv.ParseInt(s, 10, 64)\<close>: a sign, digits, and a range check.\<close>

definition ParseInt64 :: "string \<Rightarrow> int option" where
  "ParseInt64 s = (case SetString10 s of Some i \<Rightarrow> if - (2 ^ 63) \<le> i \<and> i < 2 ^ 63 then Some i else None | None \<Rightarrow> None)"

text \<open>
  \<^verbatim>\<open>math.Abs(float64(now-ts)) > 300\<close>: the difference wraps at 64 bits. Converting it to floating point
  is exact up to \<open>2 ^ 53\<close> and monotone above, so the comparison with 300 is that of the integers.
\<close>

definition timestamp_expired :: "time \<Rightarrow> int \<Rightarrow> bool" where
  "timestamp_expired now ts \<longleftrightarrow> \<bar>wrap64 (unix now - ts)\<bar> > 300"

definition buildLegacyAPIKeyStringToSign :: "string \<Rightarrow> string \<Rightarrow> string \<Rightarrow> string \<Rightarrow> string" where
  "buildLegacyAPIKeyStringToSign timestamp meth path bodyHash = timestamp @ meth @ path @ bodyHash"

definition buildPartnerAPIKeyStringToSign :: "string \<Rightarrow> string \<Rightarrow> string \<Rightarrow> string \<Rightarrow> string" where
  "buildPartnerAPIKeyStringToSign timestamp meth path bodyHash = timestamp @ ''.'' @ meth @ ''.'' @ path @ ''.'' @ bodyHash"

text \<open>A signed request as the middleware passes it on, the clock readings and the faults of the statements.\<close>

record signed_request =
  sr_signature :: string
  sr_timestamp :: string
  sr_method :: string
  sr_path :: string
  sr_bodyHash :: string

record key_env =
  ke_now :: time
  ke_used :: time
  ke_updated :: time
  ke_find :: fault
  ke_update :: fault
  ke_user :: fault

definition string_to_sign :: "(string \<Rightarrow> string \<Rightarrow> string \<Rightarrow> string \<Rightarrow> string) \<Rightarrow> signed_request \<Rightarrow> string" where
  "string_to_sign build r = build (sr_timestamp r) (sr_method r) (sr_path r) (sr_bodyHash r)"

definition check_timestamp :: "time \<Rightarrow> string \<Rightarrow> gerror option" where
  "check_timestamp now timestamp =
     (case ParseInt64 timestamp of
        None \<Rightarrow> Some (Unauthorized ''invalid timestamp'')
      | Some ts \<Rightarrow> if timestamp_expired now ts then Some (Unauthorized ''request timestamp expired'') else None)"

definition validateAPIKeyWithCanonicalString ::
  "key_deps \<Rightarrow> key_env \<Rightarrow> (string \<Rightarrow> string \<Rightarrow> string \<Rightarrow> string \<Rightarrow> string) \<Rightarrow> user_row table \<Rightarrow> key_row table \<Rightarrow> string \<Rightarrow> signed_request \<Rightarrow>
   User result \<times> key_row table" where
  "validateAPIKeyWithCanonicalString D E build us t apiKey r =
     (case check_timestamp (ke_now E) (sr_timestamp r) of
        Some e \<Rightarrow> (Inl e, t)
      | None \<Rightarrow>
     (case FindByKeyHash (kd_json D) (ke_find E) t us (sha256Hex D (bytes_of apiKey)) of
        Inl _ \<Rightarrow> (Inl (Unauthorized ''invalid api key''), t)
      | Inr k \<Rightarrow>
          if \<not> key_IsActive k then (Inl (Unauthorized ''api key inactive''), t)
          else
     (case key_decrypt D (key_SecretEncrypted k) of
        Inl _ \<Rightarrow> (Inl (InternalServerError ''failed to decrypt secret''), t)
      | Inr secretKey \<Rightarrow>
          if hmacSha256Hex D secretKey (string_to_sign build r) \<noteq> sr_signature r then (Inl (Unauthorized ''invalid signature''), t)
          else
            let t' = snd (apikey_Update (kd_json D) (ke_update E) (ke_updated E) t (k\<lparr>key_LastUsedAt := Some (ke_used E)\<rparr>)) in
            (case key_User k of
               Some user \<Rightarrow> (Inr user, t')
             | None \<Rightarrow>
                 (case user_GetByID (ke_user E) us (key_UserID k) of
                    Inl _ \<Rightarrow> (Inl (InternalServerError ''api key owner not found''), t')
                  | Inr user \<Rightarrow> (Inr user, t'))))))"

definition ValidateApiKey ::
  "key_deps \<Rightarrow> key_env \<Rightarrow> user_row table \<Rightarrow> key_row table \<Rightarrow> string \<Rightarrow> signed_request \<Rightarrow> User result \<times> key_row table" where
  "ValidateApiKey D E = validateAPIKeyWithCanonicalString D E buildLegacyAPIKeyStringToSign"

definition ValidatePartnerApiKey ::
  "key_deps \<Rightarrow> key_env \<Rightarrow> user_row table \<Rightarrow> key_row table \<Rightarrow> string \<Rightarrow> signed_request \<Rightarrow> User result \<times> key_row table" where
  "ValidatePartnerApiKey D E = validateAPIKeyWithCanonicalString D E buildPartnerAPIKeyStringToSign"

fun try_keys :: "key_deps \<Rightarrow> key_env \<Rightarrow> string \<Rightarrow> string \<Rightarrow> ApiKey list \<Rightarrow> key_row table \<Rightarrow> gerror option \<times> key_row table" where
  "try_keys D E s signature [] t = (Some (Unauthorized ''invalid signature''), t)"
| "try_keys D E s signature (k # ks) t =
     (if \<not> key_IsActive k then try_keys D E s signature ks t
      else case key_decrypt D (key_SecretEncrypted k) of
             Inl _ \<Rightarrow> try_keys D E s signature ks t
           | Inr secret \<Rightarrow>
               if hmacSha256Hex D secret s = signature then
                 (None, snd (apikey_Update (kd_json D) (ke_update E) (ke_updated E) t (k\<lparr>key_LastUsedAt := Some (ke_used E)\<rparr>)))
               else try_keys D E s signature ks t)"

definition ValidateSignatureForJWT ::
  "key_deps \<Rightarrow> key_row orderer \<Rightarrow> key_env \<Rightarrow> key_row table \<Rightarrow> uuid \<Rightarrow> signed_request \<Rightarrow> gerror option \<times> key_row table" where
  "ValidateSignatureForJWT D ord E t userID r =
     (case check_timestamp (ke_now E) (sr_timestamp r) of
        Some e \<Rightarrow> (Some e, t)
      | None \<Rightarrow>
     (case FindByUserID (kd_json D) ord (ke_find E) t userID of
        Inl e \<Rightarrow> (Some e, t)
      | Inr keys \<Rightarrow>
          if keys = [] then (Some (Unauthorized ''no api keys found for signature verification''), t)
          else try_keys D E (string_to_sign buildLegacyAPIKeyStringToSign r) (sr_signature r) keys t))"

definition ListApiKeys :: "key_deps \<Rightarrow> key_row orderer \<Rightarrow> fault \<Rightarrow> key_row table \<Rightarrow> uuid \<Rightarrow> ApiKey list result" where
  "ListApiKeys D ord flt t userID = FindByUserID (kd_json D) ord flt t userID"

definition RevokeApiKey :: "key_deps \<Rightarrow> fault \<Rightarrow> fault \<Rightarrow> time \<Rightarrow> key_row table \<Rightarrow> uuid \<Rightarrow> uuid \<Rightarrow> gerror option \<times> key_row table" where
  "RevokeApiKey D flt1 flt2 now t userID k =
     (case apikey_FindByID (kd_json D) flt1 t k of
        Inl e \<Rightarrow> (Some e, t)
      | Inr key \<Rightarrow>
          if key_UserID key \<noteq> userID then (Some (Forbidden ''not owner of api key''), t)
          else apikey_Delete flt2 now t k)"


subsection \<open>Which requests are accepted\<close>

lemma timestamp_expired_exact:
  assumes "0 \<le> unix now" "unix now < 2 ^ 62" "ParseInt64 s = Some ts"
  shows "timestamp_expired now ts \<longleftrightarrow> \<bar>unix now - ts\<bar> > 300"
proof -
  have ts: "- (2 ^ 63) \<le> ts" "ts < 2 ^ 63" using assms(3) by (auto simp: ParseInt64_def split: option.splits if_splits)
  show ?thesis
  proof (cases "unix now - ts < 2 ^ 63")
    case True
    then show ?thesis using wrap64_id [of "unix now - ts"] ts assms(1) by (simp add: timestamp_expired_def)
  next
    case False
    then have "wrap64 (unix now - ts) = unix now - ts - 2 ^ 64" using ts assms(2) by (simp add: wrap64_def mod_pos_geq mod_pos_pos_trivial)
    then show ?thesis using False ts assms(2) by (auto simp: timestamp_expired_def)
  qed
qed

lemma check_timestamp_None:
  assumes "0 \<le> unix now" "unix now < 2 ^ 62"
  shows "check_timestamp now s = None \<longleftrightarrow> (\<exists>ts. ParseInt64 s = Some ts \<and> \<bar>unix now - ts\<bar> \<le> 300)"
  using timestamp_expired_exact [OF assms] by (auto simp: check_timestamp_def split: option.splits)

lemma first_by_only:
  assumes "distinct (map f t)" "m \<in> set t" "P m" "\<And>x. P x \<Longrightarrow> f x = f m"
  shows "first_by pk P t = Some m"
proof -
  obtain x where x: "first_by pk P t = Some x" using assms(2,3) by (cases "first_by pk P t") (auto simp: first_by_None)
  from first_by_SomeD [OF this] have "x \<in> set t" "f x = f m" using assms(4) by auto
  then have "x = m" using assms(1,2) by (metis distinct_map inj_on_def)
  with x show ?thesis by simp
qed

lemma FindByKeyHash_Inr:
  assumes "distinct (map krow_KeyHash t)"
  shows "FindByKeyHash J flt t us h = Inr k \<longleftrightarrow>
    flt = None \<and> (\<exists>m\<in>set t. krow_KeyHash m = h \<and> krow_DeletedAt m = None \<and> k = apikey_toEntity J (preload_user us (krow_UserID m)) m)"
proof -
  have "first_by krow_ID (\<lambda>m. krow_KeyHash m = h \<and> krow_DeletedAt m = None) t = Some m \<longleftrightarrow>
      m \<in> set t \<and> krow_KeyHash m = h \<and> krow_DeletedAt m = None" for m
    using first_by_only [OF assms, of m "\<lambda>m. krow_KeyHash m = h \<and> krow_DeletedAt m = None" krow_ID] first_by_SomeD by fastforce
  note found = this
  show ?thesis
  proof (cases "first_by krow_ID (\<lambda>m. krow_KeyHash m = h \<and> krow_DeletedAt m = None) t")
    case None
    then show ?thesis using found by (auto simp: FindByKeyHash_def split: option.splits)
  next
    case (Some m)
    then have "x = m" if "x \<in> set t" "krow_KeyHash x = h" "krow_DeletedAt x = None" for x using that found [of x] by simp
    then show ?thesis using Some found [of m] by (auto simp: FindByKeyHash_def split: option.splits)
  qed
qed

text \<open>The owner a key resolves to: its live row, without the password hash unless the row is read separately.\<close>

definition owner_of :: "user_row table \<Rightarrow> uuid \<Rightarrow> User \<Rightarrow> bool" where
  "owner_of us k u \<longleftrightarrow> (\<exists>m\<in>set us. urow_ID m = k \<and> urow_DeletedAt m = None \<and>
     u = (if k = uuid_Nil then user_toEntity m else (user_toEntity m)\<lparr>user_PasswordHash := []\<rparr>))"

lemma preload_user_Some:
  assumes "distinct (map urow_ID us)"
  shows "preload_user us k = Some m \<longleftrightarrow> m \<in> set us \<and> urow_ID m = k \<and> urow_DeletedAt m = None"
  using first_by_only [OF assms, of m "\<lambda>m. urow_ID m = k \<and> urow_DeletedAt m = None" urow_ID]
  by (auto simp: preload_user_def dest: first_by_SomeD)

lemma user_GetByID_preload: "distinct (map urow_ID us) \<Longrightarrow>
  user_GetByID None us k = (case preload_user us k of Some m \<Rightarrow> Inr (user_toEntity m) | None \<Rightarrow> Inl (Sentinel ErrNotFound))"
  using users.get_refines [of us k] find_unique [of urow_ID us _ "\<lambda>m. urow_ID m = k \<and> urow_DeletedAt m = None"] preload_user_Some [of us k]
  by (cases "preload_user us k")
    (auto simp: user_GetByID_def soft_abs_def preload_user_def first_by_None find_None_iff split: option.splits)

definition resolve_owner :: "user_row table \<Rightarrow> uuid \<Rightarrow> User option" where
  "resolve_owner us k =
     (case key_owner (preload_user us k) of
        Some u \<Rightarrow> Some u
      | None \<Rightarrow> (case user_GetByID None us k of Inr u \<Rightarrow> Some u | Inl _ \<Rightarrow> None))"

lemma resolve_owner_Some:
  assumes "distinct (map urow_ID us)"
  shows "resolve_owner us k = Some u \<longleftrightarrow> owner_of us k u"
proof -
  have own: "owner_of us k u \<longleftrightarrow>
      (\<exists>m. preload_user us k = Some m \<and> u = (if k = uuid_Nil then user_toEntity m else (user_toEntity m)\<lparr>user_PasswordHash := []\<rparr>))"
    unfolding owner_of_def preload_user_Some [OF assms] by blast
  show ?thesis
  proof (cases "preload_user us k")
    case (Some m)
    then have "urow_ID m = k" unfolding preload_user_Some [OF assms] by simp
    moreover have "(user_toEntity m)\<lparr>user_PasswordHash := [], user_KYCVerifiedAt := None\<rparr> = (user_toEntity m)\<lparr>user_PasswordHash := []\<rparr>"
      by (simp add: user_toEntity_def)
    ultimately show ?thesis unfolding own using Some by (auto simp: resolve_owner_def key_owner_def user_GetByID_preload [OF assms])
  qed (simp add: own resolve_owner_def key_owner_def user_GetByID_preload [OF assms])
qed

lemma validate_result:
  assumes "ke_find E = None" "ke_user E = None"
  shows "fst (validateAPIKeyWithCanonicalString D E build us t apiKey r) = Inr u \<longleftrightarrow>
    check_timestamp (ke_now E) (sr_timestamp r) = None \<and>
    (\<exists>k secret. FindByKeyHash (kd_json D) None t us (sha256Hex D (bytes_of apiKey)) = Inr k \<and> key_IsActive k \<and>
       key_decrypt D (key_SecretEncrypted k) = Inr secret \<and> hmacSha256Hex D secret (string_to_sign build r) = sr_signature r \<and>
       (case key_User k of Some v \<Rightarrow> u = v | None \<Rightarrow> user_GetByID None us (key_UserID k) = Inr u))"
proof (cases "check_timestamp (ke_now E) (sr_timestamp r)")
  case None
  show ?thesis
  proof (cases "FindByKeyHash (kd_json D) None t us (sha256Hex D (bytes_of apiKey))")
    case (Inr k)
    show ?thesis
    proof (cases "key_decrypt D (key_SecretEncrypted k)")
      case (Inr secret)
      then show ?thesis using \<open>FindByKeyHash _ _ _ _ _ = Inr k\<close> None assms
        by (cases "key_User k"; cases "user_GetByID None us (key_UserID k)") (auto simp: validateAPIKeyWithCanonicalString_def Let_def)
    qed (use Inr None assms in \<open>auto simp: validateAPIKeyWithCanonicalString_def\<close>)
  qed (use None assms in \<open>auto simp: validateAPIKeyWithCanonicalString_def\<close>)
qed (simp add: validateAPIKeyWithCanonicalString_def)

lemma validate_iff:
  assumes E: "ke_find E = None" "ke_user E = None" and now: "0 \<le> unix (ke_now E)" "unix (ke_now E) < 2 ^ 62"
    and t: "distinct (map krow_KeyHash t)" and us: "distinct (map urow_ID us)"
  shows "fst (validateAPIKeyWithCanonicalString D E build us t apiKey r) = Inr u \<longleftrightarrow>
    (\<exists>ts. ParseInt64 (sr_timestamp r) = Some ts \<and> \<bar>unix (ke_now E) - ts\<bar> \<le> 300) \<and>
    (\<exists>m\<in>set t. krow_KeyHash m = sha256Hex D (bytes_of apiKey) \<and> krow_DeletedAt m = None \<and> krow_IsActive m \<and>
       (\<exists>secret. key_decrypt D (krow_SecretEncrypted m) = Inr secret \<and> sr_signature r = hmacSha256Hex D secret (string_to_sign build r)) \<and>
       owner_of us (krow_UserID m) u)"
proof -
  have own: "(case key_User k of Some v \<Rightarrow> u = v | None \<Rightarrow> user_GetByID None us (key_UserID k) = Inr u) \<longleftrightarrow> owner_of us (krow_UserID m) u"
    if "k = apikey_toEntity (kd_json D) (preload_user us (krow_UserID m)) m" for k m
    using that resolve_owner_Some [OF us, of "krow_UserID m" u]
    by (auto simp: apikey_toEntity_def resolve_owner_def split: option.splits sum.splits)
  show ?thesis
    unfolding validate_result [OF E] FindByKeyHash_Inr [OF t] check_timestamp_None [OF now] using own
    by (auto 4 4 simp: apikey_toEntity_def)
qed


lemma apikey_Update_rows:
  "snd (apikey_Update J flt now t e) = t \<or>
   snd (apikey_Update J flt now t e) = map (\<lambda>m. if krow_ID m = key_ID e \<and> krow_DeletedAt m = None then key_written J now e m else m) t"
  using update_checked_table [of flt] by (cases flt) (auto simp: apikey_Update_def soft_update_def update_checked_def)

text \<open>What a use of a key leaves of a row.\<close>

definition key_fixed :: "key_row \<Rightarrow> uuid \<times> uuid \<times> string \<times> string \<times> bool \<times> time option" where
  "key_fixed m = (krow_ID m, krow_UserID m, krow_KeyHash m, krow_SecretEncrypted m, krow_IsActive m, krow_DeletedAt m)"

lemma validate_fixed:
  assumes "distinct (map krow_ID t)"
  shows "map key_fixed (snd (validateAPIKeyWithCanonicalString D E build us t apiKey r)) = map key_fixed t"
proof -
  have "map key_fixed (snd (apikey_Update J flt now t (k\<lparr>key_LastUsedAt := l\<rparr>))) = map key_fixed t"
    if find: "FindByKeyHash J f t us h = Inr k" for J flt now k l f h
  proof -
    obtain m where m: "m \<in> set t" "k = apikey_toEntity J (preload_user us (krow_UserID m)) m"
      using find by (auto simp: FindByKeyHash_def dest!: first_by_SomeD split: option.splits)
    have "x = m" if "x \<in> set t" "krow_ID x = krow_ID m" for x using that m(1) assms by (metis distinct_map inj_on_def)
    then have "key_fixed (if krow_ID x = key_ID (k\<lparr>key_LastUsedAt := l\<rparr>) \<and> krow_DeletedAt x = None then key_written J now (k\<lparr>key_LastUsedAt := l\<rparr>) x else x) = key_fixed x"
      if "x \<in> set t" for x using that m(2) by (auto simp: key_fixed_def key_written_def apikey_toEntity_def)
    then show ?thesis using apikey_Update_rows [of J flt now t "k\<lparr>key_LastUsedAt := l\<rparr>"] by (elim disjE) simp_all
  qed
  then show ?thesis by (auto simp: validateAPIKeyWithCanonicalString_def Let_def split: option.split sum.split)
qed

text \<open>
  Also. A request with an API key is accepted exactly when its time stamp is within five minutes of the clock, the key is
  stored, live and active, and the signature is the HMAC of the request under the key's secret; the caller is then the
  owner of the key. Whatever the outcome, no key changes its owner, hash, secret or state.
\<close>

theorem api_key_accepted_iff:
  assumes "ke_find E = None" "ke_user E = None" "0 \<le> unix (ke_now E)" "unix (ke_now E) < 2 ^ 62"
    and "distinct (map krow_KeyHash t)" "distinct (map urow_ID us)" and ids: "distinct (map krow_ID t)"
    and "validateAPIKeyWithCanonicalString D E build us t apiKey r = (res, t')"
  shows "(res = Inr u \<longleftrightarrow>
    (\<exists>ts. ParseInt64 (sr_timestamp r) = Some ts \<and> \<bar>unix (ke_now E) - ts\<bar> \<le> 300) \<and>
    (\<exists>m\<in>set t. krow_KeyHash m = sha256Hex D (bytes_of apiKey) \<and> krow_DeletedAt m = None \<and> krow_IsActive m \<and>
       (\<exists>secret. key_decrypt D (krow_SecretEncrypted m) = Inr secret \<and> sr_signature r = hmacSha256Hex D secret (string_to_sign build r)) \<and>
       owner_of us (krow_UserID m) u)) \<and>
    map key_fixed t' = map key_fixed t"
  using validate_iff [OF assms(1-6), of D build apiKey r u] validate_fixed [OF ids, of D E build us apiKey r] assms(8) by simp

lemma CreateApiKey_Inr:
  assumes "CreateApiKey D E t userID input = (Inr resp, t')"
  shows "\<exists>m. t' = t @ [m] \<and> krow_ID m = akr_ID resp \<and> krow_UserID m = userID \<and> krow_KeyHash m = sha256Hex D (bytes_of (akr_ApiKey resp)) \<and>
    krow_IsActive m \<and> krow_DeletedAt m = None \<and> key_encrypt D (ce_nonce E) (akr_SecretKey resp) = Inr (krow_SecretEncrypted m) \<and>
    krow_KeyHash m \<notin> krow_KeyHash ` set t \<and> krow_ID m \<notin> krow_ID ` set t"
  using assms by (auto simp: CreateApiKey_def apikey_Create_def apikey_toModel_def Let_def map_sum_Inr_conv insert_row_def
      split: sum.splits option.splits if_splits prod.splits)

text \<open>
  Property C22. The life of an API key: right after its creation a request in the time window is accepted as its owner when it is
  signed with the returned secret and refused as wrongly signed otherwise. Nobody else can revoke it; the owner
  can, and from then on no request with it is accepted.
\<close>

theorem api_key_lifecycle:
  assumes G: "gcm_ok (kd_gcm D)" and n: "ce_nonce E = Inr n" "length n = NonceSize"
    and c: "CreateApiKey D E t userID input = (Inr resp, t')"
    and t: "distinct (map krow_KeyHash t)" "distinct (map krow_ID t)" and us: "distinct (map urow_ID us)"
    and o: "m \<in> set us" "urow_ID m = userID" "urow_DeletedAt m = None" "userID \<noteq> uuid_Nil"
    and F: "ke_find F = None" "ke_user F = None" and ts: "check_timestamp (ke_now F) (sr_timestamp r) = None"
  shows "fst (validateAPIKeyWithCanonicalString D F build us t' (akr_ApiKey resp) r) =
      (if sr_signature r = hmacSha256Hex D (akr_SecretKey resp) (string_to_sign build r) then Inr ((user_toEntity m)\<lparr>user_PasswordHash := []\<rparr>)
       else Inl (Unauthorized ''invalid signature'')) \<and>
    (\<forall>other. other \<noteq> userID \<longrightarrow> RevokeApiKey D None None now t' other (akr_ID resp) = (Some (Forbidden ''not owner of api key''), t')) \<and>
    (\<exists>t2. RevokeApiKey D None None now t' userID (akr_ID resp) = (None, t2) \<and>
       fst (validateAPIKeyWithCanonicalString D F build us t2 (akr_ApiKey resp) r) = Inl (Unauthorized ''invalid api key''))"
proof -
  obtain k where k: "t' = t @ [k]" "krow_ID k = akr_ID resp" "krow_UserID k = userID" "krow_KeyHash k = sha256Hex D (bytes_of (akr_ApiKey resp))"
      "krow_IsActive k" "krow_DeletedAt k = None" and enc: "key_encrypt D (ce_nonce E) (akr_SecretKey resp) = Inr (krow_SecretEncrypted k)"
      and new: "krow_KeyHash k \<notin> krow_KeyHash ` set t" "krow_ID k \<notin> krow_ID ` set t"
    using CreateApiKey_Inr [OF c] by blast
  have t': "distinct (map krow_KeyHash t')" "distinct (map krow_ID t')" using t new k(1) by auto
  have dec: "key_decrypt D (krow_SecretEncrypted k) = Inr (akr_SecretKey resp)"
    using open_seal [OF G, of "kd_key D" n "bytes_of (akr_SecretKey resp)"] enc n by (simp add: key_decrypt_def key_encrypt_def)
  let ?k = "apikey_toEntity (kd_json D) (preload_user us userID) k"
  have pre: "preload_user us userID = Some m" using o us by (simp add: preload_user_Some)
  have find: "FindByKeyHash (kd_json D) None t' us (sha256Hex D (bytes_of (akr_ApiKey resp))) = Inr ?k"
    unfolding FindByKeyHash_Inr [OF t'(1)] using k by auto
  have user: "key_User ?k = Some ((user_toEntity m)\<lparr>user_PasswordHash := []\<rparr>)"
    using pre o by (simp add: apikey_toEntity_def key_owner_def user_toEntity_def)
  have fields: "key_IsActive ?k" "key_SecretEncrypted ?k = krow_SecretEncrypted k" using k by (simp_all add: apikey_toEntity_def)
  have accept: "fst (validateAPIKeyWithCanonicalString D F build us t' (akr_ApiKey resp) r) =
      (if sr_signature r = hmacSha256Hex D (akr_SecretKey resp) (string_to_sign build r) then Inr ((user_toEntity m)\<lparr>user_PasswordHash := []\<rparr>)
       else Inl (Unauthorized ''invalid signature''))"
    using ts find user fields dec F by (auto simp: validateAPIKeyWithCanonicalString_def Let_def)
  have byid: "apikey_FindByID (kd_json D) None t' (akr_ID resp) = Inr (apikey_toEntity (kd_json D) None k)"
    using api_keys.get_refines [OF t'(2), of "kd_json D" "akr_ID resp"] find_unique [OF t'(2), of k "\<lambda>m. krow_ID m = akr_ID resp \<and> krow_DeletedAt m = None"] k
    by (simp add: apikey_FindByID_def soft_abs_def)
  have own: "key_UserID (apikey_toEntity (kd_json D) None k) = userID" using k by (simp add: apikey_toEntity_def)
  have others: "\<forall>other. other \<noteq> userID \<longrightarrow> RevokeApiKey D None None now t' other (akr_ID resp) = (Some (Forbidden ''not owner of api key''), t')"
    using byid own by (simp add: RevokeApiKey_def)
  let ?t2 = "map (\<lambda>x. if krow_ID x = akr_ID resp \<and> krow_DeletedAt x = None then key_deleted now x else x) t'"
  have del: "RevokeApiKey D None None now t' userID (akr_ID resp) = (None, ?t2)"
    using byid own k by (simp add: RevokeApiKey_def apikey_Delete_def soft_update_def update_checked_def update_where_def)
  have "\<not> (krow_KeyHash x = krow_KeyHash k \<and> krow_DeletedAt x = None)" if "x \<in> set ?t2" for x
    using that new k by (auto simp: key_deleted_def image_iff split: if_splits)
  then have "FindByKeyHash (kd_json D) None ?t2 us (sha256Hex D (bytes_of (akr_ApiKey resp))) = Inl (Sentinel ErrNotFound)"
    using k(4) by (auto simp: FindByKeyHash_def first_by_None split: option.splits dest!: first_by_SomeD)
  then have "fst (validateAPIKeyWithCanonicalString D F build us ?t2 (akr_ApiKey resp) r) = Inl (Unauthorized ''invalid api key'')"
    using ts F by (simp add: validateAPIKeyWithCanonicalString_def)
  with accept others del show ?thesis by blast
qed


subsection \<open>What a signature covers\<close>

text \<open>The parts of a request as a client and the middleware form them: a decimal time stamp, a method of
  letters, a path that begins with a slash and a body hash of 64 characters.\<close>

definition is_upper :: "char \<Rightarrow> bool" where
  "is_upper c \<longleftrightarrow> 65 \<le> (of_char c :: nat) \<and> (of_char c :: nat) \<le> 90"

definition canonical_request :: "signed_request \<Rightarrow> bool" where
  "canonical_request r \<longleftrightarrow> list_all is_dec (sr_timestamp r) \<and> list_all is_upper (sr_method r) \<and> sr_method r \<noteq> [] \<and>
     HasPrefix (sr_path r) ''/'' \<and> length (sr_bodyHash r) = 64"

lemma append_classes_eq:
  assumes "list_all P a" "list_all P a'" "x = [] \<or> \<not> P (hd x)" "x' = [] \<or> \<not> P (hd x')" "a @ x = a' @ x'"
  shows "a = a' \<and> x = x'"
proof -
  have w: "takeWhile P (b @ y) = b" if "list_all P b" "y = [] \<or> \<not> P (hd y)" for b y
    using that by (cases y) (auto simp: takeWhile_append2 list_all_iff)
  show ?thesis using w [OF assms(1,3)] w [OF assms(2,4)] assms(5) by auto
qed

text \<open>
  Also. A signature covers the whole request: two canonical requests with the same string to sign, in the
  legacy or in the partner format, have the same time stamp, method, path and body hash.
\<close>

theorem string_to_sign_injective:
  assumes "canonical_request r" "canonical_request r'"
    and "string_to_sign build r = string_to_sign build r'" "build \<in> {buildLegacyAPIKeyStringToSign, buildPartnerAPIKeyStringToSign}"
  shows "sr_timestamp r = sr_timestamp r' \<and> sr_method r = sr_method r' \<and> sr_path r = sr_path r' \<and> sr_bodyHash r = sr_bodyHash r'"
proof -
  have upper_not_dec: "\<not> is_dec c" if "is_upper c" for c using that by (simp add: is_upper_def is_dec_def)
  have hd_method: "\<not> is_dec (hd (sr_method q @ y))" if "canonical_request q" for q y
    using that upper_not_dec by (cases "sr_method q") (auto simp: canonical_request_def)
  have hd_path: "\<not> is_upper (hd (sr_path q @ y))" "sr_path q \<noteq> []" if "canonical_request q" for q y
    using that by (auto simp: canonical_request_def HasPrefix_prefix is_upper_def prefix_def)
  have tail: "sr_path r = sr_path r' \<and> sr_bodyHash r = sr_bodyHash r'" if "sr_path r @ sep @ sr_bodyHash r = sr_path r' @ sep @ sr_bodyHash r'" for sep
    using that assms(1,2) by (simp add: canonical_request_def)
  consider "build = buildLegacyAPIKeyStringToSign" | "build = buildPartnerAPIKeyStringToSign" using assms(4) by blast
  then show ?thesis
  proof cases
    case 1
    then have e: "sr_timestamp r @ sr_method r @ sr_path r @ sr_bodyHash r = sr_timestamp r' @ sr_method r' @ sr_path r' @ sr_bodyHash r'"
      using assms(3) by (simp add: string_to_sign_def buildLegacyAPIKeyStringToSign_def)
    have s1: "sr_timestamp r = sr_timestamp r' \<and> sr_method r @ sr_path r @ sr_bodyHash r = sr_method r' @ sr_path r' @ sr_bodyHash r'"
      by (rule append_classes_eq [of is_dec]) (use assms(1,2) hd_method e in \<open>auto simp: canonical_request_def\<close>)
    have "sr_method r = sr_method r' \<and> sr_path r @ sr_bodyHash r = sr_path r' @ sr_bodyHash r'"
      by (rule append_classes_eq [of is_upper]) (use assms(1,2) hd_path s1 in \<open>auto simp: canonical_request_def\<close>)
    then show ?thesis using s1 tail [of "[]"] by simp
  next
    case 2
    then have e: "sr_timestamp r @ ''.'' @ sr_method r @ ''.'' @ sr_path r @ ''.'' @ sr_bodyHash r =
        sr_timestamp r' @ ''.'' @ sr_method r' @ ''.'' @ sr_path r' @ ''.'' @ sr_bodyHash r'"
      using assms(3) by (simp add: string_to_sign_def buildPartnerAPIKeyStringToSign_def)
    have dot: "\<not> is_dec CHR ''.''" "\<not> is_upper CHR ''.''" by (simp_all add: is_dec_def is_upper_def)
    have s1: "sr_timestamp r = sr_timestamp r' \<and> ''.'' @ sr_method r @ ''.'' @ sr_path r @ ''.'' @ sr_bodyHash r = ''.'' @ sr_method r' @ ''.'' @ sr_path r' @ ''.'' @ sr_bodyHash r'"
      by (rule append_classes_eq [of is_dec]) (use assms(1,2) dot e in \<open>auto simp: canonical_request_def\<close>)
    then have "sr_method r @ ''.'' @ sr_path r @ ''.'' @ sr_bodyHash r = sr_method r' @ ''.'' @ sr_path r' @ ''.'' @ sr_bodyHash r'" by simp
    then have "sr_method r = sr_method r' \<and> ''.'' @ sr_path r @ ''.'' @ sr_bodyHash r = ''.'' @ sr_path r' @ ''.'' @ sr_bodyHash r'"
      by (intro append_classes_eq [of is_upper]) (use assms(1,2) dot in \<open>auto simp: canonical_request_def\<close>)
    then show ?thesis using s1 tail [of "''.''"] by simp
  qed
qed

lemma try_keys_None:
  "fst (try_keys D E s signature ks t) = None \<longleftrightarrow>
   (\<exists>k\<in>set ks. key_IsActive k \<and> (\<exists>secret. key_decrypt D (key_SecretEncrypted k) = Inr secret \<and> hmacSha256Hex D secret s = signature))"
  by (induction ks) (auto split: sum.splits)

lemma ValidateSignatureForJWT_None:
  assumes "\<And>rs. set (ord rs) = set rs"
  shows "fst (ValidateSignatureForJWT D ord E t userID r) = None \<longleftrightarrow>
    check_timestamp (ke_now E) (sr_timestamp r) = None \<and> ke_find E = None \<and>
    (\<exists>m\<in>set t. krow_UserID m = userID \<and> krow_DeletedAt m = None \<and> krow_IsActive m \<and>
       (\<exists>secret. key_decrypt D (krow_SecretEncrypted m) = Inr secret \<and>
          sr_signature r = hmacSha256Hex D secret (string_to_sign buildLegacyAPIKeyStringToSign r)))"
proof -
  have "ord rs = [] \<longleftrightarrow> rs = []" for rs using assms [of rs] by (metis set_empty)
  then show ?thesis
    by (auto simp: ValidateSignatureForJWT_def FindByUserID_def try_keys_None assms select_where_def apikey_toEntity_def
        filter_empty_conv split: option.splits)
qed

subsection \<open>Instances\<close>

text \<open>A key of user 5 whose hash functions return their input, and a cipher that hides nothing.\<close>

definition sample_keys :: key_deps where
  "sample_keys =
     \<lparr>kd_json = \<lparr>json_Parse = (\<lambda>s. Some JNull), json_Print = (\<lambda>v. ''null'')\<rparr>, kd_gcm = plain_gcm, kd_sha256 = (\<lambda>b. b), kd_hmac = (\<lambda>k m. k @ m),
      kd_key = replicate 32 1\<rparr>"

definition sample_create_env :: create_key_env where
  "sample_create_env =
     \<lparr>ce_key = Inr [1], ce_secret = Inr [2], ce_nonce = Inr (replicate 12 0), ce_id = 8, ce_created = 3, ce_updated = 3, ce_now = 3, ce_fault = None\<rparr>"

definition sample_key_env :: key_env where
  "sample_key_env = \<lparr>ke_now = 0, ke_used = 0, ke_updated = 0, ke_find = None, ke_update = None, ke_user = None\<rparr>"

definition sample_signed :: "string \<Rightarrow> signed_request" where
  "sample_signed s = \<lparr>sr_signature = s, sr_timestamp = ''7'', sr_method = ''GET'', sr_path = ''/v1'', sr_bodyHash = replicate 64 CHR ''a''\<rparr>"

lemma sample_key_created:
  "case CreateApiKey sample_keys sample_create_env [] 5 \<lparr>cak_Name = ''k'', cak_Permissions = None\<rparr> of
     (Inr resp, t') \<Rightarrow> akr_ApiKey resp = ''pk_live_01'' \<and> akr_SecretKey resp = ''sk_live_02'' | _ \<Rightarrow> False"
  "check_timestamp (ke_now sample_key_env) (sr_timestamp (sample_signed s)) = None"
  by code_simp+

theorem api_key_lifecycle_witness:
  "\<exists>resp t' t2 u. CreateApiKey sample_keys sample_create_env [] 5 \<lparr>cak_Name = ''k'', cak_Permissions = None\<rparr> = (Inr resp, t') \<and>
     fst (ValidateApiKey sample_keys sample_key_env [sample_user_row] t' (akr_ApiKey resp) (sample_signed ''x'')) = Inl (Unauthorized ''invalid signature'') \<and>
     RevokeApiKey sample_keys None None 9 t' 5 (akr_ID resp) = (None, t2) \<and>
     fst (ValidateApiKey sample_keys sample_key_env [sample_user_row] t2 (akr_ApiKey resp) (sample_signed ''x'')) = Inl (Unauthorized ''invalid api key'')"
proof -
  obtain resp t' where c: "CreateApiKey sample_keys sample_create_env [] 5 \<lparr>cak_Name = ''k'', cak_Permissions = None\<rparr> = (Inr resp, t')"
      and sk: "akr_SecretKey resp = ''sk_live_02''"
    using sample_key_created(1) by (auto split: prod.splits sum.splits)
  have G: "gcm_ok (kd_gcm sample_keys)" "ce_nonce sample_create_env = Inr (replicate 12 0)" "length (replicate 12 (0::byte)) = NonceSize"
    using plain_gcm_ok by (simp_all add: sample_keys_def sample_create_env_def NonceSize_def)
  have u: "sample_user_row \<in> set [sample_user_row]" "urow_ID sample_user_row = 5" "urow_DeletedAt sample_user_row = None" "(5::uuid) \<noteq> uuid_Nil"
    by (simp_all add: sample_user_row_def)
  have F: "ke_find sample_key_env = None" "ke_user sample_key_env = None" by (simp_all add: sample_key_env_def)
  have sig: "sr_signature (sample_signed ''x'') \<noteq> hmacSha256Hex sample_keys (akr_SecretKey resp) (string_to_sign buildLegacyAPIKeyStringToSign (sample_signed ''x''))"
    unfolding sk by code_simp
  have d: "distinct (map krow_KeyHash [])" "distinct (map krow_ID [])" "distinct (map urow_ID [sample_user_row])" by simp_all
  from api_key_lifecycle [OF G c d u F sample_key_created(2) [of "''x''"], of buildLegacyAPIKeyStringToSign 9] c sig show ?thesis
    unfolding ValidateApiKey_def by auto
qed

theorem api_key_accepted_iff_witness:
  "\<exists>t'. ValidatePartnerApiKey sample_keys sample_key_env [] [] ''pk'' (sample_signed ''x'') = (Inl (Unauthorized ''invalid api key''), t') \<and> t' = []"
proof -
  obtain res t' where v: "validateAPIKeyWithCanonicalString sample_keys sample_key_env buildPartnerAPIKeyStringToSign [] [] ''pk'' (sample_signed ''x'') = (res, t')"
    by fastforce
  have E: "ke_find sample_key_env = None" "ke_user sample_key_env = None" "0 \<le> unix (ke_now sample_key_env)" "unix (ke_now sample_key_env) < 2 ^ 62"
      "distinct (map krow_KeyHash [])" "distinct (map urow_ID [])" "distinct (map krow_ID [])"
    by (simp_all add: sample_key_env_def unix_def)
  have "t' = []" using api_key_accepted_iff [OF E v] by simp
  moreover have "res = Inl (Unauthorized ''invalid api key'')" using v sample_key_created(2) [of "''x''"] E(1)
    by (simp add: validateAPIKeyWithCanonicalString_def FindByKeyHash_def first_by_def select_where_def)
  ultimately show ?thesis using v by (simp add: ValidatePartnerApiKey_def)
qed

theorem string_to_sign_injective_witness:
  "string_to_sign buildLegacyAPIKeyStringToSign (sample_signed ''x'') \<noteq>
   string_to_sign buildLegacyAPIKeyStringToSign ((sample_signed ''x'')\<lparr>sr_path := ''/v2''\<rparr>)"
proof -
  have "canonical_request (sample_signed ''x'')" "canonical_request ((sample_signed ''x'')\<lparr>sr_path := ''/v2''\<rparr>)"
    by code_simp+
  from string_to_sign_injective [OF this, of buildLegacyAPIKeyStringToSign] show ?thesis by (auto simp: sample_signed_def)
qed

end
