(* ===== verification/Http_Guards.thy ===== *)
theory Http_Guards
  imports Api_Keys "HOL-Library.AList" "HOL-Library.List_Lexorder"
begin

text \<open>
  The guards in front of the handlers (\<^verbatim>\<open>internal/interfaces/http/middleware\<close>): authentication by session, token or
  API key (\<^verbatim>\<open>auth.go\<close>, \<^verbatim>\<open>dual_auth.go\<close>, \<^verbatim>\<open>apikey_partner_middleware.go\<close>), idempotency keys, rate limits, audit
  log and the log of deprecated endpoints. A guard lets the request proceed with new context
  values or ends it with a status and a message. Headers are read by their canonical names.
\<close>

subsection \<open>Requests and their context\<close>

datatype ctx_value = CUUID uuid | CText string | CBool bool

type_synonym gin_keys = "string \<rightharpoonup> ctx_value"

record http_request =
  hq_header :: "string \<Rightarrow> string"
  hq_method :: string
  hq_uri :: string
  hq_path :: string
  hq_body :: "byte list result option"
  hq_clientIP :: string

datatype guard = Proceed gin_keys | Abort int string

definition UserIDKey :: string where "UserIDKey = ''userId''"
definition UserEmailKey :: string where "UserEmailKey = ''userEmail''"
definition UserRoleKey :: string where "UserRoleKey = ''userRole''"
definition MerchantIDKey :: string where "MerchantIDKey = ''merchantId''"
definition IsMerchantAuthenticatedKey :: string where "IsMerchantAuthenticatedKey = ''isMerchantAuthenticated''"

lemmas ctx_keys = UserIDKey_def UserEmailKey_def UserRoleKey_def MerchantIDKey_def IsMerchantAuthenticatedKey_def

definition set_user :: "uuid \<Rightarrow> string \<Rightarrow> string \<Rightarrow> gin_keys \<Rightarrow> gin_keys" where
  "set_user userID email role c = c(UserIDKey \<mapsto> CUUID userID, UserEmailKey \<mapsto> CText email, UserRoleKey \<mapsto> CText role)"

definition set_merchant :: "uuid \<Rightarrow> gin_keys \<Rightarrow> gin_keys" where
  "set_merchant k c = c(MerchantIDKey \<mapsto> CUUID k, IsMerchantAuthenticatedKey \<mapsto> CBool True)"

text \<open>A type assertion that does not hold panics.\<close>

definition GetUserID :: "gin_keys \<Rightarrow> (uuid \<times> bool) result" where
  "GetUserID c =
     (case c UserIDKey of
        None \<Rightarrow> Inr (uuid_Nil, False)
      | Some (CUUID k) \<Rightarrow> Inr (k, True)
      | Some _ \<Rightarrow> Inl (ErrorString ''interface conversion''))"

definition GetUserRole :: "gin_keys \<Rightarrow> (string \<times> bool) result" where
  "GetUserRole c =
     (case c UserRoleKey of
        None \<Rightarrow> Inr ([], False)
      | Some (CText s) \<Rightarrow> Inr (s, True)
      | Some _ \<Rightarrow> Inl (ErrorString ''interface conversion''))"

definition GetUserEmail :: "gin_keys \<Rightarrow> (string \<times> bool) result" where
  "GetUserEmail c =
     (case c UserEmailKey of
        None \<Rightarrow> Inr ([], False)
      | Some (CText s) \<Rightarrow> Inr (s, True)
      | Some _ \<Rightarrow> Inl (ErrorString ''interface conversion''))"

subsection \<open>Sessions, tokens and roles\<close>

text \<open>The services of the guards: the proxy secret of the environment, the token service and the session store.\<close>

record guard_deps =
  gd_secret :: string
  gd_jwt :: jwt_lib
  gd_service :: JWTService
  gd_store :: "session_store option"
  gd_keys :: key_deps
  gd_merchants :: bool

definition IsTrustedProxyRequest :: "guard_deps \<Rightarrow> http_request \<Rightarrow> bool" where
  "IsTrustedProxyRequest G r \<longleftrightarrow> gd_secret G = [] \<or> hq_header r ''X-Internal-Proxy-Secret'' = gd_secret G"

definition session_token :: "guard_deps \<Rightarrow> fault \<Rightarrow> time \<Rightarrow> redis \<Rightarrow> http_request \<Rightarrow> string option" where
  "session_token G flt now m r =
     (let sessionID = hq_header r ''X-Session-Id'' in
      case gd_store G of
        Some S \<Rightarrow>
          if sessionID \<noteq> [] \<and> IsTrustedProxyRequest G r then
            (case store_GetSession S flt now m sessionID of Inr d \<Rightarrow> Some (sd_AccessToken d) | Inl _ \<Rightarrow> None)
          else None
      | None \<Rightarrow> None)"

definition bearer_token :: "http_request \<Rightarrow> string" where
  "bearer_token r =
     (let authHeader = hq_header r ''Authorization'' in
      if authHeader \<noteq> [] \<and> HasPrefix authHeader ''Bearer '' then TrimPrefix authHeader ''Bearer '' else [])"

definition request_token :: "guard_deps \<Rightarrow> string option \<Rightarrow> http_request \<Rightarrow> string" where
  "request_token G session r =
     (let token = (case session of Some tok \<Rightarrow> tok | None \<Rightarrow> []) in
      if token = [] \<and> gd_secret G = [] then bearer_token r else token)"

definition token_message :: "gerror \<Rightarrow> string" where
  "token_message e = (if e = ErrExpiredToken then ''Token has expired'' else ''Invalid token'')"

definition AuthMiddleware :: "guard_deps \<Rightarrow> fault \<Rightarrow> time \<Rightarrow> redis \<Rightarrow> http_request \<Rightarrow> gin_keys \<Rightarrow> guard" where
  "AuthMiddleware G flt now m r c =
     (let token = request_token G (session_token G flt now m r) r in
      if token = [] then Abort 401 ''Authentication required''
      else
        (case ValidateToken (gd_jwt G) (gd_service G) now token of
           Inl e \<Rightarrow> Abort 401 (token_message e)
         | Inr claims \<Rightarrow> Proceed (set_user (cl_UserID claims) (cl_Email claims) (cl_Role claims) c)))"

definition RequireRole :: "string list \<Rightarrow> gin_keys \<Rightarrow> guard result" where
  "RequireRole roles c =
     map_sum (\<lambda>e. e)
       (\<lambda>(userRole, exists). if \<not> exists then Abort 401 ''User role not found''
          else if userRole \<in> set roles then Proceed c else Abort 403 ''Insufficient permissions'')
       (GetUserRole c)"

definition RequireAdmin :: "gin_keys \<Rightarrow> guard result" where "RequireAdmin = RequireRole [''ADMIN'']"
definition RequireAdminOrSubAdmin :: "gin_keys \<Rightarrow> guard result" where "RequireAdminOrSubAdmin = RequireRole [''ADMIN'', ''SUB_ADMIN'']"

subsection \<open>API keys and tokens with signatures\<close>

definition body_bytes :: "http_request \<Rightarrow> byte list result" where
  "body_bytes r = (case hq_body r of None \<Rightarrow> Inr [] | Some b \<Rightarrow> b)"

definition signed_part :: "guard_deps \<Rightarrow> http_request \<Rightarrow> byte list \<Rightarrow> string \<Rightarrow> string \<Rightarrow> signed_request" where
  "signed_part G r body signature timestamp =
     \<lparr>sr_signature = signature, sr_timestamp = timestamp, sr_method = hq_method r, sr_path = hq_uri r, sr_bodyHash = sha256Hex (gd_keys G) body\<rparr>"

definition shouldResolveMerchantContext :: "string \<Rightarrow> bool" where
  "shouldResolveMerchantContext path =
     (let normalized = ToLower (TrimSpace path) in
      normalized \<noteq> [] \<and> (HasPrefix normalized ''/api/v1/merchants/'' \<or> HasPrefix normalized ''/api/v1/create-payment''))"

text \<open>Clock, faults and tables of one request; checking a signature writes the time the key was used.\<close>

record guard_env =
  ge_now :: time
  ge_redis :: redis
  ge_session :: fault
  ge_key :: key_env
  ge_merchant :: fault
  ge_users :: "user_row table"
  ge_merchantRows :: "merchant_row table"
  ge_keyOrder :: "key_row orderer"

definition with_merchant :: "guard_env \<Rightarrow> uuid \<Rightarrow> gin_keys \<Rightarrow> gin_keys" where
  "with_merchant E userID c =
     (case merchant_GetByUserID (ge_merchant E) (ge_merchantRows E) userID of Inr mer \<Rightarrow> set_merchant (mer_ID mer) c | Inl _ \<Rightarrow> c)"

definition api_key_path :: "guard_deps \<Rightarrow> guard_env \<Rightarrow> key_row table \<Rightarrow> string \<Rightarrow> signed_request \<Rightarrow> gin_keys \<Rightarrow> guard \<times> key_row table" where
  "api_key_path G E t apiKey s c =
     (case ValidateApiKey (gd_keys G) (ge_key E) (ge_users E) t apiKey s of
        (Inl _, t') \<Rightarrow> (Abort 401 ''Invalid API Key or Signature'', t')
      | (Inr user, t') \<Rightarrow>
          (Proceed (set_user (user_ID user) (user_Email user) (role_string (user_Role user)) (with_merchant E (user_ID user) c)), t'))"

definition jwt_path ::
  "guard_deps \<Rightarrow> guard_env \<Rightarrow> key_row table \<Rightarrow> http_request \<Rightarrow> bool \<Rightarrow> string \<Rightarrow> signed_request \<Rightarrow> gin_keys \<Rightarrow> guard \<times> key_row table" where
  "jwt_path G E t r fromSession token s c =
     (case ValidateToken (gd_jwt G) (gd_service G) (ge_now E) token of
        Inl e \<Rightarrow> (Abort 401 (token_message e), t)
      | Inr claims \<Rightarrow>
          let given = sr_signature s \<noteq> [] \<and> sr_timestamp s \<noteq> [] in
          if \<not> fromSession \<and> \<not> given then (Abort 401 ''Signature and timestamp are required for JWT requests'', t)
          else
            let (err, t') = (if given then ValidateSignatureForJWT (gd_keys G) (ge_keyOrder E) (ge_key E) t (cl_UserID claims) s else (None, t)) in
            if err \<noteq> None then (Abort 401 ''Invalid Signature for JWT user'', t')
            else
              let c' = set_user (cl_UserID claims) (cl_Email claims) (cl_Role claims) c in
              (Proceed (if gd_merchants G \<and> shouldResolveMerchantContext (hq_path r) then with_merchant E (cl_UserID claims) c' else c'), t'))"

definition DualAuthMiddleware :: "guard_deps \<Rightarrow> guard_env \<Rightarrow> key_row table \<Rightarrow> http_request \<Rightarrow> gin_keys \<Rightarrow> guard \<times> key_row table" where
  "DualAuthMiddleware G E t r c =
     (case body_bytes r of
        Inl _ \<Rightarrow> (Abort 400 ''Failed to read request body'', t)
      | Inr body \<Rightarrow>
          let apiKey = hq_header r ''X-Api-Key'';
              s = signed_part G r body (hq_header r ''X-Signature'') (hq_header r ''X-Timestamp'') in
          if apiKey \<noteq> [] \<and> sr_signature s \<noteq> [] \<and> sr_timestamp s \<noteq> [] then api_key_path G E t apiKey s c
          else
            let session = session_token G (ge_session E) (ge_now E) (ge_redis E) r;
                token = request_token G session r in
            if token \<noteq> [] then jwt_path G E t r (session \<noteq> None) token s c
            else (Abort 401 ''Authentication required (JWT or API Key)'', t))"

definition ApiKeyPartnerMiddleware :: "guard_deps \<Rightarrow> guard_env \<Rightarrow> key_row table \<Rightarrow> http_request \<Rightarrow> gin_keys \<Rightarrow> guard \<times> key_row table" where
  "ApiKeyPartnerMiddleware G E t r c =
     (let apiKey = hq_header r ''X-PK-Key'';
          signature = hq_header r ''X-PK-Signature'';
          timestamp = hq_header r ''X-PK-Timestamp'' in
      if apiKey = [] \<or> signature = [] \<or> timestamp = [] then (Abort 401 ''missing partner auth headers'', t)
      else
        (case body_bytes r of
           Inl _ \<Rightarrow> (Abort 400 ''Failed to read request body'', t)
         | Inr body \<Rightarrow>
             (case ValidatePartnerApiKey (gd_keys G) (ge_key E) (ge_users E) t apiKey (signed_part G r body signature timestamp) of
                (Inl _, t') \<Rightarrow> (Abort 401 ''Invalid partner API key or signature'', t')
              | (Inr user, t') \<Rightarrow>
                  (case merchant_GetByUserID (ge_merchant E) (ge_merchantRows E) (user_ID user) of
                     Inl _ \<Rightarrow> (Abort 403 ''merchant account required'', t')
                   | Inr mer \<Rightarrow>
                       (Proceed (set_merchant (mer_ID mer) (set_user (user_ID user) (user_Email user) (role_string (user_Role user)) c)), t')))))"


subsection \<open>Idempotency keys\<close>

definition IdempotencyTTL :: int where "IdempotencyTTL = 24 * 60 * minute"
definition MaxIdempotencyKeyLength :: nat where "MaxIdempotencyKeyLength = 256"

record http_response =
  rs_status :: int
  rs_body :: string

text \<open>The values are asserted to be strings.\<close>

definition ctx_string :: "gin_keys \<Rightarrow> string \<Rightarrow> string result" where
  "ctx_string c k =
     (case c k of None \<Rightarrow> Inr [] | Some (CText s) \<Rightarrow> Inr s | Some _ \<Rightarrow> Inl (ErrorString ''interface conversion''))"

definition generateRequestFingerprint :: "key_deps \<Rightarrow> http_request \<Rightarrow> gin_keys \<Rightarrow> string \<Rightarrow> string result" where
  "generateRequestFingerprint D r c idempotencyKey =
     (case ctx_string c ''MerchantID'' of
        Inl e \<Rightarrow> Inl e
      | Inr merchantID \<Rightarrow>
          map_sum (\<lambda>e. e) (\<lambda>userID. sha256Hex D (bytes_of (idempotencyKey @ ''|'' @ hq_path r @ ''|'' @ merchantID @ ''|'' @ userID)))
            (ctx_string c ''UserID''))"

text \<open>
  The guard in two halves, before and after the handler runs. \<open>Answered\<close> ends the request with the
  given response, \<open>Unguarded\<close> runs the handler without a lock, \<open>Locked\<close> runs it under the lock of
  its fingerprint. Of the responses the guard itself gives, the body stands for the error message in it.
\<close>

datatype idem_start = Panicked gerror | Answered http_response | Unguarded | Locked string

definition lock_key :: "string \<Rightarrow> string" where "lock_key fingerprint = ''idem:lock:'' @ fingerprint"
definition cache_key :: "string \<Rightarrow> string" where "cache_key fingerprint = ''idem:cache:'' @ fingerprint"

definition idem_begin :: "key_deps \<Rightarrow> fault \<Rightarrow> fault \<Rightarrow> time \<Rightarrow> redis \<Rightarrow> http_request \<Rightarrow> gin_keys \<Rightarrow> idem_start \<times> redis" where
  "idem_begin D flt1 flt2 now m r c =
     (let key = hq_header r ''X-PK-Idempotency-Key'' in
      if key = [] then (Unguarded, m)
      else if length key > MaxIdempotencyKeyLength then (Answered \<lparr>rs_status = 400, rs_body = ''Idempotency key too long''\<rparr>, m)
      else
        (case generateRequestFingerprint D r c key of
           Inl e \<Rightarrow> (Panicked e, m)
         | Inr fingerprint \<Rightarrow>
             (case redis_SetNX flt1 now m (lock_key fingerprint) ''1'' IdempotencyTTL of
                (Inl _, m') \<Rightarrow> (Unguarded, m')
              | (Inr True, m') \<Rightarrow> (Locked fingerprint, m')
              | (Inr False, m') \<Rightarrow>
                  (case redis_Get flt2 now m' (cache_key fingerprint) of
                     Inr cached \<Rightarrow>
                       if cached \<noteq> [] then (Answered \<lparr>rs_status = 200, rs_body = cached\<rparr>, m')
                       else (Answered \<lparr>rs_status = 409, rs_body = ''Duplicate request detected''\<rparr>, m')
                   | Inl _ \<Rightarrow> (Answered \<lparr>rs_status = 409, rs_body = ''Duplicate request detected''\<rparr>, m')))))"

definition idem_finish :: "fault \<Rightarrow> fault \<Rightarrow> time \<Rightarrow> redis \<Rightarrow> string \<Rightarrow> http_response \<Rightarrow> redis" where
  "idem_finish flt1 flt2 now m fingerprint resp =
     (let m' = (if 200 \<le> rs_status resp \<and> rs_status resp < 300 \<and> rs_body resp \<noteq> [] then
                  snd (redis_Set flt1 now m (cache_key fingerprint) (rs_body resp) IdempotencyTTL) else m) in
      snd (redis_Del flt2 m' (lock_key fingerprint)))"

text \<open>The whole guard around a handler that changes a state \<open>'s\<close>.\<close>

definition IdempotencyMiddleware ::
  "key_deps \<Rightarrow> time \<Rightarrow> time \<Rightarrow> ('s \<Rightarrow> http_response \<times> 's) \<Rightarrow> http_request \<Rightarrow> gin_keys \<Rightarrow> redis \<Rightarrow> 's \<Rightarrow> http_response result \<times> redis \<times> 's" where
  "IdempotencyMiddleware D t0 t1 handler r c m s =
     (case idem_begin D None None t0 m r c of
        (Panicked e, m') \<Rightarrow> (Inl e, m', s)
      | (Answered resp, m') \<Rightarrow> (Inr resp, m', s)
      | (Unguarded, m') \<Rightarrow> (let (resp, s') = handler s in (Inr resp, m', s'))
      | (Locked fingerprint, m') \<Rightarrow> (let (resp, s') = handler s in (Inr resp, idem_finish None None t1 m' fingerprint resp, s')))"

fun key_char_ok :: "nat \<Rightarrow> bool" where
  "key_char_ok c \<longleftrightarrow> (97 \<le> c \<and> c \<le> 122) \<or> (65 \<le> c \<and> c \<le> 90) \<or> (48 \<le> c \<and> c \<le> 57) \<or> c = 45 \<or> c = 95"

definition ErrIdempotencyKeyTooLong :: gerror where "ErrIdempotencyKeyTooLong = ErrorString ''idempotency key too long''"
definition ErrIdempotencyKeyInvalidChar :: gerror where
  "ErrIdempotencyKeyInvalidChar = ErrorString ''idempotency key contains invalid characters''"

definition ValidateIdempotencyKey :: "string \<Rightarrow> gerror option" where
  "ValidateIdempotencyKey key =
     (if key = [] then None
      else if length key > MaxIdempotencyKeyLength then Some ErrIdempotencyKeyTooLong
      else if \<not> list_all key_char_ok (string_runes key) then Some ErrIdempotencyKeyInvalidChar
      else None)"

definition GenerateIdempotencyKey :: "key_deps \<Rightarrow> string \<Rightarrow> string" where
  "GenerateIdempotencyKey D clock = ''idem_'' @ EncodeToString (take 16 (kd_sha256 D (bytes_of clock)))"

subsection \<open>Rate limits and the audit log\<close>

text \<open>Counters of the key-value store: a value and, once it was set, the end of its life.\<close>

type_synonym counters = "string \<rightharpoonup> int \<times> time option"

definition counter_live :: "time \<Rightarrow> counters \<Rightarrow> string \<Rightarrow> (int \<times> time option) option" where
  "counter_live now m k =
     (case m k of Some (n, Some until) \<Rightarrow> if now < until then Some (n, Some until) else None | x \<Rightarrow> x)"

definition redis_Incr :: "fault \<Rightarrow> time \<Rightarrow> counters \<Rightarrow> string \<Rightarrow> int result \<times> counters" where
  "redis_Incr flt now m k =
     (case flt of
        Some e \<Rightarrow> (Inl e, m)
      | None \<Rightarrow>
          (case counter_live now m k of
             None \<Rightarrow> (Inr 1, m(k \<mapsto> (1, None)))
           | Some (n, ttl) \<Rightarrow> (Inr (n + 1), m(k \<mapsto> (n + 1, ttl)))))"

definition redis_Expire :: "fault \<Rightarrow> time \<Rightarrow> counters \<Rightarrow> string \<Rightarrow> int \<Rightarrow> counters" where
  "redis_Expire flt now m k period =
     (case flt of
        Some _ \<Rightarrow> m
      | None \<Rightarrow> (case counter_live now m k of None \<Rightarrow> m | Some (n, _) \<Rightarrow> m(k \<mapsto> (n, Some (now + period)))))"

definition RateLimitMiddleware :: "string \<Rightarrow> int \<Rightarrow> int \<Rightarrow> fault \<Rightarrow> fault \<Rightarrow> time \<Rightarrow> http_request \<Rightarrow> gin_keys \<Rightarrow> counters \<Rightarrow> guard \<times> counters" where
  "RateLimitMiddleware ident limit period flt1 flt2 now r c m =
     (if ident = [] then (Proceed c, m)
      else
        let key = ''rate_limit:'' @ hq_path r @ '':'' @ ident in
        (case redis_Incr flt1 now m key of
           (Inl _, m') \<Rightarrow> (Proceed c, m')
         | (Inr cnt, m') \<Rightarrow>
             let m'' = (if cnt = 1 then redis_Expire flt2 now m' key period else m') in
             (if cnt > limit then Abort 429 ''Too many requests'' else Proceed c, m'')))"

definition UserIDIdentifier :: "uuid_lib \<Rightarrow> http_request \<Rightarrow> gin_keys \<Rightarrow> string" where
  "UserIDIdentifier U r c = (case c UserIDKey of Some (CUUID k) \<Rightarrow> uuid_String U k | Some (CText s) \<Rightarrow> s | Some (CBool b) \<Rightarrow> (if b then ''true'' else ''false'') | None \<Rightarrow> hq_clientIP r)"

definition IPIdentifier :: "http_request \<Rightarrow> string" where "IPIdentifier r = hq_clientIP r"

record AuditLog =
  al_ID :: uuid
  al_MerchantID :: uuid
  al_Path :: string
  al_Method :: string
  al_StatusCode :: int
  al_IPAddress :: string

text \<open>The entry written after the request, when there is one.\<close>

definition AuditMiddleware :: "uuid \<Rightarrow> fault \<Rightarrow> http_request \<Rightarrow> gin_keys \<Rightarrow> int \<Rightarrow> AuditLog list \<Rightarrow> AuditLog list" where
  "AuditMiddleware newID flt r c status logs =
     (case c ''MerchantID'' of
        Some (CUUID k) \<Rightarrow>
          (case flt of
             None \<Rightarrow> logs @ [\<lparr>al_ID = newID, al_MerchantID = k, al_Path = hq_path r, al_Method = hq_method r, al_StatusCode = status, al_IPAddress = hq_clientIP r\<rparr>]
           | Some _ \<Rightarrow> logs)
      | _ \<Rightarrow> logs)"

definition RequestIDMiddleware :: "string \<Rightarrow> http_request \<Rightarrow> gin_keys \<Rightarrow> gin_keys" where
  "RequestIDMiddleware newID r c = (let i = hq_header r ''X-Request-Id'' in c(''request_id'' \<mapsto> CText (if i = [] then newID else i)))"

subsection \<open>Deprecated endpoints\<close>

definition LegacyModeWarn :: string where "LegacyModeWarn = ''warn''"
definition LegacyModeDisabled :: string where "LegacyModeDisabled = ''disabled''"

definition NormalizeLegacyMode :: "string \<Rightarrow> string" where
  "NormalizeLegacyMode mode = (if mode = LegacyModeDisabled then LegacyModeDisabled else LegacyModeWarn)"

record legacyEndpointObservation =
  lo_Replacement :: string
  lo_SunsetAt :: time
  lo_Mode :: string
  lo_TotalHits :: int
  lo_LastSeenAt :: "time option"
  lo_MerchantHits :: "(string \<times> int) list"

text \<open>The store is a Go map; its entries are kept as an association list with distinct keys.\<close>

type_synonym observations = "(string \<times> legacyEndpointObservation) list"

definition add_hit :: "string \<Rightarrow> (string \<times> int) list \<Rightarrow> (string \<times> int) list" where
  "add_hit k hits = AList.update k ((case map_of hits k of Some n \<Rightarrow> n | None \<Rightarrow> 0) + 1) hits"

definition recordLegacyEndpointHit :: "time \<Rightarrow> string \<Rightarrow> string \<Rightarrow> time \<Rightarrow> string \<Rightarrow> string \<Rightarrow> observations \<Rightarrow> observations" where
  "recordLegacyEndpointHit now endpointFamily replacement sunsetAt mode merchantID st =
     (if endpointFamily = [] then st
      else
        let merchantID = (if merchantID = [] then ''unknown'' else merchantID);
            mode = NormalizeLegacyMode mode;
            entry = (case map_of st endpointFamily of
                       Some e \<Rightarrow> e
                     | None \<Rightarrow> \<lparr>lo_Replacement = replacement, lo_SunsetAt = sunsetAt, lo_Mode = mode, lo_TotalHits = 0, lo_LastSeenAt = None, lo_MerchantHits = []\<rparr>) in
        AList.update endpointFamily
          (entry\<lparr>lo_Replacement := replacement, lo_SunsetAt := sunsetAt, lo_Mode := mode, lo_TotalHits := lo_TotalHits entry + 1, lo_LastSeenAt := Some now,
                 lo_MerchantHits := add_hit merchantID (lo_MerchantHits entry)\<rparr>) st)"

record DeprecationOptions =
  do_Replacement :: string
  do_Sunset :: time
  do_EndpointFamily :: string
  do_Mode :: string

definition DeprecationMiddleware :: "uuid_lib \<Rightarrow> DeprecationOptions \<Rightarrow> time \<Rightarrow> gin_keys \<Rightarrow> observations \<Rightarrow> guard \<times> observations" where
  "DeprecationMiddleware U opts now c st =
     (let mode = NormalizeLegacyMode (do_Mode opts);
          merchantID = (case c MerchantIDKey of Some (CUUID k) \<Rightarrow> uuid_String U k | _ \<Rightarrow> []);
          st' = recordLegacyEndpointHit now (do_EndpointFamily opts) (do_Replacement opts) (do_Sunset opts) mode merchantID st in
      (if mode = LegacyModeDisabled then Abort 410 ''legacy endpoint has been disabled'' else Proceed c, st'))"

record observability_summary =
  os_TrackedEndpoints :: int
  os_TotalHits :: int
  os_LastSeenAt :: "time option"

definition add_observation :: "legacyEndpointObservation \<Rightarrow> observability_summary \<Rightarrow> observability_summary" where
  "add_observation e s =
     s\<lparr>os_TrackedEndpoints := os_TrackedEndpoints s + 1, os_TotalHits := os_TotalHits s + lo_TotalHits e,
       os_LastSeenAt := (case (lo_LastSeenAt e, os_LastSeenAt s) of
                           (Some t, None) \<Rightarrow> Some t
                         | (Some t, Some u) \<Rightarrow> if t > u then Some t else Some u
                         | (None, u) \<Rightarrow> u)\<rparr>"

text \<open>Most hits first, then by name. The iteration order of the map (\<open>perm\<close>) is not specified.\<close>

definition GetLegacyEndpointObservabilitySnapshot ::
  "(observations \<Rightarrow> observations) \<Rightarrow> observations \<Rightarrow> observability_summary \<times> observations" where
  "GetLegacyEndpointObservabilitySnapshot perm st =
     (fold (\<lambda>(k, e). add_observation e) (perm st) \<lparr>os_TrackedEndpoints = 0, os_TotalHits = 0, os_LastSeenAt = None\<rparr>,
      sort_key (\<lambda>(k, e). (- lo_TotalHits e, map of_char k :: nat list)) (perm st))"


subsection \<open>Who is let in\<close>

text \<open>A request is signed by a user when a live, active key of that user signs its time stamp, method, target and body.\<close>

definition signed_by :: "guard_deps \<Rightarrow> guard_env \<Rightarrow> key_row table \<Rightarrow> http_request \<Rightarrow> byte list \<Rightarrow> uuid \<Rightarrow> bool" where
  "signed_by G E t r body user \<longleftrightarrow>
     (\<exists>ts. ParseInt64 (hq_header r ''X-Timestamp'') = Some ts \<and> \<bar>unix (ke_now (ge_key E)) - ts\<bar> \<le> 300) \<and>
     (\<exists>m\<in>set t. krow_UserID m = user \<and> krow_DeletedAt m = None \<and> krow_IsActive m \<and>
       (\<exists>secret. key_decrypt (gd_keys G) (krow_SecretEncrypted m) = Inr secret \<and>
          hq_header r ''X-Signature'' = hmacSha256Hex (gd_keys G) secret
            (buildLegacyAPIKeyStringToSign (hq_header r ''X-Timestamp'') (hq_method r) (hq_uri r) (sha256Hex (gd_keys G) body))))"

lemma validate_without_faults:
  assumes "fst (validateAPIKeyWithCanonicalString D E build us t apiKey r) = Inr u"
  shows "fst (validateAPIKeyWithCanonicalString D (E\<lparr>ke_find := None, ke_user := None\<rparr>) build us t apiKey r) = Inr u"
proof -
  have "FindByKeyHash J None t us h = Inr k" if "FindByKeyHash J flt t us h = Inr k" for J flt h k
    using that by (auto simp: FindByKeyHash_def split: option.splits)
  moreover have "user_GetByID None us k = Inr v" if "user_GetByID flt us k = Inr v" for flt k v
    using that by (auto simp: user_GetByID_def soft_get_def get_by_id_def split: option.splits)
  ultimately show ?thesis using assms
    by (auto simp: validateAPIKeyWithCanonicalString_def Let_def split: option.splits sum.splits if_splits)
qed

lemma api_key_signed:
  assumes v: "fst (ValidateApiKey (gd_keys G) (ge_key E) (ge_users E) t apiKey (signed_part G r body (hq_header r ''X-Signature'') (hq_header r ''X-Timestamp''))) = Inr u"
    and now: "0 \<le> unix (ke_now (ge_key E))" "unix (ke_now (ge_key E)) < 2 ^ 62"
    and d: "distinct (map krow_KeyHash t)" "distinct (map urow_ID (ge_users E))"
  shows "signed_by G E t r body (user_ID u)"
proof -
  have n: "0 \<le> unix (ke_now ((ge_key E)\<lparr>ke_find := None, ke_user := None\<rparr>))" "unix (ke_now ((ge_key E)\<lparr>ke_find := None, ke_user := None\<rparr>)) < 2 ^ 62"
    using now by simp_all
  have "fst (validateAPIKeyWithCanonicalString (gd_keys G) ((ge_key E)\<lparr>ke_find := None, ke_user := None\<rparr>) buildLegacyAPIKeyStringToSign (ge_users E) t apiKey
      (signed_part G r body (hq_header r ''X-Signature'') (hq_header r ''X-Timestamp''))) = Inr u"
    using validate_without_faults v by (simp add: ValidateApiKey_def)
  then show ?thesis
    using validate_iff [OF _ _ n d, of "gd_keys G" buildLegacyAPIKeyStringToSign apiKey "signed_part G r body (hq_header r ''X-Signature'') (hq_header r ''X-Timestamp'')" u]
    by (auto simp: signed_by_def signed_part_def string_to_sign_def owner_of_def user_toEntity_def)
qed

lemma jwt_signed:
  assumes "fst (ValidateSignatureForJWT (gd_keys G) ord (ge_key E) t user (signed_part G r body (hq_header r ''X-Signature'') (hq_header r ''X-Timestamp''))) = None"
    and "\<And>rs. set (ord rs) = set rs" and now: "0 \<le> unix (ke_now (ge_key E))" "unix (ke_now (ge_key E)) < 2 ^ 62"
  shows "signed_by G E t r body user"
  using assms(1) ValidateSignatureForJWT_None [OF assms(2)] check_timestamp_None [OF now, of "hq_header r ''X-Timestamp''"]
  by (auto simp: signed_by_def signed_part_def string_to_sign_def)

lemma with_merchant_user [simp]: "with_merchant E k c UserIDKey = c UserIDKey"
  by (auto simp: with_merchant_def set_merchant_def ctx_keys split: sum.splits)

lemma set_user_id [simp]: "set_user k e ro c UserIDKey = Some (CUUID k)"
  by (simp add: set_user_def ctx_keys)

text \<open>
  Property C21. Whoever passes the guard of the payment endpoints is known: the request either is signed by a live and
  active API key of the user it is attributed to, at most five minutes ago and over its method, target and body,
  or it came through the trusted proxy with a stored session and a valid token of that user.
\<close>

theorem dual_auth_sound:
  assumes run: "DualAuthMiddleware G E t r c = (Proceed c', t')" and ord: "\<forall>rs. set (ge_keyOrder E rs) = set rs"
    and now: "0 \<le> unix (ke_now (ge_key E))" "unix (ke_now (ge_key E)) < 2 ^ 62"
    and d: "distinct (map krow_KeyHash t)" "distinct (map urow_ID (ge_users E))"
  shows "\<exists>body user. body_bytes r = Inr body \<and> c' UserIDKey = Some (CUUID user) \<and>
    (signed_by G E t r body user \<or>
     IsTrustedProxyRequest G r \<and> (\<exists>S data. gd_store G = Some S \<and> store_GetSession S (ge_session E) (ge_now E) (ge_redis E) (hq_header r ''X-Session-Id'') = Inr data) \<and>
     (\<exists>token claims. ValidateToken (gd_jwt G) (gd_service G) (ge_now E) token = Inr claims \<and> cl_UserID claims = user))"
proof -
  obtain body where body: "body_bytes r = Inr body" using run by (auto simp: DualAuthMiddleware_def split: sum.splits)
  let ?s = "signed_part G r body (hq_header r ''X-Signature'') (hq_header r ''X-Timestamp'')"
  let ?session = "session_token G (ge_session E) (ge_now E) (ge_redis E) r"
  let ?token = "request_token G ?session r"
  consider (key) "api_key_path G E t (hq_header r ''X-Api-Key'') ?s c = (Proceed c', t')"
    | (jwt) "jwt_path G E t r (?session \<noteq> None) ?token ?s c = (Proceed c', t')"
    using run body by (auto simp: DualAuthMiddleware_def Let_def split: if_splits)
  then show ?thesis
  proof cases
    case key
    then obtain u where v: "fst (ValidateApiKey (gd_keys G) (ge_key E) (ge_users E) t (hq_header r ''X-Api-Key'') ?s) = Inr u"
      and c': "c' UserIDKey = Some (CUUID (user_ID u))"
      by (auto simp: api_key_path_def split: prod.splits sum.splits)
    with api_key_signed [OF v now d] body show ?thesis by blast
  next
    case jwt
    then obtain claims where cl: "ValidateToken (gd_jwt G) (gd_service G) (ge_now E) ?token = Inr claims"
        and c': "c' UserIDKey = Some (CUUID (cl_UserID claims))"
        and how: "?session \<noteq> None \<or> fst (ValidateSignatureForJWT (gd_keys G) (ge_keyOrder E) (ge_key E) t (cl_UserID claims) ?s) = None"
      by (auto simp: jwt_path_def Let_def split: sum.splits if_splits prod.splits)
    from how show ?thesis
    proof
      assume "?session \<noteq> None"
      then obtain S data where "gd_store G = Some S" "IsTrustedProxyRequest G r"
          "store_GetSession S (ge_session E) (ge_now E) (ge_redis E) (hq_header r ''X-Session-Id'') = Inr data"
        by (auto simp: session_token_def Let_def split: option.splits sum.splits if_splits)
      with body c' cl show ?thesis by blast
    next
      assume "fst (ValidateSignatureForJWT (gd_keys G) (ge_keyOrder E) (ge_key E) t (cl_UserID claims) ?s) = None"
      from jwt_signed [OF this _ now] ord body c' show ?thesis by blast
    qed
  qed
qed

text \<open>
  Also. With a proxy secret configured, the guard of the user endpoints lets a request in only when the proxy sent it
  with the secret and with a stored session whose access token is valid; a bearer token alone is never enough. The
  caller is the one the token names, and administrators' endpoints need the role it names.
\<close>

theorem strict_mode_needs_proxy:
  assumes run: "AuthMiddleware G flt now m r c = Proceed c'" and strict: "gd_secret G \<noteq> []"
  shows "\<exists>S data claims. gd_store G = Some S \<and> hq_header r ''X-Internal-Proxy-Secret'' = gd_secret G \<and>
    store_GetSession S flt now m (hq_header r ''X-Session-Id'') = Inr data \<and>
    ValidateToken (gd_jwt G) (gd_service G) now (sd_AccessToken data) = Inr claims \<and> c' UserIDKey = Some (CUUID (cl_UserID claims)) \<and>
    (RequireAdmin c' = Inr (Proceed c') \<longleftrightarrow> cl_Role claims = ''ADMIN'')"
proof -
  have "\<exists>tok. session_token G flt now m r = Some tok \<and> tok \<noteq> [] \<and> request_token G (session_token G flt now m r) r = tok"
    using run strict by (auto simp: AuthMiddleware_def request_token_def Let_def split: option.splits if_splits)
  then obtain tok where tok: "session_token G flt now m r = Some tok" "tok \<noteq> []" "request_token G (session_token G flt now m r) r = tok" by blast
  obtain S data where S: "gd_store G = Some S" "IsTrustedProxyRequest G r" "store_GetSession S flt now m (hq_header r ''X-Session-Id'') = Inr data"
      "sd_AccessToken data = tok"
    using tok(1) by (auto simp: session_token_def Let_def split: option.splits sum.splits if_splits)
  obtain claims where cl: "ValidateToken (gd_jwt G) (gd_service G) now tok = Inr claims" "c' = set_user (cl_UserID claims) (cl_Email claims) (cl_Role claims) c"
    using run tok by (auto simp: AuthMiddleware_def Let_def split: sum.splits)
  have role: "GetUserRole c' = Inr (cl_Role claims, True)" using cl(2) by (simp add: GetUserRole_def set_user_def ctx_keys)
  have "RequireAdmin c' = Inr (Proceed c') \<longleftrightarrow> cl_Role claims = ''ADMIN''" unfolding RequireAdmin_def RequireRole_def role by simp
  with S strict cl show ?thesis unfolding IsTrustedProxyRequest_def by auto
qed


subsection \<open>Concurrent and repeated requests\<close>

lemma lock_cache_key [simp]: "lock_key a \<noteq> cache_key b" "cache_key b \<noteq> lock_key a" "lock_key a = lock_key b \<longleftrightarrow> a = b"
  by (simp_all add: lock_key_def cache_key_def)

text \<open>
  Requests interleave: each begins (and runs its handler under the lock, or is answered at once) and each
  running one finishes. A handler is assumed to end within the life of its lock, a day.
\<close>

record idem_state =
  is_now :: time
  is_redis :: redis
  is_running :: "(string \<times> time) list"

inductive idem_step :: "key_deps \<Rightarrow> idem_state \<Rightarrow> idem_state \<Rightarrow> bool" for D where
  Begin_locked: "idem_begin D None None (is_now s) (is_redis s) r c = (Locked fp, m') \<Longrightarrow>
    idem_step D s (s\<lparr>is_redis := m', is_running := (fp, is_now s) # is_running s\<rparr>)"
| Begin_other: "idem_begin D None flt (is_now s) (is_redis s) r c = (st, m') \<Longrightarrow> (\<And>fp. st \<noteq> Locked fp) \<Longrightarrow> idem_step D s (s\<lparr>is_redis := m'\<rparr>)"
| Finish: "(fp, t0) \<in> set (is_running s) \<Longrightarrow>
    idem_step D s (s\<lparr>is_redis := idem_finish flt None (is_now s) (is_redis s) fp resp, is_running := remove1 (fp, t0) (is_running s)\<rparr>)"
| Tick: "is_now s \<le> now' \<Longrightarrow> (\<And>fp t0. (fp, t0) \<in> set (is_running s) \<Longrightarrow> now' < t0 + IdempotencyTTL) \<Longrightarrow> idem_step D s (s\<lparr>is_now := now'\<rparr>)"

inductive idem_reachable :: "key_deps \<Rightarrow> idem_state \<Rightarrow> bool" for D where
  Start: "is_running s = [] \<Longrightarrow> idem_reachable D s"
| Step: "idem_reachable D s \<Longrightarrow> idem_step D s s' \<Longrightarrow> idem_reachable D s'"

definition idem_inv :: "idem_state \<Rightarrow> bool" where
  "idem_inv s \<longleftrightarrow> distinct (map fst (is_running s)) \<and>
     (\<forall>(fp, t0)\<in>set (is_running s). is_redis s (lock_key fp) = Some (''1'', t0 + IdempotencyTTL) \<and> is_now s < t0 + IdempotencyTTL)"

lemma IdempotencyTTL_pos: "0 < IdempotencyTTL"
  by (simp add: IdempotencyTTL_def minute_def second_def)

lemma idem_begin_Locked:
  assumes "idem_begin D flt1 flt2 now m r c = (Locked fp, m')"
  shows "redis_live now m (lock_key fp) = None \<and> m' = m(lock_key fp \<mapsto> (''1'', now + IdempotencyTTL))"
  using assms by (auto simp: idem_begin_def redis_SetNX_def Let_def split: if_splits sum.splits option.splits prod.splits bool.splits)

lemma idem_begin_other:
  assumes "idem_begin D flt1 flt2 now m r c = (st, m')" "\<And>fp. st \<noteq> Locked fp"
  shows "m' = m"
  using assms by (auto simp: idem_begin_def redis_SetNX_def Let_def split: if_splits sum.splits option.splits prod.splits bool.splits)

lemma idem_finish_locks:
  "idem_finish flt None now m fp resp (lock_key q) = (if q = fp then None else m (lock_key q))"
  by (auto simp: idem_finish_def redis_Del_def redis_Set_def Let_def split: option.splits)

lemma idem_inv_lock:
  "idem_inv s \<Longrightarrow> (fp, t0) \<in> set (is_running s) \<Longrightarrow> is_redis s (lock_key fp) = Some (''1'', t0 + IdempotencyTTL) \<and> is_now s < t0 + IdempotencyTTL"
  by (auto simp: idem_inv_def)

lemma idem_invI:
  assumes "distinct (map fst (is_running s))"
    and "\<And>fp t0. (fp, t0) \<in> set (is_running s) \<Longrightarrow> is_redis s (lock_key fp) = Some (''1'', t0 + IdempotencyTTL) \<and> is_now s < t0 + IdempotencyTTL"
  shows "idem_inv s"
  using assms by (auto simp: idem_inv_def)

lemma idem_inv_step:
  assumes "idem_step D s s'" "idem_inv s"
  shows "idem_inv s'"
proof -
  have dist: "distinct (map fst (is_running s))" using assms(2) by (simp add: idem_inv_def)
  note lock = idem_inv_lock [OF assms(2)]
  from assms(1) show ?thesis
  proof (cases rule: idem_step.cases)
    case (Begin_locked r c fp m')
    note l = idem_begin_Locked [OF Begin_locked(2)]
    have new: "fp \<notin> fst ` set (is_running s)" using l lock by (auto simp: redis_live_def)
    show ?thesis unfolding Begin_locked(1)
    proof (rule idem_invI, goal_cases)
      case 1
      then show ?case using dist new by simp
    next
      case (2 q u)
      then show ?case using lock [of q u] l new IdempotencyTTL_pos by (auto simp: image_iff)
    qed
  next
    case (Begin_other flt r c st m')
    then show ?thesis using assms(2) idem_begin_other [OF Begin_other(2,3)] by (simp add: idem_inv_def)
  next
    case (Finish fp t0 flt resp)
    have inj: "distinct (is_running s)" "inj_on fst (set (is_running s))" using dist by (simp_all add: distinct_map)
    show ?thesis unfolding Finish(1)
    proof (rule idem_invI, goal_cases)
      case 1
      have "distinct (remove1 (fp, t0) (is_running s))" "inj_on fst (set (remove1 (fp, t0) (is_running s)))"
        using inj by (auto intro: inj_on_subset)
      then show ?case by (simp add: distinct_map)
    next
      case (2 q u)
      then have qu: "(q, u) \<in> set (is_running s)" "(q, u) \<noteq> (fp, t0)" using inj(1) by (auto simp: set_remove1_eq)
      then have "q \<noteq> fp" using inj_onD [OF inj(2), of "(q, u)" "(fp, t0)"] Finish(2) by auto
      then show ?case using lock [OF qu(1)] by (simp add: idem_finish_locks)
    qed
  next
    case (Tick now')
    then show ?thesis using dist lock by (intro idem_invI) auto
  qed
qed

lemma idem_reachable_inv: "idem_reachable D s \<Longrightarrow> idem_inv s"
proof (induction rule: idem_reachable.induct)
  case (Start s)
  then show ?case by (simp add: idem_inv_def)
qed (rule idem_inv_step)


text \<open>
  Property C24. The lock goes when the handler ends, and the cached response is read only while the lock is
  held: a request repeated with the same key after the first one was answered runs the handler again.
\<close>

theorem idempotency_key_runs_twice:
  assumes key: "hq_header r ''X-PK-Idempotency-Key'' = key" "key \<noteq> []" "length key \<le> MaxIdempotencyKeyLength"
    and fp: "generateRequestFingerprint D r c key = Inr fp" and free: "redis_live t0 m (lock_key fp) = None"
    and first: "IdempotencyMiddleware D t0 t1 handler r c m s = (res1, m1, s1)"
    and second: "IdempotencyMiddleware D t2 t3 handler r c m1 s1 = (res2, m2, s2)"
  shows "res1 = Inr (fst (handler s)) \<and> s1 = snd (handler s) \<and> res2 = Inr (fst (handler s1)) \<and> s2 = snd (handler s1)"
proof -
  have go: "IdempotencyMiddleware D t t' handler r c m' s' =
      (Inr (fst (handler s')), idem_finish None None t' (m'(lock_key fp \<mapsto> (''1'', t + IdempotencyTTL))) fp (fst (handler s')), snd (handler s'))"
    if "redis_live t m' (lock_key fp) = None" for t t' m' s'
    using that key fp by (auto simp: IdempotencyMiddleware_def idem_begin_def redis_SetNX_def Let_def split: prod.splits)
  have "redis_live t2 m1 (lock_key fp) = None" using go [OF free, of t1 s] first by (auto simp: redis_live_def idem_finish_locks)
  from go [OF free, of t1 s] go [OF this, of t3 s1] first second show ?thesis by simp
qed

lemma ctx_string_missing: "c k = None \<Longrightarrow> ctx_string c k = Inr []"
  by (simp add: ctx_string_def)

definition caller_keys_free :: "gin_keys \<Rightarrow> bool" where
  "caller_keys_free c \<longleftrightarrow> c ''MerchantID'' = None \<and> c ''UserID'' = None"

lemma guards_keep_free:
  assumes "caller_keys_free c"
  shows "fst (DualAuthMiddleware G E t r c) = Proceed c' \<Longrightarrow> caller_keys_free c'"
    and "AuthMiddleware G flt now m r c = Proceed c' \<Longrightarrow> caller_keys_free c'"
    and "fst (ApiKeyPartnerMiddleware G E t r c) = Proceed c' \<Longrightarrow> caller_keys_free c'"
proof -
  have u: "caller_keys_free (set_user k e ro x)" if "caller_keys_free x" for k e ro x
    using that by (simp add: caller_keys_free_def set_user_def ctx_keys)
  have w: "caller_keys_free (set_merchant k x)" "caller_keys_free (with_merchant E' k x)" if "caller_keys_free x" for k x E'
    using that by (auto simp: caller_keys_free_def set_merchant_def with_merchant_def ctx_keys split: sum.splits)
  have k: "caller_keys_free c'" if "fst (api_key_path G E t a s c) = Proceed c'" for a s
    using that assms u w by (auto simp: api_key_path_def split: prod.splits sum.splits)
  have j: "caller_keys_free c'" if "fst (jwt_path G E t r b tok s c) = Proceed c'" for b tok s
    using that assms u w by (auto simp: jwt_path_def Let_def split: sum.splits if_splits prod.splits)
  show "caller_keys_free c'" if "fst (DualAuthMiddleware G E t r c) = Proceed c'"
    using that k j by (auto simp: DualAuthMiddleware_def Let_def split: sum.splits if_splits)
  show "caller_keys_free c'" if "AuthMiddleware G flt now m r c = Proceed c'"
    using that assms u by (auto simp: AuthMiddleware_def Let_def split: sum.splits if_splits)
  show "caller_keys_free c'" if "fst (ApiKeyPartnerMiddleware G E t r c) = Proceed c'"
    using that assms u w by (auto simp: ApiKeyPartnerMiddleware_def Let_def split: sum.splits if_splits prod.splits)
qed

text \<open>
  Also. The fingerprint is the same for every caller: the authentication guards store caller and merchant under other
  names than the fingerprint reads, so two users who send the same key to the same path share lock and
  cached response. For the same reason the audit log stays empty.
\<close>

theorem fingerprint_ignores_caller:
  assumes "fst (DualAuthMiddleware G E t r (RequestIDMiddleware i r Map.empty)) = Proceed c"
    and "fst (DualAuthMiddleware G' E' t' r' (RequestIDMiddleware i' r' Map.empty)) = Proceed c'"
    and "hq_path r = hq_path r'"
  shows "generateRequestFingerprint D r c key = generateRequestFingerprint D r' c' key \<and> AuditMiddleware newID flt r c status logs = logs"
proof -
  have "caller_keys_free (RequestIDMiddleware i r Map.empty)" "caller_keys_free (RequestIDMiddleware i' r' Map.empty)"
    by (simp_all add: caller_keys_free_def RequestIDMiddleware_def Let_def)
  then have "caller_keys_free c" "caller_keys_free c'" using guards_keep_free(1) assms(1,2) by blast+
  then show ?thesis using assms(3) by (simp add: caller_keys_free_def generateRequestFingerprint_def ctx_string_missing AuditMiddleware_def)
qed


subsection \<open>Counting\<close>

text \<open>The answers to requests of one client at the given times.\<close>

fun limited_run :: "string \<Rightarrow> int \<Rightarrow> int \<Rightarrow> http_request \<Rightarrow> gin_keys \<Rightarrow> time list \<Rightarrow> counters \<Rightarrow> guard list" where
  "limited_run ident limit period r c [] m = []"
| "limited_run ident limit period r c (t # ts) m =
     (let (g, m') = RateLimitMiddleware ident limit period None None t r c m in g # limited_run ident limit period r c ts m')"

lemma limited_run_window:
  assumes "ident \<noteq> []" "m (''rate_limit:'' @ hq_path r @ '':'' @ ident) = Some (int n, Some until)" "0 < n" "\<forall>t\<in>set ts. t < until"
  shows "limited_run ident limit period r c ts m =
    map (\<lambda>i. if int i < limit then Proceed c else Abort 429 ''Too many requests'') [n..<n + length ts]"
  using assms(2-)
proof (induction ts arbitrary: m n)
  case (Cons t ts)
  let ?k = "''rate_limit:'' @ hq_path r @ '':'' @ ident"
  have live: "counter_live t m ?k = Some (int n, Some until)" using Cons.prems by (simp add: counter_live_def)
  have step: "RateLimitMiddleware ident limit period None None t r c m =
      (if int n < limit then Proceed c else Abort 429 ''Too many requests'', m(?k \<mapsto> (int (Suc n), Some until)))"
    using assms(1) live Cons.prems(2) by (auto simp: RateLimitMiddleware_def redis_Incr_def Let_def)
  have "limited_run ident limit period r c ts (m(?k \<mapsto> (int (Suc n), Some until))) =
      map (\<lambda>i. if int i < limit then Proceed c else Abort 429 ''Too many requests'') [Suc n..<Suc n + length ts]"
    using Cons.prems by (intro Cons.IH) auto
  then show ?case using step by (simp add: upt_rec)
qed simp

text \<open>
  Also. Within a period that starts with a client's first request, exactly the first \<^verbatim>\<open>limit\<close> requests pass and
  all others are refused with status 429.
\<close>

theorem rate_limit_exact:
  assumes "ident \<noteq> []" "counter_live t m (''rate_limit:'' @ hq_path r @ '':'' @ ident) = None" "0 < period"
    and "\<forall>u\<in>set ts. t \<le> u \<and> u < t + period"
  shows "limited_run ident limit period r c (t # ts) m =
    map (\<lambda>i. if int i < limit then Proceed c else Abort 429 ''Too many requests'') [0..<Suc (length ts)]"
proof -
  let ?k = "''rate_limit:'' @ hq_path r @ '':'' @ ident"
  have step: "RateLimitMiddleware ident limit period None None t r c m =
      (if 0 < limit then Proceed c else Abort 429 ''Too many requests'', m(?k \<mapsto> (1, Some (t + period))))"
    using assms(1,2) by (auto simp: RateLimitMiddleware_def redis_Incr_def redis_Expire_def counter_live_def Let_def)
  have "limited_run ident limit period r c ts (m(?k \<mapsto> (1, Some (t + period)))) =
      map (\<lambda>i. if int i < limit then Proceed c else Abort 429 ''Too many requests'') [1..<1 + length ts]"
    using assms by (intro limited_run_window [where until = "t + period"]) auto
  then show ?thesis using step upt_conv_Cons [of 0 "Suc (length ts)"] by simp
qed

text \<open>A counter whose expiry could not be set never goes away.\<close>

lemma counter_without_expiry:
  assumes "ident \<noteq> []" "counter_live t m (''rate_limit:'' @ hq_path r @ '':'' @ ident) = None"
    and "RateLimitMiddleware ident limit period None (Some e) t r c m = (g, m')"
  shows "counter_live t' m' (''rate_limit:'' @ hq_path r @ '':'' @ ident) = Some (1, None)"
  using assms by (auto simp: RateLimitMiddleware_def redis_Incr_def redis_Expire_def counter_live_def Let_def)

text \<open>One recorded use of a deprecated endpoint.\<close>

record legacy_hit =
  lh_time :: time
  lh_family :: string
  lh_replacement :: string
  lh_sunset :: time
  lh_mode :: string
  lh_merchant :: string

definition record_hit :: "legacy_hit \<Rightarrow> observations \<Rightarrow> observations" where
  "record_hit h = recordLegacyEndpointHit (lh_time h) (lh_family h) (lh_replacement h) (lh_sunset h) (lh_mode h) (lh_merchant h)"

definition hit_merchant :: "legacy_hit \<Rightarrow> string" where
  "hit_merchant h = (if lh_merchant h = [] then ''unknown'' else lh_merchant h)"

definition hits_of :: "string \<Rightarrow> legacy_hit list \<Rightarrow> legacy_hit list" where
  "hits_of f hs = filter (\<lambda>h. lh_family h = f) hs"

text \<open>The reference: the counts an entry must hold after the given uses.\<close>

definition observes :: "legacyEndpointObservation \<Rightarrow> legacy_hit list \<Rightarrow> bool" where
  "observes e hs \<longleftrightarrow> lo_TotalHits e = int (length hs) \<and>
     (\<forall>k. map_of (lo_MerchantHits e) k = (let n = length (filter (\<lambda>h. hit_merchant h = k) hs) in if n = 0 then None else Some (int n)))"

lemma record_hit_lookup:
  assumes "lh_family h \<noteq> []"
  shows "map_of (record_hit h st) f =
    (if f = lh_family h then
       (let e = (case map_of st f of Some e \<Rightarrow> e
                 | None \<Rightarrow> \<lparr>lo_Replacement = lh_replacement h, lo_SunsetAt = lh_sunset h, lo_Mode = NormalizeLegacyMode (lh_mode h), lo_TotalHits = 0,
                            lo_LastSeenAt = None, lo_MerchantHits = []\<rparr>) in
        Some (e\<lparr>lo_Replacement := lh_replacement h, lo_SunsetAt := lh_sunset h, lo_Mode := NormalizeLegacyMode (lh_mode h),
                lo_TotalHits := lo_TotalHits e + 1, lo_LastSeenAt := Some (lh_time h), lo_MerchantHits := add_hit (hit_merchant h) (lo_MerchantHits e)\<rparr>))
     else map_of st f)"
  using assms by (simp add: record_hit_def recordLegacyEndpointHit_def hit_merchant_def update_conv Let_def split: option.splits)

lemma add_hit_lookup: "map_of (add_hit k hits) j = (if j = k then Some ((case map_of hits k of Some n \<Rightarrow> n | None \<Rightarrow> 0) + 1) else map_of hits j)"
  by (simp add: add_hit_def update_conv)

lemma observes_add:
  assumes "case map_of st f of Some e \<Rightarrow> observes e (hits_of f hs) | None \<Rightarrow> hits_of f hs = []" "lh_family h \<noteq> []"
  shows "case map_of (record_hit h st) f of Some e \<Rightarrow> observes e (hits_of f (hs @ [h])) | None \<Rightarrow> hits_of f (hs @ [h]) = []"
proof (cases "f = lh_family h")
  case False
  then show ?thesis using assms by (simp add: record_hit_lookup hits_of_def split: option.splits)
next
  case True
  have snoc: "hits_of f (hs @ [h]) = hits_of f hs @ [h]" using True by (simp add: hits_of_def)
  show ?thesis
  proof (cases "map_of st f")
    case None
    then have "hits_of f hs = []" using assms(1) by simp
    then show ?thesis using None True assms(2) unfolding snoc
      by (auto simp: record_hit_lookup observes_def add_hit_lookup Let_def)
  next
    case (Some e)
    then have "observes e (hits_of f hs)" using assms(1) by simp
    then show ?thesis using Some True assms(2) unfolding snoc
      by (auto simp: record_hit_lookup observes_def add_hit_lookup Let_def)
  qed
qed

lemma record_hit_distinct: "distinct (map fst st) \<Longrightarrow> distinct (map fst (record_hit h st))"
  by (simp add: record_hit_def recordLegacyEndpointHit_def distinct_update Let_def)

lemma fold_summary:
  "fold (\<lambda>(k, e). add_observation e) xs s = s' \<Longrightarrow>
     os_TotalHits s' = os_TotalHits s + sum_list (map (\<lambda>(k, e). lo_TotalHits e) xs) \<and> os_TrackedEndpoints s' = os_TrackedEndpoints s + int (length xs)"
  by (induction xs arbitrary: s) (auto simp: add_observation_def)


lemma sum_hits: "finite F \<Longrightarrow> lh_family ` set hs \<subseteq> F \<Longrightarrow> (\<Sum>f\<in>F. int (length (hits_of f hs))) = int (length hs)"
proof (induction hs)
  case (Cons h hs)
  have "(\<Sum>f\<in>F. int (length (hits_of f (h # hs)))) = (\<Sum>f\<in>F. (if lh_family h = f then 1 else 0) + int (length (hits_of f hs)))"
    by (intro sum.cong) (auto simp: hits_of_def)
  also have "\<dots> = 1 + int (length hs)" using Cons by (simp add: sum.distrib)
  finally show ?case by simp
qed (simp add: hits_of_def)

lemma recorded:
  assumes "\<forall>h\<in>set hs. lh_family h \<noteq> []" "st = fold record_hit hs []"
  shows "distinct (map fst st) \<and> fst ` set st = lh_family ` set hs \<and>
    (\<forall>f. case map_of st f of Some e \<Rightarrow> observes e (hits_of f hs) | None \<Rightarrow> hits_of f hs = [])"
  using assms
proof (induction hs arbitrary: st rule: rev_induct)
  case (snoc h hs)
  then have IH: "distinct (map fst (fold record_hit hs []))" "fst ` set (fold record_hit hs []) = lh_family ` set hs"
      "\<And>f. case map_of (fold record_hit hs []) f of Some e \<Rightarrow> observes e (hits_of f hs) | None \<Rightarrow> hits_of f hs = []" by auto
  have st: "st = record_hit h (fold record_hit hs [])" using snoc.prems(2) by simp
  have "dom (map_of st) = insert (lh_family h) (dom (map_of (fold record_hit hs [])))"
    using record_hit_lookup [of h "fold record_hit hs []"] snoc.prems(1) by (auto simp: dom_def st Let_def split: if_splits)
  then have "fst ` set st = insert (lh_family h) (lh_family ` set hs)" using IH(2) by (simp add: dom_map_of_conv_image_fst)
  then show ?case unfolding st using record_hit_distinct [OF IH(1)] observes_add [OF IH(3)] snoc.prems(1) by simp
qed (simp add: hits_of_def)

lemma recorded_total:
  assumes "distinct (map fst st)" "fst ` set st = lh_family ` set hs" "\<And>f e. (f, e) \<in> set st \<Longrightarrow> observes e (hits_of f hs)" "mset st' = mset st"
  shows "sum_list (map (\<lambda>(k, e). lo_TotalHits e) st') = int (length hs)" "length st' = card (lh_family ` set hs)"
proof -
  have "sum_list (map (\<lambda>(k, e). lo_TotalHits e) st') = sum_list (map (\<lambda>(k, e). lo_TotalHits e) st)"
    using assms(4) by (metis mset_map sum_mset_sum_list)
  also have "\<dots> = sum_list (map (\<lambda>f. int (length (hits_of f hs))) (map fst st))"
    unfolding map_map using assms(3) by (intro arg_cong [of _ _ sum_list] map_cong) (auto simp: observes_def)
  also have "\<dots> = (\<Sum>f\<in>fst ` set st. int (length (hits_of f hs)))" using sum_list_distinct_conv_sum_set [OF assms(1)] by simp
  finally show "sum_list (map (\<lambda>(k, e). lo_TotalHits e) st') = int (length hs)" using sum_hits [of "fst ` set st" hs] assms(2) by simp
  have "length st' = length (map fst st)" using assms(4) by (metis size_mset length_map)
  then show "length st' = card (lh_family ` set hs)" using distinct_card [OF assms(1)] assms(2) by simp
qed

lemma observation_key_inj:
  assumes "distinct (map fst st)"
  shows "inj_on (\<lambda>(k, e). (- lo_TotalHits e, map of_char k :: nat list)) (set st)"
proof (rule inj_onI, clarify)
  fix a e b e' assume ab: "(a, e) \<in> set st" "(b, e') \<in> set st" and "map of_char a = (map of_char b :: nat list)"
  then have "a = b" by (metis inj_map_eq_map inj_of_char)
  then show "a = b \<and> e = e'" using ab assms by (auto simp: eq_key_imp_eq_value)
qed

text \<open>
  Also. The snapshot of deprecated endpoints is exact: it lists every endpoint that was used, each with its number
  of uses in all and by merchant, the totals are the number of endpoints and of uses, the list is ordered, and it is the same for every
  iteration order of the underlying map.
\<close>

theorem legacy_snapshot_exact:
  assumes hs: "\<forall>h\<in>set hs. lh_family h \<noteq> []" and st: "st = fold record_hit hs []" and perm: "mset (perm st) = mset st"
    and snap: "GetLegacyEndpointObservabilitySnapshot perm st = (summary, endpoints)"
  shows "fst ` set endpoints = lh_family ` set hs \<and> (\<forall>(f, e)\<in>set endpoints. observes e (hits_of f hs)) \<and>
    os_TotalHits summary = int (length hs) \<and> os_TrackedEndpoints summary = int (card (lh_family ` set hs)) \<and>
    sorted (map (\<lambda>(k, e). (- lo_TotalHits e, map of_char k :: nat list)) endpoints) \<and>
    endpoints = snd (GetLegacyEndpointObservabilitySnapshot id st)"
proof -
  let ?key = "\<lambda>(k, e). (- lo_TotalHits e, map of_char k :: nat list)"
  have r: "distinct (map fst st)" "fst ` set st = lh_family ` set hs"
      "\<And>f. case map_of st f of Some e \<Rightarrow> observes e (hits_of f hs) | None \<Rightarrow> hits_of f hs = []"
    using recorded [OF hs st] by blast+
  have obs: "observes e (hits_of f hs)" if "(f, e) \<in> set st" for f e using r(3) [of f] that r(1) by simp
  have eps: "endpoints = sort_key ?key (perm st)"
    and sum: "summary = fold (\<lambda>(k, e). add_observation e) (perm st) \<lparr>os_TrackedEndpoints = 0, os_TotalHits = 0, os_LastSeenAt = None\<rparr>"
    using snap by (auto simp: GetLegacyEndpointObservabilitySnapshot_def)
  have set: "set endpoints = set st" using perm eps by (metis mset_eq_setD set_sort)
  have totals: "os_TotalHits summary = int (length hs)" "os_TrackedEndpoints summary = int (card (lh_family ` set hs))"
    using fold_summary [OF sum [symmetric]] recorded_total [OF r(1,2) obs perm] by simp_all
  have "sort_key ?key (perm st) = sort_key ?key st"
    using perm observation_key_inj [OF r(1)] by (intro sort_key_inj_key_eq) (auto dest: mset_eq_setD)
  then have same: "endpoints = snd (GetLegacyEndpointObservabilitySnapshot id st)" by (simp add: eps GetLegacyEndpointObservabilitySnapshot_def)
  have "sorted (map ?key endpoints)" unfolding eps by (rule sorted_sort_key)
  with r(2) obs totals same show ?thesis unfolding set by auto
qed


subsection \<open>Instances\<close>

definition sample_request :: http_request where
  "sample_request =
     \<lparr>hq_header = (\<lambda>h. if h = ''X-Session-Id'' then ''x'' else if h = ''X-Internal-Proxy-Secret'' then ''p'' else if h = ''X-PK-Idempotency-Key'' then ''k'' else []),
      hq_method = ''POST'', hq_uri = ''/pay'', hq_path = ''/pay'', hq_body = None, hq_clientIP = ''1.1.1.1''\<rparr>"

definition sample_guards :: guard_deps where
  "sample_guards =
     \<lparr>gd_secret = ''p'', gd_jwt = \<lparr>jl_Sign = (\<lambda>secret c. Inr ''a''), jl_Parse = (\<lambda>kf now tok. if tok = ''a'' then Inr (sample_claims, True) else Inl False)\<rparr>,
      gd_service = \<lparr>js_secret = ''s'', js_accessExpiry = 10, js_refreshExpiry = 10\<rparr>, gd_store = Some sample_store, gd_keys = sample_keys, gd_merchants = False\<rparr>"

definition sample_redis :: redis where
  "sample_redis = snd (store_CreateSession sample_store (Inr (replicate 12 0)) None 0 Map.empty ''x'' sample_session 100)"

definition sample_guard_env :: guard_env where
  "sample_guard_env =
     \<lparr>ge_now = 5, ge_redis = sample_redis, ge_session = None, ge_key = sample_key_env, ge_merchant = None, ge_users = [sample_user_row],
      ge_merchantRows = [], ge_keyOrder = (\<lambda>rs. rs)\<rparr>"

definition passed :: "guard \<Rightarrow> bool" where "passed g = (case g of Proceed c \<Rightarrow> True | Abort n s \<Rightarrow> False)"

lemma passed_obtain: "passed g \<Longrightarrow> \<exists>c. g = Proceed c"
  by (cases g) (auto simp: passed_def)

lemma sample_passes:
  "passed (AuthMiddleware sample_guards None 5 sample_redis sample_request Map.empty)"
  "passed (fst (DualAuthMiddleware sample_guards sample_guard_env [] sample_request (RequestIDMiddleware ''i'' sample_request Map.empty)))"
  by code_simp+

theorem strict_mode_needs_proxy_witness:
  "\<exists>c (claims::Claims). AuthMiddleware sample_guards None 5 sample_redis sample_request Map.empty = Proceed c \<and>
     c UserIDKey = Some (CUUID (cl_UserID claims)) \<and> (RequireAdmin c = Inr (Proceed c) \<longleftrightarrow> cl_Role claims = ''ADMIN'')"
proof -
  obtain c where run: "AuthMiddleware sample_guards None 5 sample_redis sample_request Map.empty = Proceed c"
    using passed_obtain [OF sample_passes(1)] by blast
  have "gd_secret sample_guards \<noteq> []" by (simp add: sample_guards_def)
  from strict_mode_needs_proxy [OF run this] run show ?thesis by blast
qed

theorem dual_auth_sound_witness:
  "\<exists>c t' user. DualAuthMiddleware sample_guards sample_guard_env [] sample_request (RequestIDMiddleware ''i'' sample_request Map.empty) = (Proceed c, t') \<and>
     c UserIDKey = Some (CUUID user) \<and> IsTrustedProxyRequest sample_guards sample_request"
proof -
  obtain c t' where run: "DualAuthMiddleware sample_guards sample_guard_env [] sample_request (RequestIDMiddleware ''i'' sample_request Map.empty) = (Proceed c, t')"
    using passed_obtain [OF sample_passes(2)] by (metis prod.collapse)
  have E: "\<forall>rs. set (ge_keyOrder sample_guard_env rs) = set rs" "0 \<le> unix (ke_now (ge_key sample_guard_env))" "unix (ke_now (ge_key sample_guard_env)) < 2 ^ 62"
      "distinct (map krow_KeyHash [])" "distinct (map urow_ID (ge_users sample_guard_env))"
    by (simp_all add: sample_guard_env_def sample_key_env_def unix_def)
  have "\<not> signed_by sample_guards sample_guard_env [] sample_request body u" for body u by (simp add: signed_by_def)
  with dual_auth_sound [OF run E] run show ?thesis by blast
qed

theorem fingerprint_ignores_caller_witness:
  "\<exists>c. fst (DualAuthMiddleware sample_guards sample_guard_env [] sample_request (RequestIDMiddleware ''i'' sample_request Map.empty)) = Proceed c \<and>
     AuditMiddleware 1 None sample_request c 200 [] = []"
proof -
  obtain c where run: "fst (DualAuthMiddleware sample_guards sample_guard_env [] sample_request (RequestIDMiddleware ''i'' sample_request Map.empty)) = Proceed c"
    using passed_obtain [OF sample_passes(2)] by blast
  from fingerprint_ignores_caller [OF run run refl] run show ?thesis by blast
qed

definition sample_idem :: idem_state where
  "sample_idem = \<lparr>is_now = 5, is_redis = Map.empty, is_running = []\<rparr>"

lemma sample_idem_key:
  "hq_header sample_request ''X-PK-Idempotency-Key'' = ''k''" "''k'' \<noteq> []" "length ''k'' \<le> MaxIdempotencyKeyLength"
  by (simp_all add: sample_request_def MaxIdempotencyKeyLength_def)

lemma sample_fingerprint: "\<exists>fp. generateRequestFingerprint sample_keys sample_request Map.empty ''k'' = Inr fp"
  by (simp add: generateRequestFingerprint_def ctx_string_missing)


theorem idempotency_key_runs_twice_witness:
  "snd (snd (IdempotencyMiddleware sample_keys 7 8 (\<lambda>n. (\<lparr>rs_status = 200, rs_body = ''ok''\<rparr>, n + 1)) sample_request Map.empty
     (fst (snd (IdempotencyMiddleware sample_keys 5 6 (\<lambda>n. (\<lparr>rs_status = 200, rs_body = ''ok''\<rparr>, n + 1)) sample_request Map.empty Map.empty (0::nat)))) (1::nat))) = 2"
proof -
  let ?h = "\<lambda>n::nat. (\<lparr>rs_status = 200, rs_body = ''ok''\<rparr>, n + 1)"
  obtain fp where fp: "generateRequestFingerprint sample_keys sample_request Map.empty ''k'' = Inr fp" using sample_fingerprint by blast
  obtain r1 m1 s1 where first: "IdempotencyMiddleware sample_keys 5 6 ?h sample_request Map.empty Map.empty 0 = (r1, m1, s1)" by (metis prod.collapse)
  obtain r2 m2 s2 where second: "IdempotencyMiddleware sample_keys 7 8 ?h sample_request Map.empty m1 s1 = (r2, m2, s2)" by (metis prod.collapse)
  have free: "redis_live 5 Map.empty (lock_key fp) = None" by (simp add: redis_live_def)
  from idempotency_key_runs_twice [OF sample_idem_key fp free first second] first second show ?thesis by auto
qed

theorem rate_limit_exact_witness:
  "limited_run ''ip'' 2 10 sample_request Map.empty [3, 4, 5] Map.empty =
     [Proceed Map.empty, Proceed Map.empty, Abort 429 ''Too many requests'']"
proof -
  have "counter_live 3 Map.empty (''rate_limit:'' @ hq_path sample_request @ '':'' @ ''ip'') = None" by (simp add: counter_live_def)
  from rate_limit_exact [OF _ this, of 10 "[4, 5]" 2 Map.empty] show ?thesis by (simp add: upt_rec)
qed

definition sample_hit :: legacy_hit where
  "sample_hit = \<lparr>lh_time = 4, lh_family = ''f'', lh_replacement = ''r'', lh_sunset = 9, lh_mode = ''warn'', lh_merchant = []\<rparr>"

theorem legacy_snapshot_exact_witness:
  "\<exists>summary endpoints. GetLegacyEndpointObservabilitySnapshot rev (fold record_hit [sample_hit, sample_hit] []) = (summary, endpoints) \<and>
     os_TotalHits summary = 2 \<and> fst ` set endpoints = {''f''}"
proof -
  obtain summary endpoints where snap: "GetLegacyEndpointObservabilitySnapshot rev (fold record_hit [sample_hit, sample_hit] []) = (summary, endpoints)"
    by fastforce
  have "\<forall>h\<in>set [sample_hit, sample_hit]. lh_family h \<noteq> []" by (simp add: sample_hit_def)
  note exact = legacy_snapshot_exact [OF this refl mset_rev snap]
  have "os_TotalHits summary = int (length [sample_hit, sample_hit])" "fst ` set endpoints = lh_family ` set [sample_hit, sample_hit]"
    by (rule exact [THEN conjunct2, THEN conjunct2, THEN conjunct1], rule exact [THEN conjunct1])
  with snap show ?thesis by (simp add: sample_hit_def)
qed

end
