(* ===== verification/Config_Tables.thy ===== *)
theory Config_Tables
  imports Bridge_Tables Payment_Requests
begin

text \<open>
  The repositories of tokens (\<^verbatim>\<open>token_repo_impl.go\<close>), smart contracts (\<^verbatim>\<open>smart_contract_repo_impl.go\<close>),
  settlement profiles of merchants (\<^verbatim>\<open>merchant_settlement_profile_repo_impl.go\<close>) and the team page
  (\<^verbatim>\<open>team_repo_impl.go\<close>). Rows are marked as deleted, so each table interprets \<open>soft_repo\<close>. The unique
  indexes are those of the migrations.
\<close>

subsection \<open>Tokens\<close>

record FullToken = Token +
  tok_BlockchainID :: string
  tok_Chain :: "Chain option"
  tok_Name :: string
  tok_Type :: string
  tok_LogoURL :: string
  tok_IsStablecoin :: bool
  tok_MinAmount :: string
  tok_MaxAmount :: "string option"
  tok_CreatedAt :: time
  tok_UpdatedAt :: time
  tok_DeletedAt :: "time option"

record token_row =
  trow_ID :: uuid
  trow_ChainID :: uuid
  trow_Symbol :: string
  trow_Name :: string
  trow_Decimals :: int
  trow_ContractAddress :: string
  trow_Type :: string
  trow_LogoURL :: string
  trow_IsActive :: bool
  trow_IsNative :: bool
  trow_IsStablecoin :: bool
  trow_MinAmount :: string
  trow_MaxAmount :: "string option"
  trow_CreatedAt :: time
  trow_UpdatedAt :: time
  trow_DeletedAt :: "time option"

text \<open>The chain a query preloads: its live row, without endpoints and the fields the mapper leaves out.\<close>

definition preload_chain :: "chain_row table \<Rightarrow> uuid \<Rightarrow> Chain option" where
  "preload_chain cs k =
     map_option (\<lambda>m. \<lparr>chain_ID = row_ID m, chain_ChainID = row_NetworkID m, chain_Name = row_Name m,
       chain_Type = chain_type_of (ToUpper (row_ChainType m)), chain_ImageURL = row_LogoURL m, chain_IsActive = row_IsActive m,
       chain_IsTestnet = False, chain_CurrencySymbol = row_Symbol m, chain_ExplorerURL = row_ExplorerURL m, chain_RPCURL = row_RPCURL m,
       chain_CreatedAt = row_CreatedAt m, chain_UpdatedAt = row_UpdatedAt m, chain_DeletedAt = None, chain_RPCs = [],
       chain_CCIPChainSelector = [], chain_StargateEID = 0\<rparr>)
       (find (\<lambda>m. row_ID m = k \<and> row_ID m \<noteq> uuid_Nil \<and> live_chain m) cs)"

definition token_toEntity :: "chain_row table option \<Rightarrow> token_row \<Rightarrow> FullToken" where
  "token_toEntity preload m =
     (let chain = (case preload of Some cs \<Rightarrow> preload_chain cs (trow_ChainID m) | None \<Rightarrow> None) in
      \<lparr>token_ID = trow_ID m, token_ChainUUID = trow_ChainID m, token_Symbol = trow_Symbol m, token_Decimals = trow_Decimals m,
       token_ContractAddress = trow_ContractAddress m, token_IsActive = trow_IsActive m, token_IsNative = trow_IsNative m,
       tok_BlockchainID = (case chain of Some c \<Rightarrow> chain_ChainID c | None \<Rightarrow> []), tok_Chain = chain, tok_Name = trow_Name m,
       tok_Type = trow_Type m, tok_LogoURL = trow_LogoURL m, tok_IsStablecoin = trow_IsStablecoin m, tok_MinAmount = trow_MinAmount m,
       tok_MaxAmount = trow_MaxAmount m, tok_CreatedAt = trow_CreatedAt m, tok_UpdatedAt = trow_UpdatedAt m,
       tok_DeletedAt = Some (case trow_DeletedAt m of Some t \<Rightarrow> t | None \<Rightarrow> zero_time)\<rparr>)"

definition token_toModel :: "FullToken \<Rightarrow> token_row" where
  "token_toModel e =
     \<lparr>trow_ID = token_ID e, trow_ChainID = token_ChainUUID e, trow_Symbol = token_Symbol e, trow_Name = tok_Name e,
      trow_Decimals = token_Decimals e, trow_ContractAddress = token_ContractAddress e, trow_Type = tok_Type e, trow_LogoURL = tok_LogoURL e,
      trow_IsActive = token_IsActive e, trow_IsNative = token_IsNative e, trow_IsStablecoin = tok_IsStablecoin e,
      trow_MinAmount = tok_MinAmount e, trow_MaxAmount = tok_MaxAmount e, trow_CreatedAt = tok_CreatedAt e, trow_UpdatedAt = tok_UpdatedAt e,
      trow_DeletedAt = None\<rparr>"

text \<open>On insertion a field with its zero value takes the default of its column, so every token is inserted active.\<close>

definition token_inserted :: "uuid \<Rightarrow> time \<Rightarrow> token_row \<Rightarrow> token_row" where
  "token_inserted gen now m =
     m\<lparr>trow_ID := (if trow_ID m = uuid_Nil then gen else trow_ID m), trow_Type := (if trow_Type m = [] then ''ERC20'' else trow_Type m),
       trow_IsActive := True, trow_MinAmount := (if trow_MinAmount m = [] then ''0'' else trow_MinAmount m),
       trow_CreatedAt := (if trow_CreatedAt m = zero_time then now else trow_CreatedAt m),
       trow_UpdatedAt := (if trow_UpdatedAt m = zero_time then now else trow_UpdatedAt m)\<rparr>"

definition token_Create :: "fault \<Rightarrow> uuid \<Rightarrow> time \<Rightarrow> token_row table \<Rightarrow> FullToken \<Rightarrow> token_row table result" where
  "token_Create flt gen now t e = soft_insert trow_ID flt t (token_inserted gen now (token_toModel e))"

text \<open>
  \<^verbatim>\<open>Save\<close> writes all columns of the live row; when there is none it inserts the row, and on a conflict
  of the key overwrites what is stored, the deletion mark included.
\<close>

definition token_Update :: "fault \<Rightarrow> uuid \<Rightarrow> time \<Rightarrow> token_row table \<Rightarrow> FullToken \<Rightarrow> gerror option \<times> token_row table" where
  "token_Update flt gen now t e =
     (case flt of
        Some err \<Rightarrow> (Some err, t)
      | None \<Rightarrow>
          let m = token_toModel e; inserted = token_inserted gen now m in
          if trow_ID m \<noteq> uuid_Nil \<and> list_ex (\<lambda>x. trow_ID x = trow_ID m \<and> trow_DeletedAt x = None) t then
            (None, map (\<lambda>x. if trow_ID x = trow_ID m then m\<lparr>trow_UpdatedAt := now\<rparr> else x) t)
          else if list_ex (\<lambda>x. trow_ID x = trow_ID inserted) t then
            (None, map (\<lambda>x. if trow_ID x = trow_ID inserted then inserted else x) t)
          else (None, t @ [inserted]))"

definition token_deleted :: "time \<Rightarrow> token_row \<Rightarrow> token_row" where
  "token_deleted now m = m\<lparr>trow_DeletedAt := Some now\<rparr>"

text \<open>Deleting a token that is not there is no error.\<close>

definition token_SoftDelete :: "fault \<Rightarrow> time \<Rightarrow> token_row table \<Rightarrow> uuid \<Rightarrow> gerror option \<times> token_row table" where
  "token_SoftDelete flt now t k =
     (case flt of
        Some e \<Rightarrow> (Some e, t)
      | None \<Rightarrow> (None, fst (update_where (\<lambda>m. trow_ID m = k \<and> trow_DeletedAt m = None) (token_deleted now) t)))"

definition token_GetByID :: "chain_row table \<Rightarrow> fault \<Rightarrow> token_row table \<Rightarrow> uuid \<Rightarrow> FullToken result" where
  "token_GetByID cs = soft_get trow_ID trow_DeletedAt (token_toEntity (Some cs))"

text \<open>The first live row in the order of the keys that meets a condition.\<close>

definition token_first :: "chain_row table option \<Rightarrow> fault \<Rightarrow> token_row table \<Rightarrow> (token_row \<Rightarrow> bool) \<Rightarrow> FullToken result" where
  "token_first cs flt t p =
     (case flt of
        Some e \<Rightarrow> Inl e
      | None \<Rightarrow>
          (case first_by trow_ID (\<lambda>m. trow_DeletedAt m = None \<and> p m) t of
             None \<Rightarrow> Inl (Sentinel ErrNotFound)
           | Some m \<Rightarrow> Inr (token_toEntity cs m)))"

definition token_GetBySymbol :: "chain_row table \<Rightarrow> fault \<Rightarrow> token_row table \<Rightarrow> string \<Rightarrow> uuid \<Rightarrow> FullToken result" where
  "token_GetBySymbol cs flt t symbol chainID = token_first (Some cs) flt t (\<lambda>m. trow_Symbol m = symbol \<and> trow_ChainID m = chainID)"

definition token_GetByAddress :: "chain_row table \<Rightarrow> fault \<Rightarrow> token_row table \<Rightarrow> string \<Rightarrow> uuid \<Rightarrow> FullToken result" where
  "token_GetByAddress cs flt t address chainID =
     (let normalizedAddress = TrimSpace (ToLower address) in
      token_first (Some cs) flt t (\<lambda>m. ToLower (trow_ContractAddress m) = normalizedAddress \<and> trow_ChainID m = chainID))"

definition token_GetNative :: "fault \<Rightarrow> token_row table \<Rightarrow> uuid \<Rightarrow> FullToken result" where
  "token_GetNative flt t chainID = token_first None flt t (\<lambda>m. trow_ChainID m = chainID \<and> trow_IsNative m)"

definition token_list :: "chain_row table \<Rightarrow> token_row orderer \<Rightarrow> fault \<Rightarrow> token_row table \<Rightarrow> (token_row \<Rightarrow> bool) \<Rightarrow> FullToken list result" where
  "token_list cs ord flt t p =
     (case flt of
        Some e \<Rightarrow> Inl e
      | None \<Rightarrow> Inr (map (token_toEntity (Some cs)) (ord (select_where (\<lambda>m. trow_DeletedAt m = None \<and> p m) t))))"

definition token_GetAll :: "chain_row table \<Rightarrow> token_row orderer \<Rightarrow> fault \<Rightarrow> token_row table \<Rightarrow> FullToken list result" where
  "token_GetAll cs ord flt t = token_list cs ord flt t (\<lambda>m. True)"

definition GetStablecoins :: "chain_row table \<Rightarrow> token_row orderer \<Rightarrow> fault \<Rightarrow> token_row table \<Rightarrow> FullToken list result" where
  "GetStablecoins cs ord flt t = token_list cs ord flt t trow_IsStablecoin"

definition GetTokensByChain ::
  "chain_row table \<Rightarrow> token_row orderer \<Rightarrow> fault \<Rightarrow> fault \<Rightarrow> token_row table \<Rightarrow> uuid \<Rightarrow> PaginationParams \<Rightarrow> (FullToken list \<times> int) result" where
  "GetTokensByChain cs ord flt1 flt2 t chainID pg =
     soft_list trow_DeletedAt (token_toEntity (Some cs)) ord flt1 flt2 t (\<lambda>m. trow_ChainID m = chainID \<and> trow_IsActive m) pg"

definition GetAllTokens ::
  "chain_row table \<Rightarrow> token_row orderer \<Rightarrow> fault \<Rightarrow> fault \<Rightarrow> token_row table \<Rightarrow> uuid option \<Rightarrow> string option \<Rightarrow> PaginationParams \<Rightarrow>
   (FullToken list \<times> int) result" where
  "GetAllTokens cs ord flt1 flt2 t chainID search pg =
     soft_list trow_DeletedAt (token_toEntity (Some cs)) ord flt1 flt2 t
       (\<lambda>m. (case chainID of None \<Rightarrow> True | Some k \<Rightarrow> trow_ChainID m = k) \<and>
            (case search of
               None \<Rightarrow> True
             | Some s \<Rightarrow> s = [] \<or> (let term = ''%'' @ s @ ''%'' in
                 sql_ilike term (trow_Symbol m) \<or> sql_ilike term (trow_Name m) \<or> sql_ilike term (trow_ContractAddress m)))) pg"

interpretation tokens: soft_repo trow_ID trow_DeletedAt token_deleted "token_toEntity cs" for cs
  by unfold_locales (simp_all add: token_deleted_def)

subsection \<open>Smart contracts\<close>

record SmartContract =
  sc_ID :: uuid
  sc_Name :: string
  sc_Type :: string
  sc_Version :: string
  sc_ChainUUID :: uuid
  sc_BlockchainID :: string
  sc_ContractAddress :: string
  sc_DeployerAddress :: "string option"
  sc_Token0Address :: "string option"
  sc_Token1Address :: "string option"
  sc_FeeTier :: "int option"
  sc_HookAddress :: "string option"
  sc_StartBlock :: u64
  sc_ABI :: "json option"
  sc_Metadata :: "string option"
  sc_IsActive :: bool
  sc_CreatedAt :: time
  sc_UpdatedAt :: time

record contract_row =
  crow_ID :: uuid
  crow_Name :: string
  crow_ChainID :: uuid
  crow_ContractAddress :: string
  crow_ABI :: string
  crow_Type :: string
  crow_Version :: string
  crow_DeployerAddress :: string
  crow_Token0Address :: string
  crow_Token1Address :: string
  crow_FeeTier :: int
  crow_HookAddress :: string
  crow_StartBlock :: "u64"
  crow_Metadata :: string
  crow_IsActive :: bool
  crow_CreatedAt :: time
  crow_UpdatedAt :: time
  crow_DeletedAt :: "time option"

definition null_string :: "string \<Rightarrow> string option" where "null_string s = (if s = [] then None else Some s)"

definition marshal_abi :: "json_lib \<Rightarrow> json option \<Rightarrow> string" where
  "marshal_abi J abi = json_Print J (case abi of None \<Rightarrow> JNull | Some v \<Rightarrow> v)"

definition contract_row_of :: "json_reader \<Rightarrow> uuid \<Rightarrow> time \<Rightarrow> SmartContract \<Rightarrow> contract_row" where
  "contract_row_of R gen now c =
     \<lparr>crow_ID = (if sc_ID c = uuid_Nil then gen else sc_ID c), crow_Name = sc_Name c, crow_ChainID = sc_ChainUUID c,
      crow_ContractAddress = sc_ContractAddress c, crow_ABI = marshal_abi (jr_json R) (sc_ABI c),
      crow_Type = (if sc_Type c = [] then ''GATEWAY'' else sc_Type c), crow_Version = (if sc_Version c = [] then ''1.0.0'' else sc_Version c),
      crow_DeployerAddress = derefString (sc_DeployerAddress c), crow_Token0Address = derefString (sc_Token0Address c),
      crow_Token1Address = derefString (sc_Token1Address c), crow_FeeTier = (case sc_FeeTier c of Some n \<Rightarrow> n | None \<Rightarrow> 0),
      crow_HookAddress = derefString (sc_HookAddress c), crow_StartBlock = ucast (sc_StartBlock c),
      crow_Metadata = (case sc_Metadata c of Some s \<Rightarrow> (if s = [] then ''{}'' else s) | None \<Rightarrow> ''{}''), crow_IsActive = True,
      crow_CreatedAt = (if sc_CreatedAt c = zero_time then now else sc_CreatedAt c),
      crow_UpdatedAt = (if sc_UpdatedAt c = zero_time then now else sc_UpdatedAt c), crow_DeletedAt = None\<rparr>"

definition contract_clash :: "contract_row table \<Rightarrow> uuid \<Rightarrow> uuid \<Rightarrow> string \<Rightarrow> bool" where
  "contract_clash t k chainID address \<longleftrightarrow> list_ex (\<lambda>x. crow_ID x \<noteq> k \<and> crow_ChainID x = chainID \<and> crow_ContractAddress x = address) t"

definition contract_Create :: "json_reader \<Rightarrow> fault \<Rightarrow> uuid \<Rightarrow> time \<Rightarrow> contract_row table \<Rightarrow> SmartContract \<Rightarrow> contract_row table result" where
  "contract_Create R flt gen now t c =
     (let m = contract_row_of R gen now c in
      if contract_clash t (crow_ID m) (crow_ChainID m) (crow_ContractAddress m) then (case flt of Some e \<Rightarrow> Inl e | None \<Rightarrow> Inl duplicate_key)
      else soft_insert crow_ID flt t m)"

text \<open>A stored ABI that does not parse is left out; a jsonb column returns its text normalised.\<close>

definition contract_toEntity :: "json_reader \<Rightarrow> (uuid \<Rightarrow> Chain result) \<Rightarrow> contract_row \<Rightarrow> SmartContract" where
  "contract_toEntity R chainByID m =
     (let abi = jr_column R (crow_ABI m); metadata = jr_column R (crow_Metadata m) in
      \<lparr>sc_ID = crow_ID m, sc_Name = crow_Name m, sc_Type = crow_Type m, sc_Version = crow_Version m, sc_ChainUUID = crow_ChainID m,
       sc_BlockchainID = (if crow_ChainID m \<noteq> uuid_Nil then (case chainByID (crow_ChainID m) of Inr c \<Rightarrow> chain_ChainID c | Inl _ \<Rightarrow> []) else []),
       sc_ContractAddress = crow_ContractAddress m, sc_DeployerAddress = null_string (crow_DeployerAddress m),
       sc_Token0Address = null_string (crow_Token0Address m), sc_Token1Address = null_string (crow_Token1Address m),
       sc_FeeTier = (if crow_FeeTier m = 0 then None else Some (crow_FeeTier m)), sc_HookAddress = null_string (crow_HookAddress m),
       sc_StartBlock = ucast (crow_StartBlock m),
       sc_ABI = (if abi \<noteq> [] \<and> abi \<noteq> ''null'' then (case json_Parse (jr_json R) abi of Some JNull \<Rightarrow> None | x \<Rightarrow> x) else None),
       sc_Metadata = Some (if metadata = [] \<or> metadata = ''null'' then ''{}'' else metadata), sc_IsActive = crow_IsActive m,
       sc_CreatedAt = crow_CreatedAt m, sc_UpdatedAt = crow_UpdatedAt m\<rparr>)"

definition found :: "('r \<Rightarrow> 'e) \<Rightarrow> fault \<Rightarrow> 'r option \<Rightarrow> 'e option result" where
  "found to_e flt r = (case flt of Some e \<Rightarrow> Inl e | None \<Rightarrow> Inr (map_option to_e r))"

definition contract_GetByID ::
  "json_reader \<Rightarrow> (uuid \<Rightarrow> Chain result) \<Rightarrow> fault \<Rightarrow> contract_row table \<Rightarrow> uuid \<Rightarrow> SmartContract option result" where
  "contract_GetByID R ch flt t k = found (contract_toEntity R ch) flt (first_by crow_ID (\<lambda>m. crow_DeletedAt m = None \<and> crow_ID m = k) t)"

definition GetByChainAndAddress ::
  "json_reader \<Rightarrow> (uuid \<Rightarrow> Chain result) \<Rightarrow> fault \<Rightarrow> contract_row table \<Rightarrow> uuid \<Rightarrow> string \<Rightarrow> SmartContract option result" where
  "GetByChainAndAddress R ch flt t chainID address =
     found (contract_toEntity R ch) flt
       (first_by crow_ID (\<lambda>m. crow_DeletedAt m = None \<and> crow_ChainID m = chainID \<and> crow_ContractAddress m = address) t)"

text \<open>
  \<^verbatim>\<open>ORDER BY updated_at DESC, created_at DESC, version DESC, id DESC\<close>; how texts compare is up to the
  collation of the database (\<open>ver\<close>).
\<close>

definition contract_rank :: "(string \<Rightarrow> int) \<Rightarrow> contract_row \<Rightarrow> int \<times> int \<times> int \<times> int" where
  "contract_rank ver m = (- crow_UpdatedAt m, - crow_CreatedAt m, - ver (crow_Version m), - uint (crow_ID m))"

definition active_contract_row :: "(string \<Rightarrow> int) \<Rightarrow> contract_row table \<Rightarrow> uuid \<Rightarrow> string \<Rightarrow> contract_row option" where
  "active_contract_row ver t chainID ty =
     first_by (contract_rank ver) (\<lambda>m. crow_DeletedAt m = None \<and> crow_ChainID m = chainID \<and> crow_Type m = ty \<and> crow_IsActive m) t"

definition GetActiveContract ::
  "json_reader \<Rightarrow> (uuid \<Rightarrow> Chain result) \<Rightarrow> (string \<Rightarrow> int) \<Rightarrow> fault \<Rightarrow> contract_row table \<Rightarrow> uuid \<Rightarrow> string \<Rightarrow> SmartContract option result" where
  "GetActiveContract R ch ver flt t chainID ty = found (contract_toEntity R ch) flt (active_contract_row ver t chainID ty)"

definition GetActiveContractAddress :: "(string \<Rightarrow> int) \<Rightarrow> fault \<Rightarrow> contract_row table \<Rightarrow> uuid \<Rightarrow> string \<Rightarrow> string result" where
  "GetActiveContractAddress ver flt t chainID ty =
     map_sum (\<lambda>e. e) (\<lambda>r. case r of Some a \<Rightarrow> a | None \<Rightarrow> []) (found crow_ContractAddress flt (active_contract_row ver t chainID ty))"

definition contract_GetByChain ::
  "json_reader \<Rightarrow> (uuid \<Rightarrow> Chain result) \<Rightarrow> contract_row orderer \<Rightarrow> fault \<Rightarrow> fault \<Rightarrow> contract_row table \<Rightarrow> uuid \<Rightarrow> PaginationParams \<Rightarrow>
   (SmartContract list \<times> int) result" where
  "contract_GetByChain R ch ord flt1 flt2 t chainID pg =
     soft_list crow_DeletedAt (contract_toEntity R ch) ord flt1 flt2 t (\<lambda>m. crow_ChainID m = chainID) pg"

definition contract_GetAll ::
  "json_reader \<Rightarrow> (uuid \<Rightarrow> Chain result) \<Rightarrow> contract_row orderer \<Rightarrow> fault \<Rightarrow> fault \<Rightarrow> contract_row table \<Rightarrow> PaginationParams \<Rightarrow>
   (SmartContract list \<times> int) result" where
  "contract_GetAll R ch ord flt1 flt2 t pg = soft_list crow_DeletedAt (contract_toEntity R ch) ord flt1 flt2 t (\<lambda>m. True) pg"

definition contract_GetFiltered ::
  "json_reader \<Rightarrow> (uuid \<Rightarrow> Chain result) \<Rightarrow> contract_row orderer \<Rightarrow> fault \<Rightarrow> fault \<Rightarrow> contract_row table \<Rightarrow> uuid option \<Rightarrow> string \<Rightarrow> PaginationParams \<Rightarrow>
   (SmartContract list \<times> int) result" where
  "contract_GetFiltered R ch ord flt1 flt2 t chainID ty pg =
     soft_list crow_DeletedAt (contract_toEntity R ch) ord flt1 flt2 t
       (\<lambda>m. (case chainID of None \<Rightarrow> True | Some k \<Rightarrow> crow_ChainID m = k) \<and>
            (ty = [] \<or> (if ty = ''POOL'' then crow_Type m \<in> {''POOL'', ''DEX_POOL''} else crow_Type m = ty))) pg"

definition contract_updates :: "json_reader \<Rightarrow> time \<Rightarrow> SmartContract \<Rightarrow> contract_row \<Rightarrow> contract_row" where
  "contract_updates R now c m =
     m\<lparr>crow_Name := sc_Name c, crow_Type := sc_Type c, crow_Version := sc_Version c, crow_ChainID := sc_ChainUUID c,
       crow_ContractAddress := sc_ContractAddress c, crow_DeployerAddress := derefString (sc_DeployerAddress c), crow_IsActive := sc_IsActive c,
       crow_ABI := marshal_abi (jr_json R) (sc_ABI c), crow_Metadata := (case sc_Metadata c of Some s \<Rightarrow> s | None \<Rightarrow> ''{}''),
       crow_Token0Address := derefString (sc_Token0Address c), crow_Token1Address := derefString (sc_Token1Address c),
       crow_FeeTier := (case sc_FeeTier c of Some n \<Rightarrow> n | None \<Rightarrow> 0), crow_HookAddress := derefString (sc_HookAddress c),
       crow_StartBlock := ucast (sc_StartBlock c), crow_UpdatedAt := now\<rparr>"

definition contract_Update :: "json_reader \<Rightarrow> fault \<Rightarrow> time \<Rightarrow> contract_row table \<Rightarrow> SmartContract \<Rightarrow> gerror option \<times> contract_row table" where
  "contract_Update R flt now t c =
     (if flt = None \<and> list_ex (\<lambda>m. crow_ID m = sc_ID c \<and> crow_DeletedAt m = None) t \<and> contract_clash t (sc_ID c) (sc_ChainUUID c) (sc_ContractAddress c)
      then (Some duplicate_key, t)
      else soft_update crow_ID crow_DeletedAt flt t (sc_ID c) (contract_updates R now c))"

definition contract_deleted :: "time \<Rightarrow> contract_row \<Rightarrow> contract_row" where
  "contract_deleted now m = m\<lparr>crow_DeletedAt := Some now\<rparr>"

definition contract_SoftDelete :: "fault \<Rightarrow> time \<Rightarrow> contract_row table \<Rightarrow> uuid \<Rightarrow> gerror option \<times> contract_row table" where
  "contract_SoftDelete flt now t k = soft_update crow_ID crow_DeletedAt flt t k (contract_deleted now)"

interpretation contracts: soft_repo crow_ID crow_DeletedAt contract_deleted "contract_toEntity R ch" for R ch
  by unfold_locales (simp_all add: contract_deleted_def)

subsection \<open>Settlement profiles\<close>

record MerchantSettlementProfile =
  msp_ID :: uuid
  msp_MerchantID :: uuid
  msp_InvoiceCurrency :: string
  msp_DestChain :: string
  msp_DestToken :: string
  msp_DestWallet :: string
  msp_BridgeTokenSymbol :: string
  msp_CreatedAt :: time
  msp_UpdatedAt :: time

record profile_row = MerchantSettlementProfile +
  prow_DeletedAt :: "time option"

definition profile_toEntity :: "profile_row \<Rightarrow> MerchantSettlementProfile" where
  "profile_toEntity m =
     \<lparr>msp_ID = msp_ID m, msp_MerchantID = msp_MerchantID m, msp_InvoiceCurrency = msp_InvoiceCurrency m, msp_DestChain = msp_DestChain m,
      msp_DestToken = msp_DestToken m, msp_DestWallet = msp_DestWallet m, msp_BridgeTokenSymbol = msp_BridgeTokenSymbol m,
      msp_CreatedAt = msp_CreatedAt m, msp_UpdatedAt = msp_UpdatedAt m\<rparr>"

definition profile_GetByMerchantID :: "fault \<Rightarrow> profile_row table \<Rightarrow> uuid \<Rightarrow> MerchantSettlementProfile result" where
  "profile_GetByMerchantID flt t merchantID =
     (case flt of
        Some e \<Rightarrow> Inl e
      | None \<Rightarrow>
          (case first_by msp_ID (\<lambda>m. prow_DeletedAt m = None \<and> msp_MerchantID m = merchantID) t of
             None \<Rightarrow> Inl (Sentinel ErrNotFound)
           | Some m \<Rightarrow> Inr (profile_toEntity m)))"

text \<open>The outer join keeps a live merchant without a live profile; the newest come first.\<close>

definition ListMissingMerchantIDs :: "fault \<Rightarrow> merchant_row table \<Rightarrow> profile_row table \<Rightarrow> uuid list result" where
  "ListMissingMerchantIDs flt ms t =
     (case flt of
        Some e \<Rightarrow> Inl e
      | None \<Rightarrow>
          Inr (map mrow_ID (sort_key (\<lambda>m. - mrow_CreatedAt m)
            (select_where (\<lambda>m. mrow_DeletedAt m = None \<and>
               \<not> list_ex (\<lambda>r. msp_MerchantID r = mrow_ID m \<and> prow_DeletedAt r = None) t) ms))))"

definition HasProfilesByMerchantIDs :: "fault \<Rightarrow> profile_row table \<Rightarrow> uuid list \<Rightarrow> (uuid \<rightharpoonup> bool) result" where
  "HasProfilesByMerchantIDs flt t merchantIDs =
     (if merchantIDs = [] then Inr Map.empty
      else case flt of
        Some e \<Rightarrow> Inl e
      | None \<Rightarrow>
          let rows = select_where (\<lambda>m. prow_DeletedAt m = None \<and> msp_MerchantID m \<in> set merchantIDs) t;
              out = foldl (\<lambda>out id. out(id \<mapsto> False)) Map.empty merchantIDs in
          Inr (foldl (\<lambda>out row. out(msp_MerchantID row \<mapsto> True)) out rows))"

text \<open>
  The unique index on the merchant decides the conflict. Of the stored row the key, the creation time and the
  deletion mark stay. An empty bridge token takes the default of its column.
\<close>

definition profile_overwritten :: "profile_row \<Rightarrow> profile_row \<Rightarrow> profile_row" where
  "profile_overwritten excluded m =
     m\<lparr>msp_InvoiceCurrency := msp_InvoiceCurrency excluded, msp_DestChain := msp_DestChain excluded, msp_DestToken := msp_DestToken excluded,
       msp_DestWallet := msp_DestWallet excluded, msp_BridgeTokenSymbol := msp_BridgeTokenSymbol excluded, msp_UpdatedAt := msp_UpdatedAt excluded\<rparr>"

definition profile_row_of :: "uuid \<Rightarrow> time \<Rightarrow> MerchantSettlementProfile \<Rightarrow> profile_row" where
  "profile_row_of gen now e =
     \<lparr>msp_ID = (if msp_ID e = uuid_Nil then gen else msp_ID e), msp_MerchantID = msp_MerchantID e, msp_InvoiceCurrency = msp_InvoiceCurrency e,
      msp_DestChain = msp_DestChain e, msp_DestToken = msp_DestToken e, msp_DestWallet = msp_DestWallet e,
      msp_BridgeTokenSymbol = (if msp_BridgeTokenSymbol e = [] then ''USDC'' else msp_BridgeTokenSymbol e),
      msp_CreatedAt = (if msp_CreatedAt e = zero_time then now else msp_CreatedAt e), msp_UpdatedAt = now, prow_DeletedAt = None\<rparr>"

definition Upsert ::
  "fault \<Rightarrow> uuid \<Rightarrow> time \<Rightarrow> profile_row table \<Rightarrow> MerchantSettlementProfile option \<Rightarrow> gerror option \<times> profile_row table" where
  "Upsert flt gen now t profile =
     (case profile of
        None \<Rightarrow> (Some (BadRequest ''profile is required''), t)
      | Some e \<Rightarrow>
          let m = profile_row_of gen now e in
          (case flt of
             Some err \<Rightarrow> (Some err, t)
           | None \<Rightarrow>
               if list_ex (\<lambda>x. msp_MerchantID x = msp_MerchantID m) t
               then (None, map (\<lambda>x. if msp_MerchantID x = msp_MerchantID m then profile_overwritten m x else x) t)
               else (case insert_row msp_ID m t of Inl err \<Rightarrow> (Some err, t) | Inr t' \<Rightarrow> (None, t'))))"

subsection \<open>The team page\<close>

record Team =
  team_ID :: uuid
  team_Name :: string
  team_Role :: string
  team_Bio :: string
  team_ImageURL :: string
  team_GithubURL :: string
  team_TwitterURL :: string
  team_LinkedInURL :: string
  team_DisplayOrder :: int
  team_IsActive :: bool
  team_CreatedAt :: time
  team_UpdatedAt :: time
  team_DeletedAt :: "time option"

text \<open>The row has the fields of the entity. On insertion an inactive member takes the default of its column, so all are inserted active.\<close>

definition team_toModel :: "uuid \<Rightarrow> time \<Rightarrow> Team \<Rightarrow> Team" where
  "team_toModel gen now e =
     e\<lparr>team_ID := (if team_ID e = uuid_Nil then gen else team_ID e), team_IsActive := True,
       team_CreatedAt := (if team_CreatedAt e = zero_time then now else team_CreatedAt e),
       team_UpdatedAt := (if team_UpdatedAt e = zero_time then now else team_UpdatedAt e), team_DeletedAt := None\<rparr>"

definition team_Create :: "fault \<Rightarrow> uuid \<Rightarrow> time \<Rightarrow> Team table \<Rightarrow> Team \<Rightarrow> (Team \<times> Team table) result" where
  "team_Create flt gen now t e =
     (let m = team_toModel gen now e in
      map_sum (\<lambda>err. err)
        (\<lambda>t'. (e\<lparr>team_ID := team_ID m, team_CreatedAt := team_CreatedAt m, team_UpdatedAt := team_UpdatedAt m\<rparr>, t'))
        (soft_insert team_ID flt t m))"

definition team_GetByID :: "fault \<Rightarrow> Team table \<Rightarrow> uuid \<Rightarrow> Team result" where
  "team_GetByID = soft_get team_ID team_DeletedAt (\<lambda>m. m)"

definition team_order :: "Team list \<Rightarrow> Team list" where
  "team_order = sort_key (\<lambda>m. (team_DisplayOrder m, team_CreatedAt m))"

definition team_list :: "fault \<Rightarrow> Team table \<Rightarrow> (Team \<Rightarrow> bool) \<Rightarrow> Team list result" where
  "team_list flt t p = (case flt of Some e \<Rightarrow> Inl e | None \<Rightarrow> Inr (team_order (select_where (\<lambda>m. team_DeletedAt m = None \<and> p m) t)))"

definition ListPublic :: "fault \<Rightarrow> Team table \<Rightarrow> Team list result" where
  "ListPublic flt t = team_list flt t team_IsActive"

definition ListAdmin :: "fault \<Rightarrow> Team table \<Rightarrow> string \<Rightarrow> Team list result" where
  "ListAdmin flt t search =
     team_list flt t (\<lambda>m. TrimSpace search = [] \<or>
       (let term = ''%'' @ TrimSpace search @ ''%'' in sql_ilike term (team_Name m) \<or> sql_ilike term (team_Role m)))"

definition team_updates :: "time \<Rightarrow> Team \<Rightarrow> Team \<Rightarrow> Team" where
  "team_updates now e m =
     m\<lparr>team_Name := team_Name e, team_Role := team_Role e, team_Bio := team_Bio e, team_ImageURL := team_ImageURL e,
       team_GithubURL := team_GithubURL e, team_TwitterURL := team_TwitterURL e, team_LinkedInURL := team_LinkedInURL e,
       team_DisplayOrder := team_DisplayOrder e, team_IsActive := team_IsActive e, team_UpdatedAt := now\<rparr>"

definition team_Update :: "fault \<Rightarrow> time \<Rightarrow> Team table \<Rightarrow> Team \<Rightarrow> gerror option \<times> Team table" where
  "team_Update flt now t e = soft_update team_ID team_DeletedAt flt t (team_ID e) (team_updates now e)"

definition team_deleted :: "time \<Rightarrow> Team \<Rightarrow> Team" where
  "team_deleted now m = m\<lparr>team_DeletedAt := Some now\<rparr>"

definition team_SoftDelete :: "fault \<Rightarrow> time \<Rightarrow> Team table \<Rightarrow> uuid \<Rightarrow> gerror option \<times> Team table" where
  "team_SoftDelete flt now t k = soft_update team_ID team_DeletedAt flt t k (team_deleted now)"

interpretation teams: soft_repo team_ID team_DeletedAt team_deleted "\<lambda>m. m"
  by unfold_locales (simp_all add: team_deleted_def)

subsection \<open>What the tables promise\<close>

text \<open>
  Also. The shortened lookup of a contract address agrees with the lookup of the whole contract, and both
  return a live active contract of the type on the chain than which none is newer.
\<close>

lemma first_by_least:
  assumes "first_by pk p t = Some r" "x \<in> set t" "p x"
  shows "pk r \<le> pk x"
proof -
  obtain a as where f: "filter p t = a # as" and r: "r = foldl (\<lambda>b c. if pk c < pk b then c else b) a as"
    using assms(1) by (auto simp: first_by_def split: list.splits)
  have "pk (foldl (\<lambda>b c. if pk c < pk b then c else b) a as) \<le> pk y" if "y = a \<or> y \<in> set as" for a y
    using that
  proof (induction as arbitrary: a y)
    case (Cons c cs)
    let ?n = "if pk c < pk a then c else a"
    have n: "pk ?n \<le> pk a" "pk ?n \<le> pk c" by auto
    have "pk (foldl (\<lambda>b c. if pk c < pk b then c else b) ?n cs) \<le> pk ?n" using Cons.IH [of ?n ?n] by blast
    with Cons.IH [of y ?n] Cons.prems n show ?case by (auto intro: order_trans)
  qed simp
  moreover have "x = a \<or> x \<in> set as" using arg_cong [OF f, of set] assms(2,3) by auto
  ultimately show ?thesis using r by blast
qed

lemma active_contract_agrees:
  "GetActiveContractAddress ver flt t chainID ty =
     (case GetActiveContract R ch ver flt t chainID ty of
        Inl e \<Rightarrow> Inl e | Inr None \<Rightarrow> Inr [] | Inr (Some c) \<Rightarrow> Inr (sc_ContractAddress c))"
  by (auto simp: GetActiveContractAddress_def GetActiveContract_def found_def contract_toEntity_def Let_def split: option.splits)

lemma active_contract_newest:
  assumes "GetActiveContract R ch ver flt t chainID ty = Inr (Some c)"
  shows "sc_IsActive c \<and> sc_Type c = ty \<and> sc_ChainUUID c = chainID \<and>
    (\<forall>m\<in>set t. crow_DeletedAt m = None \<and> crow_ChainID m = chainID \<and> crow_Type m = ty \<and> crow_IsActive m \<longrightarrow> crow_UpdatedAt m \<le> sc_UpdatedAt c)"
proof -
  obtain r where r: "active_contract_row ver t chainID ty = Some r" "c = contract_toEntity R ch r"
    using assms by (auto simp: GetActiveContract_def found_def split: option.splits)
  have "crow_UpdatedAt m \<le> crow_UpdatedAt r"
    if "m \<in> set t" "crow_DeletedAt m = None \<and> crow_ChainID m = chainID \<and> crow_Type m = ty \<and> crow_IsActive m" for m
    using first_by_least [OF r(1) [unfolded active_contract_row_def] that] by (auto simp: contract_rank_def less_eq_prod_def)
  moreover from first_by_SomeD [OF r(1) [unfolded active_contract_row_def]]
  have "crow_ChainID r = chainID" "crow_Type r = ty" "crow_IsActive r" by simp_all
  ultimately show ?thesis unfolding r(2) by (simp add: contract_toEntity_def Let_def)
qed

text \<open>The rows of the profile table: keys and merchants are unique, and nothing deletes a profile.\<close>

definition profiles_ok :: "profile_row table \<Rightarrow> bool" where
  "profiles_ok t \<longleftrightarrow> distinct (map msp_ID t) \<and> distinct (map msp_MerchantID t) \<and> (\<forall>m\<in>set t. prow_DeletedAt m = None)"

definition profile_map :: "profile_row table \<Rightarrow> uuid \<rightharpoonup> MerchantSettlementProfile" where
  "profile_map t k = map_option profile_toEntity (find (\<lambda>m. msp_MerchantID m = k) t)"

lemma profile_get_map:
  assumes "profiles_ok t"
  shows "profile_GetByMerchantID None t k = (case profile_map t k of Some e \<Rightarrow> Inr e | None \<Rightarrow> Inl (Sentinel ErrNotFound))"
proof (cases "first_by msp_ID (\<lambda>m. prow_DeletedAt m = None \<and> msp_MerchantID m = k) t")
  case None
  with assms have "find (\<lambda>m. msp_MerchantID m = k) t = None" by (auto simp: first_by_None find_None_iff profiles_ok_def)
  with None show ?thesis by (simp add: profile_GetByMerchantID_def profile_map_def)
next
  case (Some r)
  then have r: "r \<in> set t" "msp_MerchantID r = k" using first_by_SomeD by fastforce+
  have "find (\<lambda>m. msp_MerchantID m = k) t = Some r"
    using assms r by (intro find_unique [of msp_MerchantID]) (auto simp: profiles_ok_def)
  with Some show ?thesis by (simp add: profile_GetByMerchantID_def profile_map_def)
qed

lemma profile_overwritten_simps [simp]:
  "msp_ID (profile_overwritten x m) = msp_ID m" "msp_MerchantID (profile_overwritten x m) = msp_MerchantID m"
  "prow_DeletedAt (profile_overwritten x m) = prow_DeletedAt m"
  by (simp_all add: profile_overwritten_def)

definition upserted :: "uuid \<Rightarrow> time \<Rightarrow> MerchantSettlementProfile \<Rightarrow> MerchantSettlementProfile option \<Rightarrow> MerchantSettlementProfile" where
  "upserted gen now e old =
     (let new = profile_toEntity (profile_row_of gen now e) in
      case old of None \<Rightarrow> new | Some o' \<Rightarrow> new\<lparr>msp_ID := msp_ID o', msp_CreatedAt := msp_CreatedAt o'\<rparr>)"

lemma find_SomeD: "find P xs = Some r \<Longrightarrow> P r"
  by (induction xs) (auto split: if_splits)

lemma profile_map_overwrite:
  "profile_map (map (\<lambda>x. if msp_MerchantID x = k then profile_overwritten m x else x) t) =
   (profile_map t)(k := map_option (\<lambda>o'. (profile_toEntity m)\<lparr>msp_ID := msp_ID o', msp_MerchantID := k, msp_CreatedAt := msp_CreatedAt o'\<rparr>) (profile_map t k))"
proof
  fix j
  let ?f = "\<lambda>x. if msp_MerchantID x = k then profile_overwritten m x else x"
  have "find (\<lambda>m. msp_MerchantID m = j) (map ?f t) = map_option ?f (find (\<lambda>m. msp_MerchantID m = j) t)"
    by (rule find_map_cong) simp
  then show "profile_map (map ?f t) j = ((profile_map t)(k := map_option (\<lambda>o'. (profile_toEntity m)\<lparr>msp_ID := msp_ID o', msp_MerchantID := k, msp_CreatedAt := msp_CreatedAt o'\<rparr>) (profile_map t k))) j"
    using find_SomeD [of "\<lambda>m. msp_MerchantID m = j" t]
    by (cases "find (\<lambda>m. msp_MerchantID m = j) t") (auto simp: profile_map_def profile_toEntity_def profile_overwritten_def)
qed

lemma profile_map_append:
  "profile_map (t @ [m]) = (\<lambda>k. case profile_map t k of Some e \<Rightarrow> Some e | None \<Rightarrow> if msp_MerchantID m = k then Some (profile_toEntity m) else None)"
proof -
  have "find P (t @ [m]) = (case find P t of None \<Rightarrow> if P m then Some m else None | Some r \<Rightarrow> Some r)" for P
    by (induction t) auto
  then show ?thesis by (auto simp: profile_map_def fun_eq_iff split: option.splits)
qed

lemma profile_map_None: "profile_map t k = None \<longleftrightarrow> \<not> list_ex (\<lambda>x. msp_MerchantID x = k) t"
  by (auto simp: profile_map_def find_None_iff list_ex_iff)

text \<open>
  Property C33. The settlement profiles are a map from merchants to profiles: a successful upsert sets the entry of
  its merchant and no other, keeping identifier and creation time of the profile it replaces, the new profile
  reads back, an empty bridge token as USDC, and the rows keep unique keys and merchants.
\<close>

lemma profile_upsert_is_map_update:
  assumes "profiles_ok t" "Upsert None gen now t (Some e) = (None, t')"
  shows "profiles_ok t' \<and> profile_map t' = (profile_map t)(msp_MerchantID e \<mapsto> upserted gen now e (profile_map t (msp_MerchantID e))) \<and>
    profile_GetByMerchantID None t' (msp_MerchantID e) = Inr (upserted gen now e (profile_map t (msp_MerchantID e)))"
proof -
  define m where "m = profile_row_of gen now e"
  have m: "msp_MerchantID m = msp_MerchantID e" "prow_DeletedAt m = None" by (simp_all add: m_def profile_row_of_def)
  have "profiles_ok t' \<and> profile_map t' = (profile_map t)(msp_MerchantID e \<mapsto> upserted gen now e (profile_map t (msp_MerchantID e)))"
  proof (cases "list_ex (\<lambda>x. msp_MerchantID x = msp_MerchantID e) t")
    case True
    let ?f = "\<lambda>x. if msp_MerchantID x = msp_MerchantID e then profile_overwritten m x else x"
    have t': "t' = map ?f t" using assms(2) True by (simp add: Upsert_def Let_def m_def [symmetric] m)
    have "map msp_ID (map ?f t) = map msp_ID t" "map msp_MerchantID (map ?f t) = map msp_MerchantID t" by simp_all
    then have "profiles_ok t'" using assms(1) unfolding profiles_ok_def t' by (auto simp del: map_map)
    moreover obtain o' where "profile_map t (msp_MerchantID e) = Some o'" using True profile_map_None by (metis not_None_eq)
    ultimately show ?thesis unfolding t' profile_map_overwrite
      by (simp add: upserted_def Let_def m_def [symmetric] fun_eq_iff) (simp add: profile_toEntity_def m)
  next
    case False
    have t': "t' = t @ [m]" and new: "msp_ID m \<notin> msp_ID ` set t"
      using assms(2) False by (auto simp: Upsert_def Let_def m_def [symmetric] m insert_row_def split: if_splits)
    have "profiles_ok t'" using assms(1) False new unfolding profiles_ok_def t' by (auto simp: m list_ex_iff)
    then show ?thesis using False unfolding t' profile_map_append profile_map_None [symmetric]
      by (auto simp: upserted_def Let_def m_def [symmetric] m fun_eq_iff split: option.splits)
  qed
  then show ?thesis using profile_get_map by simp
qed

definition w_profile :: MerchantSettlementProfile where
  "w_profile = \<lparr>msp_ID = 0, msp_MerchantID = 9, msp_InvoiceCurrency = ''IDRX'', msp_DestChain = ''eip155:8453'', msp_DestToken = ''0x1'',
     msp_DestWallet = ''0x2'', msp_BridgeTokenSymbol = [], msp_CreatedAt = zero_time, msp_UpdatedAt = zero_time\<rparr>"

lemma profile_upsert_is_map_update_witness:
  "profiles_ok [] \<and> map_option msp_BridgeTokenSymbol (profile_map (snd (Upsert None 5 100 [] (Some w_profile))) 9) = Some ''USDC''"
proof -
  have ok: "profiles_ok []" by (simp add: profiles_ok_def)
  obtain t' where t': "Upsert None 5 100 [] (Some w_profile) = (None, t')"
    by (simp add: Upsert_def Let_def insert_row_def)
  from profile_upsert_is_map_update [OF ok t'] ok t' show ?thesis
    by (simp add: w_profile_def upserted_def Let_def profile_map_def profile_row_of_def profile_toEntity_def)
qed

lemma foldl_upds:
  "foldl (\<lambda>out x. out(f x \<mapsto> b)) m xs k = (if k \<in> f ` set xs then Some b else m k)"
  by (induction xs arbitrary: m) auto

lemma missing_and_present_profiles:
  assumes "HasProfilesByMerchantIDs None t ids = Inr has" "ListMissingMerchantIDs None ms t = Inr missing" "k \<in> set ids" "m \<in> set ms"
    "mrow_ID m = k" "live_merchant m" "distinct (map mrow_ID ms)"
  shows "has k = Some (k \<notin> set missing)"
proof -
  let ?p = "list_ex (\<lambda>r. msp_MerchantID r = k \<and> prow_DeletedAt r = None) t"
  have "has k = Some ?p"
    using assms(1,3) by (auto simp: HasProfilesByMerchantIDs_def Let_def foldl_upds [of "\<lambda>x. x"] foldl_upds [of msp_MerchantID] select_where_def list_ex_iff image_iff split: if_splits)
  moreover have "k \<in> set missing \<longleftrightarrow> \<not> ?p"
    using assms(2,4-7) by (auto simp: ListMissingMerchantIDs_def select_where_def live_merchant_def image_iff inj_on_def distinct_map)
  ultimately show ?thesis by simp
qed

text \<open>
  Also. A team member created as inactive is stored active: the caller gets the member back as inactive, and the public
  page shows it.
\<close>

lemma inactive_member_is_published:
  assumes "team_Create None gen now t e = Inr (e', t')" "\<not> team_IsActive e"
  shows "\<not> team_IsActive e' \<and> (\<exists>ms m. ListPublic None t' = Inr ms \<and> m \<in> set ms \<and> team_ID m = team_ID e' \<and> team_Name m = team_Name e)"
proof -
  let ?m = "team_toModel gen now e"
  have e': "e' = e\<lparr>team_ID := team_ID ?m, team_CreatedAt := team_CreatedAt ?m, team_UpdatedAt := team_UpdatedAt ?m\<rparr>" and t': "t' = t @ [?m]"
    using assms(1) by (auto simp: team_Create_def Let_def soft_insert_def insert_row_def split: if_splits)
  have "ListPublic None t' = Inr (team_order (select_where (\<lambda>m. team_DeletedAt m = None \<and> team_IsActive m) t'))"
    by (simp add: ListPublic_def team_list_def)
  moreover have "?m \<in> set (team_order (select_where (\<lambda>m. team_DeletedAt m = None \<and> team_IsActive m) t'))"
    by (simp add: t' team_order_def select_where_def team_toModel_def)
  moreover have "team_Name ?m = team_Name e" by (simp add: team_toModel_def)
  ultimately show ?thesis using assms(2) unfolding e' by (auto simp: team_toModel_def)
qed

definition w_member :: Team where
  "w_member = \<lparr>team_ID = 0, team_Name = ''Ada'', team_Role = ''Engineer'', team_Bio = [], team_ImageURL = [], team_GithubURL = [], team_TwitterURL = [],
     team_LinkedInURL = [], team_DisplayOrder = 0, team_IsActive = False, team_CreatedAt = zero_time, team_UpdatedAt = zero_time, team_DeletedAt = None\<rparr>"

lemma inactive_member_is_published_witness:
  "\<exists>e' t'. team_Create None 4 100 [] w_member = Inr (e', t') \<and> \<not> team_IsActive e' \<and> (\<exists>ms. ListPublic None t' = Inr ms \<and> ms \<noteq> [])"
proof -
  obtain e' t' where c: "team_Create None 4 100 [] w_member = Inr (e', t')"
    by (simp add: team_Create_def Let_def soft_insert_def insert_row_def)
  have "\<not> team_IsActive w_member" by (simp add: w_member_def)
  from inactive_member_is_published [OF c this] c show ?thesis by fastforce
qed

text \<open>
  Also. Saving a token whose row was deleted meanwhile brings the row back to life; deleting and listing otherwise hide it.
\<close>

lemma save_revives_token:
  assumes "distinct (map trow_ID t)" "r \<in> set t" "trow_ID r = token_ID e" "trow_DeletedAt r \<noteq> None" "token_ID e \<noteq> uuid_Nil"
    "token_Update None gen now t e = (err, t')"
  shows "err = None \<and> (\<exists>x. token_GetByID cs None t' (token_ID e) = Inr x \<and> token_Symbol x = token_Symbol e)"
proof -
  have dead: "\<not> list_ex (\<lambda>x. trow_ID x = token_ID e \<and> trow_DeletedAt x = None) t"
    using assms(1-4) by (auto simp: list_ex_iff distinct_map inj_on_def)
  define m where "m = token_inserted gen now (token_toModel e)"
  have m: "trow_ID m = token_ID e" "trow_DeletedAt m = None" "trow_Symbol m = token_Symbol e"
    using assms(5) by (simp_all add: m_def token_inserted_def token_toModel_def)
  have id: "trow_ID (token_toModel e) = token_ID e" by (simp add: token_toModel_def)
  have ex: "list_ex (\<lambda>x. trow_ID x = token_ID e) t" using assms(2,3) by (auto simp: list_ex_iff)
  have t': "err = None" "t' = map (\<lambda>x. if trow_ID x = token_ID e then m else x) t"
    using assms(6) dead ex id by (auto simp: token_Update_def Let_def m(1) [unfolded m_def] m_def)
  have "map trow_ID t' = map trow_ID t" using m by (simp add: t')
  then have d: "distinct (map trow_ID t')" using assms(1) by simp
  have "m \<in> set t'" using assms(2,3) by (auto simp: t' image_iff)
  from tokens.find_live [OF d this] have "soft_abs trow_ID trow_DeletedAt (token_toEntity (Some cs)) t' (token_ID e) = Some (token_toEntity (Some cs) m)"
    by (simp add: m soft_abs_def)
  then show ?thesis using t'(1) tokens.get_refines [OF d, of "Some cs" "token_ID e"]
    by (simp add: token_GetByID_def token_toEntity_def Let_def m)
qed

lemma team_table_is_map:
  assumes "distinct (map team_ID t)"
  shows "team_GetByID None t k = (case soft_abs team_ID team_DeletedAt (\<lambda>m. m) t k of Some e \<Rightarrow> Inr e | None \<Rightarrow> Inl (Sentinel ErrNotFound))"
    and "team_SoftDelete None now t k = (err, t') \<Longrightarrow>
      soft_abs team_ID team_DeletedAt (\<lambda>m. m) t' = (soft_abs team_ID team_DeletedAt (\<lambda>m. m) t)(k := None)"
    and "team_Update None now t e = (err, t') \<Longrightarrow>
      soft_abs team_ID team_DeletedAt (\<lambda>m. m) t' = (soft_abs team_ID team_DeletedAt (\<lambda>m. m) t)(team_ID e := map_option (team_updates now e) (soft_abs team_ID team_DeletedAt (\<lambda>m. m) t (team_ID e)))"
proof -
  have u: "team_ID (team_updates now e r) = team_ID r" "team_DeletedAt (team_updates now e r) = team_DeletedAt r" for r
    by (simp_all add: team_updates_def)
  show "team_GetByID None t k = (case soft_abs team_ID team_DeletedAt (\<lambda>m. m) t k of Some e \<Rightarrow> Inr e | None \<Rightarrow> Inl (Sentinel ErrNotFound))"
    unfolding team_GetByID_def by (rule teams.get_refines [OF assms])
  show "soft_abs team_ID team_DeletedAt (\<lambda>m. m) t' = (soft_abs team_ID team_DeletedAt (\<lambda>m. m) t)(k := None)"
    if "team_SoftDelete None now t k = (err, t')"
    using that unfolding team_SoftDelete_def by (rule teams.delete_refines(1) [OF assms])
  show "soft_abs team_ID team_DeletedAt (\<lambda>m. m) t' = (soft_abs team_ID team_DeletedAt (\<lambda>m. m) t)(team_ID e := map_option (team_updates now e) (soft_abs team_ID team_DeletedAt (\<lambda>m. m) t (team_ID e)))"
    if "team_Update None now t e = (err, t')"
    using that unfolding team_Update_def by (rule teams.update_refines(1) [OF u refl])
qed

lemma filter_map_untouched:
  assumes "\<And>x. f x = x \<or> (\<not> P x \<and> \<not> P (f x))"
  shows "filter P (map f t) = filter P t"
proof (induction t)
  case (Cons a t)
  then show ?case using assms [of a] by auto
qed simp

lemma contract_delete_hides:
  assumes "distinct (map crow_ID t)" "contract_SoftDelete None now t k = (err, t')"
  shows "contract_GetByID R ch None t' k = Inr None" and "j \<noteq> k \<Longrightarrow> contract_GetByID R ch None t j = contract_GetByID R ch None t' j"
proof -
  have t': "t' = map (\<lambda>m. if crow_ID m = k \<and> crow_DeletedAt m = None then contract_deleted now m else m) t"
    using assms(2) update_checked_table [of None "\<lambda>m. crow_ID m = k \<and> crow_DeletedAt m = None" "contract_deleted now" t]
    by (simp add: contract_SoftDelete_def soft_update_def)
  have "crow_DeletedAt r \<noteq> None \<or> crow_ID r \<noteq> k" if "r \<in> set t'" for r
  proof -
    from that obtain m where "r = (if crow_ID m = k \<and> crow_DeletedAt m = None then contract_deleted now m else m)" unfolding t' set_map by blast
    then show ?thesis by (cases "crow_ID m = k \<and> crow_DeletedAt m = None") (auto simp: contract_deleted_def)
  qed
  then show "contract_GetByID R ch None t' k = Inr None" by (auto simp: contract_GetByID_def found_def first_by_None)
  assume "j \<noteq> k"
  have "filter (\<lambda>m. crow_DeletedAt m = None \<and> crow_ID m = j) t' = filter (\<lambda>m. crow_DeletedAt m = None \<and> crow_ID m = j) t"
    unfolding t' by (rule filter_map_untouched) (use \<open>j \<noteq> k\<close> in \<open>simp add: contract_deleted_def\<close>)
  then show "contract_GetByID R ch None t j = contract_GetByID R ch None t' j" by (simp add: contract_GetByID_def first_by_def)
qed

end
