(* ===== verification/Swap_Quotes.thy ===== *)
theory Swap_Quotes
  imports Payment_Creation
begin

text \<open>
  Quotes of swaps along a route of pools (\<^verbatim>\<open>internal/usecases/payment_usecase.go\<close>, from
  \<^verbatim>\<open>AccurateSwapQuoteResult\<close> to \<^verbatim>\<open>fallbackKnownUniswapV3Quoter\<close>) with the cache that lives as long as
  one request (\<^verbatim>\<open>quote_request_cache.go\<close>, \<^verbatim>\<open>payment_quote_cache_helpers.go\<close>). A computation takes the
  cache of its context, if there is one, and returns it updated. The goroutines that run side by
  side read different tables of the cache, so their order does not matter.
\<close>

subsection \<open>The cache of a request\<close>

record TokenRouteSupportStatus =
  rs_Exists :: bool
  rs_IsDirect :: bool
  rs_Path :: "string list"
  rs_Executable :: bool
  rs_Reasons :: "string list"
  rs_SwapRouterV3 :: string
  rs_UniversalV4 :: string

record quoteRequestCache =
  qc_activeContracts :: "string \<rightharpoonup> string option"
  qc_resolvedABIs :: "string \<rightharpoonup> contract_abi"
  qc_routePaths :: "string \<rightharpoonup> string list"
  qc_quoterAddresses :: "string \<rightharpoonup> string"
  qc_v3PoolConfigs :: "string \<rightharpoonup> bool \<times> u32"
  qc_routeSupports :: "string \<rightharpoonup> TokenRouteSupportStatus"
  qc_chainsByID :: "string \<rightharpoonup> Chain"
  qc_tokensByAddress :: "string \<rightharpoonup> Token"
  qc_tokensBySymbol :: "string \<rightharpoonup> Token"

type_synonym 'a quoting = "quoteRequestCache option \<Rightarrow> 'a result \<times> quoteRequestCache option"

definition newQuoteRequestCache :: quoteRequestCache where
  "newQuoteRequestCache =
     \<lparr>qc_activeContracts = Map.empty, qc_resolvedABIs = Map.empty, qc_routePaths = Map.empty, qc_quoterAddresses = Map.empty,
      qc_v3PoolConfigs = Map.empty, qc_routeSupports = Map.empty, qc_chainsByID = Map.empty, qc_tokensByAddress = Map.empty,
      qc_tokensBySymbol = Map.empty\<rparr>"

definition withQuoteRequestCache :: "quoteRequestCache option \<Rightarrow> quoteRequestCache option" where
  "withQuoteRequestCache c = (case c of Some s \<Rightarrow> Some s | None \<Rightarrow> Some newQuoteRequestCache)"

text \<open>A cache that the operation itself creates does not reach the context of its caller.\<close>

definition with_cache :: "'a quoting \<Rightarrow> 'a quoting" where
  "with_cache m c = (let r = m (withQuoteRequestCache c) in if c = None then (fst r, None) else r)"

lemma with_cache_Some [simp]: "with_cache m (Some s) = m (Some s)"
  by (simp add: with_cache_def withQuoteRequestCache_def)

definition contractCacheKey :: "uuid_lib \<Rightarrow> uuid \<Rightarrow> string \<Rightarrow> string" where
  "contractCacheKey L chainID ty = uuid_String L chainID @ '':'' @ TrimSpace ty"

definition routePathCacheKey :: "uuid_lib \<Rightarrow> uuid \<Rightarrow> string \<Rightarrow> string \<Rightarrow> string \<Rightarrow> string" where
  "routePathCacheKey L chainID swapper tokenIn tokenOut =
     uuid_String L chainID @ '':'' @ normalizeEvmAddress swapper @ '':'' @ normalizeEvmAddress tokenIn @ '':'' @ normalizeEvmAddress tokenOut"

definition quoterCacheKey :: "uuid_lib \<Rightarrow> uuid \<Rightarrow> string \<Rightarrow> string" where
  "quoterCacheKey L chainID swapper = uuid_String L chainID @ '':'' @ normalizeEvmAddress swapper"

definition v3PoolCacheKey :: "uuid_lib \<Rightarrow> uuid \<Rightarrow> string \<Rightarrow> string \<Rightarrow> string \<Rightarrow> string" where
  "v3PoolCacheKey L chainID swapper tokenIn tokenOut =
     uuid_String L chainID @ '':'' @ normalizeEvmAddress swapper @ '':'' @ normalizeEvmAddress tokenIn @ '':'' @ normalizeEvmAddress tokenOut"

definition routeSupportCacheKey :: "uuid_lib \<Rightarrow> uuid \<Rightarrow> string \<Rightarrow> string \<Rightarrow> string" where
  "routeSupportCacheKey L chainID tokenIn tokenOut =
     uuid_String L chainID @ '':'' @ normalizeEvmAddress tokenIn @ '':'' @ normalizeEvmAddress tokenOut"

definition chainByIDCacheKey :: "uuid_lib \<Rightarrow> uuid \<Rightarrow> string" where
  "chainByIDCacheKey L chainID = uuid_String L chainID"

definition tokenByAddressCacheKey :: "uuid_lib \<Rightarrow> uuid \<Rightarrow> string \<Rightarrow> string" where
  "tokenByAddressCacheKey L chainID address = uuid_String L chainID @ '':'' @ normalizeEvmAddress address"

definition tokenBySymbolCacheKey :: "uuid_lib \<Rightarrow> uuid \<Rightarrow> string \<Rightarrow> string" where
  "tokenBySymbolCacheKey L chainID symbol = uuid_String L chainID @ '':'' @ ToUpper (TrimSpace symbol)"

text \<open>Sequencing, and the pattern of the cached readers: look up, else read and store.\<close>

definition qlift :: "'a result \<Rightarrow> 'a quoting" where
  "qlift r c = (r, c)"

definition qbind :: "'a quoting \<Rightarrow> ('a \<Rightarrow> 'b quoting) \<Rightarrow> 'b quoting" where
  "qbind m f c = (case m c of (Inl e, c') \<Rightarrow> (Inl e, c') | (Inr v, c') \<Rightarrow> f v c')"

definition qcatch :: "'a quoting \<Rightarrow> ('a result \<Rightarrow> 'b quoting) \<Rightarrow> 'b quoting" where
  "qcatch m f c = (case m c of (r, c') \<Rightarrow> f r c')"

definition memo ::
  "(quoteRequestCache \<Rightarrow> string \<Rightarrow> 'v option) \<Rightarrow> (string \<Rightarrow> 'v \<Rightarrow> quoteRequestCache \<Rightarrow> quoteRequestCache) \<Rightarrow> string \<Rightarrow> 'v result \<Rightarrow> 'v quoting" where
  "memo get put key read c =
     (case c of
        None \<Rightarrow> (read, None)
      | Some s \<Rightarrow>
          (case get s key of
             Some v \<Rightarrow> (Inr v, Some s)
           | None \<Rightarrow> (case read of Inl e \<Rightarrow> (Inl e, Some s) | Inr v \<Rightarrow> (Inr v, Some (put key v s)))))"

subsection \<open>Reading the swapper\<close>

abbreviation gd_uuid :: "gateway_deps \<Rightarrow> uuid_lib" where "gd_uuid D \<equiv> rd_uuid (gd_route D)"
abbreviation gd_eth :: "gateway_deps \<Rightarrow> eth_lib" where "gd_eth D \<equiv> rd_eth (gd_route D)"
abbreviation gd_addr :: "gateway_deps \<Rightarrow> string \<Rightarrow> address" where "gd_addr D \<equiv> HexToAddress (rd_abi (gd_route D))"

definition resolve_abi :: "gateway_deps \<Rightarrow> uuid \<Rightarrow> string \<Rightarrow> contract_abi result" where
  "resolve_abi D chainID ty = (case gd_resolveABI D of None \<Rightarrow> Inl nil_dereference | Some resolve \<Rightarrow> resolve chainID ty)"

definition callAddressBySignature :: "gateway_deps \<Rightarrow> rpc_call \<Rightarrow> string \<Rightarrow> string \<Rightarrow> address result" where
  "callAddressBySignature D call contract signature =
     (case call contract (method_id (gd_route D) signature) of
        Inl e \<Rightarrow> Inl (ErrorString (rpc_text e))
      | Inr out \<Rightarrow>
          if length out < 32 then Inl (ErrorString (''invalid '' @ signature @ '' response''))
          else Inr (word_of_nat (SetBytes (drop (length out - 20) out))))"

text \<open>The call of \<^verbatim>\<open>findRoute\<close> that the path reader and the support check share.\<close>

definition find_route :: "gateway_deps \<Rightarrow> rpc_call \<Rightarrow> string \<Rightarrow> contract_abi \<Rightarrow> string \<Rightarrow> string \<Rightarrow> (abi_value \<times> abi_value \<times> abi_value) result" where
  "find_route D call swapper a tokenIn tokenOut =
     (case abi_PackCall a ''findRoute'' [ArgAddress (gd_addr D tokenIn), ArgAddress (gd_addr D tokenOut)] of
        Inl e \<Rightarrow> Inl e
      | Inr data \<Rightarrow>
     (case call swapper data of
        Inl e \<Rightarrow> Inl (ErrorString (rpc_text e))
      | Inr out \<Rightarrow>
     (case abi_UnpackCall a ''findRoute'' out of
        Some (r0 # r1 # r2 # _) \<Rightarrow> Inr (r0, r1, r2)
      | _ \<Rightarrow> Inl (ErrorString ''failed to unpack findRoute''))))"

definition readRoutePath :: "gateway_deps \<Rightarrow> rpc_call \<Rightarrow> string \<Rightarrow> contract_abi \<Rightarrow> string \<Rightarrow> string \<Rightarrow> string list result" where
  "readRoutePath D call swapper a tokenIn tokenOut =
     (case find_route D call swapper a tokenIn tokenOut of
        Inl e \<Rightarrow> Inl e
      | Inr (AbiBool exists, _, AbiAddresses pathAddrs) \<Rightarrow>
          if \<not> exists then Inl (ErrorString ''accurate quote unavailable because route does not exist'')
          else Inr (map (Address_Hex (gd_eth D)) pathAddrs)
      | Inr _ \<Rightarrow> Inl (ErrorString ''failed to type cast findRoute results''))"

text \<open>The pools are stored under the hash of the two addresses in ascending order.\<close>

definition address_bytes :: "address \<Rightarrow> byte list" where
  "address_bytes a = (let b = Bytes (unat a) in replicate (20 - length b) 0 @ b)"

definition computePairKey :: "gateway_deps \<Rightarrow> string \<Rightarrow> string \<Rightarrow> byte list" where
  "computePairKey D tokenA tokenB =
     (let a = gd_addr D (normalizeEvmAddress tokenA); b = gd_addr D (normalizeEvmAddress tokenB);
          (a, b) = (if a > b then (b, a) else (a, b)) in
      Keccak256 (gd_eth D) (address_bytes a @ address_bytes b))"

definition fee_tier :: "abi_value \<Rightarrow> u32 result" where
  "fee_tier v =
     (case v of
        AbiU32 w \<Rightarrow> Inr w
      | AbiBig n \<Rightarrow> if n \<ge> 2 ^ 64 then Inl (ErrorString ''invalid v3 pool feeTier value'') else Inr (word_of_nat n)
      | AbiU64 w \<Rightarrow> Inr (ucast w)
      | _ \<Rightarrow> Inl (ErrorString ''invalid v3 pool feeTier type''))"

definition readV3PoolConfig :: "gateway_deps \<Rightarrow> rpc_call \<Rightarrow> string \<Rightarrow> string \<Rightarrow> string \<Rightarrow> (bool \<times> u32) result" where
  "readV3PoolConfig D call contract tokenIn tokenOut =
     (case packABIArgs (rd_abi (gd_route D)) [ArgBytes32 (computePairKey D tokenIn tokenOut)] of
        Inl e \<Rightarrow> Inl e
      | Inr callData \<Rightarrow>
     (case call contract (method_id (gd_route D) ''v3Pools(bytes32)'' @ callData) of
        Inl e \<Rightarrow> Inl (ErrorString (rpc_text e))
      | Inr out \<Rightarrow>
     (case abi_Unpack (gd_eth D) [''uint24'', ''bool''] out of
        Some [fee, active] \<Rightarrow>
          (case fee_tier fee of
             Inl e \<Rightarrow> Inl e
           | Inr feeTier \<Rightarrow> (case active of AbiBool b \<Rightarrow> Inr (b, feeTier) | _ \<Rightarrow> Inl (ErrorString ''invalid v3 pool active flag type'')))
      | _ \<Rightarrow> Inl (ErrorString ''abi: cannot unmarshal v3Pools result''))))"

text \<open>
  The two quoter calls take a tuple of static fields, which is encoded like its fields one after the other, and
  return four values of which the first is the amount.
\<close>

definition call_quoter ::
  "string \<Rightarrow> string \<Rightarrow> gateway_deps \<Rightarrow> rpc_call \<Rightarrow> string \<Rightarrow> string \<Rightarrow> string \<Rightarrow> int \<Rightarrow> u32 \<Rightarrow> int result" where
  "call_quoter signature type_text D call quoter tokenIn tokenOut amount feeTier =
     (case packABIArgs (rd_abi (gd_route D))
             [ArgAddress (gd_addr D (normalizeEvmAddress tokenIn)), ArgAddress (gd_addr D (normalizeEvmAddress tokenOut)),
              ArgUint amount, ArgUint (int (unat feeTier)), ArgUint 0] of
        Inl e \<Rightarrow> Inl e
      | Inr callData \<Rightarrow>
     (case call quoter (method_id (gd_route D) signature @ callData) of
        Inl e \<Rightarrow> Inl (ErrorString (rpc_text e))
      | Inr out \<Rightarrow>
     (case abi_Unpack (gd_eth D) [''uint256'', ''uint160'', ''uint32'', ''uint256''] out of
        Some (v # _) \<Rightarrow> (case big_value v of Some n \<Rightarrow> Inr (int n) | None \<Rightarrow> Inl (ErrorString type_text))
      | _ \<Rightarrow> Inl (ErrorString ''abi: cannot unmarshal quoter result''))))"

definition callQuoterV3ExactInputSingle :: "gateway_deps \<Rightarrow> rpc_call \<Rightarrow> string \<Rightarrow> string \<Rightarrow> string \<Rightarrow> int \<Rightarrow> u32 \<Rightarrow> int result" where
  "callQuoterV3ExactInputSingle =
     call_quoter ''quoteExactInputSingle((address,address,uint256,uint24,uint160))'' ''invalid quoter v3 amountOut type''"

definition callQuoterV3ExactOutputSingle :: "gateway_deps \<Rightarrow> rpc_call \<Rightarrow> string \<Rightarrow> string \<Rightarrow> string \<Rightarrow> int \<Rightarrow> u32 \<Rightarrow> int result" where
  "callQuoterV3ExactOutputSingle =
     call_quoter ''quoteExactOutputSingle((address,address,uint256,uint24,uint160))'' ''invalid quoter v3 amountIn type''"

definition knownUniswapV3QuotersByCAIP2 :: "(string \<times> string) list" where
  "knownUniswapV3QuotersByCAIP2 =
     [(''eip155:8453'', ''0x3d4e44Eb1374240CE5F1B871ab261CD16335B76a''),
      (''eip155:137'', ''0x61fFE014bA17989E743c5F6cB21bF9697530B21e''),
      (''eip155:42161'', ''0x61fFE014bA17989E743c5F6cB21bF9697530B21e'')]"

definition fallbackKnownUniswapV3Quoter :: "Chain \<Rightarrow> string" where
  "fallbackKnownUniswapV3Quoter chain =
     (case map_of knownUniswapV3QuotersByCAIP2 (TrimSpace (GetCAIP2ID chain)) of Some addr \<Rightarrow> addr | None \<Rightarrow> [])"

definition read_quoter :: "gateway_deps \<Rightarrow> rpc_call \<Rightarrow> Chain \<Rightarrow> string \<Rightarrow> address result" where
  "read_quoter D call chain swapper =
     (case callAddressBySignature D call swapper ''quoterV3()'' of
        Inl e \<Rightarrow> Inl e
      | Inr q \<Rightarrow>
          if q = 0 then
            (if fallbackKnownUniswapV3Quoter chain \<noteq> [] then Inr (gd_addr D (fallbackKnownUniswapV3Quoter chain))
             else Inl (ErrorString ''accurate quote unavailable because quoterV3 is not configured''))
          else Inr q)"

subsection \<open>The cached readers\<close>

definition getCachedActiveContract :: "gateway_deps \<Rightarrow> uuid \<Rightarrow> string \<Rightarrow> string option quoting" where
  "getCachedActiveContract D chainID ty =
     memo qc_activeContracts (\<lambda>k v s. s\<lparr>qc_activeContracts := (qc_activeContracts s)(k \<mapsto> v)\<rparr>) (contractCacheKey (gd_uuid D) chainID ty)
       (rd_activeContract (gd_route D) chainID ty)"

definition getCachedResolvedABI :: "gateway_deps \<Rightarrow> uuid \<Rightarrow> string \<Rightarrow> contract_abi quoting" where
  "getCachedResolvedABI D chainID ty =
     memo qc_resolvedABIs (\<lambda>k v s. s\<lparr>qc_resolvedABIs := (qc_resolvedABIs s)(k \<mapsto> v)\<rparr>) (contractCacheKey (gd_uuid D) chainID ty)
       (resolve_abi D chainID ty)"

definition getCachedRoutePath :: "gateway_deps \<Rightarrow> rpc_call \<Rightarrow> uuid \<Rightarrow> string \<Rightarrow> contract_abi \<Rightarrow> string \<Rightarrow> string \<Rightarrow> string list quoting" where
  "getCachedRoutePath D call chainID swapper a tokenIn tokenOut =
     memo qc_routePaths (\<lambda>k v s. s\<lparr>qc_routePaths := (qc_routePaths s)(k \<mapsto> v)\<rparr>)
       (routePathCacheKey (gd_uuid D) chainID swapper tokenIn tokenOut) (readRoutePath D call swapper a tokenIn tokenOut)"

text \<open>The cache keeps the quoter as text; a blank text counts as missing.\<close>

definition cached_quoter :: "gateway_deps \<Rightarrow> quoteRequestCache \<Rightarrow> string \<Rightarrow> address option" where
  "cached_quoter D s k =
     (case qc_quoterAddresses s k of None \<Rightarrow> None | Some a \<Rightarrow> if TrimSpace a \<noteq> [] then Some (gd_addr D a) else None)"

definition getCachedQuoterV3 :: "gateway_deps \<Rightarrow> rpc_call \<Rightarrow> uuid \<Rightarrow> Chain \<Rightarrow> string \<Rightarrow> address quoting" where
  "getCachedQuoterV3 D call chainID chain swapper =
     memo (cached_quoter D) (\<lambda>k v s. s\<lparr>qc_quoterAddresses := (qc_quoterAddresses s)(k \<mapsto> Address_Hex (gd_eth D) v)\<rparr>)
       (quoterCacheKey (gd_uuid D) chainID swapper) (read_quoter D call chain swapper)"

definition getCachedV3PoolConfig :: "gateway_deps \<Rightarrow> rpc_call \<Rightarrow> uuid \<Rightarrow> string \<Rightarrow> string \<Rightarrow> string \<Rightarrow> (bool \<times> u32) quoting" where
  "getCachedV3PoolConfig D call chainID swapper tokenIn tokenOut =
     memo qc_v3PoolConfigs (\<lambda>k v s. s\<lparr>qc_v3PoolConfigs := (qc_v3PoolConfigs s)(k \<mapsto> v)\<rparr>)
       (v3PoolCacheKey (gd_uuid D) chainID swapper tokenIn tokenOut) (readV3PoolConfig D call swapper tokenIn tokenOut)"

subsection \<open>Quotes along a route\<close>

record AccurateSwapQuoteResult =
  aq_Amount :: int
  aq_PriceSource :: string
  aq_RouteSummary :: string

record accurateQuoteContext =
  qx_chain :: Chain
  qx_call :: rpc_call
  qx_swapper :: string
  qx_path :: "string list"
  qx_quoter :: string

definition no_swapper :: gerror where
  "no_swapper = ErrorString ''active swapper not found''"

text \<open>
  Chain, swapper and ABI are all read before the errors are looked at, and so are route and quoter. Between them
  the swapper has to be there.
\<close>

definition prepareAccurateQuoteContext :: "gateway_deps \<Rightarrow> uuid \<Rightarrow> string \<Rightarrow> string \<Rightarrow> accurateQuoteContext quoting" where
  "prepareAccurateQuoteContext D chainID tokenIn tokenOut =
     qcatch (getCachedActiveContract D chainID ''TOKEN_SWAPPER'') (\<lambda>swapper.
     qcatch (getCachedResolvedABI D chainID ''TOKEN_SWAPPER'') (\<lambda>swapperABI.
     qbind (qlift (repo_GetByID (rd_chains (gd_route D)) chainID)) (\<lambda>chain.
     qbind (qlift (case swapper of Inr (Some s) \<Rightarrow> Inr s | _ \<Rightarrow> Inl no_swapper)) (\<lambda>swapper.
     qbind (qlift swapperABI) (\<lambda>swapperABI.
     qbind (qlift (rd_client (gd_route D) (chain_RPCURL chain))) (\<lambda>call.
     qcatch (getCachedRoutePath D call chainID swapper swapperABI tokenIn tokenOut) (\<lambda>routePath.
     qcatch (getCachedQuoterV3 D call chainID chain swapper) (\<lambda>quoterV3.
     qbind (qlift routePath) (\<lambda>routePath.
     qbind (qlift quoterV3) (\<lambda>quoterV3.
     qlift (if length routePath < 2 then Inl (ErrorString ''accurate quote unavailable because route path is empty'')
            else Inr \<lparr>qx_chain = chain, qx_call = call, qx_swapper = swapper, qx_path = routePath,
                      qx_quoter = Address_Hex (gd_eth D) quoterV3\<rparr>)))))))))))"

definition hops :: "string list \<Rightarrow> (string \<times> string) list" where
  "hops path = zip path (tl path)"

text \<open>One hop: the configuration of its pool, then the quoter.\<close>

definition quote_hop ::
  "(gateway_deps \<Rightarrow> rpc_call \<Rightarrow> string \<Rightarrow> string \<Rightarrow> string \<Rightarrow> int \<Rightarrow> u32 \<Rightarrow> int result) \<Rightarrow> string \<Rightarrow> string \<Rightarrow>
   gateway_deps \<Rightarrow> uuid \<Rightarrow> accurateQuoteContext \<Rightarrow> string \<times> string \<Rightarrow> int \<Rightarrow> int quoting" where
  "quote_hop quoter inactive_text invalid_text D chainID X hop amount =
     (let hopIn = normalizeEvmAddress (fst hop); hopOut = normalizeEvmAddress (snd hop) in
      qbind (getCachedV3PoolConfig D (qx_call X) chainID (qx_swapper X) hopIn hopOut) (\<lambda>(active, feeTier).
      qbind (qlift (if active then Inr () else Inl (ErrorString (inactive_text @ hopIn @ '' -> '' @ hopOut)))) (\<lambda>_.
      qbind (qlift (quoter D (qx_call X) (qx_quoter X) hopIn hopOut amount feeTier)) (\<lambda>result.
      qlift (if result \<le> 0 then Inl (ErrorString invalid_text) else Inr result)))))"

fun quote_hops :: "('h \<Rightarrow> int \<Rightarrow> int quoting) \<Rightarrow> 'h list \<Rightarrow> int \<Rightarrow> int quoting" where
  "quote_hops q [] amount = qlift (Inr amount)"
| "quote_hops q (h # hs) amount = qbind (q h amount) (quote_hops q hs)"

definition hop_in where
  "hop_in = quote_hop callQuoterV3ExactInputSingle ''accurate quote unavailable for non-v3 route hop '' ''invalid quoter v3 amount''"

definition hop_out where
  "hop_out = quote_hop callQuoterV3ExactOutputSingle ''accurate exact-output quote unavailable for non-v3 route hop '' ''invalid quoter v3 amountIn''"

definition price_source :: "string \<Rightarrow> accurateQuoteContext \<Rightarrow> string" where
  "price_source kind X = ''uniswap-v3-'' @ ToLower (chain_Name (qx_chain X)) @ kind @ (if length (qx_path X) > 2 then ''-multihop'' else [])"

definition accurate_quote :: "gateway_deps \<Rightarrow> uuid \<Rightarrow> string \<Rightarrow> string \<Rightarrow> int option \<Rightarrow> AccurateSwapQuoteResult quoting" where
  "accurate_quote D chainID tokenIn tokenOut amountIn =
     (case amountIn of
        None \<Rightarrow> qlift (Inl (ErrorString ''amountIn must be positive''))
      | Some amount \<Rightarrow>
          if amount \<le> 0 then qlift (Inl (ErrorString ''amountIn must be positive''))
          else if EqualFold tokenIn tokenOut then qlift (Inr \<lparr>aq_Amount = amount, aq_PriceSource = ''identity'', aq_RouteSummary = []\<rparr>)
          else
            qbind (prepareAccurateQuoteContext D chainID tokenIn tokenOut) (\<lambda>X.
            qbind (quote_hops (hop_in D chainID X) (hops (qx_path X)) amount) (\<lambda>out.
            qlift (Inr \<lparr>aq_Amount = out, aq_PriceSource = price_source [] X, aq_RouteSummary = []\<rparr>))))"

definition getAccuratePartnerQuote :: "gateway_deps \<Rightarrow> uuid \<Rightarrow> string \<Rightarrow> string \<Rightarrow> int option \<Rightarrow> AccurateSwapQuoteResult quoting" where
  "getAccuratePartnerQuote D chainID tokenIn tokenOut amountIn = with_cache (accurate_quote D chainID tokenIn tokenOut amountIn)"

text \<open>The required input is found from the last hop back to the first.\<close>

definition required_input :: "gateway_deps \<Rightarrow> uuid \<Rightarrow> string \<Rightarrow> string \<Rightarrow> int option \<Rightarrow> AccurateSwapQuoteResult quoting" where
  "required_input D chainID tokenIn tokenOut targetAmountOut =
     (case targetAmountOut of
        None \<Rightarrow> qlift (Inl (ErrorString ''target amountOut must be positive''))
      | Some target \<Rightarrow>
          if target \<le> 0 then qlift (Inl (ErrorString ''target amountOut must be positive''))
          else if EqualFold tokenIn tokenOut then qlift (Inr \<lparr>aq_Amount = target, aq_PriceSource = ''identity'', aq_RouteSummary = []\<rparr>)
          else
            qbind (prepareAccurateQuoteContext D chainID tokenIn tokenOut) (\<lambda>X.
            qbind (quote_hops (hop_out D chainID X) (rev (hops (qx_path X))) target) (\<lambda>needed.
            qlift (Inr \<lparr>aq_Amount = needed, aq_PriceSource = price_source ''-exact-output'' X, aq_RouteSummary = []\<rparr>))))"

definition getAccuratePartnerRequiredInput :: "gateway_deps \<Rightarrow> uuid \<Rightarrow> string \<Rightarrow> string \<Rightarrow> int option \<Rightarrow> AccurateSwapQuoteResult quoting" where
  "getAccuratePartnerRequiredInput D chainID tokenIn tokenOut target = with_cache (required_input D chainID tokenIn tokenOut target)"

subsection \<open>Whether a route can be executed\<close>

definition router_status :: "TokenRouteSupportStatus \<Rightarrow> (address \<Rightarrow> string) \<Rightarrow> address result \<Rightarrow> address result \<Rightarrow> TokenRouteSupportStatus" where
  "router_status status hex v3 uni =
     (let v3Ready = (case v3 of Inr r \<Rightarrow> r \<noteq> 0 | Inl _ \<Rightarrow> False);
          v4Ready = (case uni of Inr r \<Rightarrow> r \<noteq> 0 | Inl _ \<Rightarrow> False);
          reasons = (case v3 of Inl _ \<Rightarrow> [''SWAP_ROUTER_V3_READ_FAILED''] | Inr _ \<Rightarrow> []) @
                    (case uni of Inl _ \<Rightarrow> [''UNIVERSAL_ROUTER_READ_FAILED''] | Inr _ \<Rightarrow> []) @
                    (if v3Ready then [] else [''SWAP_ROUTER_V3_NOT_SET'']) @ (if v4Ready then [] else [''UNIVERSAL_ROUTER_NOT_SET'']) @
                    (if v3Ready \<or> v4Ready then [] else [''NO_EXECUTOR_CONFIGURED'']) in
      status\<lparr>rs_Executable := v3Ready \<or> v4Ready, rs_Reasons := rs_Reasons status @ reasons,
             rs_SwapRouterV3 := (case v3 of Inr r \<Rightarrow> hex r | Inl _ \<Rightarrow> rs_SwapRouterV3 status),
             rs_UniversalV4 := (case uni of Inr r \<Rightarrow> hex r | Inl _ \<Rightarrow> rs_UniversalV4 status)\<rparr>)"

definition route_answer :: "gateway_deps \<Rightarrow> rpc_call \<Rightarrow> string \<Rightarrow> abi_value \<times> abi_value \<times> abi_value \<Rightarrow> TokenRouteSupportStatus result" where
  "route_answer D call swapper found =
     (case found of
        (AbiBool exists, AbiBool isDirect, AbiAddresses pathAddrs) \<Rightarrow>
          let status = \<lparr>rs_Exists = exists, rs_IsDirect = isDirect, rs_Path = map (Address_Hex (gd_eth D)) pathAddrs, rs_Executable = False,
                        rs_Reasons = [], rs_SwapRouterV3 = [], rs_UniversalV4 = []\<rparr> in
          Inr (if \<not> exists then status\<lparr>rs_Reasons := [''NO_ROUTE_REGISTERED'']\<rparr>
            else router_status status (Address_Hex (gd_eth D)) (callAddressBySignature D call swapper ''swapRouterV3()'')
                   (callAddressBySignature D call swapper ''universalRouter()''))
      | _ \<Rightarrow> Inl (ErrorString ''failed to type cast findRoute results''))"

definition route_status :: "gateway_deps \<Rightarrow> uuid \<Rightarrow> string \<Rightarrow> string \<Rightarrow> TokenRouteSupportStatus quoting" where
  "route_status D chainID tokenIn tokenOut =
     qbind (qlift (repo_GetByID (rd_chains (gd_route D)) chainID)) (\<lambda>chain.
     qcatch (getCachedActiveContract D (chain_ID chain) ''TOKEN_SWAPPER'') (\<lambda>swapper.
     qbind (qlift (case swapper of Inr (Some s) \<Rightarrow> Inr s | _ \<Rightarrow> Inl no_swapper)) (\<lambda>swapper.
     qbind (qlift (rd_client (gd_route D) (chain_RPCURL chain))) (\<lambda>call.
     qbind (getCachedResolvedABI D (chain_ID chain) ''TOKEN_SWAPPER'') (\<lambda>swapperABI.
     qbind (qlift (find_route D call swapper swapperABI tokenIn tokenOut)) (\<lambda>found.
     qlift (route_answer D call swapper found)))))))"

text \<open>Only the status of an existing route is stored.\<close>

definition store_support :: "string \<Rightarrow> TokenRouteSupportStatus \<Rightarrow> TokenRouteSupportStatus quoting" where
  "store_support key status c =
     (Inr status, if rs_Exists status then map_option (\<lambda>s. s\<lparr>qc_routeSupports := (qc_routeSupports s)(key \<mapsto> status)\<rparr>) c else c)"

definition CheckRouteSupportDetailed :: "gateway_deps \<Rightarrow> uuid \<Rightarrow> string \<Rightarrow> string \<Rightarrow> TokenRouteSupportStatus quoting" where
  "CheckRouteSupportDetailed D chainID tokenIn tokenOut = with_cache (\<lambda>c.
     (if tokenIn = tokenOut then
        (Inr \<lparr>rs_Exists = True, rs_IsDirect = True, rs_Path = [tokenIn], rs_Executable = True, rs_Reasons = [], rs_SwapRouterV3 = [],
              rs_UniversalV4 = []\<rparr>, c)
      else case Option.bind c (\<lambda>s. qc_routeSupports s (routeSupportCacheKey (gd_uuid D) chainID tokenIn tokenOut)) of
             Some cached \<Rightarrow> (Inr cached, c)
           | None \<Rightarrow> qbind (route_status D chainID tokenIn tokenOut) (store_support (routeSupportCacheKey (gd_uuid D) chainID tokenIn tokenOut)) c))"

definition CheckRouteSupport :: "gateway_deps \<Rightarrow> uuid \<Rightarrow> string \<Rightarrow> string \<Rightarrow> (bool \<times> bool \<times> string list) quoting" where
  "CheckRouteSupport D chainID tokenIn tokenOut =
     qbind (CheckRouteSupportDetailed D chainID tokenIn tokenOut) (\<lambda>status. qlift (Inr (rs_Exists status, rs_IsDirect status, rs_Path status)))"

text \<open>The quote of the swapper contract, within a request.\<close>

definition swap_quote :: "gateway_deps \<Rightarrow> uuid \<Rightarrow> string \<Rightarrow> string \<Rightarrow> int \<Rightarrow> int quoting" where
  "swap_quote D chainID tokenIn tokenOut amountIn =
     (if tokenIn = tokenOut then qlift (Inr amountIn)
      else
        qbind (qlift (repo_GetByID (rd_chains (gd_route D)) chainID)) (\<lambda>chain.
        qcatch (getCachedActiveContract D (chain_ID chain) ''TOKEN_SWAPPER'') (\<lambda>swapper.
        qbind (qlift (case swapper of Inr (Some s) \<Rightarrow> Inr s | _ \<Rightarrow> Inl no_swapper)) (\<lambda>swapper.
        qbind (qlift (rd_client (gd_route D) (chain_RPCURL chain))) (\<lambda>call.
        qbind (getCachedResolvedABI D (chain_ID chain) ''TOKEN_SWAPPER'') (\<lambda>swapperABI.
        qlift
          (case abi_PackCall swapperABI ''getRealQuote'' [ArgAddress (gd_addr D tokenIn), ArgAddress (gd_addr D tokenOut), ArgUint amountIn] of
             Inl e \<Rightarrow> Inl e
           | Inr quoteCall \<Rightarrow>
               (case call swapper quoteCall of
                  Inl e \<Rightarrow> Inl (ErrorString (rpc_text e))
                | Inr out \<Rightarrow>
                    (case abi_UnpackCall swapperABI ''getRealQuote'' out of
                       None \<Rightarrow> Inl (ErrorString ''failed to unpack quote'')
                     | Some [] \<Rightarrow> Inl (ErrorString ''failed to unpack quote'')
                     | Some (v # vs) \<Rightarrow> (case big_value v of Some n \<Rightarrow> Inr (int n) | None \<Rightarrow> Inl (ErrorString ''invalid quote result'')))))))))))"

subsection \<open>The cache changes no answer\<close>

text \<open>A cached table is right when each entry that a lookup can hit is what the uncached reader returns.\<close>

definition table_ok :: "('c \<Rightarrow> string \<Rightarrow> 'v option) \<Rightarrow> ('x \<Rightarrow> string) \<Rightarrow> ('x \<Rightarrow> bool) \<Rightarrow> ('x \<Rightarrow> 'v result) \<Rightarrow> 'c \<Rightarrow> bool" where
  "table_ok get key p read s \<longleftrightarrow> (\<forall>x v. p x \<longrightarrow> get s (key x) = Some v \<longrightarrow> read x = Inr v)"

locale memo_table =
  fixes get :: "quoteRequestCache \<Rightarrow> string \<Rightarrow> 'v option"
    and put :: "string \<Rightarrow> 'v \<Rightarrow> quoteRequestCache \<Rightarrow> quoteRequestCache"
    and view :: "'v \<Rightarrow> 'v option"
  assumes get_put: "get (put k v s) k' = (if k' = k then view v else get s k')"
begin

lemma put_ok:
  assumes "table_ok get key p read s" "p x" "\<And>y. p y \<Longrightarrow> key y = key x \<Longrightarrow> read y = read x"
    and "read x = Inr v" "\<And>w. view v = Some w \<Longrightarrow> w = v"
  shows "table_ok get key p read (put (key x) v s)"
  unfolding table_ok_def
proof (intro allI impI)
  fix y w
  assume y: "p y" "get (put (key x) v s) (key y) = Some w"
  show "read y = Inr w"
  proof (cases "key y = key x")
    case True
    with y(2) have "view v = Some w" by (simp add: get_put)
    then show ?thesis using assms(3) [OF y(1) True] assms(4,5) by simp
  next
    case False
    with y assms(1) show ?thesis by (simp add: get_put table_ok_def)
  qed
qed

lemma memo_run:
  assumes "table_ok get key p read s" "p x" "\<And>y. p y \<Longrightarrow> key y = key x \<Longrightarrow> read y = read x"
    and "\<And>v w. read x = Inr v \<Longrightarrow> view v = Some w \<Longrightarrow> w = v"
  shows "\<exists>s'. memo get put (key x) (read x) (Some s) = (read x, Some s') \<and> table_ok get key p read s' \<and> (s' = s \<or> (\<exists>v. s' = put (key x) v s))"
proof (cases "get s (key x)")
  case (Some v)
  with assms(1,2) have "read x = Inr v" by (simp add: table_ok_def)
  with Some assms(1) show ?thesis by (auto simp: memo_def)
next
  case None
  show ?thesis
  proof (cases "read x")
    case (Inl e)
    with None assms(1) show ?thesis by (auto simp: memo_def)
  next
    case (Inr v)
    have "table_ok get key p read (put (key x) v s)" by (rule put_ok [OF assms(1,2,3) Inr assms(4) [OF Inr]])
    with None Inr show ?thesis by (auto simp: memo_def)
  qed
qed

end

abbreviation put_contract where "put_contract \<equiv> \<lambda>k v s. s\<lparr>qc_activeContracts := (qc_activeContracts s)(k \<mapsto> v)\<rparr>"
abbreviation put_abi where "put_abi \<equiv> \<lambda>k v s. s\<lparr>qc_resolvedABIs := (qc_resolvedABIs s)(k \<mapsto> v)\<rparr>"
abbreviation put_path where "put_path \<equiv> \<lambda>k v s. s\<lparr>qc_routePaths := (qc_routePaths s)(k \<mapsto> v)\<rparr>"
abbreviation put_quoter where
  "put_quoter D \<equiv> \<lambda>k v s. s\<lparr>qc_quoterAddresses := (qc_quoterAddresses s)(k \<mapsto> Address_Hex (gd_eth D) v)\<rparr>"
abbreviation put_pool where "put_pool \<equiv> \<lambda>k v s. s\<lparr>qc_v3PoolConfigs := (qc_v3PoolConfigs s)(k \<mapsto> v)\<rparr>"

interpretation contract_memo: memo_table qc_activeContracts put_contract Some by unfold_locales simp
interpretation abi_memo: memo_table qc_resolvedABIs put_abi Some by unfold_locales simp
interpretation path_memo: memo_table qc_routePaths put_path Some by unfold_locales simp
interpretation pool_memo: memo_table qc_v3PoolConfigs put_pool Some by unfold_locales simp

interpretation quoter_memo: memo_table "cached_quoter D" "put_quoter D"
  "\<lambda>v. if TrimSpace (Address_Hex (gd_eth D) v) \<noteq> [] then Some (gd_addr D (Address_Hex (gd_eth D) v)) else None" for D
  by unfold_locales (simp add: cached_quoter_def)

text \<open>Addresses of EVM chains as they are stored: the prefix, then no colon.\<close>

definition plain :: "string \<Rightarrow> bool" where
  "plain a \<longleftrightarrow> HasPrefix a ''0x'' \<and> CHR '':'' \<notin> set a"

definition quote_libs_ok :: "gateway_deps \<Rightarrow> bool" where
  "quote_libs_ok D \<longleftrightarrow>
     uuid_lib_ok (gd_uuid D) \<and>
     (\<forall>w. plain (Address_Hex (gd_eth D) w) \<and> gd_addr D (Address_Hex (gd_eth D) w) = w) \<and>
     (\<forall>k c. repo_GetByID (rd_chains (gd_route D)) k = Inr c \<longrightarrow> chain_ID c = k) \<and>
     (\<forall>k a. rd_activeContract (gd_route D) k ''TOKEN_SWAPPER'' = Inr (Some a) \<longrightarrow> plain a)"

lemma normalize_plain [simp]: "plain a \<Longrightarrow> normalizeEvmAddress a = a"
  by (cases a) (simp_all add: plain_def normalizeEvmAddress_def HasPrefix_def)

lemma colon_parts: "CHR '':'' \<notin> set p \<Longrightarrow> CHR '':'' \<notin> set q \<Longrightarrow> p @ CHR '':'' # x = q @ CHR '':'' # y \<longleftrightarrow> p = q \<and> x = y"
proof (induction p arbitrary: q)
  case Nil
  then show ?case by (cases q) auto
next
  case (Cons a p)
  then show ?case by (cases q) auto
qed

lemma uuid_lib_okD:
  assumes "uuid_lib_ok L"
  shows "uuid_Parse L (uuid_String L u) = Some u" and "CHR '':'' \<notin> set (uuid_String L u)"
proof -
  have "uuid_Parse L (uuid_String L u) = Some u \<and> uuid_String L u \<noteq> [] \<and>
      (\<forall>c\<in>set (uuid_String L u). graphic c \<and> c \<noteq> CHR ''/'' \<and> c \<noteq> CHR '':'')"
    by (rule conjunct1 [OF assms [unfolded uuid_lib_ok_def], THEN spec])
  then show "uuid_Parse L (uuid_String L u) = Some u" and "CHR '':'' \<notin> set (uuid_String L u)" by blast+
qed

lemma uuid_String_inj:
  assumes "uuid_lib_ok L"
  shows "uuid_String L a = uuid_String L b \<longleftrightarrow> a = b"
proof
  assume "uuid_String L a = uuid_String L b"
  then have "Some a = Some b" using uuid_lib_okD(1) [OF assms, of a] uuid_lib_okD(1) [OF assms, of b] by (simp only:)
  then show "a = b" by simp
qed simp


text \<open>What the readers of a chain use: its record, its client and the ABI of its swapper.\<close>

definition on_chain :: "gateway_deps \<Rightarrow> uuid \<Rightarrow> Chain \<Rightarrow> rpc_call \<Rightarrow> bool" where
  "on_chain D chainID chain call \<longleftrightarrow>
     repo_GetByID (rd_chains (gd_route D)) chainID = Inr chain \<and> rd_client (gd_route D) (chain_RPCURL chain) = Inr call"

definition contracts_ok :: "gateway_deps \<Rightarrow> quoteRequestCache \<Rightarrow> bool" where
  "contracts_ok D = table_ok qc_activeContracts (\<lambda>k. contractCacheKey (gd_uuid D) k ''TOKEN_SWAPPER'') (\<lambda>k. True)
     (\<lambda>k. rd_activeContract (gd_route D) k ''TOKEN_SWAPPER'')"

definition abis_ok :: "gateway_deps \<Rightarrow> quoteRequestCache \<Rightarrow> bool" where
  "abis_ok D = table_ok qc_resolvedABIs (\<lambda>k. contractCacheKey (gd_uuid D) k ''TOKEN_SWAPPER'') (\<lambda>k. True) (\<lambda>k. resolve_abi D k ''TOKEN_SWAPPER'')"

definition paths_ok :: "gateway_deps \<Rightarrow> quoteRequestCache \<Rightarrow> bool" where
  "paths_ok D = table_ok qc_routePaths (\<lambda>(k, chain, call, a, sw, i, j). routePathCacheKey (gd_uuid D) k sw i j)
     (\<lambda>(k, chain, call, a, sw, i, j). on_chain D k chain call \<and> resolve_abi D k ''TOKEN_SWAPPER'' = Inr a \<and> plain sw \<and> plain i \<and> plain j)
     (\<lambda>(k, chain, call, a, sw, i, j). readRoutePath D call sw a i j)"

definition quoters_ok :: "gateway_deps \<Rightarrow> quoteRequestCache \<Rightarrow> bool" where
  "quoters_ok D = table_ok (cached_quoter D) (\<lambda>(k, chain, call, sw). quoterCacheKey (gd_uuid D) k sw)
     (\<lambda>(k, chain, call, sw). on_chain D k chain call \<and> plain sw) (\<lambda>(k, chain, call, sw). read_quoter D call chain sw)"

definition pools_ok :: "gateway_deps \<Rightarrow> quoteRequestCache \<Rightarrow> bool" where
  "pools_ok D = table_ok qc_v3PoolConfigs (\<lambda>(k, chain, call, sw, i, j). v3PoolCacheKey (gd_uuid D) k sw i j)
     (\<lambda>(k, chain, call, sw, i, j). on_chain D k chain call \<and> plain sw \<and> plain i \<and> plain j)
     (\<lambda>(k, chain, call, sw, i, j). readV3PoolConfig D call sw i j)"

definition supports_ok :: "gateway_deps \<Rightarrow> quoteRequestCache \<Rightarrow> bool" where
  "supports_ok D = table_ok qc_routeSupports (\<lambda>(k, i, j). routeSupportCacheKey (gd_uuid D) k i j) (\<lambda>(k, i, j). plain i \<and> plain j)
     (\<lambda>(k, i, j). fst (route_status D k i j None))"

definition cache_ok :: "gateway_deps \<Rightarrow> quoteRequestCache \<Rightarrow> bool" where
  "cache_ok D s \<longleftrightarrow> contracts_ok D s \<and> abis_ok D s \<and> paths_ok D s \<and> quoters_ok D s \<and> pools_ok D s \<and> supports_ok D s"

lemmas tables_ok_defs = contracts_ok_def abis_ok_def paths_ok_def quoters_ok_def pools_ok_def supports_ok_def table_ok_def cached_quoter_def

lemma new_cache_ok: "cache_ok D newQuoteRequestCache"
  by (simp add: cache_ok_def tables_ok_defs newQuoteRequestCache_def)

text \<open>A computation is transparent when a right cache leaves its result as it is without a cache, and stays right.\<close>

definition transparent :: "gateway_deps \<Rightarrow> 'a quoting \<Rightarrow> bool" where
  "transparent D m \<longleftrightarrow> snd (m None) = None \<and> (\<forall>s. cache_ok D s \<longrightarrow> (\<exists>s'. m (Some s) = (fst (m None), Some s') \<and> cache_ok D s'))"

lemma transparent_qlift [intro]: "transparent D (qlift r)"
  by (simp add: transparent_def qlift_def)

lemma transparent_qcatch:
  assumes m: "transparent D m" and f: "transparent D (f (fst (m None)))"
  shows "transparent D (qcatch m f)"
proof -
  have n: "m None = (fst (m None), None)" using m by (metis prod.collapse transparent_def)
  then have q: "qcatch m f None = f (fst (m None)) None" by (metis (mono_tags, lifting) case_prod_conv qcatch_def)
  show ?thesis unfolding transparent_def
  proof (intro conjI allI impI)
    show "snd (qcatch m f None) = None" unfolding q using f by (simp add: transparent_def)
    fix s assume "cache_ok D s"
    with m obtain s' where s': "m (Some s) = (fst (m None), Some s')" "cache_ok D s'" by (auto simp: transparent_def)
    then have "qcatch m f (Some s) = f (fst (m None)) (Some s')" by (simp add: qcatch_def)
    with f s'(2) show "\<exists>s'. qcatch m f (Some s) = (fst (qcatch m f None), Some s') \<and> cache_ok D s'"
      unfolding q by (auto simp: transparent_def)
  qed
qed

lemma qbind_qcatch: "qbind m f = qcatch m (\<lambda>r. case r of Inl e \<Rightarrow> qlift (Inl e) | Inr v \<Rightarrow> f v)"
  by (auto simp: qbind_def qcatch_def qlift_def fun_eq_iff split: prod.splits sum.splits)

lemma transparent_qbind:
  assumes "transparent D m" "\<And>v. fst (m None) = Inr v \<Longrightarrow> transparent D (f v)"
  shows "transparent D (qbind m f)"
  unfolding qbind_qcatch
  by (rule transparent_qcatch [OF assms(1)]) (use assms(2) in \<open>auto split: sum.split\<close>)

lemma memo_None [simp]: "memo get put k read None = (read, None)"
  by (simp add: memo_def)

lemma transparentI:
  assumes "\<And>s. cache_ok D s \<Longrightarrow> \<exists>s'. memo get put k read (Some s) = (read, Some s') \<and> cache_ok D s'"
  shows "transparent D (memo get put k read)"
  using assms by (auto simp: transparent_def)

text \<open>Equal keys come from equal arguments.\<close>

lemma quote_libs_okD:
  assumes "quote_libs_ok D"
  shows "uuid_lib_ok (gd_uuid D)" and "plain (Address_Hex (gd_eth D) w)" and "gd_addr D (Address_Hex (gd_eth D) w) = w"
    and "repo_GetByID (rd_chains (gd_route D)) k = Inr c \<Longrightarrow> chain_ID c = k"
    and "rd_activeContract (gd_route D) k ''TOKEN_SWAPPER'' = Inr (Some a) \<Longrightarrow> plain a"
  using assms unfolding quote_libs_ok_def by simp_all

lemma keys_inj:
  assumes "quote_libs_ok D"
  shows "contractCacheKey (gd_uuid D) k t = contractCacheKey (gd_uuid D) k' t' \<longleftrightarrow> k = k' \<and> TrimSpace t = TrimSpace t'"
    and "plain sw \<Longrightarrow> plain sw' \<Longrightarrow> quoterCacheKey (gd_uuid D) k sw = quoterCacheKey (gd_uuid D) k' sw' \<longleftrightarrow> k = k' \<and> sw = sw'"
    and "plain i \<Longrightarrow> plain j \<Longrightarrow> plain i' \<Longrightarrow> plain j' \<Longrightarrow>
      routeSupportCacheKey (gd_uuid D) k i j = routeSupportCacheKey (gd_uuid D) k' i' j' \<longleftrightarrow> k = k' \<and> i = i' \<and> j = j'"
    and "plain sw \<Longrightarrow> plain i \<Longrightarrow> plain j \<Longrightarrow> plain sw' \<Longrightarrow> plain i' \<Longrightarrow> plain j' \<Longrightarrow>
      routePathCacheKey (gd_uuid D) k sw i j = routePathCacheKey (gd_uuid D) k' sw' i' j' \<longleftrightarrow> k = k' \<and> sw = sw' \<and> i = i' \<and> j = j'"
    and "plain sw \<Longrightarrow> plain i \<Longrightarrow> plain j \<Longrightarrow> plain sw' \<Longrightarrow> plain i' \<Longrightarrow> plain j' \<Longrightarrow>
      v3PoolCacheKey (gd_uuid D) k sw i j = v3PoolCacheKey (gd_uuid D) k' sw' i' j' \<longleftrightarrow> k = k' \<and> sw = sw' \<and> i = i' \<and> j = j'"
proof -
  note u = quote_libs_okD(1) [OF assms]
  have c: "plain a \<Longrightarrow> CHR '':'' \<notin> set a" for a by (simp add: plain_def)
  note parts = colon_parts uuid_lib_okD(2) [OF u] uuid_String_inj [OF u] c
  show "contractCacheKey (gd_uuid D) k t = contractCacheKey (gd_uuid D) k' t' \<longleftrightarrow> k = k' \<and> TrimSpace t = TrimSpace t'"
    by (simp add: contractCacheKey_def parts)
  show "quoterCacheKey (gd_uuid D) k sw = quoterCacheKey (gd_uuid D) k' sw' \<longleftrightarrow> k = k' \<and> sw = sw'" if "plain sw" "plain sw'"
    using that by (simp add: quoterCacheKey_def parts)
  show "routeSupportCacheKey (gd_uuid D) k i j = routeSupportCacheKey (gd_uuid D) k' i' j' \<longleftrightarrow> k = k' \<and> i = i' \<and> j = j'"
    if "plain i" "plain j" "plain i'" "plain j'" using that by (simp add: routeSupportCacheKey_def parts)
  show "routePathCacheKey (gd_uuid D) k sw i j = routePathCacheKey (gd_uuid D) k' sw' i' j' \<longleftrightarrow> k = k' \<and> sw = sw' \<and> i = i' \<and> j = j'"
    and "v3PoolCacheKey (gd_uuid D) k sw i j = v3PoolCacheKey (gd_uuid D) k' sw' i' j' \<longleftrightarrow> k = k' \<and> sw = sw' \<and> i = i' \<and> j = j'"
    if "plain sw" "plain i" "plain j" "plain sw'" "plain i'" "plain j'"
    using that by (simp_all add: routePathCacheKey_def v3PoolCacheKey_def parts)
qed

lemma on_chain_unique: "on_chain D k c call \<Longrightarrow> on_chain D k c' call' \<Longrightarrow> c' = c \<and> call' = call"
  by (auto simp: on_chain_def)

context memo_table
begin

lemma memo_transparent:
  assumes table: "\<And>s. cache_ok D s \<Longrightarrow> table_ok get key p read s"
    and keep: "\<And>s v. cache_ok D s \<Longrightarrow> table_ok get key p read (put (key x) v s) \<Longrightarrow> cache_ok D (put (key x) v s)"
    and p: "p x" and inj: "\<And>y. p y \<Longrightarrow> key y = key x \<Longrightarrow> read y = read x"
    and view: "\<And>v w. read x = Inr v \<Longrightarrow> view v = Some w \<Longrightarrow> w = v"
  shows "transparent D (memo get put (key x) (read x))"
proof (rule transparentI)
  fix s assume ok: "cache_ok D s"
  from memo_run [OF table [OF ok] p inj view]
  obtain s' where s': "memo get put (key x) (read x) (Some s) = (read x, Some s')" "table_ok get key p read s'"
    "s' = s \<or> (\<exists>v. s' = put (key x) v s)" by blast
  then have "cache_ok D s'" using ok keep by blast
  with s'(1) show "\<exists>s'. memo get put (key x) (read x) (Some s) = (read x, Some s') \<and> cache_ok D s'" by blast
qed

end

lemma tables_independent [simp]:
  "contracts_ok D (s\<lparr>qc_resolvedABIs := x1\<rparr>) = contracts_ok D s" "contracts_ok D (s\<lparr>qc_routePaths := x2\<rparr>) = contracts_ok D s" "contracts_ok D (s\<lparr>qc_quoterAddresses := x3\<rparr>) = contracts_ok D s" "contracts_ok D (s\<lparr>qc_v3PoolConfigs := x4\<rparr>) = contracts_ok D s" "contracts_ok D (s\<lparr>qc_routeSupports := x5\<rparr>) = contracts_ok D s" "contracts_ok D (s\<lparr>qc_chainsByID := x6\<rparr>) = contracts_ok D s" "contracts_ok D (s\<lparr>qc_tokensByAddress := x7\<rparr>) = contracts_ok D s" "contracts_ok D (s\<lparr>qc_tokensBySymbol := x8\<rparr>) = contracts_ok D s"
  "abis_ok D (s\<lparr>qc_activeContracts := x0\<rparr>) = abis_ok D s" "abis_ok D (s\<lparr>qc_routePaths := x2\<rparr>) = abis_ok D s" "abis_ok D (s\<lparr>qc_quoterAddresses := x3\<rparr>) = abis_ok D s" "abis_ok D (s\<lparr>qc_v3PoolConfigs := x4\<rparr>) = abis_ok D s" "abis_ok D (s\<lparr>qc_routeSupports := x5\<rparr>) = abis_ok D s" "abis_ok D (s\<lparr>qc_chainsByID := x6\<rparr>) = abis_ok D s" "abis_ok D (s\<lparr>qc_tokensByAddress := x7\<rparr>) = abis_ok D s" "abis_ok D (s\<lparr>qc_tokensBySymbol := x8\<rparr>) = abis_ok D s"
  "paths_ok D (s\<lparr>qc_activeContracts := x0\<rparr>) = paths_ok D s" "paths_ok D (s\<lparr>qc_resolvedABIs := x1\<rparr>) = paths_ok D s" "paths_ok D (s\<lparr>qc_quoterAddresses := x3\<rparr>) = paths_ok D s" "paths_ok D (s\<lparr>qc_v3PoolConfigs := x4\<rparr>) = paths_ok D s" "paths_ok D (s\<lparr>qc_routeSupports := x5\<rparr>) = paths_ok D s" "paths_ok D (s\<lparr>qc_chainsByID := x6\<rparr>) = paths_ok D s" "paths_ok D (s\<lparr>qc_tokensByAddress := x7\<rparr>) = paths_ok D s" "paths_ok D (s\<lparr>qc_tokensBySymbol := x8\<rparr>) = paths_ok D s"
  "quoters_ok D (s\<lparr>qc_activeContracts := x0\<rparr>) = quoters_ok D s" "quoters_ok D (s\<lparr>qc_resolvedABIs := x1\<rparr>) = quoters_ok D s" "quoters_ok D (s\<lparr>qc_routePaths := x2\<rparr>) = quoters_ok D s" "quoters_ok D (s\<lparr>qc_v3PoolConfigs := x4\<rparr>) = quoters_ok D s" "quoters_ok D (s\<lparr>qc_routeSupports := x5\<rparr>) = quoters_ok D s" "quoters_ok D (s\<lparr>qc_chainsByID := x6\<rparr>) = quoters_ok D s" "quoters_ok D (s\<lparr>qc_tokensByAddress := x7\<rparr>) = quoters_ok D s" "quoters_ok D (s\<lparr>qc_tokensBySymbol := x8\<rparr>) = quoters_ok D s"
  "pools_ok D (s\<lparr>qc_activeContracts := x0\<rparr>) = pools_ok D s" "pools_ok D (s\<lparr>qc_resolvedABIs := x1\<rparr>) = pools_ok D s" "pools_ok D (s\<lparr>qc_routePaths := x2\<rparr>) = pools_ok D s" "pools_ok D (s\<lparr>qc_quoterAddresses := x3\<rparr>) = pools_ok D s" "pools_ok D (s\<lparr>qc_routeSupports := x5\<rparr>) = pools_ok D s" "pools_ok D (s\<lparr>qc_chainsByID := x6\<rparr>) = pools_ok D s" "pools_ok D (s\<lparr>qc_tokensByAddress := x7\<rparr>) = pools_ok D s" "pools_ok D (s\<lparr>qc_tokensBySymbol := x8\<rparr>) = pools_ok D s"
  "supports_ok D (s\<lparr>qc_activeContracts := x0\<rparr>) = supports_ok D s" "supports_ok D (s\<lparr>qc_resolvedABIs := x1\<rparr>) = supports_ok D s" "supports_ok D (s\<lparr>qc_routePaths := x2\<rparr>) = supports_ok D s" "supports_ok D (s\<lparr>qc_quoterAddresses := x3\<rparr>) = supports_ok D s" "supports_ok D (s\<lparr>qc_v3PoolConfigs := x4\<rparr>) = supports_ok D s" "supports_ok D (s\<lparr>qc_chainsByID := x6\<rparr>) = supports_ok D s" "supports_ok D (s\<lparr>qc_tokensByAddress := x7\<rparr>) = supports_ok D s" "supports_ok D (s\<lparr>qc_tokensBySymbol := x8\<rparr>) = supports_ok D s"
  by (simp_all add: tables_ok_defs)

lemma transparent_contract:
  assumes "quote_libs_ok D"
  shows "transparent D (getCachedActiveContract D k ''TOKEN_SWAPPER'')"
  unfolding getCachedActiveContract_def
  by (rule contract_memo.memo_transparent [where p = "\<lambda>k. True" and key = "\<lambda>k. contractCacheKey (gd_uuid D) k ''TOKEN_SWAPPER''"
        and read = "\<lambda>k. rd_activeContract (gd_route D) k ''TOKEN_SWAPPER''", folded contracts_ok_def])
    (simp_all add: keys_inj(1) [OF assms] cache_ok_def)

lemma transparent_abi:
  assumes "quote_libs_ok D"
  shows "transparent D (getCachedResolvedABI D k ''TOKEN_SWAPPER'')"
  unfolding getCachedResolvedABI_def
  by (rule abi_memo.memo_transparent [where p = "\<lambda>k. True" and key = "\<lambda>k. contractCacheKey (gd_uuid D) k ''TOKEN_SWAPPER''"
        and read = "\<lambda>k. resolve_abi D k ''TOKEN_SWAPPER''", folded abis_ok_def])
    (simp_all add: keys_inj(1) [OF assms] cache_ok_def)

lemma transparent_path:
  assumes D: "quote_libs_ok D" and on: "on_chain D k chain call" "resolve_abi D k ''TOKEN_SWAPPER'' = Inr a" and pl: "plain sw" "plain i" "plain j"
  shows "transparent D (getCachedRoutePath D call k sw a i j)"
proof -
  have "transparent D (memo qc_routePaths put_path ((\<lambda>(k, chain, call, a, sw, i, j). routePathCacheKey (gd_uuid D) k sw i j) (k, chain, call, a, sw, i, j))
      ((\<lambda>(k, chain, call, a, sw, i, j). readRoutePath D call sw a i j) (k, chain, call, a, sw, i, j)))"
    by (rule path_memo.memo_transparent [where p = "\<lambda>(k, chain, call, a, sw, i, j). on_chain D k chain call \<and>
          resolve_abi D k ''TOKEN_SWAPPER'' = Inr a \<and> plain sw \<and> plain i \<and> plain j"
          and key = "\<lambda>(k, chain, call, a, sw, i, j). routePathCacheKey (gd_uuid D) k sw i j"
          and read = "\<lambda>(k, chain, call, a, sw, i, j). readRoutePath D call sw a i j", folded paths_ok_def])
      (use on pl in \<open>auto simp: cache_ok_def keys_inj(4) [OF D] dest: on_chain_unique [OF on(1)]\<close>)
  then show ?thesis by (simp add: getCachedRoutePath_def)
qed

lemma transparent_quoter:
  assumes D: "quote_libs_ok D" and on: "on_chain D k chain call" and pl: "plain sw"
  shows "transparent D (getCachedQuoterV3 D call k chain sw)"
proof -
  have "transparent D (memo (cached_quoter D) (put_quoter D) ((\<lambda>(k, chain, call, sw). quoterCacheKey (gd_uuid D) k sw) (k, chain, call, sw))
      ((\<lambda>(k, chain, call, sw). read_quoter D call chain sw) (k, chain, call, sw)))"
    by (rule quoter_memo.memo_transparent [where p = "\<lambda>(k, chain, call, sw). on_chain D k chain call \<and> plain sw"
          and key = "\<lambda>(k, chain, call, sw). quoterCacheKey (gd_uuid D) k sw"
          and read = "\<lambda>(k, chain, call, sw). read_quoter D call chain sw"])
      (use on pl in \<open>auto simp: quoters_ok_def [symmetric] cache_ok_def keys_inj(2) [OF D] quote_libs_okD(3) [OF D] split: if_splits dest: on_chain_unique [OF on]\<close>)
  then show ?thesis by (simp add: getCachedQuoterV3_def)
qed

lemma transparent_pool:
  assumes D: "quote_libs_ok D" and on: "on_chain D k chain call" and pl: "plain sw" "plain i" "plain j"
  shows "transparent D (getCachedV3PoolConfig D call k sw i j)"
proof -
  have "transparent D (memo qc_v3PoolConfigs put_pool ((\<lambda>(k, chain, call, sw, i, j). v3PoolCacheKey (gd_uuid D) k sw i j) (k, chain, call, sw, i, j))
      ((\<lambda>(k, chain, call, sw, i, j). readV3PoolConfig D call sw i j) (k, chain, call, sw, i, j)))"
    by (rule pool_memo.memo_transparent [where p = "\<lambda>(k, chain, call, sw, i, j). on_chain D k chain call \<and> plain sw \<and> plain i \<and> plain j"
          and key = "\<lambda>(k, chain, call, sw, i, j). v3PoolCacheKey (gd_uuid D) k sw i j"
          and read = "\<lambda>(k, chain, call, sw, i, j). readV3PoolConfig D call sw i j", folded pools_ok_def])
      (use on pl in \<open>auto simp: cache_ok_def keys_inj(5) [OF D] dest: on_chain_unique [OF on(1)]\<close>)
  then show ?thesis by (simp add: getCachedV3PoolConfig_def)
qed

text \<open>What a prepared context consists of, read without a cache.\<close>

lemma run_None:
  "fst (qlift r None) = r" "snd (qlift r None) = None" "qlift r None = (r, None)"
  "getCachedActiveContract D k t None = (rd_activeContract (gd_route D) k t, None)"
  "getCachedResolvedABI D k t None = (resolve_abi D k t, None)"
  "getCachedRoutePath D call k sw a i j None = (readRoutePath D call sw a i j, None)"
  "getCachedQuoterV3 D call k chain sw None = (read_quoter D call chain sw, None)"
  "getCachedV3PoolConfig D call k sw i j None = (readV3PoolConfig D call sw i j, None)"
  by (simp_all add: qlift_def getCachedActiveContract_def getCachedResolvedABI_def getCachedRoutePath_def getCachedQuoterV3_def getCachedV3PoolConfig_def)

lemma readRoutePath_plain:
  "quote_libs_ok D \<Longrightarrow> readRoutePath D call sw a i j = Inr path \<Longrightarrow> \<forall>x\<in>set path. plain x"
  by (auto simp: readRoutePath_def quote_libs_okD(2) split: sum.splits abi_value.splits if_splits)

lemma prepared:
  assumes D: "quote_libs_ok D" and X: "fst (prepareAccurateQuoteContext D k i j None) = Inr X"
  shows "on_chain D k (qx_chain X) (qx_call X)" and "plain (qx_swapper X)" and "\<forall>x\<in>set (qx_path X). plain x" and "length (qx_path X) \<ge> 2"
    and "\<exists>url. rd_client (gd_route D) url = Inr (qx_call X)"
  using X quote_libs_okD(5) [OF D] readRoutePath_plain [OF D]
  by (auto simp: prepareAccurateQuoteContext_def qbind_def qcatch_def run_None on_chain_def split: sum.splits option.splits if_splits)

lemma transparent_prepare:
  assumes D: "quote_libs_ok D" and pl: "plain i" "plain j"
  shows "transparent D (prepareAccurateQuoteContext D k i j)"
  unfolding prepareAccurateQuoteContext_def
  by (intro transparent_qcatch transparent_qbind transparent_contract transparent_abi transparent_qlift transparent_path transparent_quoter D pl)
    (auto simp: run_None on_chain_def split: sum.splits option.splits intro: quote_libs_okD(5) [OF D])

lemma transparent_hop:
  assumes D: "quote_libs_ok D" and on: "on_chain D k (qx_chain X) (qx_call X)" and pl: "plain (qx_swapper X)" "plain (fst h)" "plain (snd h)"
  shows "transparent D (quote_hop q t1 t2 D k X h amount)"
  unfolding quote_hop_def Let_def
  by (intro transparent_qbind transparent_pool [OF D on] transparent_qlift) (use pl in \<open>auto split: prod.splits intro!: transparent_qbind transparent_qlift\<close>)

lemma transparent_hops:
  assumes "\<And>h amount. h \<in> set hs \<Longrightarrow> transparent D (q h amount)"
  shows "transparent D (quote_hops q hs amount)"
  using assms by (induction hs arbitrary: amount) (auto intro!: transparent_qbind)

lemma hops_plain:
  assumes "\<forall>x\<in>set path. plain x" "h \<in> set (hops path)"
  shows "plain (fst h)" and "plain (snd h)"
proof -
  have z: "(fst h, snd h) \<in> set (zip path (tl path))" using assms(2) by (simp add: hops_def)
  show "plain (fst h)" using set_zip_leftD [OF z] assms(1) by blast
  have "snd h \<in> set path" using set_zip_rightD [OF z] by (cases path) simp_all
  then show "plain (snd h)" using assms(1) by blast
qed

lemma transparent_quotes:
  assumes D: "quote_libs_ok D" and pl: "plain i" "plain j"
  shows "transparent D (accurate_quote D k i j amount)" and "transparent D (required_input D k i j amount)"
proof -
  have h: "transparent D (quote_hops (quote_hop q t1 t2 D k X) hs n)"
    if "fst (prepareAccurateQuoteContext D k i j None) = Inr X" "set hs = set (hops (qx_path X))" for X q t1 t2 n hs
    using prepared [OF D that(1)] hops_plain that(2) by (intro transparent_hops transparent_hop [OF D]) auto
  show "transparent D (accurate_quote D k i j amount)"
    unfolding accurate_quote_def hop_in_def
    by (auto split: option.splits intro!: transparent_qbind transparent_prepare [OF D pl] h)
  show "transparent D (required_input D k i j amount)"
    unfolding required_input_def hop_out_def
    by (auto split: option.splits intro!: transparent_qbind transparent_prepare [OF D pl] h)
qed

lemma transparent_status:
  assumes D: "quote_libs_ok D"
  shows "transparent D (route_status D k i j)"
  unfolding route_status_def
  by (intro transparent_qcatch transparent_qbind transparent_contract transparent_abi transparent_qlift D)

lemma transparent_swap_quote:
  assumes D: "quote_libs_ok D"
  shows "transparent D (swap_quote D k i j n)" and "fst (swap_quote D k i j n None) = getSwapQuote D k i j n"
proof -
  show "transparent D (swap_quote D k i j n)" unfolding swap_quote_def
    by (auto intro!: transparent_qcatch transparent_qbind transparent_contract transparent_abi D)
  show "fst (swap_quote D k i j n None) = getSwapQuote D k i j n"
    by (auto simp: swap_quote_def getSwapQuote_def qbind_def qcatch_def run_None resolve_abi_def no_swapper_def
        split: sum.splits option.splits list.splits)
qed

lemma supported_route:
  assumes D: "quote_libs_ok D" and pl: "plain i" "plain j" "i \<noteq> j" and ok: "cache_ok D s"
  shows "\<exists>s'. CheckRouteSupportDetailed D k i j (Some s) = (fst (route_status D k i j None), Some s') \<and> cache_ok D s'"
proof (cases "qc_routeSupports s (routeSupportCacheKey (gd_uuid D) k i j)")
  case (Some v)
  have "supports_ok D s" using ok by (simp add: cache_ok_def)
  with Some pl have "fst (route_status D k i j None) = Inr v" by (auto simp: supports_ok_def table_ok_def)
  with Some pl(3) ok show ?thesis by (simp add: CheckRouteSupportDetailed_def with_cache_Some)
next
  case None
  obtain s1 where s1: "route_status D k i j (Some s) = (fst (route_status D k i j None), Some s1)" "cache_ok D s1"
    using transparent_status [OF D, of k i j] ok unfolding transparent_def by blast
  show ?thesis
  proof (cases "fst (route_status D k i j None)")
    case (Inl e)
    with None pl(3) s1 show ?thesis by (simp add: CheckRouteSupportDetailed_def with_cache_Some qbind_def)
  next
    case (Inr st)
    let ?put = "s1\<lparr>qc_routeSupports := (qc_routeSupports s1)(routeSupportCacheKey (gd_uuid D) k i j \<mapsto> st)\<rparr>"
    have "supports_ok D s1" using s1(2) by (simp add: cache_ok_def)
    then have "supports_ok D ?put" using keys_inj(3) [OF D] pl Inr by (auto simp: supports_ok_def table_ok_def)
    then have "cache_ok D ?put" using s1(2) by (simp add: cache_ok_def)
    with None pl(3) s1 Inr show ?thesis
      by (cases "rs_Exists st") (simp_all add: CheckRouteSupportDetailed_def with_cache_Some qbind_def store_support_def)
  qed
qed

text \<open>
  Property C18. The cache of a request changes no answer: on EVM addresses, a cache filled by earlier lookups of the same request gives
  the quote, the required input, the swapper's quote and the support status of a route exactly as they are read
  without a cache, and stays right for the next lookup.
\<close>

theorem request_cache_transparent:
  assumes "quote_libs_ok D" "plain i" "plain j" "i \<noteq> j" "cache_ok D s"
  shows "\<exists>s1 s2 s3 s4.
    getAccuratePartnerQuote D k i j n (Some s) = (fst (accurate_quote D k i j n None), Some s1) \<and> cache_ok D s1 \<and>
    getAccuratePartnerRequiredInput D k i j n (Some s) = (fst (required_input D k i j n None), Some s2) \<and> cache_ok D s2 \<and>
    swap_quote D k i j m (Some s) = (getSwapQuote D k i j m, Some s3) \<and> cache_ok D s3 \<and>
    CheckRouteSupportDetailed D k i j (Some s) = (fst (route_status D k i j None), Some s4) \<and> cache_ok D s4"
proof -
  obtain s1 s2 where "accurate_quote D k i j n (Some s) = (fst (accurate_quote D k i j n None), Some s1)" "cache_ok D s1"
      "required_input D k i j n (Some s) = (fst (required_input D k i j n None), Some s2)" "cache_ok D s2"
    using transparent_quotes [OF assms(1-3), of k n] assms(5) unfolding transparent_def by blast
  moreover obtain s3 where "swap_quote D k i j m (Some s) = (getSwapQuote D k i j m, Some s3)" "cache_ok D s3"
    using transparent_swap_quote [OF assms(1), of k i j m] assms(5) unfolding transparent_def by auto
  moreover note supported_route [OF assms(1-5), of k]
  ultimately show ?thesis by (simp add: getAccuratePartnerQuote_def getAccuratePartnerRequiredInput_def with_cache_Some)
qed

subsection \<open>Required inputs suffice\<close>

text \<open>
  What the quoter documents: an input at least as large as the one it asks for an output yields at least this output.
\<close>

definition quoters_consistent :: "gateway_deps \<Rightarrow> bool" where
  "quoters_consistent D \<longleftrightarrow>
     (\<forall>url call quoter i j a a' b fee. rd_client (gd_route D) url = Inr call \<longrightarrow>
        callQuoterV3ExactOutputSingle D call quoter i j b fee = Inr a \<longrightarrow> 0 < a \<longrightarrow> a \<le> a' \<longrightarrow>
        (\<exists>b'. callQuoterV3ExactInputSingle D call quoter i j a' fee = Inr b' \<and> b \<le> b'))"

lemma hop_None: "snd (quote_hop q t1 t2 D k X h n None) = None"
  by (auto simp: quote_hop_def qbind_def run_None Let_def split: sum.splits prod.splits)

lemma hops_None: "(\<And>h n. snd (q h n None) = None) \<Longrightarrow> snd (quote_hops q hs n None) = None"
proof (induction hs arbitrary: n)
  case (Cons h hs)
  obtain r where "q h n None = (r, None)" using Cons.prems [of h n] by (metis prod.collapse)
  then show ?case using Cons by (simp add: qbind_def split: sum.split)
qed (simp add: run_None)

lemma quote_hops_append: "quote_hops q (xs @ ys) n = qbind (quote_hops q xs n) (quote_hops q ys)"
proof (induction xs arbitrary: n)
  case Nil
  show ?case by (simp add: qbind_def qlift_def fun_eq_iff)
next
  case (Cons x xs)
  then show ?case by (auto simp: qbind_def fun_eq_iff split: prod.splits sum.splits)
qed

lemma hop_covers:
  assumes "quoters_consistent D" "rd_client (gd_route D) url = Inr (qx_call X)" "fst (hop_out D k X h b None) = Inr a" "0 < b" "a \<le> a'"
  shows "0 < a \<and> (\<exists>b'. fst (hop_in D k X h a' None) = Inr b' \<and> b \<le> b')"
proof -
  let ?i = "normalizeEvmAddress (fst h)" and ?j = "normalizeEvmAddress (snd h)"
  obtain fee where pool: "readV3PoolConfig D (qx_call X) (qx_swapper X) ?i ?j = Inr (True, fee)"
    and out: "callQuoterV3ExactOutputSingle D (qx_call X) (qx_quoter X) ?i ?j b fee = Inr a" and pos: "0 < a"
    using assms(3) by (auto simp: hop_out_def quote_hop_def Let_def qbind_def run_None split: sum.splits if_splits)
  from assms(1) [unfolded quoters_consistent_def] assms(2,5) out pos
  obtain b' where "callQuoterV3ExactInputSingle D (qx_call X) (qx_quoter X) ?i ?j a' fee = Inr b'" "b \<le> b'" by blast
  with assms(4) pool pos show ?thesis by (auto simp: hop_in_def quote_hop_def Let_def qbind_def run_None)
qed

lemma hops_cover:
  assumes D: "quoters_consistent D" "rd_client (gd_route D) url = Inr (qx_call X)"
    and "fst (quote_hops (hop_out D k X) (rev hs) target None) = Inr a" "0 < target" "a \<le> a'"
  shows "0 < a \<and> (\<exists>b. fst (quote_hops (hop_in D k X) hs a' None) = Inr b \<and> target \<le> b)"
  using assms(3-5)
proof (induction hs arbitrary: a a')
  case Nil
  then show ?case by (simp add: run_None)
next
  case (Cons h hs)
  have n: "snd (hop_out D k X g m None) = None" "snd (hop_in D k X g m None) = None" for g m by (simp_all add: hop_out_def hop_in_def hop_None)
  obtain r where r: "quote_hops (hop_out D k X) (rev hs) target None = (r, None)" using hops_None [of "hop_out D k X", OF n(1)] by (metis prod.collapse)
  with Cons.prems(1) obtain m where m: "r = Inr m" "fst (hop_out D k X h m None) = Inr a"
    using n(1) [of h] by (auto simp: quote_hops_append qbind_def qlift_def split: sum.splits prod.splits)
  have "0 < m" using Cons.IH [of m m] Cons.prems(2) r m(1) by simp
  from hop_covers [OF D m(2) this Cons.prems(3)]
  obtain m' where m': "0 < a" "fst (hop_in D k X h a' None) = Inr m'" "m \<le> m'" by blast
  have "hop_in D k X h a' None = (Inr m', None)" using m'(2) n(2) by (metis prod.collapse)
  with Cons.IH [of m m'] r m(1) m' Cons.prems(2) show ?case by (simp add: qbind_def)
qed

lemma quote_of_required:
  assumes L: "quote_libs_ok D" and D: "quoters_consistent D" and r: "fst (required_input D k i j (Some target) None) = Inr r"
  shows "\<exists>q. fst (accurate_quote D k i j (Some (aq_Amount r)) None) = Inr q \<and> target \<le> aq_Amount q"
proof -
  from r have pos: "0 < target" by (auto simp: required_input_def run_None split: if_splits)
  show ?thesis
  proof (cases "EqualFold i j")
    case True
    with r pos show ?thesis by (auto simp: required_input_def accurate_quote_def run_None)
  next
    case False
    obtain X where X: "prepareAccurateQuoteContext D k i j None = (Inr X, None)"
      and h: "fst (quote_hops (hop_out D k X) (rev (hops (qx_path X))) target None) = Inr (aq_Amount r)"
    proof (cases "prepareAccurateQuoteContext D k i j None")
      case (Pair x c)
      have c: "c = None" using arg_cong [OF Pair, of snd]
        by (auto simp: prepareAccurateQuoteContext_def qbind_def qcatch_def run_None split: sum.splits option.splits)
      with r pos False Pair show ?thesis
        by (cases x) (auto simp: required_input_def qbind_def qlift_def split: prod.splits sum.splits intro!: that)
    qed
    obtain url where url: "rd_client (gd_route D) url = Inr (qx_call X)" using prepared(5) [OF L, of k i j X] X by auto
    from hops_cover [OF D url h pos order.refl]
    obtain b where b: "0 < aq_Amount r" "fst (quote_hops (hop_in D k X) (hops (qx_path X)) (aq_Amount r) None) = Inr b" "target \<le> b" by blast
    with X False show ?thesis by (auto simp: accurate_quote_def qbind_def qlift_def split: prod.splits sum.splits)
  qed
qed


text \<open>
  Also. A route counts as executable exactly when the swapper knows it and one of its two routers is set, and the reasons
  name what is missing.
\<close>

theorem route_executable_iff:
  assumes "fst (route_status D k i j None) = Inr st" "on_chain D k chain call" "chain_ID chain = k"
    "rd_activeContract (gd_route D) k ''TOKEN_SWAPPER'' = Inr (Some sw)"
  shows "(rs_Executable st \<longleftrightarrow> rs_Exists st \<and>
      (\<exists>sig r. sig \<in> {''swapRouterV3()'', ''universalRouter()''} \<and> callAddressBySignature D call sw sig = Inr r \<and> r \<noteq> 0)) \<and>
    (rs_Executable st \<longleftrightarrow> ''NO_ROUTE_REGISTERED'' \<notin> set (rs_Reasons st) \<and> ''NO_EXECUTOR_CONFIGURED'' \<notin> set (rs_Reasons st))"
proof -
  obtain exists isDirect path where st: "st = (let status = \<lparr>rs_Exists = exists, rs_IsDirect = isDirect, rs_Path = path, rs_Executable = False,
        rs_Reasons = [], rs_SwapRouterV3 = [], rs_UniversalV4 = []\<rparr> in
      if \<not> exists then status\<lparr>rs_Reasons := [''NO_ROUTE_REGISTERED'']\<rparr>
      else router_status status (Address_Hex (gd_eth D)) (callAddressBySignature D call sw ''swapRouterV3()'')
             (callAddressBySignature D call sw ''universalRouter()''))"
  proof -
    obtain found where "route_answer D call sw found = Inr st"
      using assms by (auto simp: route_status_def qbind_def qcatch_def run_None on_chain_def split: sum.splits)
    then show ?thesis by (auto simp: route_answer_def Let_def split: prod.splits abi_value.splits intro!: that)
  qed
  show ?thesis
  proof (cases "exists")
    case False
    then show ?thesis by (simp add: st)
  next
    case True
    show ?thesis unfolding st Let_def
      by (cases "callAddressBySignature D call sw ''swapRouterV3()''"; cases "callAddressBySignature D call sw ''universalRouter()''")
        (auto simp: True router_status_def Let_def)
  qed
qed

text \<open>A deployment for the witnesses: one pool whose quoter swaps at par.\<close>

definition par_call :: rpc_call where
  "par_call c d =
     (if d = bytes_of ''quot'' \<or> d = bytes_of ''swap'' then Inr (replicate 31 0 @ [9]) else if d = bytes_of ''univ'' then Inr [] else Inr (drop 4 d))"

definition par_abi :: contract_abi where
  "par_abi = \<lparr>abi_methods = [''findRoute'', ''getRealQuote''], abi_PackCall = (\<lambda>m args. Inr (bytes_of ''find'')),
     abi_UnpackCall = (\<lambda>m out. Some [AbiBool True, AbiBool True, AbiAddresses [1, 2]])\<rparr>"

definition par_eth :: eth_lib where
  "par_eth = \<lparr>Keccak256 = (\<lambda>b. b),
     abi_Unpack = (\<lambda>ts b. if ts = [''uint24'', ''bool''] then Some [AbiBig 3000, AbiBool True] else Some [AbiBig (SetBytes b), AbiBig 0, AbiU32 0, AbiBig 0]),
     abi_Pack_bytes32 = (\<lambda>b. b), Address_Hex = (\<lambda>a. ''0x'' @ EncodeToString (Bytes (unat a))), IsHexAddress = (\<lambda>s. HasPrefix s ''0x'')\<rparr>"

definition par_pack :: "abi_arg list \<Rightarrow> byte list result" where
  "par_pack args = (case args of [_, _, ArgUint a, _, _] \<Rightarrow> Inr (Bytes (nat a)) | _ \<Rightarrow> Inr [])"

definition par_route :: route_deps where
  "par_route = sample_route
     \<lparr>rd_eth := par_eth,
      rd_abi := \<lparr>HexToAddress = (\<lambda>s. case DecodeString (TrimPrefix s ''0x'') of Some b \<Rightarrow> word_of_nat (SetBytes b) | None \<Rightarrow> 0), packABIArgs = par_pack\<rparr>,
      rd_chains := \<lparr>repo_GetByID = (\<lambda>k. Inr (base_chain\<lparr>chain_ID := k\<rparr>)), repo_GetByChainID = (\<lambda>s. Inl (Sentinel ErrNotFound)),
                    repo_GetByCAIP2 = (\<lambda>s. Inl (Sentinel ErrNotFound))\<rparr>,
      rd_activeContract := (\<lambda>k ty. Inr (Some ''0xcc'')), rd_client := (\<lambda>url. Inr par_call)\<rparr>"

definition par_deps :: gateway_deps where
  "par_deps = \<lparr>gd_route = par_route, gd_fallbackABI = par_abi, gd_resolveABI = Some (\<lambda>k ty. Inr par_abi), gd_undef = (\<lambda>s. 0)\<rparr>"

lemma plain_hex: "plain (''0x'' @ EncodeToString b)"
proof -
  have "\<not> is_hex_char (CHR '':'')" by code_simp
  then have "CHR '':'' \<notin> set (EncodeToString b)" using hex_chars_hex [of b] by blast
  then show ?thesis by (simp add: plain_def HasPrefix_def)
qed

lemma par_libs_ok: "quote_libs_ok par_deps"
proof -
  have "plain ''0xcc''" by code_simp
  then show ?thesis
    unfolding quote_libs_ok_def
    using plain_hex rfc_uuid_ok by (simp add: par_deps_def par_route_def par_eth_def sample_route_def TrimPrefix_def HasPrefix_def)
qed

lemma par_quoter:
  assumes "0 < a"
  shows "callQuoterV3ExactInputSingle par_deps par_call q i j a fee = Inr a" "callQuoterV3ExactOutputSingle par_deps par_call q i j a fee = Inr a"
proof -
  have "SetBytes (Bytes (nat a)) \<noteq> SetBytes []" using assms by (simp only: SetBytes_Bytes) (simp add: SetBytes_def)
  then have "Bytes (nat a) \<noteq> []" by metis
  then have c: "par_call q (bytes_of ''quot'' @ Bytes (nat a)) = Inr (Bytes (nat a))"
    by (simp add: par_call_def bytes_of_def)
  have m: "take 4 (bytes_of ''quoteExactInputSingle((address,address,uint256,uint24,uint160))'') = bytes_of ''quot''"
    "take 4 (bytes_of ''quoteExactOutputSingle((address,address,uint256,uint24,uint160))'') = bytes_of ''quot''"
    by (simp_all add: bytes_of_def)
  show "callQuoterV3ExactInputSingle par_deps par_call q i j a fee = Inr a" "callQuoterV3ExactOutputSingle par_deps par_call q i j a fee = Inr a"
    using assms c unfolding callQuoterV3ExactInputSingle_def callQuoterV3ExactOutputSingle_def call_quoter_def method_id_def
    by (simp_all add: par_deps_def par_route_def par_eth_def par_pack_def m)
qed

lemma par_consistent: "quoters_consistent par_deps"
  unfolding quoters_consistent_def
proof (intro allI impI)
  fix url call q i j a a' b fee
  assume "rd_client (gd_route par_deps) url = Inr call" "callQuoterV3ExactOutputSingle par_deps call q i j b fee = Inr a" "0 < a" "a \<le> a'"
  moreover from this have "call = par_call" by (simp add: par_deps_def par_route_def)
  ultimately show "\<exists>b'. callQuoterV3ExactInputSingle par_deps call q i j a' fee = Inr b' \<and> b \<le> b'"
    using par_quoter [of a' q i j fee] par_quoter(2) [of b q i j fee] by (cases "0 < b") auto
qed

lemma par_plain: "plain ''0x01''" "plain ''0x02''"
  by code_simp+

lemma par_reads:
  "resolve_abi par_deps k ty = Inr par_abi" "rd_activeContract (gd_route par_deps) k ty = Inr (Some ''0xcc'')"
  "repo_GetByID (rd_chains (gd_route par_deps)) k = Inr (base_chain\<lparr>chain_ID := k\<rparr>)" "rd_client (gd_route par_deps) url = Inr par_call"
  "readRoutePath par_deps par_call sw par_abi i j = Inr [''0x01'', ''0x02'']"
  "read_quoter par_deps par_call chain sw = Inr 9" "readV3PoolConfig par_deps par_call sw i j = Inr (True, 3000)"
  "callAddressBySignature par_deps par_call sw ''swapRouterV3()'' = Inr 9"
  "find_route par_deps par_call sw par_abi i j = Inr (AbiBool True, AbiBool True, AbiAddresses [1, 2])"
proof -
  have find: "find_route par_deps par_call sw par_abi i j = Inr (AbiBool True, AbiBool True, AbiAddresses [1, 2])"
    by (simp add: find_route_def par_abi_def par_call_def)
  show "find_route par_deps par_call sw par_abi i j = Inr (AbiBool True, AbiBool True, AbiAddresses [1, 2])" by (fact find)
  have "map (Address_Hex (gd_eth par_deps)) [1, 2] = [''0x01'', ''0x02'']" by code_simp
  then show "readRoutePath par_deps par_call sw par_abi i j = Inr [''0x01'', ''0x02'']" by (simp add: readRoutePath_def find)
  have c: "callAddressBySignature par_deps par_call [] ''quoterV3()'' = Inr 9" "callAddressBySignature par_deps par_call [] ''swapRouterV3()'' = Inr 9"
    by code_simp+
  then show "read_quoter par_deps par_call chain sw = Inr 9" "callAddressBySignature par_deps par_call sw ''swapRouterV3()'' = Inr 9"
    by (simp_all add: read_quoter_def callAddressBySignature_def par_call_def)
  have p: "packABIArgs (rd_abi (gd_route par_deps)) [x] = Inr []" for x by (simp add: par_deps_def par_route_def par_pack_def)
  have "par_call sw (method_id (gd_route par_deps) ''v3Pools(bytes32)'') = Inr []"
    by (simp add: method_id_def par_deps_def par_route_def par_eth_def par_call_def bytes_of_def)
  then show "readV3PoolConfig par_deps par_call sw i j = Inr (True, 3000)"
    by (simp add: readV3PoolConfig_def p) (simp add: par_deps_def par_route_def par_eth_def fee_tier_def)
qed (simp_all add: resolve_abi_def par_deps_def par_route_def)

lemma par_required: "\<exists>r. fst (required_input par_deps 7 ''0x01'' ''0x02'' (Some 250) None) = Inr r"
proof -
  have "\<not> EqualFold ''0x01'' ''0x02''" by code_simp
  then show ?thesis
    by (simp add: required_input_def prepareAccurateQuoteContext_def qbind_def qcatch_def run_None par_reads hops_def hop_out_def quote_hop_def
        Let_def par_quoter)
qed

lemma par_status: "\<exists>st. fst (route_status par_deps 7 ''0x01'' ''0x02'' None) = Inr st \<and> rs_Exists st"
  by (simp add: route_status_def qbind_def qcatch_def run_None par_reads route_answer_def router_status_def Let_def)

theorem request_cache_transparent_witness:
  "\<exists>s1. getAccuratePartnerQuote par_deps 7 ''0x01'' ''0x02'' (Some 250) (Some newQuoteRequestCache) =
     (fst (accurate_quote par_deps 7 ''0x01'' ''0x02'' (Some 250) None), Some s1)"
  using request_cache_transparent [OF par_libs_ok par_plain _ new_cache_ok, of 7 "Some 250" 1] by auto


theorem route_executable_iff_witness:
  "\<exists>st. fst (route_status par_deps 7 ''0x01'' ''0x02'' None) = Inr st \<and> rs_Executable st"
proof -
  obtain st where st: "fst (route_status par_deps 7 ''0x01'' ''0x02'' None) = Inr st" "rs_Exists st" using par_status by blast
  have "on_chain par_deps 7 (base_chain\<lparr>chain_ID := 7\<rparr>) par_call" by (simp add: on_chain_def par_reads)
  from route_executable_iff [OF st(1) this _ par_reads(2)] st par_reads(8) [of "''0xcc''"] show ?thesis by auto
qed

end
