(* ===== verification/Quote_Simulator.thy ===== *)
theory Quote_Simulator
  imports Swap_Quotes
begin

text \<open>
  The last resort for a quote (\<^verbatim>\<open>internal/usecases/payment_quote_simulator.go\<close>): a dry run that probes the
  usual fee tiers of the pools, then an external service. The environment variables, the HTTP exchange
  and the JSON decoder are parameters.
\<close>

fun Join :: "string list \<Rightarrow> string \<Rightarrow> string" where
  "Join [] sep = []"
| "Join [x] sep = x"
| "Join (x # y # ys) sep = x @ sep @ Join (y # ys) sep"

subsection \<open>Probing fee tiers\<close>

definition commonUniswapV3FeeTiers :: "u32 list" where
  "commonUniswapV3FeeTiers = [100, 500, 3000, 10000]"

text \<open>The tiers in the order they are tried, the configured one of an active pool first.\<close>

definition probe_order :: "bool \<Rightarrow> u32 \<Rightarrow> u32 list" where
  "probe_order active fee =
     (if active \<and> fee > 0 then [fee] else []) @ filter (\<lambda>f. \<not> (fee > 0 \<and> f = fee)) commonUniswapV3FeeTiers"

fun probe_fees :: "(u32 \<Rightarrow> int result) \<Rightarrow> u32 list \<Rightarrow> (u32 \<times> string) list + int" where
  "probe_fees quote [] = Inl []"
| "probe_fees quote (fee # fees) =
     (case quote fee of
        Inr n \<Rightarrow>
          if n > 0 then Inr n
          else (case probe_fees quote fees of Inl errs \<Rightarrow> Inl ((fee, ''amountOut <= 0'') # errs) | Inr m \<Rightarrow> Inr m)
      | Inl e \<Rightarrow> (case probe_fees quote fees of Inl errs \<Rightarrow> Inl ((fee, error_text e) # errs) | Inr m \<Rightarrow> Inr m))"

definition no_tier :: "int \<Rightarrow> (u32 \<times> string) list \<Rightarrow> gerror" where
  "no_tier amountIn errs =
     ErrorString (''no usable v3 fee tier found (amountIn='' @ int_string amountIn @ '', reasons='' @
       Join (map (\<lambda>(fee, text). nat_string (unat fee) @ '':'' @ text) (sort_key fst errs)) ''; '' @ '')'')"

definition quoteHopV3WithDryRunFees ::
  "gateway_deps \<Rightarrow> rpc_call \<Rightarrow> string \<Rightarrow> string \<Rightarrow> string \<Rightarrow> int \<Rightarrow> bool \<Rightarrow> u32 \<Rightarrow> int result" where
  "quoteHopV3WithDryRunFees D call quoter tokenIn tokenOut amountIn active fee =
     (case probe_fees (callQuoterV3ExactInputSingle D call quoter tokenIn tokenOut amountIn) (probe_order active fee) of
        Inr n \<Rightarrow> Inr n
      | Inl errs \<Rightarrow> Inl (no_tier amountIn errs))"

text \<open>A pool whose configuration cannot be read counts as inactive.\<close>

definition dry_hop :: "gateway_deps \<Rightarrow> accurateQuoteContext \<Rightarrow> string \<times> string \<Rightarrow> int \<Rightarrow> int quoting" where
  "dry_hop D X hop amount =
     (let hopIn = normalizeEvmAddress (fst hop); hopOut = normalizeEvmAddress (snd hop) in
      qcatch (getCachedV3PoolConfig D (qx_call X) (chain_ID (qx_chain X)) (qx_swapper X) hopIn hopOut) (\<lambda>cfg.
      let (active, fee) = (case cfg of Inr x \<Rightarrow> x | Inl _ \<Rightarrow> (False, 0)) in
      qlift
        (case quoteHopV3WithDryRunFees D (qx_call X) (qx_quoter X) hopIn hopOut amount active fee of
           Inl e \<Rightarrow> Inl (WrapErr (''rpc dry-run quote unavailable for hop '' @ hopIn @ '' -> '' @ hopOut) e)
         | Inr n \<Rightarrow> if n \<le> 0 then Inl (ErrorString ''rpc dry-run quote returned invalid hop amount'') else Inr n)))"

definition dry_context :: "gateway_deps \<Rightarrow> uuid \<Rightarrow> string \<Rightarrow> string \<Rightarrow> accurateQuoteContext quoting" where
  "dry_context D chainID tokenIn tokenOut =
     qbind (qlift (repo_GetByID (rd_chains (gd_route D)) chainID)) (\<lambda>chain.
     qcatch (getCachedActiveContract D (chain_ID chain) ''TOKEN_SWAPPER'') (\<lambda>swapper.
     qbind (qlift (case swapper of Inr (Some s) \<Rightarrow> Inr s | _ \<Rightarrow> Inl no_swapper)) (\<lambda>swapper.
     qbind (qlift (rd_client (gd_route D) (chain_RPCURL chain))) (\<lambda>call.
     qbind (getCachedResolvedABI D (chain_ID chain) ''TOKEN_SWAPPER'') (\<lambda>swapperABI.
     qbind (getCachedRoutePath D call (chain_ID chain) swapper swapperABI tokenIn tokenOut) (\<lambda>routePath.
     qbind (qlift (if length routePath < 2 then Inl (ErrorString ''rpc dry-run quote unavailable because route path is empty'') else Inr ())) (\<lambda>_.
     qbind (getCachedQuoterV3 D call (chain_ID chain) chain swapper) (\<lambda>quoterV3.
     qlift (Inr \<lparr>qx_chain = chain, qx_call = call, qx_swapper = swapper, qx_path = routePath, qx_quoter = Address_Hex (gd_eth D) quoterV3\<rparr>)))))))))"

definition rpc_dry_run :: "gateway_deps \<Rightarrow> uuid \<Rightarrow> string \<Rightarrow> string \<Rightarrow> int \<Rightarrow> AccurateSwapQuoteResult quoting" where
  "rpc_dry_run D chainID tokenIn tokenOut amountIn =
     qbind (dry_context D chainID tokenIn tokenOut) (\<lambda>X.
     qbind (quote_hops (dry_hop D X) (hops (qx_path X)) amountIn) (\<lambda>out.
     qlift (Inr \<lparr>aq_Amount = out, aq_PriceSource = ''rpc-dry-run-'' @ price_source [] X, aq_RouteSummary = Join (qx_path X) ''->''\<rparr>)))"

definition getRPCDryRunPartnerQuote :: "gateway_deps \<Rightarrow> uuid \<Rightarrow> string \<Rightarrow> string \<Rightarrow> int \<Rightarrow> AccurateSwapQuoteResult quoting" where
  "getRPCDryRunPartnerQuote D chainID tokenIn tokenOut amountIn = with_cache (rpc_dry_run D chainID tokenIn tokenOut amountIn)"

subsection \<open>The external service\<close>

record simulatorQuoteRequest =
  sq_ChainID :: string
  sq_ChainUUID :: string
  sq_RPCURL :: string
  sq_SwapperAddress :: string
  sq_TokenIn :: string
  sq_TokenOut :: string
  sq_AmountIn :: string

text \<open>
  The two variables that name the service; building a request can fail on a malformed address; the service answers
  with a status and a body; \<open>sim_decode\<close> reads the first JSON value of a text and keeps numbers as written.
\<close>

record simulator_env =
  sim_PAYMENT_SIMULATOR_QUOTE_URL :: string
  sim_SIMULATOR_QUOTE_URL :: string
  sim_newRequest :: "string \<Rightarrow> gerror option"
  sim_post :: "string \<Rightarrow> simulatorQuoteRequest \<Rightarrow> (int \<times> string) result"
  sim_decode :: "string \<Rightarrow> json option"

fun extractBigIntFromAny :: "(string \<rightharpoonup> json) \<Rightarrow> string list \<Rightarrow> int option" where
  "extractBigIntFromAny payload [] = None"
| "extractBigIntFromAny payload (key # keys) =
     (let text = (case payload key of Some (JString s) \<Rightarrow> Some (TrimSpace s) | Some (JNumber s) \<Rightarrow> Some s | _ \<Rightarrow> None) in
      case Option.bind text SetString10 of
        Some n \<Rightarrow> if n \<ge> 0 then Some n else extractBigIntFromAny payload keys
      | None \<Rightarrow> extractBigIntFromAny payload keys)"

fun extractStringFromAny :: "(string \<rightharpoonup> json) \<Rightarrow> string list \<Rightarrow> string" where
  "extractStringFromAny payload [] = []"
| "extractStringFromAny payload (key # keys) =
     (case payload key of Some (JString s) \<Rightarrow> s | _ \<Rightarrow> extractStringFromAny payload keys)"

definition amount_keys :: "string list" where
  "amount_keys = [''amount_out'', ''amountOut'', ''quoted_amount'', ''quotedAmount'', ''output_amount'', ''outputAmount'']"

definition parseSimulatorQuoteResponse :: "(string \<Rightarrow> json option) \<Rightarrow> string \<Rightarrow> (int \<times> string \<times> string) result" where
  "parseSimulatorQuoteResponse decode body =
     (if body = [] then Inl (ErrorString ''empty simulator quote response'')
      else
     (case (case decode body of Some (JObject kvs) \<Rightarrow> Some (map_of (rev kvs)) | Some JNull \<Rightarrow> Some Map.empty | _ \<Rightarrow> None) of
        None \<Rightarrow> Inl (ErrorString ''invalid simulator quote response'')
      | Some raw \<Rightarrow>
          (case (case extractBigIntFromAny raw amount_keys of
                   Some n \<Rightarrow> Some n
                 | None \<Rightarrow> (case raw ''data'' of Some (JObject kvs) \<Rightarrow> extractBigIntFromAny (map_of (rev kvs)) amount_keys | _ \<Rightarrow> None)) of
             None \<Rightarrow> Inl (ErrorString ''invalid simulator quote response: amount_out not found'')
           | Some amountOut \<Rightarrow>
               let priceSource = TrimSpace (extractStringFromAny raw [''price_source'', ''priceSource'', ''source'']) in
               Inr (amountOut, if priceSource = [] then ''simulator-fallback'' else priceSource,
                    TrimSpace (extractStringFromAny raw [''route'', ''route_summary'', ''routeSummary''])))))"

definition simulator_request :: "gateway_deps \<Rightarrow> Chain \<Rightarrow> string \<Rightarrow> string \<Rightarrow> int \<Rightarrow> simulatorQuoteRequest" where
  "simulator_request D chain tokenIn tokenOut amountIn =
     \<lparr>sq_ChainID = GetCAIP2ID chain, sq_ChainUUID = uuid_String (gd_uuid D) (chain_ID chain), sq_RPCURL = TrimSpace (chain_RPCURL chain),
      sq_SwapperAddress = (case rd_activeContract (gd_route D) (chain_ID chain) ''TOKEN_SWAPPER'' of Inr (Some a) \<Rightarrow> TrimSpace a | _ \<Rightarrow> []),
      sq_TokenIn = tokenIn, sq_TokenOut = tokenOut, sq_AmountIn = int_string amountIn\<rparr>"

definition simulator_endpoint :: "simulator_env \<Rightarrow> string" where
  "simulator_endpoint S =
     (if TrimSpace (sim_PAYMENT_SIMULATOR_QUOTE_URL S) = [] then TrimSpace (sim_SIMULATOR_QUOTE_URL S) else TrimSpace (sim_PAYMENT_SIMULATOR_QUOTE_URL S))"

definition external_quote ::
  "gateway_deps \<Rightarrow> simulator_env \<Rightarrow> gerror \<Rightarrow> uuid \<Rightarrow> string \<Rightarrow> string \<Rightarrow> int \<Rightarrow> AccurateSwapQuoteResult result" where
  "external_quote D S rpcErr chainID tokenIn tokenOut amountIn =
     (let endpoint = simulator_endpoint S in
      if endpoint = [] then
        Inl (ErrorString (''rpc dry-run quote unavailable: '' @ error_text rpcErr @ ''; PAYMENT_SIMULATOR_QUOTE_URL is not configured''))
      else
     (case repo_GetByID (rd_chains (gd_route D)) chainID of Inl e \<Rightarrow> Inl e | Inr chain \<Rightarrow>
     (case sim_newRequest S endpoint of Some e \<Rightarrow> Inl e | None \<Rightarrow>
     (case sim_post S endpoint (simulator_request D chain tokenIn tokenOut amountIn) of
        Inl e \<Rightarrow> Inl (WrapErr ''simulator quote request failed'' e)
      | Inr (status, body) \<Rightarrow>
          if status < 200 \<or> status \<ge> 300 then Inl (ErrorString (''simulator quote failed with status '' @ int_string status))
          else
     (case parseSimulatorQuoteResponse (sim_decode S) body of
        Inl e \<Rightarrow> Inl e
      | Inr (amountOut, priceSource, routeSummary) \<Rightarrow>
          if amountOut \<le> 0 then Inl (ErrorString ''invalid simulator quote amount'')
          else if amountOut = amountIn \<and> \<not> EqualFold tokenIn tokenOut
          then Inl (ErrorString ''simulator quote returned 1:1 placeholder amount'')
          else Inr \<lparr>aq_Amount = amountOut, aq_PriceSource = priceSource, aq_RouteSummary = routeSummary\<rparr>)))))"

definition getSimulatorBackedPartnerQuote ::
  "gateway_deps \<Rightarrow> simulator_env \<Rightarrow> uuid \<Rightarrow> string \<Rightarrow> string \<Rightarrow> int option \<Rightarrow> AccurateSwapQuoteResult quoting" where
  "getSimulatorBackedPartnerQuote D S chainID tokenIn tokenOut amountIn =
     (case amountIn of
        None \<Rightarrow> qlift (Inl (ErrorString ''amountIn must be positive''))
      | Some amount \<Rightarrow>
          if amount \<le> 0 then qlift (Inl (ErrorString ''amountIn must be positive''))
          else if EqualFold tokenIn tokenOut then qlift (Inr \<lparr>aq_Amount = amount, aq_PriceSource = ''identity'', aq_RouteSummary = []\<rparr>)
          else
            qcatch (getRPCDryRunPartnerQuote D chainID tokenIn tokenOut amount) (\<lambda>r.
            case r of
              Inr q \<Rightarrow> qlift (Inr q)
            | Inl rpcErr \<Rightarrow> qlift (external_quote D S rpcErr chainID tokenIn tokenOut amount)))"

subsection \<open>What a quote of last resort is worth\<close>

lemma probe_fees_positive: "probe_fees quote fees = Inr n \<Longrightarrow> 0 < n \<and> (\<exists>f\<in>set fees. quote f = Inr n)"
  by (induction fees) (auto split: sum.splits if_splits)

lemma probe_fees_fails: "probe_fees quote fees = Inl errs \<Longrightarrow> map fst errs = fees \<and> (\<forall>f\<in>set fees. \<forall>n. quote f = Inr n \<longrightarrow> n \<le> 0)"
  by (induction fees arbitrary: errs) (auto split: sum.splits if_splits)

text \<open>
  Also. The configured tier of an active pool decides when it answers; otherwise another common tier may answer, and the dry
  run fails only after every tier of the probe was refused.
\<close>

lemma dry_run_prefers_configured_tier:
  assumes "callQuoterV3ExactInputSingle D call quoter i j n fee = Inr m" "0 < m" "0 < fee"
  shows "quoteHopV3WithDryRunFees D call quoter i j n True fee = Inr m"
  using assms by (simp add: quoteHopV3WithDryRunFees_def probe_order_def)

lemma dry_run_fails_iff:
  "(\<exists>e. quoteHopV3WithDryRunFees D call quoter i j n active fee = Inl e) \<longleftrightarrow>
   (\<forall>f\<in>set (probe_order active fee). \<forall>m. callQuoterV3ExactInputSingle D call quoter i j n f = Inr m \<longrightarrow> m \<le> 0)"
  (is "?l \<longleftrightarrow> ?r")
proof
  assume ?l
  then show ?r using probe_fees_fails by (auto simp: quoteHopV3WithDryRunFees_def split: sum.splits)
next
  assume r: ?r
  show ?l
  proof (cases "probe_fees (callQuoterV3ExactInputSingle D call quoter i j n) (probe_order active fee)")
    case (Inr m)
    with probe_fees_positive [OF this] r show ?thesis by fastforce
  qed (simp add: quoteHopV3WithDryRunFees_def)
qed

lemma transparent_dry_hop:
  assumes D: "quote_libs_ok D" and on: "on_chain D (chain_ID (qx_chain X)) (qx_chain X) (qx_call X)"
    and pl: "plain (qx_swapper X)" "plain (fst h)" "plain (snd h)"
  shows "transparent D (dry_hop D X h amount)"
  unfolding dry_hop_def Let_def
  by (intro transparent_qcatch transparent_pool [OF D on]) (use pl in \<open>auto split: prod.split\<close>)

lemma dry_prepared:
  assumes D: "quote_libs_ok D" and X: "fst (dry_context D k i j None) = Inr X"
  shows "on_chain D (chain_ID (qx_chain X)) (qx_chain X) (qx_call X)" and "plain (qx_swapper X)" and "\<forall>x\<in>set (qx_path X). plain x"
  using X quote_libs_okD(4,5) [OF D] readRoutePath_plain [OF D]
  by (auto simp: dry_context_def qbind_def qcatch_def run_None on_chain_def split: sum.splits option.splits if_splits)

lemma transparent_dry_run:
  assumes D: "quote_libs_ok D" and pl: "plain i" "plain j"
  shows "transparent D (rpc_dry_run D k i j n)"
proof -
  have "transparent D (dry_context D k i j)"
    unfolding dry_context_def
    by (intro transparent_qcatch transparent_qbind transparent_contract transparent_abi transparent_qlift transparent_path transparent_quoter D pl)
      (auto simp: run_None on_chain_def quote_libs_okD(4) [OF D] split: sum.splits option.splits intro: quote_libs_okD(5) [OF D])
  moreover have "transparent D (quote_hops (dry_hop D X) (hops (qx_path X)) m)" if "fst (dry_context D k i j None) = Inr X" for X m
    using dry_prepared [OF D that] hops_plain by (intro transparent_hops transparent_dry_hop [OF D]) auto
  ultimately show ?thesis unfolding rpc_dry_run_def by (intro transparent_qbind transparent_qlift) auto
qed

lemma quote_hops_positive:
  assumes "quote_hops q hs n c = (Inr m, c')" "hs \<noteq> []" "\<And>h n c m c'. q h n c = (Inr m, c') \<Longrightarrow> 0 < m"
  shows "0 < m"
  using assms(1,2)
proof (induction hs arbitrary: n c)
  case (Cons h hs)
  then obtain m1 c1 where h: "q h n c = (Inr m1, c1)" "quote_hops q hs m1 c1 = (Inr m, c')"
    by (auto simp: qbind_def split: prod.splits sum.splits)
  show ?case
  proof (cases hs)
    case Nil
    with h assms(3) show ?thesis by (auto simp: qlift_def)
  next
    case (Cons a list)
    with Cons.IH [OF h(2)] show ?thesis by simp
  qed
qed simp

lemma qbindE:
  assumes "qbind m f c = (Inr v, c')"
  obtains x c1 where "m c = (Inr x, c1)" "f x c1 = (Inr v, c')"
  using assms by (auto simp: qbind_def split: prod.splits sum.splits)

lemma dry_run_positive:
  assumes "rpc_dry_run D k i j n c = (Inr q, c')"
  shows "0 < aq_Amount q"
proof -
  obtain X c1 m c2 where X: "dry_context D k i j c = (Inr X, c1)" and m: "quote_hops (dry_hop D X) (hops (qx_path X)) n c1 = (Inr m, c2)" "aq_Amount q = m"
    using assms unfolding rpc_dry_run_def by (auto elim!: qbindE simp: qlift_def)
  from X have "length (qx_path X) \<ge> 2"
    unfolding dry_context_def qcatch_def by (auto elim!: qbindE simp: qlift_def split: prod.splits if_splits)
  then have "hops (qx_path X) \<noteq> []" by (cases "qx_path X"; cases "tl (qx_path X)") (auto simp: hops_def)
  then show ?thesis unfolding m(2)
    by (rule quote_hops_positive [OF m(1)]) (auto simp: dry_hop_def Let_def qcatch_def qlift_def split: prod.splits sum.splits if_splits)
qed

lemma external_quote_sound:
  assumes "external_quote D S e k i j n = Inr q" "\<not> EqualFold i j"
  shows "0 < aq_Amount q \<and> aq_Amount q \<noteq> n \<and>
    (\<exists>chain status body. repo_GetByID (rd_chains (gd_route D)) k = Inr chain \<and>
       sim_post S (simulator_endpoint S) (simulator_request D chain i j n) = Inr (status, body) \<and> 200 \<le> status \<and> status < 300)"
  using assms by (auto simp: external_quote_def Let_def not_less not_le split: if_splits sum.splits option.splits)

text \<open>
  Also. A quote of last resort is positive, and an external service cannot pass off the input amount as a quote: its answer for two different
  tokens differs from the input, comes with a success status, and is asked for only after the dry run failed.
\<close>

theorem simulator_quote_sound:
  assumes "getSimulatorBackedPartnerQuote D S k i j (Some n) (Some s) = (Inr q, c)" "\<not> EqualFold i j"
  shows "0 < n \<and> 0 < aq_Amount q \<and>
    (rpc_dry_run D k i j n (Some s) = (Inr q, c) \<or>
     (\<exists>e chain status body. fst (rpc_dry_run D k i j n (Some s)) = Inl e \<and> repo_GetByID (rd_chains (gd_route D)) k = Inr chain \<and>
        sim_post S (simulator_endpoint S) (simulator_request D chain i j n) = Inr (status, body) \<and> 200 \<le> status \<and> status < 300 \<and> aq_Amount q \<noteq> n))"
proof -
  have n: "0 < n" using assms(1) by (auto simp: getSimulatorBackedPartnerQuote_def qlift_def split: if_splits)
  obtain r c' where r: "rpc_dry_run D k i j n (Some s) = (r, c')" by fastforce
  show ?thesis
  proof (cases r)
    case (Inr x)
    with assms n r have "rpc_dry_run D k i j n (Some s) = (Inr q, c)"
      by (auto simp: getSimulatorBackedPartnerQuote_def getRPCDryRunPartnerQuote_def qcatch_def qlift_def)
    with n dry_run_positive show ?thesis by blast
  next
    case (Inl e)
    have "external_quote D S e k i j n = Inr q"
      using assms n r Inl by (auto simp: getSimulatorBackedPartnerQuote_def getRPCDryRunPartnerQuote_def qcatch_def qlift_def)
    from external_quote_sound [OF this assms(2)] show ?thesis using n r Inl by auto
  qed
qed

text \<open>A service for the witness, asked because the quoter of the sample deployment is asked for a route of length one.\<close>

definition short_deps :: gateway_deps where
  "short_deps = par_deps\<lparr>gd_resolveABI := Some (\<lambda>k ty. Inr (par_abi\<lparr>abi_UnpackCall := (\<lambda>m out. Some [AbiBool True, AbiBool True, AbiAddresses [1]])\<rparr>))\<rparr>"

definition sample_service :: simulator_env where
  "sample_service = \<lparr>sim_PAYMENT_SIMULATOR_QUOTE_URL = '' '', sim_SIMULATOR_QUOTE_URL = ''http://sim'', sim_newRequest = (\<lambda>u. None),
     sim_post = (\<lambda>u r. Inr (200, ''x'')), sim_decode = (\<lambda>b. Some (JObject [(''data'', JObject [(''amountOut'', JString '' 247 '')])]))\<rparr>"

lemma short_dry_run: "\<exists>e c. rpc_dry_run short_deps 7 ''0x01'' ''0x02'' 250 (Some newQuoteRequestCache) = (Inl e, c)"
proof -
  have r: "resolve_abi short_deps k ty = Inr (par_abi\<lparr>abi_UnpackCall := (\<lambda>m out. Some [AbiBool True, AbiBool True, AbiAddresses [1]])\<rparr>)"
    "gd_route short_deps = par_route" for k ty
    by (simp_all add: resolve_abi_def short_deps_def par_deps_def)
  have p: "\<exists>x. readRoutePath short_deps par_call sw (par_abi\<lparr>abi_UnpackCall := (\<lambda>m out. Some [AbiBool True, AbiBool True, AbiAddresses [1]])\<rparr>) i j = Inr [x]" for sw i j
    by (simp add: readRoutePath_def find_route_def par_abi_def par_call_def)
  obtain x where x: "readRoutePath short_deps par_call ''0xcc'' (par_abi\<lparr>abi_UnpackCall := (\<lambda>m out. Some [AbiBool True, AbiBool True, AbiAddresses [1]])\<rparr>) ''0x01'' ''0x02'' = Inr [x]"
    using p by blast
  show ?thesis
    by (simp add: rpc_dry_run_def dry_context_def qbind_def qcatch_def qlift_def getCachedActiveContract_def getCachedResolvedABI_def getCachedRoutePath_def
        memo_def newQuoteRequestCache_def r par_route_def x)
qed

theorem simulator_quote_sound_witness:
  "\<exists>q c. getSimulatorBackedPartnerQuote short_deps sample_service 7 ''0x01'' ''0x02'' (Some 250) (Some newQuoteRequestCache) = (Inr q, c) \<and>
     0 < aq_Amount q \<and> (\<exists>e. fst (rpc_dry_run short_deps 7 ''0x01'' ''0x02'' 250 (Some newQuoteRequestCache)) = Inl e)"
proof -
  have ne: "\<not> EqualFold ''0x01'' ''0x02''" by code_simp
  obtain e c where e: "rpc_dry_run short_deps 7 ''0x01'' ''0x02'' 250 (Some newQuoteRequestCache) = (Inl e, c)" using short_dry_run by blast
  have "TrimSpace '' '' = []" "TrimSpace ''http://sim'' = ''http://sim''" by code_simp+
  moreover have "parseSimulatorQuoteResponse (sim_decode sample_service) ''x'' = Inr (247, ''simulator-fallback'', [])" by code_simp
  ultimately have "\<exists>q. external_quote short_deps sample_service e 7 ''0x01'' ''0x02'' 250 = Inr q"
    by (simp add: external_quote_def simulator_endpoint_def sample_service_def short_deps_def par_deps_def par_route_def)
  then obtain q where q: "external_quote short_deps sample_service e 7 ''0x01'' ''0x02'' 250 = Inr q" by blast
  have "getSimulatorBackedPartnerQuote short_deps sample_service 7 ''0x01'' ''0x02'' (Some 250) (Some newQuoteRequestCache) = (Inr q, c)"
    using ne e q by (simp add: getSimulatorBackedPartnerQuote_def getRPCDryRunPartnerQuote_def qcatch_def qlift_def)
  from simulator_quote_sound [OF this ne] this e show ?thesis by auto
qed

end
