(* ===== verification/Partner_Quotes.thy ===== *)
theory Partner_Quotes
  imports Quote_Simulator Partner_Sessions
begin

text \<open>
  The quotes merchants ask for (\<^verbatim>\<open>internal/usecases/partner_quote_usecase.go\<close>): the checks of a request, the order in
  which the quote engines are tried, and the stored quote. The engines are fields of the use case, set
  together or not at all; \<open>NewPartnerQuoteUsecase\<close> sets them to the operations of \<open>Swap_Quotes\<close> and
  \<open>Quote_Simulator\<close>. An engine that reports no error returns a result. Whether the context prefers the dry run
  (\<^verbatim>\<open>quote_mode_context.go\<close>) is a flag; log lines are left out.
\<close>

definition partnerQuoteTTL :: time where "partnerQuoteTTL = 300 * 10 ^ 9"
definition partnerQuoteSlippage :: int where "partnerQuoteSlippage = 100"

record CreatePartnerQuoteInput =
  qi_MerchantID :: uuid
  qi_InvoiceCurrency :: string
  qi_InvoiceToken :: string
  qi_InvoiceAmount :: string
  qi_SelectedChain :: string
  qi_SelectedToken :: string
  qi_DestWallet :: string
  qi_ExpiresAtOverride :: "time option"

record CreatePartnerQuoteOutput =
  qo_QuoteID :: string
  qo_InvoiceCurrency :: string
  qo_InvoiceAmount :: string
  qo_SelectedChain :: string
  qo_SelectedToken :: string
  qo_SelectedTokenSymbol :: string
  qo_QuotedAmount :: string
  qo_QuoteDecimals :: int
  qo_QuoteRate :: string
  qo_PriceSource :: string
  qo_Route :: string
  qo_SlippageBps :: int
  qo_RateTimestamp :: time
  qo_QuoteExpiresAt :: time

record PreviewRequiredInputForOutputInput =
  pri_MerchantID :: uuid
  pri_SelectedChain :: string
  pri_InputToken :: string
  pri_OutputToken :: string
  pri_TargetOutputAmount :: string

record PreviewRequiredInputForOutputOutput =
  pro_RequiredInputAmount :: string
  pro_PriceSource :: string
  pro_Route :: string

record PartnerQuoteUsecase =
  pq_uuid :: uuid_lib
  pq_chains :: ChainRepository
  pq_tokenByAddress :: "string \<Rightarrow> uuid \<Rightarrow> Token result"
  pq_tokenBySymbol :: "string \<Rightarrow> uuid \<Rightarrow> Token result"
  pq_hasQuotes :: bool
  pq_routeSupport :: "(uuid \<Rightarrow> string \<Rightarrow> string \<Rightarrow> TokenRouteSupportStatus quoting) option"
  pq_swapQuote :: "(uuid \<Rightarrow> string \<Rightarrow> string \<Rightarrow> int \<Rightarrow> int quoting) option"
  pq_accurateQuote :: "(uuid \<Rightarrow> string \<Rightarrow> string \<Rightarrow> int option \<Rightarrow> AccurateSwapQuoteResult quoting) option"
  pq_accurateRequiredInput :: "(uuid \<Rightarrow> string \<Rightarrow> string \<Rightarrow> int option \<Rightarrow> AccurateSwapQuoteResult quoting) option"
  pq_simulatorQuote :: "(uuid \<Rightarrow> string \<Rightarrow> string \<Rightarrow> int option \<Rightarrow> AccurateSwapQuoteResult quoting) option"

definition NewPartnerQuoteUsecase ::
  "bool \<Rightarrow> (string \<Rightarrow> uuid \<Rightarrow> Token result) \<Rightarrow> (string \<Rightarrow> uuid \<Rightarrow> Token result) \<Rightarrow> uuid_lib \<Rightarrow> ChainRepository \<Rightarrow>
   (gateway_deps \<times> simulator_env) option \<Rightarrow> PartnerQuoteUsecase" where
  "NewPartnerQuoteUsecase hasQuotes byAddress bySymbol L repo payments =
     \<lparr>pq_uuid = L, pq_chains = repo, pq_tokenByAddress = byAddress, pq_tokenBySymbol = bySymbol, pq_hasQuotes = hasQuotes,
      pq_routeSupport = map_option (\<lambda>(D, S). CheckRouteSupportDetailed D) payments,
      pq_swapQuote = map_option (\<lambda>(D, S) k i j n. with_cache (swap_quote D k i j n)) payments,
      pq_accurateQuote = map_option (\<lambda>(D, S). getAccuratePartnerQuote D) payments,
      pq_accurateRequiredInput = map_option (\<lambda>(D, S). getAccuratePartnerRequiredInput D) payments,
      pq_simulatorQuote = map_option (\<lambda>(D, S). getSimulatorBackedPartnerQuote D S) payments\<rparr>"

subsection \<open>Cached lookups\<close>

definition getCachedChainByID :: "PartnerQuoteUsecase \<Rightarrow> uuid \<Rightarrow> Chain quoting" where
  "getCachedChainByID u chainID =
     memo qc_chainsByID (\<lambda>k v s. s\<lparr>qc_chainsByID := (qc_chainsByID s)(k \<mapsto> v)\<rparr>) (chainByIDCacheKey (pq_uuid u) chainID)
       (repo_GetByID (pq_chains u) chainID)"

definition getCachedTokenByAddress :: "PartnerQuoteUsecase \<Rightarrow> uuid \<Rightarrow> string \<Rightarrow> Token quoting" where
  "getCachedTokenByAddress u chainID address =
     memo qc_tokensByAddress (\<lambda>k v s. s\<lparr>qc_tokensByAddress := (qc_tokensByAddress s)(k \<mapsto> v)\<rparr>) (tokenByAddressCacheKey (pq_uuid u) chainID address)
       (pq_tokenByAddress u address chainID)"

definition getCachedTokenBySymbol :: "PartnerQuoteUsecase \<Rightarrow> uuid \<Rightarrow> string \<Rightarrow> Token quoting" where
  "getCachedTokenBySymbol u chainID symbol =
     memo qc_tokensBySymbol (\<lambda>k v s. s\<lparr>qc_tokensBySymbol := (qc_tokensBySymbol s)(k \<mapsto> v)\<rparr>) (tokenBySymbolCacheKey (pq_uuid u) chainID symbol)
       (pq_tokenBySymbol u symbol chainID)"

text \<open>A lookup whose error, whatever it is, and whose inactive result are refused with one text.\<close>

definition active_token :: "string \<Rightarrow> Token quoting \<Rightarrow> Token quoting" where
  "active_token text m =
     qcatch m (\<lambda>r. qlift (case r of Inr t \<Rightarrow> if token_IsActive t then Inr t else Inl (BadRequest text) | Inl _ \<Rightarrow> Inl (BadRequest text)))"

subsection \<open>Texts of a quote\<close>

definition normalizePriceSourcePart :: "string \<Rightarrow> string" where
  "normalizePriceSourcePart v = map (\<lambda>c. if c = CHR '' '' \<or> c = CHR ''_'' then CHR ''-'' else c) (TrimSpace (ToLower v))"

definition set_router :: "string \<Rightarrow> bool" where
  "set_router a \<longleftrightarrow> TrimSpace a \<noteq> [] \<and> a \<noteq> zero_address"

definition buildPartnerPriceSource :: "Chain \<Rightarrow> string \<Rightarrow> string \<Rightarrow> TokenRouteSupportStatus \<Rightarrow> string" where
  "buildPartnerPriceSource chain selected invoice status =
     (let kind = (if set_router (rs_UniversalV4 status) then ''uniswap-v4'' else if set_router (rs_SwapRouterV3 status) then ''uniswap-v3'' else ''token-swapper'');
          chainName = normalizePriceSourcePart (chain_Name chain);
          chainName = (if chainName = [] then normalizePriceSourcePart (GetCAIP2ID chain) else chainName) in
      kind @ ''-'' @ chainName @ ''-'' @ normalizePriceSourcePart selected @ ''-'' @ normalizePriceSourcePart invoice)"

definition summarizeRouteForProbe :: "Token \<Rightarrow> Token \<Rightarrow> TokenRouteSupportStatus \<Rightarrow> string" where
  "summarizeRouteForProbe invoice selected status =
     (if rs_Path status = [] then token_Symbol invoice @ ''->'' @ token_Symbol selected
      else Join (map (\<lambda>addr. if EqualFold addr (token_ContractAddress invoice) then token_Symbol invoice
                             else if EqualFold addr (token_ContractAddress selected) then token_Symbol selected else addr) (rs_Path status)) ''->'')"

text \<open>The lookups of the tokens between run side by side; taken in order here.\<close>

fun route_parts :: "PartnerQuoteUsecase \<Rightarrow> uuid \<Rightarrow> Token \<Rightarrow> Token \<Rightarrow> string list \<Rightarrow> string list quoting" where
  "route_parts u k invoice selected [] = qlift (Inr [])"
| "route_parts u k invoice selected (addr # addrs) =
     (let rest = (\<lambda>part. qbind (route_parts u k invoice selected addrs) (\<lambda>parts. qlift (Inr (part # parts)))) in
      if EqualFold addr (token_ContractAddress invoice) then rest (token_Symbol invoice)
      else if EqualFold addr (token_ContractAddress selected) then rest (token_Symbol selected)
      else qcatch (getCachedTokenByAddress u k addr) (\<lambda>r.
             rest (case r of Inr t \<Rightarrow> if TrimSpace (token_Symbol t) \<noteq> [] then token_Symbol t else addr | Inl _ \<Rightarrow> addr)))"

definition summarizeRoute :: "PartnerQuoteUsecase \<Rightarrow> uuid \<Rightarrow> Token \<Rightarrow> Token \<Rightarrow> TokenRouteSupportStatus \<Rightarrow> string quoting" where
  "summarizeRoute u k invoice selected status =
     (if rs_Path status = [] then qlift (Inr (token_Symbol invoice @ ''->'' @ token_Symbol selected))
      else qbind (route_parts u k invoice selected (rs_Path status)) (\<lambda>parts. qlift (Inr (Join parts ''->''))))"

text \<open>\<^verbatim>\<open>big.Rat.FloatString\<close>: the digits after the point are rounded, halves away from zero.\<close>

definition rat_digits :: "nat \<Rightarrow> nat \<Rightarrow> nat \<Rightarrow> nat \<times> nat" where
  "rat_digits a b prec =
     (let q = a div b; r = (a mod b) * 10 ^ prec; d = r div b; r2 = r mod b; d = (if 2 * r2 \<ge> b then d + 1 else d) in
      if d \<ge> 10 ^ prec then (q + 1, d - 10 ^ prec) else (q, d))"

definition FloatString :: "int \<Rightarrow> int \<Rightarrow> nat \<Rightarrow> string" where
  "FloatString x y prec =
     (let (q, d) = rat_digits (nat \<bar>x\<bar>) (nat \<bar>y\<bar>) prec; text = nat_string d in
      (if (x < 0) \<noteq> (y < 0) \<and> x \<noteq> 0 then ''-'' else []) @ nat_string q @
      (if prec > 0 then ''.'' @ replicate (prec - length text) CHR ''0'' @ text else []))"

definition trimTrailingZeros :: "string \<Rightarrow> string" where
  "trimTrailingZeros v =
     (if \<not> Contains v ''.'' then v
      else let v = TrimRight (TrimRight v CHR ''0'') CHR ''.'' in if v = [] then ''0'' else v)"

definition formatDecimalRatio :: "int \<Rightarrow> int \<Rightarrow> nat \<Rightarrow> string" where
  "formatDecimalRatio numerator denominator precision =
     (if denominator = 0 then ''0'' else trimTrailingZeros (FloatString numerator denominator precision))"

definition formatNormalizedTokenRatio :: "int \<Rightarrow> int \<Rightarrow> int \<Rightarrow> int \<Rightarrow> nat \<Rightarrow> string" where
  "formatNormalizedTokenRatio outputAmount outputDecimals inputAmount inputDecimals precision =
     (if inputAmount = 0 then ''0''
      else
        let numerator = (if inputDecimals > 0 then outputAmount * 10 ^ nat inputDecimals else outputAmount);
            denominator = (if outputDecimals > 0 then inputAmount * 10 ^ nat outputDecimals else inputAmount) in
        trimTrailingZeros (FloatString numerator denominator precision))"

subsection \<open>The quote engines\<close>

text \<open>The amount so far, the price source and why the simulator failed.\<close>

type_synonym quoted = "int option \<times> string \<times> string"

definition try_simulator :: "PartnerQuoteUsecase \<Rightarrow> uuid \<Rightarrow> string \<Rightarrow> string \<Rightarrow> int \<Rightarrow> quoted \<Rightarrow> quoted quoting" where
  "try_simulator u k i j n x =
     (case pq_simulatorQuote u of
        None \<Rightarrow> qlift (Inr x)
      | Some sim \<Rightarrow>
          qcatch (sim k i j (Some n)) (\<lambda>r.
          qlift (Inr (case r of
                        Inr q \<Rightarrow> if aq_Amount q > 0 then (Some (aq_Amount q), TrimSpace (aq_PriceSource q), snd (snd x)) else x
                      | Inl e \<Rightarrow> (fst x, fst (snd x), error_text e)))))"

definition placeholder :: "string \<Rightarrow> string \<Rightarrow> int \<Rightarrow> int option \<Rightarrow> bool" where
  "placeholder i j n m \<longleftrightarrow> m = Some n \<and> \<not> EqualFold i j"

definition unavailable :: "string \<Rightarrow> string \<Rightarrow> gerror" where
  "unavailable why reason =
     BadRequest (''accurate quote unavailable for selected pair: '' @ why @
       (if reason \<noteq> [] then '' (simulator fallback failed: '' @ reason @ '')'' else []))"

text \<open>
  The quote of the swapper, replaced by the simulator when it fails or repeats the input. What a failure is reported as
  depends on the error of the accurate quote, when one was asked for.
\<close>

definition swapper_quote :: "PartnerQuoteUsecase \<Rightarrow> gerror option \<Rightarrow> uuid \<Rightarrow> string \<Rightarrow> string \<Rightarrow> int \<Rightarrow> quoted quoting" where
  "swapper_quote u quoteErr k i j n =
     (case pq_swapQuote u of
        None \<Rightarrow> qlift (Inl nil_dereference)
      | Some swap \<Rightarrow>
          qcatch (swap k i j n) (\<lambda>r.
          qbind
            (case r of
               Inr m \<Rightarrow> qlift (Inr (Some m, [], []))
             | Inl err \<Rightarrow>
                 qbind (try_simulator u k i j n (None, [], [])) (\<lambda>x.
                 qlift (if (case fst x of None \<Rightarrow> True | Some m \<Rightarrow> m \<le> 0) then
                          Inl (case quoteErr of
                                 Some e \<Rightarrow> unavailable (error_text e) (snd (snd x))
                               | None \<Rightarrow> InternalServerError (''failed to fetch on-chain quote: '' @ error_text err))
                        else Inr x)))
            (\<lambda>x. if placeholder i j n (fst x) then
                   qbind (try_simulator u k i j n x) (\<lambda>y.
                   qlift (if placeholder i j n (fst y) then Inl (unavailable ''swapper returned 1:1 placeholder quote'' (snd (snd y))) else Inr y))
                 else qlift (Inr x))))"

definition quoteWithDryRunPreferred :: "PartnerQuoteUsecase \<Rightarrow> uuid \<Rightarrow> string \<Rightarrow> string \<Rightarrow> int \<Rightarrow> AccurateSwapQuoteResult quoting" where
  "quoteWithDryRunPreferred u k i j n =
     (if n \<le> 0 then qlift (Inl (ErrorString ''invalid dry-run quote input''))
      else
        qcatch (case pq_swapQuote u of Some swap \<Rightarrow> qcatch (swap k i j n) (\<lambda>r. qlift (Inr (Some r))) | None \<Rightarrow> qlift (Inr None)) (\<lambda>r.
        let swapped = (case r of Inr x \<Rightarrow> x | Inl _ \<Rightarrow> None);
            simulate = (\<lambda>reasons.
              qcatch (case pq_simulatorQuote u of
                        Some sim \<Rightarrow> qcatch (sim k i j (Some n)) (\<lambda>s. qlift (Inr (Some s)))
                      | None \<Rightarrow> qlift (Inr None)) (\<lambda>s.
              let simulated = (case s of Inr x \<Rightarrow> x | Inl _ \<Rightarrow> None);
                  failed = (\<lambda>reasons. qlift (Inl (ErrorString (if reasons = [] then ''no quote engine available'' else Join reasons ''; '')))) in
              case simulated of
                Some (Inr q) \<Rightarrow> if aq_Amount q > 0 then qlift (Inr q) else failed reasons
              | Some (Inl e) \<Rightarrow> failed (reasons @ [''dry-run simulator failed: '' @ error_text e])
              | None \<Rightarrow> failed reasons)) in
        case swapped of
          Some (Inr m) \<Rightarrow>
            if m > 0 then
              (if m \<noteq> n \<or> EqualFold i j then qlift (Inr \<lparr>aq_Amount = m, aq_PriceSource = [], aq_RouteSummary = []\<rparr>)
               else simulate [''swapper returned 1:1 placeholder quote''])
            else simulate []
        | Some (Inl e) \<Rightarrow> simulate [''swapper fallback failed: '' @ error_text e]
        | None \<Rightarrow> simulate []))"

definition engine_quote :: "PartnerQuoteUsecase \<Rightarrow> bool \<Rightarrow> uuid \<Rightarrow> string \<Rightarrow> string \<Rightarrow> int \<Rightarrow> quoted quoting" where
  "engine_quote u dry k i j n =
     (if dry then
        qcatch (quoteWithDryRunPreferred u k i j n) (\<lambda>r.
        qlift (case r of
                 Inr q \<Rightarrow> Inr (Some (aq_Amount q), TrimSpace (aq_PriceSource q), [])
               | Inl e \<Rightarrow> Inl (BadRequest (''accurate quote unavailable for selected pair: '' @ error_text e))))
      else case pq_accurateQuote u of
        Some accurate \<Rightarrow>
          qcatch (accurate k i j (Some n)) (\<lambda>r.
          case r of
            Inr q \<Rightarrow> qlift (Inr (Some (aq_Amount q), TrimSpace (aq_PriceSource q), []))
          | Inl e \<Rightarrow> swapper_quote u (Some e) k i j n)
      | None \<Rightarrow> swapper_quote u None k i j n)"

subsection \<open>Creating and previewing quotes\<close>

definition positive_amount :: "string \<Rightarrow> int option" where
  "positive_amount s = (case SetString10 (TrimSpace s) of Some n \<Rightarrow> if n > 0 then Some n else None | None \<Rightarrow> None)"

text \<open>The checks of a request that need no lookup, in their order.\<close>

definition quote_input_error :: "PartnerQuoteUsecase \<Rightarrow> bool \<Rightarrow> CreatePartnerQuoteInput \<Rightarrow> gerror option" where
  "quote_input_error u persist input =
     (if qi_MerchantID input = uuid_Nil then Some (Forbidden ''merchant context required'')
      else if TrimSpace (qi_InvoiceCurrency input) = [] then Some (BadRequest ''invoice_currency is required'')
      else if TrimSpace (qi_InvoiceAmount input) = [] then Some (BadRequest ''invoice_amount is required'')
      else if TrimSpace (qi_SelectedChain input) = [] then Some (BadRequest ''selected_chain is required'')
      else if TrimSpace (qi_SelectedToken input) = [] then Some (BadRequest ''selected_token is required'')
      else if TrimSpace (qi_DestWallet input) = [] then Some (BadRequest ''dest_wallet is required'')
      else if pq_routeSupport u = None \<or> pq_swapQuote u = None then Some (InternalServerError ''partner quote engine is not configured'')
      else if persist \<and> \<not> pq_hasQuotes u then Some (InternalServerError ''payment quote repository is not configured'')
      else None)"

definition invoice_token :: "PartnerQuoteUsecase \<Rightarrow> uuid \<Rightarrow> CreatePartnerQuoteInput \<Rightarrow> Token quoting" where
  "invoice_token u k input =
     (if TrimSpace (qi_InvoiceToken input) \<noteq> [] then
        qbind (active_token ''invoice_token not supported on selected_chain'' (getCachedTokenByAddress u k (TrimSpace (qi_InvoiceToken input)))) (\<lambda>t.
        qlift (if EqualFold (TrimSpace (qi_InvoiceCurrency input)) (token_Symbol t) then Inr t
               else Inl (BadRequest ''invoice_currency does not match invoice_token symbol'')))
      else active_token ''invoice_currency not supported on selected_chain'' (getCachedTokenBySymbol u k (TrimSpace (qi_InvoiceCurrency input))))"

definition route_for :: "PartnerQuoteUsecase \<Rightarrow> uuid \<Rightarrow> Token \<Rightarrow> Token \<Rightarrow> TokenRouteSupportStatus quoting" where
  "route_for u k i j =
     (case pq_routeSupport u of
        None \<Rightarrow> qlift (Inl nil_dereference)
      | Some support \<Rightarrow>
          qcatch (support k (token_ContractAddress i) (token_ContractAddress j)) (\<lambda>r.
          qlift (case r of
                   Inl e \<Rightarrow> Inl (InternalServerError (''failed to resolve route support: '' @ error_text e))
                 | Inr st \<Rightarrow> if rs_Exists st \<and> rs_Executable st then Inr st else Inl (BadRequest ''selected token pair is not supported on selected_chain''))))"

definition quote_output ::
  "time \<Rightarrow> CreatePartnerQuoteInput \<Rightarrow> string \<Rightarrow> Chain \<Rightarrow> Token \<Rightarrow> Token \<Rightarrow> int \<Rightarrow> int \<Rightarrow> string \<Rightarrow> string \<Rightarrow> TokenRouteSupportStatus \<Rightarrow>
   CreatePartnerQuoteOutput" where
  "quote_output now input caip2 chain invoice selected amountIn amount source route status =
     \<lparr>qo_QuoteID = [], qo_InvoiceCurrency = TrimSpace (qi_InvoiceCurrency input), qo_InvoiceAmount = int_string amountIn, qo_SelectedChain = caip2,
      qo_SelectedToken = token_ContractAddress selected, qo_SelectedTokenSymbol = token_Symbol selected, qo_QuotedAmount = int_string amount,
      qo_QuoteDecimals = token_Decimals selected,
      qo_QuoteRate = formatNormalizedTokenRatio amount (token_Decimals selected) amountIn (token_Decimals invoice) 18,
      qo_PriceSource = (if source \<noteq> [] then source else buildPartnerPriceSource chain (token_Symbol selected) (token_Symbol invoice) status),
      qo_Route = route, qo_SlippageBps = partnerQuoteSlippage, qo_RateTimestamp = now,
      qo_QuoteExpiresAt = (case qi_ExpiresAtOverride input of Some t \<Rightarrow> if t \<noteq> zero_time then t else now + partnerQuoteTTL | None \<Rightarrow> now + partnerQuoteTTL)\<rparr>"

definition new_quote :: "uuid \<Rightarrow> time \<Rightarrow> uuid \<Rightarrow> CreatePartnerQuoteOutput \<Rightarrow> PaymentQuote" where
  "new_quote i now merchant out =
     \<lparr>quote_ID = i, quote_MerchantID = merchant, quote_InvoiceCurrency = qo_InvoiceCurrency out, quote_InvoiceAmount = qo_InvoiceAmount out,
      quote_SelectedChainID = qo_SelectedChain out, quote_SelectedTokenAddress = qo_SelectedToken out,
      quote_SelectedTokenSymbol = qo_SelectedTokenSymbol out, quote_SelectedTokenDecimals = qo_QuoteDecimals out,
      quote_QuotedAmount = qo_QuotedAmount out, quote_QuoteRate = qo_QuoteRate out, quote_PriceSource = qo_PriceSource out,
      quote_Route = qo_Route out, quote_SlippageBps = qo_SlippageBps out, quote_RateTimestamp = qo_RateTimestamp out,
      quote_ExpiresAt = qo_QuoteExpiresAt out, quote_Status = PaymentQuoteStatusActive, quote_UsedAt = None, quote_CreatedAt = now, quote_UpdatedAt = now\<rparr>"

text \<open>What goes into a quote: the chain, the two tokens, the two amounts, the source of the price and the route.\<close>

record quote_parts =
  qp_caip2 :: string
  qp_chainID :: uuid
  qp_chain :: Chain
  qp_selected :: Token
  qp_invoice :: Token
  qp_amountIn :: int
  qp_amount :: int
  qp_source :: string
  qp_status :: TokenRouteSupportStatus

definition find_quote :: "PartnerQuoteUsecase \<Rightarrow> bool \<Rightarrow> CreatePartnerQuoteInput \<Rightarrow> quote_parts quoting" where
  "find_quote u dry input =
     (case ResolveFromAny (pq_uuid u) (pq_chains u) (qi_SelectedChain input) of
        Inl e \<Rightarrow> qlift (Inl (BadRequest (''invalid selected_chain: '' @ error_text e)))
      | Inr (chainID, caip2) \<Rightarrow>
          qcatch (getCachedChainByID u chainID) (\<lambda>chain.
          qbind (qlift (case chain of Inr c \<Rightarrow> Inr c | Inl _ \<Rightarrow> Inl (BadRequest ''selected_chain not found''))) (\<lambda>chain.
          qbind (active_token ''selected_token not supported on selected_chain'' (getCachedTokenByAddress u chainID (TrimSpace (qi_SelectedToken input)))) (\<lambda>selected.
          qbind (invoice_token u chainID input) (\<lambda>invoice.
          qbind (qlift (case positive_amount (qi_InvoiceAmount input) of
                          Some n \<Rightarrow> Inr n | None \<Rightarrow> Inl (BadRequest ''invoice_amount must be a positive integer string''))) (\<lambda>amountIn.
          qbind (route_for u chainID invoice selected) (\<lambda>status.
          qbind (engine_quote u dry chainID (token_ContractAddress invoice) (token_ContractAddress selected) amountIn) (\<lambda>(m, source, _).
          qlift (case m of
                   Some n \<Rightarrow>
                     if n > 0 then Inr \<lparr>qp_caip2 = caip2, qp_chainID = chainID, qp_chain = chain, qp_selected = selected, qp_invoice = invoice, qp_amountIn = amountIn,
                                        qp_amount = n, qp_source = source, qp_status = status\<rparr>
                     else Inl (InternalServerError ''invalid on-chain quote amount'')
                 | None \<Rightarrow> Inl (InternalServerError ''invalid on-chain quote amount''))))))))))"

text \<open>\<open>now\<close> is the time at which the quote is complete; only a quote to be stored looks up the tokens along its route.\<close>

definition price_quote :: "PartnerQuoteUsecase \<Rightarrow> bool \<Rightarrow> time \<Rightarrow> CreatePartnerQuoteInput option \<Rightarrow> bool \<Rightarrow> CreatePartnerQuoteOutput quoting" where
  "price_quote u dry now input persist =
     (case input of
        None \<Rightarrow> qlift (Inl (BadRequest ''input is required''))
      | Some input \<Rightarrow>
     (case quote_input_error u persist input of Some e \<Rightarrow> qlift (Inl e) | None \<Rightarrow>
          qbind (find_quote u dry input) (\<lambda>p.
          qbind (if persist then summarizeRoute u (qp_chainID p) (qp_invoice p) (qp_selected p) (qp_status p)
                 else qlift (Inr (summarizeRouteForProbe (qp_invoice p) (qp_selected p) (qp_status p)))) (\<lambda>route.
          qlift (Inr (quote_output now input (qp_caip2 p) (qp_chain p) (qp_invoice p) (qp_selected p) (qp_amountIn p) (qp_amount p) (qp_source p) route (qp_status p)))))))"

definition createQuoteCore ::
  "PartnerQuoteUsecase \<Rightarrow> bool \<Rightarrow> fault \<Rightarrow> uuid \<Rightarrow> time \<Rightarrow> PaymentQuote table \<Rightarrow> CreatePartnerQuoteInput option \<Rightarrow> bool \<Rightarrow>
   quoteRequestCache option \<Rightarrow> CreatePartnerQuoteOutput result \<times> PaymentQuote table" where
  "createQuoteCore u dry flt newID now t input persist c =
     (case fst (with_cache (price_quote u dry now input persist) c) of
        Inl e \<Rightarrow> (Inl e, t)
      | Inr out \<Rightarrow>
          if \<not> persist then (Inr out, t)
          else
            let merchant = (case input of Some i \<Rightarrow> qi_MerchantID i | None \<Rightarrow> uuid_Nil) in
            (case quote_Create flt newID now t (new_quote newID now merchant out) of
               Inl e \<Rightarrow> (Inl (InternalServerError (''failed to persist quote: '' @ error_text e)), t)
             | Inr t' \<Rightarrow> (Inr (out\<lparr>qo_QuoteID := uuid_String (pq_uuid u) newID\<rparr>), t')))"

definition CreateQuote ::
  "PartnerQuoteUsecase \<Rightarrow> bool \<Rightarrow> fault \<Rightarrow> uuid \<Rightarrow> time \<Rightarrow> PaymentQuote table \<Rightarrow> CreatePartnerQuoteInput option \<Rightarrow> quoteRequestCache option \<Rightarrow>
   CreatePartnerQuoteOutput result \<times> PaymentQuote table" where
  "CreateQuote u dry flt newID now t input c = createQuoteCore u dry flt newID now t input True c"

definition PreviewQuote ::
  "PartnerQuoteUsecase \<Rightarrow> bool \<Rightarrow> time \<Rightarrow> CreatePartnerQuoteInput option \<Rightarrow> CreatePartnerQuoteOutput quoting" where
  "PreviewQuote u dry now input = with_cache (price_quote u dry now input False)"

definition required_input_error :: "PartnerQuoteUsecase \<Rightarrow> PreviewRequiredInputForOutputInput \<Rightarrow> gerror option" where
  "required_input_error u input =
     (if pri_MerchantID input = uuid_Nil then Some (Forbidden ''merchant context required'')
      else if TrimSpace (pri_SelectedChain input) = [] then Some (BadRequest ''selected_chain is required'')
      else if TrimSpace (pri_InputToken input) = [] then Some (BadRequest ''input_token is required'')
      else if TrimSpace (pri_OutputToken input) = [] then Some (BadRequest ''output_token is required'')
      else if TrimSpace (pri_TargetOutputAmount input) = [] then Some (BadRequest ''target_output_amount is required'')
      else if pq_routeSupport u = None \<or> pq_accurateRequiredInput u = None
      then Some (BadRequest ''accurate exact-output quote unavailable for selected pair'')
      else None)"

definition preview_required :: "PartnerQuoteUsecase \<Rightarrow> PreviewRequiredInputForOutputInput option \<Rightarrow> PreviewRequiredInputForOutputOutput quoting" where
  "preview_required u input =
     (case input of
        None \<Rightarrow> qlift (Inl (BadRequest ''input is required''))
      | Some input \<Rightarrow>
     (case required_input_error u input of Some e \<Rightarrow> qlift (Inl e) | None \<Rightarrow>
     (case ResolveFromAny (pq_uuid u) (pq_chains u) (pri_SelectedChain input) of
        Inl e \<Rightarrow> qlift (Inl (BadRequest (''invalid selected_chain: '' @ error_text e)))
      | Inr (chainID, _) \<Rightarrow>
          qbind (active_token ''input_token not supported on selected_chain'' (getCachedTokenByAddress u chainID (TrimSpace (pri_InputToken input)))) (\<lambda>i.
          qbind (active_token ''output_token not supported on selected_chain'' (getCachedTokenByAddress u chainID (TrimSpace (pri_OutputToken input)))) (\<lambda>j.
          qbind (qlift (case positive_amount (pri_TargetOutputAmount input) of
                          Some n \<Rightarrow> Inr n | None \<Rightarrow> Inl (BadRequest ''target_output_amount must be a positive integer string''))) (\<lambda>target.
          qbind (route_for u chainID i j) (\<lambda>status.
          case pq_accurateRequiredInput u of
            None \<Rightarrow> qlift (Inl nil_dereference)
          | Some required \<Rightarrow>
          qcatch (required chainID (token_ContractAddress i) (token_ContractAddress j) (Some target)) (\<lambda>r.
          qbind (qlift (case r of
                          Inr q \<Rightarrow> if aq_Amount q > 0 then Inr q else Inl (BadRequest ''accurate exact-output quote unavailable for selected pair'')
                        | Inl _ \<Rightarrow> Inl (BadRequest ''accurate exact-output quote unavailable for selected pair''))) (\<lambda>q.
          qbind (if TrimSpace (aq_PriceSource q) \<noteq> [] then qlift (Inr (TrimSpace (aq_PriceSource q)))
                 else qcatch (getCachedChainByID u chainID) (\<lambda>chain.
                      qlift (Inr (case chain of
                                    Inr c \<Rightarrow> buildPartnerPriceSource c (token_Symbol j) (token_Symbol i) status
                                  | Inl _ \<Rightarrow> ''uniswap-v3-exact-output'')))) (\<lambda>source.
          qlift (Inr \<lparr>pro_RequiredInputAmount = int_string (aq_Amount q), pro_PriceSource = source, pro_Route = summarizeRouteForProbe i j status\<rparr>)))))))))))"

definition PreviewRequiredInputForOutput ::
  "PartnerQuoteUsecase \<Rightarrow> PreviewRequiredInputForOutputInput option \<Rightarrow> PreviewRequiredInputForOutputOutput quoting" where
  "PreviewRequiredInputForOutput u input = with_cache (preview_required u input)"

subsection \<open>The printed rate\<close>

lemma rat_digits_round:
  assumes "0 < b" "rat_digits a b p = (q, d)"
  shows "d < 10 ^ p" and "2 * ((q * 10 ^ p + d) * b) \<le> 2 * (a * 10 ^ p) + b" and "2 * (a * 10 ^ p) \<le> 2 * ((q * 10 ^ p + d) * b) + b"
proof -
  define T :: nat where "T = 10 ^ p"
  define r where "r = (a mod b) * T"
  define e where "e = (if 2 * (r mod b) \<ge> b then r div b + 1 else r div b)"
  have T: "0 < T" by (simp add: T_def)
  have "r < b * T" using assms(1) T by (simp add: r_def)
  then have small: "r div b < T" using assms(1) by (simp add: less_mult_imp_div_less mult.commute)
  have qd: "(q, d) = (if e \<ge> T then (a div b + 1, e - T) else (a div b, e))"
    using assms(2) unfolding rat_digits_def Let_def T_def [symmetric] r_def [symmetric] e_def [symmetric] by (rule sym)
  have N: "q * T + d = a div b * T + e" and "d < T"
    using qd small T by (auto simp: e_def split: if_splits)
  then show "d < 10 ^ p" by (simp add: T_def)
  have a: "a * T = a div b * T * b + r"
    by (metis add_mult_distrib div_mult_mod_eq mult.assoc mult.commute r_def)
  have r: "r = r div b * b + r mod b" by simp
  have Nb: "(q * T + d) * b = a div b * T * b + e * b" by (simp add: N add_mult_distrib)
  have m: "r mod b < b" using assms(1) by simp
  have eb: "2 * (e * b) \<le> 2 * r + b \<and> 2 * r \<le> 2 * (e * b) + b"
  proof (cases "2 * (r mod b) \<ge> b")
    case True
    then have "e * b = r div b * b + b" by (simp add: e_def)
    with True m r show ?thesis by linarith
  next
    case False
    then have "e * b = r div b * b" by (simp add: e_def)
    with False m r show ?thesis by linarith
  qed
  then show "2 * ((q * 10 ^ p + d) * b) \<le> 2 * (a * 10 ^ p) + b" and "2 * (a * 10 ^ p) \<le> 2 * ((q * 10 ^ p + d) * b) + b"
    using Nb a unfolding T_def [symmetric] by linarith+
qed

lemma num_nat_string [simp]: "num (nat_string n) = n"
proof -
  have "parse_digits (nat_string n) = Some (num (nat_string n))" by (rule parse_digits_num) (simp_all add: nat_string_is_dec)
  then show ?thesis by simp
qed

lemma length_nat_string: "n < 10 ^ p \<Longrightarrow> 0 < p \<Longrightarrow> length (nat_string n) \<le> p"
  by (simp add: nat_string_def length_digits_le)

lemma FloatString_parts:
  assumes "0 < a" "0 < b" "0 < p"
  obtains w f where "FloatString a b p = w @ CHR ''.'' # f" "w \<noteq> []" "\<forall>c\<in>set w. is_dec c" "\<forall>c\<in>set f. is_dec c" "length f = p"
    "2 * ((num w * 10 ^ p + num f) * nat b) \<le> 2 * (nat a * 10 ^ p) + nat b" "2 * (nat a * 10 ^ p) \<le> 2 * ((num w * 10 ^ p + num f) * nat b) + nat b"
proof -
  obtain q d where qd: "rat_digits (nat a) (nat b) p = (q, d)" by fastforce
  note r = rat_digits_round [OF _ qd]
  let ?f = "replicate (p - length (nat_string d)) CHR ''0'' @ nat_string d"
  have len: "length (nat_string d) \<le> p" using r(1) assms by (intro length_nat_string) simp_all
  have "FloatString a b p = nat_string q @ CHR ''.'' # ?f" using assms qd by (simp add: FloatString_def Let_def)
  moreover have "\<forall>c\<in>set ?f. is_dec c" using nat_string_is_dec [of d] by (auto simp: is_dec_def)
  moreover have "length ?f = p" using len by simp
  moreover have "num ?f = d" by (simp add: num_append)
  ultimately show ?thesis using r(2,3) assms(2) that [of "nat_string q" ?f] nat_string_is_dec [of q] by simp
qed

text \<open>Trimming zeros keeps the number a decimal text denotes.\<close>

lemma TrimRight_zeros: "\<exists>n. f = TrimRight f c @ replicate n c"
proof -
  have "rev f = takeWhile (\<lambda>x. x = c) (rev f) @ dropWhile (\<lambda>x. x = c) (rev f)" by simp
  then have "f = rev (dropWhile (\<lambda>x. x = c) (rev f)) @ rev (takeWhile (\<lambda>x. x = c) (rev f))" by (metis rev_append rev_rev_ident)
  moreover have "rev (takeWhile (\<lambda>x. x = c) (rev f)) = replicate (length (takeWhile (\<lambda>x. x = c) (rev f))) c"
    by (rule replicate_eqI) (auto dest: set_takeWhileD)
  ultimately show ?thesis unfolding TrimRight_def by metis
qed

lemma TrimRight_append_zero: "(\<exists>x\<in>set f. x \<noteq> c) \<Longrightarrow> TrimRight (w @ f) c = w @ TrimRight f c"
  by (auto simp: TrimRight_def dropWhile_append)

lemma TrimRight_all: "\<forall>x\<in>set f. x = c \<Longrightarrow> TrimRight (w @ f) c = TrimRight w c"
  by (simp add: TrimRight_def dropWhile_append)

lemma TrimRight_stop: "w \<noteq> [] \<Longrightarrow> last w \<noteq> c \<Longrightarrow> TrimRight w c = w"
  by (cases w rule: rev_cases) (simp_all add: TrimRight_def)

lemma trimTrailingZeros_decimal:
  assumes "w \<noteq> []" "\<forall>c\<in>set w. is_dec c" "\<forall>c\<in>set f. is_dec c"
  shows "trimTrailingZeros (w @ CHR ''.'' # f) = (let g = TrimRight f CHR ''0'' in if g = [] then w else w @ CHR ''.'' # g)"
proof -
  have nd: "is_dec c \<Longrightarrow> c \<noteq> CHR ''.''" for c using not_is_dec_sign by blast
  have has: "Contains (w @ CHR ''.'' # f) ''.''" by (simp add: Contains_char)
  show ?thesis
  proof (cases "\<exists>x\<in>set f. x \<noteq> CHR ''0''")
    case True
    have g: "TrimRight f CHR ''0'' \<noteq> []" using True by (simp add: TrimRight_def dropWhile_eq_Nil_conv)
    have "TrimRight (w @ CHR ''.'' # f) CHR ''0'' = (w @ [CHR ''.'']) @ TrimRight f CHR ''0''"
      using TrimRight_append_zero [OF True, of "w @ [CHR ''.'']"] by simp
    moreover have "last ((w @ [CHR ''.'']) @ TrimRight f CHR ''0'') \<noteq> CHR ''.''"
    proof -
      have "last (TrimRight f CHR ''0'') \<in> set f" using last_in_set [OF g] by (auto simp: TrimRight_def dest: set_dropWhileD)
      then show ?thesis using assms(3) nd g by auto
    qed
    then have "TrimRight ((w @ [CHR ''.'']) @ TrimRight f CHR ''0'') CHR ''.'' = (w @ [CHR ''.'']) @ TrimRight f CHR ''0''"
      by (intro TrimRight_stop) simp_all
    ultimately show ?thesis using has g by (simp add: trimTrailingZeros_def Let_def)
  next
    case False
    then have g: "TrimRight f CHR ''0'' = []" by (simp add: TrimRight_def dropWhile_eq_Nil_conv)
    have "TrimRight (w @ CHR ''.'' # f) CHR ''0'' = w @ [CHR ''.'']"
      using TrimRight_all [of f "CHR ''0''" "w @ [CHR ''.'']"] False by (simp add: TrimRight_stop)
    moreover have "TrimRight (w @ [CHR ''.'']) CHR ''.'' = w"
      using TrimRight_all [of "''.''" "CHR ''.''" w] TrimRight_stop [OF assms(1)] assms(1,2) nd by (metis empty_iff empty_set last_in_set set_ConsD)
    ultimately show ?thesis using has g assms(1) by (simp add: trimTrailingZeros_def Let_def)
  qed
qed

lemma near_half: "2 * x \<le> 2 * y + b \<Longrightarrow> 2 * y \<le> 2 * x + b \<Longrightarrow> 2 * \<bar>x - y\<bar> \<le> b" for x y b :: int
  by (auto simp: abs_if)

text \<open>
  Property C20. The rate of a quote is a decimal number with at most eighteen places that the amount converter accepts, and it is the
  exact ratio of the two amounts in whole tokens, rounded to the nearest in the last place.
\<close>

theorem quote_rate_rounds:
  assumes "0 < out" "0 < amount" "0 \<le> outDec" "0 \<le> inDec"
  shows "\<exists>n. convertToSmallestUnit nd (formatNormalizedTokenRatio out outDec amount inDec 18) 18 = Inr (nat_string n) \<and>
    2 * \<bar>int n * (amount * 10 ^ nat outDec) - out * 10 ^ nat inDec * 10 ^ 18\<bar> \<le> amount * 10 ^ nat outDec"
proof -
  let ?a = "out * 10 ^ nat inDec" and ?b = "amount * 10 ^ nat outDec"
  have pos: "0 < ?a" "0 < ?b" using assms by simp_all
  obtain w f where F: "FloatString ?a ?b 18 = w @ CHR ''.'' # f" "w \<noteq> []" "\<forall>c\<in>set w. is_dec c" "\<forall>c\<in>set f. is_dec c" "length f = 18"
    and r: "2 * ((num w * 10 ^ 18 + num f) * nat ?b) \<le> 2 * (nat ?a * 10 ^ 18) + nat ?b"
      "2 * (nat ?a * 10 ^ 18) \<le> 2 * ((num w * 10 ^ 18 + num f) * nat ?b) + nat ?b"
    by (rule FloatString_parts [OF pos, of 18]) simp
  let ?g = "TrimRight f CHR ''0''" and ?n = "num w * 10 ^ 18 + num f"
  obtain k where k: "f = ?g @ replicate k CHR ''0''" using TrimRight_zeros by blast
  have g: "\<forall>c\<in>set ?g. is_dec c" "length ?g + k = 18" "num f = num ?g * 10 ^ k"
  proof -
    show "\<forall>c\<in>set ?g. is_dec c" using F(4) by (auto simp: TrimRight_def dest: set_dropWhileD)
    show "length ?g + k = 18" using arg_cong [OF k, of length] F(5) by simp
    show "num f = num ?g * 10 ^ k" by (subst k) (simp add: num_append)
  qed
  have "formatNormalizedTokenRatio out outDec amount inDec 18 = trimTrailingZeros (FloatString ?a ?b 18)"
    using assms by (cases "0 < inDec"; cases "0 < outDec") (simp_all add: formatNormalizedTokenRatio_def)
  also have "\<dots> = (if ?g = [] then w else w @ CHR ''.'' # ?g)"
    unfolding F(1) by (simp add: trimTrailingZeros_decimal [OF F(2,3,4)] Let_def)
  finally have rate: "formatNormalizedTokenRatio out outDec amount inDec 18 = (if ?g = [] then w else w @ CHR ''.'' # ?g)" .
  have conv: "convertToSmallestUnit nd (formatNormalizedTokenRatio out outDec amount inDec 18) 18 = Inr (nat_string ?n)"
  proof (cases "?g = []")
    case True
    then have "num f = 0" using g(3) by (simp add: num_def)
    then show ?thesis unfolding rate using True convertToSmallestUnit_whole [OF F(3,2), of 18 nd] by simp
  next
    case False
    have "int (length ?g) \<le> 18" using g(2) by simp
    have n18: "nat 18 = 18" "18 - length ?g = k" using g(2) by simp_all
    from convertToSmallestUnit_parts [OF F(3) g(1) \<open>int (length ?g) \<le> 18\<close>, of nd] False show ?thesis
      unfolding rate by (simp only: n18 g(3) if_False)
  qed
  have "int (2 * (?n * nat ?b)) \<le> int (2 * (nat ?a * 10 ^ 18) + nat ?b)" "int (2 * (nat ?a * 10 ^ 18)) \<le> int (2 * (?n * nat ?b) + nat ?b)"
    using r by (simp_all only: of_nat_le_iff)
  then have "2 * (int ?n * ?b) \<le> 2 * (?a * 10 ^ 18) + ?b" "2 * (?a * 10 ^ 18) \<le> 2 * (int ?n * ?b) + ?b"
    using pos by simp_all
  then have "2 * \<bar>int ?n * ?b - ?a * 10 ^ 18\<bar> \<le> ?b" by (rule near_half)
  with conv show ?thesis by blast
qed

theorem quote_rate_rounds_witness:
  "\<exists>n. convertToSmallestUnit (\<lambda>_. False) (formatNormalizedTokenRatio 2000000 6 3 0 18) 18 = Inr (nat_string n) \<and>
    2 * \<bar>int n * (3 * 10 ^ nat 6) - 2000000 * 10 ^ nat 0 * 10 ^ 18\<bar> \<le> 3 * 10 ^ nat 6"
  by (rule quote_rate_rounds) simp_all

subsection \<open>What a quote promises\<close>

lemma qcatchE:
  assumes "qcatch m f c = (r, c')"
  obtains x c1 where "m c = (x, c1)" "f x c1 = (r, c')"
  using assms by (auto simp: qcatch_def split: prod.splits)

lemma find_quote_positive:
  assumes "find_quote u dry input c = (Inr p, c')"
  shows "0 < qp_amount p" and "positive_amount (qi_InvoiceAmount input) = Some (qp_amountIn p)" and "0 < qp_amountIn p"
    and "token_IsActive (qp_selected p)" and "token_IsActive (qp_invoice p)"
proof -
  have t: "token_IsActive x" if "active_token msg m c = (Inr x, c')" for msg m c x c'
    using that by (auto simp: active_token_def qlift_def elim!: qcatchE split: sum.splits if_splits)
  have i: "token_IsActive x" if "invoice_token u k input c = (Inr x, c')" for k c x c'
    using that by (auto simp: invoice_token_def qlift_def elim!: qbindE split: if_splits dest: t)
  obtain k caip2 where "ResolveFromAny (pq_uuid u) (pq_chains u) (qi_SelectedChain input) = Inr (k, caip2)"
    using assms by (auto simp: find_quote_def qlift_def split: sum.splits)
  with assms have "0 < qp_amount p \<and> positive_amount (qi_InvoiceAmount input) = Some (qp_amountIn p) \<and> token_IsActive (qp_selected p) \<and>
      token_IsActive (qp_invoice p)"
    by (auto simp: find_quote_def qlift_def elim!: qcatchE qbindE split: option.splits if_splits dest!: t i)
  then show "0 < qp_amount p" "positive_amount (qi_InvoiceAmount input) = Some (qp_amountIn p)" "token_IsActive (qp_selected p)" "token_IsActive (qp_invoice p)"
    by simp_all
  then show "0 < qp_amountIn p" by (auto simp: positive_amount_def split: option.splits if_splits)
qed

lemma priced:
  assumes "price_quote u dry now (Some input) persist c = (Inr out, c')"
  obtains p c1 route where "quote_input_error u persist input = None" "find_quote u dry input c = (Inr p, c1)"
    "out = quote_output now input (qp_caip2 p) (qp_chain p) (qp_invoice p) (qp_selected p) (qp_amountIn p) (qp_amount p) (qp_source p) route (qp_status p)"
  using assms by (auto simp: price_quote_def qlift_def elim!: qbindE split: option.splits)

text \<open>The stored quotes whose amounts are positive numbers in canonical decimal form.\<close>

definition quote_wf :: "PaymentQuote \<Rightarrow> bool" where
  "quote_wf q \<longleftrightarrow> (\<exists>n m. quote_InvoiceAmount q = int_string n \<and> quote_QuotedAmount q = int_string m \<and> 0 < n \<and> 0 < m) \<and>
     quote_MerchantID q \<noteq> uuid_Nil \<and> quote_SlippageBps q = partnerQuoteSlippage \<and>
     quote_Status q \<in> {PaymentQuoteStatusActive, PaymentQuoteStatusUsed, PaymentQuoteStatusExpired}"

lemma stamp_now [simp]: "stamp now now = now"
  by (simp add: stamp_def)

lemma CreateQuote_stores:
  assumes "CreateQuote u dry flt newID now t (Some input) c = (Inr out', t')" "newID \<noteq> uuid_Nil"
  obtains p :: quote_parts and route out where "quote_input_error u True input = None" "0 < qp_amount p" "0 < qp_amountIn p"
    "positive_amount (qi_InvoiceAmount input) = Some (qp_amountIn p)"
    "out = quote_output now input (qp_caip2 p) (qp_chain p) (qp_invoice p) (qp_selected p) (qp_amountIn p) (qp_amount p) (qp_source p) route (qp_status p)"
    "out' = out\<lparr>qo_QuoteID := uuid_String (pq_uuid u) newID\<rparr>" "t' = t @ [new_quote newID now (qi_MerchantID input) out]" "newID \<notin> quote_ID ` set t"
proof -
  obtain c0 out c1 where run: "price_quote u dry now (Some input) True c0 = (Inr out, c1)"
    and ins: "quote_Create flt newID now t (new_quote newID now (qi_MerchantID input) out) = Inr t'"
    and out': "out' = out\<lparr>qo_QuoteID := uuid_String (pq_uuid u) newID\<rparr>"
    using assms(1) by (auto simp: CreateQuote_def createQuoteCore_def with_cache_def Let_def prod_eq_iff split: sum.splits if_splits)
  from run obtain p c2 route where p: "quote_input_error u True input = None" "find_quote u dry input c0 = (Inr p, c2)"
    and out: "out = quote_output now input (qp_caip2 p) (qp_chain p) (qp_invoice p) (qp_selected p) (qp_amountIn p) (qp_amount p) (qp_source p) route (qp_status p)"
    by (rule priced)
  note pos = find_quote_positive [OF p(2)]
  have t': "t' = t @ [new_quote newID now (qi_MerchantID input) out]" "newID \<notin> quote_ID ` set t"
    using ins assms(2) by (auto simp: quote_Create_def insert_row_def new_quote_def split: option.splits if_splits)
  show ?thesis by (rule that [OF p(1) pos(1,3,2) out out' t'])
qed


text \<open>A use case for the witnesses: one chain, two tokens, a swapper that asks for five.\<close>

definition token_named :: "string \<Rightarrow> string \<Rightarrow> Token" where
  "token_named symbol address = \<lparr>token_ID = 1, token_ChainUUID = 7, token_Symbol = symbol, token_Decimals = 6, token_ContractAddress = address,
     token_IsActive = True, token_IsNative = False\<rparr>"

definition sample_quoting :: PartnerQuoteUsecase where
  "sample_quoting = \<lparr>pq_uuid = rfc_uuid, pq_chains = rd_chains sample_route, pq_tokenByAddress = (\<lambda>a k. Inr (token_named a a)),
     pq_tokenBySymbol = (\<lambda>s k. Inr (token_named s ''0xaa'')), pq_hasQuotes = True,
     pq_routeSupport = Some (\<lambda>k i j. qlift (Inr \<lparr>rs_Exists = True, rs_IsDirect = True, rs_Path = [i, j], rs_Executable = True, rs_Reasons = [],
        rs_SwapRouterV3 = ''0x9'', rs_UniversalV4 = []\<rparr>)),
     pq_swapQuote = Some (\<lambda>k i j n. qlift (Inr 5)), pq_accurateQuote = None, pq_accurateRequiredInput = None, pq_simulatorQuote = None\<rparr>"

definition sample_quote_input :: CreatePartnerQuoteInput where
  "sample_quote_input = \<lparr>qi_MerchantID = 3, qi_InvoiceCurrency = ''IDRX'', qi_InvoiceToken = [], qi_InvoiceAmount = ''80'',
     qi_SelectedChain = ''eip155:8453'', qi_SelectedToken = ''0xbb'', qi_DestWallet = ''0xcc'', qi_ExpiresAtOverride = None\<rparr>"

lemma route_parts_total: "\<exists>parts c'. route_parts u k i j addrs c = (Inr parts, c')"
proof (induction addrs arbitrary: c)
  case (Cons a addrs)
  have rest: "\<exists>parts c'. qbind (route_parts u k i j addrs) (\<lambda>parts. qlift (Inr (part # parts))) c = (Inr parts, c')" for part c
    using Cons.IH [of c] by (auto simp: qbind_def qlift_def)
  obtain r c1 where "getCachedTokenByAddress u k a c = (r, c1)" by fastforce
  then show ?case using rest by (simp add: Let_def qcatch_def)
qed (simp add: qlift_def)

lemma price_quote_total:
  assumes "find_quote u dry input c = (Inr p, c1)" "quote_input_error u persist input = None"
  shows "\<exists>out c'. price_quote u dry now (Some input) persist c = (Inr out, c')"
proof -
  obtain parts c2 where "route_parts u (qp_chainID p) (qp_invoice p) (qp_selected p) (rs_Path (qp_status p)) c1 = (Inr parts, c2)" using route_parts_total by blast
  with assms show ?thesis by (simp add: price_quote_def summarizeRoute_def qbind_def qlift_def)
qed

lemma sample_quote_checks:
  "TrimSpace ''IDRX'' = ''IDRX''" "TrimSpace ''80'' = ''80''" "TrimSpace ''eip155:8453'' = ''eip155:8453''" "TrimSpace ''0xbb'' = ''0xbb''"
  "TrimSpace ''0xcc'' = ''0xcc''" "SetString10 ''80'' = Some 80" "is_Inr (ResolveFromAny rfc_uuid (rd_chains sample_route) ''eip155:8453'')"
  by code_simp+

lemma sample_quote_input_ok: "quote_input_error sample_quoting persist sample_quote_input = None"
  by (simp add: quote_input_error_def sample_quote_input_def sample_quoting_def sample_quote_checks)

lemma sample_quote_found: "\<exists>p c. find_quote sample_quoting False sample_quote_input (Some newQuoteRequestCache) = (Inr p, c)"
proof -
  obtain k caip2 where r: "ResolveFromAny rfc_uuid (rd_chains sample_route) ''eip155:8453'' = Inr (k, caip2)"
    using sample_quote_checks(7) by (auto simp: is_Inr_def split: sum.splits)
  have c: "repo_GetByID (rd_chains sample_route) k = Inr (base_chain\<lparr>chain_RPCURL := ''http://rpc''\<rparr>)" by (simp add: sample_route_def)
  show ?thesis
    by (simp add: find_quote_def sample_quote_input_def sample_quoting_def r c getCachedChainByID_def getCachedTokenByAddress_def getCachedTokenBySymbol_def
        memo_def newQuoteRequestCache_def qbind_def qcatch_def qlift_def active_token_def invoice_token_def positive_amount_def route_for_def
        engine_quote_def swapper_quote_def placeholder_def token_named_def sample_quote_checks)
qed

lemma sample_quote_created: "\<exists>out t'. CreateQuote sample_quoting False None 9 1000 [] (Some sample_quote_input) None = (Inr out, t')"
proof -
  obtain out c where "price_quote sample_quoting False 1000 (Some sample_quote_input) True (Some newQuoteRequestCache) = (Inr out, c)"
    using sample_quote_found price_quote_total [OF _ sample_quote_input_ok] by metis
  then show ?thesis
    by (simp add: CreateQuote_def createQuoteCore_def with_cache_def withQuoteRequestCache_def quote_Create_def insert_row_def Let_def)
qed


text \<open>
  Also. A preview shows what the quote will be: at the same moment, previewing and creating give the same amounts, rate, price source,
  tokens and end of life; the preview stores nothing.
\<close>

theorem preview_matches_quote:
  assumes "fst (PreviewQuote u dry now (Some input) c) = Inr p" "CreateQuote u dry flt newID now t (Some input) c = (Inr out, t')"
  shows "p\<lparr>qo_Route := r, qo_QuoteID := i\<rparr> = out\<lparr>qo_Route := r, qo_QuoteID := i\<rparr>"
proof -
  let ?c = "withQuoteRequestCache c"
  obtain c1 where p: "price_quote u dry now (Some input) False ?c = (Inr p, c1)"
    using assms(1) by (auto simp: PreviewQuote_def with_cache_def Let_def prod_eq_iff split: if_splits)
  obtain o' c2 where o': "price_quote u dry now (Some input) True ?c = (Inr o', c2)" and out: "out = o'\<lparr>qo_QuoteID := uuid_String (pq_uuid u) newID\<rparr>"
    using assms(2) by (auto simp: CreateQuote_def createQuoteCore_def with_cache_def Let_def prod_eq_iff split: sum.splits if_splits)
  from p obtain x d1 r1 where x: "find_quote u dry input ?c = (Inr x, d1)"
    "p = quote_output now input (qp_caip2 x) (qp_chain x) (qp_invoice x) (qp_selected x) (qp_amountIn x) (qp_amount x) (qp_source x) r1 (qp_status x)"
    by (rule priced)
  from o' obtain y d2 r2 where y: "find_quote u dry input ?c = (Inr y, d2)"
    "o' = quote_output now input (qp_caip2 y) (qp_chain y) (qp_invoice y) (qp_selected y) (qp_amountIn y) (qp_amount y) (qp_source y) r2 (qp_status y)"
    by (rule priced)
  have "y = x" using x(1) y(1) by simp
  then show ?thesis by (simp add: x(2) y(2) out quote_output_def)
qed

theorem preview_matches_quote_witness:
  "\<exists>p out t'. fst (PreviewQuote sample_quoting False 1000 (Some sample_quote_input) None) = Inr p \<and>
     CreateQuote sample_quoting False None 9 1000 [] (Some sample_quote_input) None = (Inr out, t') \<and> qo_QuotedAmount p = qo_QuotedAmount out"
proof -
  obtain out t' where c: "CreateQuote sample_quoting False None 9 1000 [] (Some sample_quote_input) None = (Inr out, t')"
    using sample_quote_created by blast
  obtain p c' where "price_quote sample_quoting False 1000 (Some sample_quote_input) False (Some newQuoteRequestCache) = (Inr p, c')"
    using sample_quote_found price_quote_total [OF _ sample_quote_input_ok] by metis
  then have p': "fst (PreviewQuote sample_quoting False 1000 (Some sample_quote_input) None) = Inr p"
    by (simp add: PreviewQuote_def with_cache_def withQuoteRequestCache_def Let_def)
  from preview_matches_quote [OF p' c, of "[]" "[]"] have "qo_QuotedAmount p = qo_QuotedAmount out" by (cases p; cases out) simp
  with p' c show ?thesis by blast
qed

text \<open>
  Also. The fallback of the accurate quote never passes the invoice amount off as the quote of another token.
\<close>

lemma fallback_no_placeholder:
  assumes "swapper_quote u e k i j n c = (Inr (Some n, source, reason), c')"
  shows "EqualFold i j"
  using assms
  by (auto simp: swapper_quote_def qlift_def placeholder_def elim!: qcatchE qbindE split: option.splits sum.splits if_splits)

text \<open>
  Also. The lookup of a token by address is cached under the normalised address, which is the zero address for every address without the
  prefix of EVM chains. Within a request, the second token of a chain with other addresses is therefore taken for the first one, and a
  quote that names both tokens of such a chain is refused unless their symbols agree.
\<close>

theorem nonhex_tokens_collide:
  assumes "\<not> HasPrefix a ''0x''" "\<not> HasPrefix b ''0x''" "getCachedTokenByAddress u k a (Some s) = (Inr ta, c)"
    and "TrimSpace (qi_InvoiceToken input) = b" "b \<noteq> []" "\<not> EqualFold (TrimSpace (qi_InvoiceCurrency input)) (token_Symbol ta)"
  shows "getCachedTokenByAddress u k b c = (Inr ta, c) \<and>
    (\<exists>msg. fst (invoice_token u k input c) = Inl (BadRequest msg))"
proof -
  have key: "tokenByAddressCacheKey (pq_uuid u) k a = tokenByAddressCacheKey (pq_uuid u) k b"
    using assms(1,2) by (simp add: tokenByAddressCacheKey_def normalizeEvmAddress_def)
  obtain s' where s': "c = Some s'" "qc_tokensByAddress s' (tokenByAddressCacheKey (pq_uuid u) k a) = Some ta"
    using assms(3) by (auto simp: getCachedTokenByAddress_def memo_def split: option.splits sum.splits)
  then have b: "getCachedTokenByAddress u k b c = (Inr ta, c)" by (simp add: getCachedTokenByAddress_def memo_def key [symmetric])
  then show ?thesis
    using assms(4-6) by (auto simp: invoice_token_def active_token_def qbind_def qcatch_def qlift_def split: if_splits)
qed

theorem nonhex_tokens_collide_witness:
  "\<exists>c. getCachedTokenByAddress sample_quoting 7 ''So11'' (Some newQuoteRequestCache) = (Inr (token_named ''So11'' ''So11''), c) \<and>
     fst (getCachedTokenByAddress sample_quoting 7 ''EPjF'' c) = Inr (token_named ''So11'' ''So11'')"
proof -
  obtain c where c: "getCachedTokenByAddress sample_quoting 7 ''So11'' (Some newQuoteRequestCache) = (Inr (token_named ''So11'' ''So11''), c)"
    by (simp add: getCachedTokenByAddress_def memo_def newQuoteRequestCache_def sample_quoting_def)
  have f: "TrimSpace ''EPjF'' = ''EPjF''" "\<not> EqualFold (TrimSpace ''USDC'') (token_Symbol (token_named ''So11'' ''So11''))"
    "\<not> HasPrefix ''So11'' ''0x''" "\<not> HasPrefix ''EPjF'' ''0x''"
    by code_simp+
  from nonhex_tokens_collide [OF f(3,4) c, of "sample_quote_input\<lparr>qi_InvoiceToken := ''EPjF'', qi_InvoiceCurrency := ''USDC''\<rparr>"] f c show ?thesis
    by (auto simp: sample_quote_input_def)
qed

end
