(* ===== verification/Input_Search.thy ===== *)
theory Input_Search
  imports Partner_Quotes
begin

text \<open>
  How a merchant payment finds the input that buys a target output
  (\<open>solveRequiredInputForTargetOutput\<close> of \<^verbatim>\<open>internal/usecases/create_payment_usecase.go\<close>): a probe of the target itself, a guess by
  proportion, doubling until a probe reaches the target, and bisection. A probe is a preview of the quote use case, which
  implements all three engine interfaces, so the branch that stores and cancels quotes for an engine without previews is not
  taken. A probe reads chains, so it is an operation on a state: the cache of the request and the reasons the search reports.
\<close>

definition maxCreatePaymentUpperBoundDoublings :: nat where "maxCreatePaymentUpperBoundDoublings = 32"
definition maxCreatePaymentBinarySearchIterations :: nat where "maxCreatePaymentBinarySearchIterations = 64"

record probe_state =
  ps_zeroReason :: string
  ps_error :: string
  ps_cache :: "quoteRequestCache option"

type_synonym probed = "int \<times> string \<times> string"
type_synonym prober = "int \<Rightarrow> probe_state \<Rightarrow> probed result \<times> probe_state"

subsection \<open>Amounts as text\<close>

definition smallestUnitToDecimalString :: "string \<Rightarrow> int \<Rightarrow> string" where
  "smallestUnitToDecimalString amount decimals =
     (let raw = TrimSpace amount in
      if raw = [] then ''0''
      else if list_ex (\<lambda>c. \<not> is_dec c) raw then raw
      else if decimals \<le> 0 then TrimLeft raw CHR ''0''
      else
        let raw = (if int (length raw) \<le> decimals then replicate (nat (decimals - int (length raw) + 1)) CHR ''0'' @ raw else raw);
            cut = nat (int (length raw) - decimals);
            whole = TrimLeft (take cut raw) CHR ''0'';
            whole = (if whole = [] then ''0'' else whole);
            frac = TrimRight (drop cut raw) CHR ''0'' in
        if frac = [] then whole else whole @ ''.'' @ frac)"

definition quoteRateFromAtomicAmounts :: "string \<Rightarrow> int \<Rightarrow> string \<Rightarrow> int \<Rightarrow> string" where
  "quoteRateFromAtomicAmounts quotedAmount quotedDecimals invoiceAmount invoiceDecimals =
     (case SetString10 (TrimSpace quotedAmount) of
        None \<Rightarrow> ''0''
      | Some quoted \<Rightarrow>
          if quoted \<le> 0 then ''0''
          else (case SetString10 (TrimSpace invoiceAmount) of
                  None \<Rightarrow> ''0''
                | Some invoice \<Rightarrow>
                    if invoice \<le> 0 then ''0'' else formatNormalizedTokenRatio quoted quotedDecimals invoice invoiceDecimals 18))"

subsection \<open>Errors of a probe\<close>

text \<open>\<^verbatim>\<open>errors.As\<close> with an \<^verbatim>\<open>AppError\<close> target follows the wrapping of \<^verbatim>\<open>%w\<close>.\<close>

fun errors_As_AppError :: "gerror \<Rightarrow> gerror option" where
  "errors_As_AppError (AppError st c m e) = Some (AppError st c m e)"
| "errors_As_AppError (WrapErr m e) = errors_As_AppError e"
| "errors_As_AppError (Sentinel s) = None"
| "errors_As_AppError (ErrorString m) = None"

text \<open>The reason for which an error counts as no output.\<close>

definition shouldTreatQuoteProbeAsZero :: "gerror \<Rightarrow> string option" where
  "shouldTreatQuoteProbeAsZero err =
     (case errors_As_AppError err of
        None \<Rightarrow> None
      | Some appErr \<Rightarrow>
          if Status appErr \<noteq> 400 then None
          else
            let message = ToLower (TrimSpace (Message appErr)) in
            if message = [] then None
            else if Contains message ''placeholder quote'' then Some ''accurate quote unavailable for selected pair''
            else if Contains message ''no usable v3 fee tier found'' then Some ''selected token pair has no usable route on selected chain''
            else if Contains message ''amountout <= 0'' then Some ''selected token pair returned zero output for probed amounts''
            else None)"

definition annotateCreatePaymentEstimateError :: "string \<Rightarrow> gerror \<Rightarrow> gerror" where
  "annotateCreatePaymentEstimateError heading err =
     (let heading = TrimSpace heading in
      if heading = [] then err
      else
        case errors_As_AppError err of
          Some appErr \<Rightarrow>
            let message = TrimSpace (Message appErr); message = (if message = [] then TrimSpace (error_text err) else message) in
            NewAppError (Status appErr) (Code appErr) (heading @ '': '' @ message) (Err appErr)
        | None \<Rightarrow> BadRequest (heading @ '': '' @ TrimSpace (error_text err)))"

subsection \<open>The search\<close>

definition anchored_guess :: "int \<Rightarrow> int \<Rightarrow> int" where
  "anchored_guess target out =
     (let numerator = target * target; guess = numerator div out; guess = (if numerator mod out > 0 then guess + 1 else guess) in
      if guess \<le> 0 then 1 else guess)"

definition anchored_interval :: "int \<Rightarrow> int \<Rightarrow> int \<times> int" where
  "anchored_interval target out =
     (let guess = anchored_guess target out; low = guess div 2; high = guess * 2 in
      (if low \<le> 0 then 1 else low, if high \<le> 0 then 1 else high))"

text \<open>The doublings: the last output seen, and the first input that reached the target with its route and price source.\<close>

fun upper_bound :: "prober \<Rightarrow> int \<Rightarrow> nat \<Rightarrow> int \<Rightarrow> int \<Rightarrow> probe_state \<Rightarrow> (int \<times> probed option) result \<times> probe_state" where
  "upper_bound f target 0 high lastOut s = (Inr (lastOut, None), s)"
| "upper_bound f target (Suc n) high lastOut s =
     (case f high s of
        (Inl e, s') \<Rightarrow> (Inl e, s')
      | (Inr (out, route, source), s') \<Rightarrow>
          let lastOut = (if out \<ge> 0 then out else lastOut) in
          if out \<ge> target then (Inr (lastOut, Some (high, route, source)), s')
          else upper_bound f target n (high * 2) lastOut s')"

fun binary_search :: "prober \<Rightarrow> int \<Rightarrow> nat \<Rightarrow> int \<Rightarrow> probed \<Rightarrow> probe_state \<Rightarrow> probed result \<times> probe_state" where
  "binary_search f target 0 low best s = (Inr best, s)"
| "binary_search f target (Suc n) low best s =
     (if low < fst best then
        let mid = (low + fst best) div 2; mid = (if mid \<le> 0 then 1 else mid) in
        (case f mid s of
           (Inl e, s') \<Rightarrow> (Inl e, s')
         | (Inr (out, route, source), s') \<Rightarrow>
             if out \<ge> target then binary_search f target n low (mid, route, source) s'
             else binary_search f target n (mid + 1) best s')
      else (Inr best, s))"

text \<open>Why no input was found: what the probes reported last, the liquidity seen, or the hint of the inverse preview.\<close>

definition estimate_error :: "int \<Rightarrow> Token \<Rightarrow> string \<Rightarrow> string \<Rightarrow> int \<Rightarrow> probe_state \<Rightarrow> gerror" where
  "estimate_error target outputToken probeContext hint lastOut s =
     (let heading = ''unable to estimate required source amount for requested invoice'' in
      if ps_zeroReason s \<noteq> [] then BadRequest (heading @ '': '' @ ps_zeroReason s @ '' ('' @ probeContext @ '')'')
      else if ps_error s \<noteq> [] then BadRequest (heading @ '': '' @ ps_error s @ '' ('' @ probeContext @ '')'')
      else if lastOut > 0 then
        let targetHuman = smallestUnitToDecimalString (int_string target) (token_Decimals outputToken);
            maxHuman = smallestUnitToDecimalString (int_string lastOut) (token_Decimals outputToken);
            symbol = TrimSpace (token_Symbol outputToken);
            symbol = (if symbol = [] then ''output_token'' else symbol) in
        BadRequest (heading @ '': requested amount likely exceeds available route liquidity ('' @ probeContext @ '', target_output='' @ targetHuman @ '' '' @
          symbol @ '', max_preview_output='' @ maxHuman @ '' '' @ symbol @ '', target_output_atomic='' @ int_string target @
          '', max_quoted_output_atomic='' @ int_string lastOut @ (if hint \<noteq> [] then '', inverse_hint='' @ hint else []) @
          ''). Reduce requested_amount below '' @ maxHuman @ '' '' @ symbol @ '' or increase pool liquidity.'')
      else if hint \<noteq> [] then BadRequest (heading @ '': '' @ hint @ '' ('' @ probeContext @ '')'')
      else BadRequest heading)"

definition fresh_probes :: "quoteRequestCache option \<Rightarrow> probe_state" where
  "fresh_probes c = \<lparr>ps_zeroReason = [], ps_error = [], ps_cache = c\<rparr>"

definition search_between :: "prober \<Rightarrow> int \<Rightarrow> Token \<Rightarrow> string \<Rightarrow> string \<Rightarrow> int \<times> int \<Rightarrow> probe_state \<Rightarrow> probed result \<times> probe_state" where
  "search_between f target outputToken probeContext hint bounds s =
     (case upper_bound f target maxCreatePaymentUpperBoundDoublings (snd bounds) 0 s of
        (Inl e, s') \<Rightarrow> (Inl e, s')
      | (Inr (lastOut, None), s') \<Rightarrow> (Inl (estimate_error target outputToken probeContext hint lastOut s'), s')
      | (Inr (_, Some best), s') \<Rightarrow> binary_search f target maxCreatePaymentBinarySearchIterations (fst bounds) best s')"

text \<open>The anchor probe may fail; its error is then only remembered.\<close>

definition search_input :: "prober \<Rightarrow> int \<Rightarrow> Token \<Rightarrow> string \<Rightarrow> string \<Rightarrow> probe_state \<Rightarrow> probed result \<times> probe_state" where
  "search_input f target outputToken probeContext hint s =
     (case f target s of
        (Inr (out, route, source), s') \<Rightarrow>
          if out > 0 then
            if out = target then (Inr (target, route, source), s')
            else search_between f target outputToken probeContext hint (anchored_interval target out) s'
          else search_between f target outputToken probeContext hint (1, target) s'
      | (Inl _, s') \<Rightarrow> search_between f target outputToken probeContext hint (1, target) s')"

definition probe_input :: "uuid \<Rightarrow> string \<Rightarrow> Token \<Rightarrow> Token \<Rightarrow> string \<Rightarrow> int \<Rightarrow> CreatePartnerQuoteInput" where
  "probe_input merchantID chainCAIP2 inputToken outputToken destWallet amount =
     \<lparr>qi_MerchantID = merchantID, qi_InvoiceCurrency = token_Symbol inputToken, qi_InvoiceToken = token_ContractAddress inputToken,
      qi_InvoiceAmount = int_string amount, qi_SelectedChain = chainCAIP2, qi_SelectedToken = token_ContractAddress outputToken,
      qi_DestWallet = destWallet, qi_ExpiresAtOverride = None\<rparr>"

definition quoteForInput :: "PartnerQuoteUsecase \<Rightarrow> bool \<Rightarrow> time \<Rightarrow> uuid \<Rightarrow> string \<Rightarrow> Token \<Rightarrow> Token \<Rightarrow> string \<Rightarrow> prober" where
  "quoteForInput u dry now merchantID chainCAIP2 inputToken outputToken destWallet amount s =
     (if amount \<le> 0 then (Inl (BadRequest ''input amount must be positive''), s)
      else
        case PreviewQuote u dry now (Some (probe_input merchantID chainCAIP2 inputToken outputToken destWallet amount)) (ps_cache s) of
          (Inl err, c) \<Rightarrow>
            (case shouldTreatQuoteProbeAsZero err of
               Some reason \<Rightarrow>
                 (Inr (0, [], []),
                  s\<lparr>ps_zeroReason := if TrimSpace reason \<noteq> [] then TrimSpace reason else ps_zeroReason s, ps_cache := c\<rparr>)
             | None \<Rightarrow> (Inl err, s\<lparr>ps_error := TrimSpace (error_text err), ps_cache := c\<rparr>))
        | (Inr out, c) \<Rightarrow>
            (case SetString10 (TrimSpace (qo_QuotedAmount out)) of
               Some n \<Rightarrow>
                 if n < 0 then (Inl (InternalServerError ''invalid temporary quote amount''), s\<lparr>ps_cache := c\<rparr>)
                 else (Inr (n, qo_Route out, qo_PriceSource out), s\<lparr>ps_cache := c\<rparr>)
             | None \<Rightarrow> (Inl (InternalServerError ''invalid temporary quote amount''), s\<lparr>ps_cache := c\<rparr>)))"

text \<open>The inverse preview, asked for unless the dry run is preferred: its answer when usable, else the hint it leaves.\<close>

definition inverse_preview ::
  "PartnerQuoteUsecase \<Rightarrow> bool \<Rightarrow> uuid \<Rightarrow> string \<Rightarrow> Token \<Rightarrow> Token \<Rightarrow> int \<Rightarrow> quoteRequestCache option \<Rightarrow> (probed + string) \<times> quoteRequestCache option" where
  "inverse_preview u dry merchantID chainCAIP2 inputToken outputToken target c =
     (if dry then (Inr [], c)
      else
        case PreviewRequiredInputForOutput u
               (Some \<lparr>pri_MerchantID = merchantID, pri_SelectedChain = chainCAIP2, pri_InputToken = token_ContractAddress inputToken,
                      pri_OutputToken = token_ContractAddress outputToken, pri_TargetOutputAmount = int_string target\<rparr>) c of
          (Inl e, c') \<Rightarrow> (Inr (TrimSpace (error_text e)), c')
        | (Inr out, c') \<Rightarrow>
            (case positive_amount (pro_RequiredInputAmount out) of
               Some required \<Rightarrow> (Inl (required, TrimSpace (pro_Route out), TrimSpace (pro_PriceSource out)), c')
             | None \<Rightarrow> (Inr [], c')))"

definition solveRequiredInputForTargetOutput ::
  "PartnerQuoteUsecase \<Rightarrow> bool \<Rightarrow> time \<Rightarrow> uuid \<Rightarrow> string \<Rightarrow> Token \<Rightarrow> Token \<Rightarrow> string \<Rightarrow> string \<Rightarrow> (string \<times> string \<times> string) quoting" where
  "solveRequiredInputForTargetOutput u dry now merchantID chainCAIP2 inputToken outputToken targetOutputAtomic destWallet =
     with_cache (\<lambda>c.
       case positive_amount targetOutputAtomic of
         None \<Rightarrow> (Inl (BadRequest ''target output amount must be a positive integer string''), c)
       | Some target \<Rightarrow>
           let probeContext = ''chain='' @ chainCAIP2 @ '' pair='' @ TrimSpace (token_Symbol inputToken) @ ''->'' @ TrimSpace (token_Symbol outputToken);
               f = quoteForInput u dry now merchantID chainCAIP2 inputToken outputToken destWallet in
           case inverse_preview u dry merchantID chainCAIP2 inputToken outputToken target c of
             (Inl (required, route, source), c') \<Rightarrow> (Inr (int_string required, route, source), c')
           | (Inr hint, c') \<Rightarrow>
               (case search_input f target outputToken probeContext hint (fresh_probes c') of
                  (Inl e, s) \<Rightarrow> (Inl e, ps_cache s)
                | (Inr (required, route, source), s) \<Rightarrow> (Inr (int_string required, route, source), ps_cache s)))"

subsection \<open>What the search returns\<close>

text \<open>An input that a probe found to reach the target, with the route and source of that probe.\<close>

definition was_reached :: "prober \<Rightarrow> int \<Rightarrow> probed \<Rightarrow> bool" where
  "was_reached f target b \<longleftrightarrow> (\<exists>s s' out. f (fst b) s = (Inr (out, snd b), s') \<and> target \<le> out)"

lemma was_reachedI: "f n s = (Inr (out, route, source), s') \<Longrightarrow> target \<le> out \<Longrightarrow> was_reached f target (n, route, source)"
  unfolding was_reached_def by fastforce

lemma upper_bound_reached: "upper_bound f target n high l s = (Inr (l', Some b), s') \<Longrightarrow> was_reached f target b"
  by (induction f target n high l s rule: upper_bound.induct)
     (auto simp: Let_def intro: was_reachedI split: prod.splits sum.splits if_splits)

lemma binary_search_reached:
  "binary_search f target n low best s = (Inr b, s') \<Longrightarrow> was_reached f target best \<Longrightarrow> was_reached f target b"
  by (induction f target n low best s rule: binary_search.induct)
     (auto simp: Let_def dest: was_reachedI split: prod.splits sum.splits if_splits)

lemma search_between_reached: "search_between f target j ctx hint bounds s = (Inr b, s') \<Longrightarrow> was_reached f target b"
  by (auto simp: search_between_def intro: binary_search_reached [OF _ upper_bound_reached] split: prod.splits sum.splits option.splits)

lemma search_input_reached: "search_input f target j ctx hint s = (Inr b, s') \<Longrightarrow> was_reached f target b"
  by (auto simp: search_input_def intro: was_reachedI search_between_reached split: prod.splits sum.splits if_splits)

text \<open>Probes whose outputs do not change while the search runs: a state in \<open>I\<close> answers with \<open>g\<close> and stays in \<open>I\<close>.\<close>

definition steady :: "(probe_state \<Rightarrow> bool) \<Rightarrow> prober \<Rightarrow> (int \<Rightarrow> int) \<Rightarrow> bool" where
  "steady I f g \<longleftrightarrow> (\<forall>n s. I s \<longrightarrow> 0 < n \<longrightarrow> (\<exists>route source s'. f n s = (Inr (g n, route, source), s') \<and> I s'))"

lemma steadyE:
  assumes "steady I f g" "I s" "0 < n"
  obtains route source s' where "f n s = (Inr (g n, route, source), s')" "I s'"
  using assms unfolding steady_def by blast

text \<open>The doublings return the first power of two times the start that reaches the target, and give up when none does.\<close>

lemma upper_bound_steady:
  assumes "steady I f g" "I s" "0 < high"
  shows "\<exists>l' r s'. upper_bound f target n high l s = (Inr (l', r), s') \<and> I s' \<and>
    (case r of
       Some b \<Rightarrow> \<exists>k<n. fst b = high * 2 ^ k \<and> target \<le> g (fst b) \<and> (\<forall>i<k. g (high * 2 ^ i) < target)
     | None \<Rightarrow> \<forall>k<n. g (high * 2 ^ k) < target)"
  using assms(2,3)
proof (induction n arbitrary: high l s)
  case (Suc n)
  obtain route source s1 where f: "f high s = (Inr (g high, route, source), s1)" "I s1"
    using steadyE [OF assms(1) Suc.prems] by metis
  show ?case
  proof (cases "target \<le> g high")
    case True
    then show ?thesis using f by (auto simp: Let_def intro!: exI [of _ "0::nat"])
  next
    case False
    let ?l = "if 0 \<le> g high then g high else l"
    obtain l' r s' where IH: "upper_bound f target n (high * 2) ?l s1 = (Inr (l', r), s')" "I s'"
      "case r of Some b \<Rightarrow> \<exists>k<n. fst b = high * 2 * 2 ^ k \<and> target \<le> g (fst b) \<and> (\<forall>i<k. g (high * 2 * 2 ^ i) < target)
         | None \<Rightarrow> \<forall>k<n. g (high * 2 * 2 ^ k) < target"
      using Suc.IH [OF f(2), of "high * 2" ?l] Suc.prems(2) by fastforce
    have "upper_bound f target (Suc n) high l s = (Inr (l', r), s')" using f(1) False IH(1) by (simp add: Let_def)
    moreover have "case r of Some b \<Rightarrow> \<exists>k<Suc n. fst b = high * 2 ^ k \<and> target \<le> g (fst b) \<and> (\<forall>i<k. g (high * 2 ^ i) < target)
         | None \<Rightarrow> \<forall>k<Suc n. g (high * 2 ^ k) < target"
    proof (cases r)
      case None
      then show ?thesis using IH(3) False by (simp add: All_less_Suc2 mult.assoc)
    next
      case (Some b)
      then obtain k where k: "k < n" "fst b = high * 2 ^ Suc k" "target \<le> g (fst b)" "\<forall>i<k. g (high * 2 ^ Suc i) < target"
        using IH(3) by (auto simp: mult.assoc)
      from k(4) False have "\<forall>i<Suc k. g (high * 2 ^ i) < target" unfolding All_less_Suc2 by simp
      then show ?thesis using Some k(1-3) by (auto intro!: exI [of _ "Suc k"])
    qed
    ultimately show ?thesis using IH(2) by blast
  qed
qed simp

text \<open>
  Bisection keeps the least input that reaches the target between its bounds and halves their distance with each probe.
\<close>

lemma binary_search_steady:
  assumes "steady I f g" "I s" "0 < low" "low \<le> m" "m \<le> fst best" "target \<le> g (fst best)"
    and least: "\<And>x. low \<le> x \<Longrightarrow> x < m \<Longrightarrow> g x < target" and above: "\<And>x. m \<le> x \<Longrightarrow> x \<le> fst best \<Longrightarrow> target \<le> g x"
  shows "\<exists>b s'. binary_search f target n low best s = (Inr b, s') \<and> I s' \<and> m \<le> fst b \<and> target \<le> g (fst b) \<and> (fst b - m) * 2 ^ n \<le> fst best - low"
  using assms(2-)
proof (induction n arbitrary: low best s)
  case (Suc n)
  show ?case
  proof (cases "low < fst best")
    case False
    then have "m = fst best" "low = fst best" using Suc.prems(3,4) by linarith+
    then show ?thesis using Suc.prems by simp
  next
    case True
    let ?mid = "(low + fst best) div 2"
    have mid: "low \<le> ?mid" "?mid < fst best" "0 < ?mid" using True Suc.prems(2) by linarith+
    obtain route source s1 where f: "f ?mid s = (Inr (g ?mid, route, source), s1)" "I s1"
      using steadyE [OF assms(1) Suc.prems(1) mid(3)] by metis
    show ?thesis
    proof (cases "target \<le> g ?mid")
      case hit: True
      then have "m \<le> ?mid" using Suc.prems(6) [of ?mid] mid(1) by force
      then obtain b s' where b: "binary_search f target n low (?mid, route, source) s1 = (Inr b, s')" "I s'" "m \<le> fst b" "target \<le> g (fst b)"
        "(fst b - m) * 2 ^ n \<le> ?mid - low"
        using Suc.IH [of s1 low "(?mid, route, source)"] f(2) Suc.prems hit mid by fastforce
      moreover have "(fst b - m) * 2 ^ Suc n \<le> fst best - low" using b(5) by simp
      ultimately show ?thesis using True f(1) hit mid(3) by (auto simp: Let_def)
    next
      case miss: False
      then have "\<not> m \<le> ?mid" using Suc.prems(7) [of ?mid] mid(2) by auto
      then obtain b s' where b: "binary_search f target n (?mid + 1) best s1 = (Inr b, s')" "I s'" "m \<le> fst b" "target \<le> g (fst b)"
        "(fst b - m) * 2 ^ n \<le> fst best - (?mid + 1)"
        using Suc.IH [of s1 "?mid + 1" best] f(2) Suc.prems mid by fastforce
      moreover have "(fst b - m) * 2 ^ Suc n \<le> fst best - low" using b(5) by simp
      ultimately show ?thesis using True f(1) miss mid(3) by (auto simp: Let_def)
    qed
  qed
qed auto

lemma least_reaching:
  fixes g :: "int \<Rightarrow> int"
  assumes "low \<le> h" "target \<le> g h"
  obtains m where "low \<le> m" "m \<le> h" "target \<le> g m" "\<And>x. low \<le> x \<Longrightarrow> x < m \<Longrightarrow> g x < target"
proof -
  let ?X = "{x. low \<le> x \<and> x \<le> h \<and> target \<le> g x}"
  have X: "finite ?X" "h \<in> ?X" using assms by (auto intro: finite_subset [of _ "{low..h}"])
  then have M: "Min ?X \<in> ?X" using Min_in by blast
  have le: "Min ?X \<le> x" if "x \<in> ?X" for x using X(1) that by (rule Min_le)
  show ?thesis
  proof (rule that [of "Min ?X"])
    fix x assume "low \<le> x" "x < Min ?X"
    moreover from this have "x \<notin> ?X" using le by force
    moreover have "Min ?X \<le> h" using le [OF X(2)] .
    ultimately show "g x < target" by simp
  qed (use M in blast)+
qed

text \<open>
  From given bounds, the search fails exactly when no doubling reaches the target, and else returns an input that does,
  above every smaller one by at most a 64 times halved distance.
\<close>

lemma search_between_steady:
  assumes st: "steady I f g" "I s" and pos: "0 < low" "low \<le> high" and mono: "\<And>x y. 0 < x \<Longrightarrow> x \<le> y \<Longrightarrow> g x \<le> g y"
  shows "\<exists>s'. I s' \<and>
    ((\<exists>k<32. target \<le> g (high * 2 ^ k) \<and>
       (\<exists>b. search_between f target j ctx hint (low, high) s = (Inr b, s') \<and> low \<le> fst b \<and> target \<le> g (fst b) \<and>
          (\<forall>x\<ge>low. target \<le> g x \<longrightarrow> (fst b - x) * 2 ^ 64 \<le> high * 2 ^ k - low) \<and>
          (\<forall>i<k. g (high * 2 ^ i) < target))) \<or>
     (\<forall>k<32. g (high * 2 ^ k) < target) \<and> (\<exists>l. search_between f target j ctx hint (low, high) s = (Inl (estimate_error target j ctx hint l s'), s')))"
proof -
  obtain l r s1 where u: "upper_bound f target 32 high 0 s = (Inr (l, r), s1)" "I s1"
    "case r of Some b \<Rightarrow> \<exists>k<32. fst b = high * 2 ^ k \<and> target \<le> g (fst b) \<and> (\<forall>i<k. g (high * 2 ^ i) < target) | None \<Rightarrow> \<forall>k<32. g (high * 2 ^ k) < target"
    using upper_bound_steady [OF st, of high target 32 0] pos by fastforce
  show ?thesis
  proof (cases r)
    case None
    with u show ?thesis by (auto simp: search_between_def maxCreatePaymentUpperBoundDoublings_def)
  next
    case (Some best)
    then obtain k where k: "k < 32" "fst best = high * 2 ^ k" "target \<le> g (fst best)" "\<forall>i<k. g (high * 2 ^ i) < target" using u(3) by auto
    have "high * 1 \<le> high * 2 ^ k" by (rule mult_left_mono) (use pos in simp_all)
    then have "low \<le> fst best" unfolding k(2) using pos by linarith
    then obtain m where m: "low \<le> m" "m \<le> fst best" "target \<le> g m" "\<And>x. low \<le> x \<Longrightarrow> x < m \<Longrightarrow> g x < target"
      using least_reaching [of low "fst best" target g] k(3) by blast
    have above: "target \<le> g x" if "m \<le> x" for x using mono [of m x] that m(1,3) pos(1) by linarith
    obtain b s' where b: "binary_search f target 64 low best s1 = (Inr b, s')" "I s'" "m \<le> fst b" "target \<le> g (fst b)"
      "(fst b - m) * 2 ^ 64 \<le> fst best - low"
      using binary_search_steady [OF st(1) u(2) pos(1) m(1,2) k(3) m(4) above, of 64] by blast
    have "(fst b - x) * 2 ^ 64 \<le> high * 2 ^ k - low" if "low \<le> x" "target \<le> g x" for x
    proof -
      have "m \<le> x" using m(4) [OF that(1)] that(2) by force
      then show ?thesis using b(5) k(2) by simp
    qed
    moreover have "search_between f target j ctx hint (low, high) s = (Inr b, s')"
      using u(1) Some b(1) by (simp add: search_between_def maxCreatePaymentUpperBoundDoublings_def maxCreatePaymentBinarySearchIterations_def)
    ultimately show ?thesis using k b m(1) by (intro exI [of _ s'] conjI disjI1 exI [of _ k]) auto
  qed
qed

lemma search_between_hit:
  assumes "steady I f g" "I s" "0 < low" "low \<le> high" "\<And>x y. 0 < x \<Longrightarrow> x \<le> y \<Longrightarrow> g x \<le> g y" "target \<le> g high"
  obtains b s' where "search_between f target j ctx hint (low, high) s = (Inr b, s')" "low \<le> fst b" "target \<le> g (fst b)"
    "\<forall>x\<ge>low. target \<le> g x \<longrightarrow> (fst b - x) * 2 ^ 64 \<le> high - low"
proof -
  have no: "\<not> (\<forall>k<32. g (high * 2 ^ k) < target)"
  proof
    assume "\<forall>k<32. g (high * 2 ^ k) < target"
    then have "g (high * 2 ^ 0) < target" by (rule allE [of _ 0]) simp
    with assms(6) show False by simp
  qed
  from search_between_steady [OF assms(1-5), of target j ctx hint] no
  obtain s' k b where k: "search_between f target j ctx hint (low, high) s = (Inr b, s')" "low \<le> fst b" "target \<le> g (fst b)"
    "\<forall>x\<ge>low. target \<le> g x \<longrightarrow> (fst b - x) * 2 ^ 64 \<le> high * 2 ^ k - low" "\<forall>i<k. g (high * 2 ^ i) < target"
    by blast
  have "k = 0"
  proof (rule ccontr)
    assume "k \<noteq> 0"
    then have "g (high * 2 ^ 0) < target" using k(5) by blast
    with assms(6) show False by simp
  qed
  with k that show ?thesis by simp
qed

text \<open>In a dry run, an input is the result of the search from a fresh state.\<close>

lemma solve_dry:
  assumes "positive_amount targetText = Some target"
  shows "solveRequiredInputForTargetOutput u True now merchant caip2 i j targetText wallet c =
    (case search_input (quoteForInput u True now merchant caip2 i j wallet) target j
            (''chain='' @ caip2 @ '' pair='' @ TrimSpace (token_Symbol i) @ ''->'' @ TrimSpace (token_Symbol j)) []
            (fresh_probes (withQuoteRequestCache c)) of
       (r, s) \<Rightarrow> (map_sum id (\<lambda>(n, route, source). (int_string n, route, source)) r, if c = None then None else ps_cache s))"
  by (simp add: solveRequiredInputForTargetOutput_def with_cache_def inverse_preview_def assms Let_def split: prod.splits sum.splits)

text \<open>
  Property C12. The amount a payer is asked for was quoted: the search returns only an input that a preview of this very
  amount found to buy at least the target, with the route and price source of that preview.
\<close>

theorem solved_input_was_quoted:
  assumes "solveRequiredInputForTargetOutput u True now merchant caip2 i j targetText wallet c = (Inr (amount, route, source), c')"
  shows "\<exists>target n d out bought. positive_amount targetText = Some target \<and> amount = int_string n \<and> 0 < n \<and>
    fst (PreviewQuote u True now (Some (probe_input merchant caip2 i j wallet n)) d) = Inr out \<and>
    SetString10 (TrimSpace (qo_QuotedAmount out)) = Some bought \<and> target \<le> bought \<and> qo_Route out = route \<and> qo_PriceSource out = source"
proof -
  obtain target where t: "positive_amount targetText = Some target"
    using assms by (cases "positive_amount targetText") (simp_all add: solveRequiredInputForTargetOutput_def with_cache_def Let_def split: if_splits)
  then have pos: "0 < target" by (auto simp: positive_amount_def split: option.splits if_splits)
  let ?f = "quoteForInput u True now merchant caip2 i j wallet"
  let ?ctx = "''chain='' @ caip2 @ '' pair='' @ TrimSpace (token_Symbol i) @ ''->'' @ TrimSpace (token_Symbol j)"
  obtain s r s' where run: "search_input ?f target j ?ctx [] s = (r, s')"
    and "map_sum id (\<lambda>(n, route, source). (int_string n, route, source)) r = Inr (amount, route, source)"
    using assms unfolding solve_dry [OF t] by (auto split: prod.splits)
  then obtain n where r: "r = Inr (n, route, source)" and amount: "amount = int_string n" by (cases r) auto
  from search_input_reached [OF run [unfolded r]] obtain s1 s2 out where p: "?f n s1 = (Inr (out, route, source), s2)" "target \<le> out"
    by (auto simp: was_reached_def)
  with pos have "\<exists>o' d. fst (PreviewQuote u True now (Some (probe_input merchant caip2 i j wallet n)) d) = Inr o' \<and>
      SetString10 (TrimSpace (qo_QuotedAmount o')) = Some out \<and> qo_Route o' = route \<and> qo_PriceSource o' = source \<and> 0 < n"
    by (auto simp: quoteForInput_def split: if_splits prod.splits sum.splits option.splits intro!: exI [of _ "ps_cache s1"])
  then show ?thesis using t amount p(2) by blast
qed

subsection \<open>Steady prices\<close>

lemma positive_amount_pos: "positive_amount t = Some n \<Longrightarrow> 0 < n"
  by (auto simp: positive_amount_def split: option.splits if_splits)

text \<open>The guess by proportion: what it is, and where the true input lies around it for a linear price.\<close>

lemma anchored_guess_bounds:
  assumes "0 < target" "0 < out"
  shows "target * target \<le> anchored_guess target out * out" and "anchored_guess target out * out < target * target + out" and "0 < anchored_guess target out"
proof -
  let ?n = "target * target"
  define d where "d = ?n div out"
  define m where "m = ?n mod out"
  have n: "?n = d * out + m" by (simp add: d_def m_def)
  have m: "0 \<le> m" "m < out" using assms(2) by (simp_all add: m_def)
  have d: "0 \<le> d" using assms by (simp add: d_def pos_imp_zdiv_nonneg_iff)
  have "0 < ?n" using assms(1) by simp
  then have "0 < d \<or> 0 < m" using n d m by (cases "d = 0") auto
  then have g: "anchored_guess target out = (if 0 < m then d + 1 else d)" and pos: "0 < anchored_guess target out"
    using d by (auto simp: anchored_guess_def Let_def d_def [symmetric] m_def [symmetric])
  then show "?n \<le> anchored_guess target out * out" "anchored_guess target out * out < ?n + out" "0 < anchored_guess target out"
    using n m by (auto simp: distrib_right)
qed

lemma div_bounds:
  fixes a q :: int
  assumes "0 < q"
  shows "a div q * q \<le> a" and "a < (a div q + 1) * q"
proof -
  have "a = a div q * q + a mod q" by simp
  moreover have "0 \<le> a mod q" "a mod q < q" using assms by simp_all
  ultimately show "a div q * q \<le> a" "a < (a div q + 1) * q" by (simp_all only: distrib_right)
qed

lemma le_div_iff: "0 < q \<Longrightarrow> t \<le> a div q \<longleftrightarrow> t * q \<le> a" for a q t :: int
proof
  assume q: "0 < q" and "t \<le> a div q"
  then have "t * q \<le> a div q * q" by (intro mult_right_mono) auto
  then show "t * q \<le> a" using div_bounds(1) [OF q, of a] by linarith
next
  assume q: "0 < q" and "t * q \<le> a"
  then have "t * q < (a div q + 1) * q" using div_bounds(2) [OF q, of a] by linarith
  then show "t \<le> a div q" using q by simp
qed

lemma linear_guess:
  fixes p q target x :: int
  assumes "0 < target" "0 < p" "0 < q" "q \<le> target * p"
  defines "out \<equiv> target * p div q"
  shows "0 < out" and "target * q \<le> anchored_guess target out * p"
    and "target \<le> x * p div q \<Longrightarrow> anchored_guess target out \<le> 2 * x"
proof -
  have "1 \<le> out" unfolding out_def le_div_iff [OF assms(3)] using assms(4) by simp
  then show out: "0 < out" by simp
  note g = anchored_guess_bounds [OF assms(1) out]
  let ?g = "anchored_guess target out"
  have o: "out * q \<le> target * p" "target * p < (out + 1) * q"
    unfolding out_def by (rule div_bounds [OF assms(3)])+
  have "target * target * q \<le> ?g * out * q" using g(1) assms(3) by (intro mult_right_mono) auto
  also have "\<dots> \<le> ?g * (target * p)" unfolding mult.assoc using o(1) g(3) by (intro mult_left_mono) auto
  finally have "target * (target * q) \<le> target * (?g * p)" by (simp add: ac_simps)
  then show "target * q \<le> ?g * p" using assms(1) by simp
  assume "target \<le> x * p div q"
  then have x: "target * q \<le> x * p" unfolding le_div_iff [OF assms(3)] .
  moreover have "0 < target * q" using assms(1,3) by simp
  ultimately have "0 < x * p" by linarith
  then have "0 < x" using assms(2) by (simp add: zero_less_mult_iff)
  have "target * (target * q) \<le> target * (x * p)" using x assms(1) by (intro mult_left_mono) auto
  also have "\<dots> = x * (target * p)" by simp
  also have "\<dots> < x * (2 * out * q)"
  proof (rule mult_strict_left_mono)
    have "1 * q \<le> out * q" using out assms(3) by (intro mult_right_mono) auto
    then show "target * p < 2 * out * q" using o(2) by (simp add: distrib_right)
  qed (rule \<open>0 < x\<close>)
  finally have "target * target * q < (2 * x * out) * q" by (simp add: ac_simps)
  then have "target * target < 2 * x * out" using assms(3) by simp
  with g(2) have "?g * out < (2 * x + 1) * out" by (simp add: distrib_right)
  then have "?g < 2 * x + 1" using out by simp
  then show "?g \<le> 2 * x" by simp
qed

lemma anchored_interval_bounds:
  assumes "anchored_interval target out = (low, high)" "0 < target" "0 < out"
  shows "0 < low" "low \<le> high" "high = 2 * anchored_guess target out" "anchored_guess target out div 2 \<le> low"
    and "anchored_guess target out \<le> 2 * x \<Longrightarrow> low \<le> x \<and> high - low \<le> 4 * x"
  using assms(1) anchored_guess_bounds(3) [OF assms(2,3)] by (auto simp: anchored_interval_def Let_def split: if_splits)

text \<open>The search for a linear price, as the prober sees it.\<close>

lemma search_input_linear:
  assumes st: "steady I f (\<lambda>x. x * p div q)" "I s" and pos: "0 < target" "0 < p" "0 < q" "q \<le> target * p"
  shows "\<exists>b s'. search_input f target j ctx hint s = (Inr b, s') \<and> target \<le> fst b * p div q \<and>
    (\<forall>x. target \<le> x * p div q \<longrightarrow> (fst b - x) * 2 ^ 62 \<le> x)"
proof -
  let ?g = "\<lambda>x. x * p div q" and ?out = "target * p div q"
  note guess = linear_guess [OF pos]
  obtain route source s1 where f: "f target s = (Inr (?out, route, source), s1)" "I s1" using steadyE [OF st pos(1)] by blast
  show ?thesis
  proof (cases "?out = target")
    case True
    have le: "target \<le> x" if "target \<le> x * p div q" for x
    proof (rule ccontr)
      assume "\<not> target \<le> x"
      then have "x * p \<le> (target - 1) * p" using pos(2) by (intro mult_right_mono) auto
      moreover have "target * q \<le> x * p" using that unfolding le_div_iff [OF pos(3)] .
      moreover have "target * p < (target + 1) * q" using div_bounds(2) [OF pos(3), of "target * p"] True by simp
      moreover have "target * q \<le> target * p" using div_bounds(1) [OF pos(3), of "target * p"] True by simp
      then have "q \<le> p" using pos(1) by simp
      ultimately show False by (simp add: algebra_simps)
    qed
    have "(target - x) * 2 ^ 62 \<le> x" if "target \<le> x * p div q" for x
    proof -
      have "target - x \<le> 0" using le [OF that] by simp
      then have "(target - x) * 2 ^ 62 \<le> 0" by (rule mult_nonpos_nonneg) simp
      then show ?thesis using le [OF that] pos(1) by linarith
    qed
    then show ?thesis using f(1) True pos(1) by (simp add: search_input_def)
  next
    case False
    obtain low high where lh: "anchored_interval target ?out = (low, high)" by fastforce
    note b = anchored_interval_bounds [OF lh pos(1) guess(1)]
    have "anchored_guess target ?out * p \<le> high * p"
      unfolding b(3) using anchored_guess_bounds(3) [OF pos(1) guess(1)] pos(2) by (intro mult_right_mono) auto
    then have "target * q \<le> high * p" using guess(2) by linarith
    then have reach: "target \<le> ?g high" unfolding le_div_iff [OF pos(3)] by simp
    have mono: "?g x \<le> ?g y" if "x \<le> y" for x y using that pos(2,3) by (intro zdiv_mono1 mult_right_mono) auto
    obtain r s' where k: "search_between f target j ctx hint (low, high) s1 = (Inr r, s')" "low \<le> fst r" "target \<le> ?g (fst r)"
      "\<forall>x\<ge>low. target \<le> ?g x \<longrightarrow> (fst r - x) * 2 ^ 64 \<le> high - low"
      by (rule search_between_hit [OF st(1) f(2) b(1,2) mono reach])
    have "(fst r - x) * 2 ^ 62 \<le> x" if "target \<le> x * p div q" for x
    proof -
      have "low \<le> x" "high - low \<le> 4 * x" using b(5) [OF guess(3) [OF that]] by simp_all
      then have "(fst r - x) * 2 ^ 64 \<le> 4 * x" using k(4) that by force
      then show ?thesis by simp
    qed
    then show ?thesis using f(1) False guess(1) k(1,3) lh by (simp add: search_input_def)
  qed
qed

text \<open>
  Property C13. For a pool of constant price the search succeeds whenever the anchor probe buys anything, and the input it returns is the
  least one that buys the target, up to one part in \<open>2\<^sup>6\<^sup>2\<close>: exactly the least for every amount below \<open>2\<^sup>6\<^sup>2\<close>.
\<close>

theorem linear_price_search:
  assumes "positive_amount targetText = Some target" "0 < p" "0 < q" "q \<le> target * p"
    and "steady I (quoteForInput u True now merchant caip2 i j wallet) (\<lambda>x. x * p div q)" "I (fresh_probes (withQuoteRequestCache c))"
  shows "\<exists>r route source c'. solveRequiredInputForTargetOutput u True now merchant caip2 i j targetText wallet c = (Inr (int_string r, route, source), c') \<and>
    target \<le> r * p div q \<and> (\<forall>x. target \<le> x * p div q \<longrightarrow> (r - x) * 2 ^ 62 \<le> x)"
proof -
  let ?ctx = "''chain='' @ caip2 @ '' pair='' @ TrimSpace (token_Symbol i) @ ''->'' @ TrimSpace (token_Symbol j)"
  obtain b s' where b: "search_input (quoteForInput u True now merchant caip2 i j wallet) target j ?ctx [] (fresh_probes (withQuoteRequestCache c)) = (Inr b, s')"
    "target \<le> fst b * p div q" "\<forall>x. target \<le> x * p div q \<longrightarrow> (fst b - x) * 2 ^ 62 \<le> x"
    using search_input_linear [OF assms(5,6) positive_amount_pos [OF assms(1)] assms(2-4)] by blast
  then show ?thesis unfolding solve_dry [OF assms(1)] by (cases b) auto
qed

text \<open>
  Also. When one unit of the output costs more than \<open>2\<^sup>3\<^sup>1\<close> units of the input and the target is worth less than a unit at the anchor, the
  search gives up after 32 doublings and the payment is refused as a bad request, although the pool sells any amount at its price. This is so for every
  input token with eighteen decimals against a target with six decimals below a price of 465.
\<close>

theorem small_units_search_fails:
  assumes "positive_amount targetText = Some target" "0 < p" "0 < q" "target * p < q" "2 ^ 31 * p < q"
    and "steady I (quoteForInput u True now merchant caip2 i j wallet) (\<lambda>x. x * p div q)" "I (fresh_probes (withQuoteRequestCache c))"
  shows "(\<exists>e c'. solveRequiredInputForTargetOutput u True now merchant caip2 i j targetText wallet c = (Inl e, c') \<and> Status e = 400) \<and>
    (\<exists>x. target \<le> x * p div q)"
proof
  let ?f = "quoteForInput u True now merchant caip2 i j wallet" and ?g = "\<lambda>x. x * p div q"
    and ?ctx = "''chain='' @ caip2 @ '' pair='' @ TrimSpace (token_Symbol i) @ ''->'' @ TrimSpace (token_Symbol j)"
  have pos: "0 < target" using assms(1) by (rule positive_amount_pos)
  have "target * p div q = 0" using assms(2-4) pos by (intro div_pos_pos_trivial) auto
  then obtain route source s1 where f: "?f target (fresh_probes (withQuoteRequestCache c)) = (Inr (0, route, source), s1)" "I s1"
    using steadyE [OF assms(6,7) pos] by metis
  have "?g (target * 2 ^ k) < target" if "k < 32" for k :: nat
  proof -
    have "(2::int) ^ k * p \<le> 2 ^ 31 * p" using that assms(2) by (intro mult_right_mono power_increasing) auto
    then have "target * (2 ^ k * p) < target * q" using assms(5) pos by (intro mult_strict_left_mono) auto
    then have "\<not> target * q \<le> target * 2 ^ k * p" by (simp add: mult.assoc)
    then show ?thesis using le_div_iff [OF assms(3), of target "target * 2 ^ k * p"] by linarith
  qed
  then obtain l s' where "search_between ?f target j ?ctx [] (1, target) s1 = (Inl (estimate_error target j ?ctx [] l s'), s')"
    using upper_bound_steady [OF assms(6) f(2) pos, of target 32 0]
    by (fastforce simp: search_between_def maxCreatePaymentUpperBoundDoublings_def split: option.splits)
  moreover have "Status (estimate_error target j ?ctx [] l s') = 400" by (simp add: estimate_error_def app_error_defs Let_def)
  ultimately show "\<exists>e c'. solveRequiredInputForTargetOutput u True now merchant caip2 i j targetText wallet c = (Inl e, c') \<and> Status e = 400"
    unfolding solve_dry [OF assms(1)] by (simp add: search_input_def f(1))
  show "\<exists>x. target \<le> x * p div q"
    using assms(2,3) pos by (intro exI [of _ "target * q"]) (simp add: le_div_iff)
qed

lemma upper_bound_ge: "upper_bound f target n high l s = (Inr (l', Some b), s') \<Longrightarrow> 0 < high \<Longrightarrow> high \<le> fst b"
  by (induction f target n high l s rule: upper_bound.induct) (force simp: Let_def split: prod.splits sum.splits if_splits)+

lemma binary_search_ge: "binary_search f target n low best s = (Inr b, s') \<Longrightarrow> 0 < low \<Longrightarrow> low \<le> fst best \<Longrightarrow> low \<le> fst b"
  by (induction f target n low best s rule: binary_search.induct) (force simp: Let_def split: prod.splits sum.splits if_splits)+

lemma search_between_ge:
  "search_between f target j ctx hint (low, high) s = (Inr b, s') \<Longrightarrow> 0 < low \<Longrightarrow> low \<le> high \<Longrightarrow> low \<le> fst b"
  by (auto simp: search_between_def dest!: binary_search_ge upper_bound_ge split: prod.splits sum.splits option.splits)

text \<open>
  Property C14. The search never looks below half the guess by proportion. When the pool answers the anchor probe, an amount counted in units of the
  output, with \<open>A\<close>, the payer is asked for at least \<open>target\<^sup>2 div (2 * A)\<close>, however much less would do: a pool that
  the anchor drains makes the payer pay a multiple of the price.
\<close>

theorem anchor_overcharges:
  assumes "positive_amount targetText = Some target" "0 < g target" "g target \<noteq> target"
    and "steady I (quoteForInput u True now merchant caip2 i j wallet) g" "I (fresh_probes (withQuoteRequestCache c))"
    and "solveRequiredInputForTargetOutput u True now merchant caip2 i j targetText wallet c = (Inr (amount, route, source), c')"
  shows "\<exists>r. amount = int_string r \<and> target * target \<le> (2 * r + 1) * g target"
proof -
  let ?f = "quoteForInput u True now merchant caip2 i j wallet"
  have pos: "0 < target" using assms(1) by (rule positive_amount_pos)
  obtain low high where lh: "anchored_interval target (g target) = (low, high)" by fastforce
  note b = anchored_interval_bounds [OF lh pos assms(2)] and g = anchored_guess_bounds [OF pos assms(2)]
  let ?ctx = "''chain='' @ caip2 @ '' pair='' @ TrimSpace (token_Symbol i) @ ''->'' @ TrimSpace (token_Symbol j)"
  obtain route0 source0 s where "?f target (fresh_probes (withQuoteRequestCache c)) = (Inr (g target, route0, source0), s)"
    using steadyE [OF assms(4,5) pos] by metis
  then have run: "search_input ?f target j ?ctx [] (fresh_probes (withQuoteRequestCache c)) = search_between ?f target j ?ctx [] (low, high) s"
    using assms(2,3) lh by (simp add: search_input_def)
  obtain x s' where x: "search_between ?f target j ?ctx [] (low, high) s = (x, s')" by fastforce
  then have "map_sum id (\<lambda>(n, route, source). (int_string n, route, source)) x = Inr (amount, route, source)"
    using assms(6) unfolding solve_dry [OF assms(1)] run by simp
  then obtain r where r: "search_between ?f target j ?ctx [] (low, high) s = (Inr (r, route, source), s')" "amount = int_string r"
    using x by (cases x) auto
  have "low \<le> r" using search_between_ge [OF r(1) b(1,2)] by simp
  then have "anchored_guess target (g target) \<le> 2 * r + 1" using b(4) by linarith
  then have "anchored_guess target (g target) * g target \<le> (2 * r + 1) * g target" using assms(2) by (intro mult_right_mono) auto
  with g(1) r(2) show ?thesis by force
qed

subsection \<open>Witnesses\<close>

text \<open>A use case with one pool: \<open>g\<close> is what an input buys; the swapper and the simulator quote it, an empty answer is an error of the simulator.\<close>

definition pool_quoting :: "(int \<Rightarrow> int) \<Rightarrow> PartnerQuoteUsecase" where
  "pool_quoting g = sample_quoting\<lparr>pq_swapQuote := Some (\<lambda>k i j n. qlift (Inr (g n))),
     pq_simulatorQuote := Some (\<lambda>k i j n. qlift (case n of
        Some n \<Rightarrow> if g n > 0 then Inr \<lparr>aq_Amount = g n, aq_PriceSource = [], aq_RouteSummary = []\<rparr> else Inl (ErrorString ''amountOut <= 0'')
      | None \<Rightarrow> Inl (ErrorString ''no amount''))) \<rparr>"

abbreviation pool_in :: Token where "pool_in \<equiv> token_named ''0xaa'' ''0xaa''"
abbreviation pool_out :: Token where "pool_out \<equiv> token_named ''0xbb'' ''0xbb''"
abbreviation pool_chain :: Chain where "pool_chain \<equiv> base_chain\<lparr>chain_RPCURL := ''http://rpc''\<rparr>"

definition pool_cache :: "quoteRequestCache \<Rightarrow> bool" where
  "pool_cache q \<longleftrightarrow> (\<forall>k. qc_chainsByID q k \<in> {None, Some pool_chain}) \<and>
     (\<forall>k. qc_tokensByAddress q (tokenByAddressCacheKey rfc_uuid k ''0xaa'') \<in> {None, Some pool_in}) \<and>
     (\<forall>k. qc_tokensByAddress q (tokenByAddressCacheKey rfc_uuid k ''0xbb'') \<in> {None, Some pool_out})"

definition pool_state :: "probe_state \<Rightarrow> bool" where
  "pool_state s \<longleftrightarrow> (\<exists>q. ps_cache s = Some q \<and> pool_cache q)"

lemma pool_addresses: "normalizeEvmAddress ''0xaa'' = ''0xaa''" "normalizeEvmAddress ''0xbb'' = ''0xbb''" "TrimSpace ''0xaa'' = ''0xaa''"
  "\<not> EqualFold ''0xaa'' ''0xbb''" "EqualFold ''0xaa'' ''0xaa''"
  "shouldTreatQuoteProbeAsZero (BadRequest ''accurate quote unavailable for selected pair: dry-run simulator failed: amountOut <= 0'') =
     Some ''selected token pair returned zero output for probed amounts''"
  "shouldTreatQuoteProbeAsZero (BadRequest ''accurate quote unavailable for selected pair: swapper returned 1:1 placeholder quote; dry-run simulator failed: amountOut <= 0'') =
     Some ''accurate quote unavailable for selected pair''"
  by code_simp+

lemma pool_keys: "tokenByAddressCacheKey rfc_uuid k ''0xaa'' \<noteq> tokenByAddressCacheKey rfc_uuid k' ''0xbb''"
  by (simp add: tokenByAddressCacheKey_def pool_addresses)

lemma pool_lookups:
  assumes "pool_cache q"
  shows "\<exists>q'. getCachedChainByID (pool_quoting g) k (Some q) = (Inr pool_chain, Some q') \<and> pool_cache q'"
    and "\<exists>q'. getCachedTokenByAddress (pool_quoting g) k ''0xaa'' (Some q) = (Inr pool_in, Some q') \<and> pool_cache q'"
    and "\<exists>q'. getCachedTokenByAddress (pool_quoting g) k ''0xbb'' (Some q) = (Inr pool_out, Some q') \<and> pool_cache q'"
proof -
  have c: "qc_chainsByID q (chainByIDCacheKey rfc_uuid k) \<in> {None, Some pool_chain}"
    and i: "qc_tokensByAddress q (tokenByAddressCacheKey rfc_uuid k ''0xaa'') \<in> {None, Some pool_in}"
    and j: "qc_tokensByAddress q (tokenByAddressCacheKey rfc_uuid k ''0xbb'') \<in> {None, Some pool_out}"
    using assms unfolding pool_cache_def by blast+
  note defs = getCachedChainByID_def getCachedTokenByAddress_def memo_def pool_quoting_def sample_quoting_def pool_cache_def pool_keys pool_keys [symmetric]
  have "repo_GetByID (rd_chains sample_route) k = Inr pool_chain" by (simp add: sample_route_def)
  with c assms show "\<exists>q'. getCachedChainByID (pool_quoting g) k (Some q) = (Inr pool_chain, Some q') \<and> pool_cache q'"
    by (cases "qc_chainsByID q (chainByIDCacheKey rfc_uuid k)") (auto simp: defs)
  show "\<exists>q'. getCachedTokenByAddress (pool_quoting g) k ''0xaa'' (Some q) = (Inr pool_in, Some q') \<and> pool_cache q'"
    using i assms by (cases "qc_tokensByAddress q (tokenByAddressCacheKey rfc_uuid k ''0xaa'')") (auto simp: defs)
  show "\<exists>q'. getCachedTokenByAddress (pool_quoting g) k ''0xbb'' (Some q) = (Inr pool_out, Some q') \<and> pool_cache q'"
    using j assms by (cases "qc_tokensByAddress q (tokenByAddressCacheKey rfc_uuid k ''0xbb'')") (auto simp: defs)
qed

lemma TrimSpace_int_string: "TrimSpace (int_string n) = int_string n"
proof (rule TrimSpace_graphic_all)
  show "\<forall>c\<in>set (int_string n). graphic c"
    using nat_string_is_dec is_dec_graphic by (auto simp: int_string_def graphic_def)
qed

lemma int_string_not_Nil: "int_string n \<noteq> []"
  by (simp add: int_string_def nat_string_not_Nil)

lemma pool_engine:
  "0 < n \<Longrightarrow> engine_quote (pool_quoting g) True k i j n c =
     (if g n > 0 then Inr (Some (g n), [], [])
      else Inl (BadRequest ''accurate quote unavailable for selected pair: dry-run simulator failed: amountOut <= 0''), c)"
  by (auto simp: engine_quote_def quoteWithDryRunPreferred_def pool_quoting_def sample_quoting_def qcatch_def qlift_def Let_def)

lemma pool_preview:
  assumes "pool_cache q" "0 < n"
  shows "\<exists>q' out. pool_cache q' \<and> (g n > 0 \<longrightarrow> qo_QuotedAmount out = int_string (g n)) \<and>
    PreviewQuote (pool_quoting g) True now (Some (probe_input 3 ''eip155:8453'' pool_in pool_out ''0xcc'' n)) (Some q) =
      (if g n > 0 then Inr out
       else Inl (BadRequest ''accurate quote unavailable for selected pair: dry-run simulator failed: amountOut <= 0''), Some q')"
proof -
  let ?u = "pool_quoting g" and ?i = "probe_input 3 ''eip155:8453'' pool_in pool_out ''0xcc'' n"
  obtain k caip2 where r: "ResolveFromAny rfc_uuid (rd_chains sample_route) ''eip155:8453'' = Inr (k, caip2)"
    using sample_quote_checks(7) by (auto simp: is_Inr_def split: sum.splits)
  obtain q1 where q1: "getCachedChainByID ?u k (Some q) = (Inr pool_chain, Some q1)" "pool_cache q1" using pool_lookups(1) [OF assms(1)] by blast
  obtain q2 where q2: "getCachedTokenByAddress ?u k ''0xbb'' (Some q1) = (Inr pool_out, Some q2)" "pool_cache q2" using pool_lookups(3) [OF q1(2)] by blast
  obtain q3 where q3: "getCachedTokenByAddress ?u k ''0xaa'' (Some q2) = (Inr pool_in, Some q3)" "pool_cache q3" using pool_lookups(2) [OF q2(2)] by blast
  have u: "pq_uuid ?u = rfc_uuid" "pq_chains ?u = rd_chains sample_route" by (simp_all add: pool_quoting_def sample_quoting_def)
  have i: "qi_SelectedChain ?i = ''eip155:8453''" "qi_SelectedToken ?i = ''0xbb''" "qi_InvoiceToken ?i = ''0xaa''" "qi_InvoiceCurrency ?i = ''0xaa''"
    "qi_InvoiceAmount ?i = int_string n" "qi_DestWallet ?i = ''0xcc''" "qi_MerchantID ?i = 3"
    by (simp_all add: probe_input_def token_named_def)
  have n: "positive_amount (int_string n) = Some n" using assms(2) by (simp add: positive_amount_def TrimSpace_int_string)
  have tok: "token_IsActive pool_in" "token_IsActive pool_out" "token_Symbol pool_in = ''0xaa''" "token_ContractAddress pool_in = ''0xaa''"
    "token_ContractAddress pool_out = ''0xbb''" by (simp_all add: token_named_def)
  obtain st where st: "route_for ?u k pool_in pool_out c = (Inr st, c)" for c
    by (simp add: route_for_def pool_quoting_def sample_quoting_def qcatch_def qlift_def)
  have "find_quote ?u True ?i (Some q) =
      (if g n > 0 then Inr \<lparr>qp_caip2 = caip2, qp_chainID = k, qp_chain = pool_chain, qp_selected = pool_out, qp_invoice = pool_in, qp_amountIn = n,
         qp_amount = g n, qp_source = [], qp_status = st\<rparr>
       else Inl (BadRequest ''accurate quote unavailable for selected pair: dry-run simulator failed: amountOut <= 0''), Some q3)"
    using assms(2)
    by (simp add: find_quote_def u i r q1 q2 q3 n tok st pool_engine qbind_def qcatch_def qlift_def active_token_def invoice_token_def
        sample_quote_checks pool_addresses)
  moreover have "quote_input_error ?u False ?i = None"
    by (simp add: quote_input_error_def i sample_quote_checks pool_addresses pool_quoting_def sample_quoting_def TrimSpace_int_string int_string_not_Nil)
  ultimately show ?thesis using q3(2)
    by (auto simp: PreviewQuote_def price_quote_def qbind_def qlift_def quote_output_def)
qed

lemma pool_steady:
  assumes "\<And>n. 0 < n \<Longrightarrow> 0 \<le> g n"
  shows "steady pool_state (quoteForInput (pool_quoting g) True now 3 ''eip155:8453'' pool_in pool_out ''0xcc'') g"
  unfolding steady_def pool_state_def
proof (intro allI impI)
  fix n and s :: probe_state assume "\<exists>q. ps_cache s = Some q \<and> pool_cache q" and n: "0 < (n :: int)"
  then obtain q where q: "ps_cache s = Some q" "pool_cache q" by blast
  obtain q' out where p: "pool_cache q'" "g n > 0 \<Longrightarrow> qo_QuotedAmount out = int_string (g n)"
    "PreviewQuote (pool_quoting g) True now (Some (probe_input 3 ''eip155:8453'' pool_in pool_out ''0xcc'' n)) (Some q) =
      (if g n > 0 then Inr out
       else Inl (BadRequest ''accurate quote unavailable for selected pair: dry-run simulator failed: amountOut <= 0''), Some q')"
    using pool_preview [OF q(2) n, of g now] by blast
  then show "\<exists>route source s'. quoteForInput (pool_quoting g) True now 3 ''eip155:8453'' pool_in pool_out ''0xcc'' n s = (Inr (g n, route, source), s') \<and>
      (\<exists>q. ps_cache s' = Some q \<and> pool_cache q)"
    using n q(1) assms [OF n] by (auto simp: quoteForInput_def pool_addresses TrimSpace_int_string)
qed

lemma pool_state_fresh: "pool_state (fresh_probes (withQuoteRequestCache None))"
  by (simp add: pool_state_def pool_cache_def fresh_probes_def withQuoteRequestCache_def newQuoteRequestCache_def)

theorem linear_price_search_witness:
  "\<exists>r route source c'. solveRequiredInputForTargetOutput (pool_quoting (\<lambda>x. x * 3 div 2)) True 1000 3 ''eip155:8453'' pool_in pool_out ''80'' ''0xcc'' None =
     (Inr (int_string r, route, source), c') \<and> 80 \<le> r * 3 div 2"
proof -
  have "positive_amount ''80'' = Some 80" by (simp add: positive_amount_def sample_quote_checks)
  from linear_price_search [OF this _ _ _ pool_steady pool_state_fresh, of 3 2 1000] show ?thesis by (auto simp: pos_imp_zdiv_nonneg_iff)
qed

lemma pool_search:
  "\<exists>b s'. search_input (quoteForInput (pool_quoting (\<lambda>x. x * 3 div 2)) True 1000 3 ''eip155:8453'' pool_in pool_out ''0xcc'') 80 pool_out ctx []
     (fresh_probes (withQuoteRequestCache None)) = (Inr b, s')"
proof -
  have "steady pool_state (quoteForInput (pool_quoting (\<lambda>x. x * 3 div 2)) True 1000 3 ''eip155:8453'' pool_in pool_out ''0xcc'') (\<lambda>x. x * 3 div 2)"
    by (rule pool_steady) simp
  from search_input_linear [OF this pool_state_fresh, of 80 pool_out ctx "[]"] show ?thesis by fastforce
qed

theorem solved_input_was_quoted_witness:
  "\<exists>n d out bought. fst (PreviewQuote (pool_quoting (\<lambda>x. x * 3 div 2)) True 1000 (Some (probe_input 3 ''eip155:8453'' pool_in pool_out ''0xcc'' n)) d) = Inr out \<and>
     SetString10 (TrimSpace (qo_QuotedAmount out)) = Some bought \<and> 80 \<le> bought"
proof -
  have p: "positive_amount ''80'' = Some 80" by (simp add: positive_amount_def sample_quote_checks)
  let ?ctx = "''chain='' @ ''eip155:8453'' @ '' pair='' @ TrimSpace (token_Symbol pool_in) @ ''->'' @ TrimSpace (token_Symbol pool_out)"
  obtain b s' where "search_input (quoteForInput (pool_quoting (\<lambda>x. x * 3 div 2)) True 1000 3 ''eip155:8453'' pool_in pool_out ''0xcc'') 80 pool_out
       ?ctx [] (fresh_probes (withQuoteRequestCache None)) = (Inr b, s')"
    using pool_search [of ?ctx] by blast
  then have "solveRequiredInputForTargetOutput (pool_quoting (\<lambda>x. x * 3 div 2)) True 1000 3 ''eip155:8453'' pool_in pool_out ''80'' ''0xcc'' None =
       (Inr (int_string (fst b), snd b), None)"
    unfolding solve_dry [OF p] by (cases b) (simp del: append.simps)
  then have "solveRequiredInputForTargetOutput (pool_quoting (\<lambda>x. x * 3 div 2)) True 1000 3 ''eip155:8453'' pool_in pool_out ''80'' ''0xcc'' None =
       (Inr (int_string (fst b), fst (snd b), snd (snd b)), None)" by simp
  from solved_input_was_quoted [OF this] p show ?thesis by auto
qed

text \<open>One unit of a stable coin with eighteen decimals for each of one with six.\<close>

theorem small_units_search_fails_witness:
  "\<exists>e c'. solveRequiredInputForTargetOutput (pool_quoting (\<lambda>x. x * 1 div 10 ^ 12)) True 1000 3 ''eip155:8453'' pool_in pool_out ''80'' ''0xcc'' None = (Inl e, c') \<and>
     Status e = 400"
proof -
  have "positive_amount ''80'' = Some 80" by (simp add: positive_amount_def sample_quote_checks)
  from small_units_search_fails [OF this _ _ _ _ pool_steady pool_state_fresh, of 1 "10 ^ 12" 1000] show ?thesis by simp
qed

text \<open>
  A pool that holds ten thousand units of an output with eighteen decimals and as many of an input with six: one unit of output costs about one unit of input, and
  the payer is asked for more than ten million units.
\<close>

definition deep_pool :: "int \<Rightarrow> int" where
  "deep_pool x = x * 10 ^ 22 div (x + 10 ^ 10)"

lemma deep_pool_mono: "0 < x \<Longrightarrow> x \<le> y \<Longrightarrow> deep_pool x \<le> deep_pool y"
proof -
  assume x: "0 < x" "x \<le> y"
  let ?R = "10 ^ 22 :: int" and ?S = "10 ^ 10 :: int"
  let ?z = "x * ?R div (x + ?S)"
  have pos: "0 < x + ?S" "0 < y + ?S" using x by simp_all
  have z: "?z * (x + ?S) \<le> x * ?R" by (rule div_bounds(1) [OF pos(1)])
  have "\<not> ?R + 1 \<le> ?z" unfolding le_div_iff [OF pos(1)] using x by (simp add: algebra_simps)
  then have "?z * (y - x) \<le> ?R * (y - x)" using x by (intro mult_right_mono) auto
  with z have "?z * (y + ?S) \<le> y * ?R" by (simp add: algebra_simps)
  then show ?thesis unfolding deep_pool_def le_div_iff [OF pos(2)] .
qed

theorem anchor_overcharges_witness:
  "\<exists>r route source c'. solveRequiredInputForTargetOutput (pool_quoting deep_pool) True 1000 3 ''eip155:8453'' pool_in pool_out (int_string (10 ^ 18)) ''0xcc'' None =
     (Inr (int_string r, route, source), c') \<and> 10 ^ 13 < r \<and> 10 ^ 18 \<le> deep_pool 1000101"
proof -
  let ?f = "quoteForInput (pool_quoting deep_pool) True 1000 3 ''eip155:8453'' pool_in pool_out ''0xcc''" and ?t = "10 ^ 18 :: int"
  let ?ctx = "''chain='' @ ''eip155:8453'' @ '' pair='' @ TrimSpace (token_Symbol pool_in) @ ''->'' @ TrimSpace (token_Symbol pool_out)"
  have p: "positive_amount (int_string ?t) = Some ?t" unfolding positive_amount_def TrimSpace_int_string SetString10_int_string by simp
  have st: "steady pool_state ?f deep_pool" by (rule pool_steady) (simp add: deep_pool_def pos_imp_zdiv_nonneg_iff)
  have a: "0 < deep_pool ?t" "deep_pool ?t \<noteq> ?t" by (simp_all add: deep_pool_def)
  obtain route source s1 where f: "?f ?t (fresh_probes (withQuoteRequestCache None)) = (Inr (deep_pool ?t, route, source), s1)" "pool_state s1"
    using steadyE [OF st pool_state_fresh, of ?t] by auto
  obtain low high where lh: "anchored_interval ?t (deep_pool ?t) = (low, high)" by fastforce
  have b: "0 < low" "low \<le> high" using anchored_interval_bounds(1,2) [OF lh _ a(1)] by simp_all
  have reach: "?t \<le> deep_pool high" using lh by (simp add: anchored_interval_def anchored_guess_def deep_pool_def)
  obtain x s' where x: "search_between ?f ?t pool_out ?ctx [] (low, high) s1 = (Inr x, s')"
    using search_between_hit [OF st f(2) b deep_pool_mono reach] by blast
  then have run: "search_input ?f ?t pool_out ?ctx [] (fresh_probes (withQuoteRequestCache None)) = (Inr x, s')"
    unfolding search_input_def f(1) using a lh by simp
  have res: "solveRequiredInputForTargetOutput (pool_quoting deep_pool) True 1000 3 ''eip155:8453'' pool_in pool_out (int_string ?t) ''0xcc'' None =
      (Inr (int_string (fst x), fst (snd x), snd (snd x)), None)"
    unfolding solve_dry [OF p] run by (cases x) simp
  obtain r where r: "int_string (fst x) = int_string r" "?t * ?t \<le> (2 * r + 1) * deep_pool ?t"
    using anchor_overcharges [OF p a st pool_state_fresh res] by blast
  have "fst x = r" using r(1) by (metis SetString10_int_string option.inject)
  moreover have "10 ^ 13 < r" using r(2) by (simp add: deep_pool_def)
  moreover have "?t \<le> deep_pool 1000101" by (simp add: deep_pool_def)
  ultimately show ?thesis using res by blast
qed

end
