(* ===== verification/Session_Payments.thy ===== *)
theory Session_Payments
  imports Input_Search Config_Tables Api_Keys
begin

text \<open>
  The payments merchants create through their settlement profile (\<^verbatim>\<open>internal/usecases/create_payment_usecase.go\<close>): the profile says where
  and in which token a merchant settles, the payer chooses a chain and a token, and the use case prices the payment, stores a quote and opens a payment session for
  it (\<open>CreateSession\<close> of \<open>Partner_Sessions\<close>). The repositories are functions of the use case's record; the quote table is part of the session database.
  Contexts carry the request cache and the preference for the dry run; their deadlines end a call with an error of the callee and are not modelled beyond
  \<open>createPaymentStageTimeoutFromEnv\<close>. Log lines are left out.
\<close>

definition CreatePaymentPricingTypeInvoiceCurrency :: string where "CreatePaymentPricingTypeInvoiceCurrency = ''invoice_currency''"
definition CreatePaymentPricingTypePaymentTokenFixed :: string where "CreatePaymentPricingTypePaymentTokenFixed = ''payment_token_fixed''"
definition CreatePaymentPricingTypePaymentTokenDyn :: string where "CreatePaymentPricingTypePaymentTokenDyn = ''payment_token_dynamic''"

lemmas pricing_type_defs = CreatePaymentPricingTypeInvoiceCurrency_def CreatePaymentPricingTypePaymentTokenFixed_def CreatePaymentPricingTypePaymentTokenDyn_def

definition defaultCreatePaymentTTL :: time where "defaultCreatePaymentTTL = 180 * second"
definition minCreatePaymentTTL :: time where "minCreatePaymentTTL = 30 * second"
definition maxCreatePaymentTTL :: time where "maxCreatePaymentTTL = 24 * 3600 * second"

lemmas ttl_defs = defaultCreatePaymentTTL_def minCreatePaymentTTL_def maxCreatePaymentTTL_def second_def

record PaymentSessionInput =
  cpi_MerchantContextID :: uuid
  cpi_MerchantID :: uuid
  cpi_ChainID :: string
  cpi_SelectedToken :: string
  cpi_PricingType :: string
  cpi_RequestedAmount :: string
  cpi_ExpiresIn :: string

record PaymentSessionOutput =
  cpo_PaymentID :: string
  cpo_MerchantID :: string
  cpo_Amount :: string
  cpo_InvoiceCurrency :: string
  cpo_InvoiceAmount :: string
  cpo_PayerSelectedChain :: string
  cpo_PayerSelectedToken :: string
  cpo_PayerSelectedTokenSymbol :: string
  cpo_QuotedTokenSymbol :: string
  cpo_QuotedTokenAmount :: string
  cpo_QuotedTokenAmountAtomic :: string
  cpo_QuotedTokenDecimals :: int
  cpo_QuoteRate :: string
  cpo_QuoteSource :: string
  cpo_QuoteExpiresAt :: time
  cpo_IsUnlimitedExpiry :: bool
  cpo_DestChain :: string
  cpo_DestToken :: string
  cpo_DestWallet :: string
  cpo_SettlementDestChain :: string
  cpo_SettlementDestToken :: string
  cpo_SettlementDestWallet :: string
  cpo_ExpireTime :: time
  cpo_PaymentURL :: string
  cpo_PaymentCode :: string
  cpo_PaymentInstruction :: PaymentInstruction

text \<open>\<open>cp_configured\<close> says that no dependency of the use case is nil. A lookup that reports no error returns a value.\<close>

record CreatePaymentUsecase =
  cp_configured :: bool
  cp_hasSessions :: bool
  cp_merchantByID :: "uuid \<Rightarrow> Merchant result"
  cp_profileByMerchantID :: "uuid \<Rightarrow> MerchantSettlementProfile result"
  cp_walletsByUserID :: "uuid \<Rightarrow> Wallet list result"
  cp_tokenByAddress :: "string \<Rightarrow> uuid \<Rightarrow> Token result"
  cp_tokenBySymbol :: "string \<Rightarrow> uuid \<Rightarrow> Token result"
  cp_chains :: ChainRepository
  cp_uuid :: uuid_lib
  cp_digit :: "nat \<Rightarrow> bool"  \<comment> \<open>\<^verbatim>\<open>unicode.IsDigit\<close> beyond ASCII\<close>
  cp_quoteUC :: PartnerQuoteUsecase
  cp_sessionUC :: session_deps

record merchantCreatePaymentConfig =
  mc_DestChain :: string
  mc_DestToken :: string
  mc_DestWallet :: string
  mc_BridgeTokenSymbol :: string

record resolvedMerchantSettlementConfig =
  rc_InvoiceToken :: Token
  rc_DestChainID :: uuid
  rc_DestChainCAIP2 :: string
  rc_DestToken :: Token
  rc_DestWallet :: string
  rc_BridgeTokenSymbol :: string
  rc_DestBridgeToken :: Token

subsection \<open>Times\<close>

text \<open>\<^verbatim>\<open>strconv.Atoi\<close> on a 64-bit machine. A product of durations wraps at 64 bits.\<close>

definition Atoi :: "string \<Rightarrow> int option" where "Atoi s = ParseInt64 s"

definition createPaymentStageTimeoutFromEnv :: "string \<Rightarrow> time \<Rightarrow> time" where
  "createPaymentStageTimeoutFromEnv env fallback =
     (let fallback = (if fallback \<le> 0 then 5 * second else fallback); raw = TrimSpace env in
      if raw = [] then fallback
      else case Atoi raw of
             None \<Rightarrow> fallback
           | Some ms \<Rightarrow> if ms \<le> 0 then fallback else wrap64 (ms * 10 ^ 6))"

definition resolveCreatePaymentExpiresAt :: "string \<Rightarrow> time \<Rightarrow> (time \<times> bool) result" where
  "resolveCreatePaymentExpiresAt raw now =
     (let v = TrimSpace (ToLower raw) in
      if v = [] then Inr (now + defaultCreatePaymentTTL, False)
      else if v = ''unlimited'' then Inr (createPaymentUnlimitedExpiryAt, True)
      else
        case Atoi v of
          None \<Rightarrow> Inl (BadRequest ''expires_in must be a positive integer (seconds) or \"unlimited\"'')
        | Some seconds \<Rightarrow>
            if seconds \<le> 0 then Inl (BadRequest ''expires_in must be greater than 0 seconds'')
            else
              let ttl = wrap64 (seconds * second) in
              if ttl < minCreatePaymentTTL then Inl (BadRequest ''expires_in must be at least 30 seconds'')
              else if ttl > maxCreatePaymentTTL then Inl (BadRequest ''expires_in must be at most 86400 seconds'')
              else Inr (now + ttl, False))"

subsection \<open>The merchant's settlement\<close>

definition resolveMerchantID :: "PaymentSessionInput \<Rightarrow> uuid result" where
  "resolveMerchantID input =
     (if cpi_MerchantContextID input = uuid_Nil then Inl (Forbidden ''merchant context required'')
      else if cpi_MerchantID input \<noteq> uuid_Nil \<and> cpi_MerchantID input \<noteq> cpi_MerchantContextID input then
        Inl (Forbidden ''merchant_id override is not allowed on this route'')
      else Inr (cpi_MerchantContextID input))"

definition resolveMerchantCreatePaymentConfig :: "CreatePaymentUsecase \<Rightarrow> Merchant \<Rightarrow> merchantCreatePaymentConfig" where
  "resolveMerchantCreatePaymentConfig u merchant =
     (case cp_profileByMerchantID u (mer_ID merchant) of
        Inr p \<Rightarrow> \<lparr>mc_DestChain = TrimSpace (msp_DestChain p), mc_DestToken = TrimSpace (msp_DestToken p), mc_DestWallet = TrimSpace (msp_DestWallet p),
                  mc_BridgeTokenSymbol = TrimSpace (msp_BridgeTokenSymbol p)\<rparr>
      | Inl _ \<Rightarrow> \<lparr>mc_DestChain = [], mc_DestToken = [], mc_DestWallet = [], mc_BridgeTokenSymbol = []\<rparr>)"

definition resolveMerchantWallet :: "CreatePaymentUsecase \<Rightarrow> Merchant \<Rightarrow> merchantCreatePaymentConfig \<Rightarrow> string result" where
  "resolveMerchantWallet u merchant config =
     (if TrimSpace (mc_DestWallet config) \<noteq> [] then Inr (TrimSpace (mc_DestWallet config))
      else
        case cp_walletsByUserID u (mer_UserID merchant) of
          Inl _ \<Rightarrow> Inl (BadRequest ''merchant destination wallet is not configured'')
        | Inr [] \<Rightarrow> Inl (BadRequest ''merchant destination wallet is not configured'')
        | Inr (w # ws) \<Rightarrow>
            (case List.find (\<lambda>x. wal_IsPrimary x \<and> TrimSpace (wal_Address x) \<noteq> []) (w # ws) of
               Some x \<Rightarrow> Inr (TrimSpace (wal_Address x))
             | None \<Rightarrow>
                 if TrimSpace (wal_Address w) = [] then Inl (BadRequest ''merchant destination wallet is not configured'')
                 else Inr (TrimSpace (wal_Address w))))"

definition lookup_active :: "string \<Rightarrow> Token result \<Rightarrow> Token result" where
  "lookup_active msg r = (case r of Inr t \<Rightarrow> if token_IsActive t then Inr t else Inl (BadRequest msg) | Inl _ \<Rightarrow> Inl (BadRequest msg))"

definition resolveMerchantSettlementConfig :: "CreatePaymentUsecase \<Rightarrow> merchantCreatePaymentConfig \<Rightarrow> resolvedMerchantSettlementConfig result" where
  "resolveMerchantSettlementConfig u config =
     (if TrimSpace (mc_DestChain config) = [] then Inl (BadRequest ''merchant dest_chain is not configured'')
      else if TrimSpace (mc_DestToken config) = [] then Inl (BadRequest ''merchant dest_token is not configured'')
      else
        case ResolveFromAny (cp_uuid u) (cp_chains u) (mc_DestChain config) of
          Inl e \<Rightarrow> Inl (BadRequest (''invalid merchant dest_chain: '' @ error_text e))
        | Inr (destChainID, destChainCAIP2) \<Rightarrow>
            (case lookup_active ''merchant dest_token is not supported'' (cp_tokenByAddress u (mc_DestToken config) destChainID) of
               Inl e \<Rightarrow> Inl e
             | Inr destToken \<Rightarrow>
                 let symbol = TrimSpace (mc_BridgeTokenSymbol config); symbol = (if symbol = [] then ''USDC'' else symbol) in
                 (case lookup_active ''merchant bridge token is not supported on dest_chain'' (cp_tokenBySymbol u symbol destChainID) of
                    Inl e \<Rightarrow> Inl e
                  | Inr destBridgeToken \<Rightarrow>
                      Inr \<lparr>rc_InvoiceToken = destToken, rc_DestChainID = destChainID, rc_DestChainCAIP2 = destChainCAIP2, rc_DestToken = destToken,
                           rc_DestWallet = TrimSpace (mc_DestWallet config), rc_BridgeTokenSymbol = symbol, rc_DestBridgeToken = destBridgeToken\<rparr>)))"

subsection \<open>Stored quotes\<close>

text \<open>What a quote that this use case stores itself returns to the caller.\<close>

definition stored_quote_output :: "uuid_lib \<Rightarrow> PaymentQuote \<Rightarrow> CreatePartnerQuoteOutput" where
  "stored_quote_output L q =
     \<lparr>qo_QuoteID = uuid_String L (quote_ID q), qo_InvoiceCurrency = quote_InvoiceCurrency q, qo_InvoiceAmount = quote_InvoiceAmount q,
      qo_SelectedChain = quote_SelectedChainID q, qo_SelectedToken = quote_SelectedTokenAddress q, qo_SelectedTokenSymbol = quote_SelectedTokenSymbol q,
      qo_QuotedAmount = quote_QuotedAmount q, qo_QuoteDecimals = quote_SelectedTokenDecimals q, qo_QuoteRate = quote_QuoteRate q,
      qo_PriceSource = quote_PriceSource q, qo_Route = quote_Route q, qo_SlippageBps = quote_SlippageBps q, qo_RateTimestamp = quote_RateTimestamp q,
      qo_QuoteExpiresAt = quote_ExpiresAt q\<rparr>"

definition synthetic_source :: "string \<Rightarrow> string \<Rightarrow> Token \<Rightarrow> resolvedMerchantSettlementConfig \<Rightarrow> string" where
  "synthetic_source pricingType chainCAIP2 selectedToken settlement =
     (if chainCAIP2 \<noteq> rc_DestChainCAIP2 settlement then
        (if EqualFold (token_Symbol selectedToken) (rc_BridgeTokenSymbol settlement)
         then ''cross-chain-bridge-token-direct-via-'' @ ToLower (rc_BridgeTokenSymbol settlement)
         else ''cross-chain-normalized-via-'' @ ToLower (rc_BridgeTokenSymbol settlement))
      else if pricingType = CreatePaymentPricingTypePaymentTokenDyn then ''customer-input-selected-token''
      else ''merchant-fixed-selected-token'')"

definition createSyntheticSelectedTokenQuote ::
  "CreatePaymentUsecase \<Rightarrow> fault \<Rightarrow> uuid \<Rightarrow> time \<Rightarrow> uuid \<Rightarrow> string \<Rightarrow> Token \<Rightarrow> string \<Rightarrow> string \<Rightarrow> resolvedMerchantSettlementConfig \<Rightarrow> time \<Rightarrow>
   PaymentQuote table \<Rightarrow> CreatePartnerQuoteOutput result \<times> PaymentQuote table" where
  "createSyntheticSelectedTokenQuote u flt newID now merchantID chainCAIP2 selectedToken pricingType requestedAmount settlement expiresAt t =
     (case convertToSmallestUnit (cp_digit u) requestedAmount (token_Decimals selectedToken) of
        Inl e \<Rightarrow> (Inl (BadRequest e), t)
      | Inr atomicAmount \<Rightarrow>
          let quote = \<lparr>quote_ID = newID, quote_MerchantID = merchantID, quote_InvoiceCurrency = token_Symbol (rc_InvoiceToken settlement),
                quote_InvoiceAmount = atomicAmount, quote_SelectedChainID = chainCAIP2, quote_SelectedTokenAddress = token_ContractAddress selectedToken,
                quote_SelectedTokenSymbol = token_Symbol selectedToken, quote_SelectedTokenDecimals = token_Decimals selectedToken, quote_QuotedAmount = atomicAmount,
                quote_QuoteRate = quoteRateFromAtomicAmounts atomicAmount (token_Decimals selectedToken) atomicAmount (token_Decimals selectedToken),
                quote_PriceSource = synthetic_source pricingType chainCAIP2 selectedToken settlement, quote_Route = token_Symbol selectedToken,
                quote_SlippageBps = 0, quote_RateTimestamp = now, quote_ExpiresAt = expiresAt, quote_Status = PaymentQuoteStatusActive, quote_UsedAt = None,
                quote_CreatedAt = now, quote_UpdatedAt = now\<rparr> in
          (case quote_Create flt newID now t quote of
             Inl e \<Rightarrow> (Inl (InternalServerError (''failed to persist synthetic quote: '' @ error_text e)), t)
           | Inr t' \<Rightarrow> (Inr (stored_quote_output (cp_uuid u) quote), t')))"

definition createCompositeQuote ::
  "CreatePaymentUsecase \<Rightarrow> fault \<Rightarrow> uuid \<Rightarrow> time \<Rightarrow> uuid \<Rightarrow> string \<Rightarrow> Token \<Rightarrow> string \<Rightarrow> int \<Rightarrow> string \<Rightarrow> string \<Rightarrow> string \<Rightarrow> string \<Rightarrow> time \<Rightarrow>
   PaymentQuote table \<Rightarrow> CreatePartnerQuoteOutput result \<times> PaymentQuote table" where
  "createCompositeQuote u flt newID now merchantID selectedChainCAIP2 selectedToken invoiceCurrency invoiceDecimals invoiceAtomic quotedAmount priceSource route expiresAt t =
     (let quote = \<lparr>quote_ID = newID, quote_MerchantID = merchantID, quote_InvoiceCurrency = invoiceCurrency,
            quote_InvoiceAmount = invoiceAtomic, quote_SelectedChainID = selectedChainCAIP2, quote_SelectedTokenAddress = token_ContractAddress selectedToken,
            quote_SelectedTokenSymbol = token_Symbol selectedToken, quote_SelectedTokenDecimals = token_Decimals selectedToken, quote_QuotedAmount = quotedAmount,
            quote_QuoteRate = quoteRateFromAtomicAmounts quotedAmount (token_Decimals selectedToken) invoiceAtomic invoiceDecimals,
            quote_PriceSource = priceSource, quote_Route = route,
            quote_SlippageBps = partnerQuoteSlippage, quote_RateTimestamp = now, quote_ExpiresAt = expiresAt, quote_Status = PaymentQuoteStatusActive, quote_UsedAt = None,
            quote_CreatedAt = now, quote_UpdatedAt = now\<rparr> in
      (case quote_Create flt newID now t quote of
         Inl e \<Rightarrow> (Inl (InternalServerError (''failed to persist composite quote: '' @ error_text e)), t)
       | Inr t' \<Rightarrow> (Inr (stored_quote_output (cp_uuid u) quote), t')))"

text \<open>How much of the bridge token must arrive at the merchant's chain: the amount, the route and the price source.\<close>

definition resolveCrossChainBridgeAmount ::
  "CreatePaymentUsecase \<Rightarrow> bool \<Rightarrow> time \<Rightarrow> uuid \<Rightarrow> resolvedMerchantSettlementConfig \<Rightarrow> string \<Rightarrow> string \<Rightarrow> (string \<times> string \<times> string) quoting" where
  "resolveCrossChainBridgeAmount u dry now merchantID settlement invoiceAtomic destWallet =
     (if EqualFold (token_ContractAddress (rc_InvoiceToken settlement)) (token_ContractAddress (rc_DestBridgeToken settlement)) then
        qlift (Inr (invoiceAtomic, token_Symbol (rc_InvoiceToken settlement) @ ''->'' @ token_Symbol (rc_DestBridgeToken settlement),
                    ''cross-chain-bridge-token-direct-via-'' @ ToLower (rc_BridgeTokenSymbol settlement)))
      else
        qcatch (solveRequiredInputForTargetOutput (cp_quoteUC u) dry now merchantID (rc_DestChainCAIP2 settlement) (rc_DestBridgeToken settlement)
                  (rc_InvoiceToken settlement) invoiceAtomic destWallet) (\<lambda>r.
        qlift (case r of
                 Inr x \<Rightarrow> Inr x
               | Inl e \<Rightarrow> Inl (annotateCreatePaymentEstimateError ''unable to estimate destination bridge amount from invoice token'' e))))"

definition createInvoiceCurrencyQuote ::
  "CreatePaymentUsecase \<Rightarrow> bool \<Rightarrow> fault \<Rightarrow> uuid \<Rightarrow> time \<Rightarrow> uuid \<Rightarrow> string \<Rightarrow> Token \<Rightarrow> resolvedMerchantSettlementConfig \<Rightarrow> string \<Rightarrow> string \<Rightarrow> time \<Rightarrow>
   PaymentQuote table \<Rightarrow> quoteRequestCache option \<Rightarrow> CreatePartnerQuoteOutput result \<times> PaymentQuote table" where
  "createInvoiceCurrencyQuote u dry flt newID now merchantID selectedChainCAIP2 selectedToken settlement requestedAmount destWallet expiresAt t c =
     (case convertToSmallestUnit (cp_digit u) requestedAmount (token_Decimals (rc_InvoiceToken settlement)) of
        Inl e \<Rightarrow> (Inl (BadRequest e), t)
      | Inr invoiceAtomic \<Rightarrow>
          let composite = createCompositeQuote u flt newID now merchantID selectedChainCAIP2 selectedToken (token_Symbol (rc_InvoiceToken settlement))
                (token_Decimals (rc_InvoiceToken settlement)) invoiceAtomic;
              via = ToLower (rc_BridgeTokenSymbol settlement) in
          if selectedChainCAIP2 = rc_DestChainCAIP2 settlement then
            CreateQuote (cp_quoteUC u) dry flt newID now t
              (Some \<lparr>qi_MerchantID = merchantID, qi_InvoiceCurrency = token_Symbol (rc_InvoiceToken settlement),
                     qi_InvoiceToken = token_ContractAddress (rc_InvoiceToken settlement), qi_InvoiceAmount = invoiceAtomic, qi_SelectedChain = selectedChainCAIP2,
                     qi_SelectedToken = token_ContractAddress selectedToken, qi_DestWallet = destWallet, qi_ExpiresAtOverride = Some expiresAt\<rparr>) c
          else
            case resolveCrossChainBridgeAmount u dry now merchantID settlement invoiceAtomic destWallet c of
              (Inl e, _) \<Rightarrow> (Inl e, t)
            | (Inr (destBridgeAmount, routeSummary, _), c1) \<Rightarrow>
                if EqualFold (token_Symbol selectedToken) (rc_BridgeTokenSymbol settlement) then
                  composite destBridgeAmount (''cross-chain-bridge-token-direct-via-'' @ via) routeSummary expiresAt t
                else
                  (case lookup_active ''bridge token is not supported on selected source chain''
                          (cp_tokenBySymbol u (rc_BridgeTokenSymbol settlement) (token_ChainUUID selectedToken)) of
                     Inl e \<Rightarrow> (Inl e, t)
                   | Inr sourceBridgeToken \<Rightarrow>
                       (case fst (solveRequiredInputForTargetOutput (cp_quoteUC u) dry now merchantID selectedChainCAIP2 selectedToken sourceBridgeToken
                                    destBridgeAmount destWallet c1) of
                          Inl e \<Rightarrow> (Inl (annotateCreatePaymentEstimateError ''unable to estimate source amount from selected token to bridge token'' e), t)
                        | Inr (requiredSourceAmount, sourceLegRoute, _) \<Rightarrow>
                            composite requiredSourceAmount (''cross-chain-normalized-via-'' @ via) (sourceLegRoute @ '' | '' @ routeSummary) expiresAt t)))"

subsection \<open>Creating a payment\<close>

text \<open>The identifiers, times and faults of one call: the time the expiry is counted from, the quote's, and those of the session.\<close>

record payment_run =
  pr_quoteID :: uuid
  pr_sessionIDs :: session_ids
  pr_now :: time
  pr_quoteNow :: time
  pr_sessionNow :: time
  pr_sessionNow2 :: time
  pr_quoteFault :: fault
  pr_sessionFaults :: session_faults

definition payment_input_error :: "CreatePaymentUsecase \<Rightarrow> PaymentSessionInput \<Rightarrow> gerror option" where
  "payment_input_error u input =
     (if TrimSpace (cpi_ChainID input) = [] then Some (BadRequest ''chain_id is required'')
      else if TrimSpace (cpi_SelectedToken input) = [] then Some (BadRequest ''selected_token is required'')
      else if TrimSpace (cpi_RequestedAmount input) = [] then Some (BadRequest ''requested_amount is required'')
      else
        let pricingType = TrimSpace (cpi_PricingType input) in
        if pricingType = [] then Some (BadRequest ''pricing_type is required'')
        else if pricingType \<noteq> CreatePaymentPricingTypeInvoiceCurrency \<and> pricingType \<noteq> CreatePaymentPricingTypePaymentTokenFixed \<and>
                pricingType \<noteq> CreatePaymentPricingTypePaymentTokenDyn then Some (BadRequest ''unsupported pricing_type'')
        else if \<not> cp_configured u then Some (InternalServerError ''create payment orchestrator is not configured'')
        else None)"

text \<open>What a call looks up before it prices the payment.\<close>

record payment_context =
  pc_merchantID :: uuid
  pc_settlement :: resolvedMerchantSettlementConfig
  pc_chainCAIP2 :: string
  pc_selectedToken :: Token
  pc_wallet :: string
  pc_expiresAt :: time
  pc_unlimited :: bool

definition resolve_payment :: "CreatePaymentUsecase \<Rightarrow> time \<Rightarrow> PaymentSessionInput \<Rightarrow> payment_context result" where
  "resolve_payment u now input =
     (case resolveMerchantID input of Inl e \<Rightarrow> Inl e | Inr merchantID \<Rightarrow>
      case payment_input_error u input of Some e \<Rightarrow> Inl e | None \<Rightarrow>
      case cp_merchantByID u merchantID of Inl _ \<Rightarrow> Inl (NotFound ''merchant not found'') | Inr merchant \<Rightarrow>
      if mer_Status merchant \<noteq> MerchantStatusActive then Inl (BadRequest ''merchant account is not active'')
      else
        let config = resolveMerchantCreatePaymentConfig u merchant in
        case resolveMerchantSettlementConfig u config of Inl e \<Rightarrow> Inl e | Inr settlement \<Rightarrow>
        case ResolveFromAny (cp_uuid u) (cp_chains u) (cpi_ChainID input) of
          Inl e \<Rightarrow> Inl (BadRequest (''invalid chain_id: '' @ error_text e))
        | Inr (chainUUID, chainCAIP2) \<Rightarrow>
        case lookup_active ''selected_token not supported on chain_id'' (cp_tokenByAddress u (TrimSpace (cpi_SelectedToken input)) chainUUID) of
          Inl e \<Rightarrow> Inl e
        | Inr selectedToken \<Rightarrow>
        case resolveMerchantWallet u merchant config of Inl e \<Rightarrow> Inl e | Inr walletAddress \<Rightarrow>
        case resolveCreatePaymentExpiresAt (TrimSpace (cpi_ExpiresIn input)) now of Inl e \<Rightarrow> Inl e | Inr (expiresAt, isUnlimitedExpiry) \<Rightarrow>
        Inr \<lparr>pc_merchantID = merchantID, pc_settlement = settlement, pc_chainCAIP2 = chainCAIP2, pc_selectedToken = selectedToken, pc_wallet = walletAddress,
             pc_expiresAt = expiresAt, pc_unlimited = isUnlimitedExpiry\<rparr>)"

definition price_payment ::
  "CreatePaymentUsecase \<Rightarrow> payment_run \<Rightarrow> PaymentSessionInput \<Rightarrow> payment_context \<Rightarrow> PaymentQuote table \<Rightarrow> quoteRequestCache option \<Rightarrow>
   CreatePartnerQuoteOutput result \<times> PaymentQuote table" where
  "price_payment u R input p t c =
     (let amount = TrimSpace (cpi_RequestedAmount input); pricingType = TrimSpace (cpi_PricingType input) in
      if pricingType = CreatePaymentPricingTypeInvoiceCurrency then
        createInvoiceCurrencyQuote u True (pr_quoteFault R) (pr_quoteID R) (pr_quoteNow R) (pc_merchantID p) (pc_chainCAIP2 p) (pc_selectedToken p) (pc_settlement p)
          amount (pc_wallet p) (pc_expiresAt p) t c
      else
        createSyntheticSelectedTokenQuote u (pr_quoteFault R) (pr_quoteID R) (pr_quoteNow R) (pc_merchantID p) (pc_chainCAIP2 p) (pc_selectedToken p) pricingType
          amount (pc_settlement p) (pc_expiresAt p) t)"

definition payment_output ::
  "PaymentSessionInput \<Rightarrow> payment_context \<Rightarrow> CreatePartnerQuoteOutput \<Rightarrow> CreatePartnerPaymentSessionOutput \<Rightarrow> PaymentSessionOutput" where
  "payment_output input p quoteOut sessionOut =
     \<lparr>cpo_PaymentID = cso_PaymentID sessionOut, cpo_MerchantID = cso_MerchantID sessionOut, cpo_Amount = cso_Amount sessionOut,
      cpo_InvoiceCurrency = token_Symbol (rc_InvoiceToken (pc_settlement p)), cpo_InvoiceAmount = TrimSpace (cpi_RequestedAmount input),
      cpo_PayerSelectedChain = pc_chainCAIP2 p, cpo_PayerSelectedToken = token_ContractAddress (pc_selectedToken p),
      cpo_PayerSelectedTokenSymbol = token_Symbol (pc_selectedToken p), cpo_QuotedTokenSymbol = qo_SelectedTokenSymbol quoteOut,
      cpo_QuotedTokenAmount = smallestUnitToDecimalString (qo_QuotedAmount quoteOut) (qo_QuoteDecimals quoteOut),
      cpo_QuotedTokenAmountAtomic = qo_QuotedAmount quoteOut, cpo_QuotedTokenDecimals = qo_QuoteDecimals quoteOut, cpo_QuoteRate = qo_QuoteRate quoteOut,
      cpo_QuoteSource = qo_PriceSource quoteOut, cpo_QuoteExpiresAt = qo_QuoteExpiresAt quoteOut, cpo_IsUnlimitedExpiry = pc_unlimited p,
      cpo_DestChain = cso_DestChain sessionOut, cpo_DestToken = cso_DestToken sessionOut, cpo_DestWallet = cso_DestWallet sessionOut,
      cpo_SettlementDestChain = cso_DestChain sessionOut, cpo_SettlementDestToken = cso_DestToken sessionOut, cpo_SettlementDestWallet = cso_DestWallet sessionOut,
      cpo_ExpireTime = cso_ExpireTime sessionOut, cpo_PaymentURL = cso_PaymentURL sessionOut, cpo_PaymentCode = cso_PaymentCode sessionOut,
      cpo_PaymentInstruction = cso_PaymentInstruction sessionOut\<rparr>"

definition CreatePayment_session ::
  "CreatePaymentUsecase \<Rightarrow> payment_run \<Rightarrow> PaymentSessionInput option \<Rightarrow> session_db \<Rightarrow> PaymentSessionOutput result \<times> session_db" where
  "CreatePayment_session u R inp db =
     (case inp of
        None \<Rightarrow> (Inl (BadRequest ''input is required''), db)
      | Some input \<Rightarrow>
          (case resolve_payment u (pr_now R) input of
             Inl e \<Rightarrow> (Inl e, db)
           | Inr p \<Rightarrow>
               (case price_payment u R input p (sdb_quotes db) (Some newQuoteRequestCache) of
                  (Inl e, t) \<Rightarrow> (Inl e, db\<lparr>sdb_quotes := t\<rparr>)
                | (Inr quoteOut, t) \<Rightarrow>
                    let db1 = db\<lparr>sdb_quotes := t\<rparr> in
                    (case uuid_Parse (cp_uuid u) (qo_QuoteID quoteOut) of
                       None \<Rightarrow> (Inl (InternalServerError ''invalid quote id generated''), db1)
                     | Some quoteID \<Rightarrow>
                         (case CreateSession (cp_sessionUC u) (pr_sessionFaults R) (pr_sessionIDs R) (pr_sessionNow R) (pr_sessionNow2 R)
                                 (Some \<lparr>csi_MerchantID = pc_merchantID p, csi_QuoteID = quoteID, csi_DestWallet = pc_wallet p,
                                        csi_DestChainOverride = rc_DestChainCAIP2 (pc_settlement p),
                                        csi_DestTokenOverride = token_ContractAddress (rc_DestToken (pc_settlement p))\<rparr>) db1 of
                            (Inl e, db2) \<Rightarrow> (Inl e, db2)
                          | (Inr sessionOut, db2) \<Rightarrow> (Inr (payment_output input p quoteOut sessionOut), db2))))))"

subsection \<open>Reading a payment\<close>

definition stringValueOrDefault :: "string option \<Rightarrow> string \<Rightarrow> string" where
  "stringValueOrDefault input fallback =
     (case input of None \<Rightarrow> fallback | Some s \<Rightarrow> let v = TrimSpace s in if v = [] then fallback else v)"

definition readInstructionProgramID :: "PartnerPaymentSession \<Rightarrow> string" where
  "readInstructionProgramID s =
     (if HasPrefix (ToLower (sess_DestChain s)) ''solana:'' then
        (if TrimSpace (sess_InstructionTo s) \<noteq> [] then TrimSpace (sess_InstructionTo s) else TrimSpace (sess_DestToken s))
      else [])"

definition payment_read_model :: "uuid_lib \<Rightarrow> PaymentQuote option \<Rightarrow> PartnerPaymentSession \<Rightarrow> PaymentSessionOutput" where
  "payment_read_model L quote s =
     (let pick = (\<lambda>field own. case quote of None \<Rightarrow> own | Some q \<Rightarrow> if TrimSpace (field q) \<noteq> [] then TrimSpace (field q) else own);
          quotedAtomic = pick quote_QuotedAmount (TrimSpace (sess_PaymentAmount s));
          quotedDecimals = (case quote of
             Some q \<Rightarrow> if quote_SelectedTokenDecimals q > 0 then quote_SelectedTokenDecimals q else sess_PaymentAmountDecimals s
           | None \<Rightarrow> sess_PaymentAmountDecimals s);
          quoteExpiresAt = (case sess_QuoteExpiresAt s of Some t \<Rightarrow> t | None \<Rightarrow> sess_ExpiresAt s) in
      \<lparr>cpo_PaymentID = uuid_String L (sess_ID s), cpo_MerchantID = uuid_String L (sess_MerchantID s), cpo_Amount = sess_PaymentAmount s,
       cpo_InvoiceCurrency = sess_InvoiceCurrency s, cpo_InvoiceAmount = sess_InvoiceAmount s, cpo_PayerSelectedChain = sess_SelectedChainID s,
       cpo_PayerSelectedToken = sess_SelectedTokenAddress s, cpo_PayerSelectedTokenSymbol = sess_SelectedTokenSymbol s,
       cpo_QuotedTokenSymbol = pick quote_SelectedTokenSymbol (TrimSpace (sess_SelectedTokenSymbol s)),
       cpo_QuotedTokenAmount = smallestUnitToDecimalString quotedAtomic quotedDecimals, cpo_QuotedTokenAmountAtomic = quotedAtomic,
       cpo_QuotedTokenDecimals = quotedDecimals, cpo_QuoteRate = pick quote_QuoteRate (stringValueOrDefault (sess_QuoteRate s) []),
       cpo_QuoteSource = pick quote_PriceSource (stringValueOrDefault (sess_QuoteSource s) []),
       cpo_QuoteExpiresAt = (case quote of Some q \<Rightarrow> if quote_ExpiresAt q \<noteq> zero_time then quote_ExpiresAt q else quoteExpiresAt | None \<Rightarrow> quoteExpiresAt),
       cpo_IsUnlimitedExpiry = isUnlimitedExpiryTime (sess_ExpiresAt s), cpo_DestChain = sess_DestChain s, cpo_DestToken = sess_DestToken s,
       cpo_DestWallet = sess_DestWallet s, cpo_SettlementDestChain = sess_DestChain s, cpo_SettlementDestToken = sess_DestToken s,
       cpo_SettlementDestWallet = sess_DestWallet s, cpo_ExpireTime = sess_ExpiresAt s,
       cpo_PaymentURL = normalizePaymentURLWithSessionID L (sess_PaymentURL s) (sess_ID s), cpo_PaymentCode = sess_PaymentCode s,
       cpo_PaymentInstruction = \<lparr>ins_ChainID = sess_DestChain s, ins_To = sess_InstructionTo s, ins_Value = sess_InstructionValue s,
         ins_Data = sess_InstructionDataHex s, ins_ProgramID = readInstructionProgramID s, ins_DataBase58 = sess_InstructionDataBase58 s,
         ins_DataBase64 = sess_InstructionDataBase64 s, ins_ApprovalTo = sess_InstructionApprovalTo s, ins_ApprovalHex = sess_InstructionApprovalDataHex s\<rparr>\<rparr>)"

text \<open>
  A pending session past its end is marked expired on the way; whether this succeeds does not matter to the answer. The read and the update are two
  statements: \<open>between\<close> is what other requests do to the database in the meantime.
\<close>

definition GetPayment_session ::
  "CreatePaymentUsecase \<Rightarrow> fault \<Rightarrow> fault \<Rightarrow> fault \<Rightarrow> (session_db \<Rightarrow> session_db) \<Rightarrow> time \<Rightarrow> uuid \<Rightarrow> session_db \<Rightarrow>
   PaymentSessionOutput result \<times> session_db" where
  "GetPayment_session u flt fltUpdate fltQuote between now paymentID db =
     (if paymentID = uuid_Nil then (Inl (BadRequest ''payment id is required''), db)
      else if \<not> cp_hasSessions u then (Inl (InternalServerError ''create payment read service is not configured''), db)
      else
        case session_GetByID flt (sdb_sessions db) paymentID of
          Inl _ \<Rightarrow> (Inl (NotFound ''payment not found''), db)
        | Inr s \<Rightarrow>
            let expired = sess_Status s = SessionStatusPending \<and> \<not> isUnlimitedExpiryTime (sess_ExpiresAt s) \<and> now > sess_ExpiresAt s;
                db1 = between db;
                db' = (if expired then db1\<lparr>sdb_sessions := snd (session_UpdateStatus fltUpdate now (sdb_sessions db1) paymentID SessionStatusExpired)\<rparr> else db1);
                quote = (case sess_QuoteID s of
                           None \<Rightarrow> None
                         | Some k \<Rightarrow> (case quote_GetByID fltQuote (sdb_quotes db') k of Inr q \<Rightarrow> Some q | Inl _ \<Rightarrow> None)) in
            (Inr (payment_read_model (cp_uuid u) quote s), db'))"

subsection \<open>When a payment ends\<close>

lemma ToLower_nat_string: "ToLower (nat_string n) = nat_string n"
  using nat_string_is_dec [of n] by (auto simp: ToLower_def is_dec_def lower_char_def intro!: map_idI)

lemma nat_string_not_unlimited: "nat_string n \<noteq> ''unlimited''"
  using nat_string_is_dec [of n] by (auto simp: is_dec_def)

lemma TrimSpace_nat_string: "TrimSpace (nat_string n) = nat_string n"
  using TrimSpace_int_string [of "int n"] by (simp add: int_string_def)

lemma Atoi_nat_string: "Atoi (nat_string n) = (if n < 2 ^ 63 then Some (int n) else None)"
proof -
  have "SetString10 (nat_string n) = Some (int n)" using SetString10_int_string [of "int n"] by (simp add: int_string_def)
  then show ?thesis by (simp add: Atoi_def ParseInt64_def)
qed

text \<open>
  Property C17. An accepted payment ends between thirty seconds and a day from now, or never when the caller asked for that;
  but the check is made on a product that wraps at 64 bits, so that a wish of more than five hundred years is accepted as an hour.
\<close>

theorem expiry_bounds:
  "(case resolveCreatePaymentExpiresAt raw now of
      Inl e \<Rightarrow> Status e = 400
    | Inr (t, unlimited) \<Rightarrow>
        if unlimited then TrimSpace (ToLower raw) = ''unlimited'' \<and> t = createPaymentUnlimitedExpiryAt
        else now + 30 * second \<le> t \<and> t \<le> now + 86400 * second) \<and>
   resolveCreatePaymentExpiresAt (nat_string 18446747674) now = Inr (now + 3600290448384, False)"
proof
  show "case resolveCreatePaymentExpiresAt raw now of
      Inl e \<Rightarrow> Status e = 400
    | Inr (t, unlimited) \<Rightarrow>
        if unlimited then TrimSpace (ToLower raw) = ''unlimited'' \<and> t = createPaymentUnlimitedExpiryAt
        else now + 30 * second \<le> t \<and> t \<le> now + 86400 * second"
    by (simp add: resolveCreatePaymentExpiresAt_def Let_def app_error_defs ttl_defs split: option.splits)
  have "wrap64 (18446747674 * second) = 3600290448384" by (simp add: wrap64_def second_def)
  then show "resolveCreatePaymentExpiresAt (nat_string 18446747674) now = Inr (now + 3600290448384, False)"
    using nat_string_not_unlimited [of 18446747674] nat_string_not_Nil [of 18446747674]
    by (simp add: resolveCreatePaymentExpiresAt_def Let_def ToLower_nat_string TrimSpace_nat_string Atoi_nat_string ttl_defs)
qed

subsection \<open>What creating a payment does\<close>

lemma quote_Create_stores:
  assumes "quote_Create flt newID now t q = Inr t'" "quote_ID q = newID" "newID \<noteq> uuid_Nil" "quote_CreatedAt q = now" "quote_UpdatedAt q = now"
  shows "t' = t @ [q] \<and> newID \<notin> quote_ID ` set t"
  using assms by (auto simp: quote_Create_def insert_row_def split: option.splits if_splits)

text \<open>A quote that belongs to the payment it is made for.\<close>

definition quote_for :: "payment_run \<Rightarrow> payment_context \<Rightarrow> PaymentQuote \<Rightarrow> bool" where
  "quote_for R p q \<longleftrightarrow> quote_ID q = pr_quoteID R \<and> quote_MerchantID q = pc_merchantID p \<and> quote_is_active q \<and>
     (pc_expiresAt p \<noteq> zero_time \<longrightarrow> quote_ExpiresAt q = pc_expiresAt p) \<and>
     (pc_chainCAIP2 p \<noteq> rc_DestChainCAIP2 (pc_settlement p) \<longrightarrow> quote_SelectedChainID q = pc_chainCAIP2 p)"

lemma createCompositeQuote_stores:
  assumes "createCompositeQuote u flt newID now merchantID chain token cur dec invoice quoted source route expiresAt t = (Inr out, t')" "newID \<noteq> uuid_Nil"
  shows "\<exists>q. t' = t @ [q] \<and> newID \<notin> quote_ID ` set t \<and> out = stored_quote_output (cp_uuid u) q \<and> quote_ID q = newID \<and> quote_MerchantID q = merchantID \<and>
    quote_is_active q \<and> quote_ExpiresAt q = expiresAt \<and> quote_SelectedChainID q = chain \<and> quote_InvoiceAmount q = invoice \<and> quote_QuotedAmount q = quoted \<and>
    quote_SlippageBps q = partnerQuoteSlippage"
  using assms(1) by (auto simp: createCompositeQuote_def Let_def quote_is_active_def split: sum.splits dest!: quote_Create_stores [OF _ _ assms(2)])

lemma createSyntheticSelectedTokenQuote_stores:
  assumes "createSyntheticSelectedTokenQuote u flt newID now merchantID chain token pricing requested settlement expiresAt t = (Inr out, t')" "newID \<noteq> uuid_Nil"
  shows "\<exists>q. t' = t @ [q] \<and> newID \<notin> quote_ID ` set t \<and> out = stored_quote_output (cp_uuid u) q \<and> quote_ID q = newID \<and> quote_MerchantID q = merchantID \<and>
    quote_is_active q \<and> quote_ExpiresAt q = expiresAt \<and> quote_SelectedChainID q = chain \<and> quote_SlippageBps q = 0 \<and>
    quote_InvoiceAmount q = quote_QuotedAmount q \<and> convertToSmallestUnit (cp_digit u) requested (token_Decimals token) = Inr (quote_QuotedAmount q)"
  using assms(1)
  by (auto simp: createSyntheticSelectedTokenQuote_def Let_def quote_is_active_def split: sum.splits dest!: quote_Create_stores [OF _ _ assms(2)])

lemma solve_positive:
  assumes "solveRequiredInputForTargetOutput u dry now merchant caip2 i j targetText wallet c = (Inr (amount, route, source), c')"
  shows "\<exists>n>0. amount = int_string n"
proof -
  let ?f = "quoteForInput u dry now merchant caip2 i j wallet"
  have "0 < n" if "search_input ?f target j ctx hint s = (Inr (n, x), s')" for target ctx hint s n x s'
    using search_input_reached [OF that] by (auto simp: was_reached_def quoteForInput_def split: if_splits)
  moreover have "0 < n" if "inverse_preview u dry merchant caip2 i j target d = (Inl (n, x), d')" for target d n x d'
    using that by (auto simp: inverse_preview_def split: if_splits prod.splits sum.splits option.splits dest: positive_amount_pos)
  ultimately show ?thesis
    using assms by (auto simp: solveRequiredInputForTargetOutput_def with_cache_def Let_def prod_eq_iff split: option.splits prod.splits sum.splits if_splits) blast+
qed

text \<open>The three ways to price in the settlement currency: the quote use case, the bridge token itself, and the search on the payer's chain.\<close>

lemma createInvoiceCurrencyQuote_cases:
  assumes "createInvoiceCurrencyQuote u dry flt newID now merchantID chain token settlement requested wallet expiresAt t c = (Inr out, t')"
  obtains invoice where "convertToSmallestUnit (cp_digit u) requested (token_Decimals (rc_InvoiceToken settlement)) = Inr invoice"
      "chain = rc_DestChainCAIP2 settlement" "CreateQuote (cp_quoteUC u) dry flt newID now t
         (Some \<lparr>qi_MerchantID = merchantID, qi_InvoiceCurrency = token_Symbol (rc_InvoiceToken settlement),
                qi_InvoiceToken = token_ContractAddress (rc_InvoiceToken settlement), qi_InvoiceAmount = invoice, qi_SelectedChain = chain,
                qi_SelectedToken = token_ContractAddress token, qi_DestWallet = wallet, qi_ExpiresAtOverride = Some expiresAt\<rparr>) c = (Inr out, t')"
  | invoice quoted source route where "convertToSmallestUnit (cp_digit u) requested (token_Decimals (rc_InvoiceToken settlement)) = Inr invoice"
      "chain \<noteq> rc_DestChainCAIP2 settlement"
      "quoted = invoice \<or> (\<exists>n>0. quoted = int_string n)"
      "createCompositeQuote u flt newID now merchantID chain token (token_Symbol (rc_InvoiceToken settlement)) (token_Decimals (rc_InvoiceToken settlement)) invoice
         quoted source route expiresAt t = (Inr out, t')"
proof -
  obtain invoice where inv: "convertToSmallestUnit (cp_digit u) requested (token_Decimals (rc_InvoiceToken settlement)) = Inr invoice"
    using assms by (auto simp: createInvoiceCurrencyQuote_def split: sum.splits)
  show ?thesis
  proof (cases "chain = rc_DestChainCAIP2 settlement")
    case True
    then show ?thesis using that(1) [OF inv] assms inv by (simp add: createInvoiceCurrencyQuote_def Let_def)
  next
    case False
    obtain bridge route x c1 where b: "resolveCrossChainBridgeAmount u dry now merchantID settlement invoice wallet c = (Inr (bridge, route, x), c1)"
      using assms inv False by (auto simp: createInvoiceCurrencyQuote_def Let_def split: prod.splits sum.splits)
    have bridge: "bridge = invoice \<or> (\<exists>n>0. bridge = int_string n)"
      using b by (auto simp: resolveCrossChainBridgeAmount_def qlift_def elim!: qcatchE split: if_splits sum.splits dest!: solve_positive)
    show ?thesis
    proof (cases "EqualFold (token_Symbol token) (rc_BridgeTokenSymbol settlement)")
      case True
      then show ?thesis using that(2) [OF inv False bridge] assms inv False b by (simp add: createInvoiceCurrencyQuote_def Let_def)
    next
      case other: False
      obtain sb amount leg y c2 where sol: "solveRequiredInputForTargetOutput (cp_quoteUC u) dry now merchantID chain token sb bridge wallet c1 = (Inr (amount, leg, y), c2)"
        and comp: "createCompositeQuote u flt newID now merchantID chain token (token_Symbol (rc_InvoiceToken settlement))
          (token_Decimals (rc_InvoiceToken settlement)) invoice amount (''cross-chain-normalized-via-'' @ ToLower (rc_BridgeTokenSymbol settlement))
          (leg @ '' | '' @ route) expiresAt t = (Inr out, t')"
        using assms inv False other b by (auto simp: createInvoiceCurrencyQuote_def Let_def prod_eq_iff split: sum.splits)
      from solve_positive [OF sol] have "amount = invoice \<or> (\<exists>n>0. amount = int_string n)" by blast
      from that(2) [OF inv False this comp] show ?thesis .
    qed
  qed
qed

lemma price_payment_stores:
  assumes "price_payment u R input p t c = (Inr out, t')" "pr_quoteID R \<noteq> uuid_Nil" "pq_uuid (cp_quoteUC u) = cp_uuid u"
  shows "\<exists>q. t' = t @ [q] \<and> pr_quoteID R \<notin> quote_ID ` set t \<and> quote_for R p q \<and> out = stored_quote_output (cp_uuid u) q"
proof (cases "TrimSpace (cpi_PricingType input) = CreatePaymentPricingTypeInvoiceCurrency")
  case True
  with assms(1) have "createInvoiceCurrencyQuote u True (pr_quoteFault R) (pr_quoteID R) (pr_quoteNow R) (pc_merchantID p) (pc_chainCAIP2 p) (pc_selectedToken p)
      (pc_settlement p) (TrimSpace (cpi_RequestedAmount input)) (pc_wallet p) (pc_expiresAt p) t c = (Inr out, t')"
    by (simp add: price_payment_def Let_def)
  then show ?thesis
  proof (cases rule: createInvoiceCurrencyQuote_cases)
    case (1 invoice)
    from 1(3) assms(2) show ?thesis
      by (rule CreateQuote_stores)
        (use 1(2) assms(3) in \<open>auto simp: quote_for_def quote_is_active_def new_quote_def quote_output_def stored_quote_output_def\<close>)
  next
    case (2 invoice quoted source route)
    from createCompositeQuote_stores [OF 2(4) assms(2)] show ?thesis by (auto simp: quote_for_def)
  qed
next
  case False
  with assms(1) have "createSyntheticSelectedTokenQuote u (pr_quoteFault R) (pr_quoteID R) (pr_quoteNow R) (pc_merchantID p) (pc_chainCAIP2 p) (pc_selectedToken p)
      (TrimSpace (cpi_PricingType input)) (TrimSpace (cpi_RequestedAmount input)) (pc_settlement p) (pc_expiresAt p) t = (Inr out, t')"
    by (simp add: price_payment_def Let_def)
  from createSyntheticSelectedTokenQuote_stores [OF this assms(2)] show ?thesis by (auto simp: quote_for_def)
qed

lemma price_payment_Inl: "price_payment u R input p t c = (Inl e, t') \<Longrightarrow> t' = t"
  by (auto simp: price_payment_def createInvoiceCurrencyQuote_def createSyntheticSelectedTokenQuote_def createCompositeQuote_def CreateQuote_def createQuoteCore_def
      Let_def split: if_splits sum.splits prod.splits)

text \<open>The steps of a call that succeeds.\<close>

lemma CreatePayment_session_Inr:
  assumes "CreatePayment_session u R (Some input) db = (Inr out, db')" "pr_quoteID R \<noteq> uuid_Nil" "pq_uuid (cp_quoteUC u) = cp_uuid u" "uuid_lib_ok (cp_uuid u)"
  obtains p q so where "resolve_payment u (pr_now R) input = Inr p" "quote_for R p q" "pr_quoteID R \<notin> quote_ID ` set (sdb_quotes db)"
    "CreateSession (cp_sessionUC u) (pr_sessionFaults R) (pr_sessionIDs R) (pr_sessionNow R) (pr_sessionNow2 R)
       (Some \<lparr>csi_MerchantID = pc_merchantID p, csi_QuoteID = pr_quoteID R, csi_DestWallet = pc_wallet p, csi_DestChainOverride = rc_DestChainCAIP2 (pc_settlement p),
              csi_DestTokenOverride = token_ContractAddress (rc_DestToken (pc_settlement p))\<rparr>) (db\<lparr>sdb_quotes := sdb_quotes db @ [q]\<rparr>) = (Inr so, db')"
    "out = payment_output input p (stored_quote_output (cp_uuid u) q) so"
proof -
  obtain p where p: "resolve_payment u (pr_now R) input = Inr p" using assms(1) by (auto simp: CreatePayment_session_def split: sum.splits)
  obtain qo t where qo: "price_payment u R input p (sdb_quotes db) (Some newQuoteRequestCache) = (Inr qo, t)"
    using assms(1) p by (auto simp: CreatePayment_session_def split: sum.splits prod.splits)
  obtain q where q: "t = sdb_quotes db @ [q]" "pr_quoteID R \<notin> quote_ID ` set (sdb_quotes db)" "quote_for R p q" "qo = stored_quote_output (cp_uuid u) q"
    using price_payment_stores [OF qo assms(2,3)] by blast
  have "uuid_Parse (cp_uuid u) (qo_QuoteID qo) = Some (pr_quoteID R)"
    using q(3) uuid_lib_okD(1) [OF assms(4)] by (simp add: q(4) stored_quote_output_def quote_for_def)
  with assms(1) p qo q that show ?thesis by (auto simp: CreatePayment_session_def Let_def split: sum.splits prod.splits)
qed

lemma resolve_payment_merchant:
  assumes "resolve_payment u now input = Inr p"
  shows "pc_merchantID p = cpi_MerchantContextID input"
    and "\<exists>merchant. cp_merchantByID u (cpi_MerchantContextID input) = Inr merchant \<and> mer_Status merchant = MerchantStatusActive"
    and "resolveCreatePaymentExpiresAt (TrimSpace (cpi_ExpiresIn input)) now = Inr (pc_expiresAt p, pc_unlimited p)"
proof -
  have m: "resolveMerchantID input = Inr k \<Longrightarrow> k = cpi_MerchantContextID input" for k
    by (auto simp: resolveMerchantID_def split: if_splits)
  show "pc_merchantID p = cpi_MerchantContextID input"
    and "\<exists>merchant. cp_merchantByID u (cpi_MerchantContextID input) = Inr merchant \<and> mer_Status merchant = MerchantStatusActive"
    and "resolveCreatePaymentExpiresAt (TrimSpace (cpi_ExpiresIn input)) now = Inr (pc_expiresAt p, pc_unlimited p)"
    using assms by (auto simp: resolve_payment_def Let_def dest!: m split: sum.splits option.splits if_splits prod.splits)
qed

text \<open>The effect of the session on the database that holds the new quote.\<close>

lemma session_of_new_quote:
  assumes "CreateSession D F ids now now2 (Some input) (db\<lparr>sdb_quotes := sdb_quotes db @ [q]\<rparr>) = (Inr so, db')"
    and "csi_QuoteID input = quote_ID q" "quote_ID q \<notin> quote_ID ` set (sdb_quotes db)" "distinct (map quote_ID (sdb_quotes db))"
  obtains s m where "sdb_quotes db' = sdb_quotes db @ [q\<lparr>quote_Status := PaymentQuoteStatusUsed, quote_UsedAt := Some now2, quote_UpdatedAt := now2\<rparr>]"
    "sdb_sessions db' = sdb_sessions db @ [s]" "sdb_requests db' = sdb_requests db @ [m]" "session_for D ids input q s" "output_for D q s so"
    "rrow_Amount m = quote_QuotedAmount q" "si_session ids \<notin> sess_ID ` set (sdb_sessions db)"
proof -
  let ?db = "db\<lparr>sdb_quotes := sdb_quotes db @ [q]\<rparr>"
  obtain J R where tx: "create_session_tx D J R F ids now now2 input ?db = (Inr so, db')" using CreateSession_Inr [OF assms(1)] by auto
  obtain quote m s where e: "quote_GetByID None (sdb_quotes ?db) (csi_QuoteID input) = Inr quote"
      "sdb_requests db' = sdb_requests ?db @ [m]" "rrow_Amount m = quote_QuotedAmount quote"
      "sdb_sessions db' = sdb_sessions ?db @ [s]" "si_session ids \<notin> sess_ID ` set (sdb_sessions ?db)"
      "session_for D ids input quote s" "output_for D quote s so" "sdb_quotes db' = snd (quote_MarkUsed None now2 (sdb_quotes ?db) (quote_ID quote))"
    using create_session_tx_Inr [OF tx] by blast
  have "quote_GetByID None (sdb_quotes ?db) (csi_QuoteID input) = Inr q"
    using get_by_id_found [of quote_ID "sdb_quotes ?db" q] assms(2-4) by (simp add: quote_GetByID_def)
  then have q: "quote = q" using e(1) by simp
  have "map (\<lambda>r. if quote_ID r = quote_ID q then r\<lparr>quote_Status := PaymentQuoteStatusUsed, quote_UsedAt := Some now2, quote_UpdatedAt := now2\<rparr> else r) (sdb_quotes db) =
      sdb_quotes db"
  proof (rule map_idI)
    fix r assume "r \<in> set (sdb_quotes db)"
    then have "quote_ID r \<noteq> quote_ID q" using assms(3) by (metis imageI)
    then show "(if quote_ID r = quote_ID q then r\<lparr>quote_Status := PaymentQuoteStatusUsed, quote_UsedAt := Some now2, quote_UpdatedAt := now2\<rparr> else r) = r" by simp
  qed
  then have "sdb_quotes db' = sdb_quotes db @ [q\<lparr>quote_Status := PaymentQuoteStatusUsed, quote_UsedAt := Some now2, quote_UpdatedAt := now2\<rparr>]"
    using e(8) by (simp add: q quote_MarkUsed_def update_by_id_table)
  with e that show ?thesis by (simp add: q)
qed



lemma get_by_id_updated:
  assumes "distinct (map pk t)" "get_by_id None pk k t = Inr r" "\<And>x. pk (f x) = pk x"
  shows "get_by_id None pk k (snd (update_by_id None pk k f t)) = Inr (f r)" and "distinct (map pk (snd (update_by_id None pk k f t)))"
proof -
  show d: "distinct (map pk (snd (update_by_id None pk k f t)))" using assms(1,3) by (simp add: update_by_id_table comp_def if_distrib cong: if_cong)
  have r: "r \<in> set t" "pk r = k" using get_by_id_InrD [OF assms(2)] by simp_all
  then have "f r \<in> set (snd (update_by_id None pk k f t))" by (force simp: update_by_id_table)
  from get_by_id_found [OF d this] r(2) assms(3) show "get_by_id None pk k (snd (update_by_id None pk k f t)) = Inr (f r)" by simp
qed

text \<open>
  Property C16. Reading a payment can undo its completion: when the session is completed between the read and the update of \<open>GetPayment\<close>, a session that had passed its
  end is set back to expired.
\<close>

theorem read_overwrites_completed:
  assumes "session_GetByID None (sdb_sessions db) k = Inr s" "k \<noteq> uuid_Nil" "cp_hasSessions u" "distinct (map sess_ID (sdb_sessions db))"
    and "sess_Status s = SessionStatusPending" "\<not> isUnlimitedExpiryTime (sess_ExpiresAt s)" "sess_ExpiresAt s < now"
    and "between = (\<lambda>d. d\<lparr>sdb_sessions := snd (session_MarkCompleted None now1 (sdb_sessions d) k h)\<rparr>)"
    and "GetPayment_session u None None fltQuote between now k db = (r, db')"
  shows "\<exists>s1 s2. session_GetByID None (sdb_sessions (between db)) k = Inr s1 \<and> sess_Status s1 = SessionStatusCompleted \<and>
    session_GetByID None (sdb_sessions db') k = Inr s2 \<and> sess_Status s2 = SessionStatusExpired"
proof -
  let ?f = "\<lambda>s. s\<lparr>sess_Status := SessionStatusCompleted, sess_PaidTxHash := Some h, sess_CompletedAt := Some now1, sess_UpdatedAt := now1\<rparr>"
  let ?e = "\<lambda>s. s\<lparr>sess_Status := SessionStatusExpired, sess_UpdatedAt := now\<rparr>"
  have s: "get_by_id None sess_ID k (sdb_sessions db) = Inr s" using assms(1) by (simp add: session_GetByID_def)
  have keep: "sess_ID (?f x) = sess_ID x" "sess_ID (?e x) = sess_ID x" for x by simp_all
  note one = get_by_id_updated [OF assms(4) s keep(1)]
  note two = get_by_id_updated [OF one(2) one(1) keep(2)]
  have db': "sdb_sessions db' = snd (update_by_id None sess_ID k ?e (snd (update_by_id None sess_ID k ?f (sdb_sessions db))))"
    using assms by (auto simp: GetPayment_session_def Let_def session_UpdateStatus_def session_MarkCompleted_def)
  show ?thesis using one(1) two(1) unfolding db' assms(8) by (simp add: session_GetByID_def session_MarkCompleted_def)
qed

subsection \<open>The type of the stored quotes\<close>

text \<open>
  Amounts are decimal numbers in canonical form, a quote has a merchant, one of the two slippages and one of the four states, and a used quote has the time of
  its use. The steps are all that write to the quote table; the amount of a request is ASCII.
\<close>

definition quote_typed :: "PaymentQuote \<Rightarrow> bool" where
  "quote_typed q \<longleftrightarrow> (\<exists>n. quote_InvoiceAmount q = nat_string n) \<and> (\<exists>n. quote_QuotedAmount q = nat_string n) \<and> quote_MerchantID q \<noteq> uuid_Nil \<and>
     quote_SlippageBps q \<in> {0, partnerQuoteSlippage} \<and>
     quote_Status q \<in> {PaymentQuoteStatusActive, PaymentQuoteStatusUsed, PaymentQuoteStatusExpired, PaymentQuoteStatusCancelled} \<and>
     (quote_Status q = PaymentQuoteStatusUsed \<longrightarrow> quote_UsedAt q \<noteq> None)"

inductive quote_step :: "CreatePaymentUsecase \<Rightarrow> session_db \<Rightarrow> session_db \<Rightarrow> bool" for u where
  payment: "CreatePayment_session u R (Some input) db = (r, db') \<Longrightarrow> ascii (cpi_RequestedAmount input) \<Longrightarrow> pr_quoteID R \<noteq> uuid_Nil \<Longrightarrow> quote_step u db db'"
| partner: "CreateQuote (cp_quoteUC u) dry flt newID now (sdb_quotes db) (Some qi) c = (r, t) \<Longrightarrow> newID \<noteq> uuid_Nil \<Longrightarrow> quote_step u db (db\<lparr>sdb_quotes := t\<rparr>)"
| session: "CreateSession (cp_sessionUC u) F ids now now2 inp db = (r, db') \<Longrightarrow> quote_step u db db'"
| cancel: "quote_UpdateStatus flt now (sdb_quotes db) k PaymentQuoteStatusCancelled = (e, t) \<Longrightarrow> quote_step u db (db\<lparr>sdb_quotes := t\<rparr>)"
| expire: "quote_ExpireQuotes flt now (sdb_quotes db) ks = (e, t) \<Longrightarrow> quote_step u db (db\<lparr>sdb_quotes := t\<rparr>)"
| others: "sdb_quotes db' = sdb_quotes db \<Longrightarrow> quote_step u db db'"

lemma converted_typed: "ascii amount \<Longrightarrow> convertToSmallestUnit nd amount d = Inr r \<Longrightarrow> \<exists>n. r = nat_string n"
  by (blast dest: convertToSmallestUnit_accepts)

lemma int_string_typed: "0 < n \<Longrightarrow> \<exists>m. int_string n = nat_string m"
  by (auto simp: int_string_def)

lemma quote_typedI:
  assumes "\<exists>n. quote_InvoiceAmount q = nat_string n" "\<exists>n. quote_QuotedAmount q = nat_string n" "quote_MerchantID q \<noteq> uuid_Nil"
    "quote_SlippageBps q = 0 \<or> quote_SlippageBps q = partnerQuoteSlippage" "quote_is_active q"
  shows "quote_typed q"
  using assms by (auto simp: quote_typed_def quote_is_active_def quote_status_defs)

lemma CreateQuote_typed:
  assumes "CreateQuote uc dry flt newID now t (Some qi) c = (r, t')" "newID \<noteq> uuid_Nil" "q \<in> set t'" "q \<notin> set t"
  shows "quote_typed q"
proof (cases r)
  case (Inl e)
  then show ?thesis using assms by (auto simp: CreateQuote_def createQuoteCore_def Let_def split: sum.splits)
next
  case (Inr out)
  obtain p :: quote_parts and route o' where p: "quote_input_error uc True qi = None" "0 < qp_amount p" "0 < qp_amountIn p"
    and o': "o' = quote_output now qi (qp_caip2 p) (qp_chain p) (qp_invoice p) (qp_selected p) (qp_amountIn p) (qp_amount p) (qp_source p) route (qp_status p)"
    and t': "t' = t @ [new_quote newID now (qi_MerchantID qi) o']"
    by (rule CreateQuote_stores [OF assms(1) [unfolded Inr] assms(2)])
  have "qi_MerchantID qi \<noteq> uuid_Nil" using p(1) by (auto simp: quote_input_error_def split: if_splits)
  then show ?thesis using assms(3,4) p(2,3)
    by (auto intro!: quote_typedI simp: t' new_quote_def o' quote_output_def quote_is_active_def dest: int_string_typed)
qed

lemma price_payment_typed:
  assumes "price_payment u R input p t c = (r, t')" "pr_quoteID R \<noteq> uuid_Nil" "ascii (cpi_RequestedAmount input)" "pc_merchantID p \<noteq> uuid_Nil"
    and "q \<in> set t'" "q \<notin> set t"
  shows "quote_typed q"
proof (cases r)
  case (Inl e)
  then show ?thesis using assms by (auto dest: price_payment_Inl)
next
  case (Inr out)
  let ?amount = "TrimSpace (cpi_RequestedAmount input)"
  have ascii: "ascii ?amount" using assms(3) TrimSpace_set [of "cpi_RequestedAmount input"] by (auto simp: ascii_def)
  show ?thesis
  proof (cases "TrimSpace (cpi_PricingType input) = CreatePaymentPricingTypeInvoiceCurrency")
    case True
    with assms(1) Inr have "createInvoiceCurrencyQuote u True (pr_quoteFault R) (pr_quoteID R) (pr_quoteNow R) (pc_merchantID p) (pc_chainCAIP2 p) (pc_selectedToken p)
        (pc_settlement p) ?amount (pc_wallet p) (pc_expiresAt p) t c = (Inr out, t')"
      by (simp add: price_payment_def Let_def)
    then show ?thesis
    proof (cases rule: createInvoiceCurrencyQuote_cases)
      case (1 invoice)
      then show ?thesis using CreateQuote_typed assms(2,5,6) by blast
    next
      case (2 invoice quoted source route)
      have "\<exists>n. invoice = nat_string n" using converted_typed [OF ascii 2(1)] .
      with 2(3) createCompositeQuote_stores [OF 2(4) assms(2)] assms(4-6) show ?thesis by (auto intro!: quote_typedI dest: int_string_typed)
    qed
  next
    case False
    with assms(1) Inr have "createSyntheticSelectedTokenQuote u (pr_quoteFault R) (pr_quoteID R) (pr_quoteNow R) (pc_merchantID p) (pc_chainCAIP2 p) (pc_selectedToken p)
        (TrimSpace (cpi_PricingType input)) ?amount (pc_settlement p) (pc_expiresAt p) t = (Inr out, t')"
      by (simp add: price_payment_def Let_def)
    from createSyntheticSelectedTokenQuote_stores [OF this assms(2)] converted_typed [OF ascii] assms(4-6) show ?thesis by (auto intro!: quote_typedI)
  qed
qed

lemma quote_typed_updates:
  assumes "quote_typed q"
  shows "quote_typed (q\<lparr>quote_Status := PaymentQuoteStatusCancelled, quote_UpdatedAt := now\<rparr>)" and "quote_typed (expire_quote now q)"
    and "quote_typed (q\<lparr>quote_Status := PaymentQuoteStatusUsed, quote_UsedAt := Some now, quote_UpdatedAt := now\<rparr>)"
  using assms by (simp_all add: quote_typed_def expire_quote_def quote_status_defs)

lemma CreateSession_typed:
  assumes "CreateSession D F ids now now2 inp db = (r, db')" "\<forall>q\<in>set (sdb_quotes db). quote_typed q"
  shows "\<forall>q\<in>set (sdb_quotes db'). quote_typed q"
proof (cases r)
  case (Inl e)
  then show ?thesis using CreateSession_Inl assms by fastforce
next
  case (Inr so)
  obtain input J R where tx: "create_session_tx D J R F ids now now2 input db = (Inr so, db')" using CreateSession_Inr assms(1) Inr by blast
  obtain quote :: PaymentQuote where "sdb_quotes db' = snd (quote_MarkUsed None now2 (sdb_quotes db) (quote_ID quote))" using create_session_tx_Inr [OF tx] by blast
  then show ?thesis using assms(2) quote_typed_updates(3) by (auto simp: quote_MarkUsed_def update_by_id_table)
qed

lemma CreatePayment_session_typed:
  assumes "CreatePayment_session u R (Some input) db = (r, db')" "pr_quoteID R \<noteq> uuid_Nil" "ascii (cpi_RequestedAmount input)"
    and "\<forall>q\<in>set (sdb_quotes db). quote_typed q"
  shows "\<forall>q\<in>set (sdb_quotes db'). quote_typed q"
proof -
  have step: "\<forall>q\<in>set t'. quote_typed q" if "price_payment u R input p (sdb_quotes db) c = (x, t')" "resolve_payment u (pr_now R) input = Inr p" for p c x t'
  proof -
    have "pc_merchantID p \<noteq> uuid_Nil" using that(2) by (auto simp: resolve_payment_def resolveMerchantID_def Let_def split: sum.splits option.splits if_splits prod.splits)
    from price_payment_typed [OF that(1) assms(2,3) this] assms(4) show ?thesis by blast
  qed
  show ?thesis using assms(1,4) step
    by (fastforce simp: CreatePayment_session_def Let_def dest!: CreateSession_typed split: sum.splits prod.splits option.splits)
qed

text \<open>
  Property C11. Whatever the program does, the quotes it stores have their type: along every history of the operations that write them, amounts are canonical decimal
  numbers, slippage and status are among the values the program knows, and a used quote says when it was used.
\<close>

theorem stored_quotes_typed:
  assumes "(quote_step u)\<^sup>*\<^sup>* db db'" "\<forall>q\<in>set (sdb_quotes db). quote_typed q"
  shows "\<forall>q\<in>set (sdb_quotes db'). quote_typed q"
  using assms
proof (induction rule: rtranclp_induct)
  case (step y z)
  from step.hyps(2) step.IH [OF step.prems] show ?case
  proof (cases rule: quote_step.cases)
    case (partner dry flt newID now qi c r t)
    have "quote_typed q" if "q \<in> set t" for q
      using CreateQuote_typed [OF partner(2,3) that] step.IH [OF step.prems] by blast
    then show ?thesis by (simp add: partner(1))
  next
    case (cancel flt now k e t)
    then have "t = snd (quote_UpdateStatus flt now (sdb_quotes y) k PaymentQuoteStatusCancelled)" by simp
    then show ?thesis using cancel(1) step.IH [OF step.prems] quote_typed_updates(1)
      by (auto simp: quote_UpdateStatus_def update_by_id_table)
  next
    case (expire flt now ks e t)
    then show ?thesis using step.IH [OF step.prems] quote_typed_updates(2)
      by (auto simp: quote_ExpireQuotes_def expire_keys_def split: option.splits if_splits)
  qed (auto dest: CreatePayment_session_typed CreateSession_typed)
qed

subsection \<open>Witnesses\<close>

lemma CreateSession_succeeds:
  assumes "sd_uow D" "sd_jwe D = Some J" "sd_paymentRequestLogic D = Some L" "\<And>p. jwe_Encrypt J p = Inr (seal p)"
    and "quote_GetByID None (sdb_quotes db) (csi_QuoteID input) = Inr q" "quote_MerchantID q = csi_MerchantID input" "quote_is_active q"
    and "isUnlimitedExpiryTime (quote_ExpiresAt q) \<or> now \<le> quote_ExpiresAt q"
    and "ResolveFromAny (sd_uuid D) (sd_chains D) (quote_SelectedChainID q) = Inr (k, caip2)" "sd_tokenByAddress D (quote_SelectedTokenAddress q) k = Inr (Some tok)"
    and "ResolveFromAny (sd_uuid D) (sd_chains D) (coalesceString (TrimSpace (csi_DestChainOverride input)) (quote_SelectedChainID q)) = Inr (dk, dcaip2)"
    and "csi_MerchantID input \<noteq> uuid_Nil" "csi_QuoteID input \<noteq> uuid_Nil" "TrimSpace (csi_DestWallet input) \<noteq> []"
    and "sdb_requests db = []" "sdb_sessions db = []"
  shows "\<exists>out db'. CreateSession D no_faults ids now now2 (Some input) db = (Inr out, db')"
proof -
  have "quote_ID q = csi_QuoteID input" "q \<in> set (sdb_quotes db)"
    using assms(5) get_by_id_InrD by (fastforce simp: quote_GetByID_def)+
  then have "fst (quote_MarkUsed None now2 (sdb_quotes db) (quote_ID q)) = None"
    by (auto simp: quote_MarkUsed_def update_by_id_def update_where_def filter_empty_conv split: if_splits)
  then have "\<exists>out db'. create_session_tx D J L no_faults ids now now2 input db = (Inr out, db')"
    using assms(4-11,15,16)
    by (auto simp: create_session_tx_def persist_session_def Let_def request_Create_def session_Create_def insert_row_def no_faults_def quote_is_active_def
        not_less split: prod.splits option.splits)
  then show ?thesis using assms(1-3,12-14) by (auto simp: CreateSession_def uow_run_def no_faults_def split: prod.splits)
qed

text \<open>A merchant who settles in \<open>USDC\<close> on chain 7 and a payer who chooses the same chain.\<close>

definition pay_merchant :: Merchant where
  "pay_merchant = \<lparr>mer_ID = 9, mer_UserID = 4, mer_BusinessName = ''Shop'', mer_BusinessEmail = [], mer_MerchantType = MerchantTypePartner, mer_Status = MerchantStatusActive,
     mer_TaxID = None, mer_BusinessAddress = None, mer_Documents = None, mer_FeeDiscountPercent = [], mer_CallbackURL = [], mer_WebhookSecret = [], mer_WebhookIsActive = False,
     mer_SupportEmail = [], mer_LogoURL = [], mer_WebhookMetadata = None, mer_Metadata = None, mer_VerifiedAt = None, mer_CreatedAt = 1, mer_UpdatedAt = 1\<rparr>"

definition pay_profile :: MerchantSettlementProfile where
  "pay_profile = \<lparr>msp_ID = 1, msp_MerchantID = 9, msp_InvoiceCurrency = ''USDC'', msp_DestChain = ''eip155:8453'', msp_DestToken = ''0xbb'', msp_DestWallet = ''0xw'',
     msp_BridgeTokenSymbol = ''USDC'', msp_CreatedAt = 1, msp_UpdatedAt = 1\<rparr>"

definition pay_deps :: session_deps where
  "pay_deps = sample_session_deps\<lparr>sd_jwe := Some \<lparr>jwe_Encrypt = (\<lambda>p. Inr ''sealed''), jwe_Decrypt = (\<lambda>c. Inr sample_payload)\<rparr>\<rparr>"

definition pay_usecase :: CreatePaymentUsecase where
  "pay_usecase = \<lparr>cp_configured = True, cp_hasSessions = True, cp_merchantByID = (\<lambda>k. Inr pay_merchant), cp_profileByMerchantID = (\<lambda>k. Inr pay_profile),
     cp_walletsByUserID = (\<lambda>k. Inr []), cp_tokenByAddress = (\<lambda>a k. Inr (token_named ''USDC'' a)), cp_tokenBySymbol = (\<lambda>s k. Inr (token_named s ''0xbb'')),
     cp_chains = chainRepo take base_db, cp_uuid = rfc_uuid, cp_digit = (\<lambda>_. False), cp_quoteUC = sample_quoting, cp_sessionUC = pay_deps\<rparr>"

definition pay_input :: PaymentSessionInput where
  "pay_input = \<lparr>cpi_MerchantContextID = 9, cpi_MerchantID = 0, cpi_ChainID = ''eip155:8453'', cpi_SelectedToken = ''0xbb'', cpi_PricingType = ''payment_token_fixed'',
     cpi_RequestedAmount = ''5'', cpi_ExpiresIn = []\<rparr>"

definition pay_run :: payment_run where
  "pay_run = \<lparr>pr_quoteID = 31, pr_sessionIDs = sample_ids, pr_now = 1, pr_quoteNow = 1, pr_sessionNow = 1, pr_sessionNow2 = 2, pr_quoteFault = None,
     pr_sessionFaults = no_faults\<rparr>"

definition pay_db :: session_db where
  "pay_db = \<lparr>sdb_quotes = [], sdb_sessions = [], sdb_requests = []\<rparr>"

lemma pay_checks: "TrimSpace ''5'' = ''5''" "TrimSpace ''USDC'' = ''USDC''" "TrimSpace ''payment_token_fixed'' = ''payment_token_fixed''"
  "convertToSmallestUnit (\<lambda>_. False) ''5'' 6 = Inr ''5000000''"
  by code_simp+

lemmas pay_defs = pay_merchant_def pay_profile_def pay_usecase_def pay_input_def pay_run_def

lemma pay_resolved:
  "resolve_payment pay_usecase 1 pay_input = Inr \<lparr>pc_merchantID = 9, pc_settlement = \<lparr>rc_InvoiceToken = token_named ''USDC'' ''0xbb'', rc_DestChainID = 7,
       rc_DestChainCAIP2 = ''eip155:8453'', rc_DestToken = token_named ''USDC'' ''0xbb'', rc_DestWallet = ''0xw'', rc_BridgeTokenSymbol = ''USDC'',
       rc_DestBridgeToken = token_named ''USDC'' ''0xbb''\<rparr>, pc_chainCAIP2 = ''eip155:8453'', pc_selectedToken = token_named ''USDC'' ''0xbb'', pc_wallet = ''0xw'',
     pc_expiresAt = 1 + defaultCreatePaymentTTL, pc_unlimited = False\<rparr>"
  by (simp add: resolve_payment_def resolveMerchantID_def payment_input_error_def resolveMerchantCreatePaymentConfig_def resolveMerchantSettlementConfig_def
      resolveMerchantWallet_def resolveCreatePaymentExpiresAt_def lookup_active_def pay_defs pay_checks sample_facts sample_quote_checks pricing_type_defs
      token_named_def Let_def ToLower_def)

lemma pay_created: "\<exists>out db'. CreatePayment_session pay_usecase pay_run (Some pay_input) pay_db = (Inr out, db')"
proof -
  let ?p = "\<lparr>pc_merchantID = 9, pc_settlement = \<lparr>rc_InvoiceToken = token_named ''USDC'' ''0xbb'', rc_DestChainID = 7,
       rc_DestChainCAIP2 = ''eip155:8453'', rc_DestToken = token_named ''USDC'' ''0xbb'', rc_DestWallet = ''0xw'', rc_BridgeTokenSymbol = ''USDC'',
       rc_DestBridgeToken = token_named ''USDC'' ''0xbb''\<rparr>, pc_chainCAIP2 = ''eip155:8453'', pc_selectedToken = token_named ''USDC'' ''0xbb'', pc_wallet = ''0xw'',
     pc_expiresAt = 1 + defaultCreatePaymentTTL, pc_unlimited = False\<rparr>"
  obtain q where q: "price_payment pay_usecase pay_run pay_input ?p [] (Some newQuoteRequestCache) = (Inr (stored_quote_output rfc_uuid q), [q])"
    "quote_ID q = 31" "quote_MerchantID q = 9" "quote_is_active q" "quote_ExpiresAt q = 1 + defaultCreatePaymentTTL" "quote_SelectedChainID q = ''eip155:8453''"
    by (simp add: price_payment_def createSyntheticSelectedTokenQuote_def pay_defs pay_checks pricing_type_defs token_named_def Let_def quote_Create_def insert_row_def
        quote_is_active_def)
  let ?i = "\<lparr>csi_MerchantID = 9, csi_QuoteID = 31, csi_DestWallet = ''0xw'', csi_DestChainOverride = ''eip155:8453'', csi_DestTokenOverride = ''0xbb''\<rparr>"
  have "\<exists>out db'. CreateSession pay_deps no_faults sample_ids 1 2 (Some ?i) \<lparr>sdb_quotes = [q], sdb_sessions = [], sdb_requests = []\<rparr> = (Inr out, db')"
  proof (rule CreateSession_succeeds [where seal = "\<lambda>p. ''sealed''" and
      J = "\<lparr>jwe_Encrypt = (\<lambda>p. Inr ''sealed''), jwe_Decrypt = (\<lambda>c. Inr sample_payload)\<rparr>"])
    show "quote_GetByID None (sdb_quotes \<lparr>sdb_quotes = [q], sdb_sessions = [], sdb_requests = []\<rparr>) (csi_QuoteID ?i) = Inr q"
      using get_by_id_found [of quote_ID "[q]" q] by (simp add: quote_GetByID_def q(2))
    show "isUnlimitedExpiryTime (quote_ExpiresAt q) \<or> 1 \<le> quote_ExpiresAt q" by (simp add: q(5) ttl_defs)
  qed (simp_all add: q pay_deps_def sample_session_deps_def sample_facts sample_quote_checks coalesceString_def)
  then obtain so db' where "CreateSession pay_deps no_faults sample_ids 1 2 (Some ?i) \<lparr>sdb_quotes = [q], sdb_sessions = [], sdb_requests = []\<rparr> = (Inr so, db')" by blast
  moreover have "uuid_Parse rfc_uuid (qo_QuoteID (stored_quote_output rfc_uuid q)) = Some 31"
    using uuid_lib_okD(1) [OF rfc_uuid_ok, of 31] by (simp add: stored_quote_output_def q(2))
  moreover have "cp_uuid pay_usecase = rfc_uuid" "cp_sessionUC pay_usecase = pay_deps" "pr_now pay_run = 1" "pr_sessionIDs pay_run = sample_ids" "pr_sessionNow pay_run = 1"
    "pr_sessionNow2 pay_run = 2" "pr_sessionFaults pay_run = no_faults" "token_ContractAddress (token_named ''USDC'' ''0xbb'') = ''0xbb''"
    by (simp_all add: pay_usecase_def pay_run_def token_named_def)
  ultimately show ?thesis by (simp add: CreatePayment_session_def pay_resolved pay_db_def q(1) Let_def)
qed


theorem stored_quotes_typed_witness:
  "\<exists>db. (quote_step pay_usecase)\<^sup>*\<^sup>* pay_db db \<and> sdb_quotes db \<noteq> [] \<and> (\<forall>q\<in>set (sdb_quotes db). quote_typed q)"
proof -
  obtain out db' where c: "CreatePayment_session pay_usecase pay_run (Some pay_input) pay_db = (Inr out, db')" using pay_created by blast
  have nn: "pr_quoteID pay_run \<noteq> uuid_Nil" "ascii (cpi_RequestedAmount pay_input)" by (simp_all add: pay_run_def pay_input_def ascii_def)
  have st: "(quote_step pay_usecase)\<^sup>*\<^sup>* pay_db db'" using quote_step.payment [OF c nn(2,1)] by blast
  have "sdb_quotes db' \<noteq> []"
  proof -
    have u: "distinct (map quote_ID (sdb_quotes pay_db))" "pq_uuid (cp_quoteUC pay_usecase) = cp_uuid pay_usecase" "uuid_lib_ok (cp_uuid pay_usecase)"
      by (simp_all add: pay_db_def pay_usecase_def sample_quoting_def rfc_uuid_ok)
    obtain p q so where "quote_for pay_run p q" "pr_quoteID pay_run \<notin> quote_ID ` set (sdb_quotes pay_db)"
      "CreateSession (cp_sessionUC pay_usecase) (pr_sessionFaults pay_run) (pr_sessionIDs pay_run) (pr_sessionNow pay_run) (pr_sessionNow2 pay_run)
       (Some \<lparr>csi_MerchantID = pc_merchantID p, csi_QuoteID = pr_quoteID pay_run, csi_DestWallet = pc_wallet p, csi_DestChainOverride = rc_DestChainCAIP2 (pc_settlement p),
              csi_DestTokenOverride = token_ContractAddress (rc_DestToken (pc_settlement p))\<rparr>) (pay_db\<lparr>sdb_quotes := sdb_quotes pay_db @ [q]\<rparr>) = (Inr so, db')"
      by (rule CreatePayment_session_Inr [OF c nn(1) u(2,3)])
    then show ?thesis using session_of_new_quote [of _ _ _ _ _ _ pay_db q so db'] u(1) by (fastforce simp: quote_for_def)
  qed
  moreover have "\<forall>q\<in>set (sdb_quotes pay_db). quote_typed q" by (simp add: pay_db_def)
  from stored_quotes_typed [OF st this] have "\<forall>q\<in>set (sdb_quotes db'). quote_typed q" .
  ultimately show ?thesis using st by blast
qed


theorem read_overwrites_completed_witness:
  "\<exists>db'. snd (GetPayment_session pay_usecase None None None (\<lambda>d. d\<lparr>sdb_sessions := snd (session_MarkCompleted None 3 (sdb_sessions d) 61 ''0xh'')\<rparr>) (10 ^ 12) 61
       \<lparr>sdb_quotes = [], sdb_sessions = [Partner_Sessions.sample_session], sdb_requests = []\<rparr>) = db' \<and>
     (\<exists>s. session_GetByID None (sdb_sessions db') 61 = Inr s \<and> sess_Status s = SessionStatusExpired)"
proof -
  let ?db = "\<lparr>sdb_quotes = [], sdb_sessions = [Partner_Sessions.sample_session], sdb_requests = []\<rparr>" and ?between = "\<lambda>d :: session_db. d\<lparr>sdb_sessions := snd (session_MarkCompleted None 3 (sdb_sessions d) 61 ''0xh'')\<rparr>"
  have s: "session_GetByID None (sdb_sessions ?db) 61 = Inr Partner_Sessions.sample_session"
    using get_by_id_found [of sess_ID "[Partner_Sessions.sample_session]" Partner_Sessions.sample_session] by (simp add: session_GetByID_def Partner_Sessions.sample_session_fields)
  obtain r db' where g: "GetPayment_session pay_usecase None None None ?between (10 ^ 12) 61 ?db = (r, db')" by fastforce
  from read_overwrites_completed [OF s _ _ _ _ _ _ refl g] g show ?thesis
    by (auto simp: pay_usecase_def Partner_Sessions.sample_session_fields session_status_defs sample_facts)
qed

end
