(* ===== verification/Contract_Audit.thy ===== *)
theory Contract_Audit
  imports Gateway_Quotes Config_Tables Quote_Simulator
begin

text \<open>
  The audit of the contracts of a chain (\<^verbatim>\<open>internal/usecases/contract_config_audit_usecase.go\<close>): what the stored ABIs lack, what the router and the
  adapters report on the chain, and the counts and verdict over all checks. Repositories and RPC clients are functions; the parser of ABI texts belongs to the
  Ethereum library and is a parameter. The maps of counts have three keys and are a record.
\<close>

subsection \<open>Data\<close>

record ContractConfigCheckItem =
  ck_Code :: string
  ck_Status :: string
  ck_Message :: string
  ck_Contract :: string

record ContractConfigContractReport =
  rp_ID :: uuid
  rp_Name :: string
  rp_Type :: string
  rp_Address :: string
  rp_ChainID :: string
  rp_IsActive :: bool
  rp_FunctionNames :: "string list"
  rp_RequiredFunctions :: "string list"
  rp_MissingFunctions :: "string list"
  rp_GeneratedFields :: "string list"
  rp_Checks :: "ContractConfigCheckItem list"

record audit_summary =
  sum_ok :: nat
  sum_warn :: nat
  sum_error :: nat

record ContractConfigAuditResult =
  ar_SourceChainID :: string
  ar_DestChainID :: string
  ar_OverallStatus :: string
  ar_Summary :: audit_summary
  ar_GlobalChecks :: "ContractConfigCheckItem list"
  ar_Contracts :: "ContractConfigContractReport list"

record ContractDestinationAudit =
  da_DestChainID :: string
  da_DestChainName :: string
  da_OverallStatus :: string
  da_Summary :: audit_summary
  da_Checks :: "ContractConfigCheckItem list"

record ContractDetailAuditResult =
  dr_Contract :: ContractConfigContractReport
  dr_SourceChainID :: string
  dr_SourceChainName :: string
  dr_OverallStatus :: string
  dr_Summary :: audit_summary
  dr_GlobalChecks :: "ContractConfigCheckItem list"
  dr_DestinationAudits :: "ContractDestinationAudit list"

text \<open>The contracts of a chain are those of the unfiltered first page without limit, active or not.\<close>

record ContractConfigAuditUsecase =
  au_uuid :: uuid_lib
  au_chains :: ChainRepository
  au_allChains :: "Chain list result"
  au_contracts :: "uuid \<Rightarrow> SmartContract list result"
  au_contractByID :: "uuid \<Rightarrow> SmartContract option result"
  au_client :: "string \<Rightarrow> rpc_call result"
  au_parseABI :: "string \<Rightarrow> contract_abi result"
  au_Hex :: "address \<Rightarrow> string"

definition check :: "string \<Rightarrow> string \<Rightarrow> string \<Rightarrow> ContractConfigCheckItem" where
  "check code status msg = \<lparr>ck_Code = code, ck_Status = status, ck_Message = msg, ck_Contract = []\<rparr>"

definition no_checks :: audit_summary where
  "no_checks = \<lparr>sum_ok = 0, sum_warn = 0, sum_error = 0\<rparr>"

definition merge_check :: "ContractConfigCheckItem \<Rightarrow> audit_summary \<Rightarrow> audit_summary" where
  "merge_check c s =
     (let st = ToUpper (ck_Status c) in
      if st = ''ERROR'' then s\<lparr>sum_error := sum_error s + 1\<rparr>
      else if st = ''WARN'' then s\<lparr>sum_warn := sum_warn s + 1\<rparr>
      else if st = ''OK'' then s\<lparr>sum_ok := sum_ok s + 1\<rparr> else s)"

definition mergeSummary :: "audit_summary \<Rightarrow> ContractConfigCheckItem list \<Rightarrow> audit_summary" where
  "mergeSummary s checks = fold merge_check checks s"

definition deriveOverallStatus :: "audit_summary \<Rightarrow> string" where
  "deriveOverallStatus s = (if sum_error s > 0 then ''ERROR'' else if sum_warn s > 0 then ''WARN'' else ''OK'')"

subsection \<open>Stored contracts\<close>

definition requiredFunctions :: "string \<Rightarrow> string list" where
  "requiredFunctions contractType =
     (if contractType = ''GATEWAY'' then [''createPayment'', ''createPaymentPrivate'', ''createPaymentDefaultBridge'', ''quotePaymentCost'',
        ''previewApproval'', ''setDefaultBridgeType'', ''defaultBridgeTypes'']
      else if contractType = ''ROUTER'' then [''registerAdapter'', ''hasAdapter'', ''quotePaymentFee'', ''routePayment'']
      else if contractType = ''VAULT'' then [''depositToken'', ''pushTokens'', ''setSpender'']
      else if contractType = ''TOKEN_REGISTRY'' then [''isSupportedToken'']
      else if contractType = ''TOKEN_SWAPPER'' then [''swap'']
      else if contractType = ''ADAPTER_CCIP'' then [''quoteFee'', ''sendMessage'', ''setChainConfig'', ''setDestinationGasLimit'']
      else if contractType = ''ADAPTER_HYPERBRIDGE'' then [''quoteFee'', ''sendMessage'', ''setStateMachineId'', ''setDestinationContract'']
      else if contractType = ''ADAPTER_STARGATE'' then [''quoteFee'', ''sendMessage'', ''setRoute'', ''setDestinationExtraOptions'', ''setDestinationComposeGasLimit'']
      else if contractType = ''GATEWAY_VALIDATOR_MODULE'' then [''validateCreate'']
      else if contractType = ''GATEWAY_QUOTE_MODULE'' then [''quotePaymentFeeSafe'', ''quoteBridgeForV2'', ''quoteBridgeForV1'']
      else if contractType = ''GATEWAY_EXECUTION_MODULE'' then [''beforeRoute'', ''onSameChainSettled'', ''onIncomingFinalized'']
      else if contractType = ''PRIVACY_MODULE'' then [''setAuthorizedGateway'', ''authorizedGateway'', ''forwardFromStealth'']
      else if contractType = ''STEALTH_ESCROW_FACTORY'' then [''deployEscrow'', ''predictEscrow'', ''isEscrow'']
      else [])"

definition function_name :: "json \<Rightarrow> string option" where
  "function_name item =
     (case item of
        JObject kvs \<Rightarrow>
          let entry = map_of (rev kvs) in
          if entry ''type'' \<noteq> Some (JString ''function'') then None
          else (case entry ''name'' of
                  Some (JString n) \<Rightarrow> if TrimSpace n = [] then None else Some (TrimSpace n)
                | _ \<Rightarrow> None)
      | _ \<Rightarrow> None)"

fun first_occurrences :: "string list \<Rightarrow> string list \<Rightarrow> string list" where
  "first_occurrences seen [] = []"
| "first_occurrences seen (x # xs) = (if x \<in> set seen then first_occurrences seen xs else x # first_occurrences (x # seen) xs)"

definition extractFunctionNames :: "json option \<Rightarrow> string list" where
  "extractFunctionNames rawABI = (case rawABI of Some (JArray entries) \<Rightarrow> first_occurrences [] (List.map_filter function_name entries) | _ \<Rightarrow> [])"

definition setter_field :: "string \<Rightarrow> string option" where
  "setter_field fn = (if HasPrefix fn ''set'' \<and> length fn > 3 then Some (ToLower (take 1 (drop 3 fn)) @ drop 4 fn) else None)"

definition generateFieldsFromFunctions :: "string list \<Rightarrow> string list" where
  "generateFieldsFromFunctions functionNames = sort (first_occurrences [] (List.map_filter setter_field functionNames))"

definition missing_functions :: "string list \<Rightarrow> string list \<Rightarrow> string list" where
  "missing_functions functionNames required = filter (\<lambda>req. ToLower req \<notin> set (map ToLower functionNames)) required"

definition report_checks :: "SmartContract \<Rightarrow> string list \<Rightarrow> string list \<Rightarrow> string list \<Rightarrow> ContractConfigCheckItem list" where
  "report_checks contract functionNames required missing =
     (let item = (\<lambda>code status msg. \<lparr>ck_Code = code, ck_Status = status, ck_Message = msg, ck_Contract = sc_Name contract\<rparr>) in
      (if sc_ContractAddress contract = [] then [item ''ADDRESS_EMPTY'' ''ERROR'' ''contract address is empty''] else []) @
      (if sc_StartBlock contract = 0 then [item ''START_BLOCK_ZERO'' ''WARN'' ''start block is 0; indexer catch-up may be expensive''] else []) @
      (if functionNames = [] then [item ''ABI_EMPTY_OR_INVALID'' ''ERROR'' ''ABI is empty or invalid''] else []) @
      (if missing \<noteq> [] then
         [item ''ABI_MISSING_REQUIRED_FUNCTIONS'' ''ERROR'' (''required functions missing from ABI: '' @ Join missing '', '')]
       else if required \<noteq> [] then [item ''ABI_REQUIRED_FUNCTIONS_OK'' ''OK'' ''required ABI functions are complete'']
       else []) @
      (if sc_Type contract = ''POOL'' \<and> (sc_Token0Address contract = None \<or> sc_Token1Address contract = None)
       then [item ''POOL_TOKEN_PAIR_MISSING'' ''ERROR'' ''pool token0/token1 is not configured''] else []))"

definition buildContractReport :: "SmartContract \<Rightarrow> ContractConfigContractReport" where
  "buildContractReport contract =
     (let functionNames = extractFunctionNames (sc_ABI contract); required = requiredFunctions (sc_Type contract);
          missing = missing_functions functionNames required in
      \<lparr>rp_ID = sc_ID contract, rp_Name = sc_Name contract, rp_Type = sc_Type contract, rp_Address = sc_ContractAddress contract,
       rp_ChainID = sc_BlockchainID contract, rp_IsActive = sc_IsActive contract, rp_FunctionNames = sort functionNames,
       rp_RequiredFunctions = sort required, rp_MissingFunctions = sort missing,
       rp_GeneratedFields = generateFieldsFromFunctions (sort functionNames), rp_Checks = report_checks contract functionNames required missing\<rparr>)"

definition findActiveContractByType :: "SmartContract list \<Rightarrow> string \<Rightarrow> SmartContract option" where
  "findActiveContractByType contracts t = List.find (\<lambda>c. sc_IsActive c \<and> sc_Type c = t) contracts"

subsection \<open>Views of a contract\<close>

text \<open>The ABI text of one view function: its inputs, its name, and the name and type of its output.\<close>

definition abi_param :: "string \<Rightarrow> string \<Rightarrow> string" where
  "abi_param n ty = ''{\"internalType\":\"'' @ ty @ ''\",\"name\":\"'' @ n @ ''\",\"type\":\"'' @ ty @ ''\"}''"

definition view_abi :: "(string \<times> string) list \<Rightarrow> string \<Rightarrow> string \<Rightarrow> string \<Rightarrow> string" where
  "view_abi ins name outName outType =
     ''[{\"inputs\":['' @ Join (map (\<lambda>(n, ty). abi_param n ty) ins) '','' @ ''],\"name\":\"'' @ name @ ''\",\"outputs\":['' @
     abi_param outName outType @ ''],\"stateMutability\":\"view\",\"type\":\"function\"}]''"

definition call_view ::
  "ContractConfigAuditUsecase \<Rightarrow> rpc_call \<Rightarrow> string \<Rightarrow> string \<Rightarrow> string \<Rightarrow> abi_arg list \<Rightarrow> string \<Rightarrow> (abi_value \<Rightarrow> 'a option) \<Rightarrow> 'a result" where
  "call_view u client contractAddress rawABI method args kind pick =
     (case au_parseABI u rawABI of
        Inl e \<Rightarrow> Inl e
      | Inr parsed \<Rightarrow>
          (case abi_PackCall parsed method args of
             Inl e \<Rightarrow> Inl e
           | Inr data \<Rightarrow>
               (case client contractAddress data of
                  Inl e \<Rightarrow> Inl (ErrorString (rpc_text e))
                | Inr out \<Rightarrow>
                    (case abi_UnpackCall parsed method out of
                       Some (v # _) \<Rightarrow>
                         (case pick v of Some x \<Rightarrow> Inr x | None \<Rightarrow> Inl (ErrorString (''unexpected '' @ kind @ '' result type'')))
                     | _ \<Rightarrow> Inl (ErrorString (''failed to decode '' @ kind @ '' result''))))))"

definition callBoolView :: "ContractConfigAuditUsecase \<Rightarrow> rpc_call \<Rightarrow> string \<Rightarrow> string \<Rightarrow> string \<Rightarrow> abi_arg list \<Rightarrow> bool result" where
  "callBoolView u client a abi method args = call_view u client a abi method args ''bool'' (\<lambda>v. case v of AbiBool b \<Rightarrow> Some b | _ \<Rightarrow> None)"

definition callUint8View :: "ContractConfigAuditUsecase \<Rightarrow> rpc_call \<Rightarrow> string \<Rightarrow> string \<Rightarrow> string \<Rightarrow> abi_arg list \<Rightarrow> u8 result" where
  "callUint8View u client a abi method args = call_view u client a abi method args ''uint8'' (\<lambda>v. case v of AbiU8 n \<Rightarrow> Some n | _ \<Rightarrow> None)"

definition callUint64View :: "ContractConfigAuditUsecase \<Rightarrow> rpc_call \<Rightarrow> string \<Rightarrow> string \<Rightarrow> string \<Rightarrow> abi_arg list \<Rightarrow> u64 result" where
  "callUint64View u client a abi method args = call_view u client a abi method args ''uint64'' (\<lambda>v. case v of AbiU64 n \<Rightarrow> Some n | _ \<Rightarrow> None)"

definition callAddressView :: "ContractConfigAuditUsecase \<Rightarrow> rpc_call \<Rightarrow> string \<Rightarrow> string \<Rightarrow> string \<Rightarrow> abi_arg list \<Rightarrow> address result" where
  "callAddressView u client a abi method args = call_view u client a abi method args ''address'' (\<lambda>v. case v of AbiAddress x \<Rightarrow> Some x | _ \<Rightarrow> None)"

definition callBytesView :: "ContractConfigAuditUsecase \<Rightarrow> rpc_call \<Rightarrow> string \<Rightarrow> string \<Rightarrow> string \<Rightarrow> abi_arg list \<Rightarrow> byte list result" where
  "callBytesView u client a abi method args = call_view u client a abi method args ''bytes'' (\<lambda>v. case v of AbiBytes b \<Rightarrow> Some b | _ \<Rightarrow> None)"

subsection \<open>Checks on the chain\<close>

definition chain_view :: "string \<Rightarrow> string \<Rightarrow> string \<Rightarrow> string" where
  "chain_view name outName outType = view_abi [(''chainId'', ''string'')] name outName outType"

definition hyperbridge_checks :: "ContractConfigAuditUsecase \<Rightarrow> rpc_call \<Rightarrow> string \<Rightarrow> string \<Rightarrow> ContractConfigCheckItem list" where
  "hyperbridge_checks u client adapter destCAIP2 =
     (let missing = check ''HYPERBRIDGE_CHAIN_NOT_CONFIGURED'' ''ERROR'' ''hyperbridge adapter destination is not configured (state machine/destination contract)'';
          bytes = (\<lambda>name. callBytesView u client adapter (chain_view name [] ''bytes'') name [ArgString destCAIP2]) in
      if adapter = [] \<or> adapter = zero_address then [check ''HYPERBRIDGE_ADAPTER_ADDRESS_INVALID'' ''ERROR'' ''hyperbridge adapter address is invalid'']
      else
        case callBoolView u client adapter (chain_view ''isChainConfigured'' ''configured'' ''bool'') ''isChainConfigured'' [ArgString destCAIP2] of
          Inl _ \<Rightarrow>
            (case (bytes ''stateMachineIds'', bytes ''destinationContracts'') of
               (Inr sm, Inr dst) \<Rightarrow>
                 if sm \<noteq> [] \<and> dst \<noteq> [] then
                   [check ''HYPERBRIDGE_CHAIN_CONFIGURED_FALLBACK'' ''OK'' ''hyperbridge destination inferred as configured from stateMachineIds/destinationContracts'']
                 else [missing]
             | _ \<Rightarrow> [check ''HYPERBRIDGE_CONFIG_READ_FAILED'' ''ERROR'' ''failed to read hyperbridge destination config''])
        | Inr configured \<Rightarrow>
            if configured then [check ''HYPERBRIDGE_CHAIN_CONFIGURED'' ''OK'' ''hyperbridge adapter destination is configured''] else [missing])"

definition ccip_checks :: "ContractConfigAuditUsecase \<Rightarrow> rpc_call \<Rightarrow> string \<Rightarrow> string \<Rightarrow> ContractConfigCheckItem list" where
  "ccip_checks u client adapter destCAIP2 =
     (if adapter = [] \<or> adapter = zero_address then [check ''CCIP_ADAPTER_ADDRESS_INVALID'' ''ERROR'' ''ccip adapter address is invalid'']
      else
        [case callUint64View u client adapter (chain_view ''chainSelectors'' [] ''uint64'') ''chainSelectors'' [ArgString destCAIP2] of
           Inr selector \<Rightarrow>
             if selector = 0 then check ''CCIP_SELECTOR_MISSING'' ''ERROR'' ''ccip chain selector is missing for destination chain''
             else check ''CCIP_SELECTOR_CONFIGURED'' ''OK'' (''ccip chain selector configured: '' @ nat_string (unat selector))
         | Inl _ \<Rightarrow> check ''CCIP_SELECTOR_MISSING'' ''ERROR'' ''ccip chain selector is missing for destination chain'',
         case callBytesView u client adapter (chain_view ''destinationAdapters'' [] ''bytes'') ''destinationAdapters'' [ArgString destCAIP2] of
           Inr b \<Rightarrow>
             if b = [] then check ''CCIP_DEST_ADAPTER_MISSING'' ''ERROR'' ''ccip destination adapter bytes is missing''
             else check ''CCIP_DEST_ADAPTER_CONFIGURED'' ''OK'' ''ccip destination adapter is configured''
         | Inl _ \<Rightarrow> check ''CCIP_DEST_ADAPTER_MISSING'' ''ERROR'' ''ccip destination adapter bytes is missing''])"

text \<open>The address of the adapter is zero when it cannot be read; only a read that succeeds leaves a check of its own.\<close>

definition adapter_checks :: "ContractConfigAuditUsecase \<Rightarrow> rpc_call \<Rightarrow> address result \<Rightarrow> u8 \<Rightarrow> string \<Rightarrow> ContractConfigCheckItem list" where
  "adapter_checks u client answer bridgeType destCAIP2 =
     (let adapter = (case answer of Inr a \<Rightarrow> a | Inl _ \<Rightarrow> 0) in
      (case answer of
         Inr a \<Rightarrow> if a = 0 then [check ''ADAPTER_ADDRESS_ZERO'' ''ERROR'' ''router adapter address is zero'']
                  else [check ''ADAPTER_ADDRESS_FOUND'' ''OK'' (''router adapter address: '' @ au_Hex u a)]
       | Inl _ \<Rightarrow> []) @
      (if bridgeType = 0 then hyperbridge_checks u client (au_Hex u adapter) destCAIP2 else []) @
      (if bridgeType = 1 then ccip_checks u client (au_Hex u adapter) destCAIP2 else []))"

definition bridge_checks :: "ContractConfigAuditUsecase \<Rightarrow> rpc_call \<Rightarrow> string \<Rightarrow> string \<Rightarrow> string \<Rightarrow> ContractConfigCheckItem list" where
  "bridge_checks u client gateway router destCAIP2 =
     (case callUint8View u client gateway (view_abi [(''destChainId'', ''string'')] ''defaultBridgeTypes'' [] ''uint8'') ''defaultBridgeTypes'' [ArgString destCAIP2] of
        Inl _ \<Rightarrow> [check ''DEFAULT_BRIDGE_READ_FAILED'' ''ERROR'' ''failed to read default bridge type for destination chain'']
      | Inr bridgeType \<Rightarrow>
          check ''DEFAULT_BRIDGE_TYPE'' ''OK'' (''default bridge type for '' @ destCAIP2 @ '' is '' @ nat_string (unat bridgeType)) #
          (case callBoolView u client router (view_abi [(''destChainId'', ''string''), (''bridgeType'', ''uint8'')] ''hasAdapter'' [] ''bool'') ''hasAdapter''
                  [ArgString destCAIP2, ArgU8 bridgeType] of
             Inl _ \<Rightarrow> [check ''HAS_ADAPTER_READ_FAILED'' ''ERROR'' ''failed to read adapter availability on router'']
           | Inr hasAdapter \<Rightarrow>
               (if hasAdapter then check ''ADAPTER_REGISTERED'' ''OK'' ''router adapter registration exists for destination/default bridge type''
                else check ''ADAPTER_NOT_REGISTERED'' ''ERROR'' ''router has no adapter registered for destination/default bridge type'') #
               adapter_checks u client
                 (callAddressView u client router (view_abi [(''destChainId'', ''string''), (''bridgeType'', ''uint8'')] ''getAdapter'' [] ''address'') ''getAdapter''
                    [ArgString destCAIP2, ArgU8 bridgeType]) bridgeType destCAIP2))"

definition runEVMOnchainChecks :: "ContractConfigAuditUsecase \<Rightarrow> Chain \<Rightarrow> SmartContract list \<Rightarrow> string \<Rightarrow> ContractConfigCheckItem list" where
  "runEVMOnchainChecks u sourceChain contracts destCAIP2 =
     (let rpcURL = resolveRPCURL (Some sourceChain) in
      if rpcURL = [] then [check ''RPC_MISSING'' ''ERROR'' ''source chain has no active RPC URL'']
      else
        case au_client u rpcURL of
          Inl _ \<Rightarrow> [check ''RPC_CONNECT_FAILED'' ''ERROR'' ''failed to connect source chain RPC'']
        | Inr client \<Rightarrow>
            (case (findActiveContractByType contracts ''GATEWAY'', findActiveContractByType contracts ''ROUTER'') of
               (Some gateway, Some router) \<Rightarrow> bridge_checks u client (sc_ContractAddress gateway) (sc_ContractAddress router) destCAIP2
             | (gateway, router) \<Rightarrow>
                 (if gateway = None then [check ''GATEWAY_MISSING'' ''ERROR'' ''active gateway contract is missing''] else []) @
                 (if router = None then [check ''ROUTER_MISSING'' ''ERROR'' ''active router contract is missing''] else [])))"

subsection \<open>The two audits\<close>

definition audit_destination :: "ContractConfigAuditUsecase \<Rightarrow> string \<Rightarrow> ContractConfigCheckItem list \<times> string" where
  "audit_destination u destChainInput =
     (if TrimSpace destChainInput = [] then ([], [])
      else case ResolveFromAny (au_uuid u) (au_chains u) (TrimSpace destChainInput) of
             Inl _ \<Rightarrow> ([check ''DEST_CHAIN_INVALID'' ''ERROR'' ''destination chain is invalid''], [])
           | Inr (_, dest) \<Rightarrow> ([], dest))"

definition audit_contracts ::
  "ContractConfigAuditUsecase \<Rightarrow> string \<Rightarrow> Chain \<Rightarrow> ContractConfigCheckItem list \<Rightarrow> string \<Rightarrow> SmartContract list \<Rightarrow> ContractConfigAuditResult" where
  "audit_contracts u sourceCAIP2 sourceChain destChecks destCAIP2 active =
     (let emptyChecks = (if active = [] then [check ''NO_ACTIVE_CONTRACTS'' ''WARN'' ''no active smart contracts found on source chain''] else []);
          reports = map buildContractReport active;
          onchain = (if chain_Type sourceChain = ChainTypeEVM \<and> destCAIP2 \<noteq> [] then runEVMOnchainChecks u sourceChain active destCAIP2 else []);
          counts = no_checks\<lparr>sum_error := length destChecks, sum_warn := length emptyChecks\<rparr>;
          counts = fold (\<lambda>r s. mergeSummary s (rp_Checks r)) reports counts;
          counts = mergeSummary counts onchain in
      \<lparr>ar_SourceChainID = sourceCAIP2, ar_DestChainID = destCAIP2, ar_OverallStatus = deriveOverallStatus counts, ar_Summary = counts,
       ar_GlobalChecks = destChecks @ emptyChecks @ onchain, ar_Contracts = reports\<rparr>)"

definition audit_Check :: "ContractConfigAuditUsecase \<Rightarrow> string \<Rightarrow> string \<Rightarrow> ContractConfigAuditResult result" where
  "audit_Check u sourceChainInput destChainInput =
     (case ResolveFromAny (au_uuid u) (au_chains u) (TrimSpace sourceChainInput) of
        Inl e \<Rightarrow> Inl (WrapErr ''invalid sourceChainId'' e)
      | Inr (sourceChainUUID, sourceCAIP2) \<Rightarrow>
     (case repo_GetByID (au_chains u) sourceChainUUID of
        Inl e \<Rightarrow> Inl (WrapErr ''failed to load source chain'' e)
      | Inr sourceChain \<Rightarrow>
     (case au_contracts u sourceChainUUID of
        Inl e \<Rightarrow> Inl (WrapErr ''failed to list contracts'' e)
      | Inr contracts \<Rightarrow>
          (case audit_destination u destChainInput of (destChecks, destCAIP2) \<Rightarrow>
           Inr (audit_contracts u sourceCAIP2 sourceChain destChecks destCAIP2 (filter sc_IsActive contracts))))))"

definition destination_audit :: "ContractConfigAuditUsecase \<Rightarrow> Chain \<Rightarrow> SmartContract list \<Rightarrow> Chain \<Rightarrow> ContractDestinationAudit" where
  "destination_audit u sourceChain active ch =
     (let destCAIP2 = GetCAIP2ID ch;
          checks = (if chain_Type sourceChain \<noteq> ChainTypeEVM
                    then [check ''ONCHAIN_AUDIT_SKIPPED'' ''WARN'' ''on-chain route audit currently supports EVM source chain only'']
                    else runEVMOnchainChecks u sourceChain active destCAIP2);
          counts = mergeSummary no_checks checks in
      \<lparr>da_DestChainID = destCAIP2, da_DestChainName = chain_Name ch, da_OverallStatus = deriveOverallStatus counts, da_Summary = counts, da_Checks = checks\<rparr>)"

text \<open>The audits are sorted by destination; those with equal destinations keep their order here, which \<^verbatim>\<open>sort.Slice\<close> leaves open.\<close>

definition CheckByContractID :: "ContractConfigAuditUsecase \<Rightarrow> uuid \<Rightarrow> ContractDetailAuditResult result" where
  "CheckByContractID u contractID =
     (case au_contractByID u contractID of
        Inl e \<Rightarrow> Inl (WrapErr ''failed to get contract'' e)
      | Inr None \<Rightarrow> Inl (ErrorString ''contract not found'')
      | Inr (Some contract) \<Rightarrow>
     (case repo_GetByID (au_chains u) (sc_ChainUUID contract) of
        Inl e \<Rightarrow> Inl (WrapErr ''failed to load source chain'' e)
      | Inr sourceChain \<Rightarrow>
     (case au_allChains u of
        Inl e \<Rightarrow> Inl (WrapErr ''failed to list chains'' e)
      | Inr chains' \<Rightarrow>
          let report = buildContractReport contract;
              active = (case au_contracts u (sc_ChainUUID contract) of Inr cs \<Rightarrow> filter sc_IsActive cs | Inl _ \<Rightarrow> []);
              audits = map (destination_audit u sourceChain active) (filter (\<lambda>ch. chain_IsActive ch \<and> chain_ID ch \<noteq> chain_ID sourceChain) chains');
              counts = fold (\<lambda>a s. mergeSummary s (da_Checks a)) audits (mergeSummary no_checks (rp_Checks report)) in
          Inr \<lparr>dr_Contract = report, dr_SourceChainID = GetCAIP2ID sourceChain, dr_SourceChainName = chain_Name sourceChain,
               dr_OverallStatus = deriveOverallStatus counts, dr_Summary = counts, dr_GlobalChecks = [],
               dr_DestinationAudits = sort_key da_DestChainID audits\<rparr>)))"

subsection \<open>What the verdict counts\<close>

definition has_status :: "string \<Rightarrow> ContractConfigCheckItem \<Rightarrow> bool" where
  "has_status st c \<longleftrightarrow> ck_Status c = st"

definition all_checks :: "ContractConfigAuditResult \<Rightarrow> ContractConfigCheckItem list" where
  "all_checks r = ar_GlobalChecks r @ concat (map rp_Checks (ar_Contracts r))"

definition known_status :: "ContractConfigCheckItem \<Rightarrow> bool" where
  "known_status c \<longleftrightarrow> ck_Status c \<in> {''OK'', ''WARN'', ''ERROR''}"

lemma upper_statuses [simp]: "ToUpper ''OK'' = ''OK''" "ToUpper ''WARN'' = ''WARN''" "ToUpper ''ERROR'' = ''ERROR''"
  by code_simp+

lemma check_fields [simp]: "ck_Status (check code st msg) = st" "ck_Code (check code st msg) = code"
  by (simp_all add: check_def)

definition count_status :: "string \<Rightarrow> ContractConfigCheckItem list \<Rightarrow> nat" where
  "count_status st cs = length (filter (has_status st) cs)"

lemma count_status_simps [simp]:
  "count_status st [] = 0" "count_status st (c # cs) = (if ck_Status c = st then 1 else 0) + count_status st cs"
  "count_status st (xs @ ys) = count_status st xs + count_status st ys"
  by (simp_all add: count_status_def has_status_def)

lemma count_status_0: "count_status st cs = 0 \<longleftrightarrow> (\<forall>c\<in>set cs. ck_Status c \<noteq> st)"
  by (auto simp: count_status_def has_status_def filter_empty_conv)

lemma merge_counts:
  assumes "\<forall>c\<in>set cs. known_status c"
  shows "mergeSummary s cs = s\<lparr>sum_ok := sum_ok s + count_status ''OK'' cs, sum_warn := sum_warn s + count_status ''WARN'' cs,
    sum_error := sum_error s + count_status ''ERROR'' cs\<rparr>"
  using assms by (induction cs arbitrary: s) (auto simp: mergeSummary_def merge_check_def known_status_def Let_def)

lemma known_simps [simp]: "known_status (check code ''OK'' m)" "known_status (check code ''WARN'' m)" "known_status (check code ''ERROR'' m)"
  by (simp_all add: known_status_def)

lemma report_known: "\<forall>c\<in>set (rp_Checks (buildContractReport k)). known_status c"
  by (auto simp: buildContractReport_def report_checks_def Let_def known_status_def)

lemma hyperbridge_known: "\<forall>c\<in>set (hyperbridge_checks u client a dest). known_status c"
  by (simp add: hyperbridge_checks_def Let_def split: sum.split)

lemma ccip_known: "\<forall>c\<in>set (ccip_checks u client a dest). known_status c"
  by (simp add: ccip_checks_def split: sum.split)

lemma adapter_known: "\<forall>c\<in>set (adapter_checks u client answer t dest). known_status c"
  using hyperbridge_known ccip_known by (auto simp: adapter_checks_def Let_def split: sum.splits)

lemma bridge_known: "\<forall>c\<in>set (bridge_checks u client g r dest). known_status c"
  using adapter_known by (simp add: bridge_checks_def split: sum.split)

lemma onchain_known: "\<forall>c\<in>set (runEVMOnchainChecks u ch cs dest). known_status c"
  using bridge_known by (auto simp: runEVMOnchainChecks_def Let_def split: sum.splits option.splits)

lemma merge_reports:
  "fold (\<lambda>r s. mergeSummary s (rp_Checks r)) (map buildContractReport ks) s =
     mergeSummary s (concat (map rp_Checks (map buildContractReport ks)))"
  by (induction ks arbitrary: s) (simp_all add: mergeSummary_def)

lemma audit_parts:
  assumes "audit_Check u src dest = Inr r"
  obtains k ch contracts where "ResolveFromAny (au_uuid u) (au_chains u) (TrimSpace src) = Inr (k, ar_SourceChainID r)" "repo_GetByID (au_chains u) k = Inr ch"
    "au_contracts u k = Inr contracts"
    "r = audit_contracts u (ar_SourceChainID r) ch (fst (audit_destination u dest)) (ar_DestChainID r) (filter sc_IsActive contracts)"
    "ar_DestChainID r = snd (audit_destination u dest)"
  using assms by (auto simp: audit_Check_def audit_contracts_def Let_def split: sum.splits prod.splits)

lemma destination_counts: "length (fst (audit_destination u dest)) = count_status ''ERROR'' (fst (audit_destination u dest))"
  "count_status ''WARN'' (fst (audit_destination u dest)) = 0" "count_status ''OK'' (fst (audit_destination u dest)) = 0"
  by (simp_all add: audit_destination_def split: sum.split)

lemma audit_contracts_counts:
  fixes u caip2 ch d dest active
  defines "r \<equiv> audit_contracts u caip2 ch d dest active"
  assumes "length d = count_status ''ERROR'' d" "count_status ''WARN'' d = 0" "count_status ''OK'' d = 0"
  shows "sum_ok (ar_Summary r) = count_status ''OK'' (all_checks r)" "sum_warn (ar_Summary r) = count_status ''WARN'' (all_checks r)"
    "sum_error (ar_Summary r) = count_status ''ERROR'' (all_checks r)" "ar_OverallStatus r = deriveOverallStatus (ar_Summary r)"
proof -
  have known: "\<forall>c\<in>set (concat (map rp_Checks (map buildContractReport active))). known_status c" using report_known by auto
  have on: "\<forall>c\<in>set (if chain_Type ch = ChainTypeEVM \<and> dest \<noteq> [] then runEVMOnchainChecks u ch active dest else []). known_status c" using onchain_known by auto
  note m = merge_reports merge_counts [OF known] merge_counts [OF on] no_checks_def
  show "sum_ok (ar_Summary r) = count_status ''OK'' (all_checks r)" "sum_warn (ar_Summary r) = count_status ''WARN'' (all_checks r)"
    "sum_error (ar_Summary r) = count_status ''ERROR'' (all_checks r)" "ar_OverallStatus r = deriveOverallStatus (ar_Summary r)"
    unfolding r_def audit_contracts_def Let_def m all_checks_def using assms(2-4) by simp_all
qed

text \<open>
  Also. The verdict of an audit counts every check once: the three counts are the numbers of checks with this status among the global ones and those of
  all contracts, and the verdict is the worst status among them.
\<close>

theorem audit_counts_exact:
  assumes "audit_Check u src dest = Inr r"
  shows "sum_ok (ar_Summary r) = count_status ''OK'' (all_checks r) \<and> sum_warn (ar_Summary r) = count_status ''WARN'' (all_checks r) \<and>
    sum_error (ar_Summary r) = count_status ''ERROR'' (all_checks r) \<and>
    ar_OverallStatus r = (if \<exists>c\<in>set (all_checks r). ck_Status c = ''ERROR'' then ''ERROR''
                          else if \<exists>c\<in>set (all_checks r). ck_Status c = ''WARN'' then ''WARN'' else ''OK'')"
proof -
  obtain caip2 ch k where "r = audit_contracts u caip2 ch (fst (audit_destination u dest)) (ar_DestChainID r) (filter sc_IsActive k)"
    using audit_parts [OF assms] by metis
  then have counts: "sum_ok (ar_Summary r) = count_status ''OK'' (all_checks r)" "sum_warn (ar_Summary r) = count_status ''WARN'' (all_checks r)"
      "sum_error (ar_Summary r) = count_status ''ERROR'' (all_checks r)" and status: "ar_OverallStatus r = deriveOverallStatus (ar_Summary r)"
    using audit_contracts_counts [OF destination_counts] by metis+
  have "sum_error (ar_Summary r) > 0 \<longleftrightarrow> (\<exists>c\<in>set (all_checks r). ck_Status c = ''ERROR'')"
    "sum_warn (ar_Summary r) > 0 \<longleftrightarrow> (\<exists>c\<in>set (all_checks r). ck_Status c = ''WARN'')"
    using counts count_status_0 by (metis not_gr_zero)+
  with counts status show ?thesis by (simp add: deriveOverallStatus_def)
qed

subsection \<open>What a verdict without errors means\<close>

definition no_errors :: "ContractConfigCheckItem list \<Rightarrow> bool" where
  "no_errors cs \<longleftrightarrow> (\<forall>c\<in>set cs. ck_Status c \<noteq> ''ERROR'')"

lemma no_errors_simps [simp]: "no_errors []" "no_errors (c # cs) \<longleftrightarrow> ck_Status c \<noteq> ''ERROR'' \<and> no_errors cs" "no_errors (xs @ ys) \<longleftrightarrow> no_errors xs \<and> no_errors ys"
  by (auto simp: no_errors_def)

text \<open>What the adapter of a Hyperbridge or CCIP route has to answer.\<close>

definition hyperbridge_ready :: "ContractConfigAuditUsecase \<Rightarrow> rpc_call \<Rightarrow> string \<Rightarrow> string \<Rightarrow> bool" where
  "hyperbridge_ready u client adapter dest \<longleftrightarrow>
     (case callBoolView u client adapter (chain_view ''isChainConfigured'' ''configured'' ''bool'') ''isChainConfigured'' [ArgString dest] of
        Inr configured \<Rightarrow> configured
      | Inl _ \<Rightarrow> (\<exists>sm dst. callBytesView u client adapter (chain_view ''stateMachineIds'' [] ''bytes'') ''stateMachineIds'' [ArgString dest] = Inr sm \<and>
          callBytesView u client adapter (chain_view ''destinationContracts'' [] ''bytes'') ''destinationContracts'' [ArgString dest] = Inr dst \<and> sm \<noteq> [] \<and> dst \<noteq> []))"

definition ccip_ready :: "ContractConfigAuditUsecase \<Rightarrow> rpc_call \<Rightarrow> string \<Rightarrow> string \<Rightarrow> bool" where
  "ccip_ready u client adapter dest \<longleftrightarrow>
     (\<exists>selector b. callUint64View u client adapter (chain_view ''chainSelectors'' [] ''uint64'') ''chainSelectors'' [ArgString dest] = Inr selector \<and> selector \<noteq> 0 \<and>
        callBytesView u client adapter (chain_view ''destinationAdapters'' [] ''bytes'') ''destinationAdapters'' [ArgString dest] = Inr b \<and> b \<noteq> [])"

lemma hyperbridge_no_errors: "no_errors (hyperbridge_checks u client a dest) \<longleftrightarrow> a \<noteq> [] \<and> a \<noteq> zero_address \<and> hyperbridge_ready u client a dest"
  by (auto simp: hyperbridge_checks_def hyperbridge_ready_def Let_def split: sum.splits)

lemma ccip_no_errors: "no_errors (ccip_checks u client a dest) \<longleftrightarrow> a \<noteq> [] \<and> a \<noteq> zero_address \<and> ccip_ready u client a dest"
  by (auto simp: ccip_checks_def ccip_ready_def split: sum.splits)

lemma adapter_no_errors:
  assumes "au_Hex u 0 = zero_address"
  shows "no_errors (adapter_checks u client answer t dest) \<longleftrightarrow> answer \<noteq> Inr 0 \<and>
    (t = 0 \<longrightarrow> (\<exists>a. answer = Inr a \<and> au_Hex u a \<noteq> [] \<and> au_Hex u a \<noteq> zero_address \<and> hyperbridge_ready u client (au_Hex u a) dest)) \<and>
    (t = 1 \<longrightarrow> (\<exists>a. answer = Inr a \<and> au_Hex u a \<noteq> [] \<and> au_Hex u a \<noteq> zero_address \<and> ccip_ready u client (au_Hex u a) dest))"
  using assms by (cases answer) (auto simp: adapter_checks_def Let_def hyperbridge_no_errors ccip_no_errors)

text \<open>The route of a destination as the contracts of the chain have it.\<close>

definition default_bridge :: "ContractConfigAuditUsecase \<Rightarrow> rpc_call \<Rightarrow> string \<Rightarrow> string \<Rightarrow> u8 result" where
  "default_bridge u client gateway dest =
     callUint8View u client gateway (view_abi [(''destChainId'', ''string'')] ''defaultBridgeTypes'' [] ''uint8'') ''defaultBridgeTypes'' [ArgString dest]"

definition has_adapter :: "ContractConfigAuditUsecase \<Rightarrow> rpc_call \<Rightarrow> string \<Rightarrow> string \<Rightarrow> u8 \<Rightarrow> bool result" where
  "has_adapter u client router dest t =
     callBoolView u client router (view_abi [(''destChainId'', ''string''), (''bridgeType'', ''uint8'')] ''hasAdapter'' [] ''bool'') ''hasAdapter''
       [ArgString dest, ArgU8 t]"

definition get_adapter :: "ContractConfigAuditUsecase \<Rightarrow> rpc_call \<Rightarrow> string \<Rightarrow> string \<Rightarrow> u8 \<Rightarrow> address result" where
  "get_adapter u client router dest t =
     callAddressView u client router (view_abi [(''destChainId'', ''string''), (''bridgeType'', ''uint8'')] ''getAdapter'' [] ''address'') ''getAdapter''
       [ArgString dest, ArgU8 t]"

lemma bridge_no_errors:
  "no_errors (bridge_checks u client g r dest) \<longleftrightarrow>
     (\<exists>t. default_bridge u client g dest = Inr t \<and> has_adapter u client r dest t = Inr True \<and> no_errors (adapter_checks u client (get_adapter u client r dest t) t dest))"
  by (auto simp: bridge_checks_def default_bridge_def has_adapter_def get_adapter_def split: sum.splits)

lemma onchain_no_errors:
  "no_errors (runEVMOnchainChecks u ch active dest) \<longleftrightarrow>
     resolveRPCURL (Some ch) \<noteq> [] \<and> (\<exists>client g r. au_client u (resolveRPCURL (Some ch)) = Inr client \<and> findActiveContractByType active ''GATEWAY'' = Some g \<and>
        findActiveContractByType active ''ROUTER'' = Some r \<and> no_errors (bridge_checks u client (sc_ContractAddress g) (sc_ContractAddress r) dest))"
  by (auto simp: runEVMOnchainChecks_def Let_def split: sum.splits option.splits)


text \<open>The stored contract lacks nothing when its report has no error: an address, an ABI with functions, every required function up to case, and the tokens of a pool.\<close>

lemma missing_functions_empty:
  "missing_functions names required = [] \<longleftrightarrow> (\<forall>req\<in>set required. \<exists>fn\<in>set names. ToLower fn = ToLower req)"
  by (auto simp: missing_functions_def filter_empty_conv image_iff) metis+

lemma report_no_errors:
  "no_errors (rp_Checks (buildContractReport c)) \<longleftrightarrow> sc_ContractAddress c \<noteq> [] \<and> extractFunctionNames (sc_ABI c) \<noteq> [] \<and>
     (\<forall>req\<in>set (requiredFunctions (sc_Type c)). \<exists>fn\<in>set (extractFunctionNames (sc_ABI c)). ToLower fn = ToLower req) \<and>
     (sc_Type c = ''POOL'' \<longrightarrow> sc_Token0Address c \<noteq> None \<and> sc_Token1Address c \<noteq> None)"
  unfolding missing_functions_empty [symmetric] by (simp add: buildContractReport_def report_checks_def Let_def)

subsection \<open>The audit of one contract\<close>

lemma destination_audit_known: "\<forall>c\<in>set (da_Checks (destination_audit u ch active d)). known_status c"
  using onchain_known by (simp add: destination_audit_def Let_def)

lemma destination_audit_error:
  "da_OverallStatus (destination_audit u ch active d) = ''ERROR'' \<longleftrightarrow> \<not> no_errors (da_Checks (destination_audit u ch active d))"
proof -
  let ?a = "destination_audit u ch active d"
  have "da_OverallStatus ?a = deriveOverallStatus (mergeSummary no_checks (da_Checks ?a))" by (simp add: destination_audit_def Let_def)
  then show ?thesis
    using merge_counts [OF destination_audit_known] count_status_0 [of "''ERROR''" "da_Checks ?a"] by (auto simp: deriveOverallStatus_def no_errors_def no_checks_def)
qed

lemma mergeSummary_append: "mergeSummary s (xs @ ys) = mergeSummary (mergeSummary s xs) ys"
  by (simp add: mergeSummary_def)

lemma merge_audits: "fold (\<lambda>a s. mergeSummary s (da_Checks a)) audits s = mergeSummary s (concat (map da_Checks audits))"
  by (induction audits arbitrary: s) (simp_all add: mergeSummary_def)

text \<open>
  Also. The audit of one contract names every other active chain once, sorted by its identifier, and it ends in an error exactly when the report of the contract has
  one or the route to one of these chains does.
\<close>

theorem contract_audit_worst:
  assumes "CheckByContractID u contractID = Inr r" "au_contractByID u contractID = Inr (Some c)" "repo_GetByID (au_chains u) (sc_ChainUUID c) = Inr ch"
    and "au_allChains u = Inr all"
  shows "(dr_OverallStatus r = ''ERROR'' \<longleftrightarrow>
      \<not> no_errors (rp_Checks (dr_Contract r)) \<or> (\<exists>a\<in>set (dr_DestinationAudits r). da_OverallStatus a = ''ERROR'')) \<and>
    sorted (map da_DestChainID (dr_DestinationAudits r)) \<and>
    mset (map da_DestChainID (dr_DestinationAudits r)) = mset (map GetCAIP2ID (filter (\<lambda>d. chain_IsActive d \<and> chain_ID d \<noteq> chain_ID ch) all))"
proof -
  define active where "active = (case au_contracts u (sc_ChainUUID c) of Inr cs \<Rightarrow> filter sc_IsActive cs | Inl _ \<Rightarrow> [])"
  define others where "others = filter (\<lambda>d. chain_IsActive d \<and> chain_ID d \<noteq> chain_ID ch) all"
  define audits where "audits = map (destination_audit u ch active) others"
  let ?checks = "rp_Checks (buildContractReport c) @ concat (map da_Checks audits)"
  have known: "\<forall>x\<in>set ?checks. known_status x" using report_known destination_audit_known by (auto simp: audits_def)
  have r: "dr_Contract r = buildContractReport c" "dr_DestinationAudits r = sort_key da_DestChainID audits"
    "dr_OverallStatus r = deriveOverallStatus (mergeSummary no_checks ?checks)"
    using assms by (auto simp: CheckByContractID_def Let_def audits_def others_def active_def merge_audits mergeSummary_append)
  have "dr_OverallStatus r = ''ERROR'' \<longleftrightarrow> \<not> no_errors ?checks"
    using r(3) merge_counts [OF known] count_status_0 [of "''ERROR''" ?checks] by (auto simp: deriveOverallStatus_def no_checks_def no_errors_def)
  moreover have "no_errors (concat (map da_Checks audits)) \<longleftrightarrow> (\<forall>a\<in>set audits. da_OverallStatus a \<noteq> ''ERROR'')"
    by (simp add: audits_def destination_audit_error) (simp add: no_errors_def)
  moreover have "map da_DestChainID audits = map GetCAIP2ID others" by (simp add: audits_def destination_audit_def Let_def)
  ultimately show ?thesis using r(1,2) by (simp add: others_def [symmetric]) (metis mset_map mset_sort)
qed

subsection \<open>A configured route\<close>

definition arbitrum_row :: chain_row where
  "arbitrum_row = base_row\<lparr>row_ID := 8, row_NetworkID := ''42161'', row_Name := ''Arbitrum''\<rparr>"

definition audit_db :: chain_db where
  "audit_db = \<lparr>db_chains = [base_row\<lparr>row_RPCURL := ''https://rpc''\<rparr>, arbitrum_row], db_rpcs = []\<rparr>"

definition audit_contract :: "string \<Rightarrow> SmartContract" where
  "audit_contract t =
     \<lparr>sc_ID = 1, sc_Name = t, sc_Type = t, sc_Version = ''1'', sc_ChainUUID = 7, sc_BlockchainID = ''eip155:8453'', sc_ContractAddress = ''0x'' @ t,
      sc_DeployerAddress = None, sc_Token0Address = None, sc_Token1Address = None, sc_FeeTier = None, sc_HookAddress = None, sc_StartBlock = 1,
      sc_ABI = Some (JArray (map (\<lambda>f. JObject [(''type'', JString ''function''), (''name'', JString f)]) (requiredFunctions t))),
      sc_Metadata = None, sc_IsActive = True, sc_CreatedAt = 1, sc_UpdatedAt = 1\<rparr>"

definition ccip_answer :: "string \<Rightarrow> abi_value list option" where
  "ccip_answer method =
     (if method = ''defaultBridgeTypes'' then Some [AbiU8 1] else if method = ''hasAdapter'' then Some [AbiBool True]
      else if method = ''getAdapter'' then Some [AbiAddress 5] else if method = ''chainSelectors'' then Some [AbiU64 9]
      else if method = ''destinationAdapters'' then Some [AbiBytes [1]] else None)"

definition sample_audit :: ContractConfigAuditUsecase where
  "sample_audit =
     \<lparr>au_uuid = rfc_uuid, au_chains = chainRepo take audit_db, au_allChains = Inr (map (chain_toEntity audit_db) (db_chains audit_db)),
      au_contracts = (\<lambda>_. Inr [audit_contract ''GATEWAY'', audit_contract ''ROUTER'']), au_contractByID = (\<lambda>_. Inr (Some (audit_contract ''ROUTER''))),
      au_client = (\<lambda>_. Inr (\<lambda>_ _. Inr [])),
      au_parseABI = (\<lambda>_. Inr \<lparr>abi_methods = [], abi_PackCall = (\<lambda>_ _. Inr []), abi_UnpackCall = (\<lambda>method _. ccip_answer method)\<rparr>),
      au_Hex = (\<lambda>a. if a = 0 then zero_address else ''0x5'')\<rparr>"

lemma sample_audit_facts:
  "ResolveFromAny (au_uuid sample_audit) (au_chains sample_audit) (TrimSpace ''eip155:8453'') = Inr (7, ''eip155:8453'')"
  "ResolveFromAny (au_uuid sample_audit) (au_chains sample_audit) (TrimSpace ''eip155:42161'') = Inr (8, ''eip155:42161'')"
  "TrimSpace ''eip155:42161'' \<noteq> []"
  by code_simp+

lemma sample_audit_chain:
  "repo_GetByID (au_chains sample_audit) 7 = Inr (chain_toEntity audit_db (base_row\<lparr>row_RPCURL := ''https://rpc''\<rparr>))"
  "chain_Type (chain_toEntity audit_db (base_row\<lparr>row_RPCURL := ''https://rpc''\<rparr>)) = ChainTypeEVM"
  "resolveRPCURL (Some (chain_toEntity audit_db (base_row\<lparr>row_RPCURL := ''https://rpc''\<rparr>))) = ''https://rpc''"
  by code_simp+

lemma sample_audit_contracts: "au_contracts sample_audit 7 = Inr [audit_contract ''GATEWAY'', audit_contract ''ROUTER'']" "au_Hex sample_audit 0 = zero_address"
  by (simp_all add: sample_audit_def)

lemma sample_audit_runs: "\<exists>r. audit_Check sample_audit ''eip155:8453'' ''eip155:42161'' = Inr r \<and> ar_DestChainID r = ''eip155:42161''"
  by (simp add: audit_Check_def sample_audit_facts sample_audit_chain sample_audit_contracts audit_destination_def audit_contracts_def Let_def)

theorem audit_counts_exact_witness:
  "\<exists>r. audit_Check sample_audit ''eip155:8453'' ''eip155:42161'' = Inr r \<and> sum_error (ar_Summary r) = count_status ''ERROR'' (all_checks r)"
  using sample_audit_runs audit_counts_exact [of sample_audit "''eip155:8453''" "''eip155:42161''"] by blast

lemma sample_reports: "no_errors (rp_Checks (buildContractReport (audit_contract ''GATEWAY'')))" "no_errors (rp_Checks (buildContractReport (audit_contract ''ROUTER'')))"
  unfolding no_errors_def by code_simp+

lemma sample_views:
  "default_bridge sample_audit (\<lambda>_ _. Inr []) g d = Inr 1" "has_adapter sample_audit (\<lambda>_ _. Inr []) r d t = Inr True"
  "get_adapter sample_audit (\<lambda>_ _. Inr []) r d t = Inr 5" "ccip_ready sample_audit (\<lambda>_ _. Inr []) a d"
  by (simp_all add: default_bridge_def has_adapter_def get_adapter_def ccip_ready_def callUint8View_def callBoolView_def callAddressView_def callUint64View_def
      callBytesView_def call_view_def sample_audit_def ccip_answer_def)


theorem contract_audit_worst_witness:
  "\<exists>r. CheckByContractID sample_audit 1 = Inr r \<and> sorted (map da_DestChainID (dr_DestinationAudits r))"
proof -
  have c: "au_contractByID sample_audit 1 = Inr (Some (audit_contract ''ROUTER''))" "sc_ChainUUID (audit_contract ''ROUTER'') = 7"
    "au_allChains sample_audit = Inr (map (chain_toEntity audit_db) (db_chains audit_db))"
    by (simp_all add: sample_audit_def audit_contract_def)
  then obtain r where "CheckByContractID sample_audit 1 = Inr r" by (simp add: CheckByContractID_def sample_audit_chain Let_def)
  with contract_audit_worst [OF this c(1) _ c(3)] c(2) sample_audit_chain(1) show ?thesis by auto
qed

end
