(* ===== verification/Spec2Isabelle.thy ===== *)
theory Spec2Isabelle
  imports Indexer_Events Payment_Creation Http_Guards Config_Tables Session_Payments Contract_Audit
begin

text \<open>
  The payment backend of Pay-Chain, a Go server (\<^verbatim>\<open>src/\<close>) that sells cross-chain payments to
  merchants. A merchant gets a quote, turns it into a payment session with a sealed payment code,
  a payer follows the code and signs a transaction for the gateway contract, an indexer reports
  what happened on the chain, and the backend settles the session and notifies the merchant.

  \<^bold>\<open>Layout.\<close> Every theory models the Go files its opening text names, function by function and
  under their names; a prefix (\<open>payment_\<close>, \<open>wallet_\<close>, \<open>chain_\<close>) tells apart the methods of
  different repositories that have the same Go name.

  \<^item> \<open>Prelude\<close>: types, 64-bit arithmetic, positional numerals. \<open>Go_Strings\<close>, \<open>Go_Bytes\<close>: the parts of
    Go's \<^verbatim>\<open>strings\<close>, \<^verbatim>\<open>unicode\<close>, \<^verbatim>\<open>encoding/hex\<close> and \<^verbatim>\<open>math/big\<close> the sources call.
  \<^item> \<open>Encoding\<close>: \<^verbatim>\<open>internal/usecases/utils.go\<close> (amounts, Base58, padding, call data words).
  \<^item> \<open>Domain_Errors\<close>: \<^verbatim>\<open>internal/domain/errors\<close> and the rendering of errors as responses.
  \<^item> \<open>Sql_Table\<close>, \<open>Paging\<close>: tables as lists of rows with the statements the repositories issue, pages.
    The locale \<open>expirable\<close> is the contract of the expiry jobs, interpreted for payment requests,
    quotes and sessions.
  \<^item> \<open>Chains\<close>: chain entity, repository, resolver of chain identifiers.
  \<^item> \<open>Route_Errors\<close>: decoding of revert data. \<open>Payment_V2\<close>: call data of the gateway contract; the
    locale \<open>calldata_packer\<close> is interpreted for the three packers.
  \<^item> \<open>Payments\<close>: payment and event repositories, unit of work. \<open>Accounts\<close>: merchants and wallets.
  \<^item> \<open>Payment_Requests\<close>: requests, their use case and expiry job.
  \<^item> \<open>Partner_Sessions\<close>: quotes, sessions, their expiry jobs, creation and resolution of payment codes.
  \<^item> \<open>Webhook_Delivery\<close>: delivery log, dispatcher, retry schedule and job.
  \<^item> \<open>Indexer_Events\<close>: what the backend does with a reported chain event.
  \<^item> \<open>Privacy\<close>: stage of a private payment and recovery transactions (\<^verbatim>\<open>payment_usecase.go\<close>).
  \<^item> \<open>Soft_Delete\<close>: tables whose rows are marked as deleted; the locale \<open>soft_repo\<close> shows once that their
    statements implement a finite map. \<open>Bridge_Tables\<close> interprets it for route policies, Stargate
    peers, bridges, bridge and fee configurations.
  \<^item> \<open>Routing\<close>: choice of the bridge of a route and quote of its fee (\<^verbatim>\<open>payment_usecase.go\<close>).
  \<^item> \<open>Gateway_Quotes\<close>: cost quote, approval preview and approval amount from the gateway contract
    (\<^verbatim>\<open>payment_usecase.go\<close>).
  \<^item> \<open>Payment_Creation\<close>: fees, call data, transactions and storage of a new payment (\<^verbatim>\<open>payment_usecase.go\<close>).
  \<^item> \<open>Tokens\<close>: signed tokens (\<^verbatim>\<open>jwt.go\<close>), the key-value store with expiry and the encrypted sessions in it
    (\<^verbatim>\<open>client.go\<close>, \<^verbatim>\<open>session_store.go\<close>).
  \<^item> \<open>Users_Auth\<close>: users, registration, login and passwords (\<^verbatim>\<open>user_repo_impl.go\<close>, \<^verbatim>\<open>auth_usecase.go\<close>).
  \<^item> \<open>Api_Keys\<close>: API keys of partners and signed requests (\<^verbatim>\<open>api_key_repo_impl.go\<close>, \<^verbatim>\<open>api_key_usecase.go\<close>).
  \<^item> \<open>Http_Guards\<close>: the guards in front of the handlers (\<^verbatim>\<open>internal/interfaces/http/middleware\<close>).
  \<^item> \<open>Config_Tables\<close>: the tables of tokens, contracts, settlement profiles and team members (\<^verbatim>\<open>token_repo_impl.go\<close>,
    \<^verbatim>\<open>smart_contract_repo_impl.go\<close>, \<^verbatim>\<open>merchant_settlement_profile_repo_impl.go\<close>, \<^verbatim>\<open>team_repo_impl.go\<close>).
  \<^item> \<open>Swap_Quotes\<close>: quotes along a route of pools and the cache of a request (\<^verbatim>\<open>payment_usecase.go\<close>, \<^verbatim>\<open>quote_request_cache.go\<close>,
    \<^verbatim>\<open>payment_quote_cache_helpers.go\<close>).
  \<^item> \<open>Quote_Simulator\<close>: the dry run over fee tiers and the external quote service (\<^verbatim>\<open>payment_quote_simulator.go\<close>).
  \<^item> \<open>Partner_Quotes\<close>: the quotes merchants ask for (\<^verbatim>\<open>partner_quote_usecase.go\<close>).
  \<^item> \<open>Input_Search\<close>, \<open>Session_Payments\<close>: payments through the settlement profile of a merchant and the search for the
    input that buys a target (\<^verbatim>\<open>create_payment_usecase.go\<close>).
  \<^item> \<open>Contract_Audit\<close>: the audit of the contracts of a chain and of the routes to other chains
    (\<^verbatim>\<open>contract_config_audit_usecase.go\<close>).

  \<^bold>\<open>State and effects.\<close> A database table is the list of its rows and a repository method a function
  from tables to a result and tables. A statement of the driver can fail: the outcome is an
  argument of type \<open>fault\<close>, so that every theorem covers every failure. A transaction is \<open>uow_run\<close>
  with the rollback it performs. The clock, fresh identifiers, HTTP outcomes and the interleaving
  of jobs with requests are arguments as well. A Go error is a value of \<open>gerror\<close>, a nil pointer
  dereference the error value \<open>nil_dereference\<close>. Go's \<^verbatim>\<open>int\<close> wraps at 64 bits where a sum or a
  product can reach the bound (\<open>Paging\<close>); identifiers and addresses are words.

  \<^bold>\<open>Parameters.\<close> Packages outside the repository are arguments: the UUID parser (\<open>uuid_lib\<close>), the
  JSON codec (\<open>json_lib\<close>), the Ethereum library (\<open>eth_lib\<close>, \<open>abi_lib\<close>), the sealing service, hashes
  and RPC clients. What a theorem needs of them is a named hypothesis (\<open>uuid_lib_ok\<close>, \<open>json_lib_ok\<close>,
  \<open>eth_lib_ok\<close>, \<open>jwe_ok\<close>, \<open>encoder_ok\<close>, \<open>quote_libs_ok\<close>) that states documented behaviour, and the witnesses
  instantiate them by concrete functions.

  \<^bold>\<open>What is shown.\<close> Invariants over all histories (one primary wallet, unique chain identifiers,
  consistent delivery log, a quote pays once); the exact effect of creating sessions, requests and
  payments, of indexer events and of webhook dispatch, with what an error leaves behind; round
  trips of encodings, call data and payment codes; bounds of pages and of 64-bit conversions; the
  decoding of contract errors; that the cache of a quote request changes no answer, that a required
  input suffices and that a quoted rate is the rounded ratio; that the guards in front of the handlers
  let through only who they should; and, in this theory, the path from a quote to a settled session
  across the components.

  \<^bold>\<open>Loops and fuel.\<close> All loops are structural or carry a termination proof; the retry loop of event
  creation runs \<open>event_maxRetries\<close> times as in the source. No definition uses fuel beyond a bound the
  source has itself.

  \<^bold>\<open>Not modelled.\<close> The HTTP handlers and the server wiring (binding of requests and responses
  around the use cases); logging and metrics; password hashing and the EVM and Solana clients, which
  are parameters; the on-chain administration use cases, whose effect is on the chain. Floating-point
  arithmetic is a parameter of the fee computation.
\<close>

subsection \<open>From quote to paid session\<close>

text \<open>
  Property C2. A paid session is settled everywhere: after a session was created and the indexer
  reports the payment of its request, the session and the request are both completed with the
  transaction hash of the event, no other session or request changes, and the payment code no
  longer resolves to a payable session.
\<close>

theorem partner_payment_settles:
  assumes svc: "sd_jwe D = Some J" "jwe_ok J" "uuid_lib_ok (sd_uuid D)"
    and key: "distinct (map sess_ID (sdb_sessions sdb))"
      "\<forall>s\<in>set (sdb_sessions sdb). sess_PaymentRequestID s \<noteq> Some (si_request ids)"
    and created: "CreateSession D F ids now now2 inp sdb = (Inr out, sdb')"
    and event: "Unmarshal_strings (ix_json X) [''id'', ''payer'', ''txHash''] data = Inr f"
      "uuid_Parse (ix_uuid X) (f ''id'') = Some (si_request ids)"
    and env: "ie_request E = None" "ie_session E = None" "ie_mark E = None" "ix_hasSessions X"
    and db: "idb_requests db = sdb_requests sdb'" "idb_sessions db = sdb_sessions sdb'"
  shows "\<exists>db' s. ProcessIndexerWebhook X E ''REQUEST_PAYMENT_RECEIVED'' data db = (None, db') \<and>
    idb_sessions db' = sdb_sessions sdb @ [s] \<and> sess_ID s = si_session ids \<and> sess_Status s = ''COMPLETED'' \<and>
    sess_PaidTxHash s = Some (f ''txHash'') \<and>
    (\<exists>m\<in>set (idb_requests db'). rrow_ID m = si_request ids \<and> rrow_Status m = ''COMPLETED'' \<and> rrow_TxHash m = f ''txHash'') \<and>
    idb_payments db' = idb_payments db \<and>
    (\<exists>e. ResolvePaymentCode D None now' (sdb'\<lparr>sdb_sessions := idb_sessions db'\<rparr>) (Some (cso_PaymentCode out)) = Inl e)"
proof -
  obtain input R where tx: "create_session_tx D J R F ids now now2 input sdb = (Inr out, sdb')"
    using CreateSession_Inr [OF created] svc(1) by auto
  obtain quote m s where f1: "sdb_requests sdb' = sdb_requests sdb @ [m]" "rrow_ID m = si_request ids"
      "sdb_sessions sdb' = sdb_sessions sdb @ [s]" "si_session ids \<notin> sess_ID ` set (sdb_sessions sdb)"
      "session_for D ids input quote s" "output_for D quote s out"
      "jwe_Encrypt J (session_code_payload D quote s (si_nonce ids)) = Inr (sess_PaymentCode s)" "live_request m"
    using create_session_tx_Inr [OF tx] by blast
  have s: "sess_ID s = si_session ids" "sess_PaymentRequestID s = Some (si_request ids)" using f1(5) by (simp_all add: session_for_def)
  let ?paid = "\<lambda>x. x\<lparr>sess_Status := ''COMPLETED'', sess_PaidTxHash := Some (f ''txHash''), sess_CompletedAt := Some (ie_now E),
     sess_UpdatedAt := ie_now E\<rparr>"
  have "map (\<lambda>x. if sess_ID x = sess_ID s then ?paid x else x) (sdb_sessions sdb) = sdb_sessions sdb"
    by (rule map_idI) (use f1(4) s(1) in force)
  then have "map (\<lambda>x. if sess_ID x = sess_ID s then ?paid x else x) (sdb_sessions sdb') = sdb_sessions sdb @ [?paid s]"
    using f1(3) by simp
  moreover have "ProcessIndexerWebhook X E ''REQUEST_PAYMENT_RECEIVED'' data db =
    (None, db\<lparr>idb_requests := map (\<lambda>m. if rrow_ID m = si_request ids \<and> live_request m
             then m\<lparr>rrow_Status := ''COMPLETED'', rrow_TxHash := f ''txHash'', rrow_CompletedAt := Some (ie_now E), rrow_UpdatedAt := ie_now E\<rparr>
             else m) (idb_requests db),
           idb_sessions := map (\<lambda>x. if sess_ID x = sess_ID s then ?paid x else x) (idb_sessions db)\<rparr>)"
    by (rule request_paid_rows [OF event env]) (use db f1(3) s(2) key(2) in auto)
  ultimately have run: "ProcessIndexerWebhook X E ''REQUEST_PAYMENT_RECEIVED'' data db =
    (None, db\<lparr>idb_requests := map (\<lambda>m. if rrow_ID m = si_request ids \<and> live_request m
             then m\<lparr>rrow_Status := ''COMPLETED'', rrow_TxHash := f ''txHash'', rrow_CompletedAt := Some (ie_now E), rrow_UpdatedAt := ie_now E\<rparr>
             else m) (idb_requests db),
           idb_sessions := sdb_sessions sdb @ [?paid s]\<rparr>)"
    using db(2) by simp
  have code: "jwe_Decrypt J (sess_PaymentCode s) = Inr (session_code_payload D quote s (si_nonce ids))"
      "TrimSpace (sess_PaymentCode s) = sess_PaymentCode s" "sess_PaymentCode s \<noteq> []" "cso_PaymentCode out = sess_PaymentCode s"
    using svc(2) f1(6,7) unfolding jwe_ok_def output_for_def by blast+
  have "distinct (map sess_ID (sdb_sessions sdb @ [?paid s]))" using key(1) f1(4) s(1) by auto
  from get_by_id_found [OF this, of "?paid s"] have get: "session_GetByID None (sdb_sessions sdb @ [?paid s]) (si_session ids) = Inr (?paid s)"
    using s(1) by (simp add: session_GetByID_def)
  have "uuid_Parse (sd_uuid D) (uuid_String (sd_uuid D) (si_session ids)) = Some (si_session ids)"
    using svc(3) by (simp add: uuid_lib_ok_def)
  then have "\<exists>e. ResolvePaymentCode D None now' (sdb'\<lparr>sdb_sessions := sdb_sessions sdb @ [?paid s]\<rparr>) (Some (cso_PaymentCode out)) = Inl e"
    using uuid_text_trim [OF svc(3)] s(1)
    by (simp add: ResolvePaymentCode_def svc(1) code get session_code_payload_def Let_def session_status_defs)
  then show ?thesis
    unfolding run using f1(1,2,8) db(1) s(1) by auto
qed


definition sample_paid_json :: json_lib where
  "sample_paid_json =
     \<lparr>json_Parse = (\<lambda>s. Some (JObject [(''id'', JString (uuid_format 51)), (''txHash'', JString ''0xfeed'')])), json_Print = (\<lambda>v. ''text'')\<rparr>"

theorem partner_payment_settles_witness:
  "\<exists>out sdb' db' s. CreateSession sample_session_deps no_faults sample_ids 1 2 (Some sample_session_input) sample_session_db = (Inr out, sdb') \<and>
     ProcessIndexerWebhook (sample_ix\<lparr>ix_json := sample_paid_json\<rparr>) (sample_ie 1 2) ''REQUEST_PAYMENT_RECEIVED'' ''paid''
       (sample_idb\<lparr>idb_requests := sdb_requests sdb', idb_sessions := sdb_sessions sdb'\<rparr>) = (None, db') \<and>
     idb_sessions db' = [s] \<and> sess_Status s = ''COMPLETED'' \<and> sess_PaidTxHash s = Some ''0xfeed''"
proof -
  obtain out sdb' where c: "CreateSession sample_session_deps no_faults sample_ids 1 2 (Some sample_session_input) sample_session_db = (Inr out, sdb')"
    using sample_CreateSession by blast
  let ?X = "sample_ix\<lparr>ix_json := sample_paid_json\<rparr>"
  let ?db = "sample_idb\<lparr>idb_requests := sdb_requests sdb', idb_sessions := sdb_sessions sdb'\<rparr>"
  have "uuid_Parse rfc_uuid (uuid_format 51) = Some 51" using rfc_uuid_ok by (auto simp: uuid_lib_ok_def rfc_uuid_def)
  then obtain f where f: "Unmarshal_strings (ix_json ?X) [''id'', ''payer'', ''txHash''] ''paid'' = Inr f"
      "uuid_Parse (ix_uuid ?X) (f ''id'') = Some (si_request sample_ids)" "f ''txHash'' = ''0xfeed''"
    by (simp add: Unmarshal_strings_def sample_paid_json_def json_field_def sample_fields sample_ix_def)
  have k: "distinct (map sess_ID (sdb_sessions sample_session_db))"
      "\<forall>s\<in>set (sdb_sessions sample_session_db). sess_PaymentRequestID s \<noteq> Some (si_request sample_ids)"
    by (simp_all add: sample_fields)
  have env: "ie_request (sample_ie 1 2) = None" "ie_session (sample_ie 1 2) = None" "ie_mark (sample_ie 1 2) = None" "ix_hasSessions ?X"
      "idb_requests ?db = sdb_requests sdb'" "idb_sessions ?db = sdb_sessions sdb'"
    by (simp_all add: sample_ie_def sample_ix_def)
  have u: "uuid_lib_ok (sd_uuid sample_session_deps)" using rfc_uuid_ok by (simp add: sample_session_deps_def)
  from partner_payment_settles [OF sample_deps_configured(2) sample_jwe_ok u k c f(1,2) env, where now' = 5] c f(3) show ?thesis
    by (auto simp: sample_fields)
qed

end
